(* ===== verification/Prelude.thy ===== *)
theory Prelude
  imports Main "HOL-Library.Sublist"
begin

text \<open>
  Shared vocabulary of the development: Python strings, exceptions as values, and the
  generic list lemmas that the component theories lean on.

  A Python \<open>str\<close> is a list of \<open>char\<close>, read as the code points U+0000 to U+00FF. On that
  range the string methods below (\<open>strip\<close>, \<open>lower\<close>, \<open>isdigit\<close>, \<open>split\<close>, \<open>int\<close>) follow
  Python exactly, including the non-ASCII members of each character class; strings with
  code points above U+00FF are outside the model.
\<close>

section \<open>Fact collections\<close>

named_theorems py_str \<open>definitions of the Python string operations\<close>
named_theorems opdefs \<open>definitions of the service operations\<close>
named_theorems frames \<open>fields and tables an operation leaves alone\<close>

section \<open>Exceptions as values\<close>

text \<open>One constructor per exception class the services raise; the arguments are its fields.\<close>

datatype exn =
    ValueError string
  | IntegrityError
  | ProviderAPIError string string "int option"
  | DockerEngineError string "int option"
  | BuildError string "int option"
  | QuotaExceeded string int int
  | TeamError string int
  | JobError string int
  | BillingError string int
  | ResellerError string int
  | OIDCError string string int
  | SSOError string int
  | HTTPException int string
  | KeyError string
  | OtherError string

type_synonym 'a result = "exn + 'a"

text \<open>\<open>str(exc)\<close>: the message of the exception.\<close>

fun exn_text :: "exn \<Rightarrow> string" where
  "exn_text (ValueError m) = m"
| "exn_text IntegrityError = ''IntegrityError''"
| "exn_text (ProviderAPIError s m c) = m"
| "exn_text (DockerEngineError m c) = m"
| "exn_text (BuildError m c) = m"
| "exn_text (QuotaExceeded r l u) = r"
| "exn_text (TeamError m c) = m"
| "exn_text (JobError m c) = m"
| "exn_text (BillingError m c) = m"
| "exn_text (ResellerError m c) = m"
| "exn_text (OIDCError a m c) = m"
| "exn_text (SSOError m c) = m"
| "exn_text (HTTPException c m) = m"
| "exn_text (KeyError m) = m"
| "exn_text (OtherError m) = m"

text \<open>For witnesses: what evaluating a projection of a result says about the result.\<close>

lemma Inr_of_fst: "map_sum id fst (r :: ('a \<times> 'b) result) = Inr x \<Longrightarrow> \<exists>y. r = Inr (x, y)"
  by (cases r) auto

lemma Inr_of_not_isl: "\<not> isl (r :: 'a result) \<Longrightarrow> \<exists>y. r = Inr y"
  by (cases r) auto

lemma Inr_pair_of_not_isl: "\<not> isl (r :: ('a \<times> 'b) result) \<Longrightarrow> \<exists>x y. r = Inr (x, y)"
  by (cases r) auto

lemma map_sum_Inr: "map_sum id f x = Inr y \<longleftrightarrow> (\<exists>z. x = Inr z \<and> y = f z)"
  by (cases x) auto

lemma map_sum_Inl: "map_sum id f x = Inl e \<longleftrightarrow> x = Inl e"
  by (cases x) auto

text \<open>\<open>x or ""\<close> on an optional string, as the services write \<open>tenant_id or ""\<close>.\<close>

definition or_empty :: "string option \<Rightarrow> string" where
  "or_empty x = (case x of None \<Rightarrow> [] | Some s \<Rightarrow> s)"

lemma or_empty_simps [simp]: "or_empty None = []" "or_empty (Some s) = s"
  by (simp_all add: or_empty_def)

text \<open>\<open>a or b\<close> on strings: the first when it is not empty.\<close>

definition str_or :: "string \<Rightarrow> string \<Rightarrow> string" where
  "str_or a b = (if a = [] then b else a)"

lemma str_or_simps [simp]:
  "str_or [] b = b" "a \<noteq> [] \<Longrightarrow> str_or a b = a" "str_or a b = [] \<longleftrightarrow> a = [] \<and> b = []"
  by (auto simp: str_or_def)

section \<open>Characters\<close>

definition ord_of :: "char \<Rightarrow> nat" where
  "ord_of c = of_char c"

definition py_space :: "char \<Rightarrow> bool" where
  "py_space c = (let n = ord_of c in
     9 \<le> n \<and> n \<le> 13 \<or> 28 \<le> n \<and> n \<le> 32 \<or> n = 133 \<or> n = 160)"

definition ascii_digit :: "char \<Rightarrow> bool" where
  "ascii_digit c = (let n = ord_of c in 48 \<le> n \<and> n \<le> 57)"

text \<open>
  \<open>str.isdigit\<close> also accepts the superscripts two, three and one (U+00B2, U+00B3, U+00B9);
  \<open>int\<close> does not.
\<close>

definition py_digit :: "char \<Rightarrow> bool" where
  "py_digit c = (ascii_digit c \<or> (let n = ord_of c in n = 178 \<or> n = 179 \<or> n = 185))"

definition lower_char :: "char \<Rightarrow> char" where
  "lower_char c = (let n = ord_of c in
     if 65 \<le> n \<and> n \<le> 90 \<or> 192 \<le> n \<and> n \<le> 222 \<and> n \<noteq> 215 then char_of (n + 32) else c)"

text \<open>
  \<open>str.upper\<close> character by character. U+00DF becomes two characters; the capitals of U+00B5
  and U+00FF lie outside the range and are left as they are (no comparison the code makes
  with an upper-cased string involves them).
\<close>

definition upper_char :: "char \<Rightarrow> string" where
  "upper_char c = (let n = ord_of c in
     if n = 223 then ''SS''
     else if 97 \<le> n \<and> n \<le> 122 \<or> 224 \<le> n \<and> n \<le> 254 \<and> n \<noteq> 247 then [char_of (n - 32)]
     else [c])"

section \<open>String methods\<close>

definition py_lower :: "string \<Rightarrow> string" where
  "py_lower s = map lower_char s"

definition py_upper :: "string \<Rightarrow> string" where
  "py_upper s = concat (map upper_char s)"

definition lstrip_if :: "(char \<Rightarrow> bool) \<Rightarrow> string \<Rightarrow> string" where
  "lstrip_if p s = dropWhile p s"

definition rstrip_if :: "(char \<Rightarrow> bool) \<Rightarrow> string \<Rightarrow> string" where
  "rstrip_if p s = rev (dropWhile p (rev s))"

definition strip_if :: "(char \<Rightarrow> bool) \<Rightarrow> string \<Rightarrow> string" where
  "strip_if p s = rstrip_if p (lstrip_if p s)"

definition py_strip :: "string \<Rightarrow> string" where
  "py_strip s = strip_if py_space s"

definition py_isdigit :: "string \<Rightarrow> bool" where
  "py_isdigit s = (s \<noteq> [] \<and> list_all py_digit s)"

text \<open>\<open>s.split(c)\<close> on one separator character; the empty string gives one empty part.\<close>

fun split_on :: "char \<Rightarrow> string \<Rightarrow> string list" where
  "split_on c [] = [[]]"
| "split_on c (x # xs) =
     (if x = c then [] # split_on c xs
      else (case split_on c xs of [] \<Rightarrow> [[x]] | y # ys \<Rightarrow> (x # y) # ys))"

fun join :: "string \<Rightarrow> string list \<Rightarrow> string" where
  "join sep [] = []"
| "join sep [x] = x"
| "join sep (x # y # ys) = x @ sep @ join sep (y # ys)"

text \<open>\<open>s.split()\<close> on runs of white space: no empty parts.\<close>

fun split_ws_acc :: "string \<Rightarrow> string \<Rightarrow> string list" where
  "split_ws_acc acc [] = (if acc = [] then [] else [rev acc])"
| "split_ws_acc acc (x # xs) =
     (if py_space x then (if acc = [] then split_ws_acc [] xs else rev acc # split_ws_acc [] xs)
      else split_ws_acc (x # acc) xs)"

definition split_ws :: "string \<Rightarrow> string list" where
  "split_ws s = split_ws_acc [] s"

text \<open>\<open>s.partition(c)\<close> without the middle part: before and after the first \<open>c\<close>.\<close>

definition part_before :: "char \<Rightarrow> string \<Rightarrow> string" where
  "part_before c s = takeWhile (\<lambda>x. x \<noteq> c) s"

definition part_after :: "char \<Rightarrow> string \<Rightarrow> string" where
  "part_after c s = drop 1 (dropWhile (\<lambda>x. x \<noteq> c) s)"

definition starts_with :: "string \<Rightarrow> string \<Rightarrow> bool" where
  "starts_with p s = (take (length p) s = p)"

definition ends_with :: "string \<Rightarrow> string \<Rightarrow> bool" where
  "ends_with p s = (take (length p) (rev s) = rev p)"

fun contains :: "string \<Rightarrow> string \<Rightarrow> bool" where
  "contains p [] = (p = [])"
| "contains p (x # xs) = (starts_with p (x # xs) \<or> contains p xs)"

definition replace_char :: "char \<Rightarrow> string \<Rightarrow> string \<Rightarrow> string" where
  "replace_char c r s = concat (map (\<lambda>x. if x = c then r else [x]) s)"

text \<open>\<open>s.replace(p, r)\<close>: left to right, not overlapping; \<open>p\<close> is never empty in the code.\<close>

function replace_all :: "string \<Rightarrow> string \<Rightarrow> string \<Rightarrow> string" where
  "replace_all p r [] = []"
| "replace_all p r (x # xs) =
     (if p \<noteq> [] \<and> starts_with p (x # xs)
      then r @ replace_all p r (drop (length p) (x # xs))
      else x # replace_all p r xs)"
  by pat_completeness auto
termination
proof (relation "measure (\<lambda>(p, r, s). length s)")
  show "wf (measure (\<lambda>(p :: string, r :: string, s :: string). length s))" by simp
qed (auto simp: Suc_le_eq neq_Nil_conv)

text \<open>\<open>int(s)\<close>: white space around, one sign, ASCII digits with single underscores between
  them, at most 4300 digits; everything else raises ValueError (here \<open>None\<close>).\<close>

definition digit_val :: "char \<Rightarrow> int" where
  "digit_val c = int (ord_of c) - 48"

fun int_digits :: "int \<Rightarrow> string \<Rightarrow> int option" where
  "int_digits n [] = Some n"
| "int_digits n (c # cs) =
     (if ascii_digit c then int_digits (10 * n + digit_val c) cs
      else if c = CHR ''_'' then
        (case cs of [] \<Rightarrow> None
         | d # ds \<Rightarrow> if ascii_digit d then int_digits (10 * n + digit_val d) ds else None)
      else None)"

definition unsigned_int :: "string \<Rightarrow> int option" where
  "unsigned_int s =
     (case s of [] \<Rightarrow> None
      | c # _ \<Rightarrow> if ascii_digit c \<and> length (filter ascii_digit s) \<le> 4300
                  then int_digits 0 s else None)"

definition py_int :: "string \<Rightarrow> int option" where
  "py_int s =
     (case py_strip s of [] \<Rightarrow> None
      | c # cs \<Rightarrow> if c = CHR ''-'' then map_option uminus (unsigned_int cs)
                   else if c = CHR ''+'' then unsigned_int cs
                   else unsigned_int (c # cs))"

declare py_strip_def [py_str] py_lower_def [py_str] py_upper_def [py_str] strip_if_def [py_str]
  lstrip_if_def [py_str] rstrip_if_def [py_str] part_before_def [py_str] part_after_def [py_str]
  starts_with_def [py_str] ends_with_def [py_str] split_ws_def [py_str] py_isdigit_def [py_str]
  py_int_def [py_str] unsigned_int_def [py_str] digit_val_def [py_str] ord_of_def [py_str]
  py_space_def [py_str] ascii_digit_def [py_str] py_digit_def [py_str] lower_char_def [py_str]
  upper_char_def [py_str] replace_char_def [py_str] Let_def [py_str]

text \<open>\<open>str(n)\<close> for an int.\<close>

fun nat_str :: "nat \<Rightarrow> string" where
  "nat_str n = (if n < 10 then [char_of (48 + n)] else nat_str (n div 10) @ [char_of (48 + n mod 10)])"

declare nat_str.simps [simp del]

definition int_str :: "int \<Rightarrow> string" where
  "int_str i = (if i < 0 then CHR ''-'' # nat_str (nat (- i)) else nat_str (nat i))"

text \<open>\<open>hmac.compare_digest\<close> on two strings: TypeError unless both are ASCII.\<close>

definition ascii_str :: "string \<Rightarrow> bool" where
  "ascii_str s = list_all (\<lambda>c. ord_of c < 128) s"

definition compare_digest :: "string \<Rightarrow> string \<Rightarrow> bool result" where
  "compare_digest a b =
     (if ascii_str a \<and> ascii_str b then Inr (a = b)
      else Inl (OtherError ''TypeError: comparing strings with non-ASCII characters is not supported''))"

section \<open>Facts about the string methods\<close>

lemma split_on_ne [simp]: "split_on c s \<noteq> []"
  by (induction s) (auto split: list.splits)

lemma join_split_on: "join [c] (split_on c s) = s"
proof (induction s)
  case (Cons x xs)
  obtain y ys where y: "split_on c xs = y # ys" by (meson neq_Nil_conv split_on_ne)
  show ?case
  proof (cases ys)
    case Nil
    with Cons y show ?thesis by simp
  next
    case (Cons z zs)
    with Cons.IH y show ?thesis by simp
  qed
qed simp

lemma last_join: "ps \<noteq> [] \<Longrightarrow> last ps \<noteq> [] \<Longrightarrow> join sep ps \<noteq> [] \<and> last (join sep ps) = last (last ps)"
  by (induction sep ps rule: join.induct) (auto split: if_splits)

lemma split_on_no_sep: "p \<in> set (split_on c s) \<Longrightarrow> c \<notin> set p"
proof (induction s arbitrary: p)
  case (Cons x xs)
  obtain y ys where y: "split_on c xs = y # ys" by (meson neq_Nil_conv split_on_ne)
  have IH: "c \<notin> set q" if "q \<in> set (y # ys)" for q using Cons.IH that y by simp
  from Cons.prems y have "p = [] \<or> p \<in> set (y # ys) \<or> x \<noteq> c \<and> p = x # y"
    by (auto split: if_splits)
  then show ?case using IH [of p] IH [of y] by auto
qed simp

lemma split_on_id: "c \<notin> set s \<Longrightarrow> split_on c s = [s]"
  by (induction s) auto

lemma split_on_append: "c \<notin> set s \<Longrightarrow> split_on c (s @ c # t) = s # split_on c t"
  by (induction s) auto

lemma split_on_join:
  "ps \<noteq> [] \<Longrightarrow> \<forall>p\<in>set ps. c \<notin> set p \<Longrightarrow> split_on c (join [c] ps) = ps"
proof (induction ps)
  case (Cons p ps)
  then show ?case by (cases ps) (simp_all add: split_on_id split_on_append)
qed simp

lemma split_ws_acc_no_space:
  "\<forall>x\<in>set acc. \<not> py_space x \<Longrightarrow> p \<in> set (split_ws_acc acc s) \<Longrightarrow>
   p \<noteq> [] \<and> (\<forall>x\<in>set p. \<not> py_space x)"
proof (induction s arbitrary: acc)
  case Nil
  then show ?case by (simp split: if_splits)
next
  case (Cons x xs)
  show ?case
  proof (cases "py_space x")
    case True
    with Cons.prems have "p \<in> set (split_ws_acc [] xs) \<or> acc \<noteq> [] \<and> p = rev acc"
      by (auto split: if_splits)
    then show ?thesis
    proof (elim disjE conjE)
      assume "p \<in> set (split_ws_acc [] xs)"
      then show ?thesis by (intro Cons.IH [of "[]"]) simp_all
    next
      assume "acc \<noteq> []" "p = rev acc"
      with Cons.prems(1) show ?thesis by simp
    qed
  next
    case False
    show ?thesis
    proof (rule Cons.IH [of "x # acc"])
      show "\<forall>y\<in>set (x # acc). \<not> py_space y" using False Cons.prems(1) by auto
      show "p \<in> set (split_ws_acc (x # acc) xs)" using False Cons.prems(2) by simp
    qed
  qed
qed

lemma split_ws_no_space: "p \<in> set (split_ws s) \<Longrightarrow> p \<noteq> [] \<and> (\<forall>x\<in>set p. \<not> py_space x)"
  using split_ws_acc_no_space [of "[]"] by (simp add: split_ws_def)

lemma starts_with_append [simp]: "starts_with p (p @ s)"
  by (simp add: starts_with_def)

lemma starts_with_iff: "starts_with p s \<longleftrightarrow> (\<exists>t. s = p @ t)"
  by (metis append_eq_conv_conj append_take_drop_id starts_with_def)

lemma ends_with_iff: "ends_with p s \<longleftrightarrow> (\<exists>t. s = t @ p)"
proof
  assume "ends_with p s"
  then have "rev s = rev p @ drop (length p) (rev s)"
    by (metis append_take_drop_id ends_with_def)
  then have "s = rev (drop (length p) (rev s)) @ p" by (metis rev_append rev_rev_ident)
  then show "\<exists>t. s = t @ p" ..
qed (auto simp: ends_with_def)

lemma contains_iff: "contains p s \<longleftrightarrow> (\<exists>a b. s = a @ p @ b)"
proof (induction s)
  case (Cons x xs)
  show ?case
  proof
    assume "contains p (x # xs)"
    then consider "starts_with p (x # xs)" | "contains p xs" by auto
    then show "\<exists>a b. x # xs = a @ p @ b"
    proof cases
      case 1
      then show ?thesis by (metis append_Nil starts_with_iff)
    next
      case 2
      with Cons.IH show ?thesis by (metis append_Cons)
    qed
  next
    assume "\<exists>a b. x # xs = a @ p @ b"
    then obtain a b where ab: "x # xs = a @ p @ b" by blast
    show "contains p (x # xs)"
    proof (cases a)
      case Nil
      with ab have "x # xs = p @ b" by simp
      then show ?thesis by (metis contains.simps(2) starts_with_append)
    next
      case (Cons y ys)
      with ab have "xs = ys @ p @ b" by simp
      with Cons.IH show ?thesis by auto
    qed
  qed
qed auto

lemma lstrip_if_head: "lstrip_if p s = x # xs \<Longrightarrow> \<not> p x"
  by (simp add: lstrip_if_def dropWhile_eq_Cons_conv)

lemma set_strip_if: "set (strip_if p s) \<subseteq> set s"
  by (auto simp: strip_if_def rstrip_if_def lstrip_if_def dest!: set_dropWhileD)

lemma rstrip_if_id: "s = [] \<or> \<not> p (last s) \<Longrightarrow> rstrip_if p s = s"
  by (cases s rule: rev_cases) (auto simp: rstrip_if_def)

lemma strip_if_id:
  "s = [] \<or> \<not> p (hd s) \<and> \<not> p (last s) \<Longrightarrow> strip_if p s = s"
  by (cases s) (auto simp: strip_if_def lstrip_if_def rstrip_if_id)

lemma strip_if_ends:
  assumes "strip_if p s \<noteq> []"
  shows "\<not> p (hd (strip_if p s)) \<and> \<not> p (last (strip_if p s))"
proof -
  let ?t = "dropWhile p s"
  have r: "strip_if p s = rev (dropWhile p (rev ?t))"
    by (simp add: strip_if_def lstrip_if_def rstrip_if_def)
  with assms have ne: "dropWhile p (rev ?t) \<noteq> []" by simp
  have last: "\<not> p (hd (dropWhile p (rev ?t)))" using ne by (rule hd_dropWhile)
  have "?t \<noteq> []" using ne by (metis dropWhile.simps(1) rev.simps(1))
  then have hd: "\<not> p (hd ?t)" by (rule hd_dropWhile)
  obtain u where u: "rev ?t = u @ dropWhile p (rev ?t)"
    by (metis takeWhile_dropWhile_id)
  have "?t = rev (dropWhile p (rev ?t)) @ rev u"
    using u by (metis rev_append rev_rev_ident)
  then have "hd ?t = hd (rev (dropWhile p (rev ?t)))" using ne by (metis hd_append2 rev_is_Nil_conv)
  with r hd last ne show ?thesis by (simp add: last_rev)
qed

lemma strip_if_idem [simp]: "strip_if p (strip_if p s) = strip_if p s"
  using strip_if_ends [of p s] by (intro strip_if_id) auto

lemma py_strip_idem [simp]: "py_strip (py_strip s) = py_strip s"
  by (simp add: py_strip_def)

lemma ord_of_lt: "ord_of c < 256"
  by (simp add: ord_of_def)

lemma ord_char_of [simp]: "n < 256 \<Longrightarrow> ord_of (char_of n) = n"
  by (simp add: ord_of_def)

lemma lower_char_idem [simp]: "lower_char (lower_char c) = lower_char c"
proof (cases "65 \<le> ord_of c \<and> ord_of c \<le> 90 \<or> 192 \<le> ord_of c \<and> ord_of c \<le> 222 \<and> ord_of c \<noteq> 215")
  case True
  then have "lower_char c = char_of (ord_of c + 32)" by (simp add: lower_char_def Let_def)
  moreover have "ord_of (char_of (ord_of c + 32)) = ord_of c + 32" using True by auto
  ultimately show ?thesis using True by (auto simp: lower_char_def Let_def)
next
  case False
  then have "lower_char c = c" by (auto simp: lower_char_def Let_def)
  then show ?thesis by simp
qed

lemma py_lower_idem [simp]: "py_lower (py_lower s) = py_lower s"
  by (simp add: py_lower_def)

lemma py_space_lower [simp]: "py_space (lower_char c) = py_space c"
proof (cases "65 \<le> ord_of c \<and> ord_of c \<le> 90 \<or> 192 \<le> ord_of c \<and> ord_of c \<le> 222 \<and> ord_of c \<noteq> 215")
  case True
  then have "lower_char c = char_of (ord_of c + 32)" by (simp add: lower_char_def Let_def)
  moreover have "ord_of (char_of (ord_of c + 32)) = ord_of c + 32" using True by auto
  ultimately show ?thesis using True by (auto simp: py_space_def Let_def)
next
  case False
  then have "lower_char c = c" by (auto simp: lower_char_def Let_def)
  then show ?thesis by simp
qed

lemma dropWhile_map_py_space: "dropWhile py_space (map lower_char s) = map lower_char (dropWhile py_space s)"
  by (induction s) auto

lemma py_strip_lower: "py_strip (py_lower s) = py_lower (py_strip s)"
  by (simp add: py_strip_def py_lower_def strip_if_def lstrip_if_def rstrip_if_def
      dropWhile_map_py_space rev_map)

lemma int_digits_mono: "int_digits n s = Some m \<Longrightarrow> 0 \<le> n \<Longrightarrow> n \<le> m"
proof (induction n s rule: int_digits.induct)
  case (2 n c cs)
  have d: "0 \<le> digit_val x" if "ascii_digit x" for x
    using that by (simp add: digit_val_def ascii_digit_def Let_def)
  show ?case
  proof (cases "ascii_digit c")
    case True
    with 2 d [of c] show ?thesis by fastforce
  next
    case False
    with 2 show ?thesis
      by (cases cs) (fastforce split: if_splits dest: d)+
  qed
qed simp

lemma ascii_digit_char [simp]: "(n :: nat) < 10 \<Longrightarrow> ascii_digit (char_of (48 + n))"
  by (simp add: ascii_digit_def Let_def)

lemma digit_val_char [simp]: "(n :: nat) < 10 \<Longrightarrow> digit_val (char_of (48 + n)) = int n"
  by (simp add: digit_val_def)

lemma nat_str_ne [simp]: "nat_str n \<noteq> []"
  by (subst nat_str.simps) simp

lemma nat_str_digits: "c \<in> set (nat_str n) \<Longrightarrow> ascii_digit c"
proof (induction n rule: nat_str.induct)
  case (1 n)
  show ?case
  proof (cases "n < 10")
    case True
    with 1 show ?thesis by (simp add: nat_str.simps [of n])
  next
    case False
    have "c \<in> set (nat_str (n div 10)) \<or> c = char_of (48 + n mod 10)"
      using "1.prems" False by (subst (asm) nat_str.simps) auto
    then show ?thesis using "1.IH" [OF False] by auto
  qed
qed

lemma length_nat_str: "length (nat_str n) \<le> n + 1"
proof (induction n rule: nat_str.induct)
  case (1 n)
  show ?case
  proof (cases "n < 10")
    case True
    then show ?thesis by (subst nat_str.simps) simp
  next
    case False
    with 1 have "length (nat_str (n div 10)) \<le> n div 10 + 1" by simp
    moreover have "length (nat_str n) = length (nat_str (n div 10)) + 1"
      using False by (subst nat_str.simps) simp
    ultimately show ?thesis using False by linarith
  qed
qed

lemma int_digits_append:
  "(\<And>c. c \<in> set s \<Longrightarrow> ascii_digit c) \<Longrightarrow> int_digits n s = Some m \<Longrightarrow>
   int_digits n (s @ t) = int_digits m t"
proof (induction s arbitrary: n)
  case (Cons c cs)
  from Cons.prems(1) have "ascii_digit c" by simp
  with Cons.prems(2) have "int_digits (10 * n + digit_val c) cs = Some m" by simp
  with Cons.IH Cons.prems(1) \<open>ascii_digit c\<close> show ?case by simp
qed simp

lemma int_digits_nat_str: "int_digits 0 (nat_str n) = Some (int n)"
proof (induction n rule: nat_str.induct)
  case (1 n)
  show ?case
  proof (cases "n < 10")
    case True
    then show ?thesis by (subst nat_str.simps) simp
  next
    case False
    have "int_digits 0 (nat_str n) = int_digits 0 (nat_str (n div 10) @ [char_of (48 + n mod 10)])"
      using False by (subst nat_str.simps) simp
    also have "\<dots> = int_digits (int (n div 10)) [char_of (48 + n mod 10)]"
      using "1.IH" [OF False] by (intro int_digits_append) (auto intro: nat_str_digits)
    also have "\<dots> = Some (int n)" by (simp add: zdiv_int zmod_int)
    finally show ?thesis .
  qed
qed

lemma ascii_digit_facts:
  assumes "ascii_digit c"
  shows "\<not> py_space c" and "c \<noteq> CHR ''-''" and "c \<noteq> CHR ''+''" and "c \<noteq> CHR '',''"
    and "c \<noteq> CHR ''*''" and "c \<noteq> CHR ''/''" and "py_digit c"
  using assms
  by (auto simp: ascii_digit_def py_space_def py_digit_def ord_of_def Let_def)

lemma py_strip_digits: "(\<And>c. c \<in> set s \<Longrightarrow> ascii_digit c) \<Longrightarrow> py_strip s = s"
  unfolding py_strip_def
  by (rule strip_if_id) (metis ascii_digit_facts(1) hd_in_set last_in_set)

lemma filter_ascii_nat_str: "filter ascii_digit (nat_str n) = nat_str n"
  by (rule filter_True) (auto intro: nat_str_digits)

lemma py_int_nat_str:
  assumes "n < 4300"
  shows "py_int (nat_str n) = Some (int n)"
proof -
  obtain c cs where c: "nat_str n = c # cs" by (meson neq_Nil_conv nat_str_ne)
  have d: "ascii_digit c" by (rule nat_str_digits [of _ n]) (simp add: c)
  have strip: "py_strip (nat_str n) = nat_str n"
    by (rule py_strip_digits) (rule nat_str_digits)
  have "length (filter ascii_digit (nat_str n)) \<le> 4300"
    using length_nat_str [of n] assms by (simp add: filter_ascii_nat_str)
  with d c int_digits_nat_str [of n] strip ascii_digit_facts [OF d] show ?thesis
    by (simp add: py_int_def unsigned_int_def)
qed

lemma py_isdigit_nat_str: "py_isdigit (nat_str n)"
  by (auto simp: py_isdigit_def list_all_iff dest: nat_str_digits intro: ascii_digit_facts)

section \<open>Lists as tables\<close>

text \<open>
  A table is the list of its rows in insertion order. \<open>find\<close> is a primary-key or unique
  lookup, \<open>filter\<close> a \<open>select\<close>, and \<open>upd_where\<close> an assignment to the attributes of the
  loaded rows.
\<close>

definition upd_where :: "('a \<Rightarrow> bool) \<Rightarrow> ('a \<Rightarrow> 'a) \<Rightarrow> 'a list \<Rightarrow> 'a list" where
  "upd_where p f xs = map (\<lambda>x. if p x then f x else x) xs"

lemma upd_where_simps [simp]:
  "upd_where p f [] = []"
  "upd_where p f (x # xs) = (if p x then f x else x) # upd_where p f xs"
  "upd_where p f (xs @ ys) = upd_where p f xs @ upd_where p f ys"
  "length (upd_where p f xs) = length xs"
  by (simp_all add: upd_where_def)

lemma set_upd_where: "set (upd_where p f xs) = (\<lambda>x. if p x then f x else x) ` set xs"
  by (simp add: upd_where_def)

lemma upd_where_none: "\<forall>x\<in>set xs. \<not> p x \<Longrightarrow> upd_where p f xs = xs"
  by (induction xs) auto

lemma map_upd_where: "(\<And>x. p x \<Longrightarrow> g (f x) = g x) \<Longrightarrow> map g (upd_where p f xs) = map g xs"
  by (simp add: upd_where_def)

lemma map_upd_where_in:
  "(\<And>x. x \<in> set xs \<Longrightarrow> p x \<Longrightarrow> g (f x) = g x) \<Longrightarrow> map g (upd_where p f xs) = map g xs"
  by (induction xs) auto

lemma filter_upd_where:
  "(\<And>x. p x \<Longrightarrow> q (f x) = q x) \<Longrightarrow> filter q (upd_where p f xs) = upd_where p f (filter q xs)"
  by (induction xs) auto

lemma filter_upd_where_out:
  "(\<And>x. x \<in> set xs \<Longrightarrow> p x \<Longrightarrow> \<not> q x \<and> \<not> q (f x)) \<Longrightarrow> filter q (upd_where p f xs) = filter q xs"
  by (induction xs) auto

lemma find_SomeD: "find p xs = Some x \<Longrightarrow> p x \<and> x \<in> set xs"
  by (auto simp: find_Some_iff)

lemma find_None: "find p xs = None \<longleftrightarrow> (\<forall>x\<in>set xs. \<not> p x)"
  by (auto simp: find_None_iff)

lemma find_append: "find p (xs @ ys) = (case find p xs of None \<Rightarrow> find p ys | Some x \<Rightarrow> Some x)"
  by (induction xs) auto

lemma find_cong_pred: "(\<And>x. x \<in> set xs \<Longrightarrow> p x = q x) \<Longrightarrow> find p xs = find q xs"
  by (induction xs) auto

lemma find_upd_where:
  "(\<And>x. p x \<Longrightarrow> q (f x) = q x) \<Longrightarrow>
   find q (upd_where p f xs) = map_option (\<lambda>x. if p x then f x else x) (find q xs)"
  by (induction xs) auto

lemma find_filter_None: "(\<And>x. q x \<Longrightarrow> \<not> p x) \<Longrightarrow> find q (filter p xs) = None"
  by (auto simp: find_None)

lemma find_filter_same: "(\<And>x. q x \<Longrightarrow> p x) \<Longrightarrow> find q (filter p xs) = find q xs"
  by (induction xs) auto

lemma distinct_find_unique:
  "distinct (map k xs) \<Longrightarrow> x \<in> set xs \<Longrightarrow> find (\<lambda>y. k y = k x) xs = Some x"
  by (induction xs) auto

lemma length_filter_upd_where_le:
  "(\<And>x. q (f x) \<Longrightarrow> q x) \<Longrightarrow> length (filter q (upd_where p f xs)) \<le> length (filter q xs)"
  by (induction xs) auto

lemma filter_const_False [simp]: "filter (\<lambda>x. False) xs = []"
  by simp

lemma sum_list_upd_one:
  fixes g :: "'a \<Rightarrow> int"
  assumes "distinct (map k xs)" and "x \<in> set xs"
  shows "sum_list (map g (upd_where (\<lambda>y. k y = k x) f xs)) = sum_list (map g xs) - g x + g (f x)"
  using assms
proof (induction xs)
  case (Cons a xs)
  show ?case
  proof (cases "a = x")
    case True
    have "\<forall>y\<in>set xs. k y \<noteq> k x" using Cons.prems True by (auto simp: image_iff)
    then have "upd_where (\<lambda>y. k y = k x) f xs = xs" by (rule upd_where_none)
    then show ?thesis using True by simp
  next
    case False
    with Cons.prems have "x \<in> set xs" by simp
    then have "k a \<noteq> k x" using Cons.prems by force
    with Cons \<open>x \<in> set xs\<close> show ?thesis by simp
  qed
qed simp

section \<open>Dictionaries that keep their order\<close>

fun dict_set :: "string \<Rightarrow> 'v \<Rightarrow> (string \<times> 'v) list \<Rightarrow> (string \<times> 'v) list" where
  "dict_set k v [] = [(k, v)]"
| "dict_set k v ((k', v') # r) = (if k' = k then (k, v) # r else (k', v') # dict_set k v r)"

lemma map_of_dict_set [simp]: "map_of (dict_set k v m) = (map_of m)(k \<mapsto> v)"
  by (induction m) auto

lemma keys_dict_set: "map fst (dict_set k v m) = (if k \<in> set (map fst m) then map fst m else map fst m @ [k])"
  by (induction m) (auto, force+)

lemma dict_set_same: "map_of m k = Some v \<Longrightarrow> dict_set k v m = m"
  by (induction m) auto

definition has_key :: "string \<Rightarrow> (string \<times> 'v) list \<Rightarrow> bool" where
  "has_key k m = (map_of m k \<noteq> None)"

end
