(* ===== verification/Models.thy ===== *)
theory Models
  imports Prelude Complex_Main
begin

text \<open>
  The persistent model (\<^verbatim>\<open>src/app/models\<close>): one record per table row, one field of
  \<open>db\<close> per table. A table is the list of its rows in insertion order. The columns are the
  source's, with a prefix per table; \<open>created_at\<close> is kept where the code orders by it,
  \<open>updated_at\<close> is written by the ORM and read nowhere, and surrogate ids that no code reads
  (resources, transactions, charges) are left out. Status columns whose values the code
  takes from a closed set of constants are datatypes named after the constants.
\<close>

section \<open>Closed status columns\<close>

datatype tenant_status = TENANT_PENDING | TENANT_ACTIVE | TENANT_SUSPENDED | TENANT_REJECTED

datatype deploy_status = STATUS_QUEUED | STATUS_BUILDING | STATUS_READY | STATUS_ERROR

datatype invite_status = INVITE_PENDING | INVITE_ACCEPTED | INVITE_REVOKED

datatype uptime_status = UPTIME_UNKNOWN | UPTIME_UP | UPTIME_DOWN

datatype domain_status = DOMAIN_PENDING | DOMAIN_VERIFIED

datatype job_status = JOB_STATUS_OK | JOB_STATUS_ERROR

datatype txn_kind = TXN_TOPUP | TXN_DEBIT | TXN_ADJUSTMENT

section \<open>Role, provider and resource-type constants\<close>

definition ROLE_PLATFORM_ADMIN :: string where "ROLE_PLATFORM_ADMIN = ''platform_admin''"
definition ROLE_OWNER :: string where "ROLE_OWNER = ''owner''"
definition ROLE_ADMIN :: string where "ROLE_ADMIN = ''admin''"
definition ROLE_MEMBER :: string where "ROLE_MEMBER = ''member''"

definition INVITABLE_ROLES :: "string list" where
  "INVITABLE_ROLES = [ROLE_ADMIN, ROLE_MEMBER]"

definition PROVIDER_COOLIFY :: string where "PROVIDER_COOLIFY = ''coolify''"
definition PROVIDER_MAILCOW :: string where "PROVIDER_MAILCOW = ''mailcow''"
definition PROVIDER_CLOUDFLARE :: string where "PROVIDER_CLOUDFLARE = ''cloudflare''"
definition PROVIDER_DOCKER :: string where "PROVIDER_DOCKER = ''docker''"

definition RESOURCE_TYPE_SITE :: string where "RESOURCE_TYPE_SITE = ''site''"
definition RESOURCE_TYPE_MAIL_DOMAIN :: string where "RESOURCE_TYPE_MAIL_DOMAIN = ''mail_domain''"
definition RESOURCE_TYPE_MAILBOX :: string where "RESOURCE_TYPE_MAILBOX = ''mailbox''"
definition RESOURCE_TYPE_DNS_ZONE :: string where "RESOURCE_TYPE_DNS_ZONE = ''dns_zone''"
definition RESOURCE_TYPE_DNS_RECORD :: string where "RESOURCE_TYPE_DNS_RECORD = ''dns_record''"
definition RESOURCE_TYPE_DATABASE :: string where "RESOURCE_TYPE_DATABASE = ''database''"
definition RESOURCE_TYPE_SERVER :: string where "RESOURCE_TYPE_SERVER = ''server''"
definition RESOURCE_TYPE_APP :: string where "RESOURCE_TYPE_APP = ''app''"

lemmas role_defs = ROLE_PLATFORM_ADMIN_def ROLE_OWNER_def ROLE_ADMIN_def ROLE_MEMBER_def
  INVITABLE_ROLES_def

lemmas resource_const_defs = PROVIDER_COOLIFY_def PROVIDER_MAILCOW_def PROVIDER_CLOUDFLARE_def
  PROVIDER_DOCKER_def RESOURCE_TYPE_SITE_def RESOURCE_TYPE_MAIL_DOMAIN_def
  RESOURCE_TYPE_MAILBOX_def RESOURCE_TYPE_DNS_ZONE_def RESOURCE_TYPE_DNS_RECORD_def
  RESOURCE_TYPE_DATABASE_def RESOURCE_TYPE_SERVER_def RESOURCE_TYPE_APP_def

section \<open>Rows\<close>

record tenant =
  tn_id :: string
  tn_name :: string
  tn_slug :: string
  tn_status :: tenant_status
  tn_plan_id :: "string option"
  tn_platform :: bool
  tn_signup_ip :: "string option"

definition tenant_is_active :: "tenant \<Rightarrow> bool" where
  "tenant_is_active t = (tn_status t = TENANT_ACTIVE)"

text \<open>
  \<open>totp_backup_codes\<close> is a JSON text: the list it encodes, or a text that \<open>json.loads\<close>
  rejects.
\<close>

datatype json_codes = CodeList "string list" | NotJson string

record admin_user =
  ad_id :: string
  ad_tenant :: string
  ad_email :: string
  ad_name :: string
  ad_pw :: string
  ad_active :: bool
  ad_role :: string
  ad_created :: int
  ad_last_login :: "int option"
  ad_totp_secret :: "string option"
  ad_totp_enabled :: bool
  ad_totp_codes :: "json_codes option"

record plan =
  pl_id :: string
  pl_key :: string
  pl_name :: string
  pl_desc :: string
  pl_price :: int
  pl_currency :: string
  pl_max_apps :: int
  pl_max_domains :: int
  pl_cpu :: int
  pl_mem :: int
  pl_disk :: int
  pl_archived :: bool
  pl_sort :: int

record tenant_resource =
  rs_tenant :: string
  rs_provider :: string
  rs_type :: string
  rs_ext :: string
  rs_display :: string
  rs_cpu :: "int option"
  rs_mem :: "int option"
  rs_disk :: "int option"

record deployment =
  dp_id :: string
  dp_tenant :: string
  dp_project :: string
  dp_git :: string
  dp_ref :: string
  dp_status :: deploy_status
  dp_builder :: string
  dp_image :: string
  dp_commit :: string
  dp_domain :: string
  dp_port :: int
  dp_log :: string
  dp_error :: string
  dp_created :: int

record tenant_invite =
  iv_id :: string
  iv_tenant :: string
  iv_email :: string
  iv_role :: string
  iv_hash :: string
  iv_status :: invite_status
  iv_by :: "string option"
  iv_admin :: "string option"
  iv_created :: int
  iv_expires :: "int option"
  iv_accepted :: "int option"

record api_token =
  tk_id :: string
  tk_tenant :: string
  tk_admin :: string
  tk_name :: string
  tk_scope :: string
  tk_prefix :: string
  tk_hash :: string
  tk_created :: int
  tk_last_used :: "int option"
  tk_expires :: "int option"
  tk_revoked :: bool

record scheduled_job =
  jb_id :: string
  jb_tenant :: string
  jb_name :: string
  jb_cron :: string
  jb_url :: string
  jb_method :: string
  jb_enabled :: bool
  jb_last_run :: "int option"
  jb_last_status :: "job_status option"
  jb_last_detail :: string
  jb_created :: int

record job_run =
  jr_job :: string
  jr_tenant :: string
  jr_status :: job_status
  jr_detail :: string
  jr_duration :: int
  jr_started :: int

record uptime_monitor =
  um_id :: string
  um_tenant :: string
  um_name :: string
  um_url :: string
  um_enabled :: bool
  um_status :: uptime_status
  um_checked :: "int option"
  um_latency :: int
  um_detail :: string
  um_created :: int

record notification_channel =
  ch_id :: string
  ch_tenant :: string
  ch_name :: string
  ch_url :: string
  ch_secret :: string
  ch_events :: string
  ch_enabled :: bool
  ch_delivered :: "int option"
  ch_last_status :: string
  ch_created :: int

record custom_domain =
  dm_id :: string
  dm_tenant :: string
  dm_project :: string
  dm_host :: string
  dm_status :: domain_status
  dm_token :: string
  dm_cf_id :: string
  dm_created :: int

record preview_env =
  pv_id :: string
  pv_tenant :: string
  pv_project :: string
  pv_branch :: string
  pv_stack :: string
  pv_domain :: string
  pv_last_deployment :: string
  pv_created :: int

record deploy_hook =
  hk_id :: string
  hk_tenant :: string
  hk_project :: string
  hk_git :: string
  hk_ref :: string
  hk_port :: int
  hk_secret :: string
  hk_enabled :: bool
  hk_previews :: bool
  hk_created :: int

record app_env_var =
  ev_tenant :: string
  ev_project :: string
  ev_key :: string
  ev_value :: string
  ev_secret :: bool
  ev_build :: bool

record sso_config =
  sc_tenant :: string
  sc_label :: string
  sc_issuer :: string
  sc_client_id :: string
  sc_secret_enc :: string
  sc_domains :: string
  sc_role :: string
  sc_enabled :: bool

record credit_txn =
  tx_tenant :: string
  tx_delta :: int
  tx_kind :: txn_kind
  tx_ref :: string
  tx_created :: int

record tenant_credit =
  wl_tenant :: string
  wl_balance :: int

text \<open>\<open>rule_value\<close> is a float in the code; here it is the rational it denotes.\<close>

record pricing_rule =
  pr_key :: string
  pr_provider :: string
  pr_shape :: string
  pr_wholesale :: int
  pr_unit :: string
  pr_rule :: string
  pr_value :: rat

record reseller_charge =
  rc_tenant :: string
  rc_offering :: string
  rc_provider :: string
  rc_wholesale :: int
  rc_resale :: int
  rc_margin :: int
  rc_status :: string
  rc_created :: int

record ai_usage_event =
  ai_tenant :: string
  ai_model :: string
  ai_prompt_tokens :: int
  ai_completion_tokens :: int
  ai_cost :: int
  ai_billed :: int
  ai_request :: string
  ai_created :: int

record db =
  db_tenants :: "tenant list"
  db_admins :: "admin_user list"
  db_plans :: "plan list"
  db_resources :: "tenant_resource list"
  db_deployments :: "deployment list"
  db_invites :: "tenant_invite list"
  db_tokens :: "api_token list"
  db_jobs :: "scheduled_job list"
  db_runs :: "job_run list"
  db_monitors :: "uptime_monitor list"
  db_channels :: "notification_channel list"
  db_domains :: "custom_domain list"
  db_previews :: "preview_env list"
  db_hooks :: "deploy_hook list"
  db_envs :: "app_env_var list"
  db_ssos :: "sso_config list"
  db_wallets :: "tenant_credit list"
  db_txns :: "credit_txn list"
  db_rules :: "pricing_rule list"
  db_charges :: "reseller_charge list"
  db_usage_events :: "ai_usage_event list"

definition empty_db :: db where
  "empty_db = \<lparr>db_tenants = [], db_admins = [], db_plans = [], db_resources = [],
     db_deployments = [], db_invites = [], db_tokens = [], db_jobs = [], db_runs = [],
     db_monitors = [], db_channels = [], db_domains = [], db_previews = [], db_hooks = [],
     db_envs = [], db_ssos = [], db_wallets = [], db_txns = [], db_rules = [],
     db_charges = [], db_usage_events = []\<rparr>"

section \<open>Settings the modelled services read\<close>

record settings =
  cf_app_cpu :: int
  cf_app_mem :: int
  cf_app_disk :: int
  cf_pids :: int
  cf_actions :: bool
  cf_base_domain :: string
  cf_edge_network :: string
  cf_registry_url :: string
  cf_keep_images :: int
  cf_max_previews :: int
  cf_github_token :: string
  cf_saas_zone :: string
  cf_saas_cname :: string

section \<open>Primary-key loads and unique inserts\<close>

definition get_tenant :: "db \<Rightarrow> string \<Rightarrow> tenant option" where
  "get_tenant d i = find (\<lambda>t. tn_id t = i) (db_tenants d)"

definition get_plan :: "db \<Rightarrow> string \<Rightarrow> plan option" where
  "get_plan d i = find (\<lambda>p. pl_id p = i) (db_plans d)"

text \<open>
  A flush of one new row: the unique index of the table (\<open>key\<close>) rejects a second row with
  the same key with IntegrityError.
\<close>

definition insert_unique :: "('r \<Rightarrow> 'k) \<Rightarrow> 'r \<Rightarrow> 'r list \<Rightarrow> 'r list result" where
  "insert_unique key r rows =
     (if key r \<in> key ` set rows then Inl IntegrityError else Inr (rows @ [r]))"

lemma insert_unique_Inr:
  "insert_unique key r rows = Inr rows' \<longleftrightarrow> key r \<notin> key ` set rows \<and> rows' = rows @ [r]"
  by (auto simp: insert_unique_def)

lemma insert_unique_Inl:
  "insert_unique key r rows = Inl e \<longleftrightarrow> key r \<in> key ` set rows \<and> e = IntegrityError"
  by (auto simp: insert_unique_def)

lemma insert_unique_distinct:
  "insert_unique key r rows = Inr rows' \<Longrightarrow> distinct (map key rows) \<Longrightarrow> distinct (map key rows')"
  by (auto simp: insert_unique_Inr)

text \<open>
  The constraints the schema declares: primary keys and unique columns. Every service
  operation keeps them.
\<close>

definition unique_ok :: "db \<Rightarrow> bool" where
  "unique_ok d \<longleftrightarrow>
     distinct (map tn_id (db_tenants d)) \<and> distinct (map tn_slug (db_tenants d)) \<and>
     distinct (map ad_id (db_admins d)) \<and> distinct (map ad_email (db_admins d)) \<and>
     distinct (map iv_id (db_invites d)) \<and> distinct (map iv_hash (db_invites d)) \<and>
     distinct (map tk_id (db_tokens d)) \<and> distinct (map tk_hash (db_tokens d)) \<and>
     distinct (map dm_id (db_domains d)) \<and> distinct (map dm_host (db_domains d)) \<and>
     distinct (map wl_tenant (db_wallets d))"

lemma unique_ok_empty: "unique_ok empty_db"
  by (simp add: unique_ok_def empty_db_def)

end
