(* ===== verification/Cron.thy ===== *)
theory Cron
  imports Models
begin

text \<open>
  The cron matcher (\<^verbatim>\<open>services/cron.py\<close>), the scheduled-jobs service
  (\<^verbatim>\<open>modules/jobs/service.py\<close>) and the body of one scheduler tick
  (\<^verbatim>\<open>services/scheduler.py\<close>). \<open>ValueError\<close> of \<open>int\<close> is a value, so that where the
  code catches it and where it does not are visible. A grammar of cron fields with a
  printer serves as the abstract specification of the matcher.
\<close>

section \<open>Matching one field\<close>

text \<open>The loop over the comma-separated parts; \<open>Inl\<close> is the uncaught ValueError of
  \<open>int(part)\<close> in the \<open>isdigit\<close> branch.\<close>

fun match_parts :: "string list \<Rightarrow> int \<Rightarrow> bool result" where
  "match_parts [] value = Inr False"
| "match_parts (raw # rest) value =
     (let part = py_strip raw in
      if part = [] then match_parts rest value
      else if starts_with ''*/'' part then
        (case py_int (drop 2 part) of
           None \<Rightarrow> match_parts rest value
         | Some step \<Rightarrow> if 0 < step \<and> value mod step = 0 then Inr True else match_parts rest value)
      else if CHR ''-'' \<in> set part then
        (case py_int (part_before CHR ''-'' part) of
           None \<Rightarrow> match_parts rest value
         | Some a \<Rightarrow>
             if a \<le> value then
               (case py_int (part_after CHR ''-'' part) of
                  None \<Rightarrow> match_parts rest value
                | Some b \<Rightarrow> if value \<le> b then Inr True else match_parts rest value)
             else match_parts rest value)
      else if py_isdigit part then
        (case py_int part of
           None \<Rightarrow> Inl (ValueError part)
         | Some n \<Rightarrow> if n = value then Inr True else match_parts rest value)
      else match_parts rest value)"

definition match_field :: "string \<Rightarrow> int \<Rightarrow> bool result" where
  "match_field spec value =
     (let spec = py_strip spec in
      if spec = ''*'' then Inr True else match_parts (split_on CHR '','' spec) value)"

section \<open>Matching an expression\<close>

text \<open>The parts of a \<open>datetime\<close> the matcher reads; \<open>mo_ts\<close> is the instant itself.\<close>

record moment =
  mo_ts :: int
  mo_minute :: int
  mo_hour :: int
  mo_day :: int
  mo_month :: int
  mo_isoweekday :: int

text \<open>\<open>a and b\<close> where evaluating \<open>a\<close> may raise.\<close>

definition and_then :: "bool result \<Rightarrow> bool result \<Rightarrow> bool result" where
  "and_then a b = (case a of Inl e \<Rightarrow> Inl e | Inr False \<Rightarrow> Inr False | Inr True \<Rightarrow> b)"

definition cron_dow :: "moment \<Rightarrow> int" where
  "cron_dow w = mo_isoweekday w mod 7"

definition dow_spec :: "moment \<Rightarrow> string \<Rightarrow> string" where
  "dow_spec w dow = (if cron_dow w = 0 then replace_char CHR ''7'' ''0'' dow else dow)"

definition cron_matches :: "string \<Rightarrow> moment \<Rightarrow> bool result" where
  "cron_matches expr w =
     (case split_ws expr of
        [minute, hour, day, month, dow] \<Rightarrow>
          and_then (match_field minute (mo_minute w))
            (and_then (match_field hour (mo_hour w))
              (and_then (match_field day (mo_day w))
                (and_then (match_field month (mo_month w))
                  (match_field (dow_spec w dow) (cron_dow w)))))
      | _ \<Rightarrow> Inr False)"

definition valid_token :: "string \<Rightarrow> bool" where
  "valid_token raw =
     (let part = py_strip raw in
      if part = ''*'' \<or> part = [] then True
      else (let token = (if starts_with ''*/'' part then drop 2 part else part);
                token = replace_char CHR ''-'' '' '' token;
                token = replace_char CHR ''/'' '' '' token
            in list_all py_isdigit (split_ws token)))"

definition is_valid_cron :: "string \<Rightarrow> bool" where
  "is_valid_cron expr =
     (let fields = split_ws expr in
      length fields = 5 \<and> list_all (\<lambda>f. list_all valid_token (split_on CHR '','' f)) fields)"

section \<open>The jobs service\<close>

definition ALLOWED_METHODS :: "string list" where
  "ALLOWED_METHODS = [''GET'', ''POST'', ''HEAD'']"

definition is_http_url :: "string \<Rightarrow> bool" where
  "is_http_url url = (starts_with ''https://'' url \<or> starts_with ''http://'' url)"

definition list_jobs_for_tenant :: "db \<Rightarrow> string option \<Rightarrow> scheduled_job list" where
  "list_jobs_for_tenant d tenant =
     sort_key (\<lambda>j. - jb_created j) (filter (\<lambda>j. jb_tenant j = or_empty tenant) (db_jobs d))"

definition owned_job :: "db \<Rightarrow> string option \<Rightarrow> string \<Rightarrow> scheduled_job result" where
  "owned_job d tenant job_id =
     (case find (\<lambda>j. jb_id j = job_id) (db_jobs d) of
        None \<Rightarrow> Inl (JobError ''Job not found.'' 404)
      | Some j \<Rightarrow> if jb_tenant j \<noteq> or_empty tenant then Inl (JobError ''Job not found.'' 404)
                  else Inr j)"

definition create_job ::
  "db \<Rightarrow> string \<Rightarrow> int \<Rightarrow> string option \<Rightarrow> string \<Rightarrow> string \<Rightarrow> string \<Rightarrow> string \<Rightarrow>
   (scheduled_job \<times> db) result" where
  "create_job d new_id now tenant name cron url method =
     (if or_empty tenant = [] then Inl (JobError ''A tenant context is required.'' 400)
      else if py_strip name = [] then Inl (JobError ''Name is required.'' 422)
      else if \<not> is_valid_cron cron then
        Inl (JobError ''Invalid cron expression (expected 5 fields).'' 422)
      else if \<not> is_http_url url then Inl (JobError ''URL must be http(s).'' 422)
      else (let method = py_upper method in
        if method \<notin> set ALLOWED_METHODS then
          Inl (JobError ''Method must be one of ['GET', 'HEAD', 'POST'].'' 422)
        else (let job = \<lparr>jb_id = new_id, jb_tenant = or_empty tenant, jb_name = py_strip name,
                 jb_cron = py_strip cron, jb_url = py_strip url, jb_method = method,
                 jb_enabled = True, jb_last_run = None, jb_last_status = None,
                 jb_last_detail = [], jb_created = now\<rparr>
              in Inr (job, d\<lparr>db_jobs := db_jobs d @ [job]\<rparr>))))"

text \<open>The optional fields are applied in the code's order; the first bad one raises and the
  session is rolled back.\<close>

definition upd_job_cron :: "string option \<Rightarrow> scheduled_job \<Rightarrow> scheduled_job result" where
  "upd_job_cron c j =
     (case c of None \<Rightarrow> Inr j
      | Some cron \<Rightarrow> if \<not> is_valid_cron cron then Inl (JobError ''Invalid cron expression.'' 422)
                     else Inr (j\<lparr>jb_cron := py_strip cron\<rparr>))"

definition upd_job_url :: "string option \<Rightarrow> scheduled_job \<Rightarrow> scheduled_job result" where
  "upd_job_url u j =
     (case u of None \<Rightarrow> Inr j
      | Some url \<Rightarrow> if \<not> is_http_url url then Inl (JobError ''URL must be http(s).'' 422)
                    else Inr (j\<lparr>jb_url := py_strip url\<rparr>))"

definition upd_job_method :: "string option \<Rightarrow> scheduled_job \<Rightarrow> scheduled_job result" where
  "upd_job_method m j =
     (case m of None \<Rightarrow> Inr j
      | Some meth \<Rightarrow> if py_upper meth \<notin> set ALLOWED_METHODS then Inl (JobError ''Invalid method.'' 422)
                     else Inr (j\<lparr>jb_method := py_upper meth\<rparr>))"

definition upd_job_enabled :: "bool option \<Rightarrow> scheduled_job \<Rightarrow> scheduled_job" where
  "upd_job_enabled b j = (case b of None \<Rightarrow> j | Some e \<Rightarrow> j\<lparr>jb_enabled := e\<rparr>)"

definition update_job ::
  "db \<Rightarrow> string option \<Rightarrow> string \<Rightarrow> string option \<Rightarrow> string option \<Rightarrow> string option \<Rightarrow> bool option \<Rightarrow>
   (scheduled_job \<times> db) result" where
  "update_job d tenant job_id cron url method enabled =
     (case owned_job d tenant job_id of Inl e \<Rightarrow> Inl e | Inr j0 \<Rightarrow>
      (case upd_job_cron cron j0 of Inl e \<Rightarrow> Inl e | Inr j1 \<Rightarrow>
      (case upd_job_url url j1 of Inl e \<Rightarrow> Inl e | Inr j2 \<Rightarrow>
      (case upd_job_method method j2 of Inl e \<Rightarrow> Inl e | Inr j3 \<Rightarrow>
        (let j4 = upd_job_enabled enabled j3 in
         Inr (j4, d\<lparr>db_jobs := upd_where (\<lambda>j. jb_id j = job_id) (\<lambda>_. j4) (db_jobs d)\<rparr>))))))"

definition delete_job :: "db \<Rightarrow> string option \<Rightarrow> string \<Rightarrow> db result" where
  "delete_job d tenant job_id =
     (case owned_job d tenant job_id of
        Inl e \<Rightarrow> Inl e
      | Inr j \<Rightarrow> Inr (d\<lparr>db_runs := filter (\<lambda>r. jr_job r \<noteq> jb_id j) (db_runs d),
                        db_jobs := filter (\<lambda>x. jb_id x \<noteq> jb_id j) (db_jobs d)\<rparr>))"

definition list_runs :: "db \<Rightarrow> string option \<Rightarrow> string \<Rightarrow> nat \<Rightarrow> job_run list result" where
  "list_runs d tenant job_id limit =
     (case owned_job d tenant job_id of
        Inl e \<Rightarrow> Inl e
      | Inr _ \<Rightarrow> Inr (take limit
          (sort_key (\<lambda>r. - jr_started r) (filter (\<lambda>r. jr_job r = job_id) (db_runs d)))))"

section \<open>One scheduler tick\<close>

text \<open>The parameter \<open>http\<close> of the tick gives, for each job, what its request did, the measured
  duration in milliseconds and the clock when the run row is written.\<close>

text \<open>
  What the outbound request did: a status code, an \<open>httpx.HTTPError\<close> with its text, or an
  exception of another class, which \<open>_execute\<close> does not catch.
\<close>

datatype http_outcome = HttpStatus int | HttpFailed string | HttpRaised exn

definition execute_job :: "http_outcome \<Rightarrow> int \<Rightarrow> (job_status \<times> string \<times> int) result" where
  "execute_job out duration =
     (case out of
        HttpStatus code \<Rightarrow>
          if code < 400 then Inr (JOB_STATUS_OK, int_str code, duration)
          else Inr (JOB_STATUS_ERROR, take 500 (''HTTP '' @ int_str code), duration)
      | HttpFailed msg \<Rightarrow> Inr (JOB_STATUS_ERROR, take 500 msg, duration)
      | HttpRaised e \<Rightarrow> Inl e)"

text \<open>\<open>[job for job in jobs if cron_matches(job.cron, now)]\<close>\<close>

fun due_jobs :: "moment \<Rightarrow> scheduled_job list \<Rightarrow> scheduled_job list result" where
  "due_jobs w [] = Inr []"
| "due_jobs w (j # js) =
     (case cron_matches (jb_cron j) w of
        Inl e \<Rightarrow> Inl e
      | Inr m \<Rightarrow> (case due_jobs w js of
                    Inl e \<Rightarrow> Inl e
                  | Inr due \<Rightarrow> Inr (if m then j # due else due)))"

definition record_run ::
  "moment \<Rightarrow> int \<Rightarrow> scheduled_job \<Rightarrow> job_status \<times> string \<times> int \<Rightarrow> db \<Rightarrow> db" where
  "record_run w started j res d =
     (case res of (status, detail, duration) \<Rightarrow>
        d\<lparr>db_runs := db_runs d @ [\<lparr>jr_job = jb_id j, jr_tenant = jb_tenant j, jr_status = status,
              jr_detail = detail, jr_duration = duration, jr_started = started\<rparr>],
          db_jobs := upd_where (\<lambda>x. jb_id x = jb_id j)
              (\<lambda>x. x\<lparr>jb_last_run := Some (mo_ts w), jb_last_status := Some status,
                     jb_last_detail := detail\<rparr>) (db_jobs d)\<rparr>)"

fun fire_jobs ::
  "(scheduled_job \<Rightarrow> http_outcome \<times> int \<times> int) \<Rightarrow> moment \<Rightarrow> scheduled_job list \<Rightarrow> db \<Rightarrow> db result" where
  "fire_jobs http w [] d = Inr d"
| "fire_jobs http w (j # js) d =
     (case http j of (out, duration, started) \<Rightarrow>
       (case execute_job out duration of
          Inl e \<Rightarrow> Inl e
        | Inr res \<Rightarrow> fire_jobs http w js (record_run w started j res d)))"

definition run_due_jobs ::
  "(scheduled_job \<Rightarrow> http_outcome \<times> int \<times> int) \<Rightarrow> moment \<Rightarrow> db \<Rightarrow> (nat \<times> db) result" where
  "run_due_jobs http w d =
     (case due_jobs w (filter jb_enabled (db_jobs d)) of
        Inl e \<Rightarrow> Inl e
      | Inr due \<Rightarrow> (case fire_jobs http w due d of
                      Inl e \<Rightarrow> Inl e
                    | Inr d' \<Rightarrow> Inr (length due, d')))"

text \<open>The scheduler loop swallows every exception of the tick; \<open>session_scope\<close> has rolled the
  session back by then.\<close>

definition scheduler_jobs_tick ::
  "(scheduled_job \<Rightarrow> http_outcome \<times> int \<times> int) \<Rightarrow> moment \<Rightarrow> db \<Rightarrow> db" where
  "scheduler_jobs_tick http w d =
     (case run_due_jobs http w d of Inl _ \<Rightarrow> d | Inr (_, d') \<Rightarrow> d')"

lemmas job_op_defs = owned_job_def create_job_def update_job_def delete_job_def
  upd_job_cron_def upd_job_url_def upd_job_method_def upd_job_enabled_def

section \<open>The grammar of cron fields\<close>

text \<open>The abstract field language of the module's documentation and its meaning.\<close>

datatype cron_item = Step nat | Range nat nat | Value nat

datatype cron_field = Every | Items "cron_item list"

fun show_item :: "cron_item \<Rightarrow> string" where
  "show_item (Step n) = ''*/'' @ nat_str n"
| "show_item (Range a b) = nat_str a @ ''-'' @ nat_str b"
| "show_item (Value n) = nat_str n"

fun show_field :: "cron_field \<Rightarrow> string" where
  "show_field Every = ''*''"
| "show_field (Items is) = join '','' (map show_item is)"

fun item_fires :: "cron_item \<Rightarrow> int \<Rightarrow> bool" where
  "item_fires (Step n) v = (0 < n \<and> v mod int n = 0)"
| "item_fires (Range a b) v = (int a \<le> v \<and> v \<le> int b)"
| "item_fires (Value n) v = (v = int n)"

fun field_fires :: "cron_field \<Rightarrow> int \<Rightarrow> bool" where
  "field_fires Every v = True"
| "field_fires (Items is) v = (\<exists>i\<in>set is. item_fires i v)"

fun small_item :: "cron_item \<Rightarrow> bool" where
  "small_item (Step n) = (n < 4300)"
| "small_item (Range a b) = (a < 4300 \<and> b < 4300)"
| "small_item (Value n) = (n < 4300)"

fun small_field :: "cron_field \<Rightarrow> bool" where
  "small_field Every = True"
| "small_field (Items is) = (is \<noteq> [] \<and> list_all small_item is)"

section \<open>The matcher implements the grammar\<close>

lemma show_item_facts:
  "show_item i \<noteq> []" "c \<in> set (show_item i) \<Longrightarrow> c \<noteq> CHR '','' \<and> \<not> py_space c"
  using ascii_digit_facts(1,4) nat_str_digits
  by (cases i; auto simp: py_space_def ord_of_def Let_def)+

lemma py_strip_no_space: "(\<And>c. c \<in> set s \<Longrightarrow> \<not> py_space c) \<Longrightarrow> py_strip s = s"
  unfolding py_strip_def by (rule strip_if_id) (metis hd_in_set last_in_set)

lemma py_strip_show_item [simp]: "py_strip (show_item i) = show_item i"
  by (rule py_strip_no_space) (simp add: show_item_facts)

lemma nat_str_head: "\<exists>c cs. nat_str n = c # cs \<and> ascii_digit c"
  by (metis list.set_intros(1) nat_str_digits nat_str_ne neq_Nil_conv)

lemma not_star_digits: "\<not> starts_with ''*/'' (nat_str n @ s)"
  using nat_str_head [of n] ascii_digit_facts(5) by (auto simp: starts_with_def)

lemma no_dash_digits: "CHR ''-'' \<notin> set (nat_str n)"
  using ascii_digit_facts(2) nat_str_digits by blast

lemma part_before_show: "part_before CHR ''-'' (nat_str a @ CHR ''-'' # s) = nat_str a"
  using no_dash_digits [of a] by (auto simp: part_before_def takeWhile_append)

lemma part_after_show: "part_after CHR ''-'' (nat_str a @ CHR ''-'' # s) = s"
  using no_dash_digits [of a] by (auto simp: part_after_def dropWhile_append)

lemma match_parts_show_item:
  assumes "small_item i"
  shows "match_parts (show_item i # rest) v =
    (if item_fires i v then Inr True else match_parts rest v)"
proof (cases i)
  case (Step n)
  then show ?thesis
    using assms show_item_facts(1) [of i] py_strip_show_item [of i]
    by (simp add: py_int_nat_str starts_with_def)
next
  case (Range a b)
  then show ?thesis
    using assms show_item_facts(1) [of i] py_strip_show_item [of i] not_star_digits [of a]
    by (simp add: py_int_nat_str part_before_show part_after_show)
next
  case (Value n)
  then show ?thesis
    using assms show_item_facts(1) [of i] py_strip_show_item [of i] not_star_digits [of n "[]"]
    by (auto simp: py_int_nat_str no_dash_digits py_isdigit_nat_str)
qed

lemma match_parts_show:
  "list_all small_item is \<Longrightarrow> match_parts (map show_item is) v = Inr (\<exists>i\<in>set is. item_fires i v)"
  by (induction "is") (auto simp: match_parts_show_item simp del: match_parts.simps(2))

lemma split_on_show: "is \<noteq> [] \<Longrightarrow> split_on CHR '','' (join '','' (map show_item is)) = map show_item is"
  by (rule split_on_join) (auto dest: show_item_facts(2))

lemma set_join: "set (join sep ps) \<subseteq> set sep \<union> (\<Union>p\<in>set ps. set p)"
  by (induction sep ps rule: join.induct) auto

lemma show_field_no_space: "c \<in> set (show_field f) \<Longrightarrow> \<not> py_space c"
proof (cases f)
  case Every
  moreover assume "c \<in> set (show_field f)"
  ultimately show ?thesis by (simp add: py_space_def ord_of_def Let_def)
next
  case (Items items)
  moreover assume "c \<in> set (show_field f)"
  ultimately have "c = CHR '','' \<or> (\<exists>i. c \<in> set (show_item i))"
    using set_join [of "'',''" "map show_item items"] by auto
  then show ?thesis using show_item_facts(2) by (auto simp: py_space_def ord_of_def Let_def)
qed

lemma star_not_digit: "\<not> ascii_digit CHR ''*''"
  by (simp add: ascii_digit_def ord_of_def)

lemma show_item_not_star: "show_item i \<noteq> ''*''"
proof (cases i)
  case (Value n)
  then show ?thesis using star_not_digit nat_str_head [of n] by auto
next
  case (Range a b)
  then show ?thesis using star_not_digit nat_str_head [of a] by auto
qed simp

lemma show_items_not_star: "is \<noteq> [] \<Longrightarrow> join '','' (map show_item is) \<noteq> ''*''"
proof
  assume ne: "is \<noteq> []" and star: "join '','' (map show_item is) = ''*''"
  from ne have "map show_item is = split_on CHR '','' ''*''" by (simp flip: star add: split_on_show)
  then have "map show_item is = [''*'']" by simp
  then show False using show_item_not_star by (auto simp: map_eq_Cons_conv)
qed

lemma match_field_show: "small_field f \<Longrightarrow> match_field (show_field f) v = Inr (field_fires f v)"
proof (cases f)
  case Every
  moreover have "py_strip ''*'' = ''*''" by (rule py_strip_no_space) (simp add: py_space_def ord_of_def)
  ultimately show ?thesis by (simp add: match_field_def)
next
  case (Items items)
  moreover assume "small_field f"
  moreover have "py_strip (show_field f) = show_field f"
    by (rule py_strip_no_space) (rule show_field_no_space)
  ultimately show ?thesis
    by (simp add: match_field_def show_items_not_star split_on_show match_parts_show)
qed

section \<open>Services: what each operation leaves alone\<close>

lemma owned_job_Inr:
  "owned_job d t i = Inr j \<longleftrightarrow> find (\<lambda>x. jb_id x = i) (db_jobs d) = Some j \<and> jb_tenant j = or_empty t"
  by (auto simp: owned_job_def split: option.splits)

lemma upd_job_fields:
  "upd_job_cron c j = Inr j' \<Longrightarrow> jb_tenant j' = jb_tenant j \<and> jb_id j' = jb_id j"
  "upd_job_url u j = Inr j' \<Longrightarrow> jb_tenant j' = jb_tenant j \<and> jb_id j' = jb_id j"
  "upd_job_method m j = Inr j' \<Longrightarrow> jb_tenant j' = jb_tenant j \<and> jb_id j' = jb_id j"
  "jb_tenant (upd_job_enabled b j) = jb_tenant j" "jb_id (upd_job_enabled b j) = jb_id j"
  by (auto simp: job_op_defs split: option.splits if_splits)

lemma split_ws_acc_app:
  "(\<And>c. c \<in> set s \<Longrightarrow> \<not> py_space c) \<Longrightarrow> split_ws_acc acc (s @ t) = split_ws_acc (rev s @ acc) t"
  by (induction s arbitrary: acc) auto

lemma split_ws_join:
  "(\<And>p c. p \<in> set ps \<Longrightarrow> c \<in> set p \<Longrightarrow> \<not> py_space c) \<Longrightarrow> [] \<notin> set ps \<Longrightarrow>
   split_ws (join '' '' ps) = ps"
proof (induction ps)
  case (Cons p ps)
  have sp: "py_space CHR '' ''" by (simp add: py_space_def ord_of_def)
  have p: "\<And>c. c \<in> set p \<Longrightarrow> \<not> py_space c" "p \<noteq> []" using Cons.prems by auto
  have IH: "split_ws (join '' '' ps) = ps"
    using Cons.prems by (intro Cons.IH) auto
  show ?case
  proof (cases ps)
    case Nil
    then show ?thesis using p split_ws_acc_app [of p "[]" "[]"] by (simp add: split_ws_def)
  next
    case (Cons q qs)
    then show ?thesis
      using p IH split_ws_acc_app [of p "[]" "CHR '' '' # join '' '' ps"] sp
      by (simp add: split_ws_def)
  qed
qed (simp add: split_ws_def)

lemma show_field_ne: "small_field f \<Longrightarrow> show_field f \<noteq> []"
proof (cases f)
  case (Items items)
  moreover assume "small_field f"
  ultimately have "split_on CHR '','' (show_field f) = map show_item items" "items \<noteq> []"
    by (simp_all add: split_on_show)
  note eq = this
  show ?thesis
  proof
    assume "show_field f = []"
    with eq(1) have "map show_item items = [[]]" by simp
    then show False using show_item_facts(1) by (auto simp: map_eq_Cons_conv)
  qed
qed simp

lemma cron_matches_fields:
  assumes "\<And>p c. p \<in> {mi, ho, da, mo, dw} \<Longrightarrow> c \<in> set p \<Longrightarrow> \<not> py_space c"
    and "[] \<notin> {mi, ho, da, mo, dw}"
  shows "cron_matches (join '' '' [mi, ho, da, mo, dw]) w =
    and_then (match_field mi (mo_minute w)) (and_then (match_field ho (mo_hour w))
      (and_then (match_field da (mo_day w)) (and_then (match_field mo (mo_month w))
        (match_field (dow_spec w dw) (cron_dow w)))))"
proof -
  have "split_ws (join '' '' [mi, ho, da, mo, dw]) = [mi, ho, da, mo, dw]"
    using assms by (intro split_ws_join) auto
  then show ?thesis by (simp add: cron_matches_def)
qed

lemma and_then_Inr [simp]: "and_then (Inr a) (Inr b) = Inr (a \<and> b)"
  by (cases a) (simp_all add: and_then_def)

section \<open>Properties\<close>

text \<open>C3. On every day but Sunday the string matcher computes the meaning of the documented cron
  grammar: for any five fields printed from it (stars, steps, ranges, values and lists of
  them), \<open>cron_matches\<close> raises nothing and fires exactly when all five fields fire.\<close>

theorem cron_matches_grammar:
  assumes "small_field mi" "small_field ho" "small_field da" "small_field mo" "small_field dw"
    and "cron_dow w \<noteq> 0"
  shows "cron_matches (join '' '' (map show_field [mi, ho, da, mo, dw])) w =
    Inr (field_fires mi (mo_minute w) \<and> field_fires ho (mo_hour w) \<and> field_fires da (mo_day w)
      \<and> field_fires mo (mo_month w) \<and> field_fires dw (cron_dow w))"
proof -
  let ?F = "{show_field mi, show_field ho, show_field da, show_field mo, show_field dw}"
  have "\<And>p c. p \<in> ?F \<Longrightarrow> c \<in> set p \<Longrightarrow> \<not> py_space c" using show_field_no_space by auto
  moreover have "[] \<notin> ?F" using assms(1-5) show_field_ne by force
  ultimately show ?thesis
    using assms cron_matches_fields [of "show_field mi" "show_field ho" "show_field da" "show_field mo" "show_field dw" w]
    by (simp add: match_field_show dow_spec_def del: join.simps)
qed

theorem cron_matches_grammar_witness:
  "cron_matches (join '' '' (map show_field
      [Items [Step 15], Items [Range 9 17], Every, Every, Items [Value 1, Value 3]]))
     \<lparr>mo_ts = 0, mo_minute = 30, mo_hour = 9, mo_day = 2, mo_month = 3, mo_isoweekday = 3\<rparr> = Inr True"
  by (subst cron_matches_grammar) (simp_all add: cron_dow_def)

lemma replace_seven_small: "a \<in> {1..6} \<Longrightarrow> replace_char CHR ''7'' ''0'' (nat_str a @ ''-7'') = nat_str a @ ''-0''"
proof -
  assume "a \<in> {1..6}"
  then have "a \<in> {1, 2, 3, 4, 5, 6}" by auto
  moreover have "\<forall>a\<in>{1, 2, 3, 4, 5, 6}.
      replace_char CHR ''7'' ''0'' (nat_str a @ ''-7'') = nat_str a @ ''-0''" by code_simp
  ultimately show ?thesis by blast
qed

lemma nat_str_0: "nat_str 0 = ''0''" and nat_str_7: "nat_str 7 = ''7''"
  by code_simp+

text \<open>A day-of-week range that ends in 7 never fires on a Sunday, although 7 stands for
  Sunday: replacing the character 7 by 0 turns the range \<open>a-7\<close> into the empty range \<open>a-0\<close>.\<close>

theorem cron_range_to_seven_skips_sunday:
  assumes "small_field mi" "small_field ho" "small_field da" "small_field mo"
    and "a \<in> {1..6}" and "mo_isoweekday w = 7"
  shows "cron_matches (join '' '' (map show_field [mi, ho, da, mo, Items [Range a 7]])) w = Inr False"
proof -
  let ?dw = "show_field (Items [Range a 7])"
  let ?F = "{show_field mi, show_field ho, show_field da, show_field mo, ?dw}"
  have dow: "cron_dow w = 0" using assms(6) by (simp add: cron_dow_def)
  have "dow_spec w ?dw = show_field (Items [Range a 0])"
    using replace_seven_small [OF assms(5)] dow by (simp add: dow_spec_def nat_str_7 nat_str_0)
  then have "match_field (dow_spec w ?dw) (cron_dow w) = Inr False"
    using assms(5) dow by (simp only: match_field_show small_field.simps) (simp add: match_field_show del: show_field.simps)
  moreover have "\<And>p c. p \<in> ?F \<Longrightarrow> c \<in> set p \<Longrightarrow> \<not> py_space c" using show_field_no_space by blast
  moreover have "[] \<notin> ?F" using assms(1-4) show_field_ne by force
  ultimately show ?thesis
    using assms(1-4) cron_matches_fields [of "show_field mi" "show_field ho" "show_field da" "show_field mo" ?dw w]
    by (simp add: match_field_show del: join.simps show_field.simps)
qed

theorem cron_range_to_seven_skips_sunday_witness:
  "cron_matches (join '' '' (map show_field [Every, Every, Every, Every, Items [Range 5 7]]))
     \<lparr>mo_ts = 0, mo_minute = 0, mo_hour = 0, mo_day = 2, mo_month = 3, mo_isoweekday = 7\<rparr> = Inr False"
  by (rule cron_range_to_seven_skips_sunday) simp_all

subsection \<open>A tick over the whole table\<close>

lemma due_jobs_raises:
  "j \<in> set js \<Longrightarrow> cron_matches (jb_cron j) w = Inl e \<Longrightarrow> \<exists>e'. due_jobs w js = Inl e'"
  by (induction js) (auto split: sum.splits)

lemma due_jobs_Inr:
  "due_jobs w js = Inr due \<Longrightarrow> due = filter (\<lambda>j. cron_matches (jb_cron j) w = Inr True) js"
  by (induction js arbitrary: due) (auto split: sum.splits)

lemma fire_jobs_runs:
  "fire_jobs http w js d = Inr d' \<Longrightarrow>
   \<exists>new. db_runs d' = db_runs d @ new \<and> map jr_job new = map jb_id js
     \<and> map jr_tenant new = map jb_tenant js"
proof (induction js arbitrary: d)
  case (Cons j js)
  then obtain out dur st res where "http j = (out, dur, st)" "execute_job out dur = Inr res"
      "fire_jobs http w js (record_run w st j res d) = Inr d'"
    by (auto split: sum.splits prod.splits)
  with Cons.IH show ?case by (fastforce simp: record_run_def split: prod.splits)
qed simp

lemma fire_jobs_last_run:
  "fire_jobs http w js d = Inr d' \<Longrightarrow>
   \<forall>x\<in>set (db_jobs d). jb_id x \<in> A \<longrightarrow> jb_last_run x = Some (mo_ts w) \<Longrightarrow>
   \<forall>x\<in>set (db_jobs d'). jb_id x \<in> A \<union> jb_id ` set js \<longrightarrow> jb_last_run x = Some (mo_ts w)"
proof (induction js arbitrary: d A)
  case (Cons j js)
  then obtain out dur st res where fire: "fire_jobs http w js (record_run w st j res d) = Inr d'"
    by (auto split: sum.splits prod.splits)
  have "\<forall>x\<in>set (db_jobs (record_run w st j res d)).
      jb_id x \<in> insert (jb_id j) A \<longrightarrow> jb_last_run x = Some (mo_ts w)"
    using Cons.prems(2) by (auto simp: record_run_def set_upd_where split: prod.splits)
  from Cons.IH [OF fire this] show ?case by auto
qed simp

lemma fire_jobs_ids: "fire_jobs http w js d = Inr d' \<Longrightarrow> map jb_id (db_jobs d') = map jb_id (db_jobs d)"
proof (induction js arbitrary: d)
  case (Cons j js)
  then obtain out dur st res where fire: "fire_jobs http w js (record_run w st j res d) = Inr d'"
    by (auto split: sum.splits prod.splits)
  from Cons.IH [OF fire] show ?case
    by (simp add: record_run_def map_upd_where split: prod.splits)
qed simp

text \<open>C7. One tick that does not raise runs exactly the enabled jobs whose expression matches:
  it appends one run row per due job, in table order and under the job's own tenant, stamps
  the due jobs with the tick, keeps the set of jobs and reports how many ran.\<close>

theorem run_due_jobs_runs_exactly_the_due:
  assumes "run_due_jobs http w d = Inr (n, d')"
  shows "\<exists>new due. due = filter (\<lambda>j. jb_enabled j \<and> cron_matches (jb_cron j) w = Inr True) (db_jobs d)
    \<and> n = length due \<and> db_runs d' = db_runs d @ new
    \<and> map jr_job new = map jb_id due \<and> map jr_tenant new = map jb_tenant due
    \<and> map jb_id (db_jobs d') = map jb_id (db_jobs d)
    \<and> (\<forall>x\<in>set (db_jobs d'). jb_id x \<in> jb_id ` set due \<longrightarrow> jb_last_run x = Some (mo_ts w))"
proof -
  from assms obtain due where due: "due_jobs w (filter jb_enabled (db_jobs d)) = Inr due"
      and fire: "fire_jobs http w due d = Inr d'" and n: "n = length due"
    by (auto simp: run_due_jobs_def split: sum.splits)
  have f: "due = filter (\<lambda>j. jb_enabled j \<and> cron_matches (jb_cron j) w = Inr True) (db_jobs d)"
    unfolding due_jobs_Inr [OF due] filter_filter by (rule filter_cong) auto
  obtain new where new: "db_runs d' = db_runs d @ new" "map jr_job new = map jb_id due"
      "map jr_tenant new = map jb_tenant due"
    using fire_jobs_runs [OF fire] by blast
  have "\<forall>x\<in>set (db_jobs d'). jb_id x \<in> jb_id ` set due \<longrightarrow> jb_last_run x = Some (mo_ts w)"
    using fire_jobs_last_run [OF fire, of "{}"] by simp
  with f n new fire_jobs_ids [OF fire] show ?thesis by (intro exI [of _ new] exI [of _ due] conjI)
qed

definition demo_job :: "string \<Rightarrow> string \<Rightarrow> string \<Rightarrow> scheduled_job" where
  "demo_job i t c = \<lparr>jb_id = i, jb_tenant = t, jb_name = ''n'', jb_cron = c, jb_url = ''http://x'',
     jb_method = ''GET'', jb_enabled = True, jb_last_run = None, jb_last_status = None,
     jb_last_detail = [], jb_created = 0\<rparr>"

definition demo_moment :: moment where
  "demo_moment = \<lparr>mo_ts = 60, mo_minute = 1, mo_hour = 0, mo_day = 2, mo_month = 3, mo_isoweekday = 1\<rparr>"

definition demo_jobs_db :: db where
  "demo_jobs_db = empty_db\<lparr>db_jobs := [demo_job ''a'' ''t1'' ''* * * * *'', demo_job ''b'' ''t2'' ''5 * * * *'']\<rparr>"

theorem run_due_jobs_runs_exactly_the_due_witness:
  "\<exists>new d'. run_due_jobs (\<lambda>_. (HttpStatus 200, 5, 61)) demo_moment demo_jobs_db = Inr (1, d')
     \<and> db_runs d' = db_runs demo_jobs_db @ new \<and> length new = 1"
proof -
  have "map_sum id fst (run_due_jobs (\<lambda>_. (HttpStatus 200, 5, 61)) demo_moment demo_jobs_db) = Inr 1"
    by code_simp
  then obtain d' where r: "run_due_jobs (\<lambda>_. (HttpStatus 200, 5, 61)) demo_moment demo_jobs_db = Inr (1, d')"
    by (elim exE [OF Inr_of_fst])
  obtain new and due :: "scheduled_job list" where
      new: "db_runs d' = db_runs demo_jobs_db @ new" "1 = length due" "map jr_job new = map jb_id due"
    using run_due_jobs_runs_exactly_the_due [OF r] by blast
  then have "length new = 1" by (metis length_map)
  with new(1) r show ?thesis by blast
qed

text \<open>C5. \<open>isdigit\<close> accepts superscript digits and \<open>int\<close> does not, outside any handler: a job
  whose minute field is such a character passes the service's validation, and from then on
  every tick raises before the first request, so that no job of any tenant runs any more.\<close>

theorem superscript_cron_stops_scheduler:
  assumes "create_job d i now t n (CHR 0xB2 # '' * * * *'') url m = Inr (j, d')"
  shows "(\<exists>e. run_due_jobs http w d' = Inl e) \<and> scheduler_jobs_tick http w d' = d'"
proof -
  have strip: "py_strip (CHR 0xB2 # '' * * * *'') = CHR 0xB2 # '' * * * *''" by code_simp
  have split: "split_ws (CHR 0xB2 # '' * * * *'') = [[CHR 0xB2], ''*'', ''*'', ''*'', ''*'']" by code_simp
  have field: "match_field [CHR 0xB2] v = Inl (ValueError [CHR 0xB2])" for v
  proof -
    have s: "py_strip [CHR 0xB2] = [CHR 0xB2]" by code_simp
    have i: "py_int [CHR 0xB2] = None" and g: "py_isdigit [CHR 0xB2]" by code_simp+
    show ?thesis using s i g by (simp add: match_field_def starts_with_def)
  qed
  from assms have j: "j \<in> set (filter jb_enabled (db_jobs d'))" "jb_cron j = CHR 0xB2 # '' * * * *''"
    using strip by (auto simp: create_job_def Let_def split: if_splits)
  have "cron_matches (jb_cron j) w = Inl (ValueError [CHR 0xB2])"
    by (simp add: j(2) cron_matches_def split field and_then_def)
  then obtain e where "due_jobs w (filter jb_enabled (db_jobs d')) = Inl e"
    using due_jobs_raises [OF j(1)] by blast
  then show ?thesis by (simp add: run_due_jobs_def scheduler_jobs_tick_def)
qed

theorem superscript_cron_stops_scheduler_witness:
  "\<exists>j d'. create_job demo_jobs_db ''c'' 0 (Some ''t3'') ''n'' (CHR 0xB2 # '' * * * *'') ''http://x'' ''get''
       = Inr (j, d') \<and> scheduler_jobs_tick (\<lambda>_. (HttpStatus 200, 5, 61)) demo_moment d' = d'"
proof -
  have "\<not> isl (create_job demo_jobs_db ''c'' 0 (Some ''t3'') ''n'' (CHR 0xB2 # '' * * * *'') ''http://x'' ''get'')"
    by code_simp
  then obtain j d' where
    r: "create_job demo_jobs_db ''c'' 0 (Some ''t3'') ''n'' (CHR 0xB2 # '' * * * *'') ''http://x'' ''get'' = Inr (j, d')"
    by (elim exE [OF Inr_pair_of_not_isl] exE)
  from superscript_cron_stops_scheduler [OF r] r show ?thesis by blast
qed

subsection \<open>Tenant isolation of the jobs service\<close>

text \<open>Jobs are tenant-isolated: an update or a deletion that succeeds was asked by the job's
  own tenant and leaves the jobs of all other tenants, and their runs, untouched.\<close>

theorem job_changes_stay_in_tenant:
  assumes "distinct (map jb_id (db_jobs d))"
    and "update_job d t i c u m b = Inr (j', d') \<or> delete_job d t i = Inr d'"
  shows "(\<exists>j\<in>set (db_jobs d). jb_id j = i \<and> jb_tenant j = or_empty t) \<and>
    filter (\<lambda>j. jb_tenant j \<noteq> or_empty t) (db_jobs d') = filter (\<lambda>j. jb_tenant j \<noteq> or_empty t) (db_jobs d)
    \<and> filter (\<lambda>r. jr_job r \<noteq> i) (db_runs d') = filter (\<lambda>r. jr_job r \<noteq> i) (db_runs d)"
proof -
  from assms(2) obtain j where own: "owned_job d t i = Inr j"
    by (auto simp: update_job_def delete_job_def split: sum.splits)
  then have j: "j \<in> set (db_jobs d)" "jb_id j = i" "jb_tenant j = or_empty t"
    by (auto simp: owned_job_Inr dest: find_SomeD)
  have uniq: "jb_tenant x = or_empty t" if "x \<in> set (db_jobs d)" "jb_id x = i" for x
    using distinct_find_unique [OF assms(1) that(1)] distinct_find_unique [OF assms(1) j(1)] that j
    by simp
  from assms(2) show ?thesis
  proof
    assume "update_job d t i c u m b = Inr (j', d')"
    then have d': "d' = d\<lparr>db_jobs := upd_where (\<lambda>x. jb_id x = i) (\<lambda>_. j') (db_jobs d)\<rparr>"
        and "jb_tenant j' = or_empty t"
      using own j(3) by (auto simp: update_job_def Let_def upd_job_fields split: sum.splits dest!: upd_job_fields(1-3))
    then have "filter (\<lambda>j. jb_tenant j \<noteq> or_empty t) (upd_where (\<lambda>x. jb_id x = i) (\<lambda>_. j') (db_jobs d))
        = filter (\<lambda>j. jb_tenant j \<noteq> or_empty t) (db_jobs d)"
      using uniq by (intro filter_upd_where_out) auto
    with d' j show ?thesis by auto
  next
    assume "delete_job d t i = Inr d'"
    then have "d' = d\<lparr>db_runs := filter (\<lambda>r. jr_job r \<noteq> i) (db_runs d),
        db_jobs := filter (\<lambda>x. jb_id x \<noteq> i) (db_jobs d)\<rparr>"
      using own j(2) by (simp add: delete_job_def)
    moreover have "filter (\<lambda>x. jb_tenant x \<noteq> or_empty t \<and> jb_id x \<noteq> i) (db_jobs d)
        = filter (\<lambda>x. jb_tenant x \<noteq> or_empty t) (db_jobs d)"
      using uniq by (intro filter_cong) auto
    ultimately show ?thesis using j by (auto simp: conj_commute)
  qed
qed

theorem job_changes_stay_in_tenant_witness:
  "\<exists>d'. delete_job demo_jobs_db (Some ''t1'') ''a'' = Inr d' \<and>
     filter (\<lambda>j. jb_tenant j \<noteq> ''t1'') (db_jobs d') = [demo_job ''b'' ''t2'' ''5 * * * *'']"
proof -
  have "\<not> isl (delete_job demo_jobs_db (Some ''t1'') ''a'')" by code_simp
  then obtain d' where r: "delete_job demo_jobs_db (Some ''t1'') ''a'' = Inr d'"
    by (elim exE [OF Inr_of_not_isl])
  have "distinct (map jb_id (db_jobs demo_jobs_db))" by code_simp
  from job_changes_stay_in_tenant [OF this, of "Some ''t1''" "''a''" None None None None undefined d'] r
  show ?thesis by (simp add: demo_jobs_db_def demo_job_def empty_db_def)
qed

end
