(* ===== verification/Quota.thy ===== *)
theory Quota
  imports Models
begin

text \<open>
  Subscription plans (\<^verbatim>\<open>modules/plans/service.py\<close>) and the per-tenant quota
  (\<^verbatim>\<open>services/quota.py\<close>): what a tenant's apps cost, the reservation of an app slot and its
  release, the allocation derived from the plan. The interface \<open>slot_pool\<close> states what the
  installers rely on; the quota service is its provider. On PostgreSQL the advisory lock
  makes the read-check-insert of one tenant atomic, which is how \<open>check_and_reserve\<close> is
  modelled.
\<close>

section \<open>Plans\<close>

definition get_default_plan :: "db \<Rightarrow> plan option" where
  "get_default_plan d = find (\<lambda>p. pl_key p = ''free'') (db_plans d)"

definition validate_coherence :: "settings \<Rightarrow> int \<Rightarrow> int \<Rightarrow> int \<Rightarrow> unit result" where
  "validate_coherence cf max_apps cpu mem =
     (let required_cpu = max_apps * cf_app_cpu cf; required_mem = max_apps * cf_app_mem cf in
      if cpu < required_cpu then
        Inl (ValueError (''Plan incoherent: max_apps='' @ int_str max_apps
          @ '' '' @ [CHR 0xD7] @ '' default_app_cpu_millicores='' @ int_str (cf_app_cpu cf)
          @ '' ('' @ int_str required_cpu @ '') exceeds cpu_millicores='' @ int_str cpu @ ''.''))
      else if mem < required_mem then
        Inl (ValueError (''Plan incoherent: max_apps='' @ int_str max_apps
          @ '' '' @ [CHR 0xD7] @ '' default_app_mem_mb='' @ int_str (cf_app_mem cf)
          @ '' ('' @ int_str required_mem @ '') exceeds mem_mb='' @ int_str mem @ ''.''))
      else Inr ())"

text \<open>The key column is unique: creating a plan with a taken key is an IntegrityError.\<close>

definition create_plan ::
  "settings \<Rightarrow> db \<Rightarrow> string \<Rightarrow> string \<Rightarrow> string \<Rightarrow> string \<Rightarrow> int \<Rightarrow> string \<Rightarrow> int \<Rightarrow> int \<Rightarrow> int \<Rightarrow> int \<Rightarrow>
   int \<Rightarrow> int \<Rightarrow> (plan \<times> db) result" where
  "create_plan cf d new_id key nm desc price currency max_apps max_domains cpu mem disk sort_order =
     (case validate_coherence cf max_apps cpu mem of
        Inl e \<Rightarrow> Inl e
      | Inr _ \<Rightarrow>
         (let p = \<lparr>pl_id = new_id, pl_key = py_lower (py_strip key), pl_name = py_strip nm,
                pl_desc = py_strip desc, pl_price = price, pl_currency = py_lower (py_strip currency),
                pl_max_apps = max_apps, pl_max_domains = max_domains, pl_cpu = cpu, pl_mem = mem,
                pl_disk = disk, pl_archived = False, pl_sort = sort_order\<rparr>
          in case insert_unique pl_key p (db_plans d) of
               Inl e \<Rightarrow> Inl e
             | Inr ps \<Rightarrow> Inr (p, d\<lparr>db_plans := ps\<rparr>)))"

text \<open>The keyword fields of an update; a keyword whose value is None is skipped by the code and
  absent here.\<close>

datatype plan_field =
    F_name string | F_description string | F_price int | F_currency string | F_max_apps int
  | F_max_domains int | F_cpu int | F_mem int | F_disk int | F_sort int | F_archived bool

fun set_plan_field :: "plan_field \<Rightarrow> plan \<Rightarrow> plan" where
  "set_plan_field (F_name s) p = p\<lparr>pl_name := s\<rparr>"
| "set_plan_field (F_description s) p = p\<lparr>pl_desc := s\<rparr>"
| "set_plan_field (F_price n) p = p\<lparr>pl_price := n\<rparr>"
| "set_plan_field (F_currency s) p = p\<lparr>pl_currency := s\<rparr>"
| "set_plan_field (F_max_apps n) p = p\<lparr>pl_max_apps := n\<rparr>"
| "set_plan_field (F_max_domains n) p = p\<lparr>pl_max_domains := n\<rparr>"
| "set_plan_field (F_cpu n) p = p\<lparr>pl_cpu := n\<rparr>"
| "set_plan_field (F_mem n) p = p\<lparr>pl_mem := n\<rparr>"
| "set_plan_field (F_disk n) p = p\<lparr>pl_disk := n\<rparr>"
| "set_plan_field (F_sort n) p = p\<lparr>pl_sort := n\<rparr>"
| "set_plan_field (F_archived b) p = p\<lparr>pl_archived := b\<rparr>"

definition update_plan ::
  "settings \<Rightarrow> db \<Rightarrow> string \<Rightarrow> plan_field list \<Rightarrow> (plan option \<times> db) result" where
  "update_plan cf d i kws =
     (case get_plan d i of
        None \<Rightarrow> Inr (None, d)
      | Some p0 \<Rightarrow>
         (let p = fold set_plan_field kws p0 in
          case validate_coherence cf (pl_max_apps p) (pl_cpu p) (pl_mem p) of
            Inl e \<Rightarrow> Inl e
          | Inr _ \<Rightarrow> Inr (Some p, d\<lparr>db_plans := upd_where (\<lambda>q. pl_id q = i) (\<lambda>_. p) (db_plans d)\<rparr>)))"

definition archive_plan :: "db \<Rightarrow> string \<Rightarrow> plan option \<times> db" where
  "archive_plan d i =
     (case get_plan d i of
        None \<Rightarrow> (None, d)
      | Some p0 \<Rightarrow> (let p = p0\<lparr>pl_archived := True\<rparr> in
          (Some p, d\<lparr>db_plans := upd_where (\<lambda>q. pl_id q = i) (\<lambda>_. p) (db_plans d)\<rparr>)))"

definition plan_coherent :: "settings \<Rightarrow> plan \<Rightarrow> bool" where
  "plan_coherent cf p \<longleftrightarrow>
     pl_max_apps p * cf_app_cpu cf \<le> pl_cpu p \<and> pl_max_apps p * cf_app_mem cf \<le> pl_mem p"

section \<open>Usage\<close>

record allocation =
  al_cpu :: int
  al_mem :: int
  al_disk :: int

definition DEFAULT_FREE_MAX_APPS :: int where "DEFAULT_FREE_MAX_APPS = 1"

definition inflight :: "deploy_status \<Rightarrow> bool" where
  "inflight s = (s = STATUS_QUEUED \<or> s = STATUS_BUILDING)"

definition app_rows :: "db \<Rightarrow> string \<Rightarrow> tenant_resource list" where
  "app_rows d tid = filter (\<lambda>r. rs_tenant r = tid \<and> rs_type r = RESOURCE_TYPE_APP) (db_resources d)"

definition reserved_ids :: "db \<Rightarrow> string \<Rightarrow> string list" where
  "reserved_ids d tid = map rs_ext (app_rows d tid)"

definition inflight_unreserved :: "db \<Rightarrow> string \<Rightarrow> deployment list" where
  "inflight_unreserved d tid =
     filter (\<lambda>p. dp_tenant p = tid \<and> inflight (dp_status p) \<and> dp_project p \<notin> set (reserved_ids d tid))
       (db_deployments d)"

definition count_apps :: "db \<Rightarrow> string \<Rightarrow> int" where
  "count_apps d tid = int (length (reserved_ids d tid)) + int (length (inflight_unreserved d tid))"

definition is_platform_scope :: "db \<Rightarrow> string \<Rightarrow> bool" where
  "is_platform_scope d tid = (case get_tenant d tid of None \<Rightarrow> False | Some t \<Rightarrow> tn_platform t)"

definition resolve_plan :: "db \<Rightarrow> string \<Rightarrow> plan option" where
  "resolve_plan d tid =
     (case (case get_tenant d tid of
              None \<Rightarrow> None
            | Some t \<Rightarrow> (case tn_plan_id t of
                          None \<Rightarrow> None
                        | Some pid \<Rightarrow> if pid = [] then None else get_plan d pid)) of
        Some p \<Rightarrow> Some p
      | None \<Rightarrow> get_default_plan d)"

definition resolve_max_apps :: "db \<Rightarrow> string \<Rightarrow> int" where
  "resolve_max_apps d tid =
     (case resolve_plan d tid of None \<Rightarrow> DEFAULT_FREE_MAX_APPS | Some p \<Rightarrow> pl_max_apps p)"

definition plan_allocation :: "settings \<Rightarrow> db \<Rightarrow> string \<Rightarrow> allocation" where
  "plan_allocation cf d tid =
     (case resolve_plan d tid of
        None \<Rightarrow> \<lparr>al_cpu = cf_app_cpu cf, al_mem = cf_app_mem cf, al_disk = cf_app_disk cf\<rparr>
      | Some p \<Rightarrow>
         (let share = max (pl_max_apps p) 1 in
          \<lparr>al_cpu = max (cf_app_cpu cf) (pl_cpu p div share),
           al_mem = max (cf_app_mem cf) (pl_mem p div share),
           al_disk = max (cf_app_disk cf) (pl_disk p div share)\<rparr>))"

text \<open>\<open>column or default\<close>: NULL and 0 both fall back.\<close>

definition int_or :: "int option \<Rightarrow> int \<Rightarrow> int" where
  "int_or x dflt = (case x of None \<Rightarrow> dflt | Some n \<Rightarrow> if n = 0 then dflt else n)"

record usage_report =
  us_apps :: int
  us_cpu :: int
  us_mem :: int
  us_disk :: int

definition usage :: "settings \<Rightarrow> db \<Rightarrow> string \<Rightarrow> usage_report" where
  "usage cf d tid =
     \<lparr>us_apps = count_apps d tid,
      us_cpu = sum_list (map (\<lambda>r. int_or (rs_cpu r) (cf_app_cpu cf)) (app_rows d tid)),
      us_mem = sum_list (map (\<lambda>r. int_or (rs_mem r) (cf_app_mem cf)) (app_rows d tid)),
      us_disk = sum_list (map (\<lambda>r. int_or (rs_disk r) (cf_app_disk cf)) (app_rows d tid))\<rparr>"

section \<open>Reserving and releasing a slot\<close>

definition reservation :: "string \<Rightarrow> string \<Rightarrow> allocation \<Rightarrow> string \<Rightarrow> tenant_resource" where
  "reservation tid project a display =
     \<lparr>rs_tenant = tid, rs_provider = PROVIDER_DOCKER, rs_type = RESOURCE_TYPE_APP, rs_ext = project,
      rs_display = display, rs_cpu = Some (al_cpu a), rs_mem = Some (al_mem a),
      rs_disk = Some (al_disk a)\<rparr>"

definition check_and_reserve ::
  "db \<Rightarrow> string \<Rightarrow> string \<Rightarrow> allocation \<Rightarrow> string \<Rightarrow> db result" where
  "check_and_reserve d tid project a display =
     (if \<not> is_platform_scope d tid \<and> resolve_max_apps d tid < count_apps d tid + 1
      then Inl (QuotaExceeded ''apps'' (resolve_max_apps d tid) (count_apps d tid))
      else Inr (d\<lparr>db_resources := db_resources d @ [reservation tid project a display]\<rparr>))"

definition release :: "db \<Rightarrow> string \<Rightarrow> string \<Rightarrow> db" where
  "release d tid project =
     d\<lparr>db_resources := filter (\<lambda>r. \<not> (rs_tenant r = tid \<and> rs_ext r = project
         \<and> rs_type r = RESOURCE_TYPE_APP)) (db_resources d)\<rparr>"

section \<open>The interface of a slot pool\<close>

text \<open>
  What an installer relies on: a reservation succeeds only below the cap, costs at most one
  slot, leaves the cap alone, and is refused when the pool is full. A request that is
  refused changes nothing, so a sequence of requests never takes the pool over its cap.
\<close>

locale slot_pool =
  fixes used :: "'s \<Rightarrow> int"
    and cap :: "'s \<Rightarrow> int"
    and reserve :: "'s \<Rightarrow> 'r \<Rightarrow> 's result"
  assumes reserve_room: "reserve s r = Inr s' \<Longrightarrow> used s + 1 \<le> cap s"
    and reserve_cost: "reserve s r = Inr s' \<Longrightarrow> used s' \<le> used s + 1"
    and reserve_cap: "reserve s r = Inr s' \<Longrightarrow> cap s' = cap s"
    and reserve_full: "cap s \<le> used s \<Longrightarrow> isl (reserve s r)"
begin

fun request_all :: "'s \<Rightarrow> 'r list \<Rightarrow> 's" where
  "request_all s [] = s"
| "request_all s (r # rs) =
     request_all (case reserve s r of Inl _ \<Rightarrow> s | Inr s' \<Rightarrow> s') rs"

lemma request_step: "used s \<le> cap s \<Longrightarrow> reserve s r = Inr s' \<Longrightarrow> used s' \<le> cap s'"
  using reserve_room reserve_cost reserve_cap by fastforce

lemma request_all_cap: "cap (request_all s rs) = cap s"
  by (induction rs arbitrary: s) (auto split: sum.splits dest: reserve_cap)

lemma request_all_within: "used s \<le> cap s \<Longrightarrow> used (request_all s rs) \<le> cap s"
proof (induction rs arbitrary: s)
  case (Cons r rs)
  show ?case
  proof (cases "reserve s r")
    case (Inl e)
    with Cons show ?thesis by simp
  next
    case (Inr s')
    with Cons.prems have "used s' \<le> cap s'" by (rule request_step)
    from Cons.IH [OF this] Inr reserve_cap show ?thesis by simp
  qed
qed simp

lemma request_all_full: "cap s \<le> used s \<Longrightarrow> request_all s rs = s"
proof (induction rs)
  case (Cons r rs)
  from reserve_full [OF Cons.prems] obtain e where "reserve s r = Inl e" by (auto simp: isl_def)
  with Cons show ?case by simp
qed simp

end

section \<open>The quota service provides the interface\<close>

lemma app_rows_append [simp]:
  "app_rows (d\<lparr>db_resources := db_resources d @ [r]\<rparr>) tid =
   app_rows d tid @ (if rs_tenant r = tid \<and> rs_type r = RESOURCE_TYPE_APP then [r] else [])"
  by (simp add: app_rows_def)

lemma reservation_simps [simp]:
  "rs_tenant (reservation tid p a n) = tid" "rs_type (reservation tid p a n) = RESOURCE_TYPE_APP"
  "rs_ext (reservation tid p a n) = p" "rs_provider (reservation tid p a n) = PROVIDER_DOCKER"
  by (simp_all add: reservation_def)

lemma tenant_plan_frame:
  assumes "db_tenants d' = db_tenants d" and "db_plans d' = db_plans d"
  shows "get_tenant d' = get_tenant d" "get_plan d' = get_plan d"
    "is_platform_scope d' = is_platform_scope d" "resolve_plan d' = resolve_plan d"
    "resolve_max_apps d' = resolve_max_apps d" "plan_allocation cf d' = plan_allocation cf d"
proof -
  show t: "get_tenant d' = get_tenant d" using assms by (simp add: get_tenant_def fun_eq_iff)
  show p: "get_plan d' = get_plan d" using assms by (simp add: get_plan_def fun_eq_iff)
  show "is_platform_scope d' = is_platform_scope d" by (simp add: is_platform_scope_def fun_eq_iff t)
  have f: "get_default_plan d' = get_default_plan d" using assms by (simp add: get_default_plan_def)
  show r: "resolve_plan d' = resolve_plan d" unfolding fun_eq_iff resolve_plan_def t p f by simp
  show "resolve_max_apps d' = resolve_max_apps d" by (simp add: resolve_max_apps_def fun_eq_iff r)
  show "plan_allocation cf d' = plan_allocation cf d" by (simp add: plan_allocation_def fun_eq_iff r)
qed

lemmas resources_frame [simp] =
  tenant_plan_frame [of "d\<lparr>db_resources := rs\<rparr>" d for d :: db and rs, simplified]

lemma check_and_reserve_Inr:
  "check_and_reserve d tid p a n = Inr d' \<longleftrightarrow>
   (is_platform_scope d tid \<or> count_apps d tid + 1 \<le> resolve_max_apps d tid)
   \<and> d' = d\<lparr>db_resources := db_resources d @ [reservation tid p a n]\<rparr>"
  by (auto simp: check_and_reserve_def)

lemma length_filter_le_impl:
  "(\<And>x. x \<in> set xs \<Longrightarrow> P x \<Longrightarrow> Q x) \<Longrightarrow> length (filter P xs) \<le> length (filter Q xs)"
  by (induction xs) auto

lemma count_apps_reserve:
  "count_apps (d\<lparr>db_resources := db_resources d @ [reservation tid p a n]\<rparr>) tid \<le> count_apps d tid + 1"
proof -
  have "length (inflight_unreserved (d\<lparr>db_resources := db_resources d @ [reservation tid p a n]\<rparr>) tid)
      \<le> length (inflight_unreserved d tid)"
    unfolding inflight_unreserved_def
    by (simp, rule length_filter_le_impl) (auto simp: reserved_ids_def)
  then show ?thesis by (simp add: count_apps_def reserved_ids_def)
qed

text \<open>The pool of one customer tenant: its requests are (project, allocation, display name).\<close>

definition tenant_reserve ::
  "string \<Rightarrow> db \<Rightarrow> string \<times> allocation \<times> string \<Rightarrow> db result" where
  "tenant_reserve tid d r = (if is_platform_scope d tid then Inl (OtherError ''platform scope'')
     else check_and_reserve d tid (fst r) (fst (snd r)) (snd (snd r)))"

interpretation quota: slot_pool "\<lambda>d. count_apps d tid" "\<lambda>d. resolve_max_apps d tid" "tenant_reserve tid"
  for tid
  by unfold_locales
    (auto simp: tenant_reserve_def check_and_reserve_Inr count_apps_reserve isl_def
      check_and_reserve_def split: if_splits)

text \<open>A sequence of requests against the service; refused ones change nothing.\<close>

fun reserve_all :: "string \<Rightarrow> db \<Rightarrow> (string \<times> allocation \<times> string) list \<Rightarrow> db" where
  "reserve_all tid d [] = d"
| "reserve_all tid d ((p, a, n) # rs) =
     reserve_all tid (case check_and_reserve d tid p a n of Inl _ \<Rightarrow> d | Inr d' \<Rightarrow> d') rs"

lemmas quota_simps = check_and_reserve_def release_def count_apps_def reserved_ids_def
  inflight_unreserved_def app_rows_def

lemma reserve_all_pool:
  "\<not> is_platform_scope d tid \<Longrightarrow> reserve_all tid d rs = quota.request_all tid d rs"
proof (induction tid d rs rule: reserve_all.induct)
  case (2 tid d p a n rs)
  have "tenant_reserve tid d (p, a, n) = check_and_reserve d tid p a n"
    using "2.prems" by (simp add: tenant_reserve_def)
  moreover have "\<not> is_platform_scope d' tid" if "check_and_reserve d tid p a n = Inr d'" for d'
    using that "2.prems" by (simp add: check_and_reserve_Inr)
  ultimately show ?case using 2 by (cases "check_and_reserve d tid p a n") simp_all
qed simp

lemma release_reserve:
  "project \<notin> set (reserved_ids d tid) \<Longrightarrow>
   release (d\<lparr>db_resources := db_resources d @ [reservation tid project a n]\<rparr>) tid project = d"
proof -
  assume "project \<notin> set (reserved_ids d tid)"
  then have "filter (\<lambda>r. \<not> (rs_tenant r = tid \<and> rs_ext r = project \<and> rs_type r = RESOURCE_TYPE_APP))
      (db_resources d) = db_resources d"
    by (intro filter_True) (auto simp: reserved_ids_def app_rows_def)
  then show ?thesis by (simp add: release_def)
qed

lemma share_bound:
  fixes total dflt n :: int
  assumes "1 \<le> n" "n * dflt \<le> total"
  shows "n * max dflt (total div n) \<le> total"
proof (cases "dflt \<le> total div n")
  case True
  have "n * (total div n) + total mod n = total" by simp
  moreover have "0 \<le> total mod n" using assms(1) by simp
  ultimately have "n * (total div n) \<le> total" by linarith
  with True show ?thesis by (simp add: max_def)
next
  case False
  then show ?thesis using assms(2) by (simp add: max_def)
qed

section \<open>Properties\<close>

text \<open>C1. The app quota is never exceeded: whatever sequence of reservations (projects,
  allocations, names) is requested for a customer tenant that is within its plan's
  \<open>max_apps\<close>, the tenant stays within it, and a tenant at the cap is refused every time with
  nothing changed.\<close>

theorem reservations_never_exceed_plan:
  assumes "\<not> is_platform_scope d tid" and "count_apps d tid \<le> resolve_max_apps d tid"
  shows "count_apps (reserve_all tid d rs) tid \<le> resolve_max_apps d tid \<and>
    (count_apps d tid = resolve_max_apps d tid \<longrightarrow> reserve_all tid d rs = d)"
  using quota.request_all_within [OF assms(2)] quota.request_all_full [of d tid]
  by (simp add: reserve_all_pool [OF assms(1)])

definition demo_quota_db :: db where
  "demo_quota_db = empty_db\<lparr>
     db_tenants := [\<lparr>tn_id = ''t'', tn_name = ''T'', tn_slug = ''t'', tn_status = TENANT_ACTIVE,
       tn_plan_id = Some ''p'', tn_platform = False, tn_signup_ip = None\<rparr>],
     db_plans := [\<lparr>pl_id = ''p'', pl_key = ''pro'', pl_name = ''Pro'', pl_desc = [], pl_price = 900,
       pl_currency = ''usd'', pl_max_apps = 2, pl_max_domains = 1, pl_cpu = 3000, pl_mem = 2048,
       pl_disk = 4096, pl_archived = False, pl_sort = 0\<rparr>]\<rparr>"

definition demo_alloc :: allocation where
  "demo_alloc = \<lparr>al_cpu = 500, al_mem = 512, al_disk = 2048\<rparr>"

theorem reservations_never_exceed_plan_witness:
  "count_apps (reserve_all ''t'' demo_quota_db
      [(''a'', demo_alloc, ''A''), (''b'', demo_alloc, ''B''), (''c'', demo_alloc, ''C'')]) ''t'' \<le> 2"
proof -
  have h: "\<not> is_platform_scope demo_quota_db ''t''"
      "count_apps demo_quota_db ''t'' \<le> resolve_max_apps demo_quota_db ''t''"
      "resolve_max_apps demo_quota_db ''t'' = 2"
    by code_simp+
  from reservations_never_exceed_plan [OF h(1,2)] h(3) show ?thesis by metis
qed

text \<open>Releasing a slot undoes reserving it: when the tenant held no app row for the project,
  a granted reservation followed by the release of that project restores the database
  exactly.\<close>

theorem reserve_release_roundtrip:
  assumes "check_and_reserve d tid project a n = Inr d'" and "project \<notin> set (reserved_ids d tid)"
  shows "release d' tid project = d"
  using assms by (simp add: check_and_reserve_Inr release_reserve)

theorem reserve_release_roundtrip_witness:
  "\<exists>d'. check_and_reserve demo_quota_db ''t'' ''a'' demo_alloc ''A'' = Inr d' \<and> d' \<noteq> demo_quota_db
     \<and> release d' ''t'' ''a'' = demo_quota_db"
proof -
  have "\<not> isl (check_and_reserve demo_quota_db ''t'' ''a'' demo_alloc ''A'')" by code_simp
  then obtain d' where r: "check_and_reserve demo_quota_db ''t'' ''a'' demo_alloc ''A'' = Inr d'"
    by (elim exE [OF Inr_of_not_isl])
  have h: "''a'' \<notin> set (reserved_ids demo_quota_db ''t'')" by code_simp
  have "db_resources d' \<noteq> db_resources demo_quota_db" using r by (simp add: check_and_reserve_Inr)
  with r reserve_release_roundtrip [OF r h] show ?thesis by blast
qed

text \<open>C2. Plans stay coherent: creating, updating or archiving a plan keeps, for every plan in
  the table, \<open>max_apps\<close> times the per-app defaults within the plan's CPU and memory totals.\<close>

theorem plan_operations_keep_coherence:
  assumes "\<forall>p\<in>set (db_plans d). plan_coherent cf p"
    and "(\<exists>q. create_plan cf d i key nm desc price cur ma md cpu mem disk so = Inr (q, d'))
      \<or> (\<exists>q. update_plan cf d i kws = Inr (q, d')) \<or> d' = snd (archive_plan d i)"
  shows "\<forall>p\<in>set (db_plans d'). plan_coherent cf p"
  using assms
  by (auto simp: create_plan_def update_plan_def archive_plan_def validate_coherence_def
      plan_coherent_def insert_unique_Inr set_upd_where get_plan_def Let_def
      split: option.splits sum.splits if_splits dest!: find_SomeD)

definition demo_settings :: settings where
  "demo_settings = \<lparr>cf_app_cpu = 500, cf_app_mem = 512, cf_app_disk = 2048, cf_pids = 256,
     cf_actions = True, cf_base_domain = ''apps.io'', cf_edge_network = ''edge'', cf_registry_url = [],
     cf_keep_images = 5, cf_max_previews = 3, cf_github_token = [], cf_saas_zone = [],
     cf_saas_cname = []\<rparr>"

theorem plan_operations_keep_coherence_witness:
  "\<exists>q d'. create_plan demo_settings demo_quota_db ''q'' '' Team '' ''Team'' [] 1900 ''USD'' 4 2 2000 2048 8192 1
      = Inr (q, d') \<and> (\<forall>p\<in>set (db_plans d'). plan_coherent demo_settings p)"
proof -
  have "\<not> isl (create_plan demo_settings demo_quota_db ''q'' '' Team '' ''Team'' [] 1900 ''USD'' 4 2 2000 2048 8192 1)"
    by code_simp
  then obtain q d' where
    r: "create_plan demo_settings demo_quota_db ''q'' '' Team '' ''Team'' [] 1900 ''USD'' 4 2 2000 2048 8192 1 = Inr (q, d')"
    by (elim exE [OF Inr_pair_of_not_isl] exE)
  have h: "\<forall>p\<in>set (db_plans demo_quota_db). plan_coherent demo_settings p" by code_simp
  from r have "\<exists>q. create_plan demo_settings demo_quota_db ''q'' '' Team '' ''Team'' [] 1900 ''USD'' 4 2 2000 2048 8192 1 = Inr (q, d')"
    by blast
  from plan_operations_keep_coherence [OF h disjI1 [OF this]] r show ?thesis by blast
qed

text \<open>A coherent plan is never over-committed: the allocation of one app is at least the
  platform's default in every dimension, and \<open>max_apps\<close> apps of that size fit in the plan's
  CPU and memory totals.\<close>

theorem plan_allocation_within_plan:
  assumes "resolve_plan d tid = Some p" and "plan_coherent cf p" and "1 \<le> pl_max_apps p"
  shows "cf_app_cpu cf \<le> al_cpu (plan_allocation cf d tid)
    \<and> cf_app_mem cf \<le> al_mem (plan_allocation cf d tid)
    \<and> cf_app_disk cf \<le> al_disk (plan_allocation cf d tid)
    \<and> pl_max_apps p * al_cpu (plan_allocation cf d tid) \<le> pl_cpu p
    \<and> pl_max_apps p * al_mem (plan_allocation cf d tid) \<le> pl_mem p"
  using assms share_bound [of "pl_max_apps p" "cf_app_cpu cf" "pl_cpu p"]
    share_bound [of "pl_max_apps p" "cf_app_mem cf" "pl_mem p"]
  by (simp add: plan_allocation_def plan_coherent_def max_absorb1 Let_def)

theorem plan_allocation_within_plan_witness:
  "al_cpu (plan_allocation demo_settings demo_quota_db ''t'') = 1500
     \<and> 2 * al_cpu (plan_allocation demo_settings demo_quota_db ''t'') \<le> 3000"
proof -
  obtain p where p: "resolve_plan demo_quota_db ''t'' = Some p" "p = hd (db_plans demo_quota_db)"
    by (simp add: resolve_plan_def get_tenant_def get_plan_def demo_quota_db_def)
  have h: "plan_coherent demo_settings p" "1 \<le> pl_max_apps p" "pl_max_apps p = 2" "pl_cpu p = 3000"
    by (simp_all only: p(2), code_simp+)
  have "al_cpu (plan_allocation demo_settings demo_quota_db ''t'') = 1500" by code_simp
  with plan_allocation_within_plan [OF p(1) h(1,2)] h(3,4) show ?thesis by simp
qed

end
