(* ===== verification/Resources.thy ===== *)
theory Resources
  imports Quota
begin

text \<open>
  The per-tenant view of provider resources (\<^verbatim>\<open>services/tenant_resources.py\<close>) and the DNS
  service built on it (\<^verbatim>\<open>modules/dns/service.py\<close>). A tenant sees and changes only what is
  mapped to it in \<open>tenant_resources\<close>; a tenant row flagged as platform scope sees everything.
  Provider clients are parameters: a guarded operation is modelled by the calls it issues to
  the client together with its result. The interface \<open>access_guard\<close> is what every guarded
  operation relies on.
\<close>

section \<open>The filter\<close>

text \<open>The fields of the providers' objects that the filter reads.\<close>

record coolify_object = co_id :: string
record mailcow_domain = md_name :: string
record mailcow_mailbox =
  mb_user :: string
  mb_domain :: string
record mailcow_alias =
  ma_address :: string
  ma_domain :: string
record cf_zone =
  zn_id :: string
  zn_name :: string
record cf_record =
  rc_id :: string
  rc_name :: string

text \<open>The constructor stores \<open>tenant_id or ""\<close>; the scope flag is read once and cached.\<close>

definition fall_open :: "db \<Rightarrow> string option \<Rightarrow> bool" where
  "fall_open d tid =
     (if or_empty tid = [] then False
      else (case get_tenant d (or_empty tid) of None \<Rightarrow> False | Some t \<Rightarrow> tn_platform t))"

definition mapped_values :: "db \<Rightarrow> string option \<Rightarrow> string \<Rightarrow> string \<Rightarrow> string set" where
  "mapped_values d tid provider rtype =
     (if or_empty tid = [] then {}
      else set (filter (\<lambda>v. v \<noteq> [])
             (map rs_ext (filter (\<lambda>r. rs_tenant r = or_empty tid \<and> rs_provider r = provider
                                     \<and> rs_type r = rtype) (db_resources d)))))"

definition is_resource_accessible :: "db \<Rightarrow> string option \<Rightarrow> string \<Rightarrow> string \<Rightarrow> string \<Rightarrow> bool" where
  "is_resource_accessible d tid provider rtype ext =
     (ext \<in> mapped_values d tid provider rtype \<or> fall_open d tid)"

definition filter_sites ::
  "db \<Rightarrow> string option \<Rightarrow> 'a coolify_object_scheme list \<Rightarrow> 'a coolify_object_scheme list" where
  "filter_sites d tid sites =
     (if fall_open d tid then sites
      else filter (\<lambda>s. co_id s \<in> mapped_values d tid PROVIDER_COOLIFY RESOURCE_TYPE_SITE) sites)"

definition filter_mail ::
  "db \<Rightarrow> string option \<Rightarrow> 'a mailcow_domain_scheme list \<Rightarrow> 'b mailcow_mailbox_scheme list \<Rightarrow>
   'a mailcow_domain_scheme list \<times> 'b mailcow_mailbox_scheme list" where
  "filter_mail d tid domains mailboxes =
     (if fall_open d tid then (domains, mailboxes)
      else (let mapped_domains = mapped_values d tid PROVIDER_MAILCOW RESOURCE_TYPE_MAIL_DOMAIN;
                mapped_mailboxes = mapped_values d tid PROVIDER_MAILCOW RESOURCE_TYPE_MAILBOX;
                allowed = set (filter (\<lambda>n. n \<in> mapped_domains) (map md_name domains))
            in (filter (\<lambda>m. md_name m \<in> allowed) domains,
                filter (\<lambda>m. mb_user m \<in> mapped_mailboxes \<or> mb_domain m \<in> allowed) mailboxes)))"

definition filter_aliases ::
  "db \<Rightarrow> string option \<Rightarrow> 'a mailcow_alias_scheme list \<Rightarrow> 'a mailcow_alias_scheme list" where
  "filter_aliases d tid aliases =
     (if fall_open d tid then aliases
      else filter (\<lambda>a. ma_domain a \<in> mapped_values d tid PROVIDER_MAILCOW RESOURCE_TYPE_MAIL_DOMAIN)
             aliases)"

definition filter_dns ::
  "db \<Rightarrow> string option \<Rightarrow> cf_zone list \<Rightarrow> cf_record list \<Rightarrow> string \<Rightarrow>
   cf_zone list \<times> cf_record list \<times> string" where
  "filter_dns d tid zones records selected =
     (if fall_open d tid then (zones, records, selected)
      else (let mapped_zones = mapped_values d tid PROVIDER_CLOUDFLARE RESOURCE_TYPE_DNS_ZONE;
                mapped_records = mapped_values d tid PROVIDER_CLOUDFLARE RESOURCE_TYPE_DNS_RECORD;
                fz = filter (\<lambda>z. zn_id z \<in> mapped_zones) zones;
                chosen = (if selected \<in> set (map zn_id fz) then selected
                        else (case fz of [] \<Rightarrow> [] | z # _ \<Rightarrow> zn_id z))
            in (fz,
                filter (\<lambda>r. rc_id r \<in> mapped_records \<or>
                   chosen \<noteq> [] \<and> list_ex (\<lambda>z. ends_with (zn_name z) (rc_name r))
                                  (filter (\<lambda>z. zn_id z = chosen) fz)) records,
                chosen)))"

definition filter_databases ::
  "db \<Rightarrow> string option \<Rightarrow> 'a coolify_object_scheme list \<Rightarrow> 'a coolify_object_scheme list" where
  "filter_databases d tid dbs =
     (if fall_open d tid then dbs
      else filter (\<lambda>s. co_id s \<in> mapped_values d tid PROVIDER_COOLIFY RESOURCE_TYPE_DATABASE) dbs)"

definition filter_servers ::
  "db \<Rightarrow> string option \<Rightarrow> 'a coolify_object_scheme list \<Rightarrow> 'a coolify_object_scheme list" where
  "filter_servers d tid servers =
     (if fall_open d tid then servers
      else filter (\<lambda>s. co_id s \<in> mapped_values d tid PROVIDER_COOLIFY RESOURCE_TYPE_SERVER) servers)"

lemmas filter_defs = filter_sites_def filter_mail_def filter_aliases_def filter_dns_def
  filter_databases_def filter_servers_def Let_def

lemma mapped_values_iff:
  "v \<in> mapped_values d tid p ty \<longleftrightarrow>
     or_empty tid \<noteq> [] \<and> v \<noteq> [] \<and>
     (\<exists>r\<in>set (db_resources d). rs_tenant r = or_empty tid \<and> rs_provider r = p \<and> rs_type r = ty
        \<and> rs_ext r = v)"
  by (auto simp: mapped_values_def)

lemma mapped_values_empty [simp]: "[] \<notin> mapped_values d tid p ty"
  by (simp add: mapped_values_iff)

lemma fall_open_None [simp]: "\<not> fall_open d None" "\<not> fall_open d (Some [])"
  by (simp_all add: fall_open_def)

lemma filter_dns_zone_mapped:
  assumes "\<not> fall_open d tid" and "filter_dns d tid zones records sel = (zs, rs, chosen)"
  shows "z \<in> set zs \<Longrightarrow>
      zn_id z \<in> mapped_values d tid PROVIDER_CLOUDFLARE RESOURCE_TYPE_DNS_ZONE"
    and "chosen \<noteq> [] \<Longrightarrow>
      chosen \<in> mapped_values d tid PROVIDER_CLOUDFLARE RESOURCE_TYPE_DNS_ZONE"
proof -
  let ?M = "mapped_values d tid PROVIDER_CLOUDFLARE RESOURCE_TYPE_DNS_ZONE"
  have zs: "zs = filter (\<lambda>z. zn_id z \<in> ?M) zones"
    and chosen: "chosen = (if sel \<in> set (map zn_id zs) then sel
                        else (case zs of [] \<Rightarrow> [] | z # _ \<Rightarrow> zn_id z))"
    using assms by (auto simp: filter_dns_def Let_def)
  show "z \<in> set zs \<Longrightarrow> zn_id z \<in> ?M" using zs by simp
  show "chosen \<noteq> [] \<Longrightarrow> chosen \<in> ?M" using zs chosen
    by (auto split: list.splits if_splits simp: filter_eq_Cons_iff)
qed

lemma filter_dns_record:
  assumes "\<not> fall_open d tid" and "filter_dns d tid zones records sel = (zs, rs, chosen)"
    and "r \<in> set rs"
  shows "r \<in> set records \<and>
     (rc_id r \<in> mapped_values d tid PROVIDER_CLOUDFLARE RESOURCE_TYPE_DNS_RECORD \<or>
      (\<exists>z\<in>set zs. ends_with (zn_name z) (rc_name r)))"
  using assms by (auto simp: filter_dns_def Let_def list_ex_iff)

section \<open>The interface of guarded operations\<close>

text \<open>
  \<open>ensure k\<close> raises unless \<open>k\<close> is accessible. An operation written as "ensure, then act"
  issues no call for a resource that is not accessible.
\<close>

definition guarded :: "unit result \<Rightarrow> ('c list \<times> 'r result) \<Rightarrow> 'c list \<times> 'r result" where
  "guarded chk act = (case chk of Inl e \<Rightarrow> ([], Inl e) | Inr _ \<Rightarrow> act)"

locale access_guard =
  fixes accessible :: "'k \<Rightarrow> bool" and ensure :: "'k \<Rightarrow> unit result"
  assumes ensure_ok: "ensure k = Inr () \<longleftrightarrow> accessible k"
begin

lemma guarded_pass: "accessible k \<Longrightarrow> guarded (ensure k) act = act"
  using ensure_ok [of k] by (simp add: guarded_def)

lemma guarded_stop: "\<not> accessible k \<Longrightarrow> \<exists>e. guarded (ensure k) act = ([], Inl e)"
  using ensure_ok [of k] by (cases "ensure k") (auto simp: guarded_def)

lemma guarded_calls: "c \<in> set (fst (guarded (ensure k) act)) \<Longrightarrow> accessible k \<and> c \<in> set (fst act)"
  using guarded_pass [of k act] guarded_stop [of k act] by (cases "accessible k") auto

end

section \<open>DNS service\<close>

text \<open>The calls of the Cloudflare client the service makes to change or read one zone.\<close>

datatype dns_call =
    CreateDnsRecord string string string string int bool "int option"
  | UpdateDnsRecord string string string string string int bool "int option"
  | DeleteDnsRecord string string
  | GetZoneSettings string
  | UpdateZoneSetting string string string
  | UpdateDnssec string string
  | PurgeCache string bool "string list option"
  | GetZoneAnalytics string int
  | ExportDnsRecords string
  | ImportDnsRecords string string

fun call_zone :: "dns_call \<Rightarrow> string" where
  "call_zone (CreateDnsRecord z _ _ _ _ _ _) = z"
| "call_zone (UpdateDnsRecord z _ _ _ _ _ _ _) = z"
| "call_zone (DeleteDnsRecord z _) = z"
| "call_zone (GetZoneSettings z) = z"
| "call_zone (UpdateZoneSetting z _ _) = z"
| "call_zone (UpdateDnssec z _) = z"
| "call_zone (PurgeCache z _ _) = z"
| "call_zone (GetZoneAnalytics z _) = z"
| "call_zone (ExportDnsRecords z) = z"
| "call_zone (ImportDnsRecords z _) = z"

definition send :: "('c \<Rightarrow> 'r result) \<Rightarrow> 'c \<Rightarrow> 'c list \<times> 'r result" where
  "send client c = ([c], client c)"

definition ensure_zone_access :: "db \<Rightarrow> string option \<Rightarrow> string \<Rightarrow> unit result" where
  "ensure_zone_access d tid zone =
     (if is_resource_accessible d tid PROVIDER_CLOUDFLARE RESOURCE_TYPE_DNS_ZONE zone then Inr ()
      else Inl (ProviderAPIError ''Cloudflare'' ''Zone is not assigned to this tenant.'' (Some 403)))"

definition load_dns ::
  "cf_zone list result \<Rightarrow> (string \<Rightarrow> cf_record list result) \<Rightarrow> string option \<Rightarrow>
   (cf_zone list \<times> cf_record list) result" where
  "load_dns list_zones list_records zone =
     (case list_zones of
        Inl e \<Rightarrow> Inl e
      | Inr zones \<Rightarrow>
         (let sel = str_or (or_empty zone) (case zones of [] \<Rightarrow> [] | z # _ \<Rightarrow> zn_id z) in
          if sel = [] then Inr (zones, [])
          else map_sum id (\<lambda>records. (zones, records)) (list_records sel)))"

definition load_dns_for_tenant ::
  "cf_zone list result \<Rightarrow> (string \<Rightarrow> cf_record list result) \<Rightarrow> db \<Rightarrow> string option \<Rightarrow>
   string option \<Rightarrow> (cf_zone list \<times> cf_record list \<times> string) result" where
  "load_dns_for_tenant list_zones list_records d tid zone =
     (case load_dns list_zones list_records zone of
        Inl e \<Rightarrow> Inl e
      | Inr (zones, records) \<Rightarrow>
          Inr (filter_dns d tid zones records
                 (str_or (or_empty zone) (case zones of [] \<Rightarrow> [] | z # _ \<Rightarrow> zn_id z))))"

definition create_record where
  "create_record client zone rtype name content ttl proxied prio =
     send client (CreateDnsRecord zone rtype name content ttl proxied prio)"

definition update_record where
  "update_record client zone rid rtype name content ttl proxied prio =
     send client (UpdateDnsRecord zone rid rtype name content ttl proxied prio)"

definition delete_record where
  "delete_record client zone rid = send client (DeleteDnsRecord zone rid)"

definition create_record_for_tenant where
  "create_record_for_tenant client d tid zone rtype name content ttl proxied prio =
     guarded (ensure_zone_access d tid zone)
       (create_record client zone rtype name content ttl proxied prio)"

definition update_record_for_tenant where
  "update_record_for_tenant client d tid zone rid rtype name content ttl proxied prio =
     guarded (ensure_zone_access d tid zone)
       (update_record client zone rid rtype name content ttl proxied prio)"

definition delete_record_for_tenant where
  "delete_record_for_tenant client d tid zone rid =
     guarded (ensure_zone_access d tid zone) (delete_record client zone rid)"

definition get_zone_settings_for_tenant where
  "get_zone_settings_for_tenant client d tid zone =
     guarded (ensure_zone_access d tid zone) (send client (GetZoneSettings zone))"

definition update_zone_setting_for_tenant where
  "update_zone_setting_for_tenant client d tid zone setting val =
     guarded (ensure_zone_access d tid zone) (send client (UpdateZoneSetting zone setting val))"

definition update_dnssec_for_tenant where
  "update_dnssec_for_tenant client d tid zone status =
     guarded (ensure_zone_access d tid zone) (send client (UpdateDnssec zone status))"

definition purge_cache_for_tenant where
  "purge_cache_for_tenant client d tid zone everything files =
     guarded (ensure_zone_access d tid zone) (send client (PurgeCache zone everything files))"

definition get_zone_analytics_for_tenant where
  "get_zone_analytics_for_tenant client d tid zone days =
     guarded (ensure_zone_access d tid zone) (send client (GetZoneAnalytics zone days))"

definition export_records_for_tenant where
  "export_records_for_tenant client d tid zone =
     guarded (ensure_zone_access d tid zone) (send client (ExportDnsRecords zone))"

definition import_records_for_tenant where
  "import_records_for_tenant client d tid zone bind_text =
     guarded (ensure_zone_access d tid zone) (send client (ImportDnsRecords zone bind_text))"

lemmas dns_op_defs = create_record_for_tenant_def update_record_for_tenant_def
  delete_record_for_tenant_def get_zone_settings_for_tenant_def update_zone_setting_for_tenant_def
  update_dnssec_for_tenant_def purge_cache_for_tenant_def get_zone_analytics_for_tenant_def
  export_records_for_tenant_def import_records_for_tenant_def create_record_def update_record_def
  delete_record_def

interpretation zone_guard: access_guard
  "\<lambda>z. is_resource_accessible d tid PROVIDER_CLOUDFLARE RESOURCE_TYPE_DNS_ZONE z"
  "ensure_zone_access d tid" for d tid
  by unfold_locales (simp add: ensure_zone_access_def)

text \<open>One request to the tenant-guarded surface: the call asked for, through its operation.\<close>

fun dns_request ::
  "(dns_call \<Rightarrow> 'r result) \<Rightarrow> db \<Rightarrow> string option \<Rightarrow> dns_call \<Rightarrow> dns_call list \<times> 'r result" where
  "dns_request client d tid (CreateDnsRecord z ty n c ttl px pr) =
     create_record_for_tenant client d tid z ty n c ttl px pr"
| "dns_request client d tid (UpdateDnsRecord z i ty n c ttl px pr) =
     update_record_for_tenant client d tid z i ty n c ttl px pr"
| "dns_request client d tid (DeleteDnsRecord z i) = delete_record_for_tenant client d tid z i"
| "dns_request client d tid (GetZoneSettings z) = get_zone_settings_for_tenant client d tid z"
| "dns_request client d tid (UpdateZoneSetting z s v) = update_zone_setting_for_tenant client d tid z s v"
| "dns_request client d tid (UpdateDnssec z s) = update_dnssec_for_tenant client d tid z s"
| "dns_request client d tid (PurgeCache z e f) = purge_cache_for_tenant client d tid z e f"
| "dns_request client d tid (GetZoneAnalytics z n) = get_zone_analytics_for_tenant client d tid z n"
| "dns_request client d tid (ExportDnsRecords z) = export_records_for_tenant client d tid z"
| "dns_request client d tid (ImportDnsRecords z b) = import_records_for_tenant client d tid z b"

lemma dns_request_guarded:
  "dns_request client d tid c = guarded (ensure_zone_access d tid (call_zone c)) (send client c)"
  by (cases c) (simp_all add: dns_op_defs)

lemma dns_request_calls:
  assumes "c \<in> set (fst (dns_request client d tid req))"
  shows "c = req \<and>
    is_resource_accessible d tid PROVIDER_CLOUDFLARE RESOURCE_TYPE_DNS_ZONE (call_zone req)"
  using assms zone_guard.guarded_calls [of c d tid "call_zone req" "send client req"]
  by (simp add: dns_request_guarded send_def)

section \<open>Properties\<close>

definition demo_dns_db :: db where
  "demo_dns_db = empty_db\<lparr>
     db_tenants := [\<lparr>tn_id = ''t1'', tn_name = ''One'', tn_slug = ''one'', tn_status = TENANT_ACTIVE,
       tn_plan_id = None, tn_platform = False, tn_signup_ip = None\<rparr>],
     db_resources := [\<lparr>rs_tenant = ''t1'', rs_provider = PROVIDER_CLOUDFLARE,
       rs_type = RESOURCE_TYPE_DNS_ZONE, rs_ext = ''z1'', rs_display = '''', rs_cpu = None,
       rs_mem = None, rs_disk = None\<rparr>]\<rparr>"

definition demo_zones :: "cf_zone list" where
  "demo_zones = [\<lparr>zn_id = ''z1'', zn_name = ''ample.com''\<rparr>, \<lparr>zn_id = ''z2'', zn_name = ''example.com''\<rparr>]"

definition demo_records :: "string \<Rightarrow> cf_record list result" where
  "demo_records z = (if z = ''z2'' then Inr [\<lparr>rc_id = ''r9'', rc_name = ''mail.example.com''\<rparr>] else Inr [])"



lemma listings_show_only_mapped_facts:
  assumes "\<not> fall_open d tid"
  shows "s \<in> set (filter_sites d tid sites) \<Longrightarrow>
      s \<in> set sites \<and> co_id s \<in> mapped_values d tid PROVIDER_COOLIFY RESOURCE_TYPE_SITE"
    and "b \<in> set (filter_databases d tid dbs) \<Longrightarrow>
      b \<in> set dbs \<and> co_id b \<in> mapped_values d tid PROVIDER_COOLIFY RESOURCE_TYPE_DATABASE"
    and "v \<in> set (filter_servers d tid servers) \<Longrightarrow>
      v \<in> set servers \<and> co_id v \<in> mapped_values d tid PROVIDER_COOLIFY RESOURCE_TYPE_SERVER"
    and "a \<in> set (filter_aliases d tid aliases) \<Longrightarrow>
      a \<in> set aliases \<and> ma_domain a \<in> mapped_values d tid PROVIDER_MAILCOW RESOURCE_TYPE_MAIL_DOMAIN"
    and "m \<in> set (fst (filter_mail d tid domains boxes)) \<Longrightarrow>
      m \<in> set domains \<and> md_name m \<in> mapped_values d tid PROVIDER_MAILCOW RESOURCE_TYPE_MAIL_DOMAIN"
    and "x \<in> set (snd (filter_mail d tid domains boxes)) \<Longrightarrow>
      x \<in> set boxes \<and> (mb_user x \<in> mapped_values d tid PROVIDER_MAILCOW RESOURCE_TYPE_MAILBOX \<or>
        mb_domain x \<in> mapped_values d tid PROVIDER_MAILCOW RESOURCE_TYPE_MAIL_DOMAIN)"
    and "filter_dns d tid zones records sel = (zs, rs, chosen) \<Longrightarrow> z \<in> set zs \<Longrightarrow>
      zn_id z \<in> mapped_values d tid PROVIDER_CLOUDFLARE RESOURCE_TYPE_DNS_ZONE"
    and "filter_dns d tid zones records sel = (zs, rs, chosen) \<Longrightarrow> chosen \<noteq> [] \<Longrightarrow>
      chosen \<in> mapped_values d tid PROVIDER_CLOUDFLARE RESOURCE_TYPE_DNS_ZONE"
  using assms filter_dns_zone_mapped [OF assms, of zones records sel zs rs chosen]
  by (auto simp: filter_sites_def filter_databases_def filter_servers_def filter_aliases_def
      filter_mail_def Let_def)

text \<open>
  The listing filters deny by default: for a tenant that is not platform scope every
  listed site, database, server, mail domain, alias and zone is mapped to it, a mailbox is
  mapped or lies in a mapped domain, and the zone selected for display is one of the tenant's.
\<close>

theorem listings_show_only_mapped:
  assumes "\<not> fall_open d tid"
  shows "(s \<in> set (filter_sites d tid sites) \<longrightarrow>
      s \<in> set sites \<and> co_id s \<in> mapped_values d tid PROVIDER_COOLIFY RESOURCE_TYPE_SITE) \<and>
     (b \<in> set (filter_databases d tid dbs) \<longrightarrow>
      b \<in> set dbs \<and> co_id b \<in> mapped_values d tid PROVIDER_COOLIFY RESOURCE_TYPE_DATABASE) \<and>
     (v \<in> set (filter_servers d tid servers) \<longrightarrow>
      v \<in> set servers \<and> co_id v \<in> mapped_values d tid PROVIDER_COOLIFY RESOURCE_TYPE_SERVER) \<and>
     (a \<in> set (filter_aliases d tid aliases) \<longrightarrow>
      a \<in> set aliases \<and> ma_domain a \<in> mapped_values d tid PROVIDER_MAILCOW RESOURCE_TYPE_MAIL_DOMAIN) \<and>
     (m \<in> set (fst (filter_mail d tid domains boxes)) \<longrightarrow>
      m \<in> set domains \<and> md_name m \<in> mapped_values d tid PROVIDER_MAILCOW RESOURCE_TYPE_MAIL_DOMAIN) \<and>
     (x \<in> set (snd (filter_mail d tid domains boxes)) \<longrightarrow>
      x \<in> set boxes \<and> (mb_user x \<in> mapped_values d tid PROVIDER_MAILCOW RESOURCE_TYPE_MAILBOX \<or>
        mb_domain x \<in> mapped_values d tid PROVIDER_MAILCOW RESOURCE_TYPE_MAIL_DOMAIN)) \<and>
     (filter_dns d tid zones records sel = (zs, rs, chosen) \<longrightarrow> z \<in> set zs \<longrightarrow>
      zn_id z \<in> mapped_values d tid PROVIDER_CLOUDFLARE RESOURCE_TYPE_DNS_ZONE) \<and>
     (filter_dns d tid zones records sel = (zs, rs, chosen) \<longrightarrow> chosen \<noteq> [] \<longrightarrow>
      chosen \<in> mapped_values d tid PROVIDER_CLOUDFLARE RESOURCE_TYPE_DNS_ZONE)"
proof -
  have 1: "s \<in> set (filter_sites d tid sites) \<longrightarrow>
      s \<in> set sites \<and> co_id s \<in> mapped_values d tid PROVIDER_COOLIFY RESOURCE_TYPE_SITE"
    by ((intro impI)?, rule listings_show_only_mapped_facts(1); (assumption | rule assms))
  have 2: "b \<in> set (filter_databases d tid dbs) \<longrightarrow>
      b \<in> set dbs \<and> co_id b \<in> mapped_values d tid PROVIDER_COOLIFY RESOURCE_TYPE_DATABASE"
    by ((intro impI)?, rule listings_show_only_mapped_facts(2); (assumption | rule assms))
  have 3: "v \<in> set (filter_servers d tid servers) \<longrightarrow>
      v \<in> set servers \<and> co_id v \<in> mapped_values d tid PROVIDER_COOLIFY RESOURCE_TYPE_SERVER"
    by ((intro impI)?, rule listings_show_only_mapped_facts(3); (assumption | rule assms))
  have 4: "a \<in> set (filter_aliases d tid aliases) \<longrightarrow>
      a \<in> set aliases \<and> ma_domain a \<in> mapped_values d tid PROVIDER_MAILCOW RESOURCE_TYPE_MAIL_DOMAIN"
    by ((intro impI)?, rule listings_show_only_mapped_facts(4); (assumption | rule assms))
  have 5: "m \<in> set (fst (filter_mail d tid domains boxes)) \<longrightarrow>
      m \<in> set domains \<and> md_name m \<in> mapped_values d tid PROVIDER_MAILCOW RESOURCE_TYPE_MAIL_DOMAIN"
    by ((intro impI)?, rule listings_show_only_mapped_facts(5); (assumption | rule assms))
  have 6: "x \<in> set (snd (filter_mail d tid domains boxes)) \<longrightarrow>
      x \<in> set boxes \<and> (mb_user x \<in> mapped_values d tid PROVIDER_MAILCOW RESOURCE_TYPE_MAILBOX \<or>
        mb_domain x \<in> mapped_values d tid PROVIDER_MAILCOW RESOURCE_TYPE_MAIL_DOMAIN)"
    by ((intro impI)?, rule listings_show_only_mapped_facts(6); (assumption | rule assms))
  have 7: "filter_dns d tid zones records sel = (zs, rs, chosen) \<longrightarrow> z \<in> set zs \<longrightarrow>
      zn_id z \<in> mapped_values d tid PROVIDER_CLOUDFLARE RESOURCE_TYPE_DNS_ZONE"
    by ((intro impI)?, rule listings_show_only_mapped_facts(7); (assumption | rule assms))
  have 8: "filter_dns d tid zones records sel = (zs, rs, chosen) \<longrightarrow> chosen \<noteq> [] \<longrightarrow>
      chosen \<in> mapped_values d tid PROVIDER_CLOUDFLARE RESOURCE_TYPE_DNS_ZONE"
    by ((intro impI)?, rule listings_show_only_mapped_facts(8); (assumption | rule assms))
  show ?thesis by (rule conjI [OF 1 conjI [OF 2 conjI [OF 3 conjI [OF 4 conjI [OF 5 conjI [OF 6 conjI [OF 7 8]]]]]]])
qed

lemma listings_show_only_mapped_witness:
  "zn_id (hd (fst (filter_dns demo_dns_db (Some ''t1'') demo_zones [] ''z2''))) \<in>
     mapped_values demo_dns_db (Some ''t1'') PROVIDER_CLOUDFLARE RESOURCE_TYPE_DNS_ZONE"
proof -
  let ?f = "filter_dns demo_dns_db (Some ''t1'') demo_zones [] ''z2''"
  have np: "\<not> fall_open demo_dns_db (Some ''t1'')" by code_simp
  have "fst ?f \<noteq> []" by code_simp
  then show ?thesis
    using listings_show_only_mapped [where sites = "[] :: coolify_object list" and dbs = "[] :: coolify_object list"
        and servers = "[] :: coolify_object list" and aliases = "[] :: mailcow_alias list"
        and domains = "[] :: mailcow_domain list" and boxes = "[] :: mailcow_mailbox list" and zones = demo_zones and records = "[]" and sel = "''z2''"
        and zs = "fst ?f" and rs = "fst (snd ?f)" and chosen = "snd (snd ?f)" and z = "hd (fst ?f)", OF np] by simp
qed

text \<open>
  The record filter compares names by suffix without a label boundary, and the listing
  loads the records of whatever zone is asked for: if the tenant's first zone name is a suffix
  of a record name of another zone, asking for that other zone lists the foreign record, under
  the tenant's own zone.
\<close>

theorem dns_listing_leaks_suffix_zone:
  assumes "\<not> fall_open d tid" and "foreign \<noteq> []"
    and "foreign \<notin> mapped_values d tid PROVIDER_CLOUDFLARE RESOURCE_TYPE_DNS_ZONE"
    and "filter (\<lambda>z. zn_id z \<in> mapped_values d tid PROVIDER_CLOUDFLARE RESOURCE_TYPE_DNS_ZONE) zones
           = own # rest"
    and "list_records foreign = Inr records" and "r \<in> set records"
    and "ends_with (zn_name own) (rc_name r)"
  shows "\<exists>zs rs. load_dns_for_tenant (Inr zones) list_records d tid (Some foreign) =
            Inr (zs, rs, zn_id own) \<and> r \<in> set rs"
proof -
  let ?M = "mapped_values d tid PROVIDER_CLOUDFLARE RESOURCE_TYPE_DNS_ZONE"
  have mem: "set (own # rest) \<subseteq> {z. zn_id z \<in> ?M}"
    unfolding assms(4) [symmetric] by auto
  then have own: "zn_id own \<in> ?M" by simp
  then have ne: "zn_id own \<noteq> []" using mapped_values_empty by metis
  have nf: "foreign \<notin> zn_id ` set (own # rest)" using mem assms(3) by auto
  have load: "load_dns_for_tenant (Inr zones) list_records d tid (Some foreign) =
      Inr (filter_dns d tid zones records foreign)"
    using assms(2,5) by (simp add: load_dns_for_tenant_def load_dns_def Let_def)
  have "\<exists>zs rs. filter_dns d tid zones records foreign = (zs, rs, zn_id own) \<and> r \<in> set rs"
    unfolding filter_dns_def Let_def assms(4) using assms(1,6,7) ne nf by auto
  with load show ?thesis by simp
qed

lemma dns_listing_leaks_suffix_zone_witness:
  "\<exists>zs rs. load_dns_for_tenant (Inr demo_zones) demo_records demo_dns_db (Some ''t1'') (Some ''z2'') =
     Inr (zs, rs, ''z1'') \<and> \<lparr>rc_id = ''r9'', rc_name = ''mail.example.com''\<rparr> \<in> set rs"
proof -
  let ?r = "\<lparr>rc_id = ''r9'', rc_name = ''mail.example.com''\<rparr>"
  have np: "\<not> fall_open demo_dns_db (Some ''t1'')" by code_simp
  have foreign: "''z2'' \<notin> mapped_values demo_dns_db (Some ''t1'') PROVIDER_CLOUDFLARE RESOURCE_TYPE_DNS_ZONE"
    by code_simp
  have fz: "filter (\<lambda>z. zn_id z \<in> mapped_values demo_dns_db (Some ''t1'') PROVIDER_CLOUDFLARE
        RESOURCE_TYPE_DNS_ZONE) demo_zones = [\<lparr>zn_id = ''z1'', zn_name = ''ample.com''\<rparr>]"
    by code_simp
  have rec: "demo_records ''z2'' = Inr [?r]" by (simp add: demo_records_def)
  have suf: "ends_with (zn_name \<lparr>zn_id = ''z1'', zn_name = ''ample.com''\<rparr>) (rc_name ?r)" by code_simp
  show ?thesis
    using dns_listing_leaks_suffix_zone [of demo_dns_db "Some ''t1''" "''z2''" demo_zones
          "\<lparr>zn_id = ''z1'', zn_name = ''ample.com''\<rparr>" "[]" demo_records "[?r]", OF np _ foreign fz rec,
        of ?r] suf by simp
qed

end
