(* ===== verification/Totp.thy ===== *)
theory Totp
  imports Prelude
begin

text \<open>
  RFC 6238 one-time passwords and recovery codes (\<^verbatim>\<open>services/totp.py\<close>). Bytes are naturals
  below 256. HMAC-SHA1 and SHA-256 are parameters, the random bytes and numbers are arguments.
\<close>

section \<open>Base 32\<close>

text \<open>Bits, most significant first.\<close>

fun to_bits :: "nat \<Rightarrow> nat \<Rightarrow> bool list" where
  "to_bits 0 n = []"
| "to_bits (Suc w) n = to_bits w (n div 2) @ [odd n]"

definition of_bits :: "bool list \<Rightarrow> nat" where
  "of_bits bs = fold (\<lambda>b n. 2 * n + of_bool b) bs 0"

text \<open>Groups of \<open>w\<close>; an incomplete last group is dropped.\<close>

function groups :: "nat \<Rightarrow> 'a list \<Rightarrow> 'a list list" where
  "groups w xs = (if w = 0 \<or> length xs < w then [] else take w xs # groups w (drop w xs))"
  by pat_completeness auto
termination by (relation "measure (\<lambda>(w, xs). length xs)") auto

declare groups.simps [simp del]

definition B32 :: string where "B32 = ''ABCDEFGHIJKLMNOPQRSTUVWXYZ234567''"

definition b32_value :: "char \<Rightarrow> nat option" where
  "b32_value c = (if c \<in> set B32 then Some (length (takeWhile (\<lambda>x. x \<noteq> c) B32)) else None)"

text \<open>\<open>base64.b32encode\<close>: the last group is filled with zero bits, the text with \<open>=\<close>.\<close>

definition b32encode :: "nat list \<Rightarrow> string" where
  "b32encode bytes =
     (let bits = concat (map (to_bits 8) bytes);
          fill = (5 - length bits mod 5) mod 5;
          chars = map (\<lambda>g. B32 ! of_bits g) (groups 5 (bits @ replicate fill False))
      in chars @ replicate ((8 - length chars mod 8) mod 8) (CHR ''=''))"

text \<open>\<open>base64.b32decode\<close> of a text whose length is a multiple of 8.\<close>

definition b32decode :: "string \<Rightarrow> nat list result" where
  "b32decode s =
     (let body = rstrip_if (\<lambda>c. c = CHR ''='') s; pad = length s - length body in
      if \<not> ascii_str s then Inl (ValueError ''string argument should contain only ASCII characters'')
      else if length s mod 8 \<noteq> 0 then Inl (ValueError ''Incorrect padding'')
      else if \<not> list_all (\<lambda>c. b32_value c \<noteq> None) body then Inl (ValueError ''Non-base32 digit found'')
      else if pad \<notin> set [0, 1, 3, 4, 6] then Inl (ValueError ''Incorrect padding'')
      else Inr (map of_bits (groups 8 (concat (map (\<lambda>c. to_bits 5 (the (b32_value c))) body)))))"

definition generate_secret :: "nat list \<Rightarrow> string" where
  "generate_secret raw = rstrip_if (\<lambda>c. c = CHR ''='') (b32encode raw)"

definition totp_b32decode :: "string \<Rightarrow> nat list result" where
  "totp_b32decode secret =
     (let padded = py_upper (replace_char (CHR '' '') [] (py_strip secret)) in
      b32decode (py_upper (padded @ replicate ((8 - length padded mod 8) mod 8) (CHR ''=''))))"

section \<open>One-time passwords\<close>

definition DIGITS :: nat where "DIGITS = 6"
definition PERIOD :: int where "PERIOD = 30"

definition zfill :: "nat \<Rightarrow> string \<Rightarrow> string" where
  "zfill w s = replicate (w - length s) (CHR ''0'') @ s"

text \<open>\<open>struct.pack(">Q", n)\<close> and \<open>struct.unpack(">I", b)\<close>; both raise struct.error out of range.\<close>

definition pack_u64 :: "int \<Rightarrow> nat list result" where
  "pack_u64 n =
     (if 0 \<le> n \<and> n < 2 ^ 64 then Inr (map of_bits (groups 8 (to_bits 64 (nat n))))
      else Inl (OtherError ''struct.error''))"

definition unpack_u32 :: "nat list \<Rightarrow> nat result" where
  "unpack_u32 b =
     (if length b = 4 then Inr (fold (\<lambda>x n. 256 * n + x) b 0) else Inl (OtherError ''struct.error''))"

definition hotp_truncate :: "nat list \<Rightarrow> string result" where
  "hotp_truncate digest =
     (let offset = last digest mod 16 in
      case unpack_u32 (take 4 (drop offset digest)) of
        Inl e \<Rightarrow> Inl e
      | Inr v \<Rightarrow> Inr (zfill DIGITS (nat_str (v mod 2 ^ 31 mod 10 ^ DIGITS))))"

definition hotp :: "(nat list \<Rightarrow> nat list \<Rightarrow> nat list) \<Rightarrow> string \<Rightarrow> int \<Rightarrow> string result" where
  "hotp hmac secret counter =
     (case totp_b32decode secret of
        Inl e \<Rightarrow> Inl e
      | Inr key \<Rightarrow>
         (case pack_u64 counter of
            Inl e \<Rightarrow> Inl e
          | Inr msg \<Rightarrow> hotp_truncate (hmac key msg)))"

definition normalize_code :: "string \<Rightarrow> string" where
  "normalize_code code = filter py_digit code"

fun verify_drifts ::
  "(nat list \<Rightarrow> nat list \<Rightarrow> nat list) \<Rightarrow> string \<Rightarrow> string \<Rightarrow> int \<Rightarrow> int list \<Rightarrow> bool result" where
  "verify_drifts hmac secret code counter [] = Inr False"
| "verify_drifts hmac secret code counter (d # ds) =
     (case hotp hmac secret (counter + d) of
        Inl e \<Rightarrow> Inl e
      | Inr candidate \<Rightarrow>
         (case compare_digest candidate code of
            Inl e \<Rightarrow> Inl e
          | Inr True \<Rightarrow> Inr True
          | Inr False \<Rightarrow> verify_drifts hmac secret code counter ds))"

text \<open>\<open>now\<close> is the clock in whole seconds.\<close>

definition totp_verify ::
  "(nat list \<Rightarrow> nat list \<Rightarrow> nat list) \<Rightarrow> string \<Rightarrow> string \<Rightarrow> int \<Rightarrow> int \<Rightarrow> bool result" where
  "totp_verify hmac secret code window now =
     (if length (normalize_code code) \<noteq> DIGITS then Inr False
      else verify_drifts hmac secret (normalize_code code) (now div PERIOD) [- window..window])"

section \<open>Recovery codes\<close>

definition generate_backup_codes :: "(nat \<times> nat) list \<Rightarrow> string list" where
  "generate_backup_codes rs = map (\<lambda>(a, b). zfill 5 (nat_str a) @ ''-'' @ zfill 5 (nat_str b)) rs"

definition hash_backup_code :: "(string \<Rightarrow> string) \<Rightarrow> string \<Rightarrow> string" where
  "hash_backup_code sha code = sha (py_lower (replace_char (CHR '' '') [] (py_strip code)))"

section \<open>Facts about the encoding\<close>

lemma length_to_bits [simp]: "length (to_bits w n) = w"
  by (induction w arbitrary: n) auto

lemma of_bits_snoc [simp]: "of_bits (bs @ [b]) = 2 * of_bits bs + of_bool b"
  by (simp add: of_bits_def)

lemma of_bits_Nil [simp]: "of_bits [] = 0"
  by (simp add: of_bits_def)

lemma of_bits_to_bits: "n < 2 ^ w \<Longrightarrow> of_bits (to_bits w n) = n"
proof (induction w arbitrary: n)
  case (Suc w)
  then have "of_bits (to_bits w (n div 2)) = n div 2" by simp
  moreover have "2 * (n div 2) + of_bool (odd n) = n" by (cases "even n") auto
  ultimately show ?case by simp
qed simp

lemma to_bits_of_bits: "to_bits (length bs) (of_bits bs) = bs"
proof (induction bs rule: rev_induct)
  case (snoc b bs)
  then show ?case by (cases b) auto
qed simp

lemma of_bits_less: "of_bits bs < 2 ^ length bs"
  by (induction bs rule: rev_induct) (auto simp: of_bool_def)

lemma groups_length: "g \<in> set (groups w xs) \<Longrightarrow> length g = w"
  by (induction w xs rule: groups.induct) (subst (asm) groups.simps, auto split: if_splits)

lemma concat_groups: "w dvd length xs \<Longrightarrow> 0 < w \<Longrightarrow> concat (groups w xs) = xs"
proof (induction w xs rule: groups.induct)
  case (1 w xs)
  show ?case
  proof (cases "length xs < w")
    case True
    then have "length xs = 0" using "1.prems" by (metis dvd_imp_le not_less gr0I)
    then show ?thesis using "1.prems"(2) by (simp add: groups.simps [of w "[]"])
  next
    case False
    then have "w dvd length (drop w xs)" using "1.prems" by (auto simp: dvd_minus_self)
    with "1.IH" False "1.prems"(2) show ?thesis by (simp add: groups.simps [of w xs])
  qed
qed

lemma groups_concat:
  "0 < w \<Longrightarrow> (\<And>g. g \<in> set gs \<Longrightarrow> length g = w) \<Longrightarrow> groups w (concat gs) = gs"
proof (induction gs)
  case Nil
  then show ?case by (simp add: groups.simps)
next
  case (Cons g gs)
  then have "length g = w" and "groups w (concat gs) = gs" by auto
  with Cons.prems(1) show ?case by (simp add: groups.simps [of w "g @ concat gs"])
qed

lemma B32_facts: "length B32 = 32" "distinct B32" "CHR ''='' \<notin> set B32"
  "\<forall>c\<in>set B32. ord_of c < 128 \<and> upper_char c = [c] \<and> \<not> py_space c \<and> c \<noteq> CHR '' ''"
  by code_simp+

lemma b32_value_nth: "n < 32 \<Longrightarrow> b32_value (B32 ! n) = Some n"
proof -
  have "\<forall>n\<in>set [0..<32]. b32_value (B32 ! n) = Some n" by code_simp
  then show "n < 32 \<Longrightarrow> b32_value (B32 ! n) = Some n" by simp
qed

text \<open>The text of a secret of whole 5-byte groups, as the decoder sees it.\<close>

definition b32_chars :: "nat list \<Rightarrow> string" where
  "b32_chars bytes = map (\<lambda>g. B32 ! of_bits g) (groups 5 (concat (map (to_bits 8) bytes)))"

lemma b32_chars_mem: "c \<in> set (b32_chars bytes) \<Longrightarrow> c \<in> set B32"
proof -
  assume "c \<in> set (b32_chars bytes)"
  then obtain g where "g \<in> set (groups 5 (concat (map (to_bits 8) bytes)))" "c = B32 ! of_bits g"
    by (auto simp: b32_chars_def)
  then show ?thesis using of_bits_less [of g] B32_facts(1) groups_length by fastforce
qed

lemma length_groups: "w dvd length xs \<Longrightarrow> 0 < w \<Longrightarrow> length (groups w xs) = length xs div w"
proof (induction w xs rule: groups.induct)
  case (1 w xs)
  show ?case
  proof (cases "length xs < w")
    case True
    then show ?thesis by (simp add: groups.simps [of w xs])
  next
    case False
    then have "w dvd length (drop w xs)" using "1.prems" by (auto simp: dvd_minus_self)
    with "1.IH" False "1.prems"(2) show ?thesis
      by (simp add: groups.simps [of w xs] le_div_geq)
  qed
qed

lemma concat_bits_length: "length (concat (map (to_bits 8) bytes)) = 8 * length bytes"
  by (induction bytes) auto

lemma b32encode_whole:
  assumes "5 dvd length bytes"
  shows "b32encode bytes = b32_chars bytes"
    and "length (b32_chars bytes) mod 8 = 0"
proof -
  obtain k where k: "length bytes = 5 * k" using assms by (elim dvdE)
  have l: "length (concat (map (to_bits 8) bytes)) = 5 * (8 * k)"
    using k by (simp add: concat_bits_length)
  then have g: "length (b32_chars bytes) = 8 * k"
    unfolding b32_chars_def length_map by (subst length_groups) simp_all
  then show "length (b32_chars bytes) mod 8 = 0" by simp
  show "b32encode bytes = b32_chars bytes"
    using l g by (simp add: b32encode_def b32_chars_def Let_def del: length_concat)
qed

lemma b32decode_chars:
  assumes "5 dvd length bytes" and "\<forall>b\<in>set bytes. b < 256"
  shows "b32decode (b32_chars bytes) = Inr bytes"
proof -
  let ?s = "b32_chars bytes" and ?bits = "concat (map (to_bits 8) bytes)"
  have mem: "c \<in> set ?s \<Longrightarrow> c \<in> set B32" for c by (rule b32_chars_mem)
  have body: "rstrip_if (\<lambda>c. c = CHR ''='') ?s = ?s"
    using mem B32_facts(3) by (intro rstrip_if_id) (metis last_in_set)
  have asc: "ascii_str ?s" using mem B32_facts(4) by (auto simp: ascii_str_def list_all_iff)
  have val: "list_all (\<lambda>c. b32_value c \<noteq> None) ?s"
    using mem by (auto simp: list_all_iff b32_value_def)
  have "5 dvd length ?bits" using assms(1) by (simp add: concat_bits_length del: length_concat)
  then have g: "concat (groups 5 ?bits) = ?bits" by (rule concat_groups) simp
  have "map (\<lambda>c. to_bits 5 (the (b32_value c))) ?s = map (\<lambda>g. g) (groups 5 ?bits)"
    unfolding b32_chars_def map_map
  proof (rule map_cong [OF refl])
    fix g assume "g \<in> set (groups 5 ?bits)"
    then have "length g = 5" by (rule groups_length)
    then show "((\<lambda>c. to_bits 5 (the (b32_value c))) \<circ> (\<lambda>g. B32 ! of_bits g)) g = g"
      using of_bits_less [of g] to_bits_of_bits [of g] by (simp add: b32_value_nth)
  qed
  then have "concat (map (\<lambda>c. to_bits 5 (the (b32_value c))) ?s) = ?bits" using g by simp
  moreover have "groups 8 ?bits = map (to_bits 8) bytes" by (rule groups_concat) auto
  moreover have "map of_bits (map (to_bits 8) bytes) = bytes"
    unfolding map_map using assms(2) by (intro map_idI) (simp add: of_bits_to_bits)
  ultimately have "map of_bits (groups 8 (concat (map (\<lambda>c. to_bits 5 (the (b32_value c))) ?s))) = bytes"
    by simp
  with asc val body b32encode_whole(2) [OF assms(1)] show ?thesis
    by (simp add: b32decode_def Let_def)
qed

lemma clean_text:
  assumes "\<forall>c\<in>set s. c \<in> set B32"
  shows "py_strip s = s" and "replace_char (CHR '' '') [] s = s" and "py_upper s = s"
proof -
  have sp: "c \<in> set s \<Longrightarrow> \<not> py_space c \<and> c \<noteq> CHR '' '' \<and> upper_char c = [c]" for c
    using assms B32_facts(4) by auto
  show "py_strip s = s" unfolding py_strip_def
    by (rule strip_if_id) (metis sp hd_in_set last_in_set)
  show "replace_char (CHR '' '') [] s = s" using sp unfolding replace_char_def
    by (induction s) auto
  show "py_upper s = s" using sp unfolding py_upper_def by (induction s) auto
qed

lemma totp_secret_roundtrip:
  assumes "5 dvd length raw" and "\<forall>b\<in>set raw. b < 256"
  shows "totp_b32decode (generate_secret raw) = Inr raw"
proof -
  have mem: "\<forall>c\<in>set (b32_chars raw). c \<in> set B32" using b32_chars_mem by auto
  have "generate_secret raw = b32_chars raw"
    unfolding generate_secret_def b32encode_whole(1) [OF assms(1)]
    using mem B32_facts(3) by (intro rstrip_if_id) (metis last_in_set)
  then show ?thesis
    using clean_text [OF mem] b32encode_whole(2) [OF assms(1)] b32decode_chars [OF assms]
    by (simp add: totp_b32decode_def Let_def)
qed

section \<open>Facts about the codes\<close>

lemma length_nat_str_bound: "n < 10 ^ k \<Longrightarrow> 0 < k \<Longrightarrow> length (nat_str n) \<le> k"
proof (induction n arbitrary: k rule: nat_str.induct)
  case (1 n)
  show ?case
  proof (cases "n < 10")
    case True
    with 1 show ?thesis by (simp add: nat_str.simps [of n])
  next
    case False
    then have k: "1 < k" using "1.prems" by (metis less_one linorder_neqE_nat power_one_right not_less_zero)
    then have "n div 10 < 10 ^ (k - 1)"
      using "1.prems"(1) by (simp add: less_mult_imp_div_less power_eq_if [of _ k] mult.commute)
    with "1.IH" [OF False, of "k - 1"] k have "length (nat_str (n div 10)) \<le> k - 1" by simp
    with False k show ?thesis by (simp add: nat_str.simps [of n])
  qed
qed

lemma zfill_digits:
  assumes "length (nat_str n) \<le> w"
  shows "length (zfill w (nat_str n)) = w" and "\<forall>c\<in>set (zfill w (nat_str n)). ascii_digit c"
  using assms nat_str_digits [of _ n] by (auto simp: zfill_def ascii_digit_def ord_of_def)

lemma hotp_truncate_digits:
  assumes "hotp_truncate digest = Inr c"
  shows "length c = DIGITS \<and> (\<forall>x\<in>set c. ascii_digit x)"
proof -
  obtain v where "c = zfill DIGITS (nat_str (v mod 2 ^ 31 mod 10 ^ DIGITS))"
    using assms by (auto simp: hotp_truncate_def Let_def split: sum.splits)
  moreover have "length (nat_str (v mod 2 ^ 31 mod 10 ^ DIGITS)) \<le> DIGITS"
    by (rule length_nat_str_bound) (simp_all add: DIGITS_def)
  ultimately show ?thesis using zfill_digits by blast
qed

lemma hotp_digits: "hotp hmac secret n = Inr c \<Longrightarrow> length c = DIGITS \<and> (\<forall>x\<in>set c. ascii_digit x)"
  by (auto simp: hotp_def split: sum.splits dest: hotp_truncate_digits)

lemma ascii_digits_str: "\<forall>x\<in>set c. ascii_digit x \<Longrightarrow> ascii_str c"
  by (auto simp: ascii_str_def ascii_digit_def list_all_iff Let_def)

lemma normalize_digits: "\<forall>x\<in>set c. ascii_digit x \<Longrightarrow> normalize_code c = c"
  by (auto simp: normalize_code_def filter_id_conv intro: ascii_digit_facts)

lemma hotp_total:
  assumes "totp_b32decode secret = Inr key" and "\<And>k m. length (hmac k m) = 20"
    and "0 \<le> n" and "n < 2 ^ 64"
  shows "\<exists>c. hotp hmac secret n = Inr c"
proof -
  obtain msg where "pack_u64 n = Inr msg" using assms(3,4) by (simp add: pack_u64_def)
  moreover have "last d mod 16 + 4 \<le> 20" for d :: "nat list"
    using mod_less_divisor [of 16 "last d"] by linarith
  ultimately show ?thesis
    using assms(1,2) by (simp add: hotp_def hotp_truncate_def unpack_u32_def Let_def)
qed

lemma verify_drifts_iff:
  assumes "\<And>d. d \<in> set ds \<Longrightarrow> \<exists>c. hotp hmac secret (n + d) = Inr c" and "ascii_str code"
  shows "verify_drifts hmac secret code n ds = Inr (\<exists>d\<in>set ds. hotp hmac secret (n + d) = Inr code)"
  using assms(1)
proof (induction ds)
  case (Cons d ds)
  obtain c where c: "hotp hmac secret (n + d) = Inr c" using Cons.prems by (metis list.set_intros(1))
  then have "ascii_str c" using hotp_digits ascii_digits_str by metis
  then have cmp: "compare_digest c code = Inr (c = code)" using assms(2) by (simp add: compare_digest_def)
  have IH: "verify_drifts hmac secret code n ds = Inr (\<exists>d\<in>set ds. hotp hmac secret (n + d) = Inr code)"
    using Cons by simp
  show ?case using c cmp IH by (cases "c = code") auto
qed simp

section \<open>Properties\<close>

lemma totp_secret_and_code_format_facts:
  assumes "length raw = 20" and "\<forall>b\<in>set raw. b < 256"
  shows "totp_b32decode (generate_secret raw) = Inr raw"
    and "hotp hmac (generate_secret raw) n = Inr c \<Longrightarrow> length c = 6 \<and> (\<forall>x\<in>set c. ascii_digit x)"
  using totp_secret_roundtrip [of raw] assms hotp_digits [of hmac "generate_secret raw" n c]
  by (simp_all add: DIGITS_def)

text \<open>
  A secret handed to the authenticator decodes to the random bytes it was made from, so
  both sides compute with the same key; and every code the server computes is six ASCII digits.
\<close>

theorem totp_secret_and_code_format:
  assumes "length raw = 20" and "\<forall>b\<in>set raw. b < 256"
  shows "(totp_b32decode (generate_secret raw) = Inr raw) \<and>
     (hotp hmac (generate_secret raw) n = Inr c \<longrightarrow> length c = 6 \<and> (\<forall>x\<in>set c. ascii_digit x))"
proof -
  have 1: "totp_b32decode (generate_secret raw) = Inr raw"
    by ((intro impI)?, rule totp_secret_and_code_format_facts(1); (assumption | rule assms))
  have 2: "hotp hmac (generate_secret raw) n = Inr c \<longrightarrow> length c = 6 \<and> (\<forall>x\<in>set c. ascii_digit x)"
    by ((intro impI)?, rule totp_secret_and_code_format_facts(2); (assumption | rule assms))
  show ?thesis by (rule conjI [OF 1 2])
qed

lemma totp_secret_and_code_format_witness:
  "totp_b32decode (generate_secret [0,1,2,3,4,5,6,7,8,9,10,11,12,13,14,15,255,254,253,252]) =
     Inr [0,1,2,3,4,5,6,7,8,9,10,11,12,13,14,15,255,254,253,252]"
  by (rule totp_secret_and_code_format [THEN conjunct1]) simp_all

lemma totp_accepts_exactly_the_window_facts:
  assumes "totp_b32decode secret = Inr key" and "\<And>k m. length (hmac k m) = 20"
    and "30 \<le> now" and "now < 2 ^ 64"
    and "length code = 6" and "\<forall>x\<in>set code. ascii_digit x"
  shows "totp_verify hmac secret code 1 now =
           Inr (\<exists>d\<in>{-1, 0, 1}. hotp hmac secret (now div 30 + d) = Inr code)"
    and "t \<le> now \<Longrightarrow> now \<le> t + 30 \<Longrightarrow> hotp hmac secret (t div 30) = Inr code \<Longrightarrow>
         totp_verify hmac secret code 1 now = Inr True"
proof -
  have drifts: "[- 1..1 :: int] = [-1, 0, 1]" by (simp add: upto.simps)
  have div: "1 \<le> now div 30" "now div 30 + 1 < 2 ^ 64" using assms(3,4) by linarith+
  have tot: "\<exists>c. hotp hmac secret (now div 30 + d) = Inr c" if "d \<in> set [-1, 0, 1]" for d
    using that div by (intro hotp_total [OF assms(1,2)]) auto
  have code: "normalize_code code = code" "ascii_str code"
    using assms(6) normalize_digits ascii_digits_str by auto
  show main: "totp_verify hmac secret code 1 now =
      Inr (\<exists>d\<in>{-1, 0, 1}. hotp hmac secret (now div 30 + d) = Inr code)"
    unfolding totp_verify_def PERIOD_def DIGITS_def code drifts
    using verify_drifts_iff [where ds = "[-1, 0, 1]" and n = "now div 30", OF tot code(2)] assms(5) by simp
  assume t: "t \<le> now" "now \<le> t + 30" and shown: "hotp hmac secret (t div 30) = Inr code"
  have "t div 30 = now div 30 + 0 \<or> t div 30 = now div 30 + (- 1)" using t by linarith
  then have "\<exists>d\<in>{-1, 0, 1}. hotp hmac secret (now div 30 + d) = Inr code" using shown by auto
  with main show "totp_verify hmac secret code 1 now = Inr True" by simp
qed

text \<open>
  C14. Verification accepts exactly the codes of the three periods around now: for a decodable
  secret and a code of six ASCII digits, \<open>verify\<close> answers (it never raises), and says yes
  exactly when the code is the one of the previous, the current or the next 30-second period.
  A code is therefore accepted for at least 30 seconds after it was shown.
\<close>

theorem totp_accepts_exactly_the_window:
  assumes "totp_b32decode secret = Inr key" and "\<And>k m. length (hmac k m) = 20"
    and "30 \<le> now" and "now < 2 ^ 64"
    and "length code = 6" and "\<forall>x\<in>set code. ascii_digit x"
  shows "(totp_verify hmac secret code 1 now =
           Inr (\<exists>d\<in>{-1, 0, 1}. hotp hmac secret (now div 30 + d) = Inr code)) \<and>
     (t \<le> now \<longrightarrow> now \<le> t + 30 \<longrightarrow> hotp hmac secret (t div 30) = Inr code \<longrightarrow>
         totp_verify hmac secret code 1 now = Inr True)"
proof -
  have 1: "totp_verify hmac secret code 1 now =
           Inr (\<exists>d\<in>{-1, 0, 1}. hotp hmac secret (now div 30 + d) = Inr code)"
    by ((intro impI)?, rule totp_accepts_exactly_the_window_facts(1); (assumption | rule assms))
  have 2: "t \<le> now \<longrightarrow> now \<le> t + 30 \<longrightarrow> hotp hmac secret (t div 30) = Inr code \<longrightarrow>
         totp_verify hmac secret code 1 now = Inr True"
    by ((intro impI)?, rule totp_accepts_exactly_the_window_facts(2); (assumption | rule assms))
  show ?thesis by (rule conjI [OF 1 2])
qed

definition demo_hmac :: "nat list \<Rightarrow> nat list \<Rightarrow> nat list" where
  "demo_hmac key msg = replicate 18 0 @ [last msg, 15]"

lemma demo_key: "\<exists>k. totp_b32decode ''JBSWY3DP'' = Inr k"
proof (rule Inr_of_not_isl)
  show "\<not> isl (totp_b32decode ''JBSWY3DP'')" by code_simp
qed

lemma totp_accepts_exactly_the_window_witness:
  "totp_verify demo_hmac ''JBSWY3DP'' ''000033'' 1 1000 = Inr True"
proof -
  obtain k where k: "totp_b32decode ''JBSWY3DP'' = Inr k" using demo_key by blast
  have m: "pack_u64 33 = Inr [0, 0, 0, 0, 0, 0, 0, 33]" by code_simp
  have h: "hotp demo_hmac ''JBSWY3DP'' (1000 div 30) = Inr ''000033''"
  proof -
    let ?d = "demo_hmac k [0, 0, 0, 0, 0, 0, 0, 33]"
    have "take 4 (drop (last ?d mod 16) ?d) = [0, 0, 0, 33]"
      by (simp add: demo_hmac_def) (simp add: numeral_3_eq_3)
    then have u: "unpack_u32 (take 4 (drop (last ?d mod 16) ?d)) = Inr 33" by (simp add: unpack_u32_def)
    have n: "nat_str 33 = ''33''" by code_simp
    have z: "zfill 6 ''33'' = ''000033''" by code_simp
    have "hotp_truncate ?d = Inr ''000033''"
      unfolding hotp_truncate_def Let_def u DIGITS_def using n z by simp
    with k m show ?thesis by (simp add: hotp_def)
  qed
  have d: "\<forall>x\<in>set ''000033''. ascii_digit x" by code_simp
  show ?thesis
    using totp_accepts_exactly_the_window [OF k, of demo_hmac 1000 "''000033''" 1000] h d
    by (simp add: demo_hmac_def)
qed

text \<open>
  A code of six characters that \<open>isdigit\<close> accepts but are not ASCII (superscript digits)
  is not refused: the comparison raises TypeError, which the login path does not catch.
\<close>

theorem non_ascii_code_raises:
  assumes "totp_b32decode secret = Inr key" and "\<And>k m. length (hmac k m) = 20"
    and "30 \<le> now" and "now < 2 ^ 64"
    and "length (normalize_code code) = 6" and "\<not> ascii_str (normalize_code code)"
  shows "totp_verify hmac secret code 1 now =
    Inl (OtherError ''TypeError: comparing strings with non-ASCII characters is not supported'')"
proof -
  have drifts: "[- 1..1 :: int] = [-1, 0, 1]" by (simp add: upto.simps)
  have div: "1 \<le> now div 30" "now div 30 + 1 < 2 ^ 64" using assms(3,4) by linarith+
  have "\<exists>c. hotp hmac secret (now div 30 + (-1)) = Inr c"
    using div by (intro hotp_total [OF assms(1,2)]) auto
  then obtain c where "hotp hmac secret (now div 30 + (-1)) = Inr c" by blast
  with assms(5,6) show ?thesis
    unfolding totp_verify_def PERIOD_def DIGITS_def drifts by (simp add: compare_digest_def)
qed

lemma non_ascii_code_raises_witness:
  "isl (totp_verify demo_hmac ''JBSWY3DP'' (replicate 6 (CHR 0xB2)) 1 1000)"
proof -
  obtain k where k: "totp_b32decode ''JBSWY3DP'' = Inr k" using demo_key by blast
  have l: "length (normalize_code (replicate 6 (CHR 0xB2))) = 6" by code_simp
  have n: "\<not> ascii_str (normalize_code (replicate 6 (CHR 0xB2)))" by code_simp
  show ?thesis
    using non_ascii_code_raises [OF k, of demo_hmac 1000 "replicate 6 (CHR 0xB2)"] l n
    by (simp add: demo_hmac_def)
qed

end
