(* ===== verification/Auth.thy ===== *)
theory Auth
  imports Quota Totp "HOL-Library.Multiset"
begin

text \<open>
  Accounts (\<^verbatim>\<open>modules/auth/service.py\<close>): identity normalisation, sign-up, password and profile
  changes, the bootstrap account and the opt-in second factor. Password hashing (passlib),
  HMAC and SHA-256 are parameters; new row ids, the clock and random values are arguments. An
  operation that raises returns \<open>Inl\<close>: its session is rolled back by the request.
\<close>

section \<open>Normalisation and lookups\<close>

definition normalize_email :: "string \<Rightarrow> string" where
  "normalize_email e = py_lower (py_strip e)"

definition slug_parts :: "string \<Rightarrow> string list" where
  "slug_parts v = filter (\<lambda>p. p \<noteq> [])
     (split_on (CHR ''-'') (replace_char (CHR ''_'') ''-'' (py_lower (py_strip v))))"

definition normalize_slug :: "string \<Rightarrow> string" where
  "normalize_slug v = str_or (join ''-'' (slug_parts v)) ''default''"

definition get_admin_by_id :: "db \<Rightarrow> string \<Rightarrow> admin_user option" where
  "get_admin_by_id d i = find (\<lambda>a. ad_id a = i) (db_admins d)"

definition get_admin_by_email :: "db \<Rightarrow> string \<Rightarrow> admin_user option" where
  "get_admin_by_email d e = find (\<lambda>a. ad_email a = normalize_email e) (db_admins d)"

definition get_tenant_by_slug :: "db \<Rightarrow> string \<Rightarrow> tenant option" where
  "get_tenant_by_slug d s = find (\<lambda>t. tn_slug t = normalize_slug s) (db_tenants d)"

text \<open>Assignments to attributes of the loaded admin row, flushed.\<close>

definition set_admin :: "string \<Rightarrow> (admin_user \<Rightarrow> admin_user) \<Rightarrow> db \<Rightarrow> db" where
  "set_admin i f d = d\<lparr>db_admins := upd_where (\<lambda>a. ad_id a = i) f (db_admins d)\<rparr>"

section \<open>Free slugs\<close>

definition slug_n :: "string \<Rightarrow> nat \<Rightarrow> string" where
  "slug_n slug n = slug @ ''-'' @ nat_str n"

text \<open>The loop of \<open>_unique_slug\<close>.\<close>

lemma lower_ascii_digit: "ascii_digit c \<Longrightarrow> lower_char c = c"
  by (auto simp: lower_char_def ascii_digit_def Let_def)

lemma replace_char_append: "replace_char c r (s @ t) = replace_char c r s @ replace_char c r t"
  by (simp add: replace_char_def)

lemma replace_char_id: "c \<notin> set s \<Longrightarrow> replace_char c r s = s"
  by (induction s) (auto simp: replace_char_def)

lemma split_on_snoc: "c \<notin> set t \<Longrightarrow> split_on c (s @ c # t) = split_on c s @ [t]"
proof (induction s)
  case Nil
  then show ?case by (simp add: split_on_id)
next
  case (Cons x s)
  then have IH: "split_on c (s @ c # t) = split_on c s @ [t]" by simp
  obtain y ys where y: "split_on c s = y # ys" by (meson neq_Nil_conv split_on_ne)
  show ?case using IH y by simp
qed

lemma nat_str_inj: "nat_str m = nat_str n \<Longrightarrow> m = n"
  by (metis int_digits_nat_str nat_int option.inject)

lemma nat_str_not: "CHR ''-'' \<notin> set (nat_str n)" "CHR ''_'' \<notin> set (nat_str n)"
proof -
  have "\<not> ascii_digit (CHR ''-'')" "\<not> ascii_digit (CHR ''_'')"
    by (simp_all add: ascii_digit_def ord_of_def)
  then show "CHR ''-'' \<notin> set (nat_str n)" "CHR ''_'' \<notin> set (nat_str n)" using nat_str_digits by blast+
qed

text \<open>The number survives normalisation as the last part, so the candidates differ.\<close>

lemma slug_parts_n: "\<exists>ps. slug_parts (slug_n s n) = ps @ [nat_str n]"
proof -
  let ?t = "dropWhile py_space s" and ?n = "nat_str n"
  have dash: "\<not> py_space (CHR ''-'')" by (simp add: py_space_def ord_of_def)
  have "lstrip_if py_space (slug_n s n) = ?t @ ''-'' @ ?n"
  proof (cases "\<forall>x\<in>set s. py_space x")
    case True
    then show ?thesis using dash by (simp add: lstrip_if_def slug_n_def)
  next
    case False
    then show ?thesis by (auto simp: lstrip_if_def slug_n_def)
  qed
  moreover have "last (?t @ ''-'' @ ?n) = last ?n" by simp
  moreover have "\<not> py_space (last ?n)" by (metis ascii_digit_facts(1) last_in_set nat_str_digits nat_str_ne)
  ultimately have "py_strip (slug_n s n) = ?t @ ''-'' @ ?n"
    unfolding py_strip_def strip_if_def by (metis rstrip_if_id)
  moreover have "py_lower ?n = ?n"
    unfolding py_lower_def by (rule map_idI) (metis lower_ascii_digit nat_str_digits)
  moreover have "lower_char (CHR ''-'') = CHR ''-''" by (simp add: lower_char_def ord_of_def)
  ultimately have "py_lower (py_strip (slug_n s n)) = py_lower ?t @ CHR ''-'' # ?n"
    by (simp add: py_lower_def)
  then have "replace_char (CHR ''_'') ''-'' (py_lower (py_strip (slug_n s n))) =
      replace_char (CHR ''_'') ''-'' (py_lower ?t) @ CHR ''-'' # ?n"
    using replace_char_append [of "CHR ''_''" "''-''" "py_lower ?t" "CHR ''-'' # ?n"]
      replace_char_id [of "CHR ''_''" "CHR ''-'' # ?n"] nat_str_not(2) by simp
  then show ?thesis by (auto simp: slug_parts_def split_on_snoc nat_str_not(1))
qed

lemma join_snoc: "join sep (ps @ [x]) = (if ps = [] then x else join sep ps @ sep @ x)"
  by (induction sep ps rule: join.induct) auto

lemma normalize_slug_n_inj:
  assumes "normalize_slug (slug_n s m) = normalize_slug (slug_n s n)"
  shows "m = n"
proof -
  have last: "last (split_on (CHR ''-'') (normalize_slug (slug_n s k))) = nat_str k" for k
  proof -
    obtain ps where ps: "slug_parts (slug_n s k) = ps @ [nat_str k]" using slug_parts_n by blast
    then have "normalize_slug (slug_n s k) = join ''-'' (ps @ [nat_str k])"
      by (auto simp: normalize_slug_def join_snoc str_or_def)
    then show ?thesis
      using split_on_id [OF nat_str_not(1), of k]
      by (simp add: join_snoc split_on_snoc nat_str_not(1))
  qed
  from assms last [of m] last [of n] have "nat_str m = nat_str n" by simp
  then show ?thesis by (rule nat_str_inj)
qed

definition taken_numbers :: "db \<Rightarrow> string \<Rightarrow> nat \<Rightarrow> nat set" where
  "taken_numbers d s n = {k. n \<le> k \<and> get_tenant_by_slug d (slug_n s k) \<noteq> None}"

lemma finite_taken_numbers: "finite (taken_numbers d s n)"
proof (rule finite_subset)
  show "taken_numbers d s n \<subseteq> (\<lambda>k. normalize_slug (slug_n s k)) -` (tn_slug ` set (db_tenants d))"
    by (auto simp: taken_numbers_def get_tenant_by_slug_def find_Some_iff2 image_iff
        dest!: find_SomeD) (metis)
  show "finite ((\<lambda>k. normalize_slug (slug_n s k)) -` (tn_slug ` set (db_tenants d)))"
    by (rule finite_vimageI) (auto simp: inj_def dest: normalize_slug_n_inj)
qed

lemma card_taken_numbers:
  "card (taken_numbers d s n) =
     card (taken_numbers d s (Suc n)) + (if get_tenant_by_slug d (slug_n s n) = None then 0 else 1)"
proof (cases "get_tenant_by_slug d (slug_n s n) = None")
  case True
  then have "k \<noteq> n" if "get_tenant_by_slug d (slug_n s k) \<noteq> None" for k using that by metis
  then have "taken_numbers d s n = taken_numbers d s (Suc n)"
    by (fastforce simp: taken_numbers_def Suc_le_eq le_less)
  with True show ?thesis by simp
next
  case False
  then have "taken_numbers d s n = insert n (taken_numbers d s (Suc n))"
    by (fastforce simp: taken_numbers_def Suc_le_eq le_less)
  moreover have "n \<notin> taken_numbers d s (Suc n)" by (simp add: taken_numbers_def)
  ultimately show ?thesis using False finite_taken_numbers by simp
qed

function find_slug :: "db \<Rightarrow> string \<Rightarrow> string \<Rightarrow> nat \<Rightarrow> string" where
  "find_slug d slug candidate counter =
     (if get_tenant_by_slug d candidate = None then candidate
      else find_slug d slug (slug_n slug counter) (Suc counter))"
  by pat_completeness auto
termination
proof (relation "measure (\<lambda>(d, s, c, n). card (taken_numbers d s n) +
    (if get_tenant_by_slug d c = None then 0 else 1))")
  show "wf (measure (\<lambda>(d, s, c, n). card (taken_numbers d s n) +
    (if get_tenant_by_slug d c = None then 0 else 1)))" by simp
  fix d slug candidate counter
  assume "\<not> get_tenant_by_slug d candidate = None"
  then show "((d, slug, slug_n slug counter, Suc counter), d, slug, candidate, counter)
    \<in> measure (\<lambda>(d, s, c, n). card (taken_numbers d s n) +
        (if get_tenant_by_slug d c = None then 0 else 1))"
    using card_taken_numbers [of d slug counter] by simp
qed

declare find_slug.simps [simp del]

definition unique_slug :: "db \<Rightarrow> string \<Rightarrow> string" where
  "unique_slug d base = find_slug d (normalize_slug base) (normalize_slug base) 2"

lemma find_slug_free: "get_tenant_by_slug d (find_slug d s c n) = None"
proof (induction d s c n rule: find_slug.induct)
  case (1 d s c n)
  then show ?case by (cases "get_tenant_by_slug d c = None") (simp_all add: find_slug.simps [of d s c n])
qed

section \<open>Sign-up and bootstrap\<close>

definition validate_password :: "string \<Rightarrow> unit result" where
  "validate_password pw =
     (if length pw < 10 then Inl (ValueError ''Password must be at least 10 characters long.'') else Inr ())"

definition new_admin :: "string \<Rightarrow> string \<Rightarrow> string \<Rightarrow> string \<Rightarrow> string \<Rightarrow> string \<Rightarrow> int \<Rightarrow> admin_user" where
  "new_admin i tid email nm pw role now =
     \<lparr>ad_id = i, ad_tenant = tid, ad_email = email, ad_name = nm, ad_pw = pw, ad_active = True,
      ad_role = role, ad_created = now, ad_last_login = None, ad_totp_secret = None,
      ad_totp_enabled = False, ad_totp_codes = None\<rparr>"

text \<open>
  \<open>racing\<close> are the e-mails that other sessions commit between the duplicate check and the
  flush. The flush of the tenant is outside the handler: its IntegrityError escapes.
\<close>

definition signup ::
  "(string \<Rightarrow> string) \<Rightarrow> db \<Rightarrow> string list \<Rightarrow> string \<Rightarrow> string \<Rightarrow> int \<Rightarrow> string \<Rightarrow> string \<Rightarrow> string \<Rightarrow>
   string option \<Rightarrow> (admin_user option \<times> db) result" where
  "signup hash_pw d racing new_tid new_aid now email pw org ip =
     (case validate_password pw of
        Inl e \<Rightarrow> Inl e
      | Inr _ \<Rightarrow>
         (let em = normalize_email email in
          if get_admin_by_email d em \<noteq> None then Inr (None, d)
          else
            (let slug = unique_slug d org;
                 t = \<lparr>tn_id = new_tid, tn_name = str_or (py_strip org) slug, tn_slug = slug,
                      tn_status = TENANT_PENDING, tn_plan_id = map_option pl_id (get_default_plan d),
                      tn_platform = False, tn_signup_ip = ip\<rparr>;
                 a = new_admin new_aid new_tid em (str_or (py_strip org) em) (hash_pw pw) ROLE_OWNER now
             in case insert_unique tn_slug t (db_tenants d) of
                  Inl e \<Rightarrow> Inl e
                | Inr ts \<Rightarrow>
                   (case insert_unique ad_email a (db_admins d) of
                      Inl e \<Rightarrow> Inr (None, d)
                    | Inr as \<Rightarrow>
                        if em \<in> set racing then Inr (None, d)
                        else Inr (Some a, d\<lparr>db_tenants := ts, db_admins := as\<rparr>)))))"

definition ensure_default_tenant :: "db \<Rightarrow> string \<Rightarrow> (tenant \<times> db) result" where
  "ensure_default_tenant d new_id =
     (case get_tenant_by_slug d ''default'' of
        Some t \<Rightarrow> Inr (t, d)
      | None \<Rightarrow>
         (let t = \<lparr>tn_id = new_id, tn_name = ''Default Tenant'', tn_slug = ''default'',
                   tn_status = TENANT_ACTIVE, tn_plan_id = None, tn_platform = True, tn_signup_ip = None\<rparr>
          in map_sum id (\<lambda>ts. (t, d\<lparr>db_tenants := ts\<rparr>)) (insert_unique tn_slug t (db_tenants d))))"

definition ensure_bootstrap_admin ::
  "(string \<Rightarrow> string) \<Rightarrow> db \<Rightarrow> string \<Rightarrow> string \<Rightarrow> int \<Rightarrow> string \<Rightarrow> string \<Rightarrow> string \<Rightarrow>
   (admin_user option \<times> db) result" where
  "ensure_bootstrap_admin hash_pw d new_tid new_aid now boot_pw boot_email boot_name =
     (if boot_pw = [] then Inr (None, d)
      else (case ensure_default_tenant d new_tid of
        Inl e \<Rightarrow> Inl e
      | Inr (t, d1) \<Rightarrow>
         (case get_admin_by_email d1 boot_email of
            Some a \<Rightarrow>
              (let d2 = (if ad_tenant a = [] then set_admin (ad_id a) (\<lambda>a. a\<lparr>ad_tenant := tn_id t\<rparr>) d1 else d1)
               in Inr (get_admin_by_id d2 (ad_id a), d2))
          | None \<Rightarrow>
              (let a = new_admin new_aid (tn_id t) (normalize_email boot_email) boot_name (hash_pw boot_pw)
                         ROLE_PLATFORM_ADMIN now
               in map_sum id (\<lambda>as. (Some a, d1\<lparr>db_admins := as\<rparr>))
                    (insert_unique ad_email a (db_admins d1))))))"

section \<open>Login and account changes\<close>

definition authenticate :: "(string \<Rightarrow> string \<Rightarrow> bool) \<Rightarrow> db \<Rightarrow> string \<Rightarrow> string \<Rightarrow> admin_user option" where
  "authenticate verify_pw d email pw =
     (case get_admin_by_email d email of
        None \<Rightarrow> None
      | Some a \<Rightarrow> if \<not> ad_active a then None else if \<not> verify_pw pw (ad_pw a) then None else Some a)"

definition touch_last_login :: "db \<Rightarrow> admin_user \<Rightarrow> int \<Rightarrow> db" where
  "touch_last_login d a now = set_admin (ad_id a) (\<lambda>x. x\<lparr>ad_last_login := Some now\<rparr>) d"

definition update_profile ::
  "db \<Rightarrow> string list \<Rightarrow> admin_user \<Rightarrow> string \<Rightarrow> string \<Rightarrow> (admin_user option \<times> db) result" where
  "update_profile d racing a full_name email =
     (let nm = py_strip full_name; em = normalize_email email in
      if nm = [] then Inl (ValueError ''Name cannot be empty.'')
      else if em = [] \<or> CHR ''@'' \<notin> set em then Inl (ValueError ''A valid email address is required.'')
      else if em \<noteq> ad_email a \<and>
              (case get_admin_by_email d em of None \<Rightarrow> False | Some x \<Rightarrow> ad_id x \<noteq> ad_id a)
        then Inl (ValueError ''That email address is already in use.'')
      else
        (let d' = set_admin (ad_id a) (\<lambda>x. x\<lparr>ad_name := nm, ad_email := em\<rparr>) d in
         if em \<in> set racing \<or> \<not> distinct (map ad_email (db_admins d')) then
           Inl (ValueError ''That email address is already in use.'')
         else Inr (get_admin_by_id d' (ad_id a), d')))"

definition change_password ::
  "(string \<Rightarrow> string) \<Rightarrow> (string \<Rightarrow> string \<Rightarrow> bool) \<Rightarrow> db \<Rightarrow> admin_user \<Rightarrow> string \<Rightarrow> string \<Rightarrow> db result" where
  "change_password hash_pw verify_pw d a current new =
     (if \<not> verify_pw current (ad_pw a) then Inl (ValueError ''Current password is incorrect.'')
      else (case validate_password new of
              Inl e \<Rightarrow> Inl e
            | Inr _ \<Rightarrow>
                if new = current then Inl (ValueError ''New password must differ from the current one.'')
                else Inr (set_admin (ad_id a) (\<lambda>x. x\<lparr>ad_pw := hash_pw new\<rparr>) d)))"

section \<open>Second factor\<close>

definition setup_totp :: "(string \<Rightarrow> string \<Rightarrow> string) \<Rightarrow> db \<Rightarrow> admin_user \<Rightarrow> nat list \<Rightarrow> ((string \<times> string) \<times> db) result" where
  "setup_totp uri d a raw =
     (if ad_totp_enabled a then Inl (ValueError ''Two-factor authentication is already enabled.'')
      else (let secret = generate_secret raw in
        Inr ((secret, uri secret (ad_email a)),
             set_admin (ad_id a) (\<lambda>x. x\<lparr>ad_totp_secret := Some secret\<rparr>) d)))"

definition enable_totp ::
  "(nat list \<Rightarrow> nat list \<Rightarrow> nat list) \<Rightarrow> (string \<Rightarrow> string) \<Rightarrow> db \<Rightarrow> admin_user \<Rightarrow> string \<Rightarrow> int \<Rightarrow>
   (nat \<times> nat) list \<Rightarrow> (string list \<times> db) result" where
  "enable_totp hmac sha d a code now randoms =
     (if ad_totp_enabled a then Inl (ValueError ''Two-factor authentication is already enabled.'')
      else if or_empty (ad_totp_secret a) = [] then
        Inl (ValueError ''Start setup before enabling two-factor authentication.'')
      else (case totp_verify hmac (or_empty (ad_totp_secret a)) code 1 now of
              Inl e \<Rightarrow> Inl e
            | Inr False \<Rightarrow>
                Inl (ValueError ''That code is incorrect. Check your authenticator app and try again.'')
            | Inr True \<Rightarrow>
                (let codes = generate_backup_codes randoms in
                 Inr (codes, set_admin (ad_id a) (\<lambda>x. x\<lparr>ad_totp_enabled := True,
                        ad_totp_codes := Some (CodeList (map (hash_backup_code sha) codes))\<rparr>) d))))"

definition disable_totp :: "(string \<Rightarrow> string \<Rightarrow> bool) \<Rightarrow> db \<Rightarrow> admin_user \<Rightarrow> string \<Rightarrow> db result" where
  "disable_totp verify_pw d a pw =
     (if \<not> verify_pw pw (ad_pw a) then Inl (ValueError ''Password is incorrect.'')
      else Inr (set_admin (ad_id a) (\<lambda>x. x\<lparr>ad_totp_enabled := False, ad_totp_secret := None,
                   ad_totp_codes := None\<rparr>) d))"

definition consume_backup_code :: "(string \<Rightarrow> string) \<Rightarrow> db \<Rightarrow> admin_user \<Rightarrow> string \<Rightarrow> bool \<times> db" where
  "consume_backup_code sha d a code =
     (case ad_totp_codes a of
        None \<Rightarrow> (False, d)
      | Some (NotJson s) \<Rightarrow> (False, d)
      | Some (CodeList hashes) \<Rightarrow>
          (let candidate = hash_backup_code sha code in
           if candidate \<notin> set hashes then (False, d)
           else (True, set_admin (ad_id a)
                   (\<lambda>x. x\<lparr>ad_totp_codes := Some (CodeList (remove1 candidate hashes))\<rparr>) d)))"

definition verify_totp_login ::
  "(nat list \<Rightarrow> nat list \<Rightarrow> nat list) \<Rightarrow> (string \<Rightarrow> string) \<Rightarrow> db \<Rightarrow> admin_user \<Rightarrow> string \<Rightarrow> int \<Rightarrow>
   (bool \<times> db) result" where
  "verify_totp_login hmac sha d a code now =
     (if code = [] \<or> or_empty (ad_totp_secret a) = [] then Inr (False, d)
      else (case totp_verify hmac (or_empty (ad_totp_secret a)) code 1 now of
              Inl e \<Rightarrow> Inl e
            | Inr True \<Rightarrow> Inr (True, d)
            | Inr False \<Rightarrow> Inr (consume_backup_code sha d a code)))"

declare authenticate_def [opdefs] touch_last_login_def [opdefs] change_password_def [opdefs]
  setup_totp_def [opdefs] enable_totp_def [opdefs] disable_totp_def [opdefs]
  consume_backup_code_def [opdefs] verify_totp_login_def [opdefs]

lemma get_admin_set_admin:
  assumes "\<And>x. ad_id (f x) = ad_id x"
  shows "get_admin_by_id (set_admin i f d) j =
    (if j = i then map_option f (get_admin_by_id d j) else get_admin_by_id d j)"
  unfolding get_admin_by_id_def set_admin_def
  by (simp add: find_upd_where assms) (auto simp: map_option_case split: option.split dest: find_SomeD)

section \<open>Recovery codes are spent\<close>

definition stored_codes :: "db \<Rightarrow> string \<Rightarrow> string list" where
  "stored_codes d i =
     (case get_admin_by_id d i of
        None \<Rightarrow> []
      | Some a \<Rightarrow> (case ad_totp_codes a of Some (CodeList hs) \<Rightarrow> hs | _ \<Rightarrow> []))"

text \<open>A sequence of recovery attempts on one account, each on the row loaded from the database.\<close>

fun backup_attempts :: "(string \<Rightarrow> string) \<Rightarrow> db \<Rightarrow> string \<Rightarrow> string list \<Rightarrow> bool list \<times> db" where
  "backup_attempts sha d i [] = ([], d)"
| "backup_attempts sha d i (c # cs) =
     (case get_admin_by_id d i of
        None \<Rightarrow> (let (rs, d2) = backup_attempts sha d i cs in (False # rs, d2))
      | Some a \<Rightarrow>
         (let (r, d1) = consume_backup_code sha d a c; (rs, d2) = backup_attempts sha d1 i cs in
          (r # rs, d2)))"

lemma consume_backup_code_spends:
  assumes "get_admin_by_id d i = Some a" and "consume_backup_code sha d a c = (r, d1)"
  shows "r \<longleftrightarrow> hash_backup_code sha c \<in> set (stored_codes d i)"
    and "stored_codes d1 i =
      (if r then remove1 (hash_backup_code sha c) (stored_codes d i) else stored_codes d i)"
proof -
  have i: "ad_id a = i" using assms(1) by (auto simp: get_admin_by_id_def dest: find_SomeD)
  have st: "stored_codes (set_admin i (\<lambda>x. x\<lparr>ad_totp_codes := Some (CodeList h)\<rparr>) d) i = h" for h
    using assms(1) by (simp add: stored_codes_def get_admin_set_admin)
  show "r \<longleftrightarrow> hash_backup_code sha c \<in> set (stored_codes d i)"
    and "stored_codes d1 i =
      (if r then remove1 (hash_backup_code sha c) (stored_codes d i) else stored_codes d i)"
  proof -
    consider "ad_totp_codes a = None" | s where "ad_totp_codes a = Some (NotJson s)"
      | h where "ad_totp_codes a = Some (CodeList h)"
      by (metis json_codes.exhaust option.exhaust)
    then have "(r \<longleftrightarrow> hash_backup_code sha c \<in> set (stored_codes d i)) \<and> stored_codes d1 i =
      (if r then remove1 (hash_backup_code sha c) (stored_codes d i) else stored_codes d i)"
    proof cases
      case 1
      then have "stored_codes d i = []" using assms(1) by (simp add: stored_codes_def)
      with 1 assms(2) show ?thesis by (auto simp: consume_backup_code_def)
    next
      case 2
      then have "stored_codes d i = []" using assms(1) by (simp add: stored_codes_def)
      with 2 assms(2) show ?thesis by (auto simp: consume_backup_code_def)
    next
      case (3 h)
      then have "stored_codes d i = h" using assms(1) by (simp add: stored_codes_def)
      with 3 assms(2) st i show ?thesis
        by (auto simp: consume_backup_code_def Let_def split: if_splits)
    qed
    then show "r \<longleftrightarrow> hash_backup_code sha c \<in> set (stored_codes d i)"
      and "stored_codes d1 i =
        (if r then remove1 (hash_backup_code sha c) (stored_codes d i) else stored_codes d i)"
      by auto
  qed
qed

lemma backup_attempts_spend:
  "backup_attempts sha d i cs = (rs, d') \<Longrightarrow>
   length rs = length cs \<and>
   mset (stored_codes d i) =
     mset (map (hash_backup_code sha) (map fst (filter snd (zip cs rs)))) + mset (stored_codes d' i)"
proof (induction cs arbitrary: d rs)
  case (Cons c cs)
  show ?case
  proof (cases "get_admin_by_id d i")
    case None
    obtain rs2 d2 where r: "backup_attempts sha d i cs = (rs2, d2)" by force
    with Cons.prems None have "rs = False # rs2" "d' = d2" by auto
    with Cons.IH [of d rs2] r show ?thesis by simp
  next
    case (Some a)
    obtain r d1 where r: "consume_backup_code sha d a c = (r, d1)" by force
    obtain rs2 d2 where r2: "backup_attempts sha d1 i cs = (rs2, d2)" by force
    note sp = consume_backup_code_spends [OF Some r]
    have eq: "rs = r # rs2" "d' = d2" using Cons.prems Some r r2 by auto
    note IH = Cons.IH [of d1 rs2, unfolded eq(2), OF r2]
    have "mset (stored_codes d i) =
        (if r then {#hash_backup_code sha c#} else {#}) + mset (stored_codes d1 i)"
      using sp by auto
    then show ?thesis using IH eq by simp
  qed
qed simp

section \<open>Properties\<close>

text \<open>
  Sign-up: the account is created only with a password of at least ten characters and an
  unused e-mail; it is the owner of a new tenant that is pending, not platform scope and on the
  default plan; nothing else changes and the unique columns stay unique. A duplicate e-mail,
  also one committed concurrently, leaves no orphan tenant behind.
\<close>

theorem signup_creates_pending_owner:
  assumes "signup hash_pw d racing new_tid new_aid now email pw org ip = Inr (res, d')"
    and "unique_ok d" and "new_tid \<notin> tn_id ` set (db_tenants d)" and "new_aid \<notin> ad_id ` set (db_admins d)"
  shows "case res of
      None \<Rightarrow> d' = d
    | Some a \<Rightarrow> 10 \<le> length pw \<and> get_admin_by_email d email = None \<and> unique_ok d' \<and>
        ad_role a = ROLE_OWNER \<and> ad_tenant a = new_tid \<and> ad_email a = normalize_email email \<and>
        (\<exists>t. d' = d\<lparr>db_tenants := db_tenants d @ [t], db_admins := db_admins d @ [a]\<rparr> \<and> tn_id t = new_tid \<and>
           tn_status t = TENANT_PENDING \<and> \<not> tn_platform t \<and> tn_plan_id t = map_option pl_id (get_default_plan d))"
proof (cases res)
  case None
  then show ?thesis using assms(1)
    by (auto simp: signup_def Let_def split: sum.splits if_splits)
next
  case (Some a)
  have nn: "get_admin_by_email d (normalize_email email) = get_admin_by_email d email"
    by (simp add: get_admin_by_email_def normalize_email_def py_strip_lower)
  from assms(1) Some have "10 \<le> length pw" and "get_admin_by_email d email = None"
    by (auto simp: signup_def Let_def validate_password_def nn split: sum.splits if_splits)
  moreover from assms(1) Some obtain t ts as where
      t: "insert_unique tn_slug t (db_tenants d) = Inr ts" "tn_id t = new_tid" "tn_status t = TENANT_PENDING"
        "\<not> tn_platform t" "tn_plan_id t = map_option pl_id (get_default_plan d)"
      and a: "insert_unique ad_email a (db_admins d) = Inr as" "ad_id a = new_aid" "ad_role a = ROLE_OWNER"
        "ad_tenant a = new_tid" "ad_email a = normalize_email email"
      and d': "d' = d\<lparr>db_tenants := ts, db_admins := as\<rparr>"
    by (auto simp: signup_def Let_def new_admin_def split: sum.splits if_splits)
  moreover have "unique_ok d'"
    using assms(2-4) t(1,2) a(1,2) insert_unique_distinct [OF t(1)] insert_unique_distinct [OF a(1)]
    by (auto simp: d' unique_ok_def insert_unique_Inr)
  ultimately show ?thesis using Some by (auto simp: insert_unique_Inr)
qed

definition demo_hash :: "string \<Rightarrow> string" where "demo_hash s = CHR ''h'' # s"
definition demo_verify :: "string \<Rightarrow> string \<Rightarrow> bool" where "demo_verify pw h = (h = demo_hash pw)"

lemma signup_creates_pending_owner_witness:
  "\<exists>a d'. signup demo_hash empty_db [] ''t'' ''a'' 0 ''Ann@Example.com '' ''long enough'' ''Acme'' None =
      Inr (Some a, d') \<and> ad_email a = ''ann@example.com'' \<and> unique_ok d'"
proof -
  let ?r = "signup demo_hash empty_db [] ''t'' ''a'' 0 ''Ann@Example.com '' ''long enough'' ''Acme'' None"
  have "\<not> isl ?r" by code_simp
  then obtain res d' where r: "?r = Inr (res, d')" by (elim Inr_pair_of_not_isl [THEN exE] exE)
  have "map_sum id (\<lambda>(x, _). x \<noteq> None) ?r = Inr True" by code_simp
  then obtain a where a: "res = Some a" using r by auto
  have e: "normalize_email ''Ann@Example.com '' = ''ann@example.com''" by code_simp
  have f: "''t'' \<notin> tn_id ` set (db_tenants empty_db)" "''a'' \<notin> ad_id ` set (db_admins empty_db)"
    by (simp_all add: empty_db_def)
  show ?thesis
    using signup_creates_pending_owner [OF r unique_ok_empty f] r a e by auto
qed

lemma backup_codes_are_spent_facts:
  assumes "backup_attempts sha d i cs = (rs, d')"
  shows "mset (stored_codes d i) =
      mset (map (hash_backup_code sha) (map fst (filter snd (zip cs rs)))) + mset (stored_codes d' i)"
    and "length (filter id rs) + length (stored_codes d' i) = length (stored_codes d i)"
    and "distinct (stored_codes d i) \<Longrightarrow>
      distinct (map (hash_backup_code sha) (map fst (filter snd (zip cs rs))))"
proof -
  note sp = backup_attempts_spend [OF assms]
  then show m: "mset (stored_codes d i) =
      mset (map (hash_backup_code sha) (map fst (filter snd (zip cs rs)))) + mset (stored_codes d' i)" by simp
  have "length rs = length cs" using sp by simp
  then have "length (filter snd (zip cs rs)) = length (filter id rs)"
    by (induction rs cs rule: list_induct2) auto
  moreover have "length (stored_codes d i) = length (filter snd (zip cs rs)) + length (stored_codes d' i)"
    using arg_cong [OF m, of size] by (simp only: size_mset size_union length_map)
  ultimately show "length (filter id rs) + length (stored_codes d' i) = length (stored_codes d i)"
    by simp
  show "distinct (map (hash_backup_code sha) (map fst (filter snd (zip cs rs))))" if "distinct (stored_codes d i)"
    using that m by (metis distinct_append mset_append mset_eq_imp_distinct_iff)
qed

text \<open>
  Recovery codes are single use: over any sequence of attempts, the hashes of the codes
  that succeeded, together with the codes still stored, are exactly the codes stored at the
  start, with multiplicity; so n codes allow at most n successes and a code of a list without
  duplicates succeeds at most once.
\<close>

theorem backup_codes_are_spent:
  assumes "backup_attempts sha d i cs = (rs, d')"
  shows "(mset (stored_codes d i) =
      mset (map (hash_backup_code sha) (map fst (filter snd (zip cs rs)))) + mset (stored_codes d' i)) \<and>
     (length (filter id rs) + length (stored_codes d' i) = length (stored_codes d i)) \<and>
     (distinct (stored_codes d i) \<longrightarrow>
      distinct (map (hash_backup_code sha) (map fst (filter snd (zip cs rs)))))"
proof -
  have 1: "mset (stored_codes d i) =
      mset (map (hash_backup_code sha) (map fst (filter snd (zip cs rs)))) + mset (stored_codes d' i)"
    by ((intro impI)?, rule backup_codes_are_spent_facts(1); (assumption | rule assms))
  have 2: "length (filter id rs) + length (stored_codes d' i) = length (stored_codes d i)"
    by ((intro impI)?, rule backup_codes_are_spent_facts(2); (assumption | rule assms))
  have 3: "distinct (stored_codes d i) \<longrightarrow>
      distinct (map (hash_backup_code sha) (map fst (filter snd (zip cs rs))))"
    by ((intro impI)?, rule backup_codes_are_spent_facts(3); (assumption | rule assms))
  show ?thesis by (rule conjI [OF 1 conjI [OF 2 3]])
qed

definition demo_codes_db :: db where
  "demo_codes_db = empty_db\<lparr>db_admins := [(new_admin ''a'' ''t'' ''e'' ''n'' ''p'' ROLE_OWNER 0)
     \<lparr>ad_totp_codes := Some (CodeList [''1'', ''2''])\<rparr>]\<rparr>"

lemma backup_codes_are_spent_witness:
  "\<exists>d'. backup_attempts id demo_codes_db ''a'' [''2'', '' 2'', ''9'', ''1''] = ([True, False, False, True], d') \<and>
     length (stored_codes d' ''a'') = 0"
proof -
  let ?r = "backup_attempts id demo_codes_db ''a'' [''2'', '' 2'', ''9'', ''1'']"
  have f: "fst ?r = [True, False, False, True]" by code_simp
  then have r: "?r = ([True, False, False, True], snd ?r)" by (metis prod.collapse)
  have l: "length (stored_codes demo_codes_db ''a'') = 2" by code_simp
  show ?thesis using backup_codes_are_spent [OF r] l r by auto
qed

text \<open>
  Slug normalisation is not idempotent: white space that becomes leading only after the
  dashes are cut survives, the search for a free slug tests the normalised candidate, and so a
  tenant stored under such a slug is never found. After one sign-up with such a name, every
  later sign-up with it fails with IntegrityError in place of getting a numbered slug.
\<close>

theorem padded_slug_blocks_signup:
  assumes "t \<in> set (db_tenants d)" and "tn_slug t = normalize_slug org"
    and "get_tenant_by_slug d (normalize_slug org) = None"
    and "10 \<le> length pw" and "get_admin_by_email d email = None"
  shows "signup hash_pw d racing new_tid new_aid now email pw org ip = Inl IntegrityError"
proof -
  have nn: "get_admin_by_email d (normalize_email email) = get_admin_by_email d email"
    by (simp add: get_admin_by_email_def normalize_email_def py_strip_lower)
  have "unique_slug d org = normalize_slug org"
    using assms(3) by (simp add: unique_slug_def find_slug.simps)
  moreover have "normalize_slug org \<in> tn_slug ` set (db_tenants d)"
    unfolding assms(2) [symmetric] using assms(1) by (rule imageI)
  ultimately show ?thesis using assms(4,5) nn
    by (simp add: signup_def Let_def validate_password_def insert_unique_def)
qed

lemma padded_slug_blocks_signup_witness:
  "\<exists>d1. signup demo_hash empty_db [] ''t'' ''a'' 0 ''a@b.c'' ''long enough'' ''- Acme'' None =
      Inr (Some (new_admin ''a'' ''t'' ''a@b.c'' ''- Acme'' (demo_hash ''long enough'') ROLE_OWNER 0), d1) \<and>
     signup demo_hash d1 [] ''u'' ''b'' 0 ''b@b.c'' ''long enough'' ''- Acme'' None = Inl IntegrityError"
proof -
  let ?t = "\<lparr>tn_id = ''t'', tn_name = ''- Acme'', tn_slug = '' acme'', tn_status = TENANT_PENDING,
    tn_plan_id = None, tn_platform = False, tn_signup_ip = None\<rparr>"
  let ?a = "new_admin ''a'' ''t'' ''a@b.c'' ''- Acme'' (demo_hash ''long enough'') ROLE_OWNER 0"
  let ?d = "empty_db\<lparr>db_tenants := [?t], db_admins := [?a]\<rparr>"
  have n: "normalize_slug ''- Acme'' = '' acme''" "normalize_slug '' acme'' = ''acme''" by code_simp+
  have e: "normalize_email ''a@b.c'' = ''a@b.c''" "normalize_email ''b@b.c'' = ''b@b.c''"
    "py_strip ''- Acme'' = ''- Acme''" by code_simp+
  have s: "signup demo_hash empty_db [] ''t'' ''a'' 0 ''a@b.c'' ''long enough'' ''- Acme'' None = Inr (Some ?a, ?d)"
    using n e by (simp add: signup_def validate_password_def get_admin_by_email_def empty_db_def Let_def
        unique_slug_def find_slug.simps get_tenant_by_slug_def insert_unique_def get_default_plan_def)
  have "signup demo_hash ?d [] ''u'' ''b'' 0 ''b@b.c'' ''long enough'' ''- Acme'' None = Inl IntegrityError"
    by (rule padded_slug_blocks_signup [where t = ?t])
      (simp_all add: n e get_tenant_by_slug_def get_admin_by_email_def new_admin_def)
  with s show ?thesis by blast
qed

end
