(* ===== verification/Cache.thy ===== *)
theory Cache
  imports Prelude
begin

text \<open>
  The in-memory stores of the process: the TTL cache (\<^verbatim>\<open>cache.py\<close>) and the sliding-window
  rate limiter (\<^verbatim>\<open>rate_limit.py\<close>). Each method runs under the object's lock, so a method is
  one step. The monotonic clock is an integer number of nanoseconds, the unit the platform
  clock counts in; the code divides it into float seconds, and rounding is not modelled.
\<close>

section \<open>TTL cache\<close>

definition NS :: int where "NS = 1000000000"

record 'v cache_entry =
  ce_value :: 'v
  ce_expires :: int

text \<open>A dict keeps one entry per key; \<open>None\<close> values are \<open>None\<close> of \<open>'v option\<close>.\<close>

type_synonym 'v ttl_cache = "(string \<times> 'v cache_entry) list"

definition cache_pop :: "string \<Rightarrow> 'v ttl_cache \<Rightarrow> 'v ttl_cache" where
  "cache_pop k c = filter (\<lambda>e. fst e \<noteq> k) c"

definition cache_get :: "'v ttl_cache \<Rightarrow> string \<Rightarrow> int \<Rightarrow> 'v option \<times> 'v ttl_cache" where
  "cache_get c k now =
     (case map_of c k of
        None \<Rightarrow> (None, c)
      | Some e \<Rightarrow> if ce_expires e \<le> now then (None, cache_pop k c) else (Some (ce_value e), c))"

definition cache_set :: "'v ttl_cache \<Rightarrow> string \<Rightarrow> 'v \<Rightarrow> int \<Rightarrow> int \<Rightarrow> 'v ttl_cache" where
  "cache_set c k v ttl now = (k, \<lparr>ce_value = v, ce_expires = now + ttl * NS\<rparr>) # cache_pop k c"

definition cache_delete :: "'v ttl_cache \<Rightarrow> string \<Rightarrow> 'v ttl_cache" where
  "cache_delete c k = cache_pop k c"

text \<open>
  The factory is awaited outside the lock, between a lookup at \<open>now\<close> and a store at \<open>later\<close>;
  when it raises nothing is stored.
\<close>

definition cache_get_or_set ::
  "'v ttl_cache \<Rightarrow> string \<Rightarrow> int \<Rightarrow> 'v result \<Rightarrow> int \<Rightarrow> int \<Rightarrow> 'v result \<times> 'v ttl_cache" where
  "cache_get_or_set c k ttl factory now later =
     (case cache_get c k now of
        (Some v, c1) \<Rightarrow> (Inr v, c1)
      | (None, c1) \<Rightarrow>
         (case factory of
            Inl e \<Rightarrow> (Inl e, c1)
          | Inr v \<Rightarrow> (Inr v, cache_set c1 k v ttl later)))"

lemma map_of_cache_pop: "map_of (cache_pop k c) k' = (if k' = k then None else map_of c k')"
  by (induction c) (auto simp: cache_pop_def)

lemma map_of_cache_set:
  "map_of (cache_set c k v ttl now) k' =
     (if k' = k then Some \<lparr>ce_value = v, ce_expires = now + ttl * NS\<rparr> else map_of c k')"
  by (simp add: cache_set_def map_of_cache_pop)

lemma distinct_cache_pop: "distinct (map fst c) \<Longrightarrow> distinct (map fst (cache_pop k c))"
  unfolding cache_pop_def by (rule distinct_map_filter)

lemma distinct_cache_set: "distinct (map fst c) \<Longrightarrow> distinct (map fst (cache_set c k v ttl now))"
  using distinct_cache_pop [of c k] by (auto simp: cache_set_def cache_pop_def)

section \<open>The interface of expiring stores\<close>

text \<open>
  What the clients of the cache (provider lists, OIDC codes) rely on. \<open>live s now k\<close> is the
  value a lookup returns; \<open>take\<close> is the lookup-then-delete idiom of one-time values.
\<close>

locale expiring_store =
  fixes get :: "'s \<Rightarrow> 'k \<Rightarrow> int \<Rightarrow> 'v option \<times> 's"
    and put :: "'s \<Rightarrow> 'k \<Rightarrow> 'v \<Rightarrow> int \<Rightarrow> int \<Rightarrow> 's"
    and delete :: "'s \<Rightarrow> 'k \<Rightarrow> 's"
  assumes get_put: "fst (get (put s k v ttl t0) k' t) =
      (if k' = k then (if t0 + ttl * NS \<le> t then None else Some v) else fst (get s k' t))"
    and get_delete: "fst (get (delete s k) k' t) = (if k' = k then None else fst (get s k' t))"
    and get_state: "t1 \<le> t2 \<Longrightarrow> fst (get (snd (get s k t1)) k' t2) = fst (get s k' t2)"
    and get_expires: "t1 \<le> t2 \<Longrightarrow> fst (get s k t1) = None \<Longrightarrow> fst (get s k t2) = None"
begin

definition live :: "'s \<Rightarrow> int \<Rightarrow> 'k \<Rightarrow> 'v option" where
  "live s t k = fst (get s k t)"

definition take :: "'s \<Rightarrow> 'k \<Rightarrow> int \<Rightarrow> 'v option \<times> 's" where
  "take s k t = (case get s k t of (None, s1) \<Rightarrow> (None, s1) | (Some v, s1) \<Rightarrow> (Some v, delete s1 k))"

lemma live_put: "live (put s k v ttl t0) t k' =
    (if k' = k then (if t0 + ttl * NS \<le> t then None else Some v) else live s t k')"
  by (simp add: live_def get_put)

lemma live_delete: "live (delete s k) t k' = (if k' = k then None else live s t k')"
  by (simp add: live_def get_delete)

lemma take_fst: "fst (take s k t) = live s t k"
  by (auto simp: take_def live_def split: prod.splits option.splits)

lemma live_take:
  assumes "t1 \<le> t2"
  shows "live (snd (take s k t1)) t2 k' = (if k' = k then None else live s t2 k')"
proof (cases "get s k t1")
  case (Pair r s1)
  have st: "fst (get s1 k' t2) = fst (get s k' t2)" for k'
    using get_state [OF assms, of s k k'] Pair by simp
  show ?thesis
  proof (cases r)
    case None
    with get_expires [OF assms, of s k] Pair have "fst (get s k t2) = None" by simp
    with None Pair st show ?thesis by (simp add: take_def live_def)
  next
    case (Some v)
    with Pair st show ?thesis by (simp add: take_def live_def get_delete)
  qed
qed

text \<open>A value is taken at most once, whatever is taken in between.\<close>

lemma take_once:
  assumes "t1 \<le> t2" and "\<forall>x\<in>set xs. t1 \<le> snd x \<and> snd x \<le> t2"
  shows "fst (take (fold (\<lambda>(k', t) s. snd (take s k' t)) xs (snd (take s k t1))) k t2) = None"
proof -
  have gone: "live s' t2 k = None \<Longrightarrow>
      live (fold (\<lambda>(k', t) s. snd (take s k' t)) xs s') t2 k = None" for s'
    using assms(2)
  proof (induction xs arbitrary: s')
    case (Cons x xs)
    obtain k' t where x: "x = (k', t)" by force
    with Cons.prems have "live (snd (take s' k' t)) t2 k = None" by (simp add: live_take)
    with Cons x show ?case by simp
  qed simp
  then show ?thesis by (simp add: take_fst live_take assms(1))
qed

end

lemma fst_cache_get:
  "fst (cache_get c k t) =
     (case map_of c k of None \<Rightarrow> None | Some e \<Rightarrow> if ce_expires e \<le> t then None else Some (ce_value e))"
  by (simp add: cache_get_def split: option.split)

lemma map_of_snd_cache_get:
  "map_of (snd (cache_get c k t)) k' =
     (if k' = k \<and> fst (cache_get c k t) = None then None else map_of c k')"
  by (auto simp: cache_get_def map_of_cache_pop split: option.split)

interpretation ttl: expiring_store cache_get cache_set cache_delete
proof
  fix c :: "'v ttl_cache" and k k' :: string and t1 t2 :: int
  assume "t1 \<le> t2"
  then show "fst (cache_get (snd (cache_get c k t1)) k' t2) = fst (cache_get c k' t2)"
    by (auto simp: fst_cache_get map_of_snd_cache_get split: option.splits if_splits)
  from \<open>t1 \<le> t2\<close> show "fst (cache_get c k t2) = None" if "fst (cache_get c k t1) = None"
    using that by (auto simp: fst_cache_get split: option.splits if_splits)
qed (simp_all add: fst_cache_get map_of_cache_set cache_delete_def map_of_cache_pop)

section \<open>Sliding-window rate limiter\<close>

record rate_decision =
  rd_allowed :: bool
  rd_retry_after :: int
  rd_remaining :: int

text \<open>A bucket is the deque of the times admitted for one key, oldest first.\<close>

type_synonym limiter = "string \<Rightarrow> int list"

definition new_limiter :: limiter where
  "new_limiter = (\<lambda>_. [])"

definition live_bucket :: "int list \<Rightarrow> int \<Rightarrow> int \<Rightarrow> int list" where
  "live_bucket b window now = dropWhile (\<lambda>x. x \<le> now - window * NS) b"

text \<open>\<open>bucket[0]\<close> of an empty deque raises IndexError: that happens when the limit is not
  positive.\<close>

definition rate_check ::
  "limiter \<Rightarrow> string \<Rightarrow> int \<Rightarrow> int \<Rightarrow> int \<Rightarrow> rate_decision result \<times> limiter" where
  "rate_check l key limit window now =
     (let b = live_bucket (l key) window now in
      if limit \<le> int (length b) then
        (case b of
           [] \<Rightarrow> (Inl (OtherError ''IndexError''), l(key := b))
         | x # _ \<Rightarrow>
            (Inr \<lparr>rd_allowed = False, rd_retry_after = max 1 ((window * NS - (now - x)) div NS),
                 rd_remaining = 0\<rparr>, l(key := b)))
      else (let b' = b @ [now] in
        (Inr \<lparr>rd_allowed = True, rd_retry_after = 0,
             rd_remaining = max 0 (limit - int (length b'))\<rparr>, l(key := b'))))"

text \<open>A run of checks with one limit and window; the admitted times of every key.\<close>

definition allowed :: "rate_decision result \<Rightarrow> bool" where
  "allowed r = (case r of Inl _ \<Rightarrow> False | Inr x \<Rightarrow> rd_allowed x)"

fun run_checks :: "int \<Rightarrow> int \<Rightarrow> limiter \<Rightarrow> (string \<times> int) list \<Rightarrow> (string \<times> int) list \<times> limiter" where
  "run_checks limit window l [] = ([], l)"
| "run_checks limit window l ((k, now) # rest) =
     (let (r, l1) = rate_check l k limit window now;
          (adm, l2) = run_checks limit window l1 rest in
      (if allowed r then (k, now) # adm else adm, l2))"

definition admitted :: "string \<Rightarrow> (string \<times> int) list \<Rightarrow> int list" where
  "admitted k xs = map snd (filter (\<lambda>x. fst x = k) xs)"

lemma dropWhile_sorted_filter: "sorted xs \<Longrightarrow> dropWhile (\<lambda>x. x \<le> c) xs = filter (\<lambda>x. c < x) xs"
  for xs :: "int list"
proof (induction xs)
  case (Cons a xs)
  show ?case
  proof (cases "a \<le> c")
    case True
    with Cons show ?thesis by simp
  next
    case False
    with Cons.prems have "\<forall>x\<in>set xs. c < x" by auto
    with False show ?thesis by (simp add: filter_id_conv)
  qed
qed simp

text \<open>
  The invariant behind the limiter: of the times \<open>g\<close> granted so far, all up to \<open>now\<close> and in
  order, the bucket holds those a window ending now can still see, and no window holds more
  than the limit.
\<close>

definition window_count :: "int \<Rightarrow> int \<Rightarrow> int list \<Rightarrow> int" where
  "window_count window t g = int (length (filter (\<lambda>x. t - window * NS < x \<and> x \<le> t) g))"

definition bucket_ok :: "int \<Rightarrow> int \<Rightarrow> int \<Rightarrow> int list \<Rightarrow> int list \<Rightarrow> bool" where
  "bucket_ok limit window now g b \<longleftrightarrow>
     sorted g \<and> (\<forall>x\<in>set g. x \<le> now) \<and> sorted b \<and> set b \<subseteq> set g \<and>
     (\<forall>t\<ge>now. filter (\<lambda>x. t - window * NS < x) b = filter (\<lambda>x. t - window * NS < x) g) \<and>
     (\<forall>t. window_count window t g \<le> limit)"

lemma bucket_ok_later: "bucket_ok limit window now g b \<Longrightarrow> now \<le> now' \<Longrightarrow> bucket_ok limit window now' g b"
  by (fastforce simp: bucket_ok_def)

lemma bucket_ok_live:
  assumes "bucket_ok limit window now g b"
  shows "live_bucket b window now = filter (\<lambda>x. now - window * NS < x) g"
    and "bucket_ok limit window now g (live_bucket b window now)"
proof -
  have *: "live_bucket b window now = filter (\<lambda>x. now - window * NS < x) b"
    using assms by (simp add: live_bucket_def bucket_ok_def dropWhile_sorted_filter)
  with assms show live: "live_bucket b window now = filter (\<lambda>x. now - window * NS < x) g"
    by (simp add: bucket_ok_def)
  have "filter (\<lambda>x. t - window * NS < x) (filter (\<lambda>x. now - window * NS < x) g) =
        filter (\<lambda>x. t - window * NS < x) g" if "now \<le> t" for t
    using that by (auto intro!: filter_cong)
  with assms live show "bucket_ok limit window now g (live_bucket b window now)"
    by (auto simp: bucket_ok_def sorted_wrt_filter)
qed

lemma bucket_ok_admit:
  assumes ok: "bucket_ok limit window now g b" and "0 \<le> window"
    and room: "int (length (live_bucket b window now)) < limit"
  shows "bucket_ok limit window now (g @ [now]) (live_bucket b window now @ [now])"
proof -
  let ?b = "live_bucket b window now"
  note live = bucket_ok_live [OF ok]
  have g: "sorted (g @ [now])" "\<forall>x\<in>set (g @ [now]). x \<le> now"
    using ok by (auto simp: bucket_ok_def sorted_append)
  have b: "sorted (?b @ [now])" "set (?b @ [now]) \<subseteq> set (g @ [now])"
    using live(2) by (auto simp: bucket_ok_def sorted_append)
  have same: "filter (\<lambda>x. t - window * NS < x) (?b @ [now]) = filter (\<lambda>x. t - window * NS < x) (g @ [now])"
    if "now \<le> t" for t
    using live(2) that by (simp add: bucket_ok_def)
  have "window_count window t (g @ [now]) \<le> limit" for t
  proof (cases "now \<le> t")
    case False
    then show ?thesis using ok by (simp add: window_count_def bucket_ok_def)
  next
    case True
    have "length (filter (\<lambda>x. t - window * NS < x \<and> x \<le> t) g) \<le> length (filter (\<lambda>x. now - window * NS < x) g)"
    proof -
      have "filter (\<lambda>x. t - window * NS < x \<and> x \<le> t) g =
            filter (\<lambda>x. t - window * NS < x \<and> x \<le> t) (filter (\<lambda>x. now - window * NS < x) g)"
        using True by (auto intro: filter_cong)
      then show ?thesis by (metis length_filter_le)
    qed
    also have "\<dots> = length ?b" by (simp add: live(1))
    finally show ?thesis using room by (simp add: window_count_def)
  qed
  with g b same show ?thesis by (simp add: bucket_ok_def)
qed

lemma rate_check_step:
  assumes ok: "bucket_ok limit window now g (l k)" and "0 \<le> window"
    and step: "rate_check l k limit window now = (r, l1)"
  shows "bucket_ok limit window now (if allowed r then g @ [now] else g) (l1 k)"
    and "k' \<noteq> k \<Longrightarrow> l1 k' = l k'"
proof -
  let ?b = "live_bucket (l k) window now"
  show "bucket_ok limit window now (if allowed r then g @ [now] else g) (l1 k)"
  proof (cases "limit \<le> int (length ?b)")
    case True
    then have "\<not> allowed r" and "l1 k = ?b"
      using step by (auto simp: rate_check_def Let_def allowed_def split: list.splits)
    with bucket_ok_live(2) [OF ok] show ?thesis by simp
  next
    case False
    then have "allowed r" and "l1 k = ?b @ [now]"
      using step by (auto simp: rate_check_def Let_def allowed_def)
    with bucket_ok_admit [OF ok assms(2)] False show ?thesis by simp
  qed
  show "k' \<noteq> k \<Longrightarrow> l1 k' = l k'"
    using step by (auto simp: rate_check_def Let_def split: if_splits list.splits)
qed

lemma run_checks_ok:
  assumes "0 \<le> window" and "sorted (map snd xs)" and "\<forall>x\<in>set xs. now \<le> snd x"
    and "\<And>k. bucket_ok limit window now (g k) (l k)"
    and "run_checks limit window l xs = (adm, l')"
  shows "window_count window t (g k @ admitted k adm) \<le> limit"
  using assms(2-)
proof (induction xs arbitrary: now g l adm)
  case Nil
  then show ?case by (simp add: bucket_ok_def admitted_def)
next
  case (Cons x xs)
  obtain k0 t0 where x: "x = (k0, t0)" by force
  obtain r l1 where step: "rate_check l k0 limit window t0 = (r, l1)" by force
  obtain adm1 l2 where rest: "run_checks limit window l1 xs = (adm1, l2)" by force
  let ?g = "g(k0 := if allowed r then g k0 @ [t0] else g k0)"
  have later: "bucket_ok limit window t0 (g k) (l k)" for k
  proof (rule bucket_ok_later)
    show "bucket_ok limit window now (g k) (l k)" by (rule Cons.prems(3))
    show "now \<le> t0" using Cons.prems(2) x by simp
  qed
  note st = rate_check_step [OF later [of k0] assms(1) step]
  have step_ok: "bucket_ok limit window t0 (?g k) (l1 k)" for k
    using st(1) st(2) [of k] later [of k] by (cases "k = k0") auto
  have "window_count window t (?g k @ admitted k adm1) \<le> limit"
  proof (rule Cons.IH)
    show "sorted (map snd xs)" and "\<forall>x\<in>set xs. t0 \<le> snd x" using Cons.prems(1) x by auto
    show "bucket_ok limit window t0 (?g k) (l1 k)" for k by (rule step_ok)
    show "run_checks limit window l1 xs = (adm1, l')" using Cons.prems(4) x step rest
      by (simp split: if_splits)
  qed
  moreover have "adm = (if allowed r then (k0, t0) # adm1 else adm1)"
    using Cons.prems(4) x step rest by (simp split: if_splits)
  ultimately show ?case by (auto simp: admitted_def split: if_splits)
qed

section \<open>Properties\<close>

text \<open>
  C12. The limiter enforces its limit: for every sequence of checks, of any keys, in the order
  of a monotonic clock, no window of the configured length ever contains more than \<open>limit\<close>
  admitted requests of one key.
\<close>

theorem rate_limit_enforced:
  assumes "0 \<le> limit" and "0 \<le> window" and "sorted (map snd requests)"
  shows "window_count window t (admitted k (fst (run_checks limit window new_limiter requests))) \<le> limit"
proof -
  obtain adm l' where r: "run_checks limit window new_limiter requests = (adm, l')" by force
  define now where "now = (case requests of [] \<Rightarrow> 0 | x # _ \<Rightarrow> snd x)"
  have le: "\<forall>x\<in>set requests. now \<le> snd x"
    using assms(3) by (cases requests) (auto simp: now_def)
  have init: "bucket_ok limit window now [] (new_limiter k)" for k
    using assms(1) by (simp add: bucket_ok_def new_limiter_def window_count_def)
  show ?thesis
    using run_checks_ok [OF assms(2,3) le, of limit "\<lambda>_. []" new_limiter adm l' t k] init r by simp
qed

lemma rate_limit_enforced_witness:
  "admitted ''ip'' (fst (run_checks 2 60 new_limiter
      [(''ip'', 0), (''ip'', NS), (''ip'', 2 * NS), (''ip'', 61 * NS)])) = [0, NS, 61 * NS] \<and>
   window_count 60 (60 * NS) [0, NS, 61 * NS] \<le> 2"
proof -
  let ?q = "[(''ip'', 0), (''ip'', NS), (''ip'', 2 * NS), (''ip'', 61 * NS)]"
  have a: "admitted ''ip'' (fst (run_checks 2 60 new_limiter ?q)) = [0, NS, 61 * NS]" by code_simp
  have s: "sorted (map snd ?q)" by (simp add: NS_def)
  show ?thesis using a rate_limit_enforced [OF _ _ s, of 2 60 "60 * NS" "''ip''"] by simp
qed

text \<open>
  What a refusal tells the client: a check is refused only when the key already has
  \<open>limit\<close> live admissions; the advertised delay is between one second and the window, and
  once that many seconds (and one more, for the fraction dropped by truncation) have passed,
  the same request is admitted if nothing else arrived.
\<close>

theorem refusal_delay_is_honest:
  assumes "0 < limit" and "1 \<le> window" and "sorted (l k)" and "\<forall>x\<in>set (l k). x \<le> now"
    and "int (length (live_bucket (l k) window now)) \<le> limit"
    and "rate_check l k limit window now = (Inr r, l1)" and "\<not> rd_allowed r"
  shows "int (length (live_bucket (l k) window now)) = limit \<and>
         1 \<le> rd_retry_after r \<and> rd_retry_after r \<le> window \<and>
         allowed (fst (rate_check l1 k limit window (now + (rd_retry_after r + 1) * NS)))"
proof -
  let ?b = "live_bucket (l k) window now"
  have full: "limit \<le> int (length ?b)"
    using assms(6,7) by (auto simp: rate_check_def Let_def split: if_splits)
  then obtain x xs where b: "?b = x # xs" using assms(1) by (cases ?b) auto
  have l1: "l1 k = x # xs" and r: "rd_retry_after r = max 1 ((window * NS - (now - x)) div NS)"
    using assms(6,7) full b by (auto simp: rate_check_def)
  have live: "x # xs = filter (\<lambda>y. now - window * NS < y) (l k)"
    using b assms(3) by (simp add: live_bucket_def dropWhile_sorted_filter)
  have x: "now - window * NS < x" "x \<le> now"
  proof -
    have "x \<in> set (filter (\<lambda>y. now - window * NS < y) (l k))" unfolding live [symmetric] by simp
    then show "now - window * NS < x" "x \<le> now" using assms(4) by auto
  qed
  have ns: "0 < NS" by (simp add: NS_def)
  let ?w = "window * NS - (now - x)"
  have w: "?w div NS \<le> window"
  proof -
    have "?w div NS \<le> (window * NS) div NS" using x ns by (intro zdiv_mono1) auto
    then show ?thesis using ns by simp
  qed
  have "?w < (?w div NS + 1) * NS" using ns
    by (metis add.commute mult.commute mult_div_mod_eq add_strict_left_mono pos_mod_bound
        distrib_right mult_1)
  also have "\<dots> \<le> (rd_retry_after r + 1) * NS" using ns r by (intro mult_right_mono) auto
  finally have past: "x \<le> now + (rd_retry_after r + 1) * NS - window * NS" by linarith
  let ?c = "live_bucket (l1 k) window (now + (rd_retry_after r + 1) * NS)"
  have "?c = dropWhile (\<lambda>y. y \<le> now + (rd_retry_after r + 1) * NS - window * NS) xs"
    using past by (simp add: live_bucket_def l1)
  then have "length ?c \<le> length xs" by (metis length_dropWhile_le)
  moreover have "int (length xs) < limit" using assms(5) b by simp
  ultimately have "allowed (fst (rate_check l1 k limit window (now + (rd_retry_after r + 1) * NS)))"
    by (simp add: rate_check_def Let_def allowed_def)
  with r w assms(2,5) full show ?thesis by simp
qed

lemma refusal_delay_is_honest_witness:
  "\<exists>r. fst (rate_check (\<lambda>_. [0]) ''ip'' 1 60 (NS div 2)) = Inr r \<and> \<not> rd_allowed r \<and>
     rd_retry_after r \<le> 60 \<and>
     allowed (fst (rate_check (\<lambda>_. [0]) ''ip'' 1 60 (NS div 2 + (rd_retry_after r + 1) * NS)))"
proof -
  let ?r = "\<lparr>rd_allowed = False, rd_retry_after = 59, rd_remaining = 0\<rparr>"
  let ?l = "\<lambda>_ :: string. [0 :: int]"
  have c: "rate_check ?l ''ip'' 1 60 (NS div 2) = (Inr ?r, ?l)"
    by (simp add: rate_check_def live_bucket_def NS_def Let_def fun_upd_def)
  have len: "int (length (live_bucket (?l ''ip'') 60 (NS div 2))) \<le> 1"
    by (simp add: live_bucket_def NS_def)
  show ?thesis
    using refusal_delay_is_honest [OF _ _ _ _ len c] c by (auto simp: NS_def)
qed

lemma cache_values_expire_and_are_taken_once_facts:
  assumes "t1 \<le> t2" and "\<forall>x\<in>set xs. t1 \<le> snd x \<and> snd x \<le> t2"
  shows "fst (ttl.take (fold (\<lambda>(k', t) s. snd (ttl.take s k' t)) xs (snd (ttl.take c k t1))) k t2) = None"
    and "fst (cache_get (cache_set c k v n t1) k t2) = (if t1 + n * NS \<le> t2 then None else Some v)"
  using ttl.take_once [OF assms] ttl.get_put [of c k v n t1 k t2] by simp_all

text \<open>
  One-time values are taken once: of two lookup-then-delete passes over the cache for the
  same key, whatever other keys are taken in between, the second finds nothing; and a value
  stored with a time to live is found until, and not after, it expires.
\<close>

theorem cache_values_expire_and_are_taken_once:
  assumes "t1 \<le> t2" and "\<forall>x\<in>set xs. t1 \<le> snd x \<and> snd x \<le> t2"
  shows "(fst (ttl.take (fold (\<lambda>(k', t) s. snd (ttl.take s k' t)) xs (snd (ttl.take c k t1))) k t2) = None) \<and>
     (fst (cache_get (cache_set c k v n t1) k t2) = (if t1 + n * NS \<le> t2 then None else Some v))"
proof -
  have 1: "fst (ttl.take (fold (\<lambda>(k', t) s. snd (ttl.take s k' t)) xs (snd (ttl.take c k t1))) k t2) = None"
    by ((intro impI)?, rule cache_values_expire_and_are_taken_once_facts(1); (assumption | rule assms))
  have 2: "fst (cache_get (cache_set c k v n t1) k t2) = (if t1 + n * NS \<le> t2 then None else Some v)"
    by ((intro impI)?, rule cache_values_expire_and_are_taken_once_facts(2); (assumption | rule assms))
  show ?thesis by (rule conjI [OF 1 2])
qed

lemma cache_values_expire_and_are_taken_once_witness:
  "fst (ttl.take (cache_set [] ''code'' (7 :: int) 60 0) ''code'' 5) = Some 7 \<and>
   fst (ttl.take (snd (ttl.take (cache_set [] ''code'' (7 :: int) 60 0) ''code'' 5)) ''code'' 6) = None"
proof -
  have "fst (ttl.take (cache_set [] ''code'' (7 :: int) 60 0) ''code'' 5) = Some 7"
    by (simp add: ttl.take_fst ttl.live_put NS_def)
  then show ?thesis
    using cache_values_expire_and_are_taken_once [of 5 6 "[]" "cache_set [] ''code'' (7 :: int) 60 0" "''code''"]
    by simp
qed

section \<open>The cache refines an expiring map\<close>

datatype 'v cache_op = CGet string int | CSet string 'v int int | CDelete string int

fun op_time :: "'v cache_op \<Rightarrow> int" where
  "op_time (CGet k t) = t"
| "op_time (CSet k v n t) = t"
| "op_time (CDelete k t) = t"

text \<open>The code: a lookup also removes an expired entry.\<close>

fun cache_run :: "'v ttl_cache \<Rightarrow> 'v cache_op list \<Rightarrow> 'v option list" where
  "cache_run c [] = []"
| "cache_run c (CGet k t # ops) = (let (r, c1) = cache_get c k t in r # cache_run c1 ops)"
| "cache_run c (CSet k v n t # ops) = cache_run (cache_set c k v n t) ops"
| "cache_run c (CDelete k t # ops) = cache_run (cache_delete c k) ops"

text \<open>The specification: a map from keys to values with an expiry, never cleaned up.\<close>

fun spec_run :: "(string \<rightharpoonup> 'v \<times> int) \<Rightarrow> 'v cache_op list \<Rightarrow> 'v option list" where
  "spec_run m [] = []"
| "spec_run m (CGet k t # ops) =
     (case m k of Some (v, x) \<Rightarrow> if t < x then Some v else None | None \<Rightarrow> None) # spec_run m ops"
| "spec_run m (CSet k v n t # ops) = spec_run (m(k \<mapsto> (v, t + n * NS))) ops"
| "spec_run m (CDelete k t # ops) = spec_run (m(k := None)) ops"

definition cache_sim :: "int \<Rightarrow> 'v ttl_cache \<Rightarrow> (string \<rightharpoonup> 'v \<times> int) \<Rightarrow> bool" where
  "cache_sim now c m \<longleftrightarrow> (\<forall>k t. now \<le> t \<longrightarrow>
     ttl.live c t k = (case m k of Some (v, x) \<Rightarrow> if t < x then Some v else None | None \<Rightarrow> None))"

lemma cache_sim_later: "cache_sim now c m \<Longrightarrow> now \<le> now' \<Longrightarrow> cache_sim now' c m"
  by (simp add: cache_sim_def)

lemma cache_run_sim:
  "cache_sim now c m \<Longrightarrow> sorted (now # map op_time ops) \<Longrightarrow> cache_run c ops = spec_run m ops"
proof (induction ops arbitrary: now c m)
  case (Cons x ops)
  have s: "cache_sim (op_time x) c m" and so: "sorted (op_time x # map op_time ops)"
    using cache_sim_later [OF Cons.prems(1)] Cons.prems(2) by auto
  show ?case
  proof (cases x)
    case (CGet k t)
    obtain r c1 where g: "cache_get c k t = (r, c1)" by force
    have "ttl.live c1 t' k' = ttl.live c t' k'" if "t \<le> t'" for t' k'
      using ttl.get_state [OF that, of c k k'] g by (simp add: ttl.live_def)
    then have "cache_sim t c1 m" using s CGet by (simp add: cache_sim_def)
    then have "cache_run c1 ops = spec_run m ops" using so CGet by (intro Cons.IH) auto
    moreover have "r = (case m k of Some (v, x) \<Rightarrow> if t < x then Some v else None | None \<Rightarrow> None)"
    proof -
      have "fst (cache_get c k t) = (case m k of Some (v, x) \<Rightarrow> if t < x then Some v else None | None \<Rightarrow> None)"
        using s CGet unfolding cache_sim_def ttl.live_def by (metis op_time.simps(1) order_refl)
      with g show ?thesis by simp
    qed
    ultimately show ?thesis using CGet g by simp
  next
    case (CSet k v n t)
    have "cache_sim t (cache_set c k v n t) (m(k \<mapsto> (v, t + n * NS)))"
      using s CSet by (auto simp: cache_sim_def ttl.live_put)
    then have "cache_run (cache_set c k v n t) ops = spec_run (m(k \<mapsto> (v, t + n * NS))) ops"
      by (rule Cons.IH) (use so CSet in simp)
    then show ?thesis using CSet by simp
  next
    case (CDelete k t)
    have "cache_sim t (cache_delete c k) (m(k := None))"
      using s CDelete by (auto simp: cache_sim_def ttl.live_delete)
    then have "cache_run (cache_delete c k) ops = spec_run (m(k := None)) ops"
      by (rule Cons.IH) (use so CDelete in simp)
    then show ?thesis using CDelete by simp
  qed
qed simp

text \<open>
  C31. For any sequence of lookups, stores and deletions in the order of the clock, the cache
  answers every lookup as a plain map from keys to values with an expiry would: removing an
  expired entry during a lookup, replacing entries and deleting them is never observable.
\<close>

theorem cache_refines_expiring_map:
  assumes "sorted (map op_time ops)"
  shows "cache_run [] ops = spec_run Map.empty ops"
proof (cases ops)
  case (Cons x xs)
  have "cache_sim (op_time x) [] Map.empty" by (simp add: cache_sim_def ttl.live_def cache_get_def)
  then show ?thesis using cache_run_sim [of "op_time x" "[]" Map.empty ops] assms Cons by simp
qed simp

lemma cache_refines_expiring_map_witness:
  "cache_run [] [CSet ''a'' (1 :: int) 2 0, CGet ''a'' 5, CGet ''a'' (2 * NS), CGet ''a'' (3 * NS)] = [Some 1, None, None]"
proof -
  let ?ops = "[CSet ''a'' (1 :: int) 2 0, CGet ''a'' 5, CGet ''a'' (2 * NS), CGet ''a'' (3 * NS)]"
  have "sorted (map op_time ?ops)" by (simp add: NS_def)
  then have "cache_run [] ?ops = spec_run Map.empty ?ops" by (rule cache_refines_expiring_map)
  then show ?thesis by (simp add: NS_def)
qed

end
