(* ===== verification/Login.thy ===== *)
theory Login
  imports Auth Cache
begin

text \<open>
  The browser session: sign-in and sign-out (\<^verbatim>\<open>modules/auth/routes.py\<close>), the guards in front of
  every panel page (\<^verbatim>\<open>routes/deps.py\<close>), and personal API tokens
  (\<^verbatim>\<open>services/api_tokens.py\<close>). The session cookie is a record, empty after \<open>clear\<close>;
  \<open>unquote\<close> (percent decoding) is a parameter.
\<close>

section \<open>Session and guards\<close>

record web_session =
  ss_csrf :: "string option"
  ss_admin :: "string option"
  ss_email :: string
  ss_name :: string
  ss_role :: string
  ss_tenant :: string
  ss_tenant_slug :: string
  ss_tenant_name :: string

definition empty_session :: web_session where
  "empty_session = \<lparr>ss_csrf = None, ss_admin = None, ss_email = [], ss_name = [], ss_role = [],
     ss_tenant = [], ss_tenant_slug = [], ss_tenant_name = []\<rparr>"

text \<open>\<open>fresh\<close> is the value of \<open>token_urlsafe\<close>.\<close>

definition ensure_csrf_token :: "string \<Rightarrow> web_session \<Rightarrow> string \<times> web_session" where
  "ensure_csrf_token fresh s =
     (case ss_csrf s of Some t \<Rightarrow> (t, s) | None \<Rightarrow> (fresh, s\<lparr>ss_csrf := Some fresh\<rparr>))"

definition verify_csrf_token :: "web_session \<Rightarrow> string \<Rightarrow> unit result" where
  "verify_csrf_token s submitted =
     (if submitted = [] \<or> or_empty (ss_csrf s) = [] \<or> Some submitted \<noteq> ss_csrf s
      then Inl (HTTPException 400 ''Invalid CSRF token.'') else Inr ())"

definition unsafe_method :: "string \<Rightarrow> bool" where
  "unsafe_method m = (m \<in> set [''POST'', ''PUT'', ''PATCH'', ''DELETE''])"

text \<open>A 303 HTTPException carries its Location.\<close>

definition get_current_admin ::
  "db \<Rightarrow> string \<Rightarrow> string \<Rightarrow> web_session \<Rightarrow> admin_user option result \<times> web_session" where
  "get_current_admin d method fresh s =
     (if or_empty (ss_admin s) = [] then (Inr None, s)
      else (case get_admin_by_id d (or_empty (ss_admin s)) of
              None \<Rightarrow> (Inr None, empty_session)
            | Some a \<Rightarrow>
                if \<not> ad_active a then (Inr None, empty_session)
                else
                  (let s1 = snd (ensure_csrf_token fresh s) in
                   if ad_role a \<noteq> ROLE_PLATFORM_ADMIN \<and> unsafe_method method \<and>
                      \<not> (case get_tenant d (ad_tenant a) of None \<Rightarrow> False | Some t \<Rightarrow> tn_status t = TENANT_ACTIVE)
                   then (Inl (HTTPException 303 ''/dashboard''), s1)
                   else (Inr (Some a), s1))))"

definition require_admin ::
  "(string \<Rightarrow> string) \<Rightarrow> db \<Rightarrow> string \<Rightarrow> string \<Rightarrow> string \<Rightarrow> string \<Rightarrow> web_session \<Rightarrow>
   admin_user result \<times> web_session" where
  "require_admin quote d method path query fresh s =
     (case get_current_admin d method fresh s of
        (Inl e, s1) \<Rightarrow> (Inl e, s1)
      | (Inr (Some a), s1) \<Rightarrow> (Inr a, s1)
      | (Inr None, s1) \<Rightarrow>
          (Inl (HTTPException 303 (''/auth/login?next='' @
             (if query = [] then quote path else quote (path @ ''?'' @ query)))), s1))"

definition require_platform_admin ::
  "(string \<Rightarrow> string) \<Rightarrow> db \<Rightarrow> string \<Rightarrow> string \<Rightarrow> string \<Rightarrow> string \<Rightarrow> web_session \<Rightarrow>
   admin_user result \<times> web_session" where
  "require_platform_admin quote d method path query fresh s =
     (case require_admin quote d method path query fresh s of
        (Inl e, s1) \<Rightarrow> (Inl e, s1)
      | (Inr a, s1) \<Rightarrow>
          if ad_role a = ROLE_PLATFORM_ADMIN then (Inr a, s1)
          else (Inl (HTTPException 303 ''/dashboard''), s1))"

section \<open>Sign-in\<close>

text \<open>
  \<open>LoginFormData\<close>: pydantic strips every string field (Unicode white space) and then runs the
  field validators in order; the handler shows the first error.
\<close>

definition trim_space :: "char \<Rightarrow> bool" where
  "trim_space c = (let n = ord_of c in 9 \<le> n \<and> n \<le> 13 \<or> n = 32 \<or> n = 133 \<or> n = 160)"

record login_form =
  lf_email :: string
  lf_password :: string
  lf_csrf :: string

definition login_form_data :: "string \<Rightarrow> string \<Rightarrow> string \<Rightarrow> string + login_form" where
  "login_form_data email pw csrf =
     (let e = strip_if trim_space email; p = strip_if trim_space pw; c = strip_if trim_space csrf in
      if CHR ''@'' \<notin> set e \<or> CHR ''.'' \<notin> set (last (split_on (CHR ''@'') e)) then
        Inl ''Value error, Enter a valid email address.''
      else if length p < 8 then Inl ''Value error, Password must be at least 8 characters long.''
      else if c = [] then Inl ''Value error, Missing CSRF token.''
      else Inr \<lparr>lf_email = py_lower e, lf_password = p, lf_csrf = c\<rparr>)"

datatype page = LoginPage int "string option" bool | RedirectTo string

record login_config =
  lc_attempts :: int
  lc_window :: int

text \<open>The session a successful sign-in issues.\<close>

definition signed_in :: "db \<Rightarrow> admin_user \<Rightarrow> string \<Rightarrow> web_session" where
  "signed_in d a fresh =
     \<lparr>ss_csrf = Some fresh, ss_admin = Some (ad_id a), ss_email = ad_email a, ss_name = ad_name a,
      ss_role = ad_role a, ss_tenant = ad_tenant a,
      ss_tenant_slug = (case get_tenant d (ad_tenant a) of None \<Rightarrow> [] | Some t \<Rightarrow> tn_slug t),
      ss_tenant_name = (case get_tenant d (ad_tenant a) of None \<Rightarrow> [] | Some t \<Rightarrow> tn_name t)\<rparr>"

definition login_destination :: "(string \<Rightarrow> string) \<Rightarrow> string \<Rightarrow> string" where
  "login_destination unquote next_url =
     (if starts_with ''/'' next_url then unquote next_url else ''/dashboard'')"

text \<open>\<open>tick\<close> is the monotonic clock of the limiter (ns), \<open>now\<close> the wall clock (s).\<close>

definition login ::
  "login_config \<Rightarrow> (string \<Rightarrow> string) \<Rightarrow> (string \<Rightarrow> string \<Rightarrow> bool) \<Rightarrow> (nat list \<Rightarrow> nat list \<Rightarrow> nat list) \<Rightarrow>
   (string \<Rightarrow> string) \<Rightarrow> limiter \<Rightarrow> db \<Rightarrow> web_session \<Rightarrow> int \<Rightarrow> int \<Rightarrow> string \<Rightarrow> string option \<Rightarrow>
   string \<Rightarrow> string \<Rightarrow> string \<Rightarrow> string \<Rightarrow> string \<Rightarrow> page result \<times> limiter \<times> db \<times> web_session" where
  "login lc unquote verify_pw hmac sha l d s tick now fresh client email pw csrf next_url totp_code =
     (let host = (case client of None \<Rightarrow> ''unknown'' | Some h \<Rightarrow> h);
          (dec, l1) = rate_check l (''login:'' @ host) (lc_attempts lc) (lc_window lc) tick;
          s1 = snd (ensure_csrf_token fresh s) in
      case dec of
        Inl e \<Rightarrow> (Inl e, l1, d, s)
      | Inr r \<Rightarrow>
        if \<not> rd_allowed r then
          (Inr (LoginPage 429 (Some (''Too many login attempts. Try again in ''
              @ int_str (rd_retry_after r) @ ''s.'')) False), l1, d, s1)
        else (case login_form_data email pw csrf of
          Inl msg \<Rightarrow> (Inr (LoginPage 400 (Some msg) False), l1, d, s1)
        | Inr f \<Rightarrow>
          (case verify_csrf_token s (lf_csrf f) of
            Inl e \<Rightarrow> (Inl e, l1, d, s)
          | Inr _ \<Rightarrow>
            (case authenticate verify_pw d (lf_email f) (lf_password f) of
              None \<Rightarrow> (Inr (LoginPage 401 (Some ''Invalid credentials.'') False), l1, d, s1)
            | Some a \<Rightarrow>
              (case (if ad_totp_enabled a then verify_totp_login hmac sha d a totp_code now else Inr (True, d)) of
                Inl e \<Rightarrow> (Inl e, l1, d, s)
              | Inr (ok, d1) \<Rightarrow>
                  if \<not> ok then
                    (Inr (LoginPage 401 (if totp_code = [] then None
                        else Some ''Enter the code from your authenticator app.'') True), l1, d1, s1)
                  else (Inr (RedirectTo (login_destination unquote next_url)), l1,
                        touch_last_login d1 a now, signed_in d1 a fresh))))))"

definition logout :: "web_session \<Rightarrow> string \<Rightarrow> page result \<times> web_session" where
  "logout s csrf =
     (case verify_csrf_token s csrf of
        Inl e \<Rightarrow> (Inl e, s)
      | Inr _ \<Rightarrow> (Inr (RedirectTo ''/auth/login''), empty_session))"

section \<open>Personal API tokens\<close>

definition TOKEN_PREFIX :: string where "TOKEN_PREFIX = ''tetra_''"

definition looks_like_personal_token :: "string \<Rightarrow> bool" where
  "looks_like_personal_token t = starts_with TOKEN_PREFIX t"

text \<open>\<open>random\<close> is the value of \<open>token_urlsafe\<close>; times are seconds.\<close>

definition create_token ::
  "(string \<Rightarrow> string) \<Rightarrow> db \<Rightarrow> string \<Rightarrow> string \<Rightarrow> int \<Rightarrow> admin_user \<Rightarrow> string \<Rightarrow> string \<Rightarrow> int option \<Rightarrow>
   ((api_token \<times> string) \<times> db) result" where
  "create_token sha d new_id random now a nm scope days =
     (let secret = TOKEN_PREFIX @ random;
          row = \<lparr>tk_id = new_id, tk_tenant = ad_tenant a, tk_admin = ad_id a,
                 tk_name = str_or (take 120 (py_strip nm)) ''token'',
                 tk_scope = (if scope = ''read'' then ''read'' else ''full''),
                 tk_prefix = take (length TOKEN_PREFIX + 8) secret, tk_hash = sha secret, tk_created = now,
                 tk_last_used = None,
                 tk_expires = (case days of None \<Rightarrow> None | Some n \<Rightarrow> if 0 < n then Some (now + n * 86400) else None),
                 tk_revoked = False\<rparr>
      in map_sum id (\<lambda>rows. ((row, secret), d\<lparr>db_tokens := rows\<rparr>)) (insert_unique tk_hash row (db_tokens d)))"

definition list_tokens :: "db \<Rightarrow> admin_user \<Rightarrow> api_token list" where
  "list_tokens d a = sort_key (\<lambda>t. - tk_created t)
     (filter (\<lambda>t. tk_admin t = ad_id a \<and> \<not> tk_revoked t) (db_tokens d))"

definition revoke_token :: "db \<Rightarrow> admin_user \<Rightarrow> string \<Rightarrow> bool \<times> db" where
  "revoke_token d a i =
     (case find (\<lambda>t. tk_id t = i) (db_tokens d) of
        None \<Rightarrow> (False, d)
      | Some t \<Rightarrow>
          if tk_admin t \<noteq> ad_id a \<or> tk_revoked t then (False, d)
          else (True, d\<lparr>db_tokens := upd_where (\<lambda>t. tk_id t = i) (\<lambda>t. t\<lparr>tk_revoked := True\<rparr>) (db_tokens d)\<rparr>))"

definition authenticate_token :: "(string \<Rightarrow> string) \<Rightarrow> db \<Rightarrow> string \<Rightarrow> int \<Rightarrow> api_token option \<times> db" where
  "authenticate_token sha d token now =
     (case find (\<lambda>t. tk_hash t = sha token) (db_tokens d) of
        None \<Rightarrow> (None, d)
      | Some t \<Rightarrow>
          if tk_revoked t then (None, d)
          else if (case tk_expires t of None \<Rightarrow> False | Some e \<Rightarrow> e < now) then (None, d)
          else (Some (t\<lparr>tk_last_used := Some now\<rparr>),
                d\<lparr>db_tokens := upd_where (\<lambda>x. tk_id x = tk_id t) (\<lambda>x. x\<lparr>tk_last_used := Some now\<rparr>) (db_tokens d)\<rparr>))"

section \<open>Facts about the guards\<close>

lemma verify_csrf_token_iff:
  "verify_csrf_token s c = Inr () \<longleftrightarrow> c \<noteq> [] \<and> ss_csrf s = Some c"
  by (auto simp: verify_csrf_token_def)

lemma get_current_admin_Some:
  assumes "get_current_admin d method fresh s = (Inr (Some a), s1)"
  shows "get_admin_by_id d (or_empty (ss_admin s)) = Some a \<and> ad_active a \<and>
    (unsafe_method method \<longrightarrow> ad_role a = ROLE_PLATFORM_ADMIN \<or>
       (\<exists>t. get_tenant d (ad_tenant a) = Some t \<and> tn_status t = TENANT_ACTIVE))"
  using assms
  by (auto simp: get_current_admin_def Let_def split: if_splits option.splits)

lemma require_admin_Inr:
  "require_admin quote d method path query fresh s = (Inr a, s1) \<longleftrightarrow>
   get_current_admin d method fresh s = (Inr (Some a), s1)"
  by (auto simp: require_admin_def split: prod.splits sum.splits option.splits)

lemma login_outcome:
  assumes "login lc unquote verify_pw hmac sha l d s tick now fresh client email pw csrf next_url totp_code
             = (r, l1, d1, s1)"
  shows "ss_admin s1 = ss_admin s \<and> (\<forall>to. r \<noteq> Inr (RedirectTo to)) \<or>
    (\<exists>f a d2. login_form_data email pw csrf = Inr f \<and> verify_csrf_token s (lf_csrf f) = Inr () \<and>
       authenticate verify_pw d (lf_email f) (lf_password f) = Some a \<and>
       (if ad_totp_enabled a then verify_totp_login hmac sha d a totp_code now = Inr (True, d2) else d2 = d) \<and>
       r = Inr (RedirectTo (login_destination unquote next_url)) \<and> s1 = signed_in d2 a fresh \<and>
       d1 = touch_last_login d2 a now)"
proof -
  have keep: "ss_admin (snd (ensure_csrf_token fresh s)) = ss_admin s"
    by (simp add: ensure_csrf_token_def split: option.split)
  show ?thesis
    using assms keep unfolding login_def Let_def
    by (auto split: prod.splits sum.splits option.splits if_splits)
qed

section \<open>Properties\<close>

text \<open>
  C17. A session is issued only after every check: the sign-in handler changes who is signed in
  only when the form is valid, the CSRF token is the session's own, the account with that
  e-mail is active, the password verifies against its hash and, when the account opted in, the
  second factor was accepted; the issued session is exactly that account's. Every other
  outcome leaves the signed-in identity as it was.
\<close>

theorem login_issues_session_only_after_checks:
  assumes "login lc unquote verify_pw hmac sha l d s tick now fresh client email pw csrf next_url totp_code
             = (r, l1, d1, s1)"
    and "ss_admin s1 \<noteq> ss_admin s"
  shows "\<exists>a f d2. login_form_data email pw csrf = Inr f \<and> ss_csrf s = Some (lf_csrf f) \<and>
     get_admin_by_email d (lf_email f) = Some a \<and> ad_active a \<and> verify_pw (lf_password f) (ad_pw a) \<and>
     (ad_totp_enabled a \<longrightarrow> verify_totp_login hmac sha d a totp_code now = Inr (True, d2)) \<and>
     ss_admin s1 = Some (ad_id a) \<and> ss_role s1 = ad_role a \<and> ss_tenant s1 = ad_tenant a"
proof -
  from login_outcome [OF assms(1)] assms(2) obtain f a d2 where
    c: "login_form_data email pw csrf = Inr f" "verify_csrf_token s (lf_csrf f) = Inr ()"
       "authenticate verify_pw d (lf_email f) (lf_password f) = Some a" "s1 = signed_in d2 a fresh"
    and t: "if ad_totp_enabled a then verify_totp_login hmac sha d a totp_code now = Inr (True, d2) else d2 = d"
    by blast
  have "get_admin_by_email d (lf_email f) = Some a \<and> ad_active a \<and> verify_pw (lf_password f) (ad_pw a)"
    using c(3) by (auto simp: authenticate_def split: option.splits if_splits)
  with c t show ?thesis by (auto simp: verify_csrf_token_iff signed_in_def split: if_splits)
qed

definition demo_login_db :: db where
  "demo_login_db = empty_db\<lparr>
     db_tenants := [\<lparr>tn_id = ''t'', tn_name = ''T'', tn_slug = ''t'', tn_status = TENANT_ACTIVE,
       tn_plan_id = None, tn_platform = False, tn_signup_ip = None\<rparr>],
     db_admins := [new_admin ''a'' ''t'' ''a@b.c'' ''A'' (demo_hash ''long enough'') ROLE_OWNER 0]\<rparr>"

definition demo_session :: web_session where
  "demo_session = empty_session\<lparr>ss_csrf := Some ''tok''\<rparr>"

definition demo_login :: "string \<Rightarrow> string \<Rightarrow> page result \<times> limiter \<times> db \<times> web_session" where
  "demo_login pw next_url = login \<lparr>lc_attempts = 5, lc_window = 60\<rparr> id demo_verify demo_hmac id new_limiter
     demo_login_db demo_session 0 0 ''fresh'' None ''a@b.c'' pw ''tok'' next_url []"

lemma demo_login_ok:
  "\<exists>l d. demo_login ''long enough'' nxt = (Inr (RedirectTo (login_destination id nxt)), l, d,
     signed_in demo_login_db (new_admin ''a'' ''t'' ''a@b.c'' ''A'' (demo_hash ''long enough'') ROLE_OWNER 0) ''fresh'')"
proof -
  let ?a = "new_admin ''a'' ''t'' ''a@b.c'' ''A'' (demo_hash ''long enough'') ROLE_OWNER 0"
  have f: "login_form_data ''a@b.c'' ''long enough'' ''tok'' =
      Inr \<lparr>lf_email = ''a@b.c'', lf_password = ''long enough'', lf_csrf = ''tok''\<rparr>" by code_simp
  have au: "authenticate demo_verify demo_login_db ''a@b.c'' ''long enough'' = Some ?a" by code_simp
  have c: "verify_csrf_token demo_session ''tok'' = Inr ()"
    by (simp add: verify_csrf_token_iff demo_session_def)
  have t: "\<not> ad_totp_enabled ?a" by (simp add: new_admin_def)
  show ?thesis
    using f au c t
    by (simp add: demo_login_def login_def rate_check_def live_bucket_def new_limiter_def Let_def)
qed

lemma login_issues_session_only_after_checks_witness:
  "\<exists>a. get_admin_by_email demo_login_db ''a@b.c'' = Some a \<and> ad_active a \<and>
     demo_verify ''long enough'' (ad_pw a) \<and>
     ss_admin (snd (snd (snd (demo_login ''long enough'' ''/dashboard'')))) = Some (ad_id a)"
proof -
  obtain l d' where r: "demo_login ''long enough'' ''/dashboard'' =
      (Inr (RedirectTo (login_destination id ''/dashboard'')), l, d',
       signed_in demo_login_db (new_admin ''a'' ''t'' ''a@b.c'' ''A'' (demo_hash ''long enough'') ROLE_OWNER 0) ''fresh'')"
    using demo_login_ok by blast
  have f: "login_form_data ''a@b.c'' ''long enough'' ''tok'' =
      Inr \<lparr>lf_email = ''a@b.c'', lf_password = ''long enough'', lf_csrf = ''tok''\<rparr>" by code_simp
  show ?thesis
    using login_issues_session_only_after_checks [OF r [unfolded demo_login_def]] r f
    by (auto simp: signed_in_def demo_session_def empty_session_def)
qed

text \<open>
  The redirect after sign-in is not confined to the site: a \<open>next_url\<close> that starts with two
  slashes passes the \<open>startswith("/")\<close> test, and a successful sign-in redirects to it, a
  scheme-relative URL of another host.
\<close>

theorem login_redirect_leaves_site:
  assumes "\<And>s. CHR ''%'' \<notin> set s \<Longrightarrow> unquote s = s" and "CHR ''%'' \<notin> set host"
    and "login lc unquote verify_pw hmac sha l d s tick now fresh client email pw csrf (''//'' @ host) totp_code
           = (Inr (RedirectTo to), l1, d1, s1)"
  shows "to = ''//'' @ host"
proof -
  have "CHR ''%'' \<notin> set (''//'' @ host)" using assms(2) by simp
  moreover have "starts_with ''/'' (''//'' @ host)" by (simp add: starts_with_def)
  ultimately have "login_destination unquote (''//'' @ host) = ''//'' @ host"
    using assms(1) by (simp add: login_destination_def)
  with login_outcome [OF assms(3)] show ?thesis by auto
qed

lemma login_redirect_leaves_site_witness:
  "fst (demo_login ''long enough'' ''//evil.example/x'') = Inr (RedirectTo ''//evil.example/x'')"
proof -
  obtain l d' where r: "demo_login ''long enough'' ''//evil.example/x'' =
      (Inr (RedirectTo (login_destination id ''//evil.example/x'')), l, d',
       signed_in demo_login_db (new_admin ''a'' ''t'' ''a@b.c'' ''A'' (demo_hash ''long enough'') ROLE_OWNER 0) ''fresh'')"
    using demo_login_ok by blast
  have "login_destination id ''//evil.example/x'' = ''//'' @ ''evil.example/x''"
  proof (rule login_redirect_leaves_site)
    show "login \<lparr>lc_attempts = 5, lc_window = 60\<rparr> id demo_verify demo_hmac id new_limiter
      demo_login_db demo_session 0 0 ''fresh'' None ''a@b.c'' ''long enough'' ''tok'' (''//'' @ ''evil.example/x'') [] =
      (Inr (RedirectTo (login_destination id ''//evil.example/x'')), l, d',
       signed_in demo_login_db (new_admin ''a'' ''t'' ''a@b.c'' ''A'' (demo_hash ''long enough'') ROLE_OWNER 0) ''fresh'')"
      using r by (simp add: demo_login_def)
  qed simp_all
  with r show ?thesis by simp
qed

lemma panel_guards_facts:
  assumes "require_admin quote d method path query fresh s = (Inr a, s1)"
  shows "get_admin_by_id d (or_empty (ss_admin s)) = Some a \<and> ad_active a \<and>
      (unsafe_method method \<longrightarrow> ad_role a = ROLE_PLATFORM_ADMIN \<or>
         (\<exists>t. get_tenant d (ad_tenant a) = Some t \<and> tn_status t = TENANT_ACTIVE))"
    and "require_platform_admin quote d method path query fresh s = (Inr b, s2) \<Longrightarrow>
      b = a \<and> ad_role a = ROLE_PLATFORM_ADMIN"
    and "get_admin_by_id d (or_empty (ss_admin s')) = None \<or>
         (\<exists>x. get_admin_by_id d (or_empty (ss_admin s')) = Some x \<and> \<not> ad_active x) \<Longrightarrow>
      or_empty (ss_admin s') \<noteq> [] \<Longrightarrow>
      get_current_admin d method fresh s' = (Inr None, empty_session)"
proof -
  show "get_admin_by_id d (or_empty (ss_admin s)) = Some a \<and> ad_active a \<and>
      (unsafe_method method \<longrightarrow> ad_role a = ROLE_PLATFORM_ADMIN \<or>
         (\<exists>t. get_tenant d (ad_tenant a) = Some t \<and> tn_status t = TENANT_ACTIVE))"
    using assms by (intro get_current_admin_Some) (simp only: require_admin_Inr)
  show "require_platform_admin quote d method path query fresh s = (Inr b, s2) \<Longrightarrow>
      b = a \<and> ad_role a = ROLE_PLATFORM_ADMIN"
    using assms by (simp add: require_platform_admin_def split: if_splits)
  show "get_admin_by_id d (or_empty (ss_admin s')) = None \<or>
         (\<exists>x. get_admin_by_id d (or_empty (ss_admin s')) = Some x \<and> \<not> ad_active x) \<Longrightarrow>
      or_empty (ss_admin s') \<noteq> [] \<Longrightarrow>
      get_current_admin d method fresh s' = (Inr None, empty_session)"
    by (auto simp: get_current_admin_def)
qed

text \<open>
  Panel guards: a handler behind \<open>require_admin\<close> runs only for an active account of the
  session, and a state-changing one only for a platform admin or a member of an active tenant;
  \<open>require_platform_admin\<close> lets only platform admins through. A session whose account is gone
  or deactivated is cleared on its next request.
\<close>

theorem panel_guards:
  assumes "require_admin quote d method path query fresh s = (Inr a, s1)"
  shows "(get_admin_by_id d (or_empty (ss_admin s)) = Some a \<and> ad_active a \<and>
      (unsafe_method method \<longrightarrow> ad_role a = ROLE_PLATFORM_ADMIN \<or>
         (\<exists>t. get_tenant d (ad_tenant a) = Some t \<and> tn_status t = TENANT_ACTIVE))) \<and>
     (require_platform_admin quote d method path query fresh s = (Inr b, s2) \<longrightarrow>
      b = a \<and> ad_role a = ROLE_PLATFORM_ADMIN) \<and>
     (get_admin_by_id d (or_empty (ss_admin s')) = None \<or>
         (\<exists>x. get_admin_by_id d (or_empty (ss_admin s')) = Some x \<and> \<not> ad_active x) \<longrightarrow>
      or_empty (ss_admin s') \<noteq> [] \<longrightarrow>
      get_current_admin d method fresh s' = (Inr None, empty_session))"
proof -
  have 1: "get_admin_by_id d (or_empty (ss_admin s)) = Some a \<and> ad_active a \<and>
      (unsafe_method method \<longrightarrow> ad_role a = ROLE_PLATFORM_ADMIN \<or>
         (\<exists>t. get_tenant d (ad_tenant a) = Some t \<and> tn_status t = TENANT_ACTIVE))"
    by ((intro impI)?, rule panel_guards_facts(1); (assumption | rule assms))
  have 2: "require_platform_admin quote d method path query fresh s = (Inr b, s2) \<longrightarrow>
      b = a \<and> ad_role a = ROLE_PLATFORM_ADMIN"
    by ((intro impI)?, rule panel_guards_facts(2); (assumption | rule assms))
  have 3: "get_admin_by_id d (or_empty (ss_admin s')) = None \<or>
         (\<exists>x. get_admin_by_id d (or_empty (ss_admin s')) = Some x \<and> \<not> ad_active x) \<longrightarrow>
      or_empty (ss_admin s') \<noteq> [] \<longrightarrow>
      get_current_admin d method fresh s' = (Inr None, empty_session)"
    by ((intro impI)?, rule panel_guards_facts(3); (assumption | rule assms))
  show ?thesis by (rule conjI [OF 1 conjI [OF 2 3]])
qed

lemma panel_guards_witness:
  "get_admin_by_id demo_login_db (or_empty (ss_admin (demo_session\<lparr>ss_admin := Some ''a''\<rparr>))) =
     Some (new_admin ''a'' ''t'' ''a@b.c'' ''A'' (demo_hash ''long enough'') ROLE_OWNER 0)"
proof -
  let ?a = "new_admin ''a'' ''t'' ''a@b.c'' ''A'' (demo_hash ''long enough'') ROLE_OWNER 0"
  have "require_admin id demo_login_db ''POST'' ''/x'' [] ''f'' (demo_session\<lparr>ss_admin := Some ''a''\<rparr>) =
      (Inr ?a, demo_session\<lparr>ss_admin := Some ''a''\<rparr>)"
    by (simp add: require_admin_Inr get_current_admin_def demo_session_def empty_session_def
        ensure_csrf_token_def demo_login_db_def get_admin_by_id_def new_admin_def get_tenant_def role_defs)
  from panel_guards [OF this] show ?thesis by blast
qed

lemma token_lifecycle_facts:
  assumes "create_token sha d new_id random now a nm scope days = Inr ((row, secret), d1)"
    and "new_id \<notin> tk_id ` set (db_tokens d)"
  shows "fst (authenticate_token sha d1 secret t) =
      (if (case tk_expires row of None \<Rightarrow> False | Some e \<Rightarrow> e < t) then None
       else Some (row\<lparr>tk_last_used := Some t\<rparr>))"
    and "tk_admin row = ad_id a \<and> tk_tenant row = ad_tenant a \<and> tk_hash row = sha secret"
    and "fst (revoke_token d1 a new_id)"
    and "fst (authenticate_token sha (snd (revoke_token d1 a new_id)) secret t) = None"
    and "ad_id b \<noteq> ad_id a \<Longrightarrow> revoke_token d1 b new_id = (False, d1)"
proof -
  from assms(1) have row: "d1 = d\<lparr>db_tokens := db_tokens d @ [row]\<rparr>" "tk_hash row \<notin> tk_hash ` set (db_tokens d)"
    "tk_id row = new_id" "tk_admin row = ad_id a" "tk_tenant row = ad_tenant a" "tk_hash row = sha secret"
    "\<not> tk_revoked row"
    by (auto simp: create_token_def Let_def insert_unique_def split: if_splits)
  have h: "find (\<lambda>t. tk_hash t = sha secret) (db_tokens d) = None"
    using row(2) unfolding row(6) find_None by (metis imageI)
  have i: "find (\<lambda>t. tk_id t = new_id) (db_tokens d) = None"
    using assms(2) unfolding find_None by auto
  show "fst (authenticate_token sha d1 secret t) =
      (if (case tk_expires row of None \<Rightarrow> False | Some e \<Rightarrow> e < t) then None
       else Some (row\<lparr>tk_last_used := Some t\<rparr>))"
    using h row by (simp add: authenticate_token_def find_append)
  show "tk_admin row = ad_id a \<and> tk_tenant row = ad_tenant a \<and> tk_hash row = sha secret"
    using row by simp
  show "fst (revoke_token d1 a new_id)" using i row by (simp add: revoke_token_def find_append)
  have "find (\<lambda>t. tk_hash t = sha secret)
      (upd_where (\<lambda>t. tk_id t = new_id) (\<lambda>t. t\<lparr>tk_revoked := True\<rparr>) (db_tokens d)) = None"
    using h by (subst find_upd_where) simp_all
  then show "fst (authenticate_token sha (snd (revoke_token d1 a new_id)) secret t) = None"
    using i row by (simp add: authenticate_token_def revoke_token_def find_append)
  show "ad_id b \<noteq> ad_id a \<Longrightarrow> revoke_token d1 b new_id = (False, d1)"
    using i row by (simp add: revoke_token_def find_append)
qed

text \<open>
  Personal tokens: a freshly created token authenticates as its owner until it expires or
  is revoked; after a revocation it never authenticates again; and no token of another
  administrator can be revoked.
\<close>

theorem token_lifecycle:
  assumes "create_token sha d new_id random now a nm scope days = Inr ((row, secret), d1)"
    and "new_id \<notin> tk_id ` set (db_tokens d)"
  shows "(fst (authenticate_token sha d1 secret t) =
      (if (case tk_expires row of None \<Rightarrow> False | Some e \<Rightarrow> e < t) then None
       else Some (row\<lparr>tk_last_used := Some t\<rparr>))) \<and>
     (tk_admin row = ad_id a \<and> tk_tenant row = ad_tenant a \<and> tk_hash row = sha secret) \<and>
     (fst (revoke_token d1 a new_id)) \<and>
     (fst (authenticate_token sha (snd (revoke_token d1 a new_id)) secret t) = None) \<and>
     (ad_id b \<noteq> ad_id a \<longrightarrow> revoke_token d1 b new_id = (False, d1))"
proof -
  have 1: "fst (authenticate_token sha d1 secret t) =
      (if (case tk_expires row of None \<Rightarrow> False | Some e \<Rightarrow> e < t) then None
       else Some (row\<lparr>tk_last_used := Some t\<rparr>))"
    by ((intro impI)?, rule token_lifecycle_facts(1); (assumption | rule assms))
  have 2: "tk_admin row = ad_id a \<and> tk_tenant row = ad_tenant a \<and> tk_hash row = sha secret"
    by ((intro impI)?, rule token_lifecycle_facts(2); (assumption | rule assms))
  have 3: "fst (revoke_token d1 a new_id)"
    by ((intro impI)?, rule token_lifecycle_facts(3); (assumption | rule assms))
  have 4: "fst (authenticate_token sha (snd (revoke_token d1 a new_id)) secret t) = None"
    by ((intro impI)?, rule token_lifecycle_facts(4); (assumption | rule assms))
  have 5: "ad_id b \<noteq> ad_id a \<longrightarrow> revoke_token d1 b new_id = (False, d1)"
    by ((intro impI)?, rule token_lifecycle_facts(5); (assumption | rule assms))
  show ?thesis by (rule conjI [OF 1 conjI [OF 2 conjI [OF 3 conjI [OF 4 5]]]])
qed

lemma token_lifecycle_witness:
  "\<exists>row secret d1. create_token id empty_db ''k'' ''abc'' 0
       (new_admin ''a'' ''t'' ''e'' ''n'' ''p'' ROLE_OWNER 0) ''ci'' ''read'' (Some 1) = Inr ((row, secret), d1) \<and>
     fst (authenticate_token id d1 secret 86400) = Some (row\<lparr>tk_last_used := Some 86400\<rparr>) \<and>
     fst (authenticate_token id d1 secret 86401) = None"
proof -
  let ?r = "create_token id empty_db ''k'' ''abc'' 0
       (new_admin ''a'' ''t'' ''e'' ''n'' ''p'' ROLE_OWNER 0) ''ci'' ''read'' (Some 1)"
  obtain row secret d1 where r: "?r = Inr ((row, secret), d1)"
    by (simp add: create_token_def Let_def insert_unique_def empty_db_def)
  then have e: "tk_expires row = Some 86400"
    by (auto simp: create_token_def Let_def insert_unique_def empty_db_def)
  have f: "''k'' \<notin> tk_id ` set (db_tokens empty_db)" by (simp add: empty_db_def)
  show ?thesis using r token_lifecycle [OF r f] e by auto
qed

text \<open>
  The panel strips the password it is given, sign-up and the API do not: with a hash that
  distinguishes passwords, an account whose password begins or ends with white space can never
  sign in through the panel form.
\<close>

theorem padded_password_cannot_login:
  assumes "\<And>p q. verify_pw p (hash_pw q) \<longleftrightarrow> p = q"
    and "strip_if trim_space pw \<noteq> pw"
    and "\<And>a. get_admin_by_email d (py_lower (strip_if trim_space email)) = Some a \<Longrightarrow> ad_pw a = hash_pw pw"
    and "login lc unquote verify_pw hmac sha l d s tick now fresh client email pw csrf next_url totp_code
             = (r, l1, d1, s1)"
  shows "ss_admin s1 = ss_admin s"
proof -
  have "login_form_data email pw csrf = Inr f \<Longrightarrow>
      authenticate verify_pw d (lf_email f) (lf_password f) = None" for f
  proof -
    assume f: "login_form_data email pw csrf = Inr f"
    then have "lf_email f = py_lower (strip_if trim_space email)" and "lf_password f = strip_if trim_space pw"
      by (auto simp: login_form_data_def Let_def split: if_splits)
    then show ?thesis
      using assms(1-3) by (auto simp: authenticate_def split: option.split)
  qed
  with login_outcome [OF assms(4)] show ?thesis by auto
qed

lemma padded_password_cannot_login_witness:
  "\<exists>a d'. signup demo_hash empty_db [] ''t'' ''a'' 0 ''a@b.c'' ''long enough '' ''Acme'' None = Inr (Some a, d') \<and>
     ss_admin (snd (snd (snd (login \<lparr>lc_attempts = 5, lc_window = 60\<rparr> id demo_verify demo_hmac id new_limiter
        d' demo_session 0 0 ''fresh'' None ''a@b.c'' ''long enough '' ''tok'' ''/'' [])))) = None"
proof -
  let ?r = "signup demo_hash empty_db [] ''t'' ''a'' 0 ''a@b.c'' ''long enough '' ''Acme'' None"
  let ?a = "new_admin ''a'' ''t'' ''a@b.c'' ''Acme'' (demo_hash ''long enough '') ROLE_OWNER 0"
  have n: "normalize_slug ''Acme'' = ''acme''" "normalize_slug ''acme'' = ''acme''"
    "normalize_email ''a@b.c'' = ''a@b.c''" "py_strip ''Acme'' = ''Acme''" by code_simp+
  obtain d' where r: "?r = Inr (Some ?a, d')" and d': "db_admins d' = [?a]"
    by (simp add: n signup_def validate_password_def get_admin_by_email_def empty_db_def Let_def
        unique_slug_def find_slug.simps get_tenant_by_slug_def insert_unique_def get_default_plan_def)
  have v: "demo_verify p (demo_hash q) \<longleftrightarrow> p = q" for p q
    by (auto simp: demo_verify_def demo_hash_def)
  have s: "strip_if trim_space ''long enough '' \<noteq> ''long enough ''" by code_simp
  have p: "get_admin_by_email d' (py_lower (strip_if trim_space ''a@b.c'')) = Some x \<Longrightarrow>
      ad_pw x = demo_hash ''long enough ''" for x
    by (auto simp: get_admin_by_email_def d' new_admin_def split: if_splits)
  let ?l = "login \<lparr>lc_attempts = 5, lc_window = 60\<rparr> id demo_verify demo_hmac id new_limiter
        d' demo_session 0 0 ''fresh'' None ''a@b.c'' ''long enough '' ''tok'' ''/'' []"
  obtain pr l1 d1 s1 where l: "?l = (pr, l1, d1, s1)" by (metis prod_cases4)
  have "ss_admin s1 = ss_admin demo_session"
    by (rule padded_password_cannot_login [OF v s p l])
  then show ?thesis using r l by (auto simp: demo_session_def empty_session_def)
qed

end
