(* ===== verification/Team.thy ===== *)
theory Team
  imports Auth
begin

text \<open>
  Team management (\<^verbatim>\<open>modules/team/service.py\<close>): invite links, their redemption, roles and
  deactivation. Token generation and SHA-256 are parameters or arguments; times are seconds.
\<close>

section \<open>Reads\<close>

definition list_members :: "db \<Rightarrow> string \<Rightarrow> admin_user list" where
  "list_members d tid = sort_key ad_created (filter (\<lambda>a. ad_tenant a = tid) (db_admins d))"

definition list_invites :: "db \<Rightarrow> string \<Rightarrow> tenant_invite list" where
  "list_invites d tid = sort_key (\<lambda>i. - iv_created i)
     (filter (\<lambda>i. iv_tenant i = tid \<and> iv_status i = INVITE_PENDING) (db_invites d))"

definition active_owner :: "string \<Rightarrow> admin_user \<Rightarrow> bool" where
  "active_owner tid a \<longleftrightarrow> ad_tenant a = tid \<and> ad_role a = ROLE_OWNER \<and> ad_active a"

definition active_owner_count :: "db \<Rightarrow> string \<Rightarrow> nat" where
  "active_owner_count d tid = length (filter (active_owner tid) (db_admins d))"

definition member_in_tenant :: "db \<Rightarrow> string \<Rightarrow> string \<Rightarrow> admin_user result" where
  "member_in_tenant d tid mid =
     (case find (\<lambda>a. ad_id a = mid \<and> ad_tenant a = tid) (db_admins d) of
        None \<Rightarrow> Inl (TeamError ''Member not found.'' 404)
      | Some a \<Rightarrow> Inr a)"

definition INVITE_TTL_DAYS :: int where "INVITE_TTL_DAYS = 14"

definition is_redeemable :: "tenant_invite \<Rightarrow> int \<Rightarrow> bool" where
  "is_redeemable iv now \<longleftrightarrow> iv_status iv = INVITE_PENDING \<and>
     (case iv_expires iv of None \<Rightarrow> True | Some e \<Rightarrow> now < e)"

section \<open>Invites\<close>

definition revoke_stale :: "string \<Rightarrow> string \<Rightarrow> tenant_invite list \<Rightarrow> tenant_invite list" where
  "revoke_stale tid email = upd_where
     (\<lambda>i. iv_tenant i = tid \<and> iv_email i = email \<and> iv_status i = INVITE_PENDING)
     (\<lambda>i. i\<lparr>iv_status := INVITE_REVOKED\<rparr>)"

definition create_invite ::
  "(string \<Rightarrow> string) \<Rightarrow> db \<Rightarrow> string \<Rightarrow> string \<Rightarrow> int \<Rightarrow> string \<Rightarrow> admin_user \<Rightarrow> string \<Rightarrow> string \<Rightarrow>
   ((tenant_invite \<times> string) \<times> db) result" where
  "create_invite sha d new_id raw now tid inviter email role =
     (let r = py_lower (py_strip role); em = normalize_email email; existing = get_admin_by_email d em in
      if r \<notin> set INVITABLE_ROLES then Inl (TeamError ''Role must be 'admin' or 'member'.'' 400)
      else if em = [] \<or> CHR ''@'' \<notin> set em then Inl (TeamError ''A valid email is required.'' 400)
      else if (case existing of None \<Rightarrow> False | Some a \<Rightarrow> ad_tenant a = tid \<and> ad_active a) then
        Inl (TeamError ''That person is already on your team.'' 400)
      else if (case existing of None \<Rightarrow> False | Some a \<Rightarrow> ad_tenant a \<noteq> tid) then
        Inl (TeamError ''That email is already registered to another account.'' 400)
      else
        (let iv = \<lparr>iv_id = new_id, iv_tenant = tid, iv_email = em, iv_role = r, iv_hash = sha raw,
                   iv_status = INVITE_PENDING, iv_by = Some (ad_id inviter), iv_admin = None,
                   iv_created = now, iv_expires = Some (now + INVITE_TTL_DAYS * 86400), iv_accepted = None\<rparr>
         in map_sum id (\<lambda>ivs. ((iv, raw), d\<lparr>db_invites := ivs\<rparr>))
              (insert_unique iv_hash iv (revoke_stale tid em (db_invites d)))))"

definition revoke_invite :: "db \<Rightarrow> string \<Rightarrow> string \<Rightarrow> db result" where
  "revoke_invite d tid iid =
     (case find (\<lambda>i. iv_id i = iid \<and> iv_tenant i = tid) (db_invites d) of
        None \<Rightarrow> Inl (TeamError ''Invite not found.'' 404)
      | Some iv \<Rightarrow>
          if iv_status iv \<noteq> INVITE_PENDING then Inl (TeamError ''Invite is no longer pending.'' 400)
          else Inr (d\<lparr>db_invites := upd_where (\<lambda>i. iv_id i = iid) (\<lambda>i. i\<lparr>iv_status := INVITE_REVOKED\<rparr>)
                      (db_invites d)\<rparr>))"

definition find_invite :: "(string \<Rightarrow> string) \<Rightarrow> db \<Rightarrow> string \<Rightarrow> tenant_invite option" where
  "find_invite sha d raw = find (\<lambda>i. iv_hash i = sha raw) (db_invites d)"

definition peek_invite :: "(string \<Rightarrow> string) \<Rightarrow> db \<Rightarrow> string \<Rightarrow> int \<Rightarrow> tenant_invite option" where
  "peek_invite sha d raw now =
     (case find_invite sha d raw of
        None \<Rightarrow> None
      | Some iv \<Rightarrow> if is_redeemable iv now then Some iv else None)"

text \<open>\<open>racing\<close>: e-mails committed by others between the check and the flush.\<close>

definition accept_invite ::
  "(string \<Rightarrow> string) \<Rightarrow> (string \<Rightarrow> string) \<Rightarrow> db \<Rightarrow> string list \<Rightarrow> string \<Rightarrow> int \<Rightarrow> string \<Rightarrow> string \<Rightarrow>
   string \<Rightarrow> (admin_user \<times> db) result" where
  "accept_invite sha hash_pw d racing new_id now raw full_name pw =
     (case peek_invite sha d raw now of
        None \<Rightarrow> Inl (TeamError ''This invite link is invalid or has expired.'' 404)
      | Some iv \<Rightarrow>
          if get_admin_by_email d (iv_email iv) \<noteq> None then
            Inl (TeamError ''An account already exists for this email.'' 409)
          else (case validate_password pw of
            Inl e \<Rightarrow> Inl (TeamError (case e of ValueError m \<Rightarrow> m | _ \<Rightarrow> []) 422)
          | Inr _ \<Rightarrow>
             (let a = new_admin new_id (iv_tenant iv) (iv_email iv)
                        (str_or (py_strip full_name) (iv_email iv)) (hash_pw pw) (iv_role iv) now in
              case insert_unique ad_email a (db_admins d) of
                Inl e \<Rightarrow> Inl (TeamError ''An account already exists for this email.'' 409)
              | Inr as \<Rightarrow>
                  if iv_email iv \<in> set racing then
                    Inl (TeamError ''An account already exists for this email.'' 409)
                  else Inr (a, d\<lparr>db_admins := as,
                    db_invites := upd_where (\<lambda>i. iv_id i = iv_id iv)
                      (\<lambda>i. i\<lparr>iv_status := INVITE_ACCEPTED, iv_admin := Some new_id, iv_accepted := Some now\<rparr>)
                      (db_invites d)\<rparr>))))"

section \<open>Members\<close>

definition change_role :: "db \<Rightarrow> string \<Rightarrow> string \<Rightarrow> string \<Rightarrow> (admin_user \<times> db) result" where
  "change_role d tid mid role =
     (let r = py_lower (py_strip role) in
      if r \<notin> set INVITABLE_ROLES then Inl (TeamError ''Role must be 'admin' or 'member'.'' 400)
      else (case member_in_tenant d tid mid of
        Inl e \<Rightarrow> Inl e
      | Inr a \<Rightarrow>
          if ad_role a = ROLE_PLATFORM_ADMIN then
            Inl (TeamError ''Platform staff roles are managed separately.'' 403)
          else if ad_role a = ROLE_OWNER \<and> active_owner_count d tid \<le> 1 then
            Inl (TeamError ''A tenant must keep at least one owner.'' 400)
          else Inr (a\<lparr>ad_role := r\<rparr>, set_admin (ad_id a) (\<lambda>x. x\<lparr>ad_role := r\<rparr>) d)))"

definition remove_member :: "db \<Rightarrow> string \<Rightarrow> string \<Rightarrow> admin_user \<Rightarrow> (admin_user \<times> db) result" where
  "remove_member d tid mid acting =
     (case member_in_tenant d tid mid of
        Inl e \<Rightarrow> Inl e
      | Inr a \<Rightarrow>
          if ad_id a = ad_id acting then Inl (TeamError ''You cannot remove yourself.'' 400)
          else if ad_role a = ROLE_PLATFORM_ADMIN then
            Inl (TeamError ''Platform staff are managed separately.'' 403)
          else if ad_role a = ROLE_OWNER \<and> active_owner_count d tid \<le> 1 then
            Inl (TeamError ''A tenant must keep at least one owner.'' 400)
          else Inr (a\<lparr>ad_active := False\<rparr>, set_admin (ad_id a) (\<lambda>x. x\<lparr>ad_active := False\<rparr>) d))"

section \<open>One step of team management\<close>

datatype team_op =
    Invite string string int admin_user string string
  | RevokeInvite string
  | AcceptInvite "string list" string int string string string
  | ChangeRole string string
  | RemoveMember string admin_user

definition team_step ::
  "(string \<Rightarrow> string) \<Rightarrow> (string \<Rightarrow> string) \<Rightarrow> string \<Rightarrow> team_op \<Rightarrow> db \<Rightarrow> db" where
  "team_step sha hash_pw tid oper d =
     (case (case oper of
        Invite i raw now inviter email role \<Rightarrow>
          map_sum id snd (create_invite sha d i raw now tid inviter email role)
      | RevokeInvite i \<Rightarrow> revoke_invite d tid i
      | AcceptInvite racing i now raw nm pw \<Rightarrow> map_sum id snd (accept_invite sha hash_pw d racing i now raw nm pw)
      | ChangeRole m r \<Rightarrow> map_sum id snd (change_role d tid m r)
      | RemoveMember m acting \<Rightarrow> map_sum id snd (remove_member d tid m acting)) of
        Inl e \<Rightarrow> d
      | Inr d' \<Rightarrow> d')"

text \<open>
  The row ids an operation uses are new. Runs of team management, of any tenants, as a
  reachability relation.
\<close>

fun fresh_op :: "team_op \<Rightarrow> db \<Rightarrow> bool" where
  "fresh_op (Invite i _ _ _ _ _) d = (i \<notin> iv_id ` set (db_invites d))"
| "fresh_op (AcceptInvite _ i _ _ _ _) d = (i \<notin> ad_id ` set (db_admins d))"
| "fresh_op _ d = True"

inductive team_reach :: "(string \<Rightarrow> string) \<Rightarrow> (string \<Rightarrow> string) \<Rightarrow> db \<Rightarrow> db \<Rightarrow> bool"
  for sha hash_pw d where
  start: "team_reach sha hash_pw d d"
| step: "team_reach sha hash_pw d d1 \<Longrightarrow> fresh_op oper d1 \<Longrightarrow>
    team_reach sha hash_pw d (team_step sha hash_pw tid oper d1)"

inductive_cases team_reachE: "team_reach sha hash_pw d d'"

lemma length_filter_upd_one:
  "distinct (map k xs) \<Longrightarrow> x \<in> set xs \<Longrightarrow>
   length (filter P (upd_where (\<lambda>y. k y = k x) f xs)) + (if P x then 1 else 0) =
   length (filter P xs) + (if P (f x) then 1 else 0)"
proof (induction xs)
  case (Cons a xs)
  show ?case
  proof (cases "a = x")
    case True
    have "\<forall>y\<in>set xs. k y \<noteq> k x" using Cons.prems True by (auto simp: image_iff)
    then have "upd_where (\<lambda>y. k y = k x) f xs = xs" by (rule upd_where_none)
    then show ?thesis using True by simp
  next
    case False
    with Cons.prems have x: "x \<in> set xs" by simp
    then have "k a \<noteq> k x" using Cons.prems by force
    with Cons x show ?thesis by auto
  qed
qed simp

section \<open>What a step does\<close>

lemma member_in_tenant_Inr:
  "member_in_tenant d tid mid = Inr a \<Longrightarrow> a \<in> set (db_admins d) \<and> ad_tenant a = tid \<and> ad_id a = mid"
  by (auto simp: member_in_tenant_def split: option.splits dest: find_SomeD)

lemma peek_invite_Some:
  "peek_invite sha d raw now = Some iv \<Longrightarrow>
   iv \<in> set (db_invites d) \<and> iv_hash iv = sha raw \<and> iv_status iv = INVITE_PENDING"
  by (auto simp: peek_invite_def find_invite_def is_redeemable_def split: option.splits if_splits
      dest: find_SomeD)

lemma change_role_Inr:
  assumes "change_role d tid mid role = Inr (a', d')"
  obtains a r where "a \<in> set (db_admins d)" "ad_tenant a = tid" "ad_role a \<noteq> ROLE_PLATFORM_ADMIN"
    "ad_role a = ROLE_OWNER \<Longrightarrow> 1 < active_owner_count d tid" "r \<in> set INVITABLE_ROLES"
    "d' = set_admin (ad_id a) (\<lambda>x. x\<lparr>ad_role := r\<rparr>) d"
  using assms member_in_tenant_Inr [of d tid mid]
  by (fastforce simp: change_role_def Let_def split: if_splits sum.splits)

lemma remove_member_Inr:
  assumes "remove_member d tid mid acting = Inr (a', d')"
  obtains a where "a \<in> set (db_admins d)" "ad_tenant a = tid" "ad_role a \<noteq> ROLE_PLATFORM_ADMIN"
    "ad_role a = ROLE_OWNER \<Longrightarrow> 1 < active_owner_count d tid"
    "d' = set_admin (ad_id a) (\<lambda>x. x\<lparr>ad_active := False\<rparr>) d"
  using assms member_in_tenant_Inr [of d tid mid]
  by (fastforce simp: remove_member_def split: if_splits sum.splits)

lemma accept_invite_Inr:
  assumes "accept_invite sha hash_pw d racing i now raw nm pw = Inr (a, d')"
  obtains iv where "peek_invite sha d raw now = Some iv" "ad_id a = i" "ad_role a = iv_role iv"
    "ad_tenant a = iv_tenant iv" "ad_email a = iv_email iv" "ad_active a"
    "ad_email a \<notin> ad_email ` set (db_admins d)"
    "d' = d\<lparr>db_admins := db_admins d @ [a], db_invites := upd_where (\<lambda>x. iv_id x = iv_id iv)
        (\<lambda>x. x\<lparr>iv_status := INVITE_ACCEPTED, iv_admin := Some i, iv_accepted := Some now\<rparr>) (db_invites d)\<rparr>"
  using assms
  by (fastforce simp: accept_invite_def Let_def new_admin_def insert_unique_Inr
      split: option.splits if_splits sum.splits)

lemma create_invite_Inr:
  assumes "create_invite sha d i raw now tid inviter em role = Inr ((iv, raw'), d')"
  shows "iv_id iv = i \<and> iv_tenant iv = tid \<and> iv_role iv \<in> set INVITABLE_ROLES \<and> iv_status iv = INVITE_PENDING \<and>
    iv_hash iv = sha raw \<and> iv_hash iv \<notin> iv_hash ` set (db_invites d) \<and>
    d' = d\<lparr>db_invites := revoke_stale tid (iv_email iv) (db_invites d) @ [iv]\<rparr>"
proof -
  have "iv_hash ` set (revoke_stale tid e xs) = iv_hash ` set xs" for e xs
    by (induction xs) (auto simp: revoke_stale_def)
  then show ?thesis using assms
    by (auto simp: create_invite_def Let_def insert_unique_Inr map_sum_Inr split: if_splits option.splits)
qed

text \<open>The three ways a step changes the accounts.\<close>

lemma team_step_admins:
  fixes d :: db and sha hash_pw :: "string \<Rightarrow> string" and tid :: string
  assumes "fresh_op oper d"
  defines "d' \<equiv> team_step sha hash_pw tid oper d"
  obtains "db_admins d' = db_admins d"
  | iv a where "iv \<in> set (db_invites d)" "db_admins d' = db_admins d @ [a]" "ad_role a = iv_role iv"
      "ad_id a \<notin> ad_id ` set (db_admins d)" "ad_email a \<notin> ad_email ` set (db_admins d)"
  | a f where "a \<in> set (db_admins d)" "ad_tenant a = tid" "ad_role a \<noteq> ROLE_PLATFORM_ADMIN"
      "ad_role a = ROLE_OWNER \<Longrightarrow> 1 < active_owner_count d tid"
      "db_admins d' = upd_where (\<lambda>x. ad_id x = ad_id a) f (db_admins d)"
      "f = (\<lambda>x. x\<lparr>ad_active := False\<rparr>) \<or> (\<exists>r\<in>set INVITABLE_ROLES. f = (\<lambda>x. x\<lparr>ad_role := r\<rparr>))"
proof (cases oper)
  case (Invite i raw now inviter em role)
  have "db_admins d' = db_admins d"
  proof (cases "create_invite sha d i raw now tid inviter em role")
    case (Inl e)
    with Invite show ?thesis by (simp add: d'_def team_step_def)
  next
    case (Inr q)
    then obtain iv raw' d2 where c: "create_invite sha d i raw now tid inviter em role = Inr ((iv, raw'), d2)"
      by (metis prod.collapse)
    with Invite create_invite_Inr [OF c] show ?thesis by (simp add: d'_def team_step_def)
  qed
  then show ?thesis by (rule that(1))
next
  case (RevokeInvite i)
  then have "db_admins d' = db_admins d"
    unfolding d'_def team_step_def by (auto simp: revoke_invite_def split: sum.splits option.splits if_splits)
  then show ?thesis by (rule that(1))
next
  case (AcceptInvite racing i now raw nm pw)
  show ?thesis
  proof (cases "accept_invite sha hash_pw d racing i now raw nm pw")
    case (Inl e)
    with AcceptInvite have "db_admins d' = db_admins d" by (simp add: d'_def team_step_def)
    then show ?thesis by (rule that(1))
  next
    case (Inr p)
    then obtain a d2 where acc: "accept_invite sha hash_pw d racing i now raw nm pw = Inr (a, d2)"
      by (cases p) auto
    from acc obtain iv where iv: "peek_invite sha d raw now = Some iv" "ad_id a = i" "ad_role a = iv_role iv"
        "ad_email a \<notin> ad_email ` set (db_admins d)" "db_admins d2 = db_admins d @ [a]"
      by (elim accept_invite_Inr) simp
    have "d' = d2" using AcceptInvite acc by (simp add: d'_def team_step_def)
    with iv assms(1) AcceptInvite peek_invite_Some [OF iv(1)] show ?thesis by (intro that(2) [of iv a]) auto
  qed
next
  case (ChangeRole m r)
  show ?thesis
  proof (cases "change_role d tid m r")
    case (Inl e)
    with ChangeRole have "db_admins d' = db_admins d" by (simp add: d'_def team_step_def)
    then show ?thesis by (rule that(1))
  next
    case (Inr p)
    then obtain a2 d2 where ch: "change_role d tid m r = Inr (a2, d2)" by (cases p) auto
    have "d' = d2" using ChangeRole ch by (simp add: d'_def team_step_def)
    from ch obtain a r where a: "a \<in> set (db_admins d)" "ad_tenant a = tid" "ad_role a \<noteq> ROLE_PLATFORM_ADMIN"
        "ad_role a = ROLE_OWNER \<Longrightarrow> 1 < active_owner_count d tid" "r \<in> set INVITABLE_ROLES"
        "d2 = set_admin (ad_id a) (\<lambda>x. x\<lparr>ad_role := r\<rparr>) d"
      by (rule change_role_Inr) blast
    then show ?thesis using \<open>d' = d2\<close>
      by (intro that(3) [of a "\<lambda>x. x\<lparr>ad_role := r\<rparr>"]) (auto simp: set_admin_def)
  qed
next
  case (RemoveMember m acting)
  show ?thesis
  proof (cases "remove_member d tid m acting")
    case (Inl e)
    with RemoveMember have "db_admins d' = db_admins d" by (simp add: d'_def team_step_def)
    then show ?thesis by (rule that(1))
  next
    case (Inr p)
    then obtain a2 d2 where rm: "remove_member d tid m acting = Inr (a2, d2)" by (cases p) auto
    have "d' = d2" using RemoveMember rm by (simp add: d'_def team_step_def)
    from rm obtain a where a: "a \<in> set (db_admins d)" "ad_tenant a = tid" "ad_role a \<noteq> ROLE_PLATFORM_ADMIN"
        "ad_role a = ROLE_OWNER \<Longrightarrow> 1 < active_owner_count d tid"
        "d2 = set_admin (ad_id a) (\<lambda>x. x\<lparr>ad_active := False\<rparr>) d"
      by (rule remove_member_Inr) blast
    then show ?thesis using \<open>d' = d2\<close>
      by (intro that(3) [of a "\<lambda>x. x\<lparr>ad_active := False\<rparr>"]) (auto simp: set_admin_def)
  qed
qed

text \<open>The invites: rows stay, only pending ones change status, new ones are invitable.\<close>

definition spent :: "db \<Rightarrow> string \<Rightarrow> bool" where
  "spent d h \<longleftrightarrow> h \<in> iv_hash ` set (db_invites d) \<and>
     (\<forall>i\<in>set (db_invites d). iv_hash i = h \<longrightarrow> iv_status i \<noteq> INVITE_PENDING)"

definition roles_invitable :: "db \<Rightarrow> bool" where
  "roles_invitable d \<longleftrightarrow> (\<forall>i\<in>set (db_invites d). iv_role i \<in> set INVITABLE_ROLES)"

lemma team_step_invites:
  fixes d :: db and sha hash_pw :: "string \<Rightarrow> string" and tid :: string
  assumes "fresh_op oper d"
  defines "d' \<equiv> team_step sha hash_pw tid oper d"
  obtains p f where "db_invites d' = upd_where p f (db_invites d)"
      "f = (\<lambda>i. i\<lparr>iv_status := INVITE_REVOKED\<rparr>) \<or>
       (\<exists>x n. f = (\<lambda>i. i\<lparr>iv_status := INVITE_ACCEPTED, iv_admin := Some x, iv_accepted := Some n\<rparr>))"
  | p iv where "db_invites d' = upd_where p (\<lambda>i. i\<lparr>iv_status := INVITE_REVOKED\<rparr>) (db_invites d) @ [iv]"
      "iv_id iv \<notin> iv_id ` set (db_invites d)"
      "iv_hash iv \<notin> iv_hash ` set (db_invites d)" "iv_role iv \<in> set INVITABLE_ROLES"
proof -
  note ways = that
  have same: ?thesis if "db_invites d' = db_invites d"
    using that
    by (intro ways(1) [of "\<lambda>_. False" "\<lambda>i. i\<lparr>iv_status := INVITE_REVOKED\<rparr>"]) (auto simp: upd_where_none)
  show ?thesis
  proof (cases oper)
    case (Invite i raw now inviter em role)
    show ?thesis
    proof (cases "create_invite sha d i raw now tid inviter em role")
      case (Inl e)
      with Invite show ?thesis by (intro same) (simp add: d'_def team_step_def)
    next
      case (Inr q)
      then obtain iv raw' d2 where c: "create_invite sha d i raw now tid inviter em role = Inr ((iv, raw'), d2)"
        by (metis prod.collapse)
      have "d' = d2" using Invite c by (simp add: d'_def team_step_def)
      with create_invite_Inr [OF c] assms(1) Invite show ?thesis
        by (intro that(2)) (auto simp: revoke_stale_def)
    qed
  next
    case (RevokeInvite i)
    show ?thesis
    proof (cases "revoke_invite d tid i")
      case (Inl e)
      with RevokeInvite show ?thesis by (intro same) (simp add: d'_def team_step_def)
    next
      case (Inr d2)
      then have "d' = d2" using RevokeInvite by (simp add: d'_def team_step_def)
      with Inr show ?thesis
        by (intro that(1)) (auto simp: revoke_invite_def split: option.splits if_splits)
    qed
  next
    case (AcceptInvite racing i now raw nm pw)
    show ?thesis
    proof (cases "accept_invite sha hash_pw d racing i now raw nm pw")
      case (Inl e)
      with AcceptInvite show ?thesis by (intro same) (simp add: d'_def team_step_def)
    next
      case (Inr q)
      then obtain a d2 where c: "accept_invite sha hash_pw d racing i now raw nm pw = Inr (a, d2)"
        by (cases q) auto
      have "d' = d2" using AcceptInvite c by (simp add: d'_def team_step_def)
      from c obtain iv :: tenant_invite where "d2 = d\<lparr>db_admins := db_admins d @ [a],
          db_invites := upd_where (\<lambda>x. iv_id x = iv_id iv)
            (\<lambda>x. x\<lparr>iv_status := INVITE_ACCEPTED, iv_admin := Some i, iv_accepted := Some now\<rparr>) (db_invites d)\<rparr>"
        by (rule accept_invite_Inr) blast
      with \<open>d' = d2\<close> show ?thesis
        by (intro ways(1) [of "\<lambda>x. iv_id x = iv_id iv"
              "\<lambda>x. x\<lparr>iv_status := INVITE_ACCEPTED, iv_admin := Some i, iv_accepted := Some now\<rparr>"]) auto
    qed
  next
    case (ChangeRole m r)
    show ?thesis
      by (rule same) (auto simp: d'_def team_step_def ChangeRole set_admin_def map_sum_Inr
        split: sum.splits elim!: change_role_Inr)
  next
    case (RemoveMember m acting)
    show ?thesis
      by (rule same) (auto simp: d'_def team_step_def RemoveMember set_admin_def map_sum_Inr
        split: sum.splits elim!: remove_member_Inr)
  qed
qed

section \<open>Invariants of reachable states\<close>

lemma team_step_unique:
  assumes "fresh_op oper d" and "unique_ok d"
  shows "unique_ok (team_step sha hash_pw tid oper d)" (is "unique_ok ?d")
proof -
  have rest: "db_tenants ?d = db_tenants d" "db_tokens ?d = db_tokens d" "db_domains ?d = db_domains d"
    "db_wallets ?d = db_wallets d"
    unfolding team_step_def
    by (cases oper; auto simp: create_invite_def revoke_invite_def accept_invite_def change_role_def
        remove_member_def set_admin_def Let_def map_sum_Inr split: sum.splits option.splits if_splits)+
  have "distinct (map ad_id (db_admins ?d)) \<and> distinct (map ad_email (db_admins ?d))"
  proof (rule team_step_admins [OF assms(1), of sha hash_pw tid])
    assume "db_admins ?d = db_admins d"
    then show ?thesis using assms(2) by (simp add: unique_ok_def)
  next
    fix iv :: tenant_invite and a :: admin_user
    assume "db_admins ?d = db_admins d @ [a]" "ad_id a \<notin> ad_id ` set (db_admins d)"
      "ad_email a \<notin> ad_email ` set (db_admins d)"
    then show ?thesis using assms(2) by (simp add: unique_ok_def)
  next
    fix a :: admin_user and f
    assume u: "db_admins ?d = upd_where (\<lambda>x. ad_id x = ad_id a) f (db_admins d)"
      and f: "f = (\<lambda>x. x\<lparr>ad_active := False\<rparr>) \<or> (\<exists>r\<in>set INVITABLE_ROLES. f = (\<lambda>x. x\<lparr>ad_role := r\<rparr>))"
    from f have "ad_id (f x) = ad_id x \<and> ad_email (f x) = ad_email x" for x by auto
    then have "map ad_id (db_admins ?d) = map ad_id (db_admins d)"
      and "map ad_email (db_admins ?d) = map ad_email (db_admins d)"
      unfolding u by (simp_all add: map_upd_where)
    then show ?thesis using assms(2) by (simp add: unique_ok_def)
  qed
  moreover have "distinct (map iv_id (db_invites ?d)) \<and> distinct (map iv_hash (db_invites ?d))"
  proof (rule team_step_invites [OF assms(1), of sha hash_pw tid])
    fix p f
    assume u: "db_invites ?d = upd_where p f (db_invites d)"
      and f: "f = (\<lambda>i. i\<lparr>iv_status := INVITE_REVOKED\<rparr>) \<or>
       (\<exists>x n. f = (\<lambda>i. i\<lparr>iv_status := INVITE_ACCEPTED, iv_admin := Some x, iv_accepted := Some n\<rparr>))"
    from f have "iv_id (f x) = iv_id x \<and> iv_hash (f x) = iv_hash x" for x by auto
    then have "map iv_id (db_invites ?d) = map iv_id (db_invites d)"
      and "map iv_hash (db_invites ?d) = map iv_hash (db_invites d)"
      unfolding u by (simp_all add: map_upd_where)
    then show ?thesis using assms(2) by (simp add: unique_ok_def)
  next
    fix p iv
    assume u: "db_invites ?d = upd_where p (\<lambda>i. i\<lparr>iv_status := INVITE_REVOKED\<rparr>) (db_invites d) @ [iv]"
      and new: "iv_id iv \<notin> iv_id ` set (db_invites d)" "iv_hash iv \<notin> iv_hash ` set (db_invites d)"
    have "map iv_id (upd_where p (\<lambda>i. i\<lparr>iv_status := INVITE_REVOKED\<rparr>) (db_invites d)) = map iv_id (db_invites d)"
      and "map iv_hash (upd_where p (\<lambda>i. i\<lparr>iv_status := INVITE_REVOKED\<rparr>) (db_invites d)) = map iv_hash (db_invites d)"
      by (simp_all add: map_upd_where)
    with u new show ?thesis using assms(2) by (simp add: unique_ok_def)
  qed
  ultimately show ?thesis using assms(2) rest by (simp add: unique_ok_def)
qed

lemma team_step_owner:
  assumes "fresh_op oper d" and "unique_ok d" and "1 \<le> active_owner_count d t"
  shows "1 \<le> active_owner_count (team_step sha hash_pw tid oper d) t" (is "_ \<le> active_owner_count ?d t")
proof (rule team_step_admins [OF assms(1), of sha hash_pw tid])
  assume "db_admins ?d = db_admins d"
  then show ?thesis using assms(3) by (simp add: active_owner_count_def)
next
  fix a assume "db_admins ?d = db_admins d @ [a]"
  then show ?thesis using assms(3) by (simp add: active_owner_count_def)
next
  fix a :: admin_user and f
  assume a: "a \<in> set (db_admins d)" "ad_tenant a = tid"
    and guard: "ad_role a = ROLE_OWNER \<Longrightarrow> 1 < active_owner_count d tid"
    and u: "db_admins ?d = upd_where (\<lambda>x. ad_id x = ad_id a) f (db_admins d)"
    and f: "f = (\<lambda>x. x\<lparr>ad_active := False\<rparr>) \<or> (\<exists>r\<in>set INVITABLE_ROLES. f = (\<lambda>x. x\<lparr>ad_role := r\<rparr>))"
  have "active_owner_count ?d t + (if active_owner t a then 1 else 0) =
      active_owner_count d t + (if active_owner t (f a) then 1 else 0)"
    unfolding active_owner_count_def u using assms(2) a(1)
    by (intro length_filter_upd_one) (simp_all add: unique_ok_def)
  moreover have "active_owner t a \<Longrightarrow> 1 < active_owner_count d t"
    using guard a(2) by (simp add: active_owner_def)
  ultimately show ?thesis using assms(3) by (auto split: if_splits)
qed

lemma team_step_roles:
  assumes "fresh_op oper d" and "roles_invitable d"
  shows "roles_invitable (team_step sha hash_pw tid oper d)" (is "roles_invitable ?d")
proof (rule team_step_invites [OF assms(1), of sha hash_pw tid])
  fix p f
  assume u: "db_invites ?d = upd_where p f (db_invites d)"
    and f: "f = (\<lambda>i. i\<lparr>iv_status := INVITE_REVOKED\<rparr>) \<or>
     (\<exists>x n. f = (\<lambda>i. i\<lparr>iv_status := INVITE_ACCEPTED, iv_admin := Some x, iv_accepted := Some n\<rparr>))"
  from f have "iv_role (f x) = iv_role x" for x by auto
  then show ?thesis using assms(2) by (auto simp: roles_invitable_def u set_upd_where)
next
  fix p iv
  assume "db_invites ?d = upd_where p (\<lambda>i. i\<lparr>iv_status := INVITE_REVOKED\<rparr>) (db_invites d) @ [iv]"
    "iv_role iv \<in> set INVITABLE_ROLES"
  then show ?thesis using assms(2) by (auto simp: roles_invitable_def set_upd_where)
qed

lemma team_step_spent:
  assumes "fresh_op oper d" and "spent d h"
  shows "spent (team_step sha hash_pw tid oper d) h" (is "spent ?d h")
proof (rule team_step_invites [OF assms(1), of sha hash_pw tid])
  fix p f
  assume u: "db_invites ?d = upd_where p f (db_invites d)"
    and f: "f = (\<lambda>i. i\<lparr>iv_status := INVITE_REVOKED\<rparr>) \<or>
     (\<exists>x n. f = (\<lambda>i. i\<lparr>iv_status := INVITE_ACCEPTED, iv_admin := Some x, iv_accepted := Some n\<rparr>))"
  from f have fx: "iv_hash (f x) = iv_hash x \<and> iv_status (f x) \<noteq> INVITE_PENDING" for x by auto
  then have "map iv_hash (db_invites ?d) = map iv_hash (db_invites d)" unfolding u by (simp add: map_upd_where)
  then have "iv_hash ` set (db_invites ?d) = iv_hash ` set (db_invites d)" by (metis list.set_map)
  with fx assms(2) show ?thesis by (auto simp: spent_def u set_upd_where)
next
  fix p iv
  assume u: "db_invites ?d = upd_where p (\<lambda>i. i\<lparr>iv_status := INVITE_REVOKED\<rparr>) (db_invites d) @ [iv]"
    and new: "iv_hash iv \<notin> iv_hash ` set (db_invites d)"
  let ?us = "upd_where p (\<lambda>i. i\<lparr>iv_status := INVITE_REVOKED\<rparr>) (db_invites d)"
  have "map iv_hash ?us = map iv_hash (db_invites d)" by (simp add: map_upd_where)
  then have "iv_hash ` set ?us = iv_hash ` set (db_invites d)" by (metis list.set_map)
  then show ?thesis using assms(2) new by (auto simp: spent_def u set_upd_where)
qed

lemma team_step_privilege:
  assumes "fresh_op oper d" and "roles_invitable d" and "x \<in> set (db_admins (team_step sha hash_pw tid oper d))"
    and "ad_role x \<notin> set INVITABLE_ROLES"
  shows "\<exists>y\<in>set (db_admins d). ad_id y = ad_id x \<and> ad_role y = ad_role x"
  using team_step_admins [OF assms(1), of sha hash_pw tid]
proof cases
  case 1
  with assms(3) show ?thesis by auto
next
  case (2 iv a)
  then show ?thesis using assms(2-4) by (auto simp: roles_invitable_def)
next
  case (3 a f)
  then obtain y where y: "y \<in> set (db_admins d)" "x = (if ad_id y = ad_id a then f y else y)"
    using assms(3) by (auto simp: set_upd_where)
  then show ?thesis using 3 assms(4) by (intro bexI [of _ y]) auto
qed

section \<open>Properties\<close>

text \<open>
  C19. A tenant never loses its last owner: from any database with unique ids, whatever
  sequence of invitations, redemptions, role changes and removals is carried out by whatever
  tenants, a tenant that has an active owner keeps one.
\<close>

theorem team_keeps_an_owner:
  assumes "team_reach sha hash_pw d d'" and "unique_ok d" and "1 \<le> active_owner_count d t"
  shows "1 \<le> active_owner_count d' t"
proof -
  from assms have "unique_ok d' \<and> 1 \<le> active_owner_count d' t"
    by (induction rule: team_reach.induct) (simp_all add: team_step_unique team_step_owner [simplified])
  then show ?thesis by simp
qed

definition demo_team_db :: db where
  "demo_team_db = empty_db\<lparr>db_admins :=
     [new_admin ''o1'' ''t'' ''o1@x.y'' ''O1'' ''p'' ROLE_OWNER 0, new_admin ''o2'' ''t'' ''o2@x.y'' ''O2'' ''p'' ROLE_OWNER 1]\<rparr>"

lemma team_keeps_an_owner_witness:
  "1 \<le> active_owner_count (team_step id id ''t'' (ChangeRole ''o2'' ''member'')
      (team_step id id ''t'' (ChangeRole ''o1'' ''Admin '') demo_team_db)) ''t'' \<and>
   active_owner_count demo_team_db ''t'' = 2"
proof -
  have r: "team_reach id id demo_team_db (team_step id id ''t'' (ChangeRole ''o2'' ''member'')
      (team_step id id ''t'' (ChangeRole ''o1'' ''Admin '') demo_team_db))"
    by (intro team_reach.intros) simp_all
  have u: "unique_ok demo_team_db"
    by (simp add: unique_ok_def demo_team_db_def empty_db_def new_admin_def)
  have c: "active_owner_count demo_team_db ''t'' = 2" by code_simp
  show ?thesis using team_keeps_an_owner [OF r u, of "''t''"] c by simp
qed

text \<open>
  Team management never grants a privileged role: when every stored invite carries an
  invitable role, after any run every account that is an owner or platform admin (any role
  outside \<open>INVITABLE_ROLES\<close>) had that role before, and stored invites stay invitable.
\<close>

theorem team_grants_no_privilege:
  assumes "team_reach sha hash_pw d d'" and "roles_invitable d"
    and "x \<in> set (db_admins d')" and "ad_role x \<notin> set INVITABLE_ROLES"
  shows "\<exists>y\<in>set (db_admins d). ad_id y = ad_id x \<and> ad_role y = ad_role x"
proof -
  from assms(1,2) have "roles_invitable d' \<and> (\<forall>x\<in>set (db_admins d'). ad_role x \<notin> set INVITABLE_ROLES \<longrightarrow>
      (\<exists>y\<in>set (db_admins d). ad_id y = ad_id x \<and> ad_role y = ad_role x))"
  proof (induction rule: team_reach.induct)
    case (step d1 oper tid)
    have "\<exists>y\<in>set (db_admins d). ad_id y = ad_id x \<and> ad_role y = ad_role x"
      if x: "x \<in> set (db_admins (team_step sha hash_pw tid oper d1))" "ad_role x \<notin> set INVITABLE_ROLES" for x
    proof -
      from step team_step_privilege [OF step.hyps(2) _ x] obtain y
        where y: "y \<in> set (db_admins d1)" "ad_id y = ad_id x" "ad_role y = ad_role x" by blast
      with step x(2) show ?thesis by metis
    qed
    with step show ?case by (simp add: team_step_roles)
  qed auto
  with assms(3,4) show ?thesis by blast
qed

lemma team_grants_no_privilege_witness:
  "\<exists>y. y \<in> set (db_admins demo_team_db) \<and> ad_role y = ROLE_OWNER \<and>
     ad_id y = ad_id (hd (db_admins (team_step id id ''t''
       (Invite ''i'' ''raw'' 0 (hd (db_admins demo_team_db)) ''n@x.y'' ''owner'') demo_team_db)))"
proof -
  let ?op = "Invite ''i'' ''raw'' 0 (hd (db_admins demo_team_db)) ''n@x.y'' ''owner''"
  let ?x = "hd (db_admins (team_step id id ''t'' ?op demo_team_db))"
  have "fresh_op ?op demo_team_db" by (simp add: demo_team_db_def empty_db_def)
  then have r: "team_reach id id demo_team_db (team_step id id ''t'' ?op demo_team_db)"
    by (intro team_reach.intros)
  have i: "roles_invitable demo_team_db" by (simp add: roles_invitable_def demo_team_db_def empty_db_def)
  have "db_admins (team_step id id ''t'' ?op demo_team_db) \<noteq> []" "ad_role ?x = ROLE_OWNER"
    "ROLE_OWNER \<notin> set INVITABLE_ROLES" by code_simp+
  then show ?thesis using team_grants_no_privilege [OF r i hd_in_set] by metis
qed

text \<open>
  An invite link is single use: after a successful redemption, whatever team management
  follows, redeeming the same token again is refused with 404.
\<close>

theorem invite_is_single_use:
  assumes "accept_invite sha hash_pw d racing i now raw nm pw = Inr (a, d1)" and "unique_ok d"
    and "team_reach sha hash_pw d1 d2"
  shows "accept_invite sha hash_pw d2 racing2 i2 now2 raw nm2 pw2 =
    Inl (TeamError ''This invite link is invalid or has expired.'' 404)"
proof -
  from assms(1) obtain iv where iv: "peek_invite sha d raw now = Some iv"
      "db_invites d1 = upd_where (\<lambda>x. iv_id x = iv_id iv)
        (\<lambda>x. x\<lparr>iv_status := INVITE_ACCEPTED, iv_admin := Some i, iv_accepted := Some now\<rparr>) (db_invites d)"
    by (elim accept_invite_Inr) auto
  from peek_invite_Some [OF iv(1)] have m: "iv \<in> set (db_invites d)" "iv_hash iv = sha raw" by auto
  have one: "x \<in> set (db_invites d) \<Longrightarrow> iv_hash x = sha raw \<Longrightarrow> x = iv" for x
    using assms(2) m by (metis distinct_find_unique option.inject unique_ok_def)
  have "spent d1 (sha raw)"
    unfolding spent_def iv(2) set_upd_where
  proof (intro conjI ballI impI)
    show "sha raw \<in> iv_hash ` (\<lambda>x. if iv_id x = iv_id iv then x\<lparr>iv_status := INVITE_ACCEPTED,
        iv_admin := Some i, iv_accepted := Some now\<rparr> else x) ` set (db_invites d)"
      unfolding image_image using m by (intro image_eqI [of _ _ iv]) auto
  next
    fix x assume "x \<in> (\<lambda>x. if iv_id x = iv_id iv then x\<lparr>iv_status := INVITE_ACCEPTED,
        iv_admin := Some i, iv_accepted := Some now\<rparr> else x) ` set (db_invites d)" "iv_hash x = sha raw"
    then obtain y where y: "y \<in> set (db_invites d)" "iv_hash x = sha raw"
        "x = (if iv_id y = iv_id iv then y\<lparr>iv_status := INVITE_ACCEPTED,
        iv_admin := Some i, iv_accepted := Some now\<rparr> else y)" by blast
    then have "iv_hash y = sha raw" by (simp split: if_splits)
    then have "y = iv" by (rule one [OF y(1)])
    with y(3) show "iv_status x \<noteq> INVITE_PENDING" by simp
  qed
  with assms(3) have "spent d2 (sha raw)"
    by (induction rule: team_reach.induct) (auto intro: team_step_spent)
  then have "peek_invite sha d2 raw now2 = None"
    by (auto simp: peek_invite_def find_invite_def is_redeemable_def spent_def split: option.split
        dest!: find_SomeD)
  then show ?thesis by (simp add: accept_invite_def)
qed

definition demo_invite_db :: db where
  "demo_invite_db = demo_team_db\<lparr>db_invites := [\<lparr>iv_id = ''i'', iv_tenant = ''t'', iv_email = ''n@x.y'',
     iv_role = ROLE_MEMBER, iv_hash = ''raw'', iv_status = INVITE_PENDING, iv_by = None, iv_admin = None,
     iv_created = 0, iv_expires = Some 100, iv_accepted = None\<rparr>]\<rparr>"

lemma invite_is_single_use_witness:
  "\<exists>a d1. accept_invite id id demo_invite_db [] ''n'' 5 ''raw'' ''New'' ''long enough'' = Inr (a, d1) \<and>
     isl (accept_invite id id d1 [] ''m'' 6 ''raw'' ''New'' ''long enough'')"
proof -
  let ?r = "accept_invite id id demo_invite_db [] ''n'' 5 ''raw'' ''New'' ''long enough''"
  have "\<not> isl ?r" by code_simp
  then obtain a d1 where r: "?r = Inr (a, d1)" by (elim Inr_pair_of_not_isl [THEN exE] exE)
  have u: "unique_ok demo_invite_db"
    by (simp add: unique_ok_def demo_invite_db_def demo_team_db_def empty_db_def new_admin_def)
  show ?thesis using r invite_is_single_use [OF r u team_reach.start] by auto
qed

text \<open>
  Inviting back a deactivated member of the tenant succeeds, but the link can never be
  redeemed: as long as the account row exists, every redemption answers 409.
\<close>

theorem deactivated_member_invite_is_dead:
  assumes "get_admin_by_email d email = Some m" and "ad_tenant m = tid" and "\<not> ad_active m"
    and "py_lower (py_strip role) \<in> set INVITABLE_ROLES" and "CHR ''@'' \<in> set (normalize_email email)"
    and "sha raw \<notin> iv_hash ` set (db_invites d)"
  shows "\<exists>iv d1. create_invite sha d new_id raw now tid inviter email role = Inr ((iv, raw), d1) \<and>
    (\<forall>racing i t nm pw. t < now + 14 * 86400 \<longrightarrow> accept_invite sha hash_pw d1 racing i t raw nm pw =
       Inl (TeamError ''An account already exists for this email.'' 409))"
proof -
  have nn: "get_admin_by_email d (normalize_email email) = get_admin_by_email d email" for d
    by (simp add: get_admin_by_email_def normalize_email_def py_strip_lower)
  have hashes: "iv_hash ` set (revoke_stale tid e xs) = iv_hash ` set xs" for e xs
    by (induction xs) (auto simp: revoke_stale_def)
  let ?iv = "\<lparr>iv_id = new_id, iv_tenant = tid, iv_email = normalize_email email,
      iv_role = py_lower (py_strip role), iv_hash = sha raw, iv_status = INVITE_PENDING,
      iv_by = Some (ad_id inviter), iv_admin = None, iv_created = now,
      iv_expires = Some (now + INVITE_TTL_DAYS * 86400), iv_accepted = None\<rparr>"
  let ?rows = "revoke_stale tid (normalize_email email) (db_invites d)"
  let ?d = "d\<lparr>db_invites := ?rows @ [?iv]\<rparr>"
  have c: "create_invite sha d new_id raw now tid inviter email role = Inr ((?iv, raw), ?d)"
    using assms by (auto simp: create_invite_def Let_def insert_unique_def hashes nn)
  have "find (\<lambda>i. iv_hash i = sha raw) ?rows = None"
    using assms(6) hashes [of "normalize_email email" "db_invites d"] unfolding find_None by (metis imageI)
  then have "peek_invite sha ?d raw t = Some ?iv" if "t < now + 14 * 86400" for t
    using that by (simp add: peek_invite_def find_invite_def find_append is_redeemable_def INVITE_TTL_DAYS_def)
  moreover have "get_admin_by_email ?d (normalize_email email) = Some m"
    using assms(1) nn [of ?d] by (simp add: get_admin_by_email_def)
  ultimately have "\<forall>racing i t nm pw. t < now + 14 * 86400 \<longrightarrow> accept_invite sha hash_pw ?d racing i t raw nm pw =
       Inl (TeamError ''An account already exists for this email.'' 409)"
    by (simp add: accept_invite_def)
  with c show ?thesis by blast
qed

lemma deactivated_member_invite_is_dead_witness:
  "\<exists>iv d1. create_invite id (demo_team_db\<lparr>db_admins :=
       [new_admin ''m'' ''t'' ''m@x.y'' ''M'' ''p'' ROLE_MEMBER 0\<lparr>ad_active := False\<rparr>]\<rparr>) ''i'' ''raw'' 0 ''t''
      (hd (db_admins demo_team_db)) ''m@x.y'' ''member'' = Inr ((iv, ''raw''), d1) \<and>
     isl (accept_invite id id d1 [] ''n'' 1 ''raw'' ''M'' ''long enough'')"
proof -
  let ?m = "new_admin ''m'' ''t'' ''m@x.y'' ''M'' ''p'' ROLE_MEMBER 0\<lparr>ad_active := False\<rparr>"
  let ?d = "demo_team_db\<lparr>db_admins := [?m]\<rparr>"
  have n: "normalize_email ''m@x.y'' = ''m@x.y''" by code_simp
  have r: "py_lower (py_strip ''member'') \<in> set INVITABLE_ROLES" by code_simp
  have "\<exists>iv d1. create_invite id ?d ''i'' ''raw'' 0 ''t'' (hd (db_admins demo_team_db)) ''m@x.y'' ''member'' =
      Inr ((iv, ''raw''), d1) \<and> (\<forall>racing i t nm pw. t < 0 + 14 * 86400 \<longrightarrow>
        accept_invite id id d1 racing i t ''raw'' nm pw =
        Inl (TeamError ''An account already exists for this email.'' 409))"
    by (rule deactivated_member_invite_is_dead [where m = ?m])
      (simp_all add: get_admin_by_email_def n r new_admin_def demo_team_db_def empty_db_def)
  then show ?thesis by auto
qed

end
