(* ===== verification/Billing.thy ===== *)
theory Billing
  imports Resources
begin

text \<open>
  Money: the prepaid wallet and its ledger (\<^verbatim>\<open>modules/billing/credits.py\<close>), resale prices and
  charges (\<^verbatim>\<open>modules/billing/service.py\<close>), the metered AI gateway and resold keys
  (\<^verbatim>\<open>modules/reseller/ai_service.py\<close>) and resold Cloudflare services
  (\<^verbatim>\<open>modules/reseller/service.py\<close>). Amounts are integers as in the code; percentages and
  costs, floats in the code, are rationals, so binary rounding of floats is not modelled.
\<close>

section \<open>Wallet\<close>

definition wallet_of :: "db \<Rightarrow> string \<Rightarrow> tenant_credit option" where
  "wallet_of d tid = find (\<lambda>w. wl_tenant w = tid) (db_wallets d)"

definition ensure_wallet :: "db \<Rightarrow> string \<Rightarrow> db" where
  "ensure_wallet d tid =
     (case wallet_of d tid of
        Some w \<Rightarrow> d
      | None \<Rightarrow> d\<lparr>db_wallets := db_wallets d @ [\<lparr>wl_tenant = tid, wl_balance = 0\<rparr>]\<rparr>)"

definition balance :: "db \<Rightarrow> string \<Rightarrow> int" where
  "balance d tid = (case wallet_of d tid of None \<Rightarrow> 0 | Some w \<Rightarrow> wl_balance w)"

definition apply_credit :: "db \<Rightarrow> int \<Rightarrow> string \<Rightarrow> int \<Rightarrow> txn_kind \<Rightarrow> string \<Rightarrow> int \<times> db" where
  "apply_credit d now tid delta kind reference =
     (let d1 = ensure_wallet d tid;
          d2 = d1\<lparr>db_wallets := upd_where (\<lambda>w. wl_tenant w = tid)
                      (\<lambda>w. w\<lparr>wl_balance := wl_balance w + delta\<rparr>) (db_wallets d1),
                   db_txns := db_txns d1 @ [\<lparr>tx_tenant = tid, tx_delta = delta, tx_kind = kind,
                      tx_ref = reference, tx_created = now\<rparr>]\<rparr>
      in (balance d2 tid, d2))"

definition topup :: "db \<Rightarrow> int \<Rightarrow> string \<Rightarrow> int \<Rightarrow> string \<Rightarrow> (int \<times> db) result" where
  "topup d now tid amount reference =
     (if amount \<le> 0 then Inl (ValueError ''Top-up amount must be positive.'')
      else Inr (apply_credit d now tid amount TXN_TOPUP reference))"

definition debit :: "db \<Rightarrow> int \<Rightarrow> string \<Rightarrow> int \<Rightarrow> string \<Rightarrow> (int \<times> db) result" where
  "debit d now tid amount reference =
     (if amount < 0 then Inl (ValueError ''Debit amount must be non-negative.'')
      else Inr (apply_credit d now tid (- amount) TXN_DEBIT reference))"

definition adjust :: "db \<Rightarrow> int \<Rightarrow> string \<Rightarrow> int \<Rightarrow> string \<Rightarrow> int \<times> db" where
  "adjust d now tid delta reference = apply_credit d now tid delta TXN_ADJUSTMENT reference"

definition transactions :: "db \<Rightarrow> string \<Rightarrow> nat \<Rightarrow> credit_txn list" where
  "transactions d tid limit = take limit (sort_key (\<lambda>t. - tx_created t)
     (filter (\<lambda>t. tx_tenant t = tid) (db_txns d)))"

definition MICRO_USD_PER_USD :: int where "MICRO_USD_PER_USD = 1000000"

record wallet_overview =
  wo_tenant :: string
  wo_name :: string
  wo_balance :: int
  wo_spend :: int
  wo_requests :: int

text \<open>Amounts stay in micro-USD here; the code divides them by 1,000,000 for display.\<close>

definition credit_overview :: "db \<Rightarrow> int \<Rightarrow> int \<Rightarrow> wallet_overview list" where
  "credit_overview d now days =
     (let recent = filter (\<lambda>e. now - days * 86400 \<le> ai_created e) (db_usage_events d);
          row = (\<lambda>t. let mine = filter (\<lambda>e. ai_tenant e = tn_id t) recent in
             \<lparr>wo_tenant = tn_id t, wo_name = tn_name t, wo_balance = balance d (tn_id t),
              wo_spend = sum_list (map ai_billed mine), wo_requests = int (length mine)\<rparr>)
      in sort_key (\<lambda>r. - wo_spend r) (map row (db_tenants d)))"

section \<open>Prices\<close>

definition RULE_MARKUP_PERCENT :: string where "RULE_MARKUP_PERCENT = ''markup_percent''"
definition RULE_FIXED_MARGIN :: string where "RULE_FIXED_MARGIN = ''fixed_margin''"
definition RULE_FIXED_PRICE :: string where "RULE_FIXED_PRICE = ''fixed_price''"

text \<open>\<open>round\<close>: to the nearest integer, ties to the even one.\<close>

definition py_round :: "rat \<Rightarrow> int" where
  "py_round x = (let f = \<lfloor>x\<rfloor>; r = x - of_int f in
     if r < 1 / 2 then f else if 1 / 2 < r then f + 1 else if even f then f else f + 1)"

definition compute_resale_cents :: "int \<Rightarrow> string \<Rightarrow> rat \<Rightarrow> int" where
  "compute_resale_cents wholesale rule val =
     (if rule = RULE_FIXED_PRICE then max 0 (py_round val)
      else if rule = RULE_FIXED_MARGIN then max 0 (wholesale + py_round val)
      else max 0 (py_round (of_int wholesale * (1 + val / 100))))"

definition get_rule :: "db \<Rightarrow> string \<Rightarrow> pricing_rule option" where
  "get_rule d key = find (\<lambda>r. pr_key r = key) (db_rules d)"

record price_quote =
  qt_offering :: string
  qt_wholesale :: int
  qt_resale :: int
  qt_margin :: int
  qt_rule :: string
  qt_value :: rat

definition price_quote_of :: "string \<Rightarrow> int \<Rightarrow> string \<Rightarrow> rat \<Rightarrow> price_quote" where
  "price_quote_of key wholesale rule val =
     (let resale = compute_resale_cents wholesale rule val in
      \<lparr>qt_offering = key, qt_wholesale = wholesale, qt_resale = resale, qt_margin = resale - wholesale,
       qt_rule = rule, qt_value = val\<rparr>)"

definition quote_price :: "db \<Rightarrow> rat \<Rightarrow> string \<Rightarrow> int option \<Rightarrow> price_quote result" where
  "quote_price d default_markup key wholesale =
     (case get_rule d key of
        Some r \<Rightarrow> Inr (price_quote_of key (case wholesale of Some w \<Rightarrow> w | None \<Rightarrow> pr_wholesale r)
                        (pr_rule r) (pr_value r))
      | None \<Rightarrow>
         (case wholesale of
            None \<Rightarrow> Inl (BillingError (''No pricing configured for '' @ [CHR 0x27] @ key @ [CHR 0x27] @ '' - set a rule or pass a wholesale cost.'') 404)
          | Some w \<Rightarrow> Inr (price_quote_of key w RULE_MARKUP_PERCENT default_markup)))"

definition set_rule ::
  "db \<Rightarrow> string \<Rightarrow> string \<Rightarrow> string \<Rightarrow> int \<Rightarrow> string \<Rightarrow> string \<Rightarrow> rat \<Rightarrow> pricing_rule \<times> db" where
  "set_rule d key provider shape wholesale unit_label rule val =
     (let r = \<lparr>pr_key = key, pr_provider = provider, pr_shape = shape, pr_wholesale = wholesale,
               pr_unit = unit_label, pr_rule = rule, pr_value = val\<rparr> in
      (r, d\<lparr>db_rules := (case get_rule d key of
              None \<Rightarrow> db_rules d @ [r]
            | Some _ \<Rightarrow> upd_where (\<lambda>x. pr_key x = key) (\<lambda>_. r) (db_rules d))\<rparr>))"

definition record_charge ::
  "db \<Rightarrow> int \<Rightarrow> string \<Rightarrow> string \<Rightarrow> string \<Rightarrow> int \<Rightarrow> int \<Rightarrow> string \<Rightarrow> reseller_charge \<times> db" where
  "record_charge d now tid key provider wholesale resale status =
     (let c = \<lparr>rc_tenant = tid, rc_offering = key, rc_provider = provider, rc_wholesale = wholesale,
               rc_resale = resale, rc_margin = resale - wholesale, rc_status = status, rc_created = now\<rparr>
      in (c, d\<lparr>db_charges := db_charges d @ [c]\<rparr>))"

definition list_charges :: "db \<Rightarrow> string option \<Rightarrow> nat \<Rightarrow> reseller_charge list" where
  "list_charges d tid limit =
     take limit (sort_key (\<lambda>c. - rc_created c)
       (filter (\<lambda>c. case tid of None \<Rightarrow> True | Some t \<Rightarrow> rc_tenant c = t) (db_charges d)))"

section \<open>The metered AI gateway\<close>

datatype ai_mode = MODE_DISABLED | MODE_GATEWAY | MODE_KEYS

record chat_body =
  cb_model :: string
  cb_has_messages :: bool

text \<open>What the code reads of a completion; absent fields are \<open>None\<close>.\<close>

record chat_result =
  cr_id :: string
  cr_cost :: "rat option"
  cr_prompt :: "int option"
  cr_completion :: "int option"

definition ai_markup_percent :: "db \<Rightarrow> rat \<Rightarrow> rat" where
  "ai_markup_percent d default_markup =
     (case get_rule d ''ai.usage'' of
        Some r \<Rightarrow> if pr_rule r = RULE_MARKUP_PERCENT then pr_value r else default_markup
      | None \<Rightarrow> default_markup)"

definition cost_micro :: "chat_result \<Rightarrow> int" where
  "cost_micro r = max 0 (py_round (case cr_cost r of None \<Rightarrow> 0 | Some c \<Rightarrow> c * 1000000))"

definition billed_micro :: "db \<Rightarrow> rat \<Rightarrow> chat_result \<Rightarrow> int" where
  "billed_micro d default_markup r =
     py_round (of_int (cost_micro r) * (1 + ai_markup_percent d default_markup / 100))"

text \<open>
  Before the upstream call: the checks, with the balance of \<open>d\<close>. After it: the settlement, on
  the database \<open>d\<close> of that moment.
\<close>

definition chat_checks :: "bool \<Rightarrow> ai_mode \<Rightarrow> db \<Rightarrow> string option \<Rightarrow> chat_body \<Rightarrow> string result" where
  "chat_checks actions mode d tid body =
     (if \<not> actions then Inl (ResellerError ''Provider actions are disabled.'' 403)
      else if mode = MODE_DISABLED then Inl (ResellerError ''AI is not configured on this platform.'' 503)
      else if mode \<noteq> MODE_GATEWAY then Inl (ResellerError
        ''This platform provisions per-tenant AI keys - call OpenRouter directly with yours.'' 400)
      else if or_empty tid = [] then Inl (ResellerError ''A tenant context is required.'' 400)
      else if cb_model body = [] \<or> \<not> cb_has_messages body then
        Inl (ResellerError ''Request must include 'model' and 'messages'.'' 422)
      else if balance d (or_empty tid) \<le> 0 then
        Inl (ResellerError ''Insufficient AI credit. Ask an admin to top up your balance.'' 402)
      else Inr (or_empty tid))"

definition chat_settle ::
  "rat \<Rightarrow> db \<Rightarrow> int \<Rightarrow> string \<Rightarrow> chat_body \<Rightarrow> chat_result \<Rightarrow> (int \<times> db) result" where
  "chat_settle default_markup d now tid body r =
     (let billed = billed_micro d default_markup r;
          ev = \<lparr>ai_tenant = tid, ai_model = cb_model body,
                ai_prompt_tokens = (case cr_prompt r of None \<Rightarrow> 0 | Some n \<Rightarrow> n),
                ai_completion_tokens = (case cr_completion r of None \<Rightarrow> 0 | Some n \<Rightarrow> n),
                ai_cost = cost_micro r, ai_billed = billed, ai_request = cr_id r, ai_created = now\<rparr>
      in debit (d\<lparr>db_usage_events := db_usage_events d @ [ev]\<rparr>) now tid billed (str_or (cr_id r) ''ai.usage''))"

definition chat_for_tenant ::
  "bool \<Rightarrow> ai_mode \<Rightarrow> rat \<Rightarrow> (chat_body \<Rightarrow> chat_result result) \<Rightarrow> db \<Rightarrow> int \<Rightarrow> string option \<Rightarrow> chat_body \<Rightarrow>
   (int \<times> db) result" where
  "chat_for_tenant actions mode default_markup client d now tid body =
     (case chat_checks actions mode d tid body of
        Inl e \<Rightarrow> Inl e
      | Inr t \<Rightarrow> (case client body of Inl e \<Rightarrow> Inl e | Inr r \<Rightarrow> chat_settle default_markup d now t body r))"

section \<open>Resold AI keys and Cloudflare services\<close>

definition PROVIDER_OPENROUTER :: string where "PROVIDER_OPENROUTER = ''openrouter''"
definition RESOURCE_TYPE_AI_KEY :: string where "RESOURCE_TYPE_AI_KEY = ''ai_key''"
definition RESOURCE_TYPE_CLOUDFLARE_SERVICE :: string where
  "RESOURCE_TYPE_CLOUDFLARE_SERVICE = ''cloudflare_service''"

definition plain_resource :: "string \<Rightarrow> string \<Rightarrow> string \<Rightarrow> string \<Rightarrow> string \<Rightarrow> tenant_resource" where
  "plain_resource tid provider rtype ext display =
     \<lparr>rs_tenant = tid, rs_provider = provider, rs_type = rtype, rs_ext = ext, rs_display = display,
      rs_cpu = None, rs_mem = None, rs_disk = None\<rparr>"

definition require_actions :: "bool \<Rightarrow> unit result" where
  "require_actions actions =
     (if \<not> actions then Inl (ResellerError ''Provider actions are disabled.'' 403) else Inr ())"

definition ensure_key_owned :: "db \<Rightarrow> string option \<Rightarrow> string \<Rightarrow> unit result" where
  "ensure_key_owned d tid h =
     (if is_resource_accessible d tid PROVIDER_OPENROUTER RESOURCE_TYPE_AI_KEY h then Inr ()
      else Inl (ResellerError ''Key not found.'' 404))"

text \<open>\<open>create\<close> gives the secret and the hash of a new key.\<close>

definition provision_key_for_tenant ::
  "bool \<Rightarrow> (string \<Rightarrow> (string \<times> string) result) \<Rightarrow> db \<Rightarrow> string option \<Rightarrow> string \<Rightarrow>
   ((string \<times> string \<times> string) \<times> db) result" where
  "provision_key_for_tenant actions create d tid label =
     (case require_actions actions of
        Inl e \<Rightarrow> Inl e
      | Inr _ \<Rightarrow>
         (let nm = str_or (py_strip label) (''tenant-'' @ (case tid of None \<Rightarrow> ''None'' | Some t \<Rightarrow> t)) in
          case create nm of
            Inl e \<Rightarrow> Inl e
          | Inr (secret, h) \<Rightarrow>
              Inr ((secret, h, nm),
                if or_empty tid \<noteq> [] \<and> h \<noteq> [] then
                  d\<lparr>db_resources := db_resources d @
                     [plain_resource (or_empty tid) PROVIDER_OPENROUTER RESOURCE_TYPE_AI_KEY h nm]\<rparr>
                else d)))"

text \<open>The first mapped row of the tenant goes; a platform admin that revokes another tenant's
  key leaves that tenant's row.\<close>

definition key_row :: "string option \<Rightarrow> string \<Rightarrow> tenant_resource \<Rightarrow> bool" where
  "key_row tid h r \<longleftrightarrow> Some (rs_tenant r) = tid \<and> rs_provider r = PROVIDER_OPENROUTER \<and>
     rs_type r = RESOURCE_TYPE_AI_KEY \<and> rs_ext r = h"

fun remove_first :: "('a \<Rightarrow> bool) \<Rightarrow> 'a list \<Rightarrow> 'a list" where
  "remove_first p [] = []"
| "remove_first p (x # xs) = (if p x then xs else x # remove_first p xs)"

definition revoke_key_for_tenant ::
  "bool \<Rightarrow> (string \<Rightarrow> unit result) \<Rightarrow> db \<Rightarrow> string option \<Rightarrow> string \<Rightarrow> db result" where
  "revoke_key_for_tenant actions delete_key d tid h =
     (case require_actions actions of
        Inl e \<Rightarrow> Inl e
      | Inr _ \<Rightarrow>
         (case ensure_key_owned d tid h of
            Inl e \<Rightarrow> Inl e
          | Inr _ \<Rightarrow>
             (case delete_key h of
                Inl e \<Rightarrow> Inl e
              | Inr _ \<Rightarrow> Inr (d\<lparr>db_resources := remove_first (key_row tid h) (db_resources d)\<rparr>))))"

datatype activation = ActivatePlan string | ActivateToggle | ActivateAddon

definition cloudflare_services :: "(string \<times> activation) list" where
  "cloudflare_services =
     [(''plan_pro'', ActivatePlan ''pro''), (''plan_business'', ActivatePlan ''business''),
      (''plan_enterprise'', ActivatePlan ''enterprise''), (''waf_managed'', ActivatePlan ''pro''),
      (''rate_limiting'', ActivatePlan ''business''), (''argo'', ActivateToggle),
      (''load_balancing'', ActivateAddon), (''workers'', ActivateAddon), (''r2'', ActivateAddon)]"

definition require_cf_billing :: "bool \<Rightarrow> unit result" where
  "require_cf_billing billing =
     (if \<not> billing then Inl (ResellerError
        ''Cloudflare plan billing is disabled on this platform - no real charges are made.'' 403)
      else Inr ())"

definition reseller_zone_access :: "db \<Rightarrow> string option \<Rightarrow> string \<Rightarrow> unit result" where
  "reseller_zone_access d tid zone =
     (if is_resource_accessible d tid PROVIDER_CLOUDFLARE RESOURCE_TYPE_DNS_ZONE zone then Inr ()
      else Inl (ResellerError ''Zone not found.'' 404))"

definition record_activation :: "db \<Rightarrow> string option \<Rightarrow> string \<Rightarrow> string \<Rightarrow> db" where
  "record_activation d tid zone display =
     (if or_empty tid = [] then d
      else (let ext = zone @ '':'' @ display;
                r = plain_resource (or_empty tid) PROVIDER_CLOUDFLARE RESOURCE_TYPE_CLOUDFLARE_SERVICE ext display
            in if list_ex (\<lambda>x. rs_tenant x = or_empty tid \<and> rs_provider x = PROVIDER_CLOUDFLARE \<and>
                     rs_type x = RESOURCE_TYPE_CLOUDFLARE_SERVICE \<and> rs_ext x = ext) (db_resources d)
               then d else d\<lparr>db_resources := db_resources d @ [r]\<rparr>))"

text \<open>The calls that change the zone at Cloudflare; \<open>update\<close> is whether a subscription exists.\<close>

datatype cf_sale = SetSubscription string string bool | SetArgo string

definition activate_plan_for_tenant ::
  "bool \<Rightarrow> bool \<Rightarrow> (string \<Rightarrow> bool result) \<Rightarrow> (cf_sale \<Rightarrow> unit result) \<Rightarrow> db \<Rightarrow> string option \<Rightarrow> string \<Rightarrow>
   string \<Rightarrow> cf_sale list \<times> db result" where
  "activate_plan_for_tenant actions billing has_sub client d tid zone plan_id =
     (case require_actions actions of Inl e \<Rightarrow> ([], Inl e) | Inr _ \<Rightarrow>
     (case require_cf_billing billing of Inl e \<Rightarrow> ([], Inl e) | Inr _ \<Rightarrow>
     (case reseller_zone_access d tid zone of Inl e \<Rightarrow> ([], Inl e) | Inr _ \<Rightarrow>
       (let c = SetSubscription zone plan_id (case has_sub zone of Inl _ \<Rightarrow> False | Inr b \<Rightarrow> b) in
        ([c], map_sum id (\<lambda>_. record_activation d tid zone (''plan:'' @ plan_id)) (client c))))))"

definition activate_service_for_tenant ::
  "bool \<Rightarrow> bool \<Rightarrow> (string \<Rightarrow> bool result) \<Rightarrow> (cf_sale \<Rightarrow> unit result) \<Rightarrow> db \<Rightarrow> string option \<Rightarrow> string \<Rightarrow>
   string \<Rightarrow> cf_sale list \<times> db result" where
  "activate_service_for_tenant actions billing has_sub client d tid zone key =
     (case require_actions actions of Inl e \<Rightarrow> ([], Inl e) | Inr _ \<Rightarrow>
     (case reseller_zone_access d tid zone of Inl e \<Rightarrow> ([], Inl e) | Inr _ \<Rightarrow>
     (case map_of cloudflare_services key of
        None \<Rightarrow> ([], Inl (ResellerError (''Unknown service '' @ [CHR 0x27] @ key @ [CHR 0x27] @ ''.'') 404))
      | Some (ActivatePlan rate) \<Rightarrow>
         (case require_cf_billing billing of Inl e \<Rightarrow> ([], Inl e) | Inr _ \<Rightarrow>
           (let c = SetSubscription zone rate (case has_sub zone of Inl _ \<Rightarrow> False | Inr b \<Rightarrow> b) in
            ([c], map_sum id (\<lambda>_. record_activation d tid zone (''service:'' @ key)) (client c))))
      | Some ActivateToggle \<Rightarrow>
         (case require_cf_billing billing of Inl e \<Rightarrow> ([], Inl e) | Inr _ \<Rightarrow>
           (let c = SetArgo zone in
            ([c], map_sum id (\<lambda>_. record_activation d tid zone (''service:'' @ key)) (client c))))
      | Some ActivateAddon \<Rightarrow> ([], Inr (record_activation d tid zone (''service:'' @ key))))))"

section \<open>The wallet is its ledger\<close>

definition ledger_sum :: "db \<Rightarrow> string \<Rightarrow> int" where
  "ledger_sum d tid = sum_list (map tx_delta (filter (\<lambda>t. tx_tenant t = tid) (db_txns d)))"

definition ledger_ok :: "db \<Rightarrow> bool" where
  "ledger_ok d \<longleftrightarrow> (\<forall>tid. balance d tid = ledger_sum d tid)"

lemma wallet_ensure: "wallet_of (ensure_wallet d tid) t =
    (if t = tid then Some (case wallet_of d tid of Some w \<Rightarrow> w | None \<Rightarrow> \<lparr>wl_tenant = tid, wl_balance = 0\<rparr>)
     else wallet_of d t)"
  by (auto simp: ensure_wallet_def wallet_of_def find_append split: option.splits)

lemma apply_credit_effect:
  assumes "apply_credit d now tid delta kind reference = (b, d')"
  shows "balance d' t = balance d t + (if t = tid then delta else 0)"
    and "ledger_sum d' t = ledger_sum d t + (if t = tid then delta else 0)"
    and "b = balance d' tid"
    and "\<exists>w. d' = d\<lparr>db_wallets := w, db_txns := db_txns d @ [\<lparr>tx_tenant = tid, tx_delta = delta, tx_kind = kind,
        tx_ref = reference, tx_created = now\<rparr>]\<rparr>"
proof -
  let ?d1 = "ensure_wallet d tid"
  let ?f = "\<lambda>w :: tenant_credit. w\<lparr>wl_balance := wl_balance w + delta\<rparr>"
  have tx: "db_txns ?d1 = db_txns d" by (simp add: ensure_wallet_def split: option.split)
  from assms have d': "d' = ?d1\<lparr>db_wallets := upd_where (\<lambda>w. wl_tenant w = tid) ?f (db_wallets ?d1),
      db_txns := db_txns d @ [\<lparr>tx_tenant = tid, tx_delta = delta, tx_kind = kind, tx_ref = reference,
        tx_created = now\<rparr>]\<rparr>"
    by (auto simp: apply_credit_def Let_def tx)
  have "wallet_of d' t = map_option (\<lambda>w. if wl_tenant w = tid then ?f w else w) (wallet_of ?d1 t)"
    unfolding wallet_of_def by (simp add: d' find_upd_where)
  also have "wl_tenant w = t" if "wallet_of ?d1 t = Some w" for w
    using that by (auto simp: wallet_of_def dest: find_SomeD)
  then have "map_option (\<lambda>w. if wl_tenant w = tid then ?f w else w) (wallet_of ?d1 t) =
      map_option (if t = tid then ?f else id) (wallet_of ?d1 t)"
    by (cases "wallet_of ?d1 t") auto
  finally show "balance d' t = balance d t + (if t = tid then delta else 0)"
    by (simp add: balance_def wallet_ensure split: option.split)
  show "ledger_sum d' t = ledger_sum d t + (if t = tid then delta else 0)"
    by (simp add: ledger_sum_def d')
  show "b = balance d' tid" using assms by (auto simp: apply_credit_def Let_def)
  have "\<exists>w. ?d1 = d\<lparr>db_wallets := w\<rparr>"
    by (cases "wallet_of d tid") (auto simp: ensure_wallet_def intro: exI [of _ "db_wallets d"])
  then show "\<exists>w. d' = d\<lparr>db_wallets := w, db_txns := db_txns d @ [\<lparr>tx_tenant = tid, tx_delta = delta,
      tx_kind = kind, tx_ref = reference, tx_created = now\<rparr>]\<rparr>"
    unfolding d' by auto
qed

text \<open>Everything that moves money in a wallet.\<close>

datatype wallet_op = Topup int string int string | Debit int string int string | Adjust int string int string
  | Chat bool ai_mode rat "chat_result result" int "string option" chat_body

fun wallet_step :: "wallet_op \<Rightarrow> db \<Rightarrow> db" where
  "wallet_step (Topup now t n r) d = (case topup d now t n r of Inl _ \<Rightarrow> d | Inr (_, d') \<Rightarrow> d')"
| "wallet_step (Debit now t n r) d = (case debit d now t n r of Inl _ \<Rightarrow> d | Inr (_, d') \<Rightarrow> d')"
| "wallet_step (Adjust now t n r) d = snd (adjust d now t n r)"
| "wallet_step (Chat acts mode mk answer now t b) d =
     (case chat_for_tenant acts mode mk (\<lambda>_. answer) d now t b of Inl _ \<Rightarrow> d | Inr (_, d') \<Rightarrow> d')"

lemma chat_settle_effect:
  assumes "chat_settle mk d now tid body r = Inr (b, d')"
  shows "0 \<le> billed_micro d mk r"
    and "balance d' t = balance d t - (if t = tid then billed_micro d mk r else 0)"
    and "ledger_sum d' t = ledger_sum d t - (if t = tid then billed_micro d mk r else 0)"
    and "b = balance d' tid" and "\<exists>x. db_txns d' = db_txns d @ [x]"
    and "\<exists>e. db_usage_events d' = db_usage_events d @ [e] \<and> ai_tenant e = tid \<and> ai_billed e = billed_micro d mk r \<and>
        ai_cost e = cost_micro r"
proof -
  define ev where "ev = \<lparr>ai_tenant = tid, ai_model = cb_model body,
                ai_prompt_tokens = (case cr_prompt r of None \<Rightarrow> 0 | Some n \<Rightarrow> n),
                ai_completion_tokens = (case cr_completion r of None \<Rightarrow> 0 | Some n \<Rightarrow> n),
                ai_cost = cost_micro r, ai_billed = billed_micro d mk r, ai_request = cr_id r, ai_created = now\<rparr>"
  have ev: "ai_tenant ev = tid" "ai_billed ev = billed_micro d mk r" "ai_cost ev = cost_micro r"
    by (simp_all add: ev_def)
  have ap: "apply_credit (d\<lparr>db_usage_events := db_usage_events d @ [ev]\<rparr>) now tid (- billed_micro d mk r)
        TXN_DEBIT (str_or (cr_id r) ''ai.usage'') = (b, d')"
    and pos: "0 \<le> billed_micro d mk r"
    using assms by (auto simp: chat_settle_def debit_def Let_def ev_def split: if_splits)
  have same: "balance (d\<lparr>db_usage_events := e\<rparr>) t = balance d t" "ledger_sum (d\<lparr>db_usage_events := e\<rparr>) t = ledger_sum d t"
    for e t by (simp_all add: balance_def wallet_of_def ledger_sum_def)
  note ef = apply_credit_effect [OF ap]
  show "0 \<le> billed_micro d mk r" by (rule pos)
  show "balance d' t = balance d t - (if t = tid then billed_micro d mk r else 0)"
    using ef(1) [of t] by (simp add: same)
  show "ledger_sum d' t = ledger_sum d t - (if t = tid then billed_micro d mk r else 0)"
    using ef(2) [of t] by (simp add: same)
  show "b = balance d' tid" by (rule ef(3))
  show "\<exists>x. db_txns d' = db_txns d @ [x]" using ef(4) by auto
  show "\<exists>e. db_usage_events d' = db_usage_events d @ [e] \<and> ai_tenant e = tid \<and> ai_billed e = billed_micro d mk r \<and>
        ai_cost e = cost_micro r"
    using ef(4) ev by auto
qed

lemma wallet_step_ok:
  assumes "ledger_ok d"
  shows "ledger_ok (wallet_step oper d) \<and> (\<exists>xs. db_txns (wallet_step oper d) = db_txns d @ xs)"
proof -
  have ap: "ledger_ok d' \<and> (\<exists>xs. db_txns d' = db_txns d @ xs)"
    if "apply_credit d now tid delta kind reference = (b, d')" for now tid delta kind reference b d'
    using apply_credit_effect [OF that] assms by (auto simp: ledger_ok_def)
  show ?thesis
  proof (cases oper)
    case (Topup now t n r)
    obtain b d' where a: "apply_credit d now t n TXN_TOPUP r = (b, d')" by force
    with ap [OF a] assms Topup show ?thesis by (auto simp: topup_def)
  next
    case (Debit now t n r)
    obtain b d' where a: "apply_credit d now t (- n) TXN_DEBIT r = (b, d')" by force
    with ap [OF a] assms Debit show ?thesis by (auto simp: debit_def)
  next
    case (Adjust now t n r)
    obtain b d' where a: "apply_credit d now t n TXN_ADJUSTMENT r = (b, d')" by force
    with ap [OF a] Adjust show ?thesis by (auto simp: adjust_def)
  next
    case (Chat acts mode mk answer now t b)
    show ?thesis
    proof (cases "chat_for_tenant acts mode mk (\<lambda>_. answer) d now t b")
      case (Inl e)
      with Chat assms show ?thesis by auto
    next
      case (Inr q)
      then obtain bal d' where c: "chat_for_tenant acts mode mk (\<lambda>_. answer) d now t b = Inr (bal, d')" by (cases q) auto
      then obtain tid r where s: "chat_settle mk d now tid b r = Inr (bal, d')"
        by (auto simp: chat_for_tenant_def split: sum.splits)
      from chat_settle_effect [OF s] have "ledger_ok d'" "\<exists>x. db_txns d' = db_txns d @ [x]"
        using assms by (auto simp: ledger_ok_def)
      with Chat c show ?thesis by auto
    qed
  qed
qed

section \<open>Rounding\<close>

lemma py_round_bounds: "of_int (py_round x) - 1 / 2 \<le> x" "x \<le> of_int (py_round x) + 1 / 2"
proof -
  define f :: rat where "f = of_int \<lfloor>x\<rfloor>"
  have f: "f \<le> x" "x < f + 1" unfolding f_def by linarith+
  consider "x - f \<le> 1 / 2" "of_int (py_round x) = f" | "1 / 2 \<le> x - f" "of_int (py_round x) = f + 1"
    by (cases "even \<lfloor>x\<rfloor>"; cases "x - f" "1 / 2 :: rat" rule: linorder_cases;
        auto simp: py_round_def Let_def f_def)
  then show "of_int (py_round x) - 1 / 2 \<le> x" "x \<le> of_int (py_round x) + 1 / 2"
    using f by (cases; linarith)+
qed

lemma py_round_mono: "x \<le> y \<Longrightarrow> py_round x \<le> py_round y"
proof (rule ccontr)
  assume le: "x \<le> y" and "\<not> py_round x \<le> py_round y"
  then have "py_round y + 1 \<le> py_round x" by simp
  then have "of_int (py_round y) + 1 \<le> (of_int (py_round x) :: rat)"
    by (metis of_int_1 of_int_add of_int_le_iff)
  with py_round_bounds(1) [of x] py_round_bounds(2) [of y] le have "x = y" by linarith
  with \<open>\<not> py_round x \<le> py_round y\<close> show False by simp
qed

lemma py_round_int [simp]: "py_round (of_int n) = n"
  by (simp add: py_round_def)

lemma py_round_nonneg: "0 \<le> x \<Longrightarrow> 0 \<le> py_round x"
  using py_round_mono [of 0 x] py_round_int [of 0] by simp

section \<open>Properties\<close>

lemma wallet_equals_ledger_facts:
  assumes "ledger_ok d"
  shows "ledger_ok (fold wallet_step ops d)"
    and "\<exists>xs. db_txns (fold wallet_step ops d) = db_txns d @ xs"
proof -
  have "ledger_ok (fold wallet_step ops d) \<and> (\<exists>xs. db_txns (fold wallet_step ops d) = db_txns d @ xs)"
    using assms
  proof (induction ops arbitrary: d)
    case (Cons oper ops)
    from wallet_step_ok [OF Cons.prems] obtain xs where
      "ledger_ok (wallet_step oper d)" "db_txns (wallet_step oper d) = db_txns d @ xs" by blast
    with Cons.IH [of "wallet_step oper d"] show ?case by auto
  qed auto
  then show "ledger_ok (fold wallet_step ops d)"
    and "\<exists>xs. db_txns (fold wallet_step ops d) = db_txns d @ xs" by auto
qed

text \<open>
  C20. The wallet is its ledger: starting from a database in which every balance is the sum of
  the tenant's transactions, any sequence of top-ups, debits, corrections and metered AI calls
  keeps it so, and the ledger only grows at its end.
\<close>

theorem wallet_equals_ledger:
  assumes "ledger_ok d"
  shows "(ledger_ok (fold wallet_step ops d)) \<and>
     (\<exists>xs. db_txns (fold wallet_step ops d) = db_txns d @ xs)"
proof -
  have 1: "ledger_ok (fold wallet_step ops d)"
    by ((intro impI)?, rule wallet_equals_ledger_facts(1); (assumption | rule assms))
  have 2: "\<exists>xs. db_txns (fold wallet_step ops d) = db_txns d @ xs"
    by ((intro impI)?, rule wallet_equals_ledger_facts(2); (assumption | rule assms))
  show ?thesis by (rule conjI [OF 1 2])
qed

lemma wallet_equals_ledger_witness:
  "balance (fold wallet_step [Topup 0 ''t'' 500 [], Debit 1 ''t'' 700 [], Topup 2 ''t'' (-5) []] empty_db) ''t'' = -200"
proof -
  let ?d = "fold wallet_step [Topup 0 ''t'' 500 [], Debit 1 ''t'' 700 [], Topup 2 ''t'' (-5) []] empty_db"
  have "ledger_ok empty_db" by (simp add: ledger_ok_def balance_def wallet_of_def ledger_sum_def empty_db_def)
  then have "ledger_ok ?d" by (rule wallet_equals_ledger [THEN conjunct1])
  moreover have "ledger_sum ?d ''t'' = -200" by code_simp
  ultimately show ?thesis by (simp only: ledger_ok_def)
qed

lemma ai_gateway_bills_exactly_facts:
  shows "chat_for_tenant acts mode mk client d now tid body = Inr (b, d') \<Longrightarrow>
      \<exists>t r. tid = Some t \<and> client body = Inr r \<and> 0 < balance d t \<and> 0 \<le> billed_micro d mk r \<and>
        b = balance d t - billed_micro d mk r \<and>
        (\<forall>u. balance d' u = balance d u - (if u = t then billed_micro d mk r else 0)) \<and>
        (\<exists>e. db_usage_events d' = db_usage_events d @ [e] \<and> ai_tenant e = t \<and> ai_billed e = billed_micro d mk r)"
    and "balance d (or_empty tid) \<le> 0 \<Longrightarrow> \<exists>e. chat_for_tenant acts mode mk client d now tid body = Inl e"
    and "chat_checks acts mode d tid body = Inr t \<Longrightarrow> client body = Inr r \<Longrightarrow>
      of_int (cost_micro r) * (1 + ai_markup_percent d mk / 100) \<le> - 1 \<Longrightarrow>
      chat_for_tenant acts mode mk client d now tid body = Inl (ValueError ''Debit amount must be non-negative.'')"
proof -
  assume "chat_for_tenant acts mode mk client d now tid body = Inr (b, d')"
  then obtain t r where c: "chat_checks acts mode d tid body = Inr t" "client body = Inr r"
      "chat_settle mk d now t body r = Inr (b, d')"
    by (auto simp: chat_for_tenant_def split: sum.splits)
  from c(1) have t: "tid = Some t" "0 < balance d t"
    by (cases tid; auto simp: chat_checks_def split: if_splits)+
  note ef = chat_settle_effect [OF c(3)]
  have "b = balance d t - billed_micro d mk r" using ef(2) [of t] ef(4) by simp
  with t c(2) ef show "\<exists>t r. tid = Some t \<and> client body = Inr r \<and> 0 < balance d t \<and> 0 \<le> billed_micro d mk r \<and>
        b = balance d t - billed_micro d mk r \<and>
        (\<forall>u. balance d' u = balance d u - (if u = t then billed_micro d mk r else 0)) \<and>
        (\<exists>e. db_usage_events d' = db_usage_events d @ [e] \<and> ai_tenant e = t \<and> ai_billed e = billed_micro d mk r)"
    by blast
next
  show "balance d (or_empty tid) \<le> 0 \<Longrightarrow> \<exists>e. chat_for_tenant acts mode mk client d now tid body = Inl e"
    by (auto simp: chat_for_tenant_def chat_checks_def)
next
  assume c: "chat_checks acts mode d tid body = Inr t" "client body = Inr r"
    and neg: "of_int (cost_micro r) * (1 + ai_markup_percent d mk / 100) \<le> - 1"
  have "billed_micro d mk r \<le> py_round (of_int (- 1))"
    unfolding billed_micro_def using neg by (intro py_round_mono) simp
  then have "billed_micro d mk r < 0" unfolding py_round_int by simp
  with c show "chat_for_tenant acts mode mk client d now tid body = Inl (ValueError ''Debit amount must be non-negative.'')"
    by (simp add: chat_for_tenant_def chat_settle_def debit_def Let_def)
qed



lemma resale_price_laws_facts:
  shows "0 \<le> compute_resale_cents w rule v"
    and "0 \<le> v \<Longrightarrow> 0 \<le> w \<Longrightarrow> w \<le> compute_resale_cents w RULE_MARKUP_PERCENT v"
    and "-100 \<le> v \<Longrightarrow> w1 \<le> w2 \<Longrightarrow>
      compute_resale_cents w1 RULE_MARKUP_PERCENT v \<le> compute_resale_cents w2 RULE_MARKUP_PERCENT v"
    and "0 \<le> w \<Longrightarrow> -100 \<le> v \<Longrightarrow>
      \<bar>of_int (compute_resale_cents w RULE_MARKUP_PERCENT v) - of_int w * (1 + v / 100)\<bar> \<le> 1 / 2"
    and "quote_price d mk key wholesale = Inr q \<Longrightarrow>
      qt_margin q = qt_resale q - qt_wholesale q \<and> 0 \<le> qt_resale q"
proof -
  have rules: "RULE_MARKUP_PERCENT \<noteq> RULE_FIXED_PRICE" "RULE_MARKUP_PERCENT \<noteq> RULE_FIXED_MARGIN"
    by (simp_all add: RULE_MARKUP_PERCENT_def RULE_FIXED_PRICE_def RULE_FIXED_MARGIN_def)
  have nn: "0 \<le> compute_resale_cents w rule v" for w rule v by (simp add: compute_resale_cents_def)
  show "0 \<le> compute_resale_cents w rule v" by (rule nn)
  show "w \<le> compute_resale_cents w RULE_MARKUP_PERCENT v" if "0 \<le> v" "0 \<le> w"
  proof -
    have "of_int w \<le> of_int w * (1 + v / 100)" using that by (simp add: mult_le_cancel_left1)
    then have "py_round (of_int w) \<le> py_round (of_int w * (1 + v / 100))" by (rule py_round_mono)
    then show ?thesis using rules by (simp add: compute_resale_cents_def)
  qed
  show "compute_resale_cents w1 RULE_MARKUP_PERCENT v \<le> compute_resale_cents w2 RULE_MARKUP_PERCENT v"
    if "-100 \<le> v" "w1 \<le> w2"
  proof -
    have "of_int w1 * (1 + v / 100) \<le> of_int w2 * (1 + v / 100)"
      using that by (intro mult_right_mono) auto
    then have "py_round (of_int w1 * (1 + v / 100)) \<le> py_round (of_int w2 * (1 + v / 100))"
      by (rule py_round_mono)
    then show ?thesis using rules by (simp add: compute_resale_cents_def max_def)
  qed
  show "\<bar>of_int (compute_resale_cents w RULE_MARKUP_PERCENT v) - of_int w * (1 + v / 100)\<bar> \<le> 1 / 2"
    if "0 \<le> w" "-100 \<le> v"
  proof -
    have "0 \<le> of_int w * (1 + v / 100)" using that by simp
    then have "0 \<le> py_round (of_int w * (1 + v / 100))" by (rule py_round_nonneg)
    then have "compute_resale_cents w RULE_MARKUP_PERCENT v = py_round (of_int w * (1 + v / 100))"
      using rules by (simp add: compute_resale_cents_def)
    then show ?thesis
      using py_round_bounds [of "of_int w * (1 + v / 100)"] unfolding abs_le_iff by linarith
  qed
  show "qt_margin q = qt_resale q - qt_wholesale q \<and> 0 \<le> qt_resale q" if "quote_price d mk key wholesale = Inr q"
    using that nn by (auto simp: quote_price_def price_quote_of_def Let_def split: option.splits)
qed

text \<open>
  Resale prices: no rule ever gives a negative price; a percentage rule is within half a
  cent of the exact mark-up, grows with the wholesale cost, and does not sell below cost when
  the mark-up is not negative; a quote's margin is price minus cost.
\<close>

theorem resale_price_laws:
  shows "(0 \<le> compute_resale_cents w rule v) \<and>
     (0 \<le> v \<longrightarrow> 0 \<le> w \<longrightarrow> w \<le> compute_resale_cents w RULE_MARKUP_PERCENT v) \<and>
     (-100 \<le> v \<longrightarrow> w1 \<le> w2 \<longrightarrow>
      compute_resale_cents w1 RULE_MARKUP_PERCENT v \<le> compute_resale_cents w2 RULE_MARKUP_PERCENT v) \<and>
     (0 \<le> w \<longrightarrow> -100 \<le> v \<longrightarrow>
      \<bar>of_int (compute_resale_cents w RULE_MARKUP_PERCENT v) - of_int w * (1 + v / 100)\<bar> \<le> 1 / 2) \<and>
     (quote_price d mk key wholesale = Inr q \<longrightarrow>
      qt_margin q = qt_resale q - qt_wholesale q \<and> 0 \<le> qt_resale q)"
proof -
  have 1: "0 \<le> compute_resale_cents w rule v"
    by ((intro impI)?, rule resale_price_laws_facts(1); (assumption))
  have 2: "0 \<le> v \<longrightarrow> 0 \<le> w \<longrightarrow> w \<le> compute_resale_cents w RULE_MARKUP_PERCENT v"
    by ((intro impI)?, rule resale_price_laws_facts(2); (assumption))
  have 3: "-100 \<le> v \<longrightarrow> w1 \<le> w2 \<longrightarrow>
      compute_resale_cents w1 RULE_MARKUP_PERCENT v \<le> compute_resale_cents w2 RULE_MARKUP_PERCENT v"
    by ((intro impI)?, rule resale_price_laws_facts(3); (assumption))
  have 4: "0 \<le> w \<longrightarrow> -100 \<le> v \<longrightarrow>
      \<bar>of_int (compute_resale_cents w RULE_MARKUP_PERCENT v) - of_int w * (1 + v / 100)\<bar> \<le> 1 / 2"
    by ((intro impI)?, rule resale_price_laws_facts(4); (assumption))
  have 5: "quote_price d mk key wholesale = Inr q \<longrightarrow>
      qt_margin q = qt_resale q - qt_wholesale q \<and> 0 \<le> qt_resale q"
    by ((intro impI)?, rule resale_price_laws_facts(5); (assumption))
  show ?thesis by (rule conjI [OF 1 conjI [OF 2 conjI [OF 3 conjI [OF 4 5]]]])
qed

lemma resale_price_laws_witness:
  "1000 \<le> compute_resale_cents 1000 RULE_MARKUP_PERCENT 30 \<and>
   compute_resale_cents 999 RULE_MARKUP_PERCENT 30 \<le> compute_resale_cents 1000 RULE_MARKUP_PERCENT 30"
  using resale_price_laws [where v = 30 and w = 1000 and ?w1.0 = 999 and ?w2.0 = 1000] by simp

text \<open>
  Nothing is sold at Cloudflare unless provider actions and Cloudflare billing are both
  enabled and the zone is accessible to the tenant, and then only on that zone.
\<close>

theorem cloudflare_sales_gated:
  assumes "c \<in> set (fst (activate_service_for_tenant acts billing has_sub client d tid zone key)) \<or>
           c \<in> set (fst (activate_plan_for_tenant acts billing has_sub client d tid zone plan_id))"
  shows "acts \<and> billing \<and> is_resource_accessible d tid PROVIDER_CLOUDFLARE RESOURCE_TYPE_DNS_ZONE zone \<and>
    (case c of SetSubscription z _ _ \<Rightarrow> z = zone | SetArgo z \<Rightarrow> z = zone)"
  using assms
  by (auto simp: activate_service_for_tenant_def activate_plan_for_tenant_def require_actions_def
      require_cf_billing_def reseller_zone_access_def Let_def
      split: sum.splits if_splits option.splits activation.splits)

lemma cloudflare_sales_gated_witness:
  "fst (activate_service_for_tenant True True (\<lambda>_. Inr False) (\<lambda>_. Inr ()) demo_dns_db (Some ''t1'') ''z1'' ''argo'') = [SetArgo ''z1''] \<and>
   is_resource_accessible demo_dns_db (Some ''t1'') PROVIDER_CLOUDFLARE RESOURCE_TYPE_DNS_ZONE ''z1''"
proof -
  let ?f = "fst (activate_service_for_tenant True True (\<lambda>_. Inr False) (\<lambda>_. Inr ()) demo_dns_db (Some ''t1'') ''z1'' ''argo'')"
  have f: "?f = [SetArgo ''z1'']" by code_simp
  then have "SetArgo ''z1'' \<in> set ?f" by simp
  with f cloudflare_sales_gated [of "SetArgo ''z1''" True True "\<lambda>_. Inr False" "\<lambda>_. Inr ()" demo_dns_db
      "Some ''t1''" "''z1''" "''argo''"] show ?thesis by blast
qed

end
