(* ===== verification/Effects.thy ===== *)
theory Effects
  imports Prelude
begin

text \<open>
  Effectful code: an action takes a state to a result and a state, so an exception keeps the
  effects that came before it. \<open>wp m Q s\<close> says that running \<open>m\<close> from \<open>s\<close> ends with a result
  and state for which \<open>Q\<close> holds; its rules follow the structure of the action.
\<close>

type_synonym ('s, 'a) sx = "'s \<Rightarrow> 'a result \<times> 's"

definition act_return :: "'a \<Rightarrow> ('s, 'a) sx" where
  "act_return x h = (Inr x, h)"

definition act_raise :: "exn \<Rightarrow> ('s, 'a) sx" where
  "act_raise e h = (Inl e, h)"

definition act_bind :: "('s, 'a) sx \<Rightarrow> ('a \<Rightarrow> ('s, 'b) sx) \<Rightarrow> ('s, 'b) sx" where
  "act_bind m f h = (case m h of (Inl e, h1) \<Rightarrow> (Inl e, h1) | (Inr x, h1) \<Rightarrow> f x h1)"

definition act_catch :: "('s, 'a) sx \<Rightarrow> (exn \<Rightarrow> ('s, 'a) sx) \<Rightarrow> ('s, 'a) sx" where
  "act_catch m k h = (case m h of (Inl e, h1) \<Rightarrow> k e h1 | (Inr x, h1) \<Rightarrow> (Inr x, h1))"

definition act_seq :: "('s, 'a) sx \<Rightarrow> ('s, 'b) sx \<Rightarrow> ('s, 'b) sx" where
  "act_seq m n = act_bind m (\<lambda>_. n)"

definition act_when :: "bool \<Rightarrow> ('s, unit) sx \<Rightarrow> ('s, unit) sx" where
  "act_when b m = (if b then m else act_return ())"

fun act_each :: "('x \<Rightarrow> ('s, unit) sx) \<Rightarrow> 'x list \<Rightarrow> ('s, unit) sx" where
  "act_each f [] = act_return ()"
| "act_each f (x # xs) = act_seq (f x) (act_each f xs)"

section \<open>Running to a postcondition\<close>

definition wp :: "('s, 'a) sx \<Rightarrow> ('a result \<Rightarrow> 's \<Rightarrow> bool) \<Rightarrow> 's \<Rightarrow> bool" where
  "wp m Q s = (case m s of (r, s') \<Rightarrow> Q r s')"

lemma wpD: "wp m Q s \<Longrightarrow> m s = (r, s') \<Longrightarrow> Q r s'"
  by (simp add: wp_def)

lemma wpI: "(\<And>r s'. m s = (r, s') \<Longrightarrow> Q r s') \<Longrightarrow> wp m Q s"
  by (simp add: wp_def split: prod.splits)

lemma wp_mono: "wp m Q s \<Longrightarrow> (\<And>r s'. Q r s' \<Longrightarrow> Q' r s') \<Longrightarrow> wp m Q' s"
  by (simp add: wp_def split: prod.splits)

lemma wp_return [simp]: "wp (act_return x) Q s = Q (Inr x) s"
  by (simp add: wp_def act_return_def)

lemma wp_raise [simp]: "wp (act_raise e) Q s = Q (Inl e) s"
  by (simp add: wp_def act_raise_def)

lemma wp_bind: "wp (act_bind m f) Q s = wp m (\<lambda>r s'. case r of Inl e \<Rightarrow> Q (Inl e) s' | Inr x \<Rightarrow> wp (f x) Q s') s"
  by (simp add: wp_def act_bind_def split: prod.splits sum.splits)

lemma wp_catch: "wp (act_catch m k) Q s = wp m (\<lambda>r s'. case r of Inl e \<Rightarrow> wp (k e) Q s' | Inr x \<Rightarrow> Q (Inr x) s') s"
  by (simp add: wp_def act_catch_def split: prod.splits sum.splits)

section \<open>Actions that keep an invariant\<close>

text \<open>\<open>keeps I m\<close>: from a state with \<open>I\<close> the action ends in one, whether it returns or raises.\<close>

definition keeps :: "('s \<Rightarrow> bool) \<Rightarrow> ('s, 'a) sx \<Rightarrow> bool" where
  "keeps I m \<longleftrightarrow> (\<forall>s. I s \<longrightarrow> wp m (\<lambda>_. I) s)"

named_theorems keeps \<open>actions that keep an invariant\<close>

lemma keepsI: "(\<And>s r s'. I s \<Longrightarrow> m s = (r, s') \<Longrightarrow> I s') \<Longrightarrow> keeps I m"
  by (simp add: keeps_def wp_def split: prod.splits)

lemma keepsD: "keeps I m \<Longrightarrow> I s \<Longrightarrow> m s = (r, s') \<Longrightarrow> I s'"
  by (auto simp: keeps_def wp_def)

lemma keeps_return [keeps]: "keeps I (act_return x)" and keeps_raise [keeps]: "keeps I (act_raise e)"
  by (simp_all add: keeps_def)

lemma keeps_bind [keeps]: "keeps I m \<Longrightarrow> (\<And>x. keeps I (f x)) \<Longrightarrow> keeps I (act_bind m f)"
  by (auto simp: keeps_def wp_bind elim!: wp_mono split: sum.splits)

lemma keeps_catch [keeps]: "keeps I m \<Longrightarrow> (\<And>e. keeps I (k e)) \<Longrightarrow> keeps I (act_catch m k)"
  by (auto simp: keeps_def wp_catch elim!: wp_mono split: sum.splits)

lemma keeps_seq [keeps]: "keeps I m \<Longrightarrow> keeps I n \<Longrightarrow> keeps I (act_seq m n)"
  by (simp add: act_seq_def keeps_bind)

lemma keeps_when [keeps]: "keeps I m \<Longrightarrow> keeps I (act_when b m)"
  by (simp add: act_when_def keeps_return)

lemma keeps_each [keeps]: "(\<And>x. x \<in> set xs \<Longrightarrow> keeps I (f x)) \<Longrightarrow> keeps I (act_each f xs)"
  by (induction xs) (simp_all add: keeps)

section \<open>Actions that only add to a history\<close>

text \<open>
  \<open>adds h P m\<close>: whatever happens, the action keeps the history \<open>h\<close> (requests sent, commands
  run) and appends only entries with \<open>P\<close>. The rules follow the structure of the action.
\<close>

definition adds :: "('s \<Rightarrow> 'e list) \<Rightarrow> ('e \<Rightarrow> bool) \<Rightarrow> ('s, 'a) sx \<Rightarrow> bool" where
  "adds h P m \<longleftrightarrow> (\<forall>s. wp m (\<lambda>_ s'. \<exists>new. h s' = h s @ new \<and> list_all P new) s)"

named_theorems adds \<open>actions that only append entries of a kind\<close>

lemma addsI:
  "(\<And>s r s'. m s = (r, s') \<Longrightarrow> \<exists>new. h s' = h s @ new \<and> list_all P new) \<Longrightarrow> adds h P m"
  by (simp add: adds_def wp_def split: prod.splits)

lemma addsD: "adds h P m \<Longrightarrow> m s = (r, s') \<Longrightarrow> \<exists>new. h s' = h s @ new \<and> list_all P new"
  by (auto simp: adds_def wp_def dest: spec [of _ s])

text \<open>An action that leaves the history alone.\<close>

lemma adds_same:
  assumes "\<And>s. h (snd (m s)) = h s"
  shows "adds h P m"
proof (rule addsI)
  fix s r s' assume "m s = (r, s')"
  with assms [of s] have "h s' = h s" by simp
  then show "\<exists>new. h s' = h s @ new \<and> list_all P new" by (intro exI [of _ "[]"]) simp
qed

lemma adds_return [adds]: "adds h P (act_return x)" and adds_raise [adds]: "adds h P (act_raise e)"
  by (rule adds_same; simp add: act_return_def act_raise_def)+

lemma adds_chain:
  assumes "adds h P n" and "h s1 = hs @ a" and "list_all P a" and "n s1 = (r, s')"
  shows "\<exists>new. h s' = hs @ new \<and> list_all P new"
  using addsD [OF assms(1,4)] assms(2,3) by auto

lemma adds_bind [adds]:
  assumes "adds h P m" and "\<And>x. adds h P (f x)"
  shows "adds h P (act_bind m f)"
proof (rule addsI)
  fix s r s' assume run: "act_bind m f s = (r, s')"
  obtain q s1 where m: "m s = (q, s1)" by force
  obtain a where a: "h s1 = h s @ a" "list_all P a" using addsD [OF assms(1) m] by blast
  show "\<exists>new. h s' = h s @ new \<and> list_all P new"
  proof (cases q)
    case (Inl e)
    with run m a show ?thesis by (auto simp: act_bind_def)
  next
    case (Inr x)
    with run m have "f x s1 = (r, s')" by (simp add: act_bind_def)
    then show ?thesis by (rule adds_chain [where n = "f x", OF assms(2) a])
  qed
qed

lemma adds_catch [adds]:
  assumes "adds h P m" and "\<And>e. adds h P (k e)"
  shows "adds h P (act_catch m k)"
proof (rule addsI)
  fix s r s' assume run: "act_catch m k s = (r, s')"
  obtain q s1 where m: "m s = (q, s1)" by force
  obtain a where a: "h s1 = h s @ a" "list_all P a" using addsD [OF assms(1) m] by blast
  show "\<exists>new. h s' = h s @ new \<and> list_all P new"
  proof (cases q)
    case (Inr x)
    with run m a show ?thesis by (auto simp: act_catch_def)
  next
    case (Inl e)
    with run m have "k e s1 = (r, s')" by (simp add: act_catch_def)
    then show ?thesis by (rule adds_chain [where n = "k e", OF assms(2) a])
  qed
qed

lemma adds_seq [adds]: "adds h P m \<Longrightarrow> adds h P n \<Longrightarrow> adds h P (act_seq m n)"
  by (simp add: act_seq_def adds_bind)

lemma adds_when [adds]: "adds h P m \<Longrightarrow> adds h P (act_when b m)"
  by (simp add: act_when_def adds_return)

lemma adds_if [adds]: "adds h P m \<Longrightarrow> adds h P n \<Longrightarrow> adds h P (if b then m else n)"
  by simp

lemma adds_each [adds]: "(\<And>x. x \<in> set xs \<Longrightarrow> adds h P (f x)) \<Longrightarrow> adds h P (act_each f xs)"
  by (induction xs) (simp_all add: adds)

lemma adds_mono:
  assumes "adds h P m" and "\<And>x. P x \<Longrightarrow> Q x"
  shows "adds h Q m"
proof (rule addsI)
  fix s r s' assume "m s = (r, s')"
  with addsD [OF assms(1)] obtain new where "h s' = h s @ new" "list_all P new" by blast
  then show "\<exists>new. h s' = h s @ new \<and> list_all Q new"
    using assms(2) by (auto simp: list_all_iff)
qed

definition lift :: "'a result \<Rightarrow> ('s, 'a) sx" where
  "lift r s = (r, s)"

lemma wp_lift [simp]: "wp (lift r) Q s = Q r s"
  by (simp add: wp_def lift_def)

lemma adds_lift [adds]: "adds h P (lift r)"
  by (rule adds_same) (simp add: lift_def)

lemma wp_seq: "wp (act_seq m n) Q s =
    wp m (\<lambda>r s'. case r of Inl e \<Rightarrow> Q (Inl e) s' | Inr _ \<Rightarrow> wp n Q s') s"
  by (simp add: act_seq_def wp_bind)

section \<open>Best effort, and results left unused\<close>

text \<open>\<open>try: m except Exception: x\<close>\<close>

definition or_else :: "('s, 'a) sx \<Rightarrow> 'a \<Rightarrow> ('s, 'a) sx" where
  "or_else m x = act_catch m (\<lambda>_. act_return x)"

definition ignore :: "('s, 'a) sx \<Rightarrow> ('s, unit) sx" where
  "ignore m = act_bind m (\<lambda>_. act_return ())"

lemma keeps_or_else [keeps]: "keeps I m \<Longrightarrow> keeps I (or_else m x)"
  by (simp add: or_else_def keeps)

lemma ignore_run: "ignore m w = (r, w') \<Longrightarrow> \<exists>q. m w = (q, w')"
  by (auto simp: ignore_def act_bind_def act_return_def split: prod.splits sum.splits)

lemma adds_or_else [adds]: "adds h P m \<Longrightarrow> adds h P (or_else m x)"
  by (simp add: or_else_def adds)

lemma adds_ignore [adds]: "adds h P m \<Longrightarrow> adds h P (ignore m)"
  by (simp add: ignore_def adds)

end
