(* ===== verification/Engine.thy ===== *)
theory Engine
  imports Models Effects
begin

text \<open>
  The command layer: the Docker engine (\<^verbatim>\<open>services/docker_engine.py\<close>), the image builder
  (\<^verbatim>\<open>services/builder.py\<close>) and the image registry (\<^verbatim>\<open>services/registry.py\<close>). All of them run
  commands through an injected runner. Here an action threads the list of commands issued so
  far, and the runner, a parameter, answers from that history, so its answers may depend on
  everything that happened. The JSON decoder and the registry's HTTP client are parameters.
\<close>

section \<open>Commands and actions\<close>

record command =
  cm_argv :: "string list"
  cm_stdin :: "string option"
  cm_env :: "(string \<times> string) list"

text \<open>A return code with stdout and stderr, or an OSError (the binary is missing).\<close>

datatype run_outcome = Exited int string string | NotAvailable string

type_synonym runner = "command list \<Rightarrow> command \<Rightarrow> run_outcome"
type_synonym 'a act = "(command list, 'a) sx"

definition plain_cmd :: "string list \<Rightarrow> command" where
  "plain_cmd argv = \<lparr>cm_argv = argv, cm_stdin = None, cm_env = []\<rparr>"

text \<open>\<open>grows p m\<close>: the action only appends commands with property \<open>p\<close>.\<close>

definition grows :: "(command \<Rightarrow> bool) \<Rightarrow> 'a act \<Rightarrow> bool" where
  "grows p m \<longleftrightarrow> (\<forall>h r h'. m h = (r, h') \<longrightarrow> (\<exists>cs. h' = h @ cs \<and> (\<forall>c\<in>set cs. p c)))"

lemma grows_return [intro]: "grows p (act_return x)" and grows_raise [intro]: "grows p (act_raise e)"
  by (auto simp: grows_def act_return_def act_raise_def)

lemma growsD: "grows p m \<Longrightarrow> m h = (r, h') \<Longrightarrow> \<exists>cs. h' = h @ cs \<and> (\<forall>c\<in>set cs. p c)"
  by (simp add: grows_def)

lemma grows_bind [intro]:
  assumes "grows p m" and "\<And>x. grows p (f x)"
  shows "grows p (act_bind m f)"
  unfolding grows_def
proof (intro allI impI)
  fix h r h' assume b: "act_bind m f h = (r, h')"
  obtain r1 h1 where m: "m h = (r1, h1)" by force
  then obtain cs where cs: "h1 = h @ cs" "\<forall>c\<in>set cs. p c" using growsD [OF assms(1)] by blast
  show "\<exists>cs. h' = h @ cs \<and> (\<forall>c\<in>set cs. p c)"
  proof (cases r1)
    case (Inl e)
    with b m cs show ?thesis by (auto simp: act_bind_def)
  next
    case (Inr x)
    with b m have "f x h1 = (r, h')" by (simp add: act_bind_def)
    then obtain ds where "h' = h1 @ ds" "\<forall>c\<in>set ds. p c" using growsD [OF assms(2)] by blast
    with cs show ?thesis by (intro exI [of _ "cs @ ds"]) auto
  qed
qed

section \<open>Project names\<close>

definition project_char :: "char \<Rightarrow> bool" where
  "project_char c = (let n = ord_of c in 97 \<le> n \<and> n \<le> 122 \<or> 48 \<le> n \<and> n \<le> 57 \<or> n = 95 \<or> n = 45)"

text \<open>\<open>re.sub("[^a-z0-9_-]+", "-", s)\<close>: each run of other characters becomes one dash.\<close>

function squash :: "string \<Rightarrow> string" where
  "squash [] = []"
| "squash (c # cs) =
     (if project_char c then c # squash cs
      else CHR ''-'' # squash (dropWhile (\<lambda>x. \<not> project_char x) cs))"
  by pat_completeness auto
termination by (relation "measure length") (auto simp: le_imp_less_Suc length_dropWhile_le)

definition dash_char :: "char \<Rightarrow> bool" where
  "dash_char c = (c = CHR ''-'' \<or> c = CHR ''_'')"

definition sanitize_project_name :: "string \<Rightarrow> string" where
  "sanitize_project_name nm = str_or (strip_if dash_char (squash (py_lower (py_strip nm)))) ''app''"

section \<open>Docker engine\<close>

definition docker :: "runner \<Rightarrow> string \<Rightarrow> string list \<Rightarrow> string option \<Rightarrow> (string \<times> string) list \<Rightarrow> string act" where
  "docker run bin args stdin env h =
     (let c = \<lparr>cm_argv = bin # args, cm_stdin = stdin, cm_env = env\<rparr> in
      (case run h c of
         NotAvailable m \<Rightarrow> Inl (DockerEngineError (''Docker is not available: '' @ m) (Some 503))
       | Exited rc out err \<Rightarrow>
           if rc \<noteq> 0 then
             (let detail = str_or (py_strip err) (str_or (py_strip out)
                    (''docker '' @ (case args of [] \<Rightarrow> [] | a # _ \<Rightarrow> a) @ '' failed''))
              in Inl (DockerEngineError (take 500 detail @ '' (docker exit '' @ int_str rc @ '')'') (Some 502)))
           else Inr out, h @ [c]))"

definition docker_version :: "runner \<Rightarrow> string \<Rightarrow> string act" where
  "docker_version run bin =
     act_bind (docker run bin [''version'', ''--format'', ''{{.Server.Version}}''] None []) (\<lambda>out. act_return (py_strip out))"

definition is_available :: "runner \<Rightarrow> string \<Rightarrow> bool act" where
  "is_available run bin =
     act_catch (act_bind (docker_version run bin) (\<lambda>_. act_return True)) (\<lambda>_. act_return False)"

definition compose_cmd :: "string \<Rightarrow> string list \<Rightarrow> string list" where
  "compose_cmd project rest = [''compose'', ''-p'', project] @ rest"

definition deploy_stack :: "runner \<Rightarrow> string \<Rightarrow> string \<Rightarrow> string \<Rightarrow> (string \<times> string) list \<Rightarrow> string act" where
  "deploy_stack run bin project text env =
     (let p = sanitize_project_name project in
      act_bind (docker run bin (compose_cmd p [''-f'', ''-'', ''up'', ''-d'', ''--remove-orphans'']) (Some text) env)
        (\<lambda>_. act_return p))"

definition stack_ps :: "runner \<Rightarrow> string \<Rightarrow> (string \<Rightarrow> 'o list) \<Rightarrow> string \<Rightarrow> 'o list act" where
  "stack_ps run bin parse project =
     act_bind (docker run bin (compose_cmd (sanitize_project_name project) [''ps'', ''--all'', ''--format'', ''json'']) None [])
       (\<lambda>out. act_return (parse out))"

definition list_stacks :: "runner \<Rightarrow> string \<Rightarrow> (string \<Rightarrow> 'o list) \<Rightarrow> 'o list act" where
  "list_stacks run bin parse =
     act_bind (docker run bin [''compose'', ''ls'', ''--all'', ''--format'', ''json''] None []) (\<lambda>out. act_return (parse out))"

definition start_stack :: "runner \<Rightarrow> string \<Rightarrow> string \<Rightarrow> string act" where
  "start_stack run bin project =
     (let p = sanitize_project_name project in
      act_bind (docker run bin (compose_cmd p [''start'']) None []) (\<lambda>_. act_return p))"

definition stop_stack :: "runner \<Rightarrow> string \<Rightarrow> string \<Rightarrow> string act" where
  "stop_stack run bin project =
     (let p = sanitize_project_name project in
      act_bind (docker run bin (compose_cmd p [''stop'']) None []) (\<lambda>_. act_return p))"

definition remove_stack :: "runner \<Rightarrow> string \<Rightarrow> string \<Rightarrow> bool \<Rightarrow> string act" where
  "remove_stack run bin project volumes =
     (let p = sanitize_project_name project in
      act_bind (docker run bin (compose_cmd p ([''down'', ''--remove-orphans''] @
          (if volumes then [''--volumes''] else []))) None []) (\<lambda>_. act_return p))"

definition stack_logs :: "runner \<Rightarrow> string \<Rightarrow> string \<Rightarrow> int \<Rightarrow> string act" where
  "stack_logs run bin project tail =
     docker run bin (compose_cmd (sanitize_project_name project)
       [''logs'', ''--no-color'', ''--tail'', int_str tail]) None []"

definition container_stats :: "runner \<Rightarrow> string \<Rightarrow> (string \<Rightarrow> 'o list) \<Rightarrow> string list \<Rightarrow> 'o list act" where
  "container_stats run bin parse ids =
     (let xs = filter (\<lambda>i. i \<noteq> []) ids in
      if xs = [] then act_return []
      else act_bind (docker run bin ([''stats'', ''--no-stream'', ''--no-trunc'', ''--format'', ''{{json .}}''] @ xs) None [])
             (\<lambda>out. act_return (parse out)))"

text \<open>\<open>cid\<close> reads \<open>ID\<close>, \<open>Id\<close> or \<open>Name\<close> of a container object, empty when it has none.\<close>

definition stats_for_project ::
  "runner \<Rightarrow> string \<Rightarrow> (string \<Rightarrow> 'o list) \<Rightarrow> ('o \<Rightarrow> string) \<Rightarrow> string \<Rightarrow> 'o list act" where
  "stats_for_project run bin parse cid project =
     act_bind (stack_ps run bin parse project)
       (\<lambda>cs. container_stats run bin parse (filter (\<lambda>i. i \<noteq> []) (map cid cs)))"

section \<open>Builder\<close>

record build_result =
  br_image :: string
  br_builder :: string
  br_commit :: string
  br_port :: int

record builder_config =
  bc_docker :: string
  bc_nixpacks :: string
  bc_git :: string
  bc_workdir :: string
  bc_token :: string

definition replace_first :: "string \<Rightarrow> string \<Rightarrow> string \<Rightarrow> string" where
  "replace_first p r s = (if starts_with p s then r @ drop (length p) s else s)"

text \<open>The URL starts with the replaced scheme, so the first occurrence is at its head.\<close>

definition auth_url :: "builder_config \<Rightarrow> string \<Rightarrow> string" where
  "auth_url bc url =
     (if bc_token bc \<noteq> [] \<and> starts_with ''https://github.com/'' url
      then replace_first ''https://'' (''https://x-access-token:'' @ bc_token bc @ ''@'') url
      else url)"

definition scrub :: "builder_config \<Rightarrow> string \<Rightarrow> string" where
  "scrub bc text =
     (if bc_token bc = [] then text
      else replace_all ''x-access-token:***@'' [] (replace_all (bc_token bc) ''***'' text))"

text \<open>With a line sink (\<open>streaming\<close>) stderr is merged into the output.\<close>

definition build_exec :: "runner \<Rightarrow> string list \<Rightarrow> bool \<Rightarrow> string act" where
  "build_exec run argv streaming h =
     (case run h (plain_cmd argv) of
        NotAvailable m \<Rightarrow> Inl (BuildError (hd argv @ '' not available: '' @ m) (Some 503))
      | Exited rc out err \<Rightarrow>
          if rc \<noteq> 0 then
            Inl (BuildError (take 500 (str_or (if streaming then [] else py_strip err)
                   (str_or (py_strip out) (hd argv @ '' failed''))) @ '' (exit '' @ int_str rc @ '')'') (Some 502))
          else Inr out,
      h @ [plain_cmd argv])"

text \<open>\<open>_has_dockerfile\<close> calls the runner directly: a missing \<open>test\<close> binary is an OSError.\<close>

definition has_dockerfile :: "runner \<Rightarrow> string \<Rightarrow> bool act" where
  "has_dockerfile run src h =
     (let c = plain_cmd [''test'', ''-f'', src @ ''/Dockerfile''] in
      (case run h c of NotAvailable m \<Rightarrow> Inl (OtherError m) | Exited rc _ _ \<Rightarrow> Inr (rc = 0), h @ [c]))"

definition is_sha :: "string \<Rightarrow> bool" where
  "is_sha s = (7 \<le> length s \<and> length s \<le> 40 \<and>
     list_all (\<lambda>c. let n = ord_of c in 48 \<le> n \<and> n \<le> 57 \<or> 97 \<le> n \<and> n \<le> 102) s)"

definition clone_error :: "builder_config \<Rightarrow> exn \<Rightarrow> exn" where
  "clone_error bc e =
     (case e of
        BuildError m code \<Rightarrow>
          BuildError (if bc_token bc = [] \<and> contains ''could not read Username'' m
            then ''Authentication required - this looks like a private repository. Set GITHUB_TOKEN on the host (a PAT with repo:read) to deploy it. ('' @ scrub bc m @ '')''
            else scrub bc m) code
      | _ \<Rightarrow> e)"

definition clone :: "runner \<Rightarrow> builder_config \<Rightarrow> string \<Rightarrow> string \<Rightarrow> string \<Rightarrow> string act" where
  "clone run bc url ref dest =
     act_bind
       (act_catch (build_exec run [bc_git bc, ''clone'', ''--depth'', ''1'', ''--branch'', ref, auth_url bc url, dest] False)
          (\<lambda>e. act_raise (clone_error bc e)))
       (\<lambda>_. act_bind (build_exec run [bc_git bc, ''-C'', dest, ''rev-parse'', ''HEAD''] False)
          (\<lambda>out. act_return (if is_sha (py_strip out) then py_strip out else [])))"

text \<open>\<open>ports\<close> decodes the JSON object of exposed ports to its keys, \<open>None\<close> when it is not one.\<close>

fun first_port :: "string list \<Rightarrow> int result" where
  "first_port [] = Inr 0"
| "first_port (k # ks) =
     (let n = part_before (CHR ''/'') k in
      if py_isdigit n then (case py_int n of None \<Rightarrow> Inl (ValueError ''invalid literal for int()'') | Some i \<Rightarrow> Inr i)
      else first_port ks)"

definition detect_port :: "runner \<Rightarrow> builder_config \<Rightarrow> (string \<Rightarrow> string list option) \<Rightarrow> string \<Rightarrow> int act" where
  "detect_port run bc ports img =
     act_bind (build_exec run [bc_docker bc, ''inspect'', ''--format'', ''{{json .Config.ExposedPorts}}'', img] False)
       (\<lambda>out. case ports (str_or (py_strip out) ''null'') of
          None \<Rightarrow> act_return 0
        | Some ks \<Rightarrow> (case first_port ks of Inl e \<Rightarrow> act_raise e | Inr p \<Rightarrow> act_return p))"

definition build ::
  "runner \<Rightarrow> builder_config \<Rightarrow> (string \<Rightarrow> string list option) \<Rightarrow> string \<Rightarrow> string \<Rightarrow> bool \<Rightarrow> build_result act" where
  "build run bc ports src img streaming =
     act_bind (has_dockerfile run src)
       (\<lambda>df. act_bind
          (build_exec run (if df then [bc_docker bc, ''build'', ''-t'', img, src]
                           else [bc_nixpacks bc, ''build'', src, ''--name'', img]) streaming)
          (\<lambda>_. act_bind (detect_port run bc ports img)
             (\<lambda>port. act_return \<lparr>br_image = img, br_builder = (if df then ''dockerfile'' else ''nixpacks''),
                br_commit = [], br_port = port\<rparr>)))"

definition build_from_git ::
  "runner \<Rightarrow> builder_config \<Rightarrow> (string \<Rightarrow> string list option) \<Rightarrow> string \<Rightarrow> string \<Rightarrow> string \<Rightarrow> bool \<Rightarrow> build_result act" where
  "build_from_git run bc ports url ref project streaming =
     (let dest = rstrip_if (\<lambda>c. c = CHR ''/'') (bc_workdir bc) @ ''/'' @ project in
      act_bind (build_exec run [''rm'', ''-rf'', dest] False)
        (\<lambda>_. act_bind (clone run bc url ref dest)
           (\<lambda>sha. act_bind
              (build run bc ports dest (''tetra-'' @ project @ '':'' @ (if sha \<noteq> [] then take 12 sha else ''latest'')) streaming)
              (\<lambda>r. act_return (r\<lparr>br_commit := sha\<rparr>)))))"

section \<open>Registry\<close>

definition is_registry_qualified :: "string \<Rightarrow> bool" where
  "is_registry_qualified img = (CHR ''/'' \<in> set img)"

record registry =
  rg_host :: string
  rg_api :: string
  rg_docker :: string

definition loopback_host :: "string \<Rightarrow> bool" where
  "loopback_host host =
     (let bare = part_before (CHR '':'') host in
      bare \<in> set [''localhost'', ''[::1]''] \<or> starts_with ''127.'' bare)"

definition make_registry :: "string \<Rightarrow> string \<Rightarrow> registry" where
  "make_registry url bin =
     (let raw = rstrip_if (\<lambda>c. c = CHR ''/'') (py_strip url);
          (scheme, h) = (if starts_with ''https://'' raw then (''https'', drop 8 raw)
             else if starts_with ''http://'' raw then (''http'', drop 7 raw)
             else (if loopback_host raw then ''http'' else ''https'', raw));
          host = rstrip_if (\<lambda>c. c = CHR ''/'') h
      in \<lparr>rg_host = host, rg_api = (if host \<noteq> [] then scheme @ ''://'' @ host else []), rg_docker = bin\<rparr>)"

definition registry_enabled :: "registry \<Rightarrow> bool" where
  "registry_enabled r = (rg_host r \<noteq> [])"

definition ref_for :: "registry \<Rightarrow> string \<Rightarrow> string" where
  "ref_for r img = rg_host r @ ''/'' @ img"

definition docker_ok :: "runner \<Rightarrow> registry \<Rightarrow> string list \<Rightarrow> bool act" where
  "docker_ok run r args h =
     (Inr (case run h (plain_cmd (rg_docker r # args)) of NotAvailable _ \<Rightarrow> False | Exited rc _ _ \<Rightarrow> rc = 0),
      h @ [plain_cmd (rg_docker r # args)])"

definition push :: "runner \<Rightarrow> registry \<Rightarrow> string \<Rightarrow> string option act" where
  "push run r img =
     (if \<not> registry_enabled r then act_return None
      else (let ref = ref_for r img in
        act_bind (docker_ok run r [''tag'', img, ref])
          (\<lambda>ok. if \<not> ok then act_return None
                else act_bind (docker_ok run r [''push'', ref])
                  (\<lambda>ok. if \<not> ok then act_return None
                        else act_bind (docker_ok run r [''rmi'', img]) (\<lambda>_. act_return (Some ref))))))"

definition image_exists :: "runner \<Rightarrow> registry \<Rightarrow> string \<Rightarrow> bool act" where
  "image_exists run r img = docker_ok run r [''image'', ''inspect'', img]"

definition pull :: "runner \<Rightarrow> registry \<Rightarrow> string \<Rightarrow> bool act" where
  "pull run r ref = docker_ok run r [''pull'', ref]"

definition remove_local :: "runner \<Rightarrow> registry \<Rightarrow> string \<Rightarrow> bool act" where
  "remove_local run r img = docker_ok run r [''rmi'', img]"

text \<open>\<open>http_delete url\<close>: the status of the DELETE request, \<open>None\<close> on an httpx error.\<close>

definition delete_url :: "registry \<Rightarrow> string \<Rightarrow> string option" where
  "delete_url r ref =
     (let pre = rg_host r @ ''/'' in
      if \<not> registry_enabled r \<or> \<not> starts_with pre ref then None
      else (let rest = drop (length pre) ref;
                tag = rev (part_before (CHR '':'') (rev rest));
                repo = rev (part_after (CHR '':'') (rev rest))
            in if CHR '':'' \<notin> set rest \<or> repo = [] \<or> tag = [] then None
               else Some (rg_api r @ ''/v2/'' @ repo @ ''/manifests/'' @ tag)))"

definition delete_remote :: "(string \<Rightarrow> int option) \<Rightarrow> registry \<Rightarrow> string \<Rightarrow> bool" where
  "delete_remote http_delete r ref =
     (case delete_url r ref of
        None \<Rightarrow> False
      | Some url \<Rightarrow> (case http_delete url of None \<Rightarrow> False | Some st \<Rightarrow> st \<in> set [200, 202]))"

section \<open>Facts about names\<close>

lemma project_char_dash: "project_char (CHR ''-'')"
  by (simp add: project_char_def ord_of_def)

lemma squash_chars: "c \<in> set (squash s) \<Longrightarrow> project_char c"
  by (induction s rule: squash.induct) (auto simp: project_char_dash split: if_splits)

lemma squash_id: "(\<And>c. c \<in> set s \<Longrightarrow> project_char c) \<Longrightarrow> squash s = s"
  by (induction s) auto

lemma project_char_lower: "project_char c \<Longrightarrow> lower_char c = c"
  by (auto simp: project_char_def lower_char_def Let_def)

lemma project_char_space: "project_char c \<Longrightarrow> \<not> py_space c"
  by (auto simp: project_char_def py_space_def Let_def)

lemma set_strip: "c \<in> set (strip_if p s) \<Longrightarrow> c \<in> set s"
  using set_strip_if [of p s] by auto

lemma sanitize_facts:
  fixes nm :: string
  defines "p \<equiv> sanitize_project_name nm"
  shows "p \<noteq> []" and "c \<in> set p \<Longrightarrow> project_char c" and "\<not> dash_char (hd p)" and "\<not> dash_char (last p)"
proof -
  let ?s = "strip_if dash_char (squash (py_lower (py_strip nm)))"
  have app: "\<forall>c\<in>set ''app''. project_char c \<and> \<not> dash_char c"
    by (simp add: project_char_def dash_char_def ord_of_def)
  have p: "p = (if ?s = [] then ''app'' else ?s)" unfolding p_def sanitize_project_name_def str_or_def ..
  show "p \<noteq> []" unfolding p by simp
  show "c \<in> set p \<Longrightarrow> project_char c" unfolding p using app set_strip [of c] squash_chars [of c]
    by (auto split: if_splits)
  show "\<not> dash_char (hd p)" "\<not> dash_char (last p)"
    unfolding p using app strip_if_ends [of dash_char "squash (py_lower (py_strip nm))"] by auto
qed

lemma sanitize_idem: "sanitize_project_name (sanitize_project_name nm) = sanitize_project_name nm"
proof -
  let ?p = "sanitize_project_name nm"
  have ch: "c \<in> set ?p \<Longrightarrow> project_char c" for c by (rule sanitize_facts(2))
  have "py_strip ?p = ?p" unfolding py_strip_def
    by (rule strip_if_id) (metis ch hd_in_set last_in_set project_char_space sanitize_facts(1))
  moreover have "py_lower ?p = ?p" unfolding py_lower_def
    by (rule map_idI) (metis ch project_char_lower)
  moreover have "squash ?p = ?p" by (rule squash_id) (rule ch)
  moreover have "strip_if dash_char ?p = ?p"
    by (rule strip_if_id) (use sanitize_facts(3,4) [of nm] in blast)
  ultimately show ?thesis
    using sanitize_facts(1) [of nm] unfolding sanitize_project_name_def [of ?p] by simp
qed


section \<open>Commands issued\<close>

lemma growsI:
  assumes "\<And>h. \<exists>r c. m h = (r, h @ [c]) \<and> p c"
  shows "grows p m"
  unfolding grows_def using assms by (metis empty_iff fst_conv insert_iff list.set(1,2) snd_conv)

lemma grows_docker [intro]:
  "p \<lparr>cm_argv = bin # args, cm_stdin = stdin, cm_env = env\<rparr> \<Longrightarrow> grows p (docker run bin args stdin env)"
  by (rule growsI) (auto simp: docker_def Let_def)

definition stack_command :: "string \<Rightarrow> string \<Rightarrow> command \<Rightarrow> bool" where
  "stack_command bin p c \<longleftrightarrow> take 4 (cm_argv c) = [bin, ''compose'', ''-p'', p]"

lemma grows_stack:
  "grows (stack_command bin p) (docker run bin (compose_cmd p rest) stdin env)"
  by (intro grows_docker) (simp add: stack_command_def compose_cmd_def)

lemmas stack_defs = deploy_stack_def stack_ps_def start_stack_def stop_stack_def remove_stack_def
  stack_logs_def Let_def

lemma stack_ops_grow:
  "grows (stack_command bin (sanitize_project_name name)) (deploy_stack run bin name text env)"
  "grows (stack_command bin (sanitize_project_name name)) (stack_ps run bin parse name)"
  "grows (stack_command bin (sanitize_project_name name)) (start_stack run bin name)"
  "grows (stack_command bin (sanitize_project_name name)) (stop_stack run bin name)"
  "grows (stack_command bin (sanitize_project_name name)) (remove_stack run bin name vols)"
  "grows (stack_command bin (sanitize_project_name name)) (stack_logs run bin name lns)"
  by (auto simp: stack_defs intro!: grows_bind grows_stack)

text \<open>
  Every command that deploys, inspects, starts, stops, removes or reads the logs of a stack is a
  compose command for the sanitised project name, whatever the runner answers and whatever was
  run before. That name is never empty, has only letters a to z, digits, dashes and underscores,
  and begins with no dash, so it can never be read as an option; sanitising it again changes
  nothing.
\<close>
theorem stack_commands_stay_in_project:
  "grows (stack_command bin (sanitize_project_name name)) (deploy_stack run bin name text env) \<and>
   grows (stack_command bin (sanitize_project_name name)) (stack_ps run bin parse name) \<and>
   grows (stack_command bin (sanitize_project_name name)) (start_stack run bin name) \<and>
   grows (stack_command bin (sanitize_project_name name)) (stop_stack run bin name) \<and>
   grows (stack_command bin (sanitize_project_name name)) (remove_stack run bin name vols) \<and>
   grows (stack_command bin (sanitize_project_name name)) (stack_logs run bin name lns) \<and>
   sanitize_project_name name \<noteq> [] \<and>
   hd (sanitize_project_name name) \<notin> {CHR ''-'', CHR ''_''} \<and>
   list_all project_char (sanitize_project_name name) \<and>
   sanitize_project_name (sanitize_project_name name) = sanitize_project_name name"
  by (intro conjI stack_ops_grow sanitize_idem sanitize_facts)
    (use sanitize_facts [where nm = name] in \<open>auto simp: list_all_iff dash_char_def\<close>)

section \<open>The builder's error text\<close>

lemma replace_all_absent: "\<not> contains p s \<Longrightarrow> replace_all p r s = s"
  by (induction p r s rule: replace_all.induct) auto

lemma scrub_absent:
  "\<not> contains (bc_token bc) s \<Longrightarrow> \<not> contains ''x-access-token:***@'' s \<Longrightarrow> scrub bc s = s"
  by (simp add: scrub_def replace_all_absent)

text \<open>
  \<open>_exec\<close> cuts the error text to 500 characters before \<open>clone\<close> scrubs the token, and the scrubber
  replaces complete tokens only. So when git's error has the token across the cut, the raised
  error shows the part of the token before the cut as it is.
\<close>
theorem clone_error_leaks_token_part:
  assumes git: "run h (plain_cmd [bc_git bc, ''clone'', ''--depth'', ''1'', ''--branch'', ref, auth_url bc url, dest])
      = Exited rc out (pre @ bc_token bc @ post)" "rc \<noteq> 0"
    and cut: "length pre + k = 500" "k \<le> length (bc_token bc)" "pre \<noteq> []"
    and trimmed: "\<not> py_space (hd pre)" "\<not> py_space (last (bc_token bc @ post))" "bc_token bc \<noteq> []"
    and once: "\<not> contains (bc_token bc) (pre @ take k (bc_token bc) @ '' (exit '' @ int_str rc @ '')'')"
      "\<not> contains ''x-access-token:***@'' (pre @ take k (bc_token bc) @ '' (exit '' @ int_str rc @ '')'')"
  shows "fst (clone run bc url ref dest h) =
    Inl (BuildError (pre @ take k (bc_token bc) @ '' (exit '' @ int_str rc @ '')'') (Some 502))"
proof -
  have "py_strip (pre @ bc_token bc @ post) = pre @ bc_token bc @ post"
    unfolding py_strip_def by (rule strip_if_id) (use cut trimmed in auto)
  moreover have "take 500 (pre @ bc_token bc @ post) = pre @ take k (bc_token bc)"
    using cut by (simp add: \<open>length pre + k = 500\<close> [symmetric])
  ultimately have "fst (build_exec run [bc_git bc, ''clone'', ''--depth'', ''1'', ''--branch'', ref, auth_url bc url, dest] False h)
      = Inl (BuildError (pre @ take k (bc_token bc) @ '' (exit '' @ int_str rc @ '')'') (Some 502))"
    using git cut by (simp add: build_exec_def str_or_def)
  then show ?thesis
    using scrub_absent [OF once] trimmed
    by (auto simp: clone_def act_bind_def act_catch_def act_raise_def clone_error_def split: prod.splits)
qed

lemma contains_skip:
  "p \<noteq> [] \<Longrightarrow> hd p \<noteq> c \<Longrightarrow> contains p (replicate n c @ s) = contains p s"
  by (induction n) (auto simp: starts_with_def take_Cons' neq_Nil_conv)

lemma contains_tl: "contains p s \<Longrightarrow> p \<noteq> [] \<Longrightarrow> contains (tl p) s"
  unfolding contains_iff by (metis append_Cons append_assoc append_Nil list.collapse)

definition leak_pre :: string where "leak_pre = replicate 490 CHR ''x''"

definition leak_cfg :: builder_config where
  "leak_cfg = \<lparr>bc_docker = ''docker'', bc_nixpacks = ''nixpacks'', bc_git = ''git'', bc_workdir = ''/tmp'',
     bc_token = ''ghp_0123456789''\<rparr>"

definition leak_run :: runner where
  "leak_run h c = Exited 1 [] (leak_pre @ bc_token leak_cfg @ ''@github.com'')"

lemma clone_error_leaks_token_part_witness:
  "fst (clone leak_run leak_cfg ''https://github.com/a/b'' ''main'' ''/tmp/b'' []) =
    Inl (BuildError (leak_pre @ take 10 (bc_token leak_cfg) @ '' (exit '' @ int_str 1 @ '')'') (Some 502))"
proof (rule clone_error_leaks_token_part [where out = "[]" and post = "''@github.com''"])
  show "length leak_pre + 10 = 500" "leak_pre \<noteq> []" by (simp_all add: leak_pre_def)
  have "hd leak_pre = CHR ''x''" by (simp add: leak_pre_def hd_replicate)
  then show "\<not> py_space (hd leak_pre)" by (simp only:) code_simp
  show "\<not> py_space (last (bc_token leak_cfg @ ''@github.com''))" "bc_token leak_cfg \<noteq> []"
    "10 \<le> length (bc_token leak_cfg)" "(1::int) \<noteq> 0" by code_simp+
  show "\<not> contains (bc_token leak_cfg) (leak_pre @ take 10 (bc_token leak_cfg) @ '' (exit '' @ int_str 1 @ '')'')"
    unfolding leak_pre_def by (subst contains_skip; code_simp)
  have skip: "\<not> contains p (replicate n c @ s)" if "\<not> contains (tl p) s" "tl p \<noteq> []" "hd (tl p) \<noteq> c" "p \<noteq> []"
    for p c n s
    using contains_tl [OF _ that(4), of "replicate n c @ s"] contains_skip [OF that(2,3), of n s] that(1) by blast
  show "\<not> contains ''x-access-token:***@'' (leak_pre @ take 10 (bc_token leak_cfg) @ '' (exit '' @ int_str 1 @ '')'')"
    unfolding leak_pre_def by (rule skip; code_simp)
qed (simp only: leak_run_def)

section \<open>Registry references\<close>

text \<open>Deleting a pushed reference addresses the same repository and tag, in this registry only.\<close>
lemma delete_url_of_push:
  assumes "registry_enabled r" "repo \<noteq> []" "tag \<noteq> []" "CHR '':'' \<notin> set tag"
  shows "delete_url r (ref_for r (repo @ '':'' @ tag)) = Some (rg_api r @ ''/v2/'' @ repo @ ''/manifests/'' @ tag)"
proof -
  have "takeWhile (\<lambda>x. x \<noteq> CHR '':'') (rev tag @ CHR '':'' # rev repo) = rev tag"
    "dropWhile (\<lambda>x. x \<noteq> CHR '':'') (rev tag @ CHR '':'' # rev repo) = CHR '':'' # rev repo"
    using assms(4) by (auto simp: takeWhile_append dropWhile_append)
  then show ?thesis using assms
    by (simp add: delete_url_def ref_for_def part_before_def part_after_def starts_with_def Let_def)
qed

text \<open>The branch for the IPv6 loopback is never taken: the host is cut at its first colon.\<close>
lemma ipv6_loopback_is_https:
  "\<not> loopback_host (''[::1]'' @ rest)"
  by (simp add: loopback_host_def part_before_def starts_with_def)

end
