(* ===== verification/Compose.thy ===== *)
theory Compose
  imports Models
begin

text \<open>
  Rewriting of compose files before a stack is started: hard resource caps
  (\<^verbatim>\<open>services/limits.py\<close>) and edge routing (\<^verbatim>\<open>services/edge.py\<close>). The YAML parser and printer
  and \<open>str()\<close> of a YAML value are parameters; documents with a key that is not a string are
  outside the model. A dict is its list of items in order.
\<close>

datatype yaml = YNull | YBool bool | YInt int | YFloat rat | YStr string
  | YSeq "yaml list" | YMap "(string \<times> yaml) list"

type_synonym ydict = "(string \<times> yaml) list"

section \<open>Resource limits\<close>

text \<open>One service; \<open>0\<close> (or an absent pids limit of 0) skips a cap, what is there stays.\<close>

definition limit_service :: "int \<Rightarrow> int \<Rightarrow> int \<Rightarrow> ydict \<Rightarrow> ydict" where
  "limit_service cpu mem pids svc =
     (let s1 = (if cpu \<noteq> 0 \<and> \<not> has_key ''cpus'' svc \<and> \<not> has_key ''cpu_count'' svc
                then dict_set ''cpus'' (YFloat (of_int cpu / 1000)) svc else svc);
          s2 = (if mem \<noteq> 0 \<and> \<not> has_key ''mem_limit'' s1
                then dict_set ''mem_limit'' (YStr (int_str mem @ ''m'')) s1 else s1)
      in if pids \<noteq> 0 \<and> \<not> has_key ''pids_limit'' s2
         then dict_set ''pids_limit'' (YInt pids) s2 else s2)"

definition limit_doc :: "int \<Rightarrow> int \<Rightarrow> int \<Rightarrow> yaml \<Rightarrow> yaml option" where
  "limit_doc cpu mem pids doc =
     (case doc of
        YMap m \<Rightarrow>
         (case map_of m ''services'' of
            Some (YMap svcs) \<Rightarrow>
              Some (YMap (dict_set ''services'' (YMap (map (\<lambda>(k, v).
                (k, case v of YMap s \<Rightarrow> YMap (limit_service cpu mem pids s) | _ \<Rightarrow> v)) svcs)) m))
          | _ \<Rightarrow> None)
      | _ \<Rightarrow> None)"

definition apply_resource_limits ::
  "(string \<Rightarrow> yaml option) \<Rightarrow> (yaml \<Rightarrow> string) \<Rightarrow> settings \<Rightarrow> string \<Rightarrow> int \<Rightarrow> int \<Rightarrow> int option \<Rightarrow> string" where
  "apply_resource_limits load dump cf text cpu mem pids_limit =
     (case load text of
        None \<Rightarrow> text
      | Some doc \<Rightarrow>
         (case limit_doc cpu mem (case pids_limit of Some p \<Rightarrow> p | None \<Rightarrow> cf_pids cf) doc of
            None \<Rightarrow> text
          | Some doc' \<Rightarrow> dump doc'))"

section \<open>Edge routing\<close>

definition edge_enabled :: "settings \<Rightarrow> bool" where
  "edge_enabled cf = (cf_edge_network cf \<noteq> [] \<and> cf_base_domain cf \<noteq> [])"

definition app_hostname :: "settings \<Rightarrow> string \<Rightarrow> string" where
  "app_hostname cf project = project @ ''.'' @ cf_base_domain cf"

definition labels_to_dict :: "(yaml \<Rightarrow> string) \<Rightarrow> yaml option \<Rightarrow> (string \<times> string) list" where
  "labels_to_dict str labels =
     (case labels of
        Some (YMap m) \<Rightarrow> map (\<lambda>(k, v). (k, if v = YNull then [] else str v)) m
      | Some (YSeq xs) \<Rightarrow>
          fold (\<lambda>x acc. dict_set (py_strip (part_before (CHR ''='') (str x)))
                          (py_strip (part_after (CHR ''='') (str x))) acc) xs []
      | _ \<Rightarrow> [])"

definition networks_with :: "yaml option \<Rightarrow> string \<Rightarrow> yaml" where
  "networks_with networks nm =
     (case networks of
        Some (YMap m) \<Rightarrow> YMap (if has_key nm m then m else dict_set nm (YMap []) m)
      | Some (YSeq (x # xs)) \<Rightarrow>
          YSeq (if YStr nm \<in> set (x # xs) then x # xs else (x # xs) @ [YStr nm])
      | _ \<Rightarrow> YSeq (if nm = ''default'' then [YStr ''default''] else [YStr ''default'', YStr nm]))"

text \<open>\<open>" ".join(env)\<close> of a list with an element that is not a string raises TypeError.\<close>

definition is_str :: "yaml \<Rightarrow> bool" where
  "is_str x = (case x of YStr _ \<Rightarrow> True | _ \<Rightarrow> False)"

definition env_text :: "(yaml \<Rightarrow> string) \<Rightarrow> yaml option \<Rightarrow> string result" where
  "env_text str env =
     (case env of
        Some (YSeq xs) \<Rightarrow>
          if list_all is_str xs then Inr (join '' '' (map str xs))
          else Inl (OtherError ''TypeError'')
      | Some (YMap m) \<Rightarrow> Inr (join '' '' (map (\<lambda>(k, v). k @ ''='' @ str v) m))
      | _ \<Rightarrow> Inr [])"

fun fqdn_service :: "(yaml \<Rightarrow> string) \<Rightarrow> ydict \<Rightarrow> (string \<times> ydict) option result" where
  "fqdn_service str [] = Inr None"
| "fqdn_service str ((k, YMap s) # r) =
     (case env_text str (map_of s ''environment'') of
        Inl e \<Rightarrow> Inl e
      | Inr t \<Rightarrow> if contains ''SERVICE_FQDN_'' t then Inr (Some (k, s)) else fqdn_service str r)"
| "fqdn_service str ((k, v) # r) = fqdn_service str r"

fun first_service :: "ydict \<Rightarrow> (string \<times> ydict) option" where
  "first_service [] = None"
| "first_service ((k, YMap s) # r) = Some (k, s)"
| "first_service ((k, v) # r) = first_service r"

definition public_service :: "(yaml \<Rightarrow> string) \<Rightarrow> ydict \<Rightarrow> (string \<times> ydict) option result" where
  "public_service str svcs =
     (case fqdn_service str svcs of
        Inl e \<Rightarrow> Inl e
      | Inr (Some x) \<Rightarrow> Inr (Some x)
      | Inr None \<Rightarrow> Inr (first_service svcs))"

definition edge_labels :: "(yaml \<Rightarrow> string) \<Rightarrow> settings \<Rightarrow> string \<Rightarrow> string \<Rightarrow> string list \<Rightarrow> yaml option \<Rightarrow> yaml" where
  "edge_labels str cf project port extra labels =
     (let addresses = (''http://'' @ app_hostname cf project) # map (\<lambda>h. ''http://'' @ h) (filter (\<lambda>h. h \<noteq> []) extra);
          upstream = (if port \<noteq> [] then ''{{upstreams '' @ port @ ''}}'' else ''{{upstreams}}'');
          l = dict_set ''tetra.reverse_proxy'' upstream
                (dict_set ''tetra'' (join '', '' addresses) (labels_to_dict str labels))
      in YMap (map (\<lambda>(k, v). (k, YStr v)) l))"

definition edge_service :: "(yaml \<Rightarrow> string) \<Rightarrow> settings \<Rightarrow> string \<Rightarrow> string \<Rightarrow> string list \<Rightarrow> ydict \<Rightarrow> ydict" where
  "edge_service str cf project port extra svc =
     dict_set ''networks'' (networks_with (map_of svc ''networks'') (cf_edge_network cf))
       (dict_set ''labels'' (edge_labels str cf project port extra (map_of svc ''labels'')) svc)"

definition falsy :: "yaml option \<Rightarrow> bool" where
  "falsy v = (case v of None \<Rightarrow> True | Some YNull \<Rightarrow> True | Some (YBool b) \<Rightarrow> \<not> b | Some (YInt n) \<Rightarrow> n = 0
     | Some (YFloat q) \<Rightarrow> q = 0 | Some (YStr s) \<Rightarrow> s = [] | Some (YSeq xs) \<Rightarrow> xs = [] | Some (YMap m) \<Rightarrow> m = [])"

text \<open>\<open>doc.get("services") or {}\<close>, and \<open>.items()\<close> of it.\<close>

definition service_items :: "ydict \<Rightarrow> ydict result" where
  "service_items m =
     (if falsy (map_of m ''services'') then Inr []
      else (case map_of m ''services'' of Some (YMap s) \<Rightarrow> Inr s | _ \<Rightarrow> Inl (OtherError ''AttributeError'')))"

definition top_networks :: "settings \<Rightarrow> ydict \<Rightarrow> yaml" where
  "top_networks cf m =
     YMap (dict_set (cf_edge_network cf) (YMap [(''external'', YBool True)])
       (case map_of m ''networks'' of Some (YMap n) \<Rightarrow> n | _ \<Rightarrow> []))"

definition edge_doc ::
  "(yaml \<Rightarrow> string) \<Rightarrow> settings \<Rightarrow> string \<Rightarrow> string \<Rightarrow> string list \<Rightarrow> yaml \<Rightarrow> yaml option result" where
  "edge_doc str cf project port extra doc =
     (case doc of
        YMap m \<Rightarrow>
         (case service_items m of
            Inl e \<Rightarrow> Inl e
          | Inr s \<Rightarrow>
             (case public_service str s of
                Inl e \<Rightarrow> Inl e
              | Inr None \<Rightarrow> Inr None
              | Inr (Some (k, svc)) \<Rightarrow>
                  Inr (Some (YMap (dict_set ''networks'' (top_networks cf m)
                    (dict_set ''services'' (YMap (dict_set k (YMap (edge_service str cf project port extra svc)) s)) m))))))
      | _ \<Rightarrow> Inr None)"

definition apply_edge ::
  "(string \<Rightarrow> yaml option) \<Rightarrow> (yaml \<Rightarrow> string) \<Rightarrow> (yaml \<Rightarrow> string) \<Rightarrow> settings \<Rightarrow> string \<Rightarrow> string \<Rightarrow> string \<Rightarrow>
   string list \<Rightarrow> string result" where
  "apply_edge load dump str cf text project port extra =
     (if \<not> edge_enabled cf then Inr text
      else (case load text of
        None \<Rightarrow> Inr text
      | Some doc \<Rightarrow>
         (case edge_doc str cf project port extra doc of
            Inl e \<Rightarrow> Inl e
          | Inr None \<Rightarrow> Inr text
          | Inr (Some doc') \<Rightarrow> Inr (dump doc'))))"

section \<open>Facts\<close>

lemma limit_service_get:
  "map_of (limit_service cpu mem pids s) k =
    (if k = ''cpus'' \<and> cpu \<noteq> 0 \<and> map_of s ''cpus'' = None \<and> map_of s ''cpu_count'' = None
       then Some (YFloat (of_int cpu / 1000))
     else if k = ''mem_limit'' \<and> mem \<noteq> 0 \<and> map_of s ''mem_limit'' = None then Some (YStr (int_str mem @ ''m''))
     else if k = ''pids_limit'' \<and> pids \<noteq> 0 \<and> map_of s ''pids_limit'' = None then Some (YInt pids)
     else map_of s k)"
proof -
  define s1 where "s1 = (if cpu \<noteq> 0 \<and> map_of s ''cpus'' = None \<and> map_of s ''cpu_count'' = None
    then dict_set ''cpus'' (YFloat (of_int cpu / 1000)) s else s)"
  define s2 where "s2 = (if mem \<noteq> 0 \<and> map_of s1 ''mem_limit'' = None
    then dict_set ''mem_limit'' (YStr (int_str mem @ ''m'')) s1 else s1)"
  have l: "limit_service cpu mem pids s = (if pids \<noteq> 0 \<and> map_of s2 ''pids_limit'' = None
    then dict_set ''pids_limit'' (YInt pids) s2 else s2)"
    by (simp only: limit_service_def has_key_def Let_def s1_def s2_def not_not)
  have ne: "''mem_limit'' \<noteq> ''cpus''" "''pids_limit'' \<noteq> ''cpus''" "''pids_limit'' \<noteq> ''mem_limit''" by simp_all
  have m1: "map_of s1 = (if cpu \<noteq> 0 \<and> map_of s ''cpus'' = None \<and> map_of s ''cpu_count'' = None
       then (map_of s)(''cpus'' \<mapsto> YFloat (of_int cpu / 1000)) else map_of s)"
    unfolding s1_def by (simp only: map_of_dict_set split: if_split) blast
  have g1: "map_of s1 ''mem_limit'' = map_of s ''mem_limit''" "map_of s1 ''pids_limit'' = map_of s ''pids_limit''"
    unfolding m1 by (simp_all only: fun_upd_apply ne if_False split: if_split) blast+
  have m2: "map_of s2 = (if mem \<noteq> 0 \<and> map_of s ''mem_limit'' = None
       then (map_of s1)(''mem_limit'' \<mapsto> YStr (int_str mem @ ''m'')) else map_of s1)"
    unfolding s2_def g1 by (simp only: map_of_dict_set split: if_split) blast
  have g2: "map_of s2 ''pids_limit'' = map_of s ''pids_limit''"
    unfolding m2 by (simp only: fun_upd_apply ne if_False g1 split: if_split) blast
  have m3: "map_of (limit_service cpu mem pids s) = (if pids \<noteq> 0 \<and> map_of s ''pids_limit'' = None
       then (map_of s2)(''pids_limit'' \<mapsto> YInt pids) else map_of s2)"
    unfolding l g2 by (simp only: map_of_dict_set split: if_split) blast
  show ?thesis
  proof (cases "k = ''pids_limit'' \<or> k = ''mem_limit'' \<or> k = ''cpus''")
    case True
    then show ?thesis unfolding m3 m2 m1 using ne by (elim disjE) (simp_all only: fun_upd_apply, auto)
  next
    case False
    then show ?thesis unfolding m3 m2 m1 by auto
  qed
qed

text \<open>The service of a document.\<close>

definition service_of :: "yaml \<Rightarrow> string \<Rightarrow> yaml option" where
  "service_of doc k =
     (case doc of YMap m \<Rightarrow> (case map_of m ''services'' of Some (YMap s) \<Rightarrow> map_of s k | _ \<Rightarrow> None) | _ \<Rightarrow> None)"

lemma map_of_map_vals: "map_of (map (\<lambda>(k, v). (k, f v)) xs) k = map_option f (map_of xs k)"
  by (induction xs) auto

lemma limit_doc_service:
  assumes "limit_doc cpu mem pids doc = Some doc'"
  shows "service_of doc' k = map_option (\<lambda>v. case v of YMap s \<Rightarrow> YMap (limit_service cpu mem pids s) | _ \<Rightarrow> v)
    (service_of doc k)"
proof -
  from assms obtain m s where m: "doc = YMap m" "map_of m ''services'' = Some (YMap s)"
    "doc' = YMap (dict_set ''services'' (YMap (map (\<lambda>(k, v).
       (k, case v of YMap s \<Rightarrow> YMap (limit_service cpu mem pids s) | _ \<Rightarrow> v)) s)) m)"
    by (auto simp: limit_doc_def split: yaml.splits option.splits)
  then show ?thesis by (simp add: service_of_def map_of_map_vals)
qed

lemma first_service_mem: "first_service s = Some (k, v) \<Longrightarrow> \<exists>v'. map_of s k = Some v'"
  by (induction s rule: first_service.induct) auto

lemma fqdn_service_mem: "fqdn_service str s = Inr (Some (k, v)) \<Longrightarrow> (k, YMap v) \<in> set s"
  by (induction str s rule: fqdn_service.induct) (auto split: sum.splits if_splits)

lemma first_service_set: "first_service s = Some (k, v) \<Longrightarrow> (k, YMap v) \<in> set s"
  by (induction s rule: first_service.induct) auto

lemma public_service_mem: "public_service str s = Inr (Some (k, v)) \<Longrightarrow> (k, YMap v) \<in> set s"
  by (auto simp: public_service_def split: sum.splits option.splits dest: fqdn_service_mem first_service_set)

section \<open>Properties\<close>


definition demo_doc :: yaml where
  "demo_doc = YMap [(''services'', YMap [(''web'', YMap [(''mem_limit'', YStr ''64m'')])])]"

definition demo_cf :: settings where
  "demo_cf = \<lparr>cf_app_cpu = 500, cf_app_mem = 512, cf_app_disk = 1024, cf_pids = 100, cf_actions = True,
     cf_base_domain = ''apps.example'', cf_edge_network = ''edge'', cf_registry_url = [], cf_keep_images = 2,
     cf_max_previews = 3, cf_github_token = [], cf_saas_zone = [], cf_saas_cname = []\<rparr>"

definition demo_load :: "string \<Rightarrow> yaml option" where
  "demo_load t = (if t = ''in'' then Some demo_doc else limit_doc 500 512 100 demo_doc)"


text \<open>
  Publishing an app touches only its public service: when the edge is configured, every
  other service of the stack is unchanged, the public one keeps all its settings except labels
  and networks, stays connected to its siblings (the \<open>default\<close> network, when it named none),
  joins the edge network, and answers on the app's own host name first.
\<close>

theorem edge_touches_only_public_service:
  assumes "edge_doc str cf project port extra doc = Inr (Some doc')"
  shows "\<exists>k svc svc'. service_of doc' k = Some (YMap svc') \<and>
     (\<forall>j. j \<noteq> k \<longrightarrow> service_of doc' j = service_of doc j) \<and>
     (\<forall>key. key \<noteq> ''labels'' \<longrightarrow> key \<noteq> ''networks'' \<longrightarrow> map_of svc' key = map_of svc key) \<and>
     map_of svc' ''networks'' = Some (networks_with (map_of svc ''networks'') (cf_edge_network cf)) \<and>
     (map_of svc ''networks'' = None \<longrightarrow> (\<exists>xs. networks_with (map_of svc ''networks'') (cf_edge_network cf) = YSeq xs \<and>
        {YStr ''default'', YStr (cf_edge_network cf)} \<subseteq> set xs)) \<and>
     (\<exists>ls rest. map_of svc' ''labels'' = Some (YMap ls) \<and>
        map_of ls ''tetra'' = Some (YStr (''http://'' @ app_hostname cf project @ rest)))"
proof -
  from assms obtain m where m: "doc = YMap m" by (cases doc) (auto simp: edge_doc_def)
  from assms obtain s where s: "service_items m = Inr s"
    by (cases "service_items m") (auto simp: edge_doc_def m)
  from assms obtain k svc where p: "public_service str s = Inr (Some (k, svc))"
    by (auto simp: edge_doc_def m s split: sum.splits option.splits)
  have d: "doc' = YMap (dict_set ''networks'' (top_networks cf m)
        (dict_set ''services'' (YMap (dict_set k (YMap (edge_service str cf project port extra svc)) s)) m))"
    using assms by (simp add: edge_doc_def m s p)
  have "s \<noteq> []" using public_service_mem [OF p] by auto
  with s have ms: "map_of m ''services'' = Some (YMap s)"
    by (auto simp: service_items_def split: if_splits option.splits yaml.splits)
  let ?svc = "edge_service str cf project port extra svc"
  have sv: "service_of doc' j = (if j = k then Some (YMap ?svc) else service_of doc j)" for j
  proof -
    have "map_of (dict_set ''networks'' (top_networks cf m)
        (dict_set ''services'' (YMap (dict_set k (YMap ?svc) s)) m)) ''services'' = Some (YMap (dict_set k (YMap ?svc) s))"
      by simp
    then show ?thesis using ms m unfolding d service_of_def by simp
  qed
  have keep: "key \<noteq> ''labels'' \<Longrightarrow> key \<noteq> ''networks'' \<Longrightarrow> map_of ?svc key = map_of svc key" for key
    by (simp add: edge_service_def)
  have net: "map_of ?svc ''networks'' = Some (networks_with (map_of svc ''networks'') (cf_edge_network cf))"
    by (simp add: edge_service_def)
  have dflt: "\<exists>xs. networks_with None (cf_edge_network cf) = YSeq xs \<and> {YStr ''default'', YStr (cf_edge_network cf)} \<subseteq> set xs"
    by (auto simp: networks_with_def)
  have lab: "\<exists>ls rest. map_of ?svc ''labels'' = Some (YMap ls) \<and>
      map_of ls ''tetra'' = Some (YStr (''http://'' @ app_hostname cf project @ rest))"
  proof -
    let ?l = "edge_labels str cf project port extra (map_of svc ''labels'')"
    have l: "map_of ?svc ''labels'' = Some ?l" by (simp add: edge_service_def)
    have j: "\<exists>rest. join '', '' (x # xs) = x @ rest" for x :: string and xs by (cases xs) auto
    from j [of "''http://'' @ app_hostname cf project"
        "map (\<lambda>h. ''http://'' @ h) (filter (\<lambda>h. h \<noteq> []) extra)"] obtain rest where
      r: "join '', '' ((''http://'' @ app_hostname cf project) # map (\<lambda>h. ''http://'' @ h) (filter (\<lambda>h. h \<noteq> []) extra)) =
          (''http://'' @ app_hostname cf project) @ rest" by blast
    have l2: "map_of (dict_set ''tetra.reverse_proxy'' u (dict_set ''tetra'' t ls)) ''tetra'' = Some t"
      for u t :: string and ls by simp
    have "\<exists>ls. ?l = YMap ls \<and> map_of ls ''tetra'' = Some (YStr ((''http://'' @ app_hostname cf project) @ rest))"
      unfolding edge_labels_def Let_def r
      by (rule exI, rule conjI, rule refl, subst map_of_map_vals, subst l2, rule option.map)
    with l show ?thesis by (simp only: append_assoc) blast
  qed
  show ?thesis
  proof (rule exI [of _ k], rule exI [of _ svc], rule exI [of _ ?svc], intro conjI allI impI)
    show "service_of doc' k = Some (YMap ?svc)" by (simp only: sv simp_thms if_True)
    show "service_of doc' j = service_of doc j" if "j \<noteq> k" for j using that by (simp only: sv simp_thms if_False)
    show "map_of ?svc key = map_of svc key" if "key \<noteq> ''labels''" "key \<noteq> ''networks''" for key
      using that by (rule keep)
    show "map_of ?svc ''networks'' = Some (networks_with (map_of svc ''networks'') (cf_edge_network cf))" by (rule net)
    show "\<exists>xs. networks_with (map_of svc ''networks'') (cf_edge_network cf) = YSeq xs \<and>
        {YStr ''default'', YStr (cf_edge_network cf)} \<subseteq> set xs" if "map_of svc ''networks'' = None"
      unfolding that by (rule dflt)
    show "\<exists>ls rest. map_of ?svc ''labels'' = Some (YMap ls) \<and>
        map_of ls ''tetra'' = Some (YStr (''http://'' @ app_hostname cf project @ rest))" by (rule lab)
  qed
qed

definition demo_str :: "yaml \<Rightarrow> string" where
  "demo_str v = (case v of YStr s \<Rightarrow> s | _ \<Rightarrow> [])"

lemma edge_touches_only_public_service_witness:
  "\<exists>doc' k svc'. edge_doc demo_str demo_cf ''shop'' ''80'' [] demo_doc = Inr (Some doc') \<and>
     service_of doc' k = Some (YMap svc') \<and>
     (\<exists>ls rest. map_of svc' ''labels'' = Some (YMap ls) \<and>
        map_of ls ''tetra'' = Some (YStr (''http://'' @ app_hostname demo_cf ''shop'' @ rest)))"
proof -
  obtain doc' where d: "edge_doc demo_str demo_cf ''shop'' ''80'' [] demo_doc = Inr (Some doc')"
    by (simp add: edge_doc_def demo_doc_def service_items_def falsy_def public_service_def env_text_def)
  from edge_touches_only_public_service [OF d] obtain k svc' where
    "service_of doc' k = Some (YMap svc')"
    "\<exists>ls rest. map_of svc' ''labels'' = Some (YMap ls) \<and>
        map_of ls ''tetra'' = Some (YStr (''http://'' @ app_hostname demo_cf ''shop'' @ rest))"
    by (elim exE conjE) (rule that, assumption, intro exI conjI)
  with d show ?thesis by (rule exI [of _ doc', OF exI [of _ k, OF exI [of _ svc', OF conjI [OF _ conjI]]]])
qed

end
