(* ===== verification/Domains.thy ===== *)
theory Domains
  imports Compose
begin

text \<open>
  Custom domains (\<^verbatim>\<open>modules/domains/service.py\<close>): claiming a hostname for an app, proving it with
  a DNS TXT record, and the edge's question whether a hostname is verified. The TXT resolver
  and the Cloudflare client are parameters; the client's calls are returned as a list.
\<close>

section \<open>Hostnames\<close>

text \<open>
  The regular expression: labels of letters, digits and inner dashes, a final label of letters,
  4 to 253 characters. \<open>$\<close> also matches before one final newline, and the look-ahead ends the
  same way.
\<close>

definition lower_letter :: "char \<Rightarrow> bool" where
  "lower_letter c = (let n = ord_of c in 97 \<le> n \<and> n \<le> 122)"

definition host_alnum :: "char \<Rightarrow> bool" where
  "host_alnum c = (lower_letter c \<or> ascii_digit c)"

definition host_label :: "string \<Rightarrow> bool" where
  "host_label l = (l \<noteq> [] \<and> length l \<le> 63 \<and> host_alnum (hd l) \<and> host_alnum (last l) \<and>
     list_all (\<lambda>c. host_alnum c \<or> c = CHR ''-'') l)"

definition host_core :: "string \<Rightarrow> bool" where
  "host_core h =
     (let ps = split_on (CHR ''.'') h in
      4 \<le> length h \<and> length h \<le> 253 \<and> 2 \<le> length ps \<and> list_all host_label (butlast ps) \<and>
      2 \<le> length (last ps) \<and> length (last ps) \<le> 63 \<and> list_all lower_letter (last ps))"

definition hostname_match :: "string \<Rightarrow> bool" where
  "hostname_match h = (host_core h \<or> h \<noteq> [] \<and> last h = CHR 0x0A \<and> host_core (butlast h))"

definition clean_hostname :: "string \<Rightarrow> string" where
  "clean_hostname h = rstrip_if (\<lambda>c. c = CHR ''.'') (py_lower (py_strip h))"

definition normalize_hostname :: "settings \<Rightarrow> string \<Rightarrow> string result" where
  "normalize_hostname cf h =
     (let host = clean_hostname h; base = cf_base_domain cf in
      if \<not> hostname_match host then Inl (ValueError ''Enter a valid domain name, e.g. www.example.com.'')
      else if base \<noteq> [] \<and> (host = base \<or> ends_with (''.'' @ base) host) then
        Inl (ValueError (''*.'' @ base @ '' subdomains are assigned automatically.''))
      else Inr host)"

section \<open>Operations\<close>

definition CHALLENGE_PREFIX :: string where "CHALLENGE_PREFIX = ''_tetra-challenge''"

definition challenge_name :: "string \<Rightarrow> string" where
  "challenge_name host = CHALLENGE_PREFIX @ ''.'' @ host"

definition app_row :: "string option \<Rightarrow> string \<Rightarrow> tenant_resource \<Rightarrow> bool" where
  "app_row tid project r \<longleftrightarrow> rs_tenant r = or_empty tid \<and> rs_provider r = PROVIDER_DOCKER \<and>
     rs_type r = RESOURCE_TYPE_APP \<and> rs_ext r = project"

definition ensure_app_owned :: "db \<Rightarrow> string option \<Rightarrow> string \<Rightarrow> unit result" where
  "ensure_app_owned d tid project =
     (if list_ex (app_row tid project) (db_resources d) then Inr ()
      else Inl (DockerEngineError ''App is not assigned to this tenant.'' (Some 403)))"

definition add_domain ::
  "settings \<Rightarrow> db \<Rightarrow> string \<Rightarrow> string \<Rightarrow> int \<Rightarrow> string option \<Rightarrow> string \<Rightarrow> string \<Rightarrow> (custom_domain \<times> db) result" where
  "add_domain cf d new_id token now tid project hostname =
     (case normalize_hostname cf hostname of
        Inl e \<Rightarrow> Inl e
      | Inr host \<Rightarrow>
         (case ensure_app_owned d tid project of
            Inl e \<Rightarrow> Inl e
          | Inr _ \<Rightarrow>
             (if list_ex (\<lambda>x. dm_host x = host) (db_domains d) then
                Inl (DockerEngineError ''This domain is already claimed.'' (Some 409))
              else (let row = \<lparr>dm_id = new_id, dm_tenant = or_empty tid, dm_project = project, dm_host = host,
                       dm_status = DOMAIN_PENDING, dm_token = token, dm_cf_id = [], dm_created = now\<rparr>
                    in Inr (row, d\<lparr>db_domains := db_domains d @ [row]\<rparr>)))))"

definition list_domains :: "db \<Rightarrow> string option \<Rightarrow> string option \<Rightarrow> custom_domain list" where
  "list_domains d tid project =
     sort_key (\<lambda>x. - dm_created x)
       (filter (\<lambda>x. dm_tenant x = or_empty tid \<and> (or_empty project = [] \<or> dm_project x = or_empty project))
          (db_domains d))"

definition get_domain :: "db \<Rightarrow> string option \<Rightarrow> string \<Rightarrow> custom_domain option" where
  "get_domain d tid did =
     (case find (\<lambda>x. dm_id x = did) (db_domains d) of
        Some x \<Rightarrow> if dm_tenant x = or_empty tid then Some x else None
      | None \<Rightarrow> None)"

datatype cf_call = CreateHostname string string | DeleteHostname string string

text \<open>
  The Cloudflare client, when configured: \<open>create zone host\<close> is the new hostname's id (empty
  when the answer has none), \<open>None\<close> when the call raises; deletions are only issued.
\<close>

type_synonym cf_client = "(string \<Rightarrow> string \<Rightarrow> string option) option"

definition register_hostname ::
  "settings \<Rightarrow> cf_client \<Rightarrow> custom_domain \<Rightarrow> custom_domain \<times> cf_call list" where
  "register_hostname cf client x =
     (case client of
        None \<Rightarrow> (x, [])
      | Some create \<Rightarrow>
          if cf_saas_zone cf \<noteq> [] \<and> dm_cf_id x = [] then
            ((case create (cf_saas_zone cf) (dm_host x) of None \<Rightarrow> x | Some i \<Rightarrow> x\<lparr>dm_cf_id := i\<rparr>),
             [CreateHostname (cf_saas_zone cf) (dm_host x)])
          else (x, []))"

definition verify_domain ::
  "settings \<Rightarrow> (string \<Rightarrow> string list result) \<Rightarrow> cf_client \<Rightarrow> db \<Rightarrow> string option \<Rightarrow> string \<Rightarrow>
   (custom_domain \<times> cf_call list \<times> db) result" where
  "verify_domain cf resolve client d tid did =
     (case get_domain d tid did of
        None \<Rightarrow> Inl (DockerEngineError ''Domain not found.'' (Some 404))
      | Some x \<Rightarrow>
          if dm_status x = DOMAIN_VERIFIED then Inr (x, [], d)
          else (case resolve (challenge_name (dm_host x)) of
             Inl e \<Rightarrow> Inl e
           | Inr records \<Rightarrow>
               if dm_token x \<notin> set records then
                 Inl (DockerEngineError (''TXT record not found. Add: '' @ challenge_name (dm_host x) @
                    '' TXT '' @ [CHR 0x22] @ dm_token x @ [CHR 0x22] @
                    '' and retry (DNS may take a few minutes).'') (Some 409))
               else (let (y, calls) = register_hostname cf client (x\<lparr>dm_status := DOMAIN_VERIFIED\<rparr>)
                     in Inr (y, calls, d\<lparr>db_domains := upd_where (\<lambda>z. dm_id z = did) (\<lambda>_. y) (db_domains d)\<rparr>))))"

definition delete_domain ::
  "settings \<Rightarrow> cf_client \<Rightarrow> db \<Rightarrow> string option \<Rightarrow> string \<Rightarrow> bool \<times> cf_call list \<times> db" where
  "delete_domain cf client d tid did =
     (case get_domain d tid did of
        None \<Rightarrow> (False, [], d)
      | Some x \<Rightarrow>
          (True,
           (if client \<noteq> None \<and> cf_saas_zone cf \<noteq> [] \<and> dm_cf_id x \<noteq> []
            then [DeleteHostname (cf_saas_zone cf) (dm_cf_id x)] else []),
           d\<lparr>db_domains := filter (\<lambda>z. dm_id z \<noteq> did) (db_domains d)\<rparr>))"

definition is_hostname_verified :: "db \<Rightarrow> string \<Rightarrow> bool" where
  "is_hostname_verified d hostname =
     (let host = clean_hostname hostname in
      if host = [] then False
      else list_ex (\<lambda>x. dm_host x = host \<and> dm_status x = DOMAIN_VERIFIED) (db_domains d))"

definition verified_hostnames_for_project :: "db \<Rightarrow> string option \<Rightarrow> string \<Rightarrow> string list" where
  "verified_hostnames_for_project d tid project =
     map dm_host (filter (\<lambda>x. dm_tenant x = or_empty tid \<and> dm_project x = project \<and>
        dm_status x = DOMAIN_VERIFIED) (db_domains d))"

record domain_instructions =
  di_txt_name :: string
  di_txt_value :: string
  di_cname :: string

definition domain_instructions_for :: "settings \<Rightarrow> custom_domain \<Rightarrow> domain_instructions" where
  "domain_instructions_for cf x =
     \<lparr>di_txt_name = challenge_name (dm_host x), di_txt_value = dm_token x,
      di_cname = str_or (cf_saas_cname cf) (app_hostname cf (dm_project x))\<rparr>"

section \<open>Runs\<close>

text \<open>
  Any sequence of operations of any tenants, with the answers of the TXT lookups observed on
  the way. New ids are fresh.
\<close>

inductive domain_run :: "db \<Rightarrow> (string \<times> string list) set \<Rightarrow> db \<Rightarrow> bool" where
  start: "domain_run d {} d"
| add: "domain_run d obs d1 \<Longrightarrow> new_id \<notin> dm_id ` set (db_domains d1) \<Longrightarrow>
    add_domain cf d1 new_id token now tid project hostname = Inr (row, d2) \<Longrightarrow> domain_run d obs d2"
| verify: "domain_run d obs d1 \<Longrightarrow> verify_domain cf resolve client d1 tid did = Inr (row, calls, d2) \<Longrightarrow>
    domain_run d (obs \<union> {(n, rs). n = challenge_name (dm_host row) \<and> resolve n = Inr rs}) d2"
| delete: "domain_run d obs d1 \<Longrightarrow> delete_domain cf client d1 tid did = (ok, calls, d2) \<Longrightarrow> domain_run d obs d2"
| other: "domain_run d obs d1 \<Longrightarrow> db_domains d2 = db_domains d1 \<Longrightarrow> domain_run d obs d2"

inductive_cases domain_runE: "domain_run d obs d'"

section \<open>What the operations change\<close>

lemma get_domain_Some:
  "get_domain d tid did = Some x \<Longrightarrow> x \<in> set (db_domains d) \<and> dm_id x = did \<and> dm_tenant x = or_empty tid"
  by (auto simp: get_domain_def split: option.splits if_splits dest: find_SomeD)

lemma add_domain_Inr:
  "add_domain cf d new_id token now tid project hostname = Inr (row, d') \<Longrightarrow>
     normalize_hostname cf hostname = Inr (dm_host row) \<and> dm_host row \<notin> dm_host ` set (db_domains d) \<and>
     dm_status row = DOMAIN_PENDING \<and> dm_id row = new_id \<and> dm_tenant row = or_empty tid \<and>
     dm_project row = project \<and> dm_token row = token \<and> dm_cf_id row = [] \<and>
     list_ex (app_row tid project) (db_resources d) \<and> d' = d\<lparr>db_domains := db_domains d @ [row]\<rparr>"
  by (auto simp: add_domain_def ensure_app_owned_def Let_def list_ex_iff split: sum.splits if_splits)

lemma register_hostname_fields:
  "register_hostname cf client x = (y, calls) \<Longrightarrow>
     dm_id y = dm_id x \<and> dm_host y = dm_host x \<and> dm_token y = dm_token x \<and> dm_status y = dm_status x \<and>
     dm_tenant y = dm_tenant x \<and> dm_project y = dm_project x"
  by (auto simp: register_hostname_def split: option.splits if_splits)

lemma verify_domain_Inr:
  assumes "verify_domain cf resolve client d tid did = Inr (row, calls, d')"
  obtains "get_domain d tid did = Some row" "dm_status row = DOMAIN_VERIFIED" "calls = []" "d' = d"
  | x rs where "get_domain d tid did = Some x" "dm_status x \<noteq> DOMAIN_VERIFIED"
      "resolve (challenge_name (dm_host x)) = Inr rs" "dm_token x \<in> set rs"
      "register_hostname cf client (x\<lparr>dm_status := DOMAIN_VERIFIED\<rparr>) = (row, calls)"
      "d' = d\<lparr>db_domains := upd_where (\<lambda>z. dm_id z = did) (\<lambda>_. row) (db_domains d)\<rparr>"
  using assms that by (auto simp: verify_domain_def Let_def split: option.splits if_splits sum.splits prod.splits)

definition proven :: "(string \<times> string list) set \<Rightarrow> custom_domain \<Rightarrow> bool" where
  "proven obs x \<longleftrightarrow> (dm_status x = DOMAIN_VERIFIED \<longrightarrow>
     (\<exists>rs. (challenge_name (dm_host x), rs) \<in> obs \<and> dm_token x \<in> set rs))"

definition domains_ok :: "(string \<times> string list) set \<Rightarrow> db \<Rightarrow> bool" where
  "domains_ok obs d \<longleftrightarrow> distinct (map dm_id (db_domains d)) \<and> distinct (map dm_host (db_domains d)) \<and>
     (\<forall>x\<in>set (db_domains d). proven obs x)"

lemma proven_mono: "proven obs x \<Longrightarrow> obs \<subseteq> obs' \<Longrightarrow> proven obs' x"
  unfolding proven_def by blast

lemma upd_where_id_unique:
  assumes "distinct (map dm_id xs)" "x \<in> set xs" "g y = g x"
  shows "map g (upd_where (\<lambda>z. dm_id z = dm_id x) (\<lambda>_. y) xs) = map g xs"
proof (rule map_upd_where_in)
  fix z assume "z \<in> set xs" "dm_id z = dm_id x"
  with assms have "z = x" by (metis distinct_map inj_on_eq_iff)
  with assms(3) show "g y = g z" by simp
qed

lemma verify_keeps_domains_ok:
  assumes ok: "domains_ok obs d" and v: "verify_domain cf resolve client d tid did = Inr (row, calls, d')"
  shows "domains_ok (obs \<union> {(n, rs). n = challenge_name (dm_host row) \<and> resolve n = Inr rs}) d'"
  using v
proof (cases rule: verify_domain_Inr)
  case 1
  with ok show ?thesis unfolding domains_ok_def by (blast intro: proven_mono)
next
  case (2 x rs)
  note x = get_domain_Some [OF 2(1)]
  note f = register_hostname_fields [OF 2(5)]
  let ?xs = "upd_where (\<lambda>z. dm_id z = did) (\<lambda>_. row) (db_domains d)"
  have dist: "distinct (map dm_id (db_domains d))" using ok by (simp add: domains_ok_def)
  have "map dm_id ?xs = map dm_id (db_domains d)" "map dm_host ?xs = map dm_host (db_domains d)"
    using upd_where_id_unique [OF dist, of x dm_id row] upd_where_id_unique [OF dist, of x dm_host row] x f by auto
  moreover have "proven (obs \<union> {(n, rs). n = challenge_name (dm_host row) \<and> resolve n = Inr rs}) z"
    if "z \<in> set ?xs" for z
  proof (cases "z = row")
    case True
    with f 2(3,4) show ?thesis by (auto simp: proven_def)
  next
    case False
    with that have "z \<in> set (db_domains d)" by (auto simp: set_upd_where split: if_splits)
    with ok show ?thesis unfolding domains_ok_def by (blast intro: proven_mono)
  qed
  ultimately show ?thesis using ok 2(6) by (simp add: domains_ok_def)
qed

lemma domain_run_ok: "domain_run d obs d' \<Longrightarrow> domains_ok {} d \<Longrightarrow> domains_ok obs d'"
proof (induction rule: domain_run.induct)
  case (add d obs d1 new_id cf token now tid project hostname row d2)
  from add_domain_Inr [OF add.hyps(3)] add.hyps(2) add.IH [OF add.prems] show ?case
    by (auto simp: domains_ok_def proven_def)
next
  case (verify d obs d1 cf resolve client tid did row calls d2)
  then show ?case by (intro verify_keeps_domains_ok)
next
  case (delete d obs d1 cf client tid did ok calls d2)
  then show ?case
    by (auto simp: delete_domain_def domains_ok_def distinct_map_filter split: option.splits)
qed (auto simp: domains_ok_def)

text \<open>
  C30. Whatever tenants add, verify and delete, and whatever DNS answers, the edge is told that a
  hostname is verified only when a lookup of the challenge name of exactly that hostname, made
  during the run, returned the token issued to the claim that now holds it; and a hostname has
  one claim at a time.
\<close>

theorem edge_serves_only_proven_hostnames:
  assumes "domain_run d obs d'" and "db_domains d = []" and "is_hostname_verified d' h"
  shows "\<exists>x\<in>set (db_domains d'). dm_host x = clean_hostname h \<and>
    (\<exists>rs. (challenge_name (clean_hostname h), rs) \<in> obs \<and> dm_token x \<in> set rs) \<and>
    (\<forall>y\<in>set (db_domains d'). dm_host y = dm_host x \<longrightarrow> y = x)"
proof -
  have ok: "domains_ok obs d'" using domain_run_ok [OF assms(1)] assms(2) by (simp add: domains_ok_def)
  obtain x where x: "x \<in> set (db_domains d')" "dm_host x = clean_hostname h" "dm_status x = DOMAIN_VERIFIED"
    using assms(3) by (auto simp: is_hostname_verified_def Let_def list_ex_iff split: if_splits)
  with ok have "\<exists>rs. (challenge_name (clean_hostname h), rs) \<in> obs \<and> dm_token x \<in> set rs"
    by (metis domains_ok_def proven_def)
  moreover have "\<forall>y\<in>set (db_domains d'). dm_host y = dm_host x \<longrightarrow> y = x"
    using ok x(1) by (metis domains_ok_def distinct_map inj_on_eq_iff)
  ultimately show ?thesis using x by blast
qed

definition demo_domain_db :: db where
  "demo_domain_db = empty_db\<lparr>db_resources :=
     [\<lparr>rs_tenant = ''t1'', rs_provider = PROVIDER_DOCKER, rs_type = RESOURCE_TYPE_APP, rs_ext = ''web'',
       rs_display = ''web'', rs_cpu = None, rs_mem = None, rs_disk = None\<rparr>,
      \<lparr>rs_tenant = ''t2'', rs_provider = PROVIDER_DOCKER, rs_type = RESOURCE_TYPE_APP, rs_ext = ''blog'',
       rs_display = ''blog'', rs_cpu = None, rs_mem = None, rs_disk = None\<rparr>]\<rparr>"

definition demo_domain_add :: "(custom_domain \<times> db) result" where
  "demo_domain_add = add_domain demo_cf demo_domain_db ''d1'' ''tok'' 0 (Some ''t1'') ''web'' '' A.Example.com. ''"

definition demo_resolve :: "string \<Rightarrow> string list result" where
  "demo_resolve n = Inr (if n = ''_tetra-challenge.a.example.com'' then [''x'', ''tok''] else [])"

lemma edge_serves_only_proven_hostnames_witness:
  "\<exists>d obs. domain_run demo_domain_db obs d \<and> is_hostname_verified d ''a.example.com'' \<and>
     (\<exists>x rs. x \<in> set (db_domains d) \<and> (challenge_name ''a.example.com'', rs) \<in> obs \<and> dm_token x \<in> set rs)"
proof -
  have "\<not> isl demo_domain_add" by code_simp
  then obtain r1 d1 where a: "demo_domain_add = Inr (r1, d1)" by (elim Inr_pair_of_not_isl [THEN exE] exE)
  obtain v where v: "verify_domain demo_cf demo_resolve None d1 (Some ''t1'') ''d1'' = Inr v"
  proof -
    have "\<not> isl (case demo_domain_add of Inr (_, d) \<Rightarrow>
        verify_domain demo_cf demo_resolve None d (Some ''t1'') ''d1'')" by code_simp
    then have "\<not> isl (verify_domain demo_cf demo_resolve None d1 (Some ''t1'') ''d1'')" by (simp add: a)
    then show ?thesis using that by (elim Inr_of_not_isl [THEN exE])
  qed
  obtain r2 calls d2 where v2: "v = (r2, calls, d2)" by (cases v) auto
  have ver: "is_hostname_verified d2 ''a.example.com''"
  proof -
    have "case demo_domain_add of Inr (_, d) \<Rightarrow>
      (case verify_domain demo_cf demo_resolve None d (Some ''t1'') ''d1'' of Inr (_, _, d') \<Rightarrow>
         is_hostname_verified d' ''a.example.com'')" by code_simp
    then show ?thesis by (simp add: a v v2)
  qed
  have "''d1'' \<notin> dm_id ` set (db_domains demo_domain_db)" by (simp add: demo_domain_db_def empty_db_def)
  from domain_run.add [OF domain_run.start this a [unfolded demo_domain_add_def]]
  have "domain_run demo_domain_db {} d1" .
  from domain_run.verify [OF this v [unfolded v2]] obtain obs where run: "domain_run demo_domain_db obs d2" by blast
  have "db_domains demo_domain_db = []" by (simp add: demo_domain_db_def empty_db_def)
  moreover have "clean_hostname ''a.example.com'' = ''a.example.com''" by code_simp
  ultimately show ?thesis
    using edge_serves_only_proven_hostnames [OF run _ ver] run ver by metis
qed

section \<open>A hostname with a trailing newline\<close>

lemma set_split_on: "c \<in> set s \<Longrightarrow> c = x \<or> (\<exists>p\<in>set (split_on x s). c \<in> set p)"
  by (induction s) (auto split: list.splits)

definition host_char :: "char \<Rightarrow> bool" where
  "host_char c = (host_alnum c \<or> c = CHR ''-'' \<or> c = CHR ''.'')"

lemma host_core_chars:
  assumes "host_core h" and "c \<in> set h"
  shows "host_char c"
proof (rule ccontr)
  assume n: "\<not> host_char c"
  let ?ps = "split_on (CHR ''.'') h"
  from set_split_on [OF assms(2)] n obtain p where p: "p \<in> set ?ps" "c \<in> set p" by (auto simp: host_char_def)
  have "?ps = butlast ?ps @ [last ?ps]" by simp
  with p(1) have "p \<in> set (butlast ?ps) \<or> p = last ?ps" by (metis Un_iff empty_iff empty_set set_ConsD set_append)
  with assms(1) p(2) have "host_alnum c \<or> c = CHR ''-''"
    by (auto simp: host_core_def host_label_def list_all_iff Let_def host_alnum_def)
  with n show False by (auto simp: host_char_def)
qed

lemma host_char_facts: "host_char c \<Longrightarrow> \<not> py_space c \<and> lower_char c = c"
proof -
  assume "host_char c"
  then consider "97 \<le> ord_of c \<and> ord_of c \<le> 122" | "48 \<le> ord_of c \<and> ord_of c \<le> 57" | "ord_of c = 45" | "ord_of c = 46"
    by (auto simp: host_char_def host_alnum_def lower_letter_def ascii_digit_def Let_def ord_of_def)
  then show ?thesis by cases (auto simp: py_space_def lower_char_def Let_def)
qed

lemma clean_hostname_newline:
  assumes "host_core h"
  shows "clean_hostname (h @ [CHR 0x0A, CHR ''.'']) = h @ [CHR 0x0A]" and "clean_hostname h = h"
proof -
  have h: "h \<noteq> []" "\<forall>c\<in>set h. \<not> py_space c \<and> lower_char c = c"
    using assms host_core_chars [OF assms] host_char_facts by (auto simp: host_core_def Let_def)
  have low: "py_lower h = h" unfolding py_lower_def by (rule map_idI) (use h in blast)
  have dot: "\<not> py_space CHR ''.''" "lower_char CHR 0x0A = CHR 0x0A" "lower_char CHR ''.'' = CHR ''.''" by code_simp+
  have s1: "py_strip (h @ [CHR 0x0A, CHR ''.'']) = h @ [CHR 0x0A, CHR ''.'']" unfolding py_strip_def
    by (rule strip_if_id) (use h dot in auto)
  have s2: "py_strip h = h" unfolding py_strip_def by (rule strip_if_id) (use h in auto)
  show "clean_hostname (h @ [CHR 0x0A, CHR ''.'']) = h @ [CHR 0x0A]"
    unfolding clean_hostname_def s1 using low dot by (simp add: py_lower_def rstrip_if_def)
  have "last (split_on (CHR ''.'') h) \<noteq> []" using assms by (auto simp: host_core_def Let_def)
  moreover have "h = join [CHR ''.''] (split_on (CHR ''.'') h)" by (simp add: join_split_on)
  ultimately have "last h \<noteq> CHR ''.''"
    using split_on_no_sep [of "last (split_on (CHR ''.'') h)" "CHR ''.''" h] last_join by (metis last_in_set split_on_ne)
  then show "clean_hostname h = h" unfolding clean_hostname_def s2 low by (intro rstrip_if_id) simp
qed

lemma host_core_no_newline: "host_core h \<Longrightarrow> CHR 0x0A \<notin> set h"
proof
  assume "host_core h" "CHR 0x0A \<in> set h"
  then have "host_char CHR 0x0A" by (rule host_core_chars)
  moreover have "\<not> host_char CHR 0x0A" by code_simp
  ultimately show False by simp
qed

text \<open>
  The pattern ends with \<open>$\<close>, which also matches before a final newline, and dots are cut off
  only after the white space. So a hostname followed by a newline and a dot is accepted and kept
  with its newline: a tenant with an app can claim it although the plain name is already claimed
  (by anyone) or lies under the platform's own base domain, where the plain name is refused. The
  edge, which asks for the plain name, never finds that claim.
\<close>

theorem newline_hostname_evades_checks:
  assumes "host_core h" and "CHR 0x0A \<notin> set (cf_base_domain cf)"
    and "list_ex (app_row tid project) (db_resources d)"
    and "h @ [CHR 0x0A] \<notin> dm_host ` set (db_domains d)"
  shows "\<exists>row d'. add_domain cf d new_id token now tid project (h @ [CHR 0x0A, CHR ''.'']) = Inr (row, d') \<and>
      dm_host row = h @ [CHR 0x0A] \<and>
      is_hostname_verified (d'\<lparr>db_domains := upd_where (\<lambda>x. x = row) (\<lambda>x. x\<lparr>dm_status := DOMAIN_VERIFIED\<rparr>) (db_domains d')\<rparr>) h =
        is_hostname_verified d h \<and>
      (h \<in> dm_host ` set (db_domains d) \<or> h = cf_base_domain cf \<or> ends_with (''.'' @ cf_base_domain cf) h \<and> cf_base_domain cf \<noteq> [] \<longrightarrow>
        isl (add_domain cf d new_id token now tid project h))"
proof -
  note cl = clean_hostname_newline [OF assms(1)]
  have ne: "h \<noteq> []" using assms(1) by (auto simp: host_core_def Let_def)
  let ?n = "h @ [CHR 0x0A]" and ?b = "cf_base_domain cf"
  have base: "?n \<noteq> ?b" using assms(2) by (metis in_set_conv_decomp)
  have base2: "\<not> ends_with (''.'' @ ?b) ?n" if "?b \<noteq> []"
  proof
    assume "ends_with (''.'' @ ?b) ?n"
    then obtain t where t: "?n = t @ ''.'' @ ?b" by (auto simp: ends_with_iff)
    have "last ?n = last ?b" unfolding t using that by simp
    with that assms(2) show False by (metis last_in_set last_snoc)
  qed
  have norm: "normalize_hostname cf (h @ [CHR 0x0A, CHR ''.'']) = Inr ?n"
    using base base2 assms(1) unfolding normalize_hostname_def cl by (auto simp: hostname_match_def Let_def)
  define row where "row = \<lparr>dm_id = new_id, dm_tenant = or_empty tid, dm_project = project, dm_host = ?n,
     dm_status = DOMAIN_PENDING, dm_token = token, dm_cf_id = [], dm_created = now\<rparr>"
  have "\<not> list_ex (\<lambda>x. dm_host x = ?n) (db_domains d)" using assms(4) unfolding list_ex_iff by (metis imageI)
  then have add: "add_domain cf d new_id token now tid project (h @ [CHR 0x0A, CHR ''.'']) =
      Inr (row, d\<lparr>db_domains := db_domains d @ [row]\<rparr>)"
    using assms(3) norm by (simp add: add_domain_def ensure_app_owned_def row_def Let_def)
  have "dm_host row = ?n" by (simp add: row_def)
  then have "row \<notin> set (db_domains d)" using assms(4) by (metis imageI)
  then have upd: "upd_where (\<lambda>x. x = row) f (db_domains d) = db_domains d" for f
    by (intro upd_where_none) auto
  have ver: "is_hostname_verified (d\<lparr>db_domains := upd_where (\<lambda>x. x = row) (\<lambda>x. x\<lparr>dm_status := DOMAIN_VERIFIED\<rparr>)
      (db_domains d @ [row])\<rparr>) h = is_hostname_verified d h"
    unfolding is_hostname_verified_def cl(2) by (simp add: upd Let_def \<open>dm_host row = ?n\<close>)
  have "isl (add_domain cf d new_id token now tid project h)"
    if "h \<in> dm_host ` set (db_domains d) \<or> h = ?b \<or> ends_with (''.'' @ ?b) h \<and> ?b \<noteq> []"
    using that ne by (auto simp: add_domain_def normalize_hostname_def cl Let_def list_ex_iff ensure_app_owned_def
        split: sum.splits)
  with add ver show ?thesis by (intro exI [of _ row] exI [of _ "d\<lparr>db_domains := db_domains d @ [row]\<rparr>"]) (simp add: row_def)
qed

lemma newline_hostname_evades_checks_witness:
  "\<exists>row d'. add_domain demo_cf demo_domain_db ''d2'' ''tok'' 0 (Some ''t2'') ''blog''
      (''a.example.com'' @ [CHR 0x0A, CHR ''.'']) = Inr (row, d') \<and> dm_host row = ''a.example.com'' @ [CHR 0x0A]"
proof -
  have "host_core ''a.example.com''" "CHR 0x0A \<notin> set (cf_base_domain demo_cf)"
    "list_ex (app_row (Some ''t2'') ''blog'') (db_resources demo_domain_db)"
    "''a.example.com'' @ [CHR 0x0A] \<notin> dm_host ` set (db_domains demo_domain_db)" by code_simp+
  from newline_hostname_evades_checks [OF this] show ?thesis by blast
qed

text \<open>
  Verification is final: after one successful verification every later one, whatever DNS and
  Cloudflare would answer, returns the same row, changes nothing and makes no call. In
  particular a certificate registration that failed at the first verification is never retried.
\<close>

theorem reverify_changes_nothing:
  assumes "verify_domain cf resolve client d tid did = Inr (row, calls, d1)"
  shows "verify_domain cf' resolve' client' d1 tid did = Inr (row, [], d1)"
  using assms
proof (cases rule: verify_domain_Inr)
  case 1
  then show ?thesis by (simp add: verify_domain_def)
next
  case (2 x rs)
  note x = get_domain_Some [OF 2(1)] and f = register_hostname_fields [OF 2(5)]
  have "find (\<lambda>z. dm_id z = did) (db_domains d) = Some x"
    using 2(1) by (auto simp: get_domain_def split: option.splits if_splits)
  then have "find (\<lambda>z. dm_id z = did) (upd_where (\<lambda>z. dm_id z = did) (\<lambda>_. row) (db_domains d)) = Some row"
    using x f by (subst find_upd_where) auto
  then have "get_domain d1 tid did = Some row" using x f 2(6) by (simp add: get_domain_def)
  with f show ?thesis by (simp add: verify_domain_def)
qed

lemma reverify_changes_nothing_witness:
  "\<exists>row d1. verify_domain demo_cf demo_resolve (Some (\<lambda>_ _. Some ''cf1''))
      (d1 :: db) (Some ''t1'') ''d1'' = Inr (row, [], d1) \<and> dm_cf_id row = []"
proof -
  let ?d = "demo_domain_db\<lparr>db_domains := [\<lparr>dm_id = ''d1'', dm_tenant = ''t1'', dm_project = ''web'',
    dm_host = ''a.example.com'', dm_status = DOMAIN_PENDING, dm_token = ''tok'', dm_cf_id = [], dm_created = 0\<rparr>]\<rparr>"
  let ?r = "verify_domain (demo_cf\<lparr>cf_saas_zone := ''z''\<rparr>) demo_resolve (Some (\<lambda>_ _. None)) ?d (Some ''t1'') ''d1''"
  have n: "\<not> isl ?r" and e: "(case ?r of Inr (x, _) \<Rightarrow> dm_cf_id x) = []" by code_simp+
  obtain row calls d1 where r: "?r = Inr (row, calls, d1)" using n by (cases ?r) auto
  have "dm_cf_id row = []" using e unfolding r by simp
  with reverify_changes_nothing [OF r] show ?thesis by blast
qed

end
