(* ===== verification/Deploys.thy ===== *)
theory Deploys
  imports Engine Domains Quota "HOL-Library.List_Lexorder" "HOL-Library.Char_ord"
begin

text \<open>
  The request side of deployments (\<^verbatim>\<open>modules/deploys/service.py\<close>): queueing a deploy, a redeploy,
  a rollback or a preview, environment variables, hooks and listings. Each operation is one
  database session; the background task it spawns is returned beside the new row and is run
  by the theory \<open>DeployTask\<close>. Encryption (Fernet) is a parameter.
\<close>

section \<open>Shared pieces\<close>

datatype spawned =
    RunDeploy (task_id: string) "string option" string string string int "string option"
  | RunRollback (task_id: string) "string option" string string int

definition require_deploy_actions :: "settings \<Rightarrow> unit result" where
  "require_deploy_actions cf =
     (if \<not> cf_actions cf then Inl (DockerEngineError
        ''Provider actions are disabled (ENABLE_PROVIDER_ACTIONS=false).'' (Some 403)) else Inr ())"

definition queued_row ::
  "string \<Rightarrow> int \<Rightarrow> string option \<Rightarrow> string \<Rightarrow> string \<Rightarrow> string \<Rightarrow> int \<Rightarrow> deployment" where
  "queued_row did now tid project git ref port =
     \<lparr>dp_id = did, dp_tenant = or_empty tid, dp_project = project, dp_git = git, dp_ref = ref,
      dp_status = STATUS_QUEUED, dp_builder = [], dp_image = [], dp_commit = [], dp_domain = [],
      dp_port = port, dp_log = [], dp_error = [], dp_created = now\<rparr>"

definition add_deployment :: "deployment \<Rightarrow> db \<Rightarrow> db" where
  "add_deployment p d = d\<lparr>db_deployments := db_deployments d @ [p]\<rparr>"

definition preview_project_name :: "string \<Rightarrow> string \<Rightarrow> string" where
  "preview_project_name project branch = sanitize_project_name (project @ ''-git-'' @ branch)"

definition app_url :: "settings \<Rightarrow> string \<Rightarrow> string" where
  "app_url cf stack = (if cf_base_domain cf \<noteq> [] then stack @ ''.'' @ cf_base_domain cf else [])"

section \<open>Deploy, redeploy, rollback\<close>

definition start_deploy ::
  "settings \<Rightarrow> db \<Rightarrow> string \<Rightarrow> int \<Rightarrow> string option \<Rightarrow> string \<Rightarrow> string \<Rightarrow> string \<Rightarrow> int \<Rightarrow> ((string \<times> spawned) \<times> db) result" where
  "start_deploy cf d new_id now tid git ref name port =
     (case require_deploy_actions cf of
        Inl e \<Rightarrow> Inl e
      | Inr _ \<Rightarrow>
         (let project = sanitize_project_name name in
          if list_ex (app_row tid project) (db_resources d) then
            Inl (DockerEngineError (''App '' @ [CHR 0x27] @ project @ [CHR 0x27] @ '' is already deployed.'') (Some 409))
          else (case check_and_reserve d (or_empty tid) project (plan_allocation cf d (or_empty tid)) name of
             Inl e \<Rightarrow> Inl e
           | Inr d1 \<Rightarrow>
               Inr ((new_id, RunDeploy new_id tid git ref project port None),
                 add_deployment (queued_row new_id now tid project git ref port) d1))))"

definition not_deployed :: "string \<Rightarrow> exn" where
  "not_deployed project =
     DockerEngineError (''App '' @ [CHR 0x27] @ project @ [CHR 0x27] @ '' is not deployed; deploy it first.'') (Some 404)"

definition redeploy ::
  "settings \<Rightarrow> db \<Rightarrow> string \<Rightarrow> int \<Rightarrow> string option \<Rightarrow> string \<Rightarrow> string \<Rightarrow> string \<Rightarrow> int \<Rightarrow> ((string \<times> spawned) \<times> db) result" where
  "redeploy cf d new_id now tid git ref project port =
     (case require_deploy_actions cf of
        Inl e \<Rightarrow> Inl e
      | Inr _ \<Rightarrow>
         (if \<not> list_ex (app_row tid project) (db_resources d) then Inl (not_deployed project)
          else Inr ((new_id, RunDeploy new_id tid git ref project port None),
                 add_deployment (queued_row new_id now tid project git ref port) d)))"

definition get_deployment :: "db \<Rightarrow> string \<Rightarrow> deployment option" where
  "get_deployment d did = find (\<lambda>p. dp_id p = did) (db_deployments d)"

definition rollback ::
  "settings \<Rightarrow> db \<Rightarrow> string \<Rightarrow> int \<Rightarrow> string option \<Rightarrow> string \<Rightarrow> ((string \<times> spawned) \<times> db) result" where
  "rollback cf d new_id now tid did =
     (case require_deploy_actions cf of
        Inl e \<Rightarrow> Inl e
      | Inr _ \<Rightarrow>
         (case get_deployment d did of
            None \<Rightarrow> Inl (DockerEngineError ''Deployment not found.'' (Some 404))
          | Some t \<Rightarrow>
             (if dp_tenant t \<noteq> or_empty tid then Inl (DockerEngineError ''Deployment not found.'' (Some 404))
              else if dp_status t \<noteq> STATUS_READY \<or> dp_image t = [] then
                Inl (DockerEngineError ''Can only roll back to a successful deployment with a built image.'' (Some 409))
              else if \<not> list_ex (app_row tid (dp_project t)) (db_resources d) then Inl (not_deployed (dp_project t))
              else Inr ((new_id, RunRollback new_id tid (dp_project t) (dp_image t) (dp_port t)),
                add_deployment ((queued_row new_id now tid (dp_project t) (dp_git t) (dp_ref t) (dp_port t))
                  \<lparr>dp_image := dp_image t, dp_commit := dp_commit t, dp_builder := dp_builder t\<rparr>) d))))"

section \<open>Previews\<close>

definition preview_of :: "string option \<Rightarrow> string \<Rightarrow> string \<Rightarrow> preview_env \<Rightarrow> bool" where
  "preview_of tid project branch v \<longleftrightarrow>
     pv_tenant v = or_empty tid \<and> pv_project v = project \<and> pv_branch v = branch"

definition preview_count :: "db \<Rightarrow> string option \<Rightarrow> string \<Rightarrow> int" where
  "preview_count d tid project =
     int (length (filter (\<lambda>v. pv_tenant v = or_empty tid \<and> pv_project v = project) (db_previews d)))"

definition deploy_preview ::
  "settings \<Rightarrow> db \<Rightarrow> string \<Rightarrow> string \<Rightarrow> int \<Rightarrow> string option \<Rightarrow> string \<Rightarrow> string \<Rightarrow> string \<Rightarrow> int \<Rightarrow>
   ((string \<times> string \<times> spawned) \<times> db) result" where
  "deploy_preview cf d new_preview new_id now tid git branch project port =
     (case require_deploy_actions cf of
        Inl e \<Rightarrow> Inl e
      | Inr _ \<Rightarrow>
         (let stack = preview_project_name project branch;
              domain = app_url cf stack;
              known = list_ex (preview_of tid project branch) (db_previews d)
          in if \<not> known \<and> cf_max_previews cf \<le> preview_count d tid project then
               Inl (DockerEngineError (''Preview limit ('' @ int_str (cf_max_previews cf) @ '') reached for '' @
                 [CHR 0x27] @ project @ [CHR 0x27] @ '' - delete a preview or its branch first.'') (Some 409))
             else (let previews = (if known then db_previews d else db_previews d @
                      [\<lparr>pv_id = new_preview, pv_tenant = or_empty tid, pv_project = project, pv_branch = branch,
                        pv_stack = stack, pv_domain = domain, pv_last_deployment = [], pv_created = now\<rparr>])
                   in Inr ((new_id, domain, RunDeploy new_id tid git branch stack port (Some project)),
                     add_deployment (queued_row new_id now tid stack git branch port)
                       (d\<lparr>db_previews := upd_where (preview_of tid project branch)
                            (\<lambda>v. v\<lparr>pv_last_deployment := new_id\<rparr>) previews\<rparr>)))))"

definition list_previews :: "db \<Rightarrow> string option \<Rightarrow> string option \<Rightarrow> preview_env list" where
  "list_previews d tid project =
     sort_key (\<lambda>v. - pv_created v)
       (filter (\<lambda>v. pv_tenant v = or_empty tid \<and> (or_empty project = [] \<or> pv_project v = or_empty project))
          (db_previews d))"

section \<open>Environment variables\<close>

definition decrypt :: "(string \<Rightarrow> string option) \<Rightarrow> string \<Rightarrow> string" where
  "decrypt fernet token = (if token = [] then [] else case fernet token of None \<Rightarrow> [] | Some s \<Rightarrow> s)"

definition env_row :: "string option \<Rightarrow> string \<Rightarrow> string \<Rightarrow> app_env_var \<Rightarrow> bool" where
  "env_row tid project key e \<longleftrightarrow> ev_tenant e = or_empty tid \<and> ev_project e = project \<and> ev_key e = key"

definition set_env ::
  "(string \<Rightarrow> string) \<Rightarrow> db \<Rightarrow> string option \<Rightarrow> string \<Rightarrow> string \<Rightarrow> string \<Rightarrow> bool \<Rightarrow> bool \<Rightarrow> db" where
  "set_env encrypt d tid project key val is_secret is_build_time =
     d\<lparr>db_envs :=
        (if list_ex (env_row tid project key) (db_envs d) then
           upd_where (env_row tid project key)
             (\<lambda>e. e\<lparr>ev_value := encrypt val, ev_secret := is_secret, ev_build := is_build_time\<rparr>) (db_envs d)
         else db_envs d @ [\<lparr>ev_tenant = or_empty tid, ev_project = project, ev_key = key,
           ev_value = encrypt val, ev_secret = is_secret, ev_build = is_build_time\<rparr>])\<rparr>"

definition list_env :: "db \<Rightarrow> string option \<Rightarrow> string \<Rightarrow> app_env_var list" where
  "list_env d tid project =
     sort_key ev_key (filter (\<lambda>e. ev_tenant e = or_empty tid \<and> ev_project e = project) (db_envs d))"

definition delete_env :: "db \<Rightarrow> string option \<Rightarrow> string \<Rightarrow> string \<Rightarrow> bool \<times> db" where
  "delete_env d tid project key =
     (if list_ex (env_row tid project key) (db_envs d)
      then (True, d\<lparr>db_envs := filter (\<lambda>e. \<not> env_row tid project key e) (db_envs d)\<rparr>) else (False, d))"

text \<open>The dict comprehension: a later row of the same key replaces the value.\<close>

definition env_map_for_deploy :: "(string \<Rightarrow> string option) \<Rightarrow> db \<Rightarrow> string option \<Rightarrow> string \<Rightarrow> (string \<times> string) list" where
  "env_map_for_deploy fernet d tid project =
     fold (\<lambda>e m. dict_set (ev_key e) (decrypt fernet (ev_value e)) m)
       (filter (\<lambda>e. ev_tenant e = or_empty tid \<and> ev_project e = project) (db_envs d)) []"

definition limits_for :: "settings \<Rightarrow> db \<Rightarrow> string option \<Rightarrow> string \<Rightarrow> int \<times> int" where
  "limits_for cf d tid project =
     (case find (app_row tid project) (db_resources d) of
        None \<Rightarrow> (cf_app_cpu cf, cf_app_mem cf)
      | Some r \<Rightarrow> (int_or (rs_cpu r) (cf_app_cpu cf), int_or (rs_mem r) (cf_app_mem cf)))"

section \<open>Hooks and listings\<close>

definition create_hook ::
  "(string \<Rightarrow> string) \<Rightarrow> db \<Rightarrow> string \<Rightarrow> string \<Rightarrow> int \<Rightarrow> string option \<Rightarrow> string \<Rightarrow> string \<Rightarrow> string \<Rightarrow> int \<Rightarrow> bool \<Rightarrow>
   (deploy_hook \<times> string) \<times> db" where
  "create_hook encrypt d new_id raw_secret now tid project git ref port previews =
     (let h = \<lparr>hk_id = new_id, hk_tenant = or_empty tid, hk_project = project, hk_git = git, hk_ref = ref,
               hk_port = port, hk_secret = encrypt raw_secret, hk_enabled = True, hk_previews = previews,
               hk_created = now\<rparr>
      in ((h, raw_secret), d\<lparr>db_hooks := db_hooks d @ [h]\<rparr>))"

definition list_hooks :: "db \<Rightarrow> string option \<Rightarrow> deploy_hook list" where
  "list_hooks d tid = sort_key (\<lambda>h. - hk_created h) (filter (\<lambda>h. hk_tenant h = or_empty tid) (db_hooks d))"

definition get_hook :: "db \<Rightarrow> string \<Rightarrow> deploy_hook option" where
  "get_hook d hid = find (\<lambda>h. hk_id h = hid) (db_hooks d)"

definition delete_hook :: "db \<Rightarrow> string option \<Rightarrow> string \<Rightarrow> bool \<times> db" where
  "delete_hook d tid hid =
     (case get_hook d hid of
        None \<Rightarrow> (False, d)
      | Some h \<Rightarrow> if hk_tenant h \<noteq> or_empty tid then (False, d)
                  else (True, d\<lparr>db_hooks := filter (\<lambda>x. hk_id x \<noteq> hid) (db_hooks d)\<rparr>))"

definition get_deployment_for_tenant :: "db \<Rightarrow> string option \<Rightarrow> string \<Rightarrow> deployment option" where
  "get_deployment_for_tenant d tid did =
     (case get_deployment d did of
        Some p \<Rightarrow> if dp_tenant p = or_empty tid then Some p else None
      | None \<Rightarrow> None)"

definition list_deployments :: "db \<Rightarrow> string option \<Rightarrow> nat \<Rightarrow> deployment list" where
  "list_deployments d tid limit =
     take limit (sort_key (\<lambda>p. - dp_created p) (filter (\<lambda>p. dp_tenant p = or_empty tid) (db_deployments d)))"

section \<open>Properties\<close>

text \<open>
  Project names are unique per tenant only, and a stack is named after the project alone. So
  once one tenant's app exists, any other tenant with a free slot can deploy an app of the same
  (sanitised) name: its request is accepted exactly as if the first app were not there, both
  tenants then own an app of that project, and every command of either names the same compose
  stack (\<open>stack_commands_stay_in_project\<close>), as does the host name.
\<close>

theorem tenants_share_a_stack:
  assumes "start_deploy cf d i1 n1 t1 g1 r1 name1 p1 = Inr ((i1, RunDeploy i1 t1 g1 r1 project p1 None), d1)"
    and "or_empty t1 \<noteq> or_empty t2" and "sanitize_project_name name2 = sanitize_project_name name1"
    and "start_deploy cf d i2 n2 t2 g2 r2 name2 p2 = Inr ((i2, task), d2)"
  shows "\<exists>d3. start_deploy cf d1 i2 n2 t2 g2 r2 name2 p2 = Inr ((i2, RunDeploy i2 t2 g2 r2 project p2 None), d3) \<and>
    list_ex (app_row t1 project) (db_resources d3) \<and> list_ex (app_row t2 project) (db_resources d3)"
proof -
  let ?t1 = "or_empty t1" and ?t2 = "or_empty t2"
  from assms(1) have p: "project = sanitize_project_name name1" and acts: "require_deploy_actions cf = Inr ()"
    and d1: "db_resources d1 = db_resources d @ [reservation ?t1 project (plan_allocation cf d ?t1) name1]"
      "db_deployments d1 = db_deployments d @ [queued_row i1 n1 t1 project g1 r1 p1]"
      "db_tenants d1 = db_tenants d" "db_plans d1 = db_plans d"
    by (auto simp: start_deploy_def Let_def check_and_reserve_Inr add_deployment_def split: sum.splits if_splits)
  from assms(3,4) p have free: "\<not> list_ex (app_row t2 project) (db_resources d)"
    and quota: "is_platform_scope d ?t2 \<or> count_apps d ?t2 + 1 \<le> resolve_max_apps d ?t2"
    by (auto simp: start_deploy_def Let_def check_and_reserve_Inr split: sum.splits if_splits)
  have rows: "app_rows d1 ?t2 = app_rows d ?t2" using assms(2) by (simp add: app_rows_def d1)
  then have "count_apps d1 ?t2 = count_apps d ?t2"
    using assms(2) by (simp add: count_apps_def reserved_ids_def inflight_unreserved_def d1 queued_row_def)
  with quota tenant_plan_frame [OF d1(3,4)]
  have "is_platform_scope d1 ?t2 \<or> count_apps d1 ?t2 + 1 \<le> resolve_max_apps d1 ?t2" by simp
  then obtain d3 where "check_and_reserve d1 ?t2 project (plan_allocation cf d1 ?t2) name2 = Inr d3"
    and d3: "db_resources d3 = db_resources d1 @ [reservation ?t2 project (plan_allocation cf d1 ?t2) name2]"
    by (auto simp: check_and_reserve_Inr)
  moreover have "\<not> list_ex (app_row t2 project) (db_resources d1)"
    using free assms(2) by (auto simp: d1 app_row_def)
  ultimately have "start_deploy cf d1 i2 n2 t2 g2 r2 name2 p2 =
      Inr ((i2, RunDeploy i2 t2 g2 r2 project p2 None), add_deployment (queued_row i2 n2 t2 project g2 r2 p2) d3)"
    using acts assms(3) p by (simp add: start_deploy_def Let_def)
  moreover have "list_ex (app_row t1 project) (db_resources d3)" "list_ex (app_row t2 project) (db_resources d3)"
    by (simp_all add: d3 d1 app_row_def)
  ultimately show ?thesis by (simp add: add_deployment_def)
qed

lemma tenants_share_a_stack_witness:
  "\<exists>d1 d3. start_deploy demo_cf empty_db ''d1'' 0 (Some ''t1'') ''g'' ''main'' ''Blog'' 80 =
      Inr ((''d1'', RunDeploy ''d1'' (Some ''t1'') ''g'' ''main'' ''blog'' 80 None), d1) \<and>
     start_deploy demo_cf d1 ''d2'' 1 (Some ''t2'') ''h'' ''main'' ''blog!'' 81 =
      Inr ((''d2'', RunDeploy ''d2'' (Some ''t2'') ''h'' ''main'' ''blog'' 81 None), d3)"
proof -
  let ?s1 = "start_deploy demo_cf empty_db ''d1'' 0 (Some ''t1'') ''g'' ''main'' ''Blog'' 80"
  let ?s2 = "start_deploy demo_cf empty_db ''d2'' 1 (Some ''t2'') ''h'' ''main'' ''blog!'' 81"
  have n: "sanitize_project_name ''Blog'' = ''blog''" "sanitize_project_name ''blog!'' = ''blog''" by code_simp+
  have free: "\<exists>d'. check_and_reserve empty_db t ''blog'' a n = Inr d'" for t a n
    by (simp add: check_and_reserve_Inr count_apps_def reserved_ids_def inflight_unreserved_def app_rows_def
        empty_db_def resolve_max_apps_def resolve_plan_def get_tenant_def get_default_plan_def DEFAULT_FREE_MAX_APPS_def)
  have acts: "require_deploy_actions demo_cf = Inr ()" by (simp add: require_deploy_actions_def demo_cf_def)
  have none: "db_resources empty_db = []" by (simp add: empty_db_def)
  obtain d1 where 1: "?s1 = Inr ((''d1'', RunDeploy ''d1'' (Some ''t1'') ''g'' ''main'' ''blog'' 80 None), d1)"
    using free [of "''t1''" "plan_allocation demo_cf empty_db ''t1''" "''Blog''"] by (auto simp: start_deploy_def n acts none Let_def)
  obtain d2 where 2: "?s2 = Inr ((''d2'', RunDeploy ''d2'' (Some ''t2'') ''h'' ''main'' ''blog'' 81 None), d2)"
    using free [of "''t2''" "plan_allocation demo_cf empty_db ''t2''" "''blog!''"] by (auto simp: start_deploy_def n acts none Let_def)
  have "or_empty (Some ''t1'') \<noteq> or_empty (Some ''t2'')" "sanitize_project_name ''blog!'' = sanitize_project_name ''Blog''"
    by (simp_all add: n)
  from tenants_share_a_stack [OF 1 this 2] 1 show ?thesis by blast
qed

section \<open>Environment round trip\<close>

lemma fold_dict_set:
  "map_of (fold (\<lambda>e m. dict_set (ev_key e) (f e) m) es m0) k =
     (case find (\<lambda>e. ev_key e = k) (rev es) of None \<Rightarrow> map_of m0 k | Some e \<Rightarrow> Some (f e))"
proof (induction es arbitrary: m0)
  case (Cons e es)
  show ?case by (simp add: Cons.IH find_append split: option.splits)
qed simp

lemma env_map_lookup:
  "map_of (env_map_for_deploy fernet d tid project) k =
     map_option (\<lambda>e. decrypt fernet (ev_value e)) (find (env_row tid project k) (rev (db_envs d)))"
proof -
  have "find (\<lambda>e. ev_key e = k) (rev (filter (\<lambda>e. ev_tenant e = or_empty tid \<and> ev_project e = project) xs)) =
      find (env_row tid project k) (rev xs)" for xs
    by (induction xs) (auto simp: find_append env_row_def split: option.splits)
  then show ?thesis by (simp add: env_map_for_deploy_def fold_dict_set split: option.splits)
qed

lemma find_rev_upd_where:
  assumes "list_ex p xs" and "\<And>x. p x \<Longrightarrow> p (f x)"
  shows "\<exists>x. p x \<and> find p (rev (upd_where p f xs)) = Some (f x)"
  using assms(1)
proof (induction xs)
  case (Cons x xs)
  show ?case
  proof (cases "list_ex p xs")
    case True
    with Cons.IH show ?thesis by (auto simp: find_append)
  next
    case False
    then have n: "\<forall>y\<in>set xs. \<not> p y" by (auto simp: list_ex_iff)
    then have "find p (rev (upd_where p f xs)) = None" by (simp add: find_None upd_where_none)
    moreover have "p x" using Cons.prems False by simp
    ultimately show ?thesis using assms(2) by (auto simp: find_append)
  qed
qed simp

lemma env_row_key: "env_row tid project k e \<Longrightarrow> env_row tid' project' k' e \<Longrightarrow>
    or_empty tid' = or_empty tid \<and> project' = project \<and> k' = k"
  by (auto simp: env_row_def)

text \<open>
  What a tenant stores is what its app gets: after setting a variable, the environment of the
  next deployment of that project has exactly that value for it, every other variable of the
  project is as before, and so is the environment of every other project and tenant. (Fernet
  must decrypt what it encrypted, and a ciphertext is not empty.)
\<close>

theorem env_reaches_the_app:
  assumes "fernet (encrypt val) = Some val" and "encrypt val \<noteq> []"
  shows "map_of (env_map_for_deploy fernet (set_env encrypt d tid project key val secret build_time) tid2 project2) k =
    (if or_empty tid2 = or_empty tid \<and> project2 = project \<and> k = key then Some val
     else map_of (env_map_for_deploy fernet d tid2 project2) k)"
proof -
  let ?p = "env_row tid project key" and ?q = "env_row tid2 project2 k"
  let ?f = "\<lambda>e. e\<lparr>ev_value := encrypt val, ev_secret := secret, ev_build := build_time\<rparr>"
  have f: "env_row t p q (?f e) = env_row t p q e" for t p q e by (simp add: env_row_def)
  have dec: "decrypt fernet (encrypt val) = val" using assms by (simp add: decrypt_def)
  show ?thesis
  proof (cases "or_empty tid2 = or_empty tid \<and> project2 = project \<and> k = key")
    case True
    then have q: "?q = ?p" by (auto simp: env_row_def fun_eq_iff)
    show ?thesis
    proof (cases "list_ex ?p (db_envs d)")
      case ex: True
      from find_rev_upd_where [OF ex, of ?f] f obtain e where "find ?p (rev (upd_where ?p ?f (db_envs d))) = Some (?f e)" by blast
      with True ex q dec show ?thesis by (simp add: env_map_lookup set_env_def)
    next
      case ex: False
      with True q dec show ?thesis by (simp add: env_map_lookup set_env_def) (simp add: env_row_def)
    qed
  next
    case False
    have "find ?q (rev (upd_where ?p ?f xs)) = find ?q (rev xs)" for xs
      using False env_row_key [of tid project key _ tid2 project2 k] f by (induction xs) (auto simp: find_append split: option.splits)
    with False show ?thesis by (auto simp: env_map_lookup set_env_def env_row_def)
  qed
qed

lemma env_reaches_the_app_witness:
  "map_of (env_map_for_deploy (\<lambda>c. Some (tl c)) (set_env (Cons CHR ''x'') empty_db (Some ''t'') ''web'' ''A'' ''1'' True False)
     (Some ''t'') ''web'') ''A'' = Some ''1''"
  using env_reaches_the_app [of "\<lambda>c. Some (tl c)" "Cons CHR ''x''" "''1''" empty_db "Some ''t''" "''web''" "''A''" True False
      "Some ''t''" "''web''" "''A''"] by simp

end
