(* ===== verification/Monitoring.thy ===== *)
theory Monitoring
  imports Cron "HOL-Library.Multiset"
begin

text \<open>
  Uptime monitors (\<^verbatim>\<open>services/uptime.py\<close>) and outbound notifications
  (\<^verbatim>\<open>services/notifications.py\<close>). The HTTP client and the JSON encoder are parameters. A
  request gives a status, fails with an \<open>httpx.HTTPError\<close> (or an OSError) that the code
  catches, or raises another exception, such as \<open>httpx.InvalidURL\<close>, which escapes.
\<close>

section \<open>Notification channels\<close>

definition normalize_events :: "string option \<Rightarrow> string" where
  "normalize_events ev =
     (let v = py_strip (str_or (or_empty ev) ''*'') in
      if v = [] \<or> v = ''*'' then ''*''
      else str_or (join '','' (filter (\<lambda>p. p \<noteq> []) (map py_strip (split_on (CHR '','') v)))) ''*'')"

definition create_channel ::
  "db \<Rightarrow> string \<Rightarrow> string \<Rightarrow> int \<Rightarrow> string \<Rightarrow> string \<Rightarrow> string \<Rightarrow> string option \<Rightarrow> notification_channel \<times> db" where
  "create_channel d new_id random now tid nm url ev =
     (let c = \<lparr>ch_id = new_id, ch_tenant = tid, ch_name = py_strip nm, ch_url = py_strip url,
               ch_secret = ''whsec_'' @ random, ch_events = normalize_events ev, ch_enabled = True,
               ch_delivered = None, ch_last_status = [], ch_created = now\<rparr>
      in (c, d\<lparr>db_channels := db_channels d @ [c]\<rparr>))"

definition list_channels :: "db \<Rightarrow> string \<Rightarrow> notification_channel list" where
  "list_channels d tid = sort_key (\<lambda>c. - ch_created c) (filter (\<lambda>c. ch_tenant c = tid) (db_channels d))"

definition get_channel :: "db \<Rightarrow> string \<Rightarrow> string \<Rightarrow> notification_channel option" where
  "get_channel d tid cid =
     (case find (\<lambda>c. ch_id c = cid) (db_channels d) of
        None \<Rightarrow> None
      | Some c \<Rightarrow> if ch_tenant c \<noteq> tid then None else Some c)"

definition delete_channel :: "db \<Rightarrow> string \<Rightarrow> string \<Rightarrow> bool \<times> db" where
  "delete_channel d tid cid =
     (case get_channel d tid cid of
        None \<Rightarrow> (False, d)
      | Some c \<Rightarrow> (True, d\<lparr>db_channels := filter (\<lambda>c. ch_id c \<noteq> cid) (db_channels d)\<rparr>))"

definition subscribed :: "notification_channel \<Rightarrow> string \<Rightarrow> bool" where
  "subscribed c ev =
     (if \<not> ch_enabled c then False
      else if py_strip (ch_events c) = ''*'' then True
      else ev \<in> set (filter (\<lambda>e. e \<noteq> []) (map py_strip (split_on (CHR '','') (ch_events c)))))"

record sent_event =
  se_channel :: string
  se_url :: string
  se_event :: string
  se_body :: string
  se_signature :: string

definition deliver ::
  "(string \<Rightarrow> string \<Rightarrow> string) \<Rightarrow> (string \<Rightarrow> 'p \<Rightarrow> string) \<Rightarrow> (sent_event \<Rightarrow> http_outcome) \<Rightarrow> db \<Rightarrow> int \<Rightarrow>
   notification_channel \<Rightarrow> string \<Rightarrow> 'p \<Rightarrow> sent_event \<times> (bool \<times> string \<times> db) result" where
  "deliver hmac encode post d now c ev payload =
     (let body = encode ev payload;
          e = \<lparr>se_channel = ch_id c, se_url = ch_url c, se_event = ev, se_body = body,
               se_signature = ''sha256='' @ hmac (ch_secret c) body\<rparr>;
          finish = (\<lambda>ok label. Inr (ok, label, d\<lparr>db_channels := upd_where (\<lambda>x. ch_id x = ch_id c)
             (\<lambda>x. x\<lparr>ch_delivered := Some now, ch_last_status := label\<rparr>) (db_channels d)\<rparr>))
      in (e, case post e of
               HttpRaised x \<Rightarrow> Inl x
             | HttpFailed m \<Rightarrow> finish False ''unreachable''
             | HttpStatus st \<Rightarrow> if 200 \<le> st \<and> st < 300 then finish True ''ok''
                              else finish False (''http '' @ int_str st)))"

text \<open>The loop of \<open>dispatch\<close>: the events sent, and the database unless a delivery raised.\<close>

fun deliver_all ::
  "(string \<Rightarrow> string \<Rightarrow> string) \<Rightarrow> (string \<Rightarrow> 'p \<Rightarrow> string) \<Rightarrow> (sent_event \<Rightarrow> http_outcome) \<Rightarrow> db \<Rightarrow> int \<Rightarrow>
   notification_channel list \<Rightarrow> string \<Rightarrow> 'p \<Rightarrow> sent_event list \<times> db result" where
  "deliver_all hmac encode post d now [] ev payload = ([], Inr d)"
| "deliver_all hmac encode post d now (c # cs) ev payload =
     (case deliver hmac encode post d now c ev payload of
        (e, Inl x) \<Rightarrow> ([e], Inl x)
      | (e, Inr (_, _, d1)) \<Rightarrow>
          (let (es, r) = deliver_all hmac encode post d1 now cs ev payload in (e # es, r)))"

definition dispatch ::
  "(string \<Rightarrow> string \<Rightarrow> string) \<Rightarrow> (string \<Rightarrow> 'p \<Rightarrow> string) \<Rightarrow> (sent_event \<Rightarrow> http_outcome) \<Rightarrow> db \<Rightarrow> int \<Rightarrow>
   string \<Rightarrow> string \<Rightarrow> 'p \<Rightarrow> sent_event list \<times> db result" where
  "dispatch hmac encode post d now tid ev payload =
     deliver_all hmac encode post d now (filter (\<lambda>c. subscribed c ev) (list_channels d tid)) ev payload"

lemma deliver_all_channels:
  "deliver_all hmac encode post d now cs ev payload = (es, Inr d') \<Longrightarrow> \<exists>xs. d' = d\<lparr>db_channels := xs\<rparr>"
proof (induction cs arbitrary: d es)
  case Nil
  then have "d' = d\<lparr>db_channels := db_channels d\<rparr>" by simp
  then show ?case by blast
next
  case (Cons c cs)
  then obtain e ok l d1 es1 where d1: "deliver hmac encode post d now c ev payload = (e, Inr (ok, l, d1))"
    "deliver_all hmac encode post d1 now cs ev payload = (es1, Inr d')"
    by (auto split: prod.splits sum.splits)
  from d1(1) obtain ys where "d1 = d\<lparr>db_channels := ys\<rparr>"
    by (auto simp: deliver_def Let_def split: http_outcome.splits if_splits)
  moreover from Cons.IH [OF d1(2)] obtain xs where "d' = d1\<lparr>db_channels := xs\<rparr>" by blast
  ultimately have "d' = d\<lparr>db_channels := xs\<rparr>" by simp
  then show ?case by blast
qed

lemma dispatch_channels:
  assumes "dispatch hmac encode post d now tid ev payload = (es, r)"
  shows "\<exists>cs. (case r of Inl _ \<Rightarrow> d | Inr d' \<Rightarrow> d') = d\<lparr>db_channels := cs\<rparr>"
proof (cases r)
  case (Inl x)
  then have "(case r of Inl _ \<Rightarrow> d | Inr d' \<Rightarrow> d') = d\<lparr>db_channels := db_channels d\<rparr>" by simp
  then show ?thesis by blast
next
  case (Inr d')
  with assms deliver_all_channels [of hmac encode post d now _ ev payload es d'] show ?thesis
    by (auto simp: dispatch_def)
qed

section \<open>Uptime monitors\<close>

definition list_monitors :: "db \<Rightarrow> string \<Rightarrow> uptime_monitor list" where
  "list_monitors d tid = sort_key (\<lambda>m. - um_created m) (filter (\<lambda>m. um_tenant m = tid) (db_monitors d))"

definition get_monitor :: "db \<Rightarrow> string \<Rightarrow> string \<Rightarrow> uptime_monitor option" where
  "get_monitor d tid mid =
     (case find (\<lambda>m. um_id m = mid) (db_monitors d) of
        None \<Rightarrow> None
      | Some m \<Rightarrow> if um_tenant m \<noteq> tid then None else Some m)"

definition create_monitor :: "db \<Rightarrow> string \<Rightarrow> int \<Rightarrow> string \<Rightarrow> string \<Rightarrow> string \<Rightarrow> uptime_monitor \<times> db" where
  "create_monitor d new_id now tid nm url =
     (let m = \<lparr>um_id = new_id, um_tenant = tid, um_name = py_strip nm, um_url = py_strip url,
               um_enabled = True, um_status = UPTIME_UNKNOWN, um_checked = None, um_latency = 0,
               um_detail = [], um_created = now\<rparr>
      in (m, d\<lparr>db_monitors := db_monitors d @ [m]\<rparr>))"

definition delete_monitor :: "db \<Rightarrow> string \<Rightarrow> string \<Rightarrow> bool \<times> db" where
  "delete_monitor d tid mid =
     (case get_monitor d tid mid of
        None \<Rightarrow> (False, d)
      | Some m \<Rightarrow> (True, d\<lparr>db_monitors := filter (\<lambda>m. um_id m \<noteq> mid) (db_monitors d)\<rparr>))"

text \<open>\<open>get\<close> answers with the latency in milliseconds and the outcome.\<close>

definition probe :: "(string \<Rightarrow> int \<times> http_outcome) \<Rightarrow> string \<Rightarrow> (uptime_status \<times> int \<times> string) result" where
  "probe get url =
     (case get url of
        (ms, HttpStatus st) \<Rightarrow> Inr (if st < 400 then UPTIME_UP else UPTIME_DOWN, ms, ''HTTP '' @ int_str st)
      | (ms, HttpFailed m) \<Rightarrow> Inr (UPTIME_DOWN, ms, str_or (take 255 m) ''unreachable'')
      | (ms, HttpRaised x) \<Rightarrow> Inl x)"

definition should_alert :: "uptime_status \<Rightarrow> uptime_status \<Rightarrow> bool" where
  "should_alert previous current =
     (if current = previous then False else \<not> (previous = UPTIME_UNKNOWN \<and> current = UPTIME_UP))"

datatype uptime_alert = APP_DOWN | APP_UP

definition alert_for :: "uptime_status \<Rightarrow> uptime_status \<Rightarrow> uptime_alert option" where
  "alert_for previous current =
     (if should_alert previous current then Some (if current = UPTIME_DOWN then APP_DOWN else APP_UP) else None)"

text \<open>
  \<open>notify\<close> is the dispatch to the tenant's channels; whatever it raises is swallowed. The
  result carries the alert that was dispatched.
\<close>

definition check_one ::
  "(string \<Rightarrow> int \<times> http_outcome) \<Rightarrow> (db \<Rightarrow> string \<Rightarrow> uptime_alert \<Rightarrow> db result) \<Rightarrow> db \<Rightarrow> int \<Rightarrow> uptime_monitor \<Rightarrow>
   (uptime_status \<times> uptime_alert option \<times> db) result" where
  "check_one get notify d now m =
     (case probe get (um_url m) of
        Inl e \<Rightarrow> Inl e
      | Inr (current, latency, detail) \<Rightarrow>
         (let d1 = d\<lparr>db_monitors := upd_where (\<lambda>x. um_id x = um_id m)
                (\<lambda>x. x\<lparr>um_status := current, um_checked := Some now, um_latency := latency, um_detail := detail\<rparr>)
                (db_monitors d)\<rparr>
          in case alert_for (um_status m) current of
               None \<Rightarrow> Inr (current, None, d1)
             | Some ev \<Rightarrow> Inr (current, Some ev,
                 case notify d1 (um_tenant m) ev of Inl _ \<Rightarrow> d1 | Inr d2 \<Rightarrow> d2)))"

fun check_all ::
  "(string \<Rightarrow> int \<times> http_outcome) \<Rightarrow> (db \<Rightarrow> string \<Rightarrow> uptime_alert \<Rightarrow> db result) \<Rightarrow> db \<Rightarrow> int \<Rightarrow> uptime_monitor list \<Rightarrow>
   db result" where
  "check_all get notify d now [] = Inr d"
| "check_all get notify d now (m # ms) =
     (case check_one get notify d now m of
        Inl e \<Rightarrow> Inl e
      | Inr (_, _, d1) \<Rightarrow> check_all get notify d1 now ms)"

definition run_all_due ::
  "(string \<Rightarrow> int \<times> http_outcome) \<Rightarrow> (db \<Rightarrow> string \<Rightarrow> uptime_alert \<Rightarrow> db result) \<Rightarrow> db \<Rightarrow> int \<Rightarrow> (nat \<times> db) result" where
  "run_all_due get notify d now =
     (let ms = filter um_enabled (db_monitors d) in
      map_sum id (\<lambda>d1. (length ms, d1)) (check_all get notify d now ms))"

text \<open>\<open>scheduler_loop\<close> catches what the tick raises; its session is rolled back.\<close>

definition uptime_tick ::
  "(string \<Rightarrow> int \<times> http_outcome) \<Rightarrow> (db \<Rightarrow> string \<Rightarrow> uptime_alert \<Rightarrow> db result) \<Rightarrow> db \<Rightarrow> int \<Rightarrow> db" where
  "uptime_tick get notify d now =
     (case run_all_due get notify d now of Inl _ \<Rightarrow> d | Inr (_, d1) \<Rightarrow> d1)"

section \<open>Alerts of one monitor over time\<close>

fun alerts_from :: "uptime_status \<Rightarrow> uptime_status list \<Rightarrow> uptime_alert list" where
  "alerts_from prev [] = []"
| "alerts_from prev (s # ss) =
     (case alert_for prev s of None \<Rightarrow> alerts_from s ss | Some a \<Rightarrow> a # alerts_from s ss)"

fun alternating :: "uptime_alert \<Rightarrow> uptime_alert list \<Rightarrow> bool" where
  "alternating next [] = True"
| "alternating next (a # as) = (a = next \<and> alternating (if next = APP_DOWN then APP_UP else APP_DOWN) as)"

lemma alerts_alternate:
  "set ss \<subseteq> {UPTIME_UP, UPTIME_DOWN} \<Longrightarrow>
   alternating (if prev = UPTIME_DOWN then APP_UP else APP_DOWN) (alerts_from prev ss)"
proof (induction ss arbitrary: prev)
  case (Cons s ss)
  then have "alternating (if s = UPTIME_DOWN then APP_UP else APP_DOWN) (alerts_from s ss)" by simp
  with Cons.prems show ?case
    by (cases prev; cases s; simp add: alert_for_def should_alert_def)
qed simp

lemma probe_status: "probe get url = Inr (s, ms, t) \<Longrightarrow> s \<in> {UPTIME_UP, UPTIME_DOWN}"
  by (auto simp: probe_def split: prod.splits http_outcome.splits if_splits)

text \<open>Successive checks of one monitor: each reads the status the previous one stored.\<close>

fun check_series ::
  "(string \<Rightarrow> int \<times> http_outcome) list \<Rightarrow> uptime_monitor \<Rightarrow> uptime_alert list \<times> uptime_status" where
  "check_series [] m = ([], um_status m)"
| "check_series (g # gs) m =
     (case check_one g (\<lambda>d _ _. Inr d) (empty_db\<lparr>db_monitors := [m]\<rparr>) 0 m of
        Inl e \<Rightarrow> check_series gs m
      | Inr (s, a, _) \<Rightarrow>
         (let (as, last_s) = check_series gs (m\<lparr>um_status := s\<rparr>) in
          (case a of None \<Rightarrow> as | Some x \<Rightarrow> x # as, last_s)))"

lemma check_one_Inr:
  assumes "check_one get notify d now m = Inr (s, a, d1)"
  shows "\<exists>ms t. probe get (um_url m) = Inr (s, ms, t) \<and> a = alert_for (um_status m) s"
  using assms by (auto simp: check_one_def Let_def split: sum.splits option.splits)

lemma check_series_alternates:
  "alternating (if um_status m = UPTIME_DOWN then APP_UP else APP_DOWN) (fst (check_series gs m))"
proof (induction gs arbitrary: m)
  case (Cons g gs)
  show ?case
  proof (cases "check_one g (\<lambda>d _ _. Inr d) (empty_db\<lparr>db_monitors := [m]\<rparr>) 0 m")
    case (Inl e)
    with Cons show ?thesis by simp
  next
    case (Inr q)
    obtain s a d1 where q: "q = (s, a, d1)" by (metis prod_cases3)
    with Inr check_one_Inr [of g "\<lambda>d _ _. Inr d" "empty_db\<lparr>db_monitors := [m]\<rparr>" 0 m s a d1] obtain ms t where
      p: "probe g (um_url m) = Inr (s, ms, t)" and a: "a = alert_for (um_status m) s" by auto
    obtain as l where r: "check_series gs (m\<lparr>um_status := s\<rparr>) = (as, l)" by force
    have IH: "alternating (if s = UPTIME_DOWN then APP_UP else APP_DOWN) as"
      using Cons.IH [of "m\<lparr>um_status := s\<rparr>"] r by simp
    have "s \<in> {UPTIME_UP, UPTIME_DOWN}" using p by (rule probe_status)
    with Inr q r a IH show ?thesis
      by (cases "um_status m"; cases s; simp add: alert_for_def should_alert_def)
  qed
qed simp

section \<open>Facts about deliveries\<close>

lemma deliver_all_sent:
  "e \<in> set (fst (deliver_all hmac encode post d now cs ev payload)) \<Longrightarrow>
   \<exists>c\<in>set cs. e = \<lparr>se_channel = ch_id c, se_url = ch_url c, se_event = ev, se_body = encode ev payload,
     se_signature = ''sha256='' @ hmac (ch_secret c) (encode ev payload)\<rparr>"
proof (induction cs arbitrary: d)
  case (Cons c cs)
  obtain x r where x: "deliver hmac encode post d now c ev payload = (x, r)" by force
  then have c: "x = \<lparr>se_channel = ch_id c, se_url = ch_url c, se_event = ev, se_body = encode ev payload,
      se_signature = ''sha256='' @ hmac (ch_secret c) (encode ev payload)\<rparr>"
    by (auto simp: deliver_def Let_def)
  show ?case
  proof (cases r)
    case (Inl y)
    with Cons.prems x c show ?thesis by simp
  next
    case (Inr q)
    obtain ok label d1 where q: "q = (ok, label, d1)" by (metis prod_cases3)
    with Cons.prems x Inr have "e = x \<or> e \<in> set (fst (deliver_all hmac encode post d1 now cs ev payload))"
      by (auto split: prod.splits)
    with Cons.IH c show ?thesis by auto
  qed
qed simp

lemma deliver_channels:
  assumes "deliver hmac encode post d now c ev payload = (e, Inr (ok, label, d1))"
  shows "\<exists>f. d1 = d\<lparr>db_channels := upd_where (\<lambda>x. ch_id x = ch_id c) f (db_channels d)\<rparr> \<and>
    (\<forall>x. ch_id (f x) = ch_id x \<and> ch_tenant (f x) = ch_tenant x \<and> ch_secret (f x) = ch_secret x)"
  using assms
  by (auto simp: deliver_def Let_def split: http_outcome.splits if_splits)

lemma deliver_all_total:
  assumes "\<And>e. \<nexists>m. post e = HttpRaised m"
  shows "\<exists>d1. snd (deliver_all hmac encode post d now cs ev payload) = Inr d1 \<and>
    map se_channel (fst (deliver_all hmac encode post d now cs ev payload)) = map ch_id cs"
proof (induction cs arbitrary: d)
  case (Cons c cs)
  obtain e r where de: "deliver hmac encode post d now c ev payload = (e, r)" by force
  have e: "se_channel e = ch_id c" and "\<not> isl r"
    using de assms by (auto simp: deliver_def Let_def split: http_outcome.splits if_splits)
  then obtain ok label d1 where r: "r = Inr (ok, label, d1)" by (cases r) auto
  from Cons [of d1] e de r show ?case by (auto split: prod.splits)
qed simp

section \<open>Properties\<close>

text \<open>
  Alerts of a monitor strictly alternate: whatever the probes answer over time, the alerts
  of a monitor go down, up, down, up, starting with down unless it is already down; a monitor
  that is first seen up is silent.
\<close>

theorem uptime_alerts_alternate:
  shows "alternating (if um_status m = UPTIME_DOWN then APP_UP else APP_DOWN) (fst (check_series gs m))"
  by (rule check_series_alternates)

lemma invalid_monitor_url_stops_all_probes_facts:
  assumes "m \<in> set (db_monitors d)" and "um_enabled m" and "get (um_url m) = (ms, HttpRaised why)"
  shows "isl (run_all_due get notify d now)" and "uptime_tick get notify d now = d"
proof -
  have "isl (check_all get notify d' now xs)" if "m \<in> set xs" for d' xs
    using that
  proof (induction xs arbitrary: d')
    case (Cons x xs)
    show ?case
    proof (cases "x = m")
      case True
      with assms(3) show ?thesis by (simp add: check_one_def probe_def)
    next
      case False
      with Cons show ?thesis by (auto split: sum.split)
    qed
  qed simp
  with assms show l: "isl (run_all_due get notify d now)"
    by (auto simp: run_all_due_def Let_def isl_map_sum)
  then show "uptime_tick get notify d now = d"
    by (cases "run_all_due get notify d now") (auto simp: uptime_tick_def)
qed

text \<open>
  One bad URL stops uptime monitoring for everybody: a monitor whose URL httpx rejects as
  invalid makes the probe raise, and the whole tick is rolled back, so no monitor of any tenant
  is updated and no alert is recorded.
\<close>

theorem invalid_monitor_url_stops_all_probes:
  assumes "m \<in> set (db_monitors d)" and "um_enabled m" and "get (um_url m) = (ms, HttpRaised why)"
  shows "(isl (run_all_due get notify d now)) \<and>
     (uptime_tick get notify d now = d)"
proof -
  have 1: "isl (run_all_due get notify d now)"
    by ((intro impI)?, rule invalid_monitor_url_stops_all_probes_facts(1); (assumption | rule assms))
  have 2: "uptime_tick get notify d now = d"
    by ((intro impI)?, rule invalid_monitor_url_stops_all_probes_facts(2); (assumption | rule assms))
  show ?thesis by (rule conjI [OF 1 2])
qed

definition demo_monitors_db :: db where
  "demo_monitors_db = snd (create_monitor (snd (create_monitor empty_db ''m1'' 0 ''t1'' ''web'' ''https://up.example''))
     ''m2'' 0 ''t2'' ''bad'' ''http://x:port'')"

definition demo_get :: "string \<Rightarrow> int \<times> http_outcome" where
  "demo_get url = (5, if url = ''http://x:port'' then HttpRaised (OtherError ''InvalidURL'') else HttpStatus 200)"

lemma invalid_monitor_url_stops_all_probes_witness:
  "uptime_tick demo_get (\<lambda>d _ _. Inr d) demo_monitors_db 60 = demo_monitors_db \<and>
   map um_status (db_monitors demo_monitors_db) = [UPTIME_UNKNOWN, UPTIME_UNKNOWN]"
proof -
  let ?m = "fst (create_monitor empty_db ''m2'' 0 ''t2'' ''bad'' ''http://x:port'')"
  have m: "?m \<in> set (db_monitors demo_monitors_db)" by (simp add: demo_monitors_db_def create_monitor_def Let_def)
  have u: "um_url ?m = ''http://x:port''" "um_enabled ?m" by code_simp+
  have g: "demo_get (um_url ?m) = (5, HttpRaised (OtherError ''InvalidURL''))" unfolding u by (simp add: demo_get_def)
  have s: "map um_status (db_monitors demo_monitors_db) = [UPTIME_UNKNOWN, UPTIME_UNKNOWN]" by code_simp
  show ?thesis using invalid_monitor_url_stops_all_probes [where get = demo_get, OF m u(2) g] s by simp
qed

lemma dispatch_reaches_exactly_subscribers_facts:
  shows "e \<in> set (fst (dispatch hmac encode post d now tid ev payload)) \<Longrightarrow>
      \<exists>c\<in>set (db_channels d). ch_tenant c = tid \<and> ch_enabled c \<and> subscribed c ev \<and> se_url e = ch_url c \<and>
        se_body e = encode ev payload \<and> se_signature e = ''sha256='' @ hmac (ch_secret c) (encode ev payload)"
    and "(\<And>e. \<nexists>m. post e = HttpRaised m) \<Longrightarrow>
      mset (map se_channel (fst (dispatch hmac encode post d now tid ev payload))) =
      mset (map ch_id (filter (\<lambda>c. ch_tenant c = tid \<and> subscribed c ev) (db_channels d)))"
proof -
  assume "e \<in> set (fst (dispatch hmac encode post d now tid ev payload))"
  from deliver_all_sent [OF this [unfolded dispatch_def]]
  obtain c where "c \<in> set (filter (\<lambda>c. subscribed c ev) (list_channels d tid))" and
    e: "e = \<lparr>se_channel = ch_id c, se_url = ch_url c, se_event = ev, se_body = encode ev payload,
      se_signature = ''sha256='' @ hmac (ch_secret c) (encode ev payload)\<rparr>" by blast
  then have "c \<in> set (db_channels d)" "ch_tenant c = tid" "subscribed c ev"
    by (auto simp: list_channels_def)
  moreover from this(3) have "ch_enabled c" by (auto simp: subscribed_def split: if_splits)
  ultimately show "\<exists>c\<in>set (db_channels d). ch_tenant c = tid \<and> ch_enabled c \<and> subscribed c ev \<and> se_url e = ch_url c \<and>
        se_body e = encode ev payload \<and> se_signature e = ''sha256='' @ hmac (ch_secret c) (encode ev payload)"
    using e by auto
next
  assume "\<And>e. \<nexists>m. post e = HttpRaised m"
  note tot = deliver_all_total [where post = post, OF this]
  have "map se_channel (fst (dispatch hmac encode post d now tid ev payload)) =
      map ch_id (filter (\<lambda>c. subscribed c ev) (list_channels d tid))"
    unfolding dispatch_def using tot [of hmac encode d now _ ev payload] by auto
  then show "mset (map se_channel (fst (dispatch hmac encode post d now tid ev payload))) =
      mset (map ch_id (filter (\<lambda>c. ch_tenant c = tid \<and> subscribed c ev) (db_channels d)))"
    unfolding list_channels_def filter_sort filter_filter by (simp only: mset_map mset_sort)
qed

text \<open>
  Notifications stay in the tenant: an event is sent only to enabled channels of that
  tenant that subscribe to it, each with the encoded event and its signature under the
  channel's own secret; and unless a URL is invalid, every such channel gets it exactly once.
\<close>

theorem dispatch_reaches_exactly_subscribers:
  shows "(e \<in> set (fst (dispatch hmac encode post d now tid ev payload)) \<longrightarrow>
      (\<exists>c\<in>set (db_channels d). ch_tenant c = tid \<and> ch_enabled c \<and> subscribed c ev \<and> se_url e = ch_url c \<and>
        se_body e = encode ev payload \<and> se_signature e = ''sha256='' @ hmac (ch_secret c) (encode ev payload))) \<and>
     ((\<forall>e m. post e \<noteq> HttpRaised m) \<longrightarrow>
      mset (map se_channel (fst (dispatch hmac encode post d now tid ev payload))) =
      mset (map ch_id (filter (\<lambda>c. ch_tenant c = tid \<and> subscribed c ev) (db_channels d))))"
proof -
  have 1: "e \<in> set (fst (dispatch hmac encode post d now tid ev payload)) \<longrightarrow>
      (\<exists>c\<in>set (db_channels d). ch_tenant c = tid \<and> ch_enabled c \<and> subscribed c ev \<and> se_url e = ch_url c \<and>
        se_body e = encode ev payload \<and> se_signature e = ''sha256='' @ hmac (ch_secret c) (encode ev payload))"
    by ((intro impI)?, rule dispatch_reaches_exactly_subscribers_facts(1); (assumption))
  have 2: "(\<forall>e m. post e \<noteq> HttpRaised m) \<longrightarrow>
      mset (map se_channel (fst (dispatch hmac encode post d now tid ev payload))) =
      mset (map ch_id (filter (\<lambda>c. ch_tenant c = tid \<and> subscribed c ev) (db_channels d)))"
    by ((intro impI)?, rule dispatch_reaches_exactly_subscribers_facts(2), blast)
  show ?thesis by (rule conjI [OF 1 2])
qed

lemma dispatch_reaches_exactly_subscribers_witness:
  "mset (map se_channel (fst (dispatch (\<lambda>k b. k) (\<lambda>e p. e) (\<lambda>_. HttpStatus 200)
      (snd (create_channel (snd (create_channel empty_db ''c1'' ''s1'' 0 ''t1'' ''n'' ''u'' (Some '' test , x'')))
         ''c2'' ''s2'' 0 ''t2'' ''n'' ''u'' None)) 1 ''t1'' ''test'' ()))) = {#''c1''#}"
proof -
  let ?d = "snd (create_channel (snd (create_channel empty_db ''c1'' ''s1'' 0 ''t1'' ''n'' ''u'' (Some '' test , x'')))
         ''c2'' ''s2'' 0 ''t2'' ''n'' ''u'' None)"
  have f: "map ch_id (filter (\<lambda>c. ch_tenant c = ''t1'' \<and> subscribed c ''test'') (db_channels ?d)) = [''c1'']"
    by code_simp
  show ?thesis
    using dispatch_reaches_exactly_subscribers [where post = "\<lambda>_. HttpStatus 200" and hmac = "\<lambda>k b. k" and encode = "\<lambda>e p. e"
        and d = ?d and now = 1 and tid = "''t1''" and ev = "''test''" and payload = "()"] f by simp
qed

end
