(* ===== verification/DeployTask.thy ===== *)
theory DeployTask
  imports Deploys Monitoring
begin

text \<open>
  The background half of deployments (\<^verbatim>\<open>modules/deploys/service.py\<close>): the build task, the rollback
  task, image retention and the removal of preview stacks. A task opens many short database
  sessions and other requests run between them; \<open>wd_env\<close> is what they did to the database
  before each session, so every statement below holds for all interleavings. Commands go to the
  runner of \<open>Engine\<close>. Log lines are the source's with ASCII markers for its arrows and ticks;
  the throttled intermediate log writes during a build change nothing but the log column, which
  the next session overwrites, and are left out.
\<close>

section \<open>The world of a task\<close>

record world =
  wd_db :: db
  wd_cmds :: "command list"
  wd_sent :: "sent_event list"
  wd_deleted :: "string list"
  wd_env :: "(db \<Rightarrow> db) list"
  wd_log :: "string list"

type_synonym 'a task = "(world, 'a) sx"

text \<open>What a task depends on beside the world: the parameters of the components it calls.\<close>

record task_deps =
  td_cf :: settings
  td_run :: runner
  td_builder :: builder_config
  td_ports :: "string \<Rightarrow> string list option"
  td_registry :: registry
  td_load :: "string \<Rightarrow> yaml option"
  td_dump :: "yaml \<Rightarrow> string"
  td_str :: "yaml \<Rightarrow> string"
  td_fernet :: "string \<Rightarrow> string option"
  td_hmac :: "string \<Rightarrow> string \<Rightarrow> string"
  td_encode :: "string \<Rightarrow> (string \<times> string) list \<Rightarrow> string"
  td_post :: "sent_event \<Rightarrow> http_outcome"
  td_http_delete :: "string \<Rightarrow> int option"
  td_now :: int

definition opened :: "world \<Rightarrow> world" where
  "opened w = (case wd_env w of [] \<Rightarrow> w | e # es \<Rightarrow> w\<lparr>wd_db := e (wd_db w), wd_env := es\<rparr>)"

text \<open>One session: read with \<open>session_read\<close>, or change the database with \<open>session_do\<close>.\<close>

definition session_read :: "(db \<Rightarrow> 'a) \<Rightarrow> 'a task" where
  "session_read f w = (let w1 = opened w in (Inr (f (wd_db w1)), w1))"

definition session_do :: "(db \<Rightarrow> db) \<Rightarrow> unit task" where
  "session_do f w = (let w1 = opened w in (Inr (), w1\<lparr>wd_db := f (wd_db w1)\<rparr>))"

definition log_line :: "string \<Rightarrow> unit task" where
  "log_line l w = (Inr (), w\<lparr>wd_log := wd_log w @ [l]\<rparr>)"

definition command_act :: "'a act \<Rightarrow> 'a task" where
  "command_act m w = (case m (wd_cmds w) of (r, h) \<Rightarrow> (r, w\<lparr>wd_cmds := h\<rparr>))"

definition lift_result :: "'a result \<Rightarrow> 'a task" where
  "lift_result r = (case r of Inl e \<Rightarrow> act_raise e | Inr x \<Rightarrow> act_return x)"

section \<open>The deployment row\<close>

definition set_deployment :: "string \<Rightarrow> string list \<Rightarrow> (deployment \<Rightarrow> deployment) \<Rightarrow> db \<Rightarrow> db" where
  "set_deployment did ls f d =
     d\<lparr>db_deployments := upd_where (\<lambda>p. dp_id p = did) (\<lambda>p. (f p)\<lparr>dp_log := join [CHR 0x0A] ls\<rparr>)
        (db_deployments d)\<rparr>"

definition set_row :: "string \<Rightarrow> (deployment \<Rightarrow> deployment) \<Rightarrow> unit task" where
  "set_row did f w = session_do (set_deployment did (wd_log w) f) w"

definition DEPLOY_SUCCEEDED :: string where "DEPLOY_SUCCEEDED = ''deploy.succeeded''"
definition DEPLOY_FAILED :: string where "DEPLOY_FAILED = ''deploy.failed''"

definition notify_deploy ::
  "task_deps \<Rightarrow> string option \<Rightarrow> string \<Rightarrow> string \<Rightarrow> string \<Rightarrow> (string \<times> string) list \<Rightarrow> unit task" where
  "notify_deploy sv tid project did ev payload w =
     (if or_empty tid = [] then (Inr (), w)
      else (let w1 = opened w;
                (es, r) = dispatch (td_hmac sv) (td_encode sv) (td_post sv) (wd_db w1) (td_now sv) (or_empty tid) ev
                   ([(''project'', project), (''deployment_id'', did)] @ payload)
            in (Inr (), w1\<lparr>wd_sent := wd_sent w1 @ es,
                  wd_db := (case r of Inl _ \<Rightarrow> wd_db w1 | Inr d \<Rightarrow> d)\<rparr>)))"

section \<open>The compose text of an image\<close>

definition image_doc :: "string \<Rightarrow> int \<Rightarrow> (string \<times> string) list \<Rightarrow> yaml" where
  "image_doc img port env =
     YMap [(''services'', YMap [(''app'', YMap
       [(''image'', YStr img), (''restart'', YStr ''unless-stopped''),
        (''environment'', YSeq (YStr (''PORT='' @ int_str port) #
           map (\<lambda>(k, v). YStr (k @ ''='' @ v)) (filter (\<lambda>(k, v). k \<noteq> ''PORT'') env))),
        (''expose'', YSeq [YStr (int_str port)])])])]"

definition compose_for_image :: "task_deps \<Rightarrow> string \<Rightarrow> int \<Rightarrow> (string \<times> string) list \<Rightarrow> string" where
  "compose_for_image sv img port env = td_dump sv (image_doc img port env)"

definition final_compose ::
  "task_deps \<Rightarrow> string \<Rightarrow> string \<Rightarrow> int \<Rightarrow> (string \<times> string) list \<Rightarrow> string list \<Rightarrow> int \<times> int \<Rightarrow> string result" where
  "final_compose sv project img port env hosts caps =
     (case apply_edge (td_load sv) (td_dump sv) (td_str sv) (td_cf sv) (compose_for_image sv img port env)
             project (int_str port) hosts of
        Inl e \<Rightarrow> Inl e
      | Inr text \<Rightarrow> Inr (apply_resource_limits (td_load sv) (td_dump sv) (td_cf sv) text (fst caps) (snd caps) None))"

text \<open>The part the build and the rollback share: read the settings, start the stack.\<close>

definition start_app ::
  "task_deps \<Rightarrow> string option \<Rightarrow> string \<Rightarrow> string \<Rightarrow> int \<Rightarrow> (string \<times> string) list \<Rightarrow> unit task" where
  "start_app sv tid project img port env =
     act_bind (session_read (\<lambda>d. verified_hostnames_for_project d tid project))
       (\<lambda>hosts. act_bind (session_read (\<lambda>d. limits_for (td_cf sv) d tid project))
         (\<lambda>caps. act_bind (lift_result (final_compose sv project img port env hosts caps))
           (\<lambda>text. act_bind (command_act (deploy_stack (td_run sv) (bc_docker (td_builder sv)) project text []))
             (\<lambda>_. act_return ()))))"

section \<open>Image retention\<close>

definition first_occurrences :: "'a list \<Rightarrow> 'a list" where
  "first_occurrences xs = rev (remdups (rev xs))"

definition project_rows :: "db \<Rightarrow> string option \<Rightarrow> string \<Rightarrow> deployment list" where
  "project_rows d tid project =
     filter (\<lambda>p. dp_tenant p = or_empty tid \<and> dp_project p = project) (db_deployments d)"

definition ready_images :: "db \<Rightarrow> string option \<Rightarrow> string \<Rightarrow> string list" where
  "ready_images d tid project =
     first_occurrences (map dp_image (sort_key (\<lambda>p. - dp_created p)
       (filter (\<lambda>p. dp_status p = STATUS_READY \<and> dp_image p \<noteq> []) (project_rows d tid project))))"

definition error_images :: "db \<Rightarrow> string option \<Rightarrow> string \<Rightarrow> string list" where
  "error_images d tid project =
     map dp_image (filter (\<lambda>p. dp_status p = STATUS_ERROR \<and> dp_image p \<noteq> []) (project_rows d tid project))"

text \<open>The images to delete: \<open>None\<close> while a deployment of the project is in flight.\<close>

definition prunable :: "nat \<Rightarrow> db \<Rightarrow> string option \<Rightarrow> string \<Rightarrow> string list option" where
  "prunable keep d tid project =
     (if list_ex (\<lambda>p. inflight (dp_status p)) (project_rows d tid project) then None
      else (let ordered = ready_images d tid project;
                keep_set = set (take keep ordered);
                stale = filter (\<lambda>i. i \<notin> keep_set)
                  (first_occurrences (drop keep ordered @ error_images d tid project));
                shared = map dp_image (filter (\<lambda>p. dp_image p \<in> set stale \<and> dp_tenant p \<noteq> or_empty tid)
                  (db_deployments d))
            in Some (filter (\<lambda>i. i \<notin> set shared) stale)))"

definition delete_image :: "task_deps \<Rightarrow> string \<Rightarrow> unit task" where
  "delete_image sv img =
     act_bind (command_act (remove_local (td_run sv) (td_registry sv) img))
       (\<lambda>_ w. (Inr (), case delete_url (td_registry sv) img of None \<Rightarrow> w
                 | Some url \<Rightarrow> w\<lparr>wd_deleted := wd_deleted w @ [url]\<rparr>))"

definition clear_error_refs :: "string option \<Rightarrow> string \<Rightarrow> string list \<Rightarrow> db \<Rightarrow> db" where
  "clear_error_refs tid project deleted d =
     d\<lparr>db_deployments := upd_where (\<lambda>p. dp_tenant p = or_empty tid \<and> dp_project p = project \<and>
         dp_status p = STATUS_ERROR \<and> dp_image p \<in> set deleted) (\<lambda>p. p\<lparr>dp_image := []\<rparr>) (db_deployments d)\<rparr>"

definition prune_old_images :: "task_deps \<Rightarrow> string option \<Rightarrow> string \<Rightarrow> unit task" where
  "prune_old_images sv tid project =
     (let keep = cf_keep_images (td_cf sv) in
      if keep \<le> 0 \<or> \<not> registry_enabled (td_registry sv) then act_return ()
      else act_bind (session_read (\<lambda>d. prunable (nat keep) d tid project))
        (\<lambda>imgs. case imgs of
            None \<Rightarrow> act_return ()
          | Some is \<Rightarrow> act_seq (act_each (delete_image sv) is)
              (act_when (is \<noteq> []) (session_do (clear_error_refs tid project is)))))"

section \<open>The build task\<close>

definition status_to :: "deploy_status \<Rightarrow> deployment \<Rightarrow> deployment" where
  "status_to s p = p\<lparr>dp_status := s\<rparr>"

definition live_line :: "settings \<Rightarrow> string \<Rightarrow> string" where
  "live_line cf project =
     (if app_url cf project \<noteq> [] then ''ok live at https://'' @ app_url cf project else ''ok running'')"

text \<open>The lines the streamed command of the build printed, read back from the runner's answers.\<close>

definition is_build_cmd :: "builder_config \<Rightarrow> command \<Rightarrow> bool" where
  "is_build_cmd bc c \<longleftrightarrow> take 2 (cm_argv c) \<in> set [[bc_docker bc, ''build''], [bc_nixpacks bc, ''build'']]"

definition streamed_lines :: "runner \<Rightarrow> builder_config \<Rightarrow> nat \<Rightarrow> command list \<Rightarrow> string list" where
  "streamed_lines run bc n h =
     concat (map (\<lambda>i. if is_build_cmd bc (h ! i) then
         (case run (take i h) (h ! i) of Exited _ out _ \<Rightarrow> if out = [] then [] else split_on (CHR 0x0A) out
          | NotAvailable _ \<Rightarrow> []) else []) [n ..< length h])"

definition streamed_build :: "task_deps \<Rightarrow> string \<Rightarrow> string \<Rightarrow> string \<Rightarrow> build_result task" where
  "streamed_build sv git ref project w =
     (case build_from_git (td_run sv) (td_builder sv) (td_ports sv) git ref project True (wd_cmds w) of
        (r, h) \<Rightarrow> (r, w\<lparr>wd_cmds := h,
           wd_log := wd_log w @ streamed_lines (td_run sv) (td_builder sv) (length (wd_cmds w)) h\<rparr>))"

text \<open>The reference to run: the pushed one when a registry is configured and took the image.\<close>

definition publish_image :: "task_deps \<Rightarrow> bool \<Rightarrow> string \<Rightarrow> string task" where
  "publish_image sv preview img =
     (if preview \<or> \<not> registry_enabled (td_registry sv) then act_return img
      else act_bind (command_act (push (td_run sv) (td_registry sv) img))
        (\<lambda>pushed. case pushed of
            Some r \<Rightarrow> act_seq (log_line (''ok pushed to registry as '' @ r)) (act_return r)
          | None \<Rightarrow> act_seq (log_line ''! registry push failed - image is local-only (rollback may not survive pruning)'')
              (act_return img)))"

definition set_ready ::
  "task_deps \<Rightarrow> string \<Rightarrow> string \<Rightarrow> string \<Rightarrow> int \<Rightarrow> build_result \<Rightarrow> unit task" where
  "set_ready sv did project img port b =
     act_seq (log_line (live_line (td_cf sv) project))
       (set_row did (\<lambda>p. p\<lparr>dp_status := STATUS_READY, dp_image := img, dp_builder := br_builder b,
          dp_commit := br_commit b, dp_port := port, dp_domain := app_url (td_cf sv) project\<rparr>))"

text \<open>The try block up to the container start; the result is what the rest of it uses.\<close>

definition deploy_prepare ::
  "task_deps \<Rightarrow> string \<Rightarrow> string option \<Rightarrow> string \<Rightarrow> string \<Rightarrow> string \<Rightarrow> int \<Rightarrow> string option \<Rightarrow>
   (build_result \<times> string \<times> int \<times> (string \<times> string) list) task" where
  "deploy_prepare sv did tid git ref project port env_project =
     act_seq (log_line (''-> cloning '' @ git @ '' @ '' @ ref))
    (act_seq (set_row did (status_to STATUS_BUILDING))
    (act_bind (streamed_build sv git ref project)
      (\<lambda>b. let port1 = (if br_port b \<noteq> 0 then br_port b else port) in
     act_seq (log_line (''ok built '' @ br_image b @ '' via '' @ br_builder b))
    (act_bind (publish_image sv (env_project \<noteq> None) (br_image b))
      (\<lambda>img.
     act_seq (log_line (''-> starting container on port '' @ int_str port1))
    (act_seq (set_row did (\<lambda>p. p\<lparr>dp_image := img\<rparr>))
    (act_bind (session_read (\<lambda>d. env_map_for_deploy (td_fernet sv) d tid (str_or (or_empty env_project) project)))
      (\<lambda>env.
     act_seq (act_when (env \<noteq> [])
        (act_seq (log_line (''-> injecting '' @ nat_str (length env) @ '' environment variable(s)'')) (set_row did id)))
       (act_return (b, img, port1, env))))))))))"

definition after_ready ::
  "task_deps \<Rightarrow> string \<Rightarrow> string option \<Rightarrow> string \<Rightarrow> string option \<Rightarrow> build_result \<Rightarrow> unit task" where
  "after_ready sv did tid project env_project b =
     act_when (env_project = None)
       (act_seq (notify_deploy sv tid project did DEPLOY_SUCCEEDED
           [(''status'', ''ready''), (''domain'', app_url (td_cf sv) project), (''commit'', br_commit b)])
         (prune_old_images sv tid project))"

definition deploy_body ::
  "task_deps \<Rightarrow> string \<Rightarrow> string option \<Rightarrow> string \<Rightarrow> string \<Rightarrow> string \<Rightarrow> int \<Rightarrow> string option \<Rightarrow> unit task" where
  "deploy_body sv did tid git ref project port env_project =
     act_bind (deploy_prepare sv did tid git ref project port env_project)
       (\<lambda>(b, img, port1, env).
          act_seq (start_app sv tid project img port1 env)
         (act_seq (set_ready sv did project img port1 b)
           (after_ready sv did tid project env_project b)))"

text \<open>Both handlers: log, mark the row, release the reservation, notify.\<close>

definition fail_line :: "exn \<Rightarrow> string" where
  "fail_line e = (case e of BuildError _ _ \<Rightarrow> ''x '' | DockerEngineError _ _ \<Rightarrow> ''x '' | _ \<Rightarrow> ''x unexpected: '') @ exn_text e"

definition set_failed :: "string \<Rightarrow> exn \<Rightarrow> unit task" where
  "set_failed did e =
     act_seq (log_line (fail_line e))
       (set_row did (\<lambda>p. p\<lparr>dp_status := STATUS_ERROR, dp_error := take 500 (exn_text e)\<rparr>))"

definition deploy_failed ::
  "task_deps \<Rightarrow> string \<Rightarrow> string option \<Rightarrow> string \<Rightarrow> string option \<Rightarrow> exn \<Rightarrow> unit task" where
  "deploy_failed sv did tid project env_project e =
     act_seq (set_failed did e)
    (act_seq (session_do (\<lambda>d. release d (or_empty tid) project))
    (act_when (env_project = None)
      (notify_deploy sv tid project did DEPLOY_FAILED
        [(''status'', ''error''), (''error'', take 500 (exn_text e))])))"

definition run_deploy ::
  "task_deps \<Rightarrow> string \<Rightarrow> string option \<Rightarrow> string \<Rightarrow> string \<Rightarrow> string \<Rightarrow> int \<Rightarrow> string option \<Rightarrow> unit task" where
  "run_deploy sv did tid git ref project port env_project =
     act_catch (deploy_body sv did tid git ref project port env_project)
       (deploy_failed sv did tid project env_project)"

section \<open>The rollback task\<close>

definition restore_image :: "task_deps \<Rightarrow> string \<Rightarrow> string \<Rightarrow> unit task" where
  "restore_image sv did img =
     act_bind (command_act (image_exists (td_run sv) (td_registry sv) img))
       (\<lambda>there. if there then act_return ()
          else if is_registry_qualified img then
            act_seq (log_line ''-> image not present locally - pulling from registry'')
           (act_seq (set_row did id)
           (act_bind (command_act (pull (td_run sv) (td_registry sv) img))
             (\<lambda>ok. if ok then log_line ''ok pulled''
                else act_raise (DockerEngineError (''Could not pull the rollback image from the registry - it may be outside '' @
                  ''the retention window or the registry may be unreachable; redeploy from git instead.'') (Some 409)))))
          else act_raise (DockerEngineError (''Rollback image was evicted from the host and '' @
            (if registry_enabled (td_registry sv) then ''predates the registry''
             else ''no registry is configured to restore it'') @ '' - redeploy from git instead.'') (Some 409)))"

definition rollback_body ::
  "task_deps \<Rightarrow> string \<Rightarrow> string option \<Rightarrow> string \<Rightarrow> string \<Rightarrow> int \<Rightarrow> unit task" where
  "rollback_body sv did tid project img port =
     act_seq (log_line (''-> rolling back to '' @ img))
    (act_seq (set_row did (status_to STATUS_BUILDING))
    (act_seq (restore_image sv did img)
    (act_bind (session_read (\<lambda>d. env_map_for_deploy (td_fernet sv) d tid project))
      (\<lambda>env.
     act_seq (start_app sv tid project img port env)
    (act_seq (log_line (''ok rolled back'' @ (if app_url (td_cf sv) project \<noteq> []
         then '' - live at https://'' @ app_url (td_cf sv) project else [])))
      (set_row did (\<lambda>p. p\<lparr>dp_status := STATUS_READY, dp_image := img, dp_port := port,
         dp_domain := app_url (td_cf sv) project\<rparr>)))))))"

definition run_rollback ::
  "task_deps \<Rightarrow> string \<Rightarrow> string option \<Rightarrow> string \<Rightarrow> string \<Rightarrow> int \<Rightarrow> unit task" where
  "run_rollback sv did tid project img port =
     act_catch (rollback_body sv did tid project img port) (set_failed did)"

section \<open>Removing previews\<close>

definition remove_preview_stack :: "task_deps \<Rightarrow> string \<Rightarrow> unit task" where
  "remove_preview_stack sv stack =
     act_catch (act_bind (command_act (remove_stack (td_run sv) (bc_docker (td_builder sv)) stack True)) (\<lambda>_. act_return ()))
       (\<lambda>e. case e of DockerEngineError _ _ \<Rightarrow> act_return () | _ \<Rightarrow> act_raise e)"

definition take_preview :: "(preview_env \<Rightarrow> bool) \<Rightarrow> string option task" where
  "take_preview sel w =
     (let w1 = opened w in
      case find sel (db_previews (wd_db w1)) of
        None \<Rightarrow> (Inr None, w1)
      | Some v \<Rightarrow> (Inr (Some (pv_stack v)),
          w1\<lparr>wd_db := (wd_db w1)\<lparr>db_previews := filter (\<lambda>x. pv_id x \<noteq> pv_id v) (db_previews (wd_db w1))\<rparr>\<rparr>))"

definition drop_preview :: "task_deps \<Rightarrow> (preview_env \<Rightarrow> bool) \<Rightarrow> bool task" where
  "drop_preview sv sel =
     act_bind (lift_result (require_deploy_actions (td_cf sv)))
       (\<lambda>_. act_bind (take_preview sel)
         (\<lambda>v. case v of None \<Rightarrow> act_return False
            | Some stack \<Rightarrow> act_bind (remove_preview_stack sv stack) (\<lambda>_. act_return True)))"

definition teardown_preview_for_branch :: "task_deps \<Rightarrow> string option \<Rightarrow> string \<Rightarrow> string \<Rightarrow> bool task" where
  "teardown_preview_for_branch sv tid project branch = drop_preview sv (preview_of tid project branch)"

definition delete_preview :: "task_deps \<Rightarrow> string option \<Rightarrow> string \<Rightarrow> bool task" where
  "delete_preview sv tid pid = drop_preview sv (\<lambda>v. pv_id v = pid \<and> pv_tenant v = or_empty tid)"

section \<open>What a task guarantees, whatever runs between its sessions\<close>

text \<open>
  \<open>steady ok good\<close>: what other requests do between the sessions satisfies \<open>ok\<close>, and the database
  is \<open>good\<close>. The laws say that nothing but a status change of the task's own row can spoil
  \<open>good\<close>; the lemmas say which parts of a task keep it.
\<close>

definition steady :: "((db \<Rightarrow> db) \<Rightarrow> bool) \<Rightarrow> (db \<Rightarrow> bool) \<Rightarrow> world \<Rightarrow> bool" where
  "steady ok good w \<longleftrightarrow> (\<forall>e\<in>set (wd_env w). ok e) \<and> good (wd_db w)"

lemma wp_bind_any:
  assumes "\<And>x s'. wp (f x) Q s'" and "\<And>e s'. Q (Inl e) s'"
  shows "wp (act_bind m f) Q s"
  unfolding wp_bind by (rule wpI) (auto simp: assms split: sum.splits)

lemma wp_keeps_bind:
  assumes "keeps I m" and "I s" and "\<And>x s'. I s' \<Longrightarrow> wp (f x) Q s'" and "\<And>e s'. I s' \<Longrightarrow> Q (Inl e) s'"
  shows "wp (act_bind m f) Q s"
  using assms unfolding wp_bind keeps_def by (elim allE [of _ s]) (auto elim!: wp_mono split: sum.splits)

locale task_view =
  fixes did :: string
    and ok :: "(db \<Rightarrow> db) \<Rightarrow> bool"
    and good :: "db \<Rightarrow> bool"
  assumes others: "ok e \<Longrightarrow> good d \<Longrightarrow> good (e d)"
    and rows: "good d \<Longrightarrow> (\<And>p. dp_status (f p) = dp_status p \<and> dp_id (f p) = dp_id p) \<Longrightarrow> good (set_deployment did ls f d)"
    and channels: "good d \<Longrightarrow> good (d\<lparr>db_channels := cs\<rparr>)"
    and images: "good d \<Longrightarrow> good (clear_error_refs tid project is d)"
begin

lemma steady_opened: "steady ok good w \<Longrightarrow> steady ok good (opened w)"
  using others by (auto simp: steady_def opened_def split: list.splits)

lemma steady_cmds: "steady ok good (w\<lparr>wd_cmds := h\<rparr>) = steady ok good w"
  "steady ok good (w\<lparr>wd_cmds := h, wd_log := l\<rparr>) = steady ok good w"
  "steady ok good (w\<lparr>wd_log := l\<rparr>) = steady ok good w"
  "steady ok good (w\<lparr>wd_deleted := u\<rparr>) = steady ok good w"
  "steady ok good (w\<lparr>wd_sent := es\<rparr>) = steady ok good w"
  by (simp_all add: steady_def)

lemma keeps_read: "keeps (steady ok good) (session_read f)"
  by (rule keepsI) (auto simp: session_read_def Let_def steady_opened)

lemma keeps_do: "(\<And>d. good d \<Longrightarrow> good (f d)) \<Longrightarrow> keeps (steady ok good) (session_do f)"
proof (rule keepsI)
  fix s r s' assume f: "\<And>d. good d \<Longrightarrow> good (f d)" and s: "steady ok good s" and m: "session_do f s = (r, s')"
  from m have "s' = (opened s)\<lparr>wd_db := f (wd_db (opened s))\<rparr>" by (simp add: session_do_def Let_def)
  with f steady_opened [OF s] show "steady ok good s'" by (simp add: steady_def)
qed

lemma keeps_command: "keeps (steady ok good) (command_act m)"
  by (rule keepsI) (auto simp: command_act_def steady_cmds split: prod.splits)

lemma keeps_log: "keeps (steady ok good) (log_line l)"
  by (rule keepsI) (auto simp: log_line_def steady_cmds)

lemma keeps_lift: "keeps (steady ok good) (lift_result r)"
  by (auto simp: lift_result_def keeps split: sum.splits)

lemma keeps_set_row: "(\<And>p. dp_status (f p) = dp_status p \<and> dp_id (f p) = dp_id p) \<Longrightarrow> keeps (steady ok good) (set_row did f)"
proof (rule keepsI)
  fix s r s' assume f: "\<And>p. dp_status (f p) = dp_status p \<and> dp_id (f p) = dp_id p" and s: "steady ok good s" and m: "set_row did f s = (r, s')"
  have "keeps (steady ok good) (session_do (set_deployment did (wd_log s) f))" by (rule keeps_do) (rule rows [OF _ f])
  from keepsD [OF this s] m show "steady ok good s'" by (simp add: set_row_def)
qed

lemma keeps_build: "keeps (steady ok good) (streamed_build sv git ref project)"
  by (rule keepsI) (auto simp: streamed_build_def steady_cmds split: prod.splits)

lemma keeps_publish: "keeps (steady ok good) (publish_image sv preview img)"
  by (auto simp: publish_image_def intro!: keeps keeps_command keeps_log split: option.splits)

lemma keeps_start: "keeps (steady ok good) (start_app sv tid project img port env)"
  unfolding start_app_def by (intro keeps keeps_read keeps_lift keeps_command)

lemma keeps_notify: "keeps (steady ok good) (notify_deploy sv tid project i ev payload)"
proof (rule keepsI)
  fix s r s' assume s: "steady ok good s" and n: "notify_deploy sv tid project i ev payload s = (r, s')"
  show "steady ok good s'"
  proof (cases "or_empty tid = []")
    case True
    with s n show ?thesis by (simp add: notify_deploy_def)
  next
    case False
    let ?w = "opened s"
    obtain es q where e: "dispatch (td_hmac sv) (td_encode sv) (td_post sv) (wd_db ?w) (td_now sv) (or_empty tid) ev
        ([(''project'', project), (''deployment_id'', i)] @ payload) = (es, q)" by force
    from dispatch_channels [OF e]
    obtain cs where "(case q of Inl _ \<Rightarrow> wd_db ?w | Inr d \<Rightarrow> d) = (wd_db ?w)\<lparr>db_channels := cs\<rparr>" by blast
    then have "s' = ?w\<lparr>wd_sent := wd_sent ?w @ es, wd_db := (wd_db ?w)\<lparr>db_channels := cs\<rparr>\<rparr>"
      using n e False by (simp add: notify_deploy_def Let_def)
    with steady_opened [OF s] channels show ?thesis by (simp add: steady_def)
  qed
qed

lemma keeps_delete_image: "keeps (steady ok good) (delete_image sv img)"
  unfolding delete_image_def
  by (intro keeps_bind keeps_command, rule keepsI) (auto simp: steady_cmds split: option.splits)

lemma keeps_prune: "keeps (steady ok good) (prune_old_images sv tid project)"
  by (auto simp: prune_old_images_def Let_def
      intro!: keeps keeps_read keeps_delete_image keeps_do images split: option.splits list.splits)

lemma keeps_set_status:
  assumes "\<And>d ls. good d \<Longrightarrow> good (set_deployment did ls f d)"
  shows "keeps (steady ok good) (set_row did f)"
proof (rule keepsI)
  fix s r s' assume s: "steady ok good s" and m: "set_row did f s = (r, s')"
  have "keeps (steady ok good) (session_do (set_deployment did (wd_log s) f))" by (rule keeps_do) (rule assms)
  from keepsD [OF this s] m show "steady ok good s'" by (simp add: set_row_def)
qed

lemma keeps_prepare:
  assumes "\<And>d ls. good d \<Longrightarrow> good (set_deployment did ls (status_to STATUS_BUILDING) d)"
  shows "keeps (steady ok good) (deploy_prepare sv did tid git ref project port ep)"
  unfolding deploy_prepare_def Let_def
  by (intro keeps keeps_log keeps_set_status [OF assms] keeps_build keeps_publish keeps_set_row keeps_read) simp_all

lemma keeps_restore: "keeps (steady ok good) (restore_image sv did img)"
  by (auto simp: restore_image_def intro!: keeps keeps_command keeps_log keeps_set_row)

lemma keeps_after: "keeps (steady ok good) (after_ready sv i tid project ep b)"
  unfolding after_ready_def by (intro keeps keeps_notify keeps_prune)

end

section \<open>The status of a row\<close>

definition statuses :: "string \<Rightarrow> db \<Rightarrow> deploy_status list" where
  "statuses did d = map dp_status (filter (\<lambda>p. dp_id p = did) (db_deployments d))"

definition same_status :: "string \<Rightarrow> (db \<Rightarrow> db) \<Rightarrow> bool" where
  "same_status did e \<longleftrightarrow> (\<forall>d. statuses did (e d) = statuses did d)"

lemma statuses_set:
  assumes "\<And>p. dp_id (f p) = dp_id p"
  shows "statuses did (set_deployment did ls f d) = map (\<lambda>p. dp_status (f p)) (filter (\<lambda>p. dp_id p = did) (db_deployments d))"
proof -
  have "map dp_status (filter (\<lambda>p. dp_id p = did) (upd_where (\<lambda>p. dp_id p = did) (\<lambda>p. (f p)\<lparr>dp_log := l\<rparr>) xs)) =
      map (\<lambda>p. dp_status (f p)) (filter (\<lambda>p. dp_id p = did) xs)" for l xs
    by (induction xs) (simp_all add: assms)
  then show ?thesis by (simp add: statuses_def set_deployment_def)
qed

lemma statuses_const:
  "(\<And>p. dp_id (f p) = dp_id p) \<Longrightarrow> (\<And>p. dp_status (f p) = s) \<Longrightarrow>
   statuses did (set_deployment did ls f d) = replicate (length (statuses did d)) s"
  by (subst statuses_set) (simp_all add: statuses_def map_replicate_const)

lemma statuses_clear: "statuses did (clear_error_refs tid project is d) = statuses did d"
proof -
  have "map dp_status (filter (\<lambda>p. dp_id p = did) (upd_where q (\<lambda>p. p\<lparr>dp_image := []\<rparr>) xs)) =
      map dp_status (filter (\<lambda>p. dp_id p = did) xs)" for q xs
    by (induction xs) simp_all
  then show ?thesis by (simp add: statuses_def clear_error_refs_def)
qed

interpretation status_view: task_view did "same_status did" "\<lambda>d. P (statuses did d)"
proof
  show "P (statuses did (set_deployment did ls f d))"
    if "P (statuses did d)" "\<And>p. dp_status (f p) = dp_status p \<and> dp_id (f p) = dp_id p" for d f ls
  proof -
    have "statuses did (set_deployment did ls f d) = statuses did d"
      using that(2) by (subst statuses_set) (simp_all add: statuses_def)
    with that(1) show ?thesis by simp
  qed
qed (simp_all add: same_status_def statuses_clear, simp_all add: statuses_def)

abbreviation row_is :: "string \<Rightarrow> (deploy_status list \<Rightarrow> bool) \<Rightarrow> world \<Rightarrow> bool" where
  "row_is did P \<equiv> steady (same_status did) (\<lambda>d. P (statuses did d))"

lemma set_row_status:
  assumes "row_is did (\<lambda>xs. length xs = n) w" and "\<And>p. dp_id (f p) = dp_id p" and "\<And>p. dp_status (f p) = s"
  shows "wp (set_row did f) (\<lambda>r w'. r = Inr () \<and> row_is did (\<lambda>xs. xs = replicate n s) w' \<and> wd_cmds w' = wd_cmds w) w"
  using status_view.steady_opened [OF assms(1)] statuses_const [of f s did, OF assms(2,3)]
  by (auto simp: wp_def set_row_def session_do_def Let_def steady_def opened_def split: list.splits)

lemma log_set_status:
  assumes "row_is did (\<lambda>xs. length xs = n) w" and "\<And>p. dp_id (f p) = dp_id p" and "\<And>p. dp_status (f p) = s"
  shows "wp (act_seq (log_line l) (set_row did f))
    (\<lambda>r w'. r = Inr () \<and> row_is did (\<lambda>xs. xs = replicate n s) w' \<and> wd_cmds w' = wd_cmds w) w"
proof -
  have "row_is did (\<lambda>xs. length xs = n) (w\<lparr>wd_log := wd_log w @ [l]\<rparr>)" using assms(1) by (simp add: steady_def)
  from set_row_status [OF this assms(2,3)] show ?thesis
    by (simp add: act_seq_def wp_bind) (simp add: log_line_def wp_def)
qed

lemma set_ready_status:
  assumes "row_is did (\<lambda>xs. length xs = n) w"
  shows "wp (set_ready sv did project img port b)
    (\<lambda>r w'. r = Inr () \<and> row_is did (\<lambda>xs. xs = replicate n STATUS_READY) w' \<and> wd_cmds w' = wd_cmds w) w"
  unfolding set_ready_def by (rule log_set_status [OF assms]) simp_all

lemma set_failed_status:
  assumes "row_is did (\<lambda>xs. length xs = n) w"
  shows "wp (set_failed did e)
    (\<lambda>r w'. r = Inr () \<and> row_is did (\<lambda>xs. xs = replicate n STATUS_ERROR) w' \<and> wd_cmds w' = wd_cmds w) w"
  unfolding set_failed_def by (rule log_set_status [OF assms]) simp_all

section \<open>Steps that never raise\<close>

lemma total_each: "(\<And>x s. wp (f x) (\<lambda>r _. r = Inr ()) s) \<Longrightarrow> wp (act_each f xs) (\<lambda>r _. r = Inr ()) s"
proof (induction xs arbitrary: s)
  case (Cons x xs)
  show ?case unfolding act_each.simps act_seq_def wp_bind
    by (rule wp_mono [OF Cons.prems]) (simp add: Cons.IH [OF Cons.prems])
qed simp

lemma notify_total: "wp (notify_deploy sv tid project did ev payload) (\<lambda>r _. r = Inr ()) s"
  by (auto simp: wp_def notify_deploy_def Let_def split: prod.splits)

lemma delete_image_total: "wp (delete_image sv img) (\<lambda>r _. r = Inr ()) s"
  by (simp add: wp_def delete_image_def act_bind_def command_act_def remove_local_def docker_ok_def)

lemma prune_total: "wp (prune_old_images sv tid project) (\<lambda>r _. r = Inr ()) s"
proof -
  have one: "wp (act_when b (session_do f)) (\<lambda>r _. r = Inr ()) s" for b f s
    by (simp add: wp_def session_do_def Let_def act_when_def act_return_def)
  have two: "wp (act_seq (act_each (delete_image sv) is) (act_when b (session_do f))) (\<lambda>r _. r = Inr ()) s" for b f "is" s
    unfolding act_seq_def wp_bind
    by (rule wp_mono [OF total_each [where f = "delete_image sv", OF delete_image_total]]) (simp add: one)
  have read: "wp (session_read f) (\<lambda>r _. \<exists>x. r = Inr x) s" for f :: "db \<Rightarrow> 'x" and s
    by (simp add: wp_def session_read_def Let_def)
  show ?thesis unfolding prune_old_images_def Let_def
    by (simp add: wp_bind) (rule impI, rule wp_mono [OF read], auto simp: two split: option.splits)
qed

lemma after_ready_total: "wp (after_ready sv did tid project ep b) (\<lambda>r _. r = Inr ()) s"
  unfolding after_ready_def act_when_def act_seq_def
  by (simp add: wp_bind) (rule impI, rule wp_mono [OF notify_total], simp add: prune_total)

section \<open>Started stacks\<close>

definition stack_started :: "task_deps \<Rightarrow> string \<Rightarrow> command list \<Rightarrow> bool" where
  "stack_started sv project h \<longleftrightarrow> (\<exists>pre c post out err. h = pre @ c # post \<and>
     cm_argv c = bc_docker (td_builder sv) # compose_cmd (sanitize_project_name project)
        [''-f'', ''-'', ''up'', ''-d'', ''--remove-orphans''] \<and> td_run sv pre c = Exited 0 out err)"

lemma stack_started_append: "stack_started sv project h \<Longrightarrow> stack_started sv project (h @ cs)"
  unfolding stack_started_def by (metis append_Cons append_assoc)

lemma deploy_stack_started:
  assumes "deploy_stack (td_run sv) (bc_docker (td_builder sv)) project text env h = (Inr q, h')"
  shows "stack_started sv project h'"
proof -
  let ?c = "\<lparr>cm_argv = bc_docker (td_builder sv) # compose_cmd (sanitize_project_name project)
      [''-f'', ''-'', ''up'', ''-d'', ''--remove-orphans''], cm_stdin = Some text, cm_env = env\<rparr>"
  from assms obtain out err where "td_run sv h ?c = Exited 0 out err" "h' = h @ [?c]"
    by (auto simp: deploy_stack_def docker_def act_bind_def act_return_def Let_def split: run_outcome.splits if_splits)
  then show ?thesis unfolding stack_started_def
    by - (rule exI [of _ h], rule exI [of _ ?c], rule exI [of _ "[]"], rule exI [of _ out], rule exI [of _ err], simp)
qed

lemma start_app_started: "wp (start_app sv tid project img port env) (\<lambda>r w'. \<not> isl r \<longrightarrow> stack_started sv project (wd_cmds w')) w"
proof -
  have "wp (command_act (deploy_stack (td_run sv) (bc_docker (td_builder sv)) project tx []))
      (\<lambda>r w'. \<not> isl r \<longrightarrow> stack_started sv project (wd_cmds w')) w" for tx w
    by (auto simp: wp_def command_act_def deploy_stack_started split: prod.splits sum.splits elim!: Inr_of_not_isl [THEN exE])
  then have last: "wp (act_bind (command_act (deploy_stack (td_run sv) (bc_docker (td_builder sv)) project tx [])) (\<lambda>_. act_return ()))
      (\<lambda>r w'. \<not> isl r \<longrightarrow> stack_started sv project (wd_cmds w')) w" for tx w
    unfolding wp_bind by (rule wp_mono) (auto split: sum.splits)
  show ?thesis unfolding start_app_def by (intro wp_bind_any last) simp_all
qed

text \<open>The steps after the row is ready run no compose command, so the start stays in the history.\<close>

lemma keeps_started:
  "keeps (\<lambda>w. stack_started sv project (wd_cmds w)) (notify_deploy sv2 tid project2 did ev payload)"
  "keeps (\<lambda>w. stack_started sv project (wd_cmds w)) (prune_old_images sv2 tid project2)"
proof -
  have op: "wd_cmds (opened w) = wd_cmds w" for w by (simp add: opened_def split: list.splits)
  show "keeps (\<lambda>w. stack_started sv project (wd_cmds w)) (notify_deploy sv2 tid project2 did ev payload)"
    by (rule keepsI) (auto simp: notify_deploy_def Let_def op split: if_splits prod.splits)
  have "keeps (\<lambda>w. stack_started sv project (wd_cmds w)) (delete_image sv2 img)" for img
    unfolding delete_image_def
    by (rule keepsI) (auto simp: act_bind_def command_act_def remove_local_def docker_ok_def stack_started_append
        split: prod.splits option.splits)
  moreover have "keeps (\<lambda>w. stack_started sv project (wd_cmds w)) (session_read f)"
    "keeps (\<lambda>w. stack_started sv project (wd_cmds w)) (session_do g)" for f :: "db \<Rightarrow> string list option" and g
    by (rule keepsI, auto simp: session_read_def session_do_def Let_def op)+
  ultimately show "keeps (\<lambda>w. stack_started sv project (wd_cmds w)) (prune_old_images sv2 tid project2)"
    unfolding prune_old_images_def Let_def by (auto intro!: keeps split: option.splits)
qed

lemma wp_conj: "wp m Q s \<Longrightarrow> wp m Q' s \<Longrightarrow> wp m (\<lambda>r s'. Q r s' \<and> Q' r s') s"
  by (simp add: wp_def split: prod.splits)

lemma keeps_wp: "keeps I m \<Longrightarrow> I s \<Longrightarrow> wp m (\<lambda>_. I) s"
  by (simp add: keeps_def)

lemma after_ready_keeps:
  assumes "row_is did P w" and "stack_started sv project (wd_cmds w)"
  shows "wp (after_ready sv i tid project ep b)
    (\<lambda>r w'. r = Inr () \<and> row_is did P w' \<and> stack_started sv project (wd_cmds w')) w"
proof -
  have "keeps (\<lambda>w. stack_started sv project (wd_cmds w)) (after_ready sv i tid project ep b)"
    unfolding after_ready_def by (intro keeps keeps_started)
  then have "wp (after_ready sv i tid project ep b) (\<lambda>_ w. stack_started sv project (wd_cmds w)) w"
    using assms(2) by (rule keeps_wp)
  moreover have "wp (after_ready sv i tid project ep b) (\<lambda>_. row_is did P) w"
    using status_view.keeps_after assms(1) by (rule keeps_wp)
  moreover have "wp (after_ready sv i tid project ep b) (\<lambda>r _. r = Inr ()) w"
    by (rule after_ready_total)
  ultimately show ?thesis by (simp add: wp_def split: prod.splits)
qed

section \<open>Every task finishes its row\<close>

lemma row_is_weaken: "row_is did P w \<Longrightarrow> (\<And>xs. P xs \<Longrightarrow> P' xs) \<Longrightarrow> row_is did P' w"
  by (simp add: steady_def)

lemma prepare_keeps_length:
  "keeps (row_is did (\<lambda>xs. length xs = n)) (deploy_prepare sv did tid git ref project port ep)"
  by (rule status_view.keeps_prepare) (simp add: statuses_const status_to_def)

lemma wp_start_then:
  assumes "row_is did P w1"
    and "\<And>w2. row_is did P w2 \<Longrightarrow> stack_started sv project (wd_cmds w2) \<Longrightarrow> wp k Q w2"
    and "\<And>e w2. row_is did P w2 \<Longrightarrow> Q (Inl e) w2"
  shows "wp (act_seq (start_app sv tid project img port env) k) Q w1"
  unfolding act_seq_def wp_bind
proof (rule wp_mono [OF wp_conj [OF keeps_wp [OF status_view.keeps_start assms(1)] start_app_started]])
  fix r :: "unit result" and w2
  assume "row_is did P w2 \<and> (\<not> isl r \<longrightarrow> stack_started sv project (wd_cmds w2))"
  then show "case r of Inl e \<Rightarrow> Q (Inl e) w2 | Inr x \<Rightarrow> wp k Q w2" using assms(2,3) by (cases r) auto
qed

lemma deploy_body_outcome:
  assumes "row_is did (\<lambda>xs. length xs = n) w"
  shows "wp (deploy_body sv did tid git ref project port ep)
    (\<lambda>r w'. case r of Inl _ \<Rightarrow> row_is did (\<lambda>xs. length xs = n) w'
       | Inr _ \<Rightarrow> row_is did (\<lambda>xs. xs = replicate n STATUS_READY) w' \<and> stack_started sv project (wd_cmds w')) w"
    (is "wp _ ?Q w")
  unfolding deploy_body_def
proof (rule wp_keeps_bind [OF prepare_keeps_length assms])
  fix x :: "build_result \<times> string \<times> int \<times> (string \<times> string) list" and w1
  assume w1: "row_is did (\<lambda>xs. length xs = n) w1"
  obtain b img port1 env where x: "x = (b, img, port1, env)" by (cases x) auto
  have ready: "wp (act_seq (set_ready sv did project img port1 b) (after_ready sv did tid project ep b)) ?Q w2"
    if "row_is did (\<lambda>xs. length xs = n) w2" "stack_started sv project (wd_cmds w2)" for w2
    unfolding act_seq_def wp_bind
    by (rule wp_mono [OF set_ready_status [OF that(1)]])
      (auto simp: that(2) intro!: wp_mono [OF after_ready_keeps])
  have "wp (act_seq (start_app sv tid project img port1 env)
      (act_seq (set_ready sv did project img port1 b) (after_ready sv did tid project ep b))) ?Q w1"
    by (rule wp_start_then [OF w1], rule ready) simp_all
  then show "wp (case x of (b, img, port1, env) \<Rightarrow> act_seq (start_app sv tid project img port1 env)
      (act_seq (set_ready sv did project img port1 b) (after_ready sv did tid project ep b))) ?Q w1"
    by (simp add: x)
qed simp

lemma statuses_release: "statuses did (release d t project) = statuses did d"
  by (simp add: statuses_def release_def)

lemma deploy_failed_outcome:
  assumes "row_is did (\<lambda>xs. length xs = n) w"
  shows "wp (deploy_failed sv did tid project ep e)
    (\<lambda>r w'. r = Inr () \<and> row_is did (\<lambda>xs. xs = replicate n STATUS_ERROR) w') w"
proof -
  let ?I = "row_is did (\<lambda>xs. xs = replicate n STATUS_ERROR)"
  have notify: "wp (act_when b (notify_deploy sv tid project did ev pl)) (\<lambda>r w'. r = Inr () \<and> ?I w') s" if "?I s" for b s ev pl
    unfolding act_when_def using that
    by (auto intro!: wp_mono [OF wp_conj [OF notify_total keeps_wp [OF status_view.keeps_notify that]]])
  have rel: "keeps ?I (session_do (\<lambda>d. release d (or_empty tid) project))"
    by (rule status_view.keeps_do) (simp add: statuses_release)
  have one: "wp (session_do f) (\<lambda>r _. r = Inr ()) s" for f s by (simp add: wp_def session_do_def Let_def)
  show ?thesis unfolding deploy_failed_def act_seq_def wp_bind
    by (rule wp_mono [OF set_failed_status [OF assms]])
      (auto intro!: notify wp_mono [OF wp_conj [OF one keeps_wp [OF rel]]])
qed

lemma rollback_body_outcome:
  assumes "row_is did (\<lambda>xs. length xs = n) w"
  shows "wp (rollback_body sv did tid project img port)
    (\<lambda>r w'. case r of Inl _ \<Rightarrow> row_is did (\<lambda>xs. length xs = n) w'
       | Inr _ \<Rightarrow> row_is did (\<lambda>xs. xs = replicate n STATUS_READY) w' \<and> stack_started sv project (wd_cmds w')) w"
    (is "wp _ ?Q w")
proof -
  let ?I = "row_is did (\<lambda>xs. length xs = n)"
  have building: "keeps ?I (set_row did (status_to STATUS_BUILDING))"
    by (rule status_view.keeps_set_status) (simp add: statuses_const status_to_def)
  have ready: "wp (act_seq (log_line l) (set_row did (\<lambda>p. p\<lparr>dp_status := STATUS_READY, dp_image := img, dp_port := port,
         dp_domain := dom\<rparr>))) ?Q w2"
    if "?I w2" "stack_started sv project (wd_cmds w2)" for w2 l dom
    by (rule wp_mono [OF log_set_status [OF that(1), of _ STATUS_READY]]) (use that(2) in auto)
  show ?thesis unfolding rollback_body_def
    by (unfold act_seq_def [of "log_line (''-> rolling back to '' @ img)"] act_seq_def [of "set_row did (status_to STATUS_BUILDING)"]
          act_seq_def [of "restore_image sv did img"],
        rule wp_keeps_bind [OF status_view.keeps_log assms], rule wp_keeps_bind [OF building], assumption,
        rule wp_keeps_bind [OF status_view.keeps_restore], assumption,
        rule wp_keeps_bind [OF status_view.keeps_read], assumption,
        rule wp_start_then, assumption, rule ready) simp_all
qed

lemma run_deploy_outcome:
  assumes "row_is did (\<lambda>xs. length xs = n) w"
  shows "wp (run_deploy sv did tid git ref project port ep)
    (\<lambda>r w'. r = Inr () \<and> (row_is did (\<lambda>xs. xs = replicate n STATUS_READY) w' \<and> stack_started sv project (wd_cmds w') \<or>
       row_is did (\<lambda>xs. xs = replicate n STATUS_ERROR) w')) w"
  unfolding run_deploy_def wp_catch
proof (rule wp_mono [OF deploy_body_outcome [OF assms]], goal_cases)
  case (1 r w1)
  then show ?case by (cases r) (auto intro!: wp_mono [OF deploy_failed_outcome])
qed

lemma run_rollback_outcome:
  assumes "row_is did (\<lambda>xs. length xs = n) w"
  shows "wp (run_rollback sv did tid project img port)
    (\<lambda>r w'. r = Inr () \<and> (row_is did (\<lambda>xs. xs = replicate n STATUS_READY) w' \<and> stack_started sv project (wd_cmds w') \<or>
       row_is did (\<lambda>xs. xs = replicate n STATUS_ERROR) w')) w"
  unfolding run_rollback_def wp_catch
proof (rule wp_mono [OF rollback_body_outcome [OF assms]], goal_cases)
  case (1 r w1)
  then show ?case by (cases r) (auto intro!: wp_mono [OF set_failed_status])
qed

text \<open>
  C23. No deployment is left half-way: whatever the commands answer (or if the binaries are
  missing), whatever the notification endpoints do, and whatever other requests do to the
  database between the task's sessions, as long as they leave this row's status to its task, a
  build task and a rollback task return normally with the row \<open>ready\<close> or \<open>error\<close>; and \<open>ready\<close> only
  after a compose \<open>up\<close> of the project's stack exited with 0.
\<close>

theorem every_deployment_finishes:
  assumes "\<forall>e\<in>set (wd_env w). same_status did e" and "statuses did (wd_db w) = [s]"
  shows "\<exists>w1 w2. run_deploy sv did tid git ref project port ep w = (Inr (), w1) \<and>
    run_rollback sv did tid project img port w = (Inr (), w2) \<and>
    (\<forall>v\<in>{w1, w2}. statuses did (wd_db v) = [STATUS_READY] \<and> stack_started sv project (wd_cmds v) \<or>
       statuses did (wd_db v) = [STATUS_ERROR])"
proof -
  have row: "row_is did (\<lambda>xs. length xs = 1) w" using assms by (simp add: steady_def)
  have "wp (run_deploy sv did tid git ref project port ep) (\<lambda>r w'. r = Inr () \<and>
        (statuses did (wd_db w') = [STATUS_READY] \<and> stack_started sv project (wd_cmds w') \<or>
         statuses did (wd_db w') = [STATUS_ERROR])) w"
    by (rule wp_mono [OF run_deploy_outcome [OF row]]) (auto simp: steady_def)
  moreover have "wp (run_rollback sv did tid project img port) (\<lambda>r w'. r = Inr () \<and>
        (statuses did (wd_db w') = [STATUS_READY] \<and> stack_started sv project (wd_cmds w') \<or>
         statuses did (wd_db w') = [STATUS_ERROR])) w"
    by (rule wp_mono [OF run_rollback_outcome [OF row]]) (auto simp: steady_def)
  ultimately show ?thesis unfolding wp_def
    by (cases "run_deploy sv did tid git ref project port ep w"; cases "run_rollback sv did tid project img port w") simp
qed

definition demo_deps :: task_deps where
  "demo_deps = \<lparr>td_cf = demo_cf\<lparr>cf_edge_network := []\<rparr>, td_run = (\<lambda>h c. Exited 0 [] []),
     td_builder = \<lparr>bc_docker = ''docker'', bc_nixpacks = ''nixpacks'', bc_git = ''git'', bc_workdir = ''/tmp'', bc_token = []\<rparr>,
     td_ports = (\<lambda>_. None), td_registry = make_registry [] ''docker'', td_load = (\<lambda>_. None), td_dump = (\<lambda>_. ''compose''),
     td_str = (\<lambda>_. []), td_fernet = (\<lambda>_. None), td_hmac = (\<lambda>_ _. []), td_encode = (\<lambda>_ _. []),
     td_post = (\<lambda>_. HttpStatus 200), td_http_delete = (\<lambda>_. None), td_now = 0\<rparr>"

definition demo_world :: world where
  "demo_world = \<lparr>wd_db = empty_db\<lparr>db_deployments := [queued_row ''d1'' 0 (Some ''t'') ''web'' ''g'' ''main'' 80]\<rparr>,
     wd_cmds = [], wd_sent = [], wd_deleted = [], wd_env = [], wd_log = []\<rparr>"

lemma every_deployment_finishes_witness:
  "\<exists>w. run_deploy demo_deps ''d1'' (Some ''t'') ''g'' ''main'' ''web'' 80 None demo_world = (Inr (), w) \<and>
     (statuses ''d1'' (wd_db w) = [STATUS_READY] \<and> stack_started demo_deps ''web'' (wd_cmds w) \<or>
      statuses ''d1'' (wd_db w) = [STATUS_ERROR])"
proof -
  have "\<forall>e\<in>set (wd_env demo_world). same_status ''d1'' e" by (simp add: demo_world_def)
  moreover have "statuses ''d1'' (wd_db demo_world) = [STATUS_QUEUED]" by code_simp
  ultimately show ?thesis
    using every_deployment_finishes [of demo_world "''d1''" STATUS_QUEUED demo_deps "Some ''t''" "''g''" "''main''" "''web''" 80 None
        "[]"] by blast
qed

section \<open>A failed redeploy\<close>

definition same_app :: "string option \<Rightarrow> string \<Rightarrow> (db \<Rightarrow> db) \<Rightarrow> bool" where
  "same_app tid project e \<longleftrightarrow>
     (\<forall>d. list_ex (app_row tid project) (db_resources (e d)) = list_ex (app_row tid project) (db_resources d))"

interpretation app_view: task_view did "same_app tid project" "\<lambda>d. P (list_ex (app_row tid project) (db_resources d))"
  by unfold_locales (simp_all add: same_app_def set_deployment_def clear_error_refs_def)

lemma set_failed_total: "wp (set_failed did e) (\<lambda>r _. r = Inr ()) s"
  by (simp add: set_failed_def act_seq_def wp_bind) (simp add: wp_def log_line_def set_row_def session_do_def Let_def)

lemma deploy_failed_total: "wp (deploy_failed sv did tid project ep e) (\<lambda>r _. r = Inr ()) s"
proof -
  have one: "wp (session_do f) (\<lambda>r _. r = Inr ()) s" for f s by (simp add: wp_def session_do_def Let_def)
  show ?thesis unfolding deploy_failed_def act_seq_def wp_bind act_when_def
    by (rule wp_mono [OF set_failed_total]) (auto intro!: wp_mono [OF one] notify_total)
qed

lemma deploy_failed_releases:
  assumes "\<forall>e\<in>set (wd_env w). same_app tid project e"
  shows "wp (deploy_failed sv did tid project ep e) (\<lambda>_ w'. \<not> list_ex (app_row tid project) (db_resources (wd_db w'))) w"
proof -
  let ?any = "steady (same_app tid project) (\<lambda>d. (\<lambda>_. True) (list_ex (app_row tid project) (db_resources d)))"
  let ?none = "steady (same_app tid project) (\<lambda>d. Not (list_ex (app_row tid project) (db_resources d)))"
  have any: "?any w" using assms by (simp add: steady_def)
  have row: "keeps ?any (set_row did f)" for f
    by (rule app_view.keeps_set_status) (simp add: set_deployment_def)
  have fail: "keeps ?any (set_failed did e)" unfolding set_failed_def
    by (intro keeps row app_view.keeps_log)
  have rel: "wp (session_do (\<lambda>d. release d (or_empty tid) project)) (\<lambda>r w'. r = Inr () \<and> ?none w') s" if "?any s" for s
    using that by (auto simp: wp_def session_do_def Let_def steady_def opened_def release_def app_row_def list_ex_iff
        split: list.splits)
  have fin: "wp (act_when b (notify_deploy sv tid project did ev pl))
      (\<lambda>_ w'. \<not> list_ex (app_row tid project) (db_resources (wd_db w'))) s" if "?none s" for b ev pl s
    by (rule wp_mono [OF keeps_wp [OF keeps_when [OF app_view.keeps_notify] that]]) (simp add: steady_def)
  show ?thesis unfolding deploy_failed_def act_seq_def wp_bind
    by (rule wp_mono [OF wp_conj [OF set_failed_total keeps_wp [OF fail any]]])
      (auto intro!: wp_mono [OF rel] fin)
qed


definition demo_app_db :: db where
  "demo_app_db = empty_db\<lparr>db_resources := [reservation ''t'' ''web'' \<lparr>al_cpu = 1, al_mem = 1, al_disk = 1\<rparr> ''Web'']\<rparr>"

definition demo_failing :: task_deps where
  "demo_failing = demo_deps\<lparr>td_run := (\<lambda>h c. Exited 1 [] [])\<rparr>"

definition demo_redeploy_world :: world where
  "demo_redeploy_world = demo_world\<lparr>wd_db := add_deployment (queued_row ''d2'' 5 (Some ''t'') ''web'' ''g'' ''main'' 80) demo_app_db\<rparr>"


section \<open>What retention deletes\<close>

definition image_deleted_ok :: "nat \<Rightarrow> db \<Rightarrow> string option \<Rightarrow> string \<Rightarrow> string \<Rightarrow> bool" where
  "image_deleted_ok keep d tid project i \<longleftrightarrow>
     i \<notin> set (take keep (ready_images d tid project)) \<and>
     (\<exists>p\<in>set (project_rows d tid project). dp_image p = i \<and> dp_status p \<in> {STATUS_READY, STATUS_ERROR}) \<and>
     (\<forall>p\<in>set (db_deployments d). dp_image p = i \<longrightarrow> dp_tenant p = or_empty tid) \<and>
     (\<forall>p\<in>set (project_rows d tid project). \<not> inflight (dp_status p))"

lemma set_first_occurrences [simp]: "set (first_occurrences xs) = set xs"
  by (simp add: first_occurrences_def)

lemma prunable_ok:
  assumes "prunable keep d tid project = Some is" and "i \<in> set is"
  shows "image_deleted_ok keep d tid project i"
proof -
  from assms have nf: "\<forall>p\<in>set (project_rows d tid project). \<not> inflight (dp_status p)"
    and i: "i \<notin> set (take keep (ready_images d tid project))"
      "i \<in> set (drop keep (ready_images d tid project)) \<or> i \<in> set (error_images d tid project)"
      "\<forall>p\<in>set (db_deployments d). dp_image p = i \<longrightarrow> dp_tenant p = or_empty tid"
    by (auto simp: prunable_def Let_def list_ex_iff split: if_splits)
  from i(2) have "\<exists>p\<in>set (project_rows d tid project). dp_image p = i \<and> dp_status p \<in> {STATUS_READY, STATUS_ERROR}"
    by (auto simp: ready_images_def error_images_def dest!: in_set_dropD)
  with nf i show ?thesis by (simp add: image_deleted_ok_def)
qed

lemma delete_each:
  "\<exists>r w'. act_each (delete_image sv) is w = (r, w') \<and>
     wd_cmds w' = wd_cmds w @ map (\<lambda>i. plain_cmd [rg_docker (td_registry sv), ''rmi'', i]) is \<and>
     wd_deleted w' = wd_deleted w @ List.map_filter (delete_url (td_registry sv)) is"
proof (induction "is" arbitrary: w)
  case Nil
  then show ?case by (simp add: act_return_def map_filter_simps)
next
  case (Cons i "is")
  obtain w1 where w1: "delete_image sv i w = (Inr (), w1)"
    "wd_cmds w1 = wd_cmds w @ [plain_cmd [rg_docker (td_registry sv), ''rmi'', i]]"
    "wd_deleted w1 = wd_deleted w @ List.map_filter (delete_url (td_registry sv)) [i]"
    by (cases "delete_url (td_registry sv) i")
      (simp_all add: delete_image_def act_bind_def command_act_def remove_local_def docker_ok_def map_filter_simps)
  from Cons.IH [of w1] w1 show ?case
    by (auto simp: act_seq_def act_bind_def map_filter_simps split: option.splits)
qed

text \<open>
  C28. Retention never deletes an image inside the rollback window: the images it removes, locally
  and in the registry, are images of the project's finished deployments that are not among the
  \<open>keep_images\<close> most recently used distinct ready ones, that no other tenant's deployment refers
  to, and it removes none at all while a deployment of the project is queued or building (all
  judged on the database its session sees). It issues no other command.
\<close>

theorem retention_spares_rollback_window:
  assumes "prune_old_images sv tid project w = (r, w')"
  shows "\<exists>is. wd_cmds w' = wd_cmds w @ map (\<lambda>i. plain_cmd [rg_docker (td_registry sv), ''rmi'', i]) is \<and>
     wd_deleted w' = wd_deleted w @ List.map_filter (delete_url (td_registry sv)) is \<and>
     (\<forall>i\<in>set is. image_deleted_ok (nat (cf_keep_images (td_cf sv))) (wd_db (opened w)) tid project i)"
proof (cases "cf_keep_images (td_cf sv) \<le> 0 \<or> \<not> registry_enabled (td_registry sv)")
  case True
  with assms show ?thesis
    by (intro exI [of _ "[]"]) (auto simp: prune_old_images_def Let_def act_return_def map_filter_simps)
next
  case False
  have op: "wd_cmds (opened v) = wd_cmds v" "wd_deleted (opened v) = wd_deleted v" for v
    by (simp_all add: opened_def split: list.splits)
  show ?thesis
  proof (cases "prunable (nat (cf_keep_images (td_cf sv))) (wd_db (opened w)) tid project")
    case None
    with assms False op show ?thesis
      by (intro exI [of _ "[]"])
        (auto simp: prune_old_images_def Let_def act_bind_def session_read_def act_return_def map_filter_simps)
  next
    case (Some "is")
    obtain q w1 where w1: "act_each (delete_image sv) is (opened w) = (q, w1)"
      "wd_cmds w1 = wd_cmds w @ map (\<lambda>i. plain_cmd [rg_docker (td_registry sv), ''rmi'', i]) is"
      "wd_deleted w1 = wd_deleted w @ List.map_filter (delete_url (td_registry sv)) is"
      using delete_each [of sv "is" "opened w"] op by auto
    have "q = Inr ()" using wpD [OF total_each [OF delete_image_total] w1(1)] .
    with assms False Some w1 have "wd_cmds w' = wd_cmds w1 \<and> wd_deleted w' = wd_deleted w1"
      by (auto simp: prune_old_images_def Let_def act_bind_def session_read_def act_seq_def act_when_def
          session_do_def act_return_def op split: if_splits)
    with w1 prunable_ok [OF Some] show ?thesis by (intro exI [of _ "is"]) simp
  qed
qed

definition demo_keep_deps :: task_deps where
  "demo_keep_deps = demo_deps\<lparr>td_cf := demo_cf\<lparr>cf_keep_images := 1\<rparr>,
     td_registry := make_registry ''r:5000'' ''docker''\<rparr>"

definition demo_ready_row :: "string \<Rightarrow> int \<Rightarrow> string \<Rightarrow> deployment" where
  "demo_ready_row i t img = (queued_row i t (Some ''t'') ''web'' ''g'' ''main'' 80)\<lparr>dp_status := STATUS_READY, dp_image := img\<rparr>"

definition demo_keep_world :: world where
  "demo_keep_world = demo_world\<lparr>wd_db := empty_db\<lparr>db_deployments :=
     [demo_ready_row ''d1'' 1 ''r:5000/web:a'', demo_ready_row ''d2'' 2 ''r:5000/web:b'']\<rparr>\<rparr>"

lemma retention_spares_rollback_window_witness:
  "map cm_argv (wd_cmds (snd (prune_old_images demo_keep_deps (Some ''t'') ''web'' demo_keep_world))) =
     [[''docker'', ''rmi'', ''r:5000/web:a'']] \<and>
   image_deleted_ok 1 (wd_db demo_keep_world) (Some ''t'') ''web'' ''r:5000/web:a''"
proof -
  let ?run = "prune_old_images demo_keep_deps (Some ''t'') ''web'' demo_keep_world"
  obtain r w' where w: "?run = (r, w')" by force
  have c: "map cm_argv (wd_cmds (snd ?run)) = [[''docker'', ''rmi'', ''r:5000/web:a'']]" by code_simp
  have n: "wd_cmds demo_keep_world = []" "nat (cf_keep_images (td_cf demo_keep_deps)) = 1"
    "opened demo_keep_world = demo_keep_world"
    by (simp_all add: demo_keep_world_def demo_world_def demo_keep_deps_def demo_deps_def opened_def)
  from retention_spares_rollback_window [OF w, unfolded n] obtain "is" where i:
    "wd_cmds w' = map (\<lambda>i. plain_cmd [rg_docker (td_registry demo_keep_deps), ''rmi'', i]) is"
    "\<forall>i\<in>set is. image_deleted_ok 1 (wd_db demo_keep_world) (Some ''t'') ''web'' i" by auto
  from c i(1) w have "is = [''r:5000/web:a'']" by (auto simp: plain_cmd_def)
  with i(2) c show ?thesis by simp
qed

end
