(* ===== verification/Http.thy ===== *)
theory Http
  imports Prelude
begin

text \<open>
  The HTTP edges of the program: outgoing provider requests with retries
  (\<^verbatim>\<open>services/http.py\<close>), the origin check on incoming unsafe requests (\<^verbatim>\<open>csrf.py\<close>) and the
  GitHub webhook signature (\<^verbatim>\<open>services/github_webhook.py\<close>). The HTTP client, the JSON decoder
  and HMAC are parameters.
\<close>

section \<open>Outgoing requests\<close>

record http_response =
  hr_status :: int
  hr_text :: string
  hr_retry_after :: "string option"

text \<open>What one attempt gives: an \<open>httpx.HTTPError\<close> or a response.\<close>

datatype attempt = TransportError | Answer http_response

definition retryable :: "int \<Rightarrow> bool" where
  "retryable st = (st \<in> set [429, 500, 502, 503, 504])"

definition is_error :: "http_response \<Rightarrow> bool" where
  "is_error r = (400 \<le> hr_status r \<and> hr_status r \<le> 599)"

text \<open>
  The back-off in milliseconds. \<open>float(retry_after)\<close> is guarded by \<open>isdigit\<close>, which lets the
  superscript digits through: \<open>float\<close> raises ValueError on them.
\<close>

definition retry_delay :: "http_response \<Rightarrow> int \<Rightarrow> int result" where
  "retry_delay r n =
     (case hr_retry_after r of
        None \<Rightarrow> Inr (500 * n)
      | Some s \<Rightarrow>
          if s \<noteq> [] \<and> py_isdigit s then
            (if list_all ascii_digit s then Inr (1000 * the (int_digits 0 s))
             else Inl (ValueError (''could not convert string to float: '' @ s)))
          else Inr (500 * n))"

text \<open>The loop from attempt \<open>n\<close> on: the sleeps taken and the outcome.\<close>

function send_from ::
  "string \<Rightarrow> (int \<Rightarrow> attempt) \<Rightarrow> int \<Rightarrow> int \<Rightarrow> int list \<times> http_response result" where
  "send_from service client max_attempts n =
     (if max_attempts < n then ([], Inl (ProviderAPIError service (service @ '' request failed.'') None))
      else (case client n of
        TransportError \<Rightarrow>
          (if n = max_attempts then ([], Inl (ProviderAPIError service (service @ '' request failed.'') None))
           else (let (sl, r) = send_from service client max_attempts (n + 1) in (250 * n # sl, r)))
      | Answer a \<Rightarrow>
          (if retryable (hr_status a) \<and> n < max_attempts then
             (case retry_delay a n of
                Inl e \<Rightarrow> ([], Inl e)
              | Inr ms \<Rightarrow> (let (sl, r) = send_from service client max_attempts (n + 1) in (ms # sl, r)))
           else if is_error a then
             ([], Inl (ProviderAPIError service (service @ '' request failed: '' @ take 300 (hr_text a))
                         (Some (hr_status a))))
           else ([], Inr a))))"
  by pat_completeness auto
termination by (relation "measure (\<lambda>(_, _, m, n). nat (m + 1 - n))") auto

declare send_from.simps [simp del]

definition send_with_retries ::
  "string \<Rightarrow> (int \<Rightarrow> attempt) \<Rightarrow> int \<Rightarrow> int list \<times> http_response result" where
  "send_with_retries service client max_attempts = send_from service client max_attempts 1"

text \<open>\<open>parse\<close> is the JSON decoder, \<open>None\<close> where it raises ValueError; \<open>{}\<close> is \<open>no_body\<close>.\<close>

definition request_json ::
  "'j \<Rightarrow> (string \<Rightarrow> 'j option) \<Rightarrow> string \<Rightarrow> (int \<Rightarrow> attempt) \<Rightarrow> int \<Rightarrow> int list \<times> 'j result" where
  "request_json no_body parse service client max_attempts =
     (case send_with_retries service client max_attempts of
        (sl, Inl e) \<Rightarrow> (sl, Inl e)
      | (sl, Inr r) \<Rightarrow>
          (sl, if hr_text r = [] then Inr no_body
               else (case parse (hr_text r) of
                       Some j \<Rightarrow> Inr j
                     | None \<Rightarrow> Inl (ProviderAPIError service (service @ '' returned invalid JSON.'')
                                       (Some (hr_status r))))))"

definition request_text ::
  "string \<Rightarrow> (int \<Rightarrow> attempt) \<Rightarrow> int \<Rightarrow> int list \<times> string result" where
  "request_text service client max_attempts =
     (case send_with_retries service client max_attempts of
        (sl, Inl e) \<Rightarrow> (sl, Inl e)
      | (sl, Inr r) \<Rightarrow> (sl, Inr (hr_text r)))"

text \<open>An attempt that the loop will repeat when attempts are left.\<close>

definition transient :: "attempt \<Rightarrow> bool" where
  "transient a = (case a of TransportError \<Rightarrow> True | Answer r \<Rightarrow> retryable (hr_status r))"

definition good_retry_after :: "attempt \<Rightarrow> bool" where
  "good_retry_after a =
     (case a of TransportError \<Rightarrow> True
      | Answer r \<Rightarrow> (case hr_retry_after r of None \<Rightarrow> True
                    | Some s \<Rightarrow> py_isdigit s \<longrightarrow> list_all ascii_digit s))"

text \<open>The outcome of the attempt that is not repeated.\<close>

definition final_outcome :: "string \<Rightarrow> attempt \<Rightarrow> http_response result" where
  "final_outcome service a =
     (case a of
        TransportError \<Rightarrow> Inl (ProviderAPIError service (service @ '' request failed.'') None)
      | Answer r \<Rightarrow>
          if is_error r then
            Inl (ProviderAPIError service (service @ '' request failed: '' @ take 300 (hr_text r))
                   (Some (hr_status r)))
          else Inr r)"

lemma retry_delay_ok: "good_retry_after (Answer a) \<Longrightarrow> \<exists>ms. retry_delay a n = Inr ms"
  by (auto simp: good_retry_after_def retry_delay_def py_isdigit_def split: option.splits)

lemma send_from_last:
  assumes "n \<le> max_attempts" and "\<not> transient (client n) \<or> n = max_attempts"
  shows "send_from service client max_attempts n = ([], final_outcome service (client n))"
proof (cases "client n")
  case TransportError
  with assms have "n = max_attempts" by (simp add: transient_def)
  with TransportError show ?thesis
    by (simp add: send_from.simps [of service client max_attempts max_attempts] final_outcome_def)
next
  case (Answer a)
  with assms show ?thesis
    by (auto simp: send_from.simps [of service client max_attempts n]
        send_from.simps [of service client max_attempts max_attempts] transient_def final_outcome_def)
qed

lemma send_from_retry:
  assumes "n < max_attempts" and "transient (client n)" and "good_retry_after (client n)"
  shows "\<exists>ms. send_from service client max_attempts n =
    (let (sl, r) = send_from service client max_attempts (n + 1) in (ms # sl, r))"
proof (cases "client n")
  case TransportError
  with assms show ?thesis by (simp add: send_from.simps [of service client max_attempts n]) blast
next
  case (Answer a)
  with assms retry_delay_ok obtain ms where "retry_delay a n = Inr ms" by metis
  with assms Answer show ?thesis
    by (simp add: send_from.simps [of service client max_attempts n] transient_def) blast
qed

lemma send_from_until:
  assumes "n \<le> k" and "k \<le> max_attempts" and "\<forall>i. n \<le> i \<and> i < k \<longrightarrow> transient (client i)"
    and "\<not> transient (client k) \<or> k = max_attempts"
    and "\<forall>i. n \<le> i \<and> i < k \<longrightarrow> good_retry_after (client i)"
  shows "\<exists>sl. send_from service client max_attempts n = (sl, final_outcome service (client k)) \<and>
    int (length sl) = k - n"
  using assms
proof (induction "nat (k - n)" arbitrary: n)
  case 0
  then have "n = k" by simp
  with "0.prems" show ?case by (simp add: send_from_last)
next
  case (Suc m)
  then have "n < k" by simp
  have "\<exists>sl. send_from service client max_attempts (n + 1) = (sl, final_outcome service (client k)) \<and>
      int (length sl) = k - (n + 1)"
    by (rule Suc.hyps(1)) (use Suc \<open>n < k\<close> in auto)
  then obtain sl where sl: "send_from service client max_attempts (n + 1) =
      (sl, final_outcome service (client k))" "int (length sl) = k - (n + 1)"
    by blast
  moreover obtain ms where "send_from service client max_attempts n =
      (let (sl, r) = send_from service client max_attempts (n + 1) in (ms # sl, r))"
    using send_from_retry [of n max_attempts client service] Suc.prems \<open>n < k\<close> by auto
  ultimately show ?case by auto
qed

section \<open>Incoming requests: the origin check\<close>

record in_request =
  rq_method :: string
  rq_path :: string
  rq_authorization :: "string option"
  rq_fetch_site :: "string option"
  rq_origin :: "string option"
  rq_host :: "string option"

definition SAFE_METHODS :: "string list" where
  "SAFE_METHODS = [''GET'', ''HEAD'', ''OPTIONS'', ''TRACE'']"

definition EXEMPT_PREFIXES :: "string list" where
  "EXEMPT_PREFIXES = [''/api/'', ''/graphql'', ''/oidc/token'']"

definition SAFE_FETCH_SITES :: "string list" where
  "SAFE_FETCH_SITES = [''same-origin'', ''same-site'', ''none'']"

definition is_exempt :: "in_request \<Rightarrow> bool" where
  "is_exempt rq =
     (if rq_method rq \<in> set SAFE_METHODS then True
      else if or_empty (rq_authorization rq) \<noteq> [] then True
      else list_ex (\<lambda>p. starts_with p (rq_path rq)) EXEMPT_PREFIXES)"

text \<open>The constructor's set of trusted hosts: lower case, no empty string.\<close>

definition csrf_trusted_hosts :: "string list \<Rightarrow> string list" where
  "csrf_trusted_hosts hosts = map py_lower (filter (\<lambda>h. h \<noteq> []) hosts)"

definition allowed_hosts :: "string list \<Rightarrow> in_request \<Rightarrow> string list" where
  "allowed_hosts hosts rq =
     (let h = py_lower (part_before (CHR '':'') (or_empty (rq_host rq))) in
      if h \<noteq> [] then h # csrf_trusted_hosts hosts else csrf_trusted_hosts hosts)"

text \<open>
  \<open>urlsplit(url).hostname\<close> of the standard library: leading controls and spaces and all tabs and
  newlines go, a well-formed scheme is split off, the authority runs up to the first \<open>/\<close>, \<open>?\<close> or
  \<open>#\<close>, and the host is what follows the last \<open>@\<close>, up to a port or inside brackets. Unbalanced
  brackets, or a bracketed host that the \<open>ipaddress\<close> module (the parameter \<open>ip_ok\<close>) rejects, raise
  ValueError.
\<close>

definition scheme_char :: "char \<Rightarrow> bool" where
  "scheme_char c = (let n = ord_of c in
     97 \<le> n \<and> n \<le> 122 \<or> 65 \<le> n \<and> n \<le> 90 \<or> 48 \<le> n \<and> n \<le> 57 \<or> n = 43 \<or> n = 45 \<or> n = 46)"

definition ascii_alpha :: "char \<Rightarrow> bool" where
  "ascii_alpha c = (let n = ord_of c in 97 \<le> n \<and> n \<le> 122 \<or> 65 \<le> n \<and> n \<le> 90)"

definition strip_scheme :: "string \<Rightarrow> string" where
  "strip_scheme u =
     (let pre = part_before (CHR '':'') u in
      if CHR '':'' \<in> set u \<and> pre \<noteq> [] \<and> ascii_alpha (hd pre) \<and> list_all scheme_char pre
      then part_after (CHR '':'') u else u)"

definition url_netloc :: "string \<Rightarrow> string" where
  "url_netloc url =
     (let u = strip_scheme (filter (\<lambda>c. ord_of c \<notin> set [9, 10, 13]) (dropWhile (\<lambda>c. ord_of c \<le> 32) url)) in
      if starts_with ''//'' u
      then takeWhile (\<lambda>c. c \<notin> set ''/?#'') (drop 2 u) else [])"

definition url_hostname :: "(string \<Rightarrow> bool) \<Rightarrow> string \<Rightarrow> string option result" where
  "url_hostname ip_ok url =
     (let net = url_netloc url;
          info = rev (part_before (CHR ''@'') (rev net));
          inner = part_before (CHR '']'') (part_after (CHR ''['') info);
          h = (if CHR ''['' \<in> set info then inner else part_before (CHR '':'') info) in
      if (CHR ''['' \<in> set net) \<noteq> (CHR '']'' \<in> set net) then Inl (ValueError ''Invalid IPv6 URL'')
      else if CHR ''['' \<in> set net \<and> \<not> ip_ok net then Inl (ValueError ''Invalid IPv6 URL'')
      else if h = [] then Inr None
      else Inr (Some (py_lower (part_before (CHR ''%'') h) @ drop (length (part_before (CHR ''%'') h)) h)))"

definition is_same_origin :: "(string \<Rightarrow> bool) \<Rightarrow> string list \<Rightarrow> in_request \<Rightarrow> bool result" where
  "is_same_origin ip_ok hosts rq =
     (if or_empty (rq_fetch_site rq) \<noteq> [] then Inr (or_empty (rq_fetch_site rq) \<in> set SAFE_FETCH_SITES)
      else if or_empty (rq_origin rq) \<noteq> [] then
        map_sum id (\<lambda>h. py_lower (or_empty h) \<in> set (allowed_hosts hosts rq))
          (url_hostname ip_ok (or_empty (rq_origin rq)))
      else Inr True)"

text \<open>The response of the middleware: its own 403, an exception, or what the handler gives.\<close>

datatype 'a csrf_outcome = Rejected int string | Raised exn | Passed 'a

definition csrf_dispatch ::
  "(string \<Rightarrow> bool) \<Rightarrow> string list \<Rightarrow> (in_request \<Rightarrow> 'a) \<Rightarrow> in_request \<Rightarrow> 'a csrf_outcome" where
  "csrf_dispatch ip_ok hosts call_next rq =
     (if is_exempt rq then Passed (call_next rq)
      else (case is_same_origin ip_ok hosts rq of
              Inl e \<Rightarrow> Raised e
            | Inr same \<Rightarrow> if \<not> same then Rejected 403 ''csrf_failed'' else Passed (call_next rq)))"

section \<open>GitHub webhook\<close>

definition webhook_sign :: "(string \<Rightarrow> 'b \<Rightarrow> string) \<Rightarrow> string \<Rightarrow> 'b \<Rightarrow> string" where
  "webhook_sign hmac secret body = ''sha256='' @ hmac secret body"

definition verify_signature ::
  "(string \<Rightarrow> 'b \<Rightarrow> string) \<Rightarrow> string \<Rightarrow> 'b \<Rightarrow> string option \<Rightarrow> bool result" where
  "verify_signature hmac secret body header =
     (if secret = [] \<or> or_empty header = [] \<or> \<not> starts_with ''sha256='' (or_empty header) then Inr False
      else compare_digest (webhook_sign hmac secret body) (or_empty header))"

definition branch_from_ref :: "string \<Rightarrow> string" where
  "branch_from_ref ref =
     (if starts_with ''refs/heads/'' ref then drop (length ''refs/heads/'') ref else [])"

lemma branch_from_ref_iff:
  "b \<noteq> [] \<Longrightarrow> branch_from_ref ref = b \<longleftrightarrow> ref = ''refs/heads/'' @ b"
proof
  assume "b \<noteq> []" "branch_from_ref ref = b"
  then have "starts_with ''refs/heads/'' ref" and d: "drop (length ''refs/heads/'') ref = b"
    by (auto simp: branch_from_ref_def split: if_splits)
  then obtain t where t: "ref = ''refs/heads/'' @ t" by (metis starts_with_iff)
  with d have "t = b" by simp
  with t show "ref = ''refs/heads/'' @ b" by simp
next
  assume "ref = ''refs/heads/'' @ b"
  then have "starts_with ''refs/heads/'' ref" by (metis starts_with_append)
  then show "branch_from_ref ref = b" using \<open>ref = _\<close> by (simp add: branch_from_ref_def)
qed

section \<open>Properties\<close>

text \<open>
  Retries: while attempts are left exactly the transient outcomes (transport failures and
  the statuses 429, 500, 502, 503, 504) are retried; the outcome is that of the first attempt
  that is not transient, or of the last one, with one sleep per retry; and a failure is a
  ProviderAPIError of the service, never the transport's own exception.
\<close>

theorem retries_return_first_final_outcome:
  assumes "1 \<le> k" and "k \<le> max_attempts" and "\<forall>i. 1 \<le> i \<and> i < k \<longrightarrow> transient (client i)"
    and "\<not> transient (client k) \<or> k = max_attempts"
    and "\<forall>i. 1 \<le> i \<and> i < k \<longrightarrow> good_retry_after (client i)"
  shows "\<exists>sleeps. send_with_retries service client max_attempts = (sleeps, final_outcome service (client k))
    \<and> int (length sleeps) = k - 1
    \<and> (\<forall>e. final_outcome service (client k) = Inl e \<longrightarrow> (\<exists>m st. e = ProviderAPIError service m st))"
  using send_from_until [OF assms, of service]
  by (auto simp: send_with_retries_def final_outcome_def split: attempt.splits if_splits)

definition demo_client :: "int \<Rightarrow> attempt" where
  "demo_client n = (if n = 1 then TransportError
     else if n = 2 then Answer \<lparr>hr_status = 503, hr_text = ''busy'', hr_retry_after = Some ''7''\<rparr>
     else Answer \<lparr>hr_status = 200, hr_text = ''ok'', hr_retry_after = None\<rparr>)"

lemma retries_return_first_final_outcome_witness:
  "\<exists>sleeps. send_with_retries ''Coolify'' demo_client 3 =
     (sleeps, Inr \<lparr>hr_status = 200, hr_text = ''ok'', hr_retry_after = None\<rparr>) \<and> length sleeps = 2"
proof -
  have i: "i = 1 \<or> i = 2" if "1 \<le> i \<and> i < 3" for i :: int using that by auto
  have t: "\<forall>i. 1 \<le> i \<and> i < 3 \<longrightarrow> transient (demo_client i)"
  proof (intro allI impI)
    fix i :: int assume "1 \<le> i \<and> i < 3"
    from i [OF this] show "transient (demo_client i)"
      by (auto simp: transient_def demo_client_def retryable_def)
  qed
  have d: "list_all ascii_digit ''7''" by code_simp
  have g: "\<forall>i. 1 \<le> i \<and> i < 3 \<longrightarrow> good_retry_after (demo_client i)"
  proof (intro allI impI)
    fix i :: int assume "1 \<le> i \<and> i < 3"
    from i [OF this] d show "good_retry_after (demo_client i)"
      by (auto simp: good_retry_after_def demo_client_def)
  qed
  have f: "final_outcome ''Coolify'' (demo_client 3) =
      Inr \<lparr>hr_status = 200, hr_text = ''ok'', hr_retry_after = None\<rparr>"
    by (simp add: final_outcome_def demo_client_def is_error_def)
  show ?thesis
    using retries_return_first_final_outcome [of 3 3 demo_client "''Coolify''"] t g f by auto
qed

text \<open>
  The global origin check: an unsafe request without an Authorization header, outside the
  programmatic prefixes, reaches its handler only when the browser declares it not cross-site,
  or (without that header) its Origin names a trusted host or the request's own, or it carries
  neither signal; in every other case the handler does not run, and the answer is 403 unless
  the Origin header is not a URL at all.
\<close>

theorem csrf_blocks_cross_site:
  assumes "rq_method rq \<notin> set SAFE_METHODS" and "or_empty (rq_authorization rq) = []"
    and "\<forall>p\<in>set EXEMPT_PREFIXES. \<not> starts_with p (rq_path rq)"
  shows "csrf_dispatch ip_ok hosts call_next rq =
    (case or_empty (rq_fetch_site rq) of
       c # cs \<Rightarrow> if c # cs \<in> set SAFE_FETCH_SITES then Passed (call_next rq) else Rejected 403 ''csrf_failed''
     | [] \<Rightarrow>
        (case or_empty (rq_origin rq) of
           [] \<Rightarrow> Passed (call_next rq)
         | c # cs \<Rightarrow>
            (case url_hostname ip_ok (c # cs) of
               Inl e \<Rightarrow> Raised e
             | Inr h \<Rightarrow>
                 if py_lower (or_empty h) \<in> py_lower ` {h. h \<in> set hosts \<and> h \<noteq> []} \<union>
                      {h. h = py_lower (part_before (CHR '':'') (or_empty (rq_host rq))) \<and> h \<noteq> []}
                 then Passed (call_next rq) else Rejected 403 ''csrf_failed'')))"
proof -
  have ex: "\<not> is_exempt rq"
    using assms by (auto simp: is_exempt_def list_ex_iff)
  have hosts: "set (allowed_hosts hosts rq) = py_lower ` {h. h \<in> set hosts \<and> h \<noteq> []} \<union>
      {h. h = py_lower (part_before (CHR '':'') (or_empty (rq_host rq))) \<and> h \<noteq> []}"
    by (auto simp: allowed_hosts_def csrf_trusted_hosts_def Let_def)
  show ?thesis
    unfolding csrf_dispatch_def is_same_origin_def hosts
    using ex by (simp split: list.split sum.split)
qed

lemma csrf_blocks_cross_site_witness:
  "csrf_dispatch (\<lambda>_. False) [''panel.example''] (\<lambda>_. ())
     \<lparr>rq_method = ''POST'', rq_path = ''/mail/delete'', rq_authorization = None, rq_fetch_site = None,
      rq_origin = Some ''https://u@Evil.example:8443/x'', rq_host = Some ''panel.example''\<rparr> =
   Rejected 403 ''csrf_failed''"
proof -
  let ?rq = "\<lparr>rq_method = ''POST'', rq_path = ''/mail/delete'', rq_authorization = None, rq_fetch_site = None,
      rq_origin = Some ''https://u@Evil.example:8443/x'', rq_host = Some ''panel.example''\<rparr>"
  have p: "\<forall>p\<in>set EXEMPT_PREFIXES. \<not> starts_with p (rq_path ?rq)" by code_simp
  have l: "py_lower ''evil.example'' = ''evil.example''" "py_lower ''panel.example'' = ''panel.example''"
    "part_before (CHR '':'') ''panel.example'' = ''panel.example''"
    by code_simp+
  have h: "url_hostname (\<lambda>_. False) ''https://u@Evil.example:8443/x'' = Inr (Some ''evil.example'')"
    by code_simp
  show ?thesis
    using csrf_blocks_cross_site [OF _ _ p, of "\<lambda>_. False" "[''panel.example'']" "\<lambda>_. ()"] l h
    by (auto simp: SAFE_METHODS_def)
qed

lemma webhook_signature_exact_facts:
  assumes "ascii_str (hmac secret body)"
  shows "verify_signature hmac secret body header = Inr True \<longleftrightarrow>
           secret \<noteq> [] \<and> header = Some (''sha256='' @ hmac secret body)"
    and "secret \<noteq> [] \<Longrightarrow> header = Some (''sha256='' @ s) \<Longrightarrow>
           isl (verify_signature hmac secret body header) \<longleftrightarrow> \<not> ascii_str s"
proof -
  have pre: "ascii_str ''sha256=''" by code_simp
  have app: "ascii_str (''sha256='' @ s) = ascii_str s" for s
    using pre unfolding ascii_str_def list_all_append by blast
  have sw: "starts_with ''sha256='' (''sha256='' @ s)" for s by (rule starts_with_append)
  show "verify_signature hmac secret body header = Inr True \<longleftrightarrow>
      secret \<noteq> [] \<and> header = Some (''sha256='' @ hmac secret body)"
    using assms sw [of "hmac secret body"]
    unfolding verify_signature_def webhook_sign_def compare_digest_def app
    by (cases header) (auto simp: app simp del: append_Cons append_Nil)
  assume "secret \<noteq> []" "header = Some (''sha256='' @ s)"
  then show "isl (verify_signature hmac secret body header) \<longleftrightarrow> \<not> ascii_str s"
    using assms sw [of s]
    unfolding verify_signature_def webhook_sign_def compare_digest_def app
    by (simp add: app del: append_Cons append_Nil)
qed

text \<open>
  A webhook body is accepted exactly when a secret is configured and the header is the
  signature of that body under it; the comparison itself raises TypeError, which no caller
  catches, when the header starts with the prefix but has a non-ASCII character.
\<close>

theorem webhook_signature_exact:
  assumes "ascii_str (hmac secret body)"
  shows "(verify_signature hmac secret body header = Inr True \<longleftrightarrow>
           secret \<noteq> [] \<and> header = Some (''sha256='' @ hmac secret body)) \<and>
     (secret \<noteq> [] \<longrightarrow> header = Some (''sha256='' @ s) \<longrightarrow>
           (isl (verify_signature hmac secret body header) \<longleftrightarrow> \<not> ascii_str s))"
proof -
  have 1: "verify_signature hmac secret body header = Inr True \<longleftrightarrow>
           secret \<noteq> [] \<and> header = Some (''sha256='' @ hmac secret body)"
    by ((intro impI)?, rule webhook_signature_exact_facts(1); (assumption | rule assms))
  have 2: "secret \<noteq> [] \<longrightarrow> header = Some (''sha256='' @ s) \<longrightarrow>
           (isl (verify_signature hmac secret body header) \<longleftrightarrow> \<not> ascii_str s)"
    by ((intro impI)?, rule webhook_signature_exact_facts(2); (assumption | rule assms))
  show ?thesis by (rule conjI [OF 1 2])
qed

lemma webhook_signature_exact_witness:
  "verify_signature (\<lambda>s b. s @ b) ''k'' ''body'' (Some (''sha256='' @ ''kbody'')) = Inr True"
proof -
  have "ascii_str (''k'' @ ''body'')" by code_simp
  then show ?thesis
    using webhook_signature_exact [of "\<lambda>s b. s @ b" "''k''" "''body''" "Some (''sha256='' @ ''kbody'')"]
    by simp
qed

end
