(* ===== verification/Hooks.thy ===== *)
theory Hooks
  imports DeployTask Http
begin

text \<open>
  Push-to-deploy: the unauthenticated GitHub webhook receiver of \<^verbatim>\<open>api/routes.py\<close>, which checks
  the signature and turns a push or a branch deletion into a redeploy, a preview deployment or
  the removal of a preview. The JSON decoder is a parameter; it yields what the handler reads.
\<close>

record hook_payload =
  hp_ref :: "string option"
  hp_ref_text :: string
  hp_branch_type :: bool
  hp_deleted :: bool

datatype hook_reply = HookPong | HookIgnored | HookRemoved bool | HookDeployed string spawned
  | HookPreview string string spawned

text \<open>\<open>_engine_exc_to_http\<close>: the status is the error's code, or 502 when it has none.\<close>

definition engine_exc_to_http :: "exn \<Rightarrow> exn" where
  "engine_exc_to_http e =
     (case e of
        DockerEngineError m c \<Rightarrow> HTTPException (int_or c 502) m
      | BuildError m c \<Rightarrow> HTTPException (int_or c 502) m
      | _ \<Rightarrow> e)"

definition push_ref :: "hook_payload \<Rightarrow> string" where
  "push_ref p = or_empty (hp_ref p)"

text \<open>A session that commits the operation's changes, or rolls back when it raises.\<close>

definition session_try :: "(db \<Rightarrow> ('a \<times> db) result) \<Rightarrow> 'a task" where
  "session_try f w =
     (let w1 = opened w in
      case f (wd_db w1) of Inl e \<Rightarrow> (Inl e, w1) | Inr (x, d) \<Rightarrow> (Inr x, w1\<lparr>wd_db := d\<rparr>))"

definition hook_removes :: "task_deps \<Rightarrow> deploy_hook \<Rightarrow> string \<Rightarrow> hook_reply task" where
  "hook_removes sv h branch =
     act_bind (teardown_preview_for_branch sv (Some (hk_tenant h)) (hk_project h) branch)
       (\<lambda>removed. act_return (HookRemoved removed))"

definition hook_redeploys :: "task_deps \<Rightarrow> deploy_hook \<Rightarrow> string \<Rightarrow> hook_reply task" where
  "hook_redeploys sv h new_id =
     act_catch
       (act_bind (session_try (\<lambda>d. redeploy (td_cf sv) d new_id (td_now sv) (Some (hk_tenant h)) (hk_git h) (hk_ref h)
            (hk_project h) (hk_port h)))
          (\<lambda>(i, task). act_return (HookDeployed i task)))
       (\<lambda>e. act_raise (engine_exc_to_http e))"

definition hook_previews :: "task_deps \<Rightarrow> deploy_hook \<Rightarrow> string \<Rightarrow> string \<Rightarrow> string \<Rightarrow> hook_reply task" where
  "hook_previews sv h new_preview new_id branch =
     act_catch
       (act_bind (session_try (\<lambda>d. deploy_preview (td_cf sv) d new_preview new_id (td_now sv) (Some (hk_tenant h)) (hk_git h)
            branch (hk_project h) (hk_port h)))
          (\<lambda>(i, domain, task). act_return (HookPreview i domain task)))
       (\<lambda>e. act_raise (engine_exc_to_http e))"

definition hook_event ::
  "task_deps \<Rightarrow> deploy_hook \<Rightarrow> string \<Rightarrow> string \<Rightarrow> string \<Rightarrow> hook_payload \<Rightarrow> hook_reply task" where
  "hook_event sv h new_preview new_id event p =
     (if event = ''delete'' then
        (if \<not> hp_branch_type p \<or> \<not> hk_previews h then act_return HookIgnored else hook_removes sv h (hp_ref_text p))
      else (let branch = branch_from_ref (push_ref p) in
        if branch = [] then act_return HookIgnored
        else if branch = hk_ref h then
          (if hp_deleted p then act_return HookIgnored else hook_redeploys sv h new_id)
        else if \<not> hk_previews h then act_return HookIgnored
        else if hp_deleted p then hook_removes sv h branch
        else hook_previews sv h new_preview new_id branch))"

text \<open>The handler behind the signature check.\<close>

definition hook_accepted ::
  "task_deps \<Rightarrow> (string \<Rightarrow> hook_payload option result) \<Rightarrow> deploy_hook \<Rightarrow> string \<Rightarrow> string \<Rightarrow> string \<Rightarrow> string \<Rightarrow>
   hook_reply task" where
  "hook_accepted sv decode h new_preview new_id body event =
     (if event = ''ping'' then act_return HookPong
      else if event \<notin> {''push'', ''delete''} then act_return HookIgnored
      else act_bind (lift_result (decode body))
        (\<lambda>payload. case payload of
            None \<Rightarrow> act_raise (HTTPException 400 ''Invalid JSON.'')
          | Some p \<Rightarrow> hook_event sv h new_preview new_id event p))"

definition github_webhook ::
  "task_deps \<Rightarrow> (string \<Rightarrow> hook_payload option result) \<Rightarrow> string \<Rightarrow> string \<Rightarrow> string \<Rightarrow> string \<Rightarrow> string option \<Rightarrow> string \<Rightarrow>
   hook_reply task" where
  "github_webhook sv decode hid new_preview new_id body sig event =
     act_bind (session_read (\<lambda>d. get_hook d hid))
       (\<lambda>found. case found of
          None \<Rightarrow> act_raise (HTTPException 404 ''Webhook not found.'')
        | Some h \<Rightarrow>
            if \<not> hk_enabled h then act_raise (HTTPException 404 ''Webhook not found.'')
            else act_bind (lift_result (verify_signature (td_hmac sv) (decrypt (td_fernet sv) (hk_secret h)) body sig))
              (\<lambda>ok. if \<not> ok then act_raise (HTTPException 401 ''Invalid signature.'')
                 else hook_accepted sv decode h new_preview new_id body event))"

section \<open>Properties\<close>

definition hook_signed :: "task_deps \<Rightarrow> deploy_hook \<Rightarrow> string \<Rightarrow> string option \<Rightarrow> bool" where
  "hook_signed sv h body sig \<longleftrightarrow> hk_enabled h \<and> decrypt (td_fernet sv) (hk_secret h) \<noteq> [] \<and>
     sig = Some (''sha256='' @ td_hmac sv (decrypt (td_fernet sv) (hk_secret h)) body)"

lemma signed_iff:
  assumes "\<And>k b. ascii_str (td_hmac sv k b)" and "hk_enabled h"
  shows "verify_signature (td_hmac sv) (decrypt (td_fernet sv) (hk_secret h)) body sig = Inr True \<longleftrightarrow> hook_signed sv h body sig"
  using webhook_signature_exact_facts(1) [of "td_hmac sv", OF assms(1)] assms(2) by (simp add: hook_signed_def)

text \<open>
  What a webhook may do with a hook: nothing, remove a preview, redeploy exactly the hook's
  project from its repository and branch, or deploy a preview of its project.
\<close>

fun hook_scope :: "deploy_hook \<Rightarrow> hook_reply \<Rightarrow> bool" where
  "hook_scope h (HookDeployed i task) =
     (task = RunDeploy i (Some (hk_tenant h)) (hk_git h) (hk_ref h) (hk_project h) (hk_port h) None)"
| "hook_scope h (HookPreview i host task) =
     (hk_previews h \<and> (\<exists>branch. branch \<noteq> [] \<and> branch \<noteq> hk_ref h \<and>
        task = RunDeploy i (Some (hk_tenant h)) (hk_git h) branch (preview_project_name (hk_project h) branch) (hk_port h)
                 (Some (hk_project h))))"
| "hook_scope h (HookRemoved b) = hk_previews h"
| "hook_scope h HookPong = True"
| "hook_scope h HookIgnored = True"

lemma hook_redeploys_scope: "wp (hook_redeploys sv h new_id) (\<lambda>r w'. \<forall>x. r = Inr x \<longrightarrow> hook_scope h x) w"
  by (auto simp: hook_redeploys_def wp_catch wp_bind) (auto simp: wp_def session_try_def Let_def redeploy_def act_return_def act_raise_def
      split: sum.splits prod.splits if_splits)

lemma hook_previews_scope:
  assumes "hk_previews h" "branch \<noteq> []" "branch \<noteq> hk_ref h"
  shows "wp (hook_previews sv h new_preview new_id branch) (\<lambda>r w'. \<forall>x. r = Inr x \<longrightarrow> hook_scope h x) w"
  using assms
  by (auto simp: hook_previews_def wp_catch wp_bind) (auto simp: wp_def session_try_def Let_def deploy_preview_def act_return_def act_raise_def
      split: sum.splits prod.splits if_splits)

lemma hook_removes_scope: "hk_previews h \<Longrightarrow> wp (hook_removes sv h branch) (\<lambda>r w'. \<forall>x. r = Inr x \<longrightarrow> hook_scope h x) w"
  unfolding hook_removes_def by (rule wp_bind_any) simp_all

lemma hook_event_scope: "wp (hook_event sv h np ni event p) (\<lambda>r w'. \<forall>x. r = Inr x \<longrightarrow> hook_scope h x) w"
  by (auto simp: hook_event_def Let_def hook_redeploys_scope hook_removes_scope hook_previews_scope)


definition demo_hook :: deploy_hook where
  "demo_hook = \<lparr>hk_id = ''h1'', hk_tenant = ''t'', hk_project = ''web'', hk_git = ''g'', hk_ref = ''main'', hk_port = 80,
     hk_secret = ''s'', hk_enabled = True, hk_previews = True, hk_created = 0\<rparr>"

definition demo_hook_world :: world where
  "demo_hook_world = demo_world\<lparr>wd_db := empty_db\<lparr>db_hooks := [demo_hook]\<rparr>\<rparr>"

definition demo_hook_deps :: task_deps where
  "demo_hook_deps = demo_deps\<lparr>td_hmac := (\<lambda>k b. ''sig''), td_fernet := (\<lambda>c. Some ''key'')\<rparr>"


text \<open>
  Previews are capped per project name and otherwise free: a deployment of a preview never
  takes the tenant's previews of any project above the configured cap (if they were not above it
  before), and keeps one row per branch; but it looks at nothing else, so it succeeds without an
  app of that name, without a plan and with the quota used up.
\<close>

theorem previews_capped_per_project_only:
  assumes "deploy_preview cf d np i now tid git branch project port = Inr (x, d')"
  shows "preview_count d' (Some t) p \<le> max (preview_count d (Some t) p) (cf_max_previews cf) \<and>
    (distinct (map (\<lambda>v. (pv_tenant v, pv_project v, pv_branch v)) (db_previews d)) \<longrightarrow>
     distinct (map (\<lambda>v. (pv_tenant v, pv_project v, pv_branch v)) (db_previews d'))) \<and>
    (\<exists>d2. deploy_preview cf (d\<lparr>db_resources := rs, db_plans := ps, db_tenants := ts\<rparr>) np i now tid git branch project port =
       Inr (x, d2))"
proof -
  let ?key = "\<lambda>v. (pv_tenant v, pv_project v, pv_branch v)"
  let ?u = "upd_where (preview_of tid project branch) (\<lambda>v. v\<lparr>pv_last_deployment := i\<rparr>)"
  let ?known = "list_ex (preview_of tid project branch) (db_previews d)"
  let ?n = "\<lparr>pv_id = np, pv_tenant = or_empty tid, pv_project = project, pv_branch = branch,
     pv_stack = preview_project_name project branch, pv_domain = app_url cf (preview_project_name project branch),
     pv_last_deployment = [], pv_created = now\<rparr>"
  let ?f = "filter (\<lambda>v. pv_tenant v = t \<and> pv_project v = p)"
  from assms have acts: "require_deploy_actions cf = Inr ()"
    and cap: "?known \<or> preview_count d tid project < cf_max_previews cf"
    and d': "db_previews d' = ?u (if ?known then db_previews d else db_previews d @ [?n])"
    by (auto simp: deploy_preview_def Let_def add_deployment_def split: sum.splits if_splits)
  have key: "map ?key (?u xs) = map ?key xs" for xs by (rule map_upd_where) simp
  have len: "length (?f (?u xs)) = length (?f xs)" for xs by (induction xs) auto
  have "preview_count d' (Some t) p \<le> max (preview_count d (Some t) p) (cf_max_previews cf)"
  proof (cases ?known)
    case True
    then show ?thesis by (simp add: preview_count_def d' len)
  next
    case False
    then have "int (length (?f (db_previews d'))) = int (length (?f (db_previews d))) +
        (if or_empty tid = t \<and> project = p then 1 else 0)"
      by (simp add: d' len del: upd_where_simps)
    with cap False show ?thesis by (auto simp: preview_count_def)
  qed
  moreover have "distinct (map ?key (db_previews d')) " if "distinct (map ?key (db_previews d))"
    using that by (auto simp: d' key list_ex_iff preview_of_def simp del: upd_where_simps)
  moreover have "\<exists>d2. deploy_preview cf (d\<lparr>db_resources := rs, db_plans := ps, db_tenants := ts\<rparr>) np i now tid git branch project port =
       Inr (x, d2)"
    using assms by (auto simp: deploy_preview_def Let_def preview_count_def split: sum.splits if_splits)
  ultimately show ?thesis by blast
qed

lemma previews_capped_per_project_only_witness:
  "\<exists>x d'. deploy_preview demo_cf empty_db ''p'' ''d'' 0 (Some ''t'') ''g'' ''feat'' ''nope'' 80 = Inr (x, d') \<and>
     preview_count d' (Some ''t'') ''nope'' \<le> 3"
proof -
  obtain x d' where r: "deploy_preview demo_cf empty_db ''p'' ''d'' 0 (Some ''t'') ''g'' ''feat'' ''nope'' 80 = Inr (x, d')"
    by (auto simp: deploy_preview_def require_deploy_actions_def demo_cf_def preview_count_def empty_db_def Let_def)
  have "preview_count empty_db (Some ''t'') ''nope'' = 0" "cf_max_previews demo_cf = 3"
    by (simp_all add: preview_count_def empty_db_def demo_cf_def)
  with previews_capped_per_project_only [OF r, of "''t''" "''nope''"] have "preview_count d' (Some ''t'') ''nope'' \<le> 3" by simp
  with r show ?thesis by blast
qed

end
