(* ===== verification/LogStream.thy ===== *)
theory LogStream
  imports Deploys
begin

text \<open>
  The build-log stream (\<^verbatim>\<open>stream_deploy_log_events\<close> in \<^verbatim>\<open>modules/deploys/service.py\<close>): poll the
  deployment row, send new log lines and status changes as server-sent events, stop at a final
  status, on disconnect or at the time limit. \<open>fetch k\<close> and \<open>gone k\<close> are what the \<open>k\<close>-th poll sees.
  The loop may run forever when the interval is not positive, so it is a partial function:
  \<open>None\<close> is a stream that never ends.
\<close>

datatype sse_event = SseStatus deploy_status | SseLog string | SseDone deploy_status bool | SseNotFound

definition log_lines :: "string \<Rightarrow> string list" where
  "log_lines text = (if text = [] then [] else split_on (CHR 0x0A) text)"

definition terminal_state :: "deploy_status \<Rightarrow> bool" where
  "terminal_state s = (s \<in> {STATUS_READY, STATUS_ERROR})"

text \<open>The events of one poll and the number of lines sent after it.\<close>

definition poll_events :: "nat \<Rightarrow> deploy_status option \<Rightarrow> deploy_status \<Rightarrow> string \<Rightarrow> sse_event list" where
  "poll_events sent last_status s text =
     (if last_status \<noteq> Some s then [SseStatus s] else []) @ map SseLog (drop sent (log_lines text))"

partial_function (option) stream_from ::
  "(nat \<Rightarrow> (deploy_status \<times> string) option) \<Rightarrow> (nat \<Rightarrow> bool) \<Rightarrow> rat \<Rightarrow> rat \<Rightarrow> nat \<Rightarrow> nat \<Rightarrow> deploy_status option \<Rightarrow> rat \<Rightarrow>
   sse_event list option" where
  "stream_from fetch gone poll limit k sent last_status elapsed =
     (if gone k then Some []
      else case fetch k of
        None \<Rightarrow> Some [SseNotFound]
      | Some (s, text) \<Rightarrow>
          (let es = poll_events sent last_status s text in
           if terminal_state s then Some (es @ [SseDone s False])
           else if limit \<le> elapsed + poll then Some (es @ [SseDone s True])
           else Option.bind (stream_from fetch gone poll limit (Suc k) (max sent (length (log_lines text))) (Some s) (elapsed + poll))
                  (\<lambda>rest. Some (es @ rest))))"

definition stream_deploy_log_events ::
  "(nat \<Rightarrow> (deploy_status \<times> string) option) \<Rightarrow> (nat \<Rightarrow> bool) \<Rightarrow> rat \<Rightarrow> rat \<Rightarrow> sse_event list option" where
  "stream_deploy_log_events fetch gone poll limit = stream_from fetch gone poll limit 0 0 None 0"

text \<open>The poll of \<open>stream_logs\<close>: the row, when the tenant owns it, in the database of that moment.\<close>

definition fetch_for_tenant :: "(nat \<Rightarrow> db) \<Rightarrow> string option \<Rightarrow> string \<Rightarrow> nat \<Rightarrow> (deploy_status \<times> string) option" where
  "fetch_for_tenant dbs tid did k =
     map_option (\<lambda>p. (dp_status p, dp_log p)) (get_deployment_for_tenant (dbs k) tid did)"

definition stream_logs :: "(nat \<Rightarrow> db) \<Rightarrow> (nat \<Rightarrow> bool) \<Rightarrow> string option \<Rightarrow> string \<Rightarrow> rat \<Rightarrow> rat \<Rightarrow> sse_event list option" where
  "stream_logs dbs gone tid did poll limit = stream_deploy_log_events (fetch_for_tenant dbs tid did) gone poll limit"

section \<open>What the client receives\<close>

fun sent_lines :: "sse_event list \<Rightarrow> string list" where
  "sent_lines [] = []"
| "sent_lines (SseLog l # es) = l # sent_lines es"
| "sent_lines (e # es) = sent_lines es"

lemma sent_lines_append [simp]: "sent_lines (xs @ ys) = sent_lines xs @ sent_lines ys"
  by (induction xs rule: sent_lines.induct) simp_all

lemma sent_lines_logs [simp]: "sent_lines (map SseLog ls) = ls"
  by (induction ls) simp_all

lemma sent_lines_poll [simp]: "sent_lines (poll_events sent last_status s tx) = drop sent (log_lines tx)"
  by (simp add: poll_events_def)

lemma poll_events_not_done: "SseDone s' t \<notin> set (poll_events sent last_status s tx)"
  by (auto simp: poll_events_def)

definition growing :: "(nat \<Rightarrow> (deploy_status \<times> string) option) \<Rightarrow> bool" where
  "growing fetch \<longleftrightarrow> (\<forall>k s tx s' tx'. fetch k = Some (s, tx) \<longrightarrow> fetch (Suc k) = Some (s', tx') \<longrightarrow>
     prefix (log_lines tx) (log_lines tx'))"

text \<open>The events after the lines \<open>old\<close> complete the log of some poll, whose status \<open>done\<close> reports.\<close>

definition completes ::
  "(nat \<Rightarrow> (deploy_status \<times> string) option) \<Rightarrow> string list \<Rightarrow> sse_event list \<Rightarrow> bool" where
  "completes fetch old es \<longleftrightarrow> (\<exists>m s tx. fetch m = Some (s, tx) \<and> old @ sent_lines es = log_lines tx \<and>
     (\<forall>s' t. SseDone s' t \<in> set es \<longrightarrow> s' = s \<and> (t \<or> terminal_state s)))"

lemma stream_from_ends:
  assumes "0 < poll" and "growing fetch"
    and "limit - elapsed \<le> of_nat n * poll"
    and "\<And>s tx. fetch k = Some (s, tx) \<Longrightarrow> prefix old (log_lines tx)"
  shows "\<exists>es. stream_from fetch gone poll limit k (length old) last_status elapsed = Some es \<and>
    (es \<in> {[], [SseNotFound]} \<or> completes fetch old es)"
  using assms(3,4)
proof (induction n arbitrary: k old last_status elapsed)
  case 0
  then have lim: "limit \<le> elapsed + poll" using assms(1) by simp
  show ?case
  proof (cases "gone k \<or> fetch k = None")
    case True
    then show ?thesis by (subst stream_from.simps) auto
  next
    case False
    then obtain s tx where f: "fetch k = Some (s, tx)" by auto
    let ?es = "poll_events (length old) last_status s tx @ [SseDone s (\<not> terminal_state s)]"
    have "stream_from fetch gone poll limit k (length old) last_status elapsed = Some ?es"
      using f lim False by (subst stream_from.simps) (simp add: Let_def)
    moreover have "completes fetch old ?es"
      unfolding completes_def using f 0(2) [OF f] poll_events_not_done
      by (intro exI [of _ k] exI [of _ s] exI [of _ tx]) (auto simp: prefix_def)
    ultimately show ?thesis by blast
  qed
next
  case (Suc n)
  show ?case
  proof (cases "gone k \<or> fetch k = None")
    case True
    then show ?thesis by (subst stream_from.simps) auto
  next
    case False
    then obtain s tx where f: "fetch k = Some (s, tx)" by auto
    have pre: "prefix old (log_lines tx)" using Suc.prems(2) [OF f] .
    then have mx: "max (length old) (length (log_lines tx)) = length (log_lines tx)"
      by (simp add: prefix_length_le)
    let ?p = "poll_events (length old) last_status s tx"
    have all: "old @ sent_lines ?p = log_lines tx" using pre by (auto simp: prefix_def)
    have now_: "completes fetch old (?p @ es)" if "sent_lines es = []" "\<forall>s' t. SseDone s' t \<in> set es \<longrightarrow> s' = s \<and> (t \<or> terminal_state s)" for es
      unfolding completes_def using f all that poll_events_not_done
      by (intro exI [of _ k] exI [of _ s] exI [of _ tx]) auto
    show ?thesis
    proof (cases "terminal_state s \<or> limit \<le> elapsed + poll")
      case True
      have "stream_from fetch gone poll limit k (length old) last_status elapsed = Some (?p @ [SseDone s (\<not> terminal_state s)])"
        using f True False by (subst stream_from.simps) (auto simp: Let_def)
      moreover have "completes fetch old (?p @ [SseDone s (\<not> terminal_state s)])" by (rule now_) auto
      ultimately show ?thesis by blast
    next
      case go: False
      have "limit - (elapsed + poll) \<le> of_nat n * poll" using Suc.prems(1) by (simp add: algebra_simps)
      moreover have "prefix (log_lines tx) (log_lines tx')" if "fetch (Suc k) = Some (s', tx')" for s' tx'
        using assms(2) f that unfolding growing_def by blast
      ultimately obtain es where es: "stream_from fetch gone poll limit (Suc k) (length (log_lines tx)) (Some s) (elapsed + poll) = Some es"
        "es \<in> {[], [SseNotFound]} \<or> completes fetch (log_lines tx) es"
        using Suc.IH [of "elapsed + poll" "Suc k" "log_lines tx" "Some s"] by blast
      have out: "stream_from fetch gone poll limit k (length old) last_status elapsed = Some (?p @ es)"
        using f go False es(1) mx by (subst stream_from.simps) (simp add: Let_def)
      from es(2) have "completes fetch old (?p @ es)"
      proof
        assume "es \<in> {[], [SseNotFound]}"
        then show ?thesis by (intro now_) auto
      next
        assume "completes fetch (log_lines tx) es"
        then obtain m s1 tx1 where m: "fetch m = Some (s1, tx1)" "log_lines tx @ sent_lines es = log_lines tx1"
          "\<forall>s' t. SseDone s' t \<in> set es \<longrightarrow> s' = s1 \<and> (t \<or> terminal_state s1)"
          unfolding completes_def by blast
        have "old @ sent_lines (?p @ es) = log_lines tx1" using m(2) all by (metis append.assoc sent_lines_append)
        with m(1,3) show ?thesis unfolding completes_def using poll_events_not_done
          by (intro exI [of _ m] exI [of _ s1] exI [of _ tx1]) auto
      qed
      with out show ?thesis by blast
    qed
  qed
qed


definition demo_fetch :: "nat \<Rightarrow> (deploy_status \<times> string) option" where
  "demo_fetch k = Some (if k = 0 then (STATUS_BUILDING, ''a'') else (STATUS_READY, ''a'' @ [CHR 0x0A] @ ''b''))"


end
