(* ===== verification/Provider.thy ===== *)
theory Provider
  imports Http Cache Effects Complex_Main
begin

text \<open>
  What the provider clients (\<^verbatim>\<open>services/mailcow.py\<close>, \<^verbatim>\<open>services/coolify.py\<close>) share: JSON values
  with Python's coercions, and requests made through \<^verbatim>\<open>services/http.py\<close>. The world of a client
  is the list of the requests sent and the shared TTL cache; the answers, the decoder and the
  clock are parameters, and an answer may depend on everything sent before.
\<close>

section \<open>JSON values as Python objects\<close>

text \<open>
  A float is the rational it denotes with its \<open>repr\<close>; NaN and the infinities are outside the
  model. An object keeps its keys in order, and the decoder gives it distinct keys.
\<close>

datatype json = JNull | JBool bool | JInt int | JFloat rat string | JStr string
  | JList "json list" | JObj "(string \<times> json) list"

type_synonym jdict = "(string \<times> json) list"

fun truthy :: "json \<Rightarrow> bool" where
  "truthy JNull = False"
| "truthy (JBool b) = b"
| "truthy (JInt n) = (n \<noteq> 0)"
| "truthy (JFloat q _) = (q \<noteq> 0)"
| "truthy (JStr s) = (s \<noteq> [])"
| "truthy (JList xs) = (xs \<noteq> [])"
| "truthy (JObj m) = (m \<noteq> [])"

text \<open>\<open>d.get(k, default)\<close>, and \<open>a or b or ...\<close>: the first true value, else the last.\<close>

definition jget_or :: "jdict \<Rightarrow> string \<Rightarrow> json \<Rightarrow> json" where
  "jget_or m k v = (case map_of m k of None \<Rightarrow> v | Some x \<Rightarrow> x)"

definition jget :: "jdict \<Rightarrow> string \<Rightarrow> json" where
  "jget m k = jget_or m k JNull"

fun jor :: "json list \<Rightarrow> json" where
  "jor [] = JNull"
| "jor [x] = x"
| "jor (x # y # ys) = (if truthy x then x else jor (y # ys))"

text \<open>\<open>repr\<close> of a string: single quotes unless it has one and no double quote.\<close>

definition hex_digit :: "nat \<Rightarrow> char" where
  "hex_digit n = (if n < 10 then char_of (48 + n) else char_of (87 + n))"

definition repr_char :: "char \<Rightarrow> char \<Rightarrow> string" where
  "repr_char q c = (let n = ord_of c in
     if c = q \<or> n = 92 then [CHR 0x5C, c]
     else if n = 9 then [CHR 0x5C, CHR ''t'']
     else if n = 10 then [CHR 0x5C, CHR ''n'']
     else if n = 13 then [CHR 0x5C, CHR ''r'']
     else if n < 32 \<or> 127 \<le> n \<and> n \<le> 160 \<or> n = 173
       then [CHR 0x5C, CHR ''x'', hex_digit (n div 16), hex_digit (n mod 16)]
     else [c])"

definition repr_str :: "string \<Rightarrow> string" where
  "repr_str s = (let q = (if CHR 0x27 \<in> set s \<and> CHR 0x22 \<notin> set s then CHR 0x22 else CHR 0x27)
     in q # concat (map (repr_char q) s) @ [q])"

fun jrepr :: "json \<Rightarrow> string" where
  "jrepr JNull = ''None''"
| "jrepr (JBool b) = (if b then ''True'' else ''False'')"
| "jrepr (JInt n) = int_str n"
| "jrepr (JFloat _ r) = r"
| "jrepr (JStr s) = repr_str s"
| "jrepr (JList xs) = ''['' @ join '', '' (map jrepr xs) @ '']''"
| "jrepr (JObj m) = ''{'' @ join '', '' (map (\<lambda>(k, v). repr_str k @ '': '' @ jrepr v) m) @ ''}''"

definition jstr :: "json \<Rightarrow> string" where
  "jstr v = (case v of JStr s \<Rightarrow> s | _ \<Rightarrow> jrepr v)"

text \<open>\<open>int(v)\<close>: a float is cut towards zero, a string is parsed, other types raise TypeError.\<close>

definition jint :: "json \<Rightarrow> int result" where
  "jint v = (case v of
       JBool b \<Rightarrow> Inr (of_bool b)
     | JInt n \<Rightarrow> Inr n
     | JFloat q _ \<Rightarrow> Inr (if q < 0 then - \<lfloor>- q\<rfloor> else \<lfloor>q\<rfloor>)
     | JStr s \<Rightarrow> (case py_int s of Some n \<Rightarrow> Inr n
                 | None \<Rightarrow> Inl (ValueError (''invalid literal for int() with base 10: '' @ repr_str s)))
     | _ \<Rightarrow> Inl (OtherError ''TypeError''))"

text \<open>Iteration over a value, and the dict methods a non-dict does not have.\<close>

definition jiter :: "json \<Rightarrow> json list result" where
  "jiter v = (case v of
       JList xs \<Rightarrow> Inr xs
     | JObj m \<Rightarrow> Inr (map (JStr \<circ> fst) m)
     | JStr s \<Rightarrow> Inr (map (\<lambda>c. JStr [c]) s)
     | _ \<Rightarrow> Inl (OtherError ''TypeError''))"

definition as_dict :: "json \<Rightarrow> jdict result" where
  "as_dict v = (case v of JObj m \<Rightarrow> Inr m | _ \<Rightarrow> Inl (OtherError ''AttributeError''))"

definition is_dict :: "json \<Rightarrow> bool" where
  "is_dict v = (case v of JObj _ \<Rightarrow> True | _ \<Rightarrow> False)"

definition dict_items :: "json list \<Rightarrow> jdict list" where
  "dict_items xs = concat (map (\<lambda>v. case v of JObj m \<Rightarrow> [m] | _ \<Rightarrow> []) xs)"

text \<open>\<open>str(raw.get(a) or raw.get(b) or default)\<close>, stripped by the pydantic models.\<close>

definition text_of :: "jdict \<Rightarrow> string list \<Rightarrow> string \<Rightarrow> string" where
  "text_of m ks dflt = py_strip (jstr (jor (map (jget m) ks @ [JStr dflt])))"

definition int_of :: "jdict \<Rightarrow> string list \<Rightarrow> int result" where
  "int_of m ks = jint (jor (map (jget m) ks @ [JInt 0]))"

text \<open>\<open>str(raw.get("active", "1")) in {"1", "true", "True"}\<close>\<close>

definition active_of :: "jdict \<Rightarrow> bool" where
  "active_of m = (jstr (jget_or m ''active'' (JStr ''1'')) \<in> set [''1'', ''true'', ''True''])"

section \<open>Sequences of fallible steps\<close>

definition rbind :: "'a result \<Rightarrow> ('a \<Rightarrow> 'b result) \<Rightarrow> 'b result" where
  "rbind m f = (case m of Inl e \<Rightarrow> Inl e | Inr x \<Rightarrow> f x)"

lemma rbind_simps [simp]: "rbind (Inl e) f = Inl e" "rbind (Inr x) f = f x"
  by (simp_all add: rbind_def)

lemma rbind_Inr: "rbind m f = Inr y \<longleftrightarrow> (\<exists>x. m = Inr x \<and> f x = Inr y)"
  by (cases m) auto

fun map_result :: "('a \<Rightarrow> 'b result) \<Rightarrow> 'a list \<Rightarrow> 'b list result" where
  "map_result f [] = Inr []"
| "map_result f (x # xs) = rbind (f x) (\<lambda>y. rbind (map_result f xs) (\<lambda>ys. Inr (y # ys)))"

lemma map_result_Inr: "map_result f xs = Inr ys \<longleftrightarrow> list_all2 (\<lambda>x y. f x = Inr y) xs ys"
proof (induction xs arbitrary: ys)
  case (Cons x xs)
  then show ?case by (cases ys) (auto simp: rbind_Inr)
qed auto

lemma map_result_total: "(\<And>x. x \<in> set xs \<Longrightarrow> f x = Inr (g x)) \<Longrightarrow> map_result f xs = Inr (map g xs)"
  by (induction xs) auto

section \<open>Requests\<close>

record preq =
  pq_service :: string
  pq_method :: string
  pq_url :: string
  pq_headers :: "(string \<times> string) list"
  pq_params :: "(string \<times> string) list"
  pq_body :: "json option"

record 'c pworld =
  pw_sent :: "preq list"
  pw_cache :: "'c ttl_cache"

text \<open>
  \<open>pd_attempt h n\<close> is what attempt \<open>n\<close> of the last request of the history \<open>h\<close> gives,
  \<open>pd_parse\<close> the JSON decoder and \<open>pd_clock h\<close> the monotonic clock once \<open>h\<close> is answered.
\<close>

record provider =
  pd_attempt :: "preq list \<Rightarrow> int \<Rightarrow> attempt"
  pd_parse :: "string \<Rightarrow> json option"
  pd_clock :: "preq list \<Rightarrow> int"

type_synonym ('c, 'a) pact = "('c pworld, 'a) sx"

definition pd_answer :: "provider \<Rightarrow> preq list \<Rightarrow> json result" where
  "pd_answer p h = snd (request_json (JObj []) (pd_parse p) (pq_service (last h)) (pd_attempt p h) 3)"

text \<open>\<open>request_json\<close> with its default of three attempts.\<close>

definition call_json :: "provider \<Rightarrow> preq \<Rightarrow> ('c, json) pact" where
  "call_json p rq w =
     (let h = pw_sent w @ [rq] in (pd_answer p h, w\<lparr>pw_sent := h\<rparr>))"

definition drop_cached :: "string list \<Rightarrow> ('c, unit) pact" where
  "drop_cached ks w = (Inr (), w\<lparr>pw_cache := fold (\<lambda>k c. cache_delete c k) ks (pw_cache w)\<rparr>)"

text \<open>\<open>cache.get_or_set\<close> with a factory that itself acts on the world.\<close>

definition cached :: "provider \<Rightarrow> string \<Rightarrow> int \<Rightarrow> ('c, 'c) pact \<Rightarrow> ('c, 'c) pact" where
  "cached p k ttl factory w =
     (case cache_get (pw_cache w) k (pd_clock p (pw_sent w)) of
        (Some v, c) \<Rightarrow> (Inr v, w\<lparr>pw_cache := c\<rparr>)
      | (None, c) \<Rightarrow>
         (case factory (w\<lparr>pw_cache := c\<rparr>) of
            (Inl e, w1) \<Rightarrow> (Inl e, w1)
          | (Inr v, w1) \<Rightarrow>
              (Inr v, w1\<lparr>pw_cache := cache_set (pw_cache w1) k v ttl (pd_clock p (pw_sent w1))\<rparr>)))"

lemma wp_call_json: "wp (call_json p rq) Q w =
    (let h = pw_sent w @ [rq] in Q (pd_answer p h) (w\<lparr>pw_sent := h\<rparr>))"
  by (simp add: wp_def call_json_def Let_def)

lemma wp_drop_cached [simp]: "wp (drop_cached ks) Q w =
    Q (Inr ()) (w\<lparr>pw_cache := fold (\<lambda>k c. cache_delete c k) ks (pw_cache w)\<rparr>)"
  by (simp add: wp_def drop_cached_def)

section \<open>Requests an action sends\<close>

lemma adds_drop [adds]: "adds pw_sent P (drop_cached ks)"
  by (rule adds_same) (simp add: drop_cached_def)

lemma adds_call [adds]: "P rq \<Longrightarrow> adds pw_sent P (call_json p rq)"
  by (auto simp: adds_def wp_call_json Let_def)

lemma adds_cached [adds]:
  assumes "adds pw_sent P m"
  shows "adds pw_sent P (cached p k ttl m)"
proof (rule addsI)
  fix w r w' assume run: "cached p k ttl m w = (r, w')"
  obtain v c where g: "cache_get (pw_cache w) k (pd_clock p (pw_sent w)) = (v, c)" by force
  obtain q w1 where m: "m (w\<lparr>pw_cache := c\<rparr>) = (q, w1)" by force
  show "\<exists>new. pw_sent w' = pw_sent w @ new \<and> list_all P new"
    using run g m addsD [OF assms m] by (auto simp: cached_def split: option.splits sum.splits)
qed

end
