(* ===== verification/Mailcow.thy ===== *)
theory Mailcow
  imports Provider Resources
begin

text \<open>
  The Mailcow client (\<^verbatim>\<open>services/mailcow.py\<close>): normalisation of its JSON rows, cached reads,
  and writes, which Mailcow answers with status 200 even when it refuses them. The spam score
  of a quarantined message is left out (a float that no code reads).
\<close>

section \<open>Rows\<close>

record mail_domain = mailcow_domain +
  md_mailboxes :: int
  md_aliases :: int
  md_quota :: int
  md_active :: bool

record mailbox = mailcow_mailbox +
  mb_name :: string
  mb_quota :: int
  mb_used :: int
  mb_messages :: int
  mb_active :: bool

record mail_alias = mailcow_alias +
  ma_id :: int
  ma_goto :: string
  ma_active :: bool

record app_password =
  ap_id :: int
  ap_name :: string
  ap_active :: bool

record quarantine_item =
  qi_id :: int
  qi_subject :: string
  qi_sender :: string
  qi_rcpt :: string
  qi_created :: int

definition normalize_domain :: "json \<Rightarrow> mail_domain result" where
  "normalize_domain v =
     rbind (as_dict v) (\<lambda>raw.
     rbind (int_of raw [''max_num_mboxes_for_domain'', ''mboxes_in_domain'']) (\<lambda>boxes.
     rbind (int_of raw [''max_num_aliases_for_domain'', ''aliases_in_domain'']) (\<lambda>aliases.
     rbind (int_of raw [''maxquota'', ''defquota'']) (\<lambda>quota.
     Inr \<lparr>md_name = text_of raw [''domain_name'', ''domain''] ''unknown'', md_mailboxes = boxes,
          md_aliases = aliases, md_quota = quota, md_active = active_of raw\<rparr>))))"

text \<open>The part after the first at sign, else the fallback.\<close>

definition domain_part :: "string \<Rightarrow> string \<Rightarrow> string" where
  "domain_part address fallback =
     (if CHR ''@'' \<in> set address then part_after CHR ''@'' address else fallback)"

definition normalize_alias :: "json \<Rightarrow> mail_alias result" where
  "normalize_alias v =
     rbind (as_dict v) (\<lambda>raw.
     rbind (int_of raw [''id'']) (\<lambda>i.
     let address = jstr (jor [jget raw ''address'', JStr []]) in
     Inr \<lparr>ma_address = py_strip address,
          ma_domain = py_strip (domain_part address (jstr (jor [jget raw ''domain'', JStr []]))),
          ma_id = i, ma_goto = text_of raw [''goto''] [], ma_active = active_of raw\<rparr>))"

definition normalize_mailbox :: "json \<Rightarrow> mailbox result" where
  "normalize_mailbox v =
     rbind (as_dict v) (\<lambda>raw.
     let username = jstr (jor [jget raw ''username'', jget raw ''name'', JStr []]) in
     rbind (int_of raw [''quota'', ''quota_bytes'']) (\<lambda>quota.
     rbind (int_of raw [''quota_used'']) (\<lambda>used.
     rbind (int_of raw [''messages'']) (\<lambda>messages.
     Inr \<lparr>mb_user = py_strip username,
          mb_domain = py_strip (domain_part username (jstr (jor [jget raw ''domain'', JStr ''unknown'']))),
          mb_name = text_of raw [''name'', ''full_name''] [], mb_quota = quota, mb_used = used,
          mb_messages = messages, mb_active = active_of raw\<rparr>))))"

definition normalize_app_password :: "jdict \<Rightarrow> app_password result" where
  "normalize_app_password raw =
     rbind (int_of raw [''id'']) (\<lambda>i.
     Inr \<lparr>ap_id = i, ap_name = text_of raw [''name'', ''app_name''] [], ap_active = active_of raw\<rparr>)"

definition normalize_quarantine_item :: "jdict \<Rightarrow> quarantine_item result" where
  "normalize_quarantine_item raw =
     rbind (int_of raw [''id'']) (\<lambda>i.
     rbind (int_of raw [''created'']) (\<lambda>created.
     Inr \<lparr>qi_id = i, qi_subject = text_of raw [''subject''] [], qi_sender = text_of raw [''sender''] [],
          qi_rcpt = text_of raw [''rcpt''] [], qi_created = created\<rparr>))"

section \<open>The client\<close>

record mailcow_config =
  mc_base_url :: string
  mc_api_key :: string
  mc_ttl :: int

definition make_mailcow :: "string \<Rightarrow> string \<Rightarrow> int \<Rightarrow> mailcow_config" where
  "make_mailcow url key ttl =
     \<lparr>mc_base_url = rstrip_if (\<lambda>c. c = CHR ''/'') url, mc_api_key = key, mc_ttl = ttl\<rparr>"

definition mailcow_configured :: "mailcow_config \<Rightarrow> bool" where
  "mailcow_configured mc = (mc_base_url mc \<noteq> [] \<and> mc_api_key mc \<noteq> [])"

definition mailcow_headers :: "mailcow_config \<Rightarrow> (string \<times> string) list" where
  "mailcow_headers mc = [(''X-API-Key'', mc_api_key mc), (''Accept'', ''application/json''),
     (''Content-Type'', ''application/json'')]"

text \<open>What the client keeps in the shared cache, under its three keys.\<close>

datatype mail_cached = MDomains "mail_domain list" | MMailboxes "mailbox list" | MAliases "mail_alias list"

type_synonym 'a mact = "(mail_cached, 'a) pact"

definition CACHE_KEYS :: "string list" where
  "CACHE_KEYS = [''mailcow:domains'', ''mailcow:mailboxes'', ''mailcow:aliases'']"

text \<open>
  The refusal in a 200 answer: the first object whose type is a failure type. Asking whether
  an unhashable value is in a set raises TypeError.
\<close>

definition message_text :: "json \<Rightarrow> string" where
  "message_text msg =
     str_or (case msg of JList parts \<Rightarrow> join '' '' (map jstr parts) | _ \<Rightarrow> jstr (jor [msg, JStr []]))
       ''Mailcow rejected the operation.''"

fun first_failure :: "json list \<Rightarrow> string option result" where
  "first_failure [] = Inr None"
| "first_failure (JObj m # items) =
     (case jget m ''type'' of
        JList _ \<Rightarrow> Inl (OtherError ''TypeError'')
      | JObj _ \<Rightarrow> Inl (OtherError ''TypeError'')
      | JStr s \<Rightarrow> if s = ''danger'' \<or> s = ''error'' then Inr (Some (message_text (jget m ''msg'')))
                 else first_failure items
      | _ \<Rightarrow> first_failure items)"
| "first_failure (_ # items) = first_failure items"

definition failure_message :: "json \<Rightarrow> string option result" where
  "failure_message payload = first_failure (case payload of JList xs \<Rightarrow> xs | _ \<Rightarrow> [payload])"

definition mail_get :: "provider \<Rightarrow> mailcow_config \<Rightarrow> string \<Rightarrow> json mact" where
  "mail_get p mc path =
     call_json p \<lparr>pq_service = ''Mailcow'', pq_method = ''GET'', pq_url = mc_base_url mc @ ''/api/v1/'' @ path,
       pq_headers = mailcow_headers mc, pq_params = [], pq_body = None\<rparr>"

definition mail_list ::
  "provider \<Rightarrow> mailcow_config \<Rightarrow> string \<Rightarrow> string \<Rightarrow> (json \<Rightarrow> mail_cached result) \<Rightarrow> bool \<Rightarrow> mail_cached mact" where
  "mail_list p mc key path rows_of refresh =
     act_seq (act_when refresh (drop_cached [key]))
       (cached p key (mc_ttl mc) (act_bind (mail_get p mc path) (\<lambda>payload. lift (rows_of payload))))"

definition mc_list_domains :: "provider \<Rightarrow> mailcow_config \<Rightarrow> bool \<Rightarrow> mail_domain list mact" where
  "mc_list_domains p mc refresh =
     (if \<not> mailcow_configured mc then act_return []
      else act_bind (mail_list p mc ''mailcow:domains'' ''get/domain/all''
             (\<lambda>payload. rbind (jiter payload) (\<lambda>rows. map_sum id MDomains (map_result normalize_domain rows))) refresh)
           (\<lambda>v. act_return (case v of MDomains xs \<Rightarrow> xs | _ \<Rightarrow> [])))"

definition list_mailboxes :: "provider \<Rightarrow> mailcow_config \<Rightarrow> bool \<Rightarrow> mailbox list mact" where
  "list_mailboxes p mc refresh =
     (if \<not> mailcow_configured mc then act_return []
      else act_bind (mail_list p mc ''mailcow:mailboxes'' ''get/mailbox/all''
             (\<lambda>payload. rbind (jiter payload) (\<lambda>rows. map_sum id MMailboxes (map_result normalize_mailbox rows))) refresh)
           (\<lambda>v. act_return (case v of MMailboxes xs \<Rightarrow> xs | _ \<Rightarrow> [])))"

definition list_aliases :: "provider \<Rightarrow> mailcow_config \<Rightarrow> bool \<Rightarrow> mail_alias list mact" where
  "list_aliases p mc refresh =
     (if \<not> mailcow_configured mc then act_return []
      else act_bind (mail_list p mc ''mailcow:aliases'' ''get/alias/all''
             (\<lambda>payload. rbind (jiter payload) (\<lambda>rows. map_sum id MAliases (map_result normalize_alias rows))) refresh)
           (\<lambda>v. act_return (case v of MAliases xs \<Rightarrow> xs | _ \<Rightarrow> [])))"

definition require_configured :: "mailcow_config \<Rightarrow> unit result" where
  "require_configured mc =
     (if mailcow_configured mc then Inr ()
      else Inl (ProviderAPIError ''Mailcow'' ''Mailcow is not configured.'' (Some 503)))"

definition mail_write :: "provider \<Rightarrow> mailcow_config \<Rightarrow> string \<Rightarrow> json \<Rightarrow> json mact" where
  "mail_write p mc path body =
     act_seq (lift (require_configured mc))
    (act_bind (call_json p \<lparr>pq_service = ''Mailcow'', pq_method = ''POST'',
         pq_url = mc_base_url mc @ ''/api/v1/'' @ path, pq_headers = mailcow_headers mc, pq_params = [],
         pq_body = Some body\<rparr>)
       (\<lambda>payload. act_bind (lift (failure_message payload))
         (\<lambda>failure. case failure of
             Some msg \<Rightarrow> act_raise (ProviderAPIError ''Mailcow'' msg (Some 422))
           | None \<Rightarrow> act_seq (drop_cached CACHE_KEYS) (act_return payload))))"

definition mc_create_domain ::
  "provider \<Rightarrow> mailcow_config \<Rightarrow> string \<Rightarrow> string \<Rightarrow> int \<Rightarrow> int \<Rightarrow> int \<Rightarrow> json mact" where
  "mc_create_domain p mc domain description quota max_quota def_quota =
     mail_write p mc ''add/domain'' (JObj [(''domain'', JStr domain), (''description'', JStr description),
       (''active'', JStr ''1''), (''quota'', JStr (int_str quota)), (''maxquota'', JStr (int_str max_quota)),
       (''defquota'', JStr (int_str def_quota)), (''mailboxes'', JStr ''10''), (''aliases'', JStr ''400''),
       (''restart_sogo'', JStr ''1'')])"

definition mc_delete_domain :: "provider \<Rightarrow> mailcow_config \<Rightarrow> string \<Rightarrow> json mact" where
  "mc_delete_domain p mc domain = mail_write p mc ''delete/domain'' (JList [JStr domain])"

definition mc_create_mailbox ::
  "provider \<Rightarrow> mailcow_config \<Rightarrow> string \<Rightarrow> string \<Rightarrow> string \<Rightarrow> string \<Rightarrow> int \<Rightarrow> json mact" where
  "mc_create_mailbox p mc local_part domain password nm quota =
     mail_write p mc ''add/mailbox'' (JObj [(''local_part'', JStr local_part), (''domain'', JStr domain),
       (''name'', JStr nm), (''password'', JStr password), (''password2'', JStr password),
       (''quota'', JStr (int_str quota)), (''active'', JStr ''1''), (''force_pw_update'', JStr ''0'')])"

definition mc_delete_mailbox :: "provider \<Rightarrow> mailcow_config \<Rightarrow> string \<Rightarrow> json mact" where
  "mc_delete_mailbox p mc username = mail_write p mc ''delete/mailbox'' (JList [JStr username])"

definition mc_create_alias :: "provider \<Rightarrow> mailcow_config \<Rightarrow> string \<Rightarrow> string \<Rightarrow> json mact" where
  "mc_create_alias p mc address goto =
     mail_write p mc ''add/alias'' (JObj [(''address'', JStr address), (''goto'', JStr goto), (''active'', JStr ''1'')])"

definition mc_delete_alias :: "provider \<Rightarrow> mailcow_config \<Rightarrow> int \<Rightarrow> json mact" where
  "mc_delete_alias p mc i = mail_write p mc ''delete/alias'' (JList [JStr (int_str i)])"

definition get_dkim :: "provider \<Rightarrow> mailcow_config \<Rightarrow> string \<Rightarrow> jdict mact" where
  "get_dkim p mc domain =
     act_seq (lift (require_configured mc))
    (act_bind (mail_get p mc (''get/dkim/'' @ domain))
       (\<lambda>payload. act_return (case payload of JObj m \<Rightarrow> m | _ \<Rightarrow> [])))"

definition generate_dkim :: "provider \<Rightarrow> mailcow_config \<Rightarrow> string \<Rightarrow> json mact" where
  "generate_dkim p mc domain =
     mail_write p mc ''add/dkim'' (JObj [(''domains'', JStr domain), (''dkim_selector'', JStr ''dkim''),
       (''key_size'', JStr ''2048'')])"

definition mc_create_relayhost :: "provider \<Rightarrow> mailcow_config \<Rightarrow> string \<Rightarrow> string \<Rightarrow> string \<Rightarrow> json mact" where
  "mc_create_relayhost p mc hostname username password =
     mail_write p mc ''add/relayhost'' (JObj [(''hostname'', JStr hostname), (''username'', JStr username),
       (''password'', JStr password)])"

definition mc_list_relayhosts :: "provider \<Rightarrow> mailcow_config \<Rightarrow> jdict list mact" where
  "mc_list_relayhosts p mc =
     act_seq (lift (require_configured mc))
    (act_bind (mail_get p mc ''get/relayhost/all'')
       (\<lambda>payload. act_return (case payload of JList xs \<Rightarrow> dict_items xs | _ \<Rightarrow> [])))"

definition assign_relayhost :: "provider \<Rightarrow> mailcow_config \<Rightarrow> string \<Rightarrow> string \<Rightarrow> json mact" where
  "assign_relayhost p mc domain relayhost =
     mail_write p mc ''edit/domain'' (JObj [(''items'', JList [JStr domain]),
       (''attr'', JObj [(''relayhost'', JStr relayhost)])])"

definition mailbox_attrs :: "int option \<Rightarrow> string option \<Rightarrow> bool option \<Rightarrow> string option \<Rightarrow> jdict" where
  "mailbox_attrs quota nm active password =
     (case quota of None \<Rightarrow> [] | Some q \<Rightarrow> [(''quota'', JStr (int_str q))]) @
     (case nm of None \<Rightarrow> [] | Some n \<Rightarrow> [(''name'', JStr n)]) @
     (case active of None \<Rightarrow> [] | Some b \<Rightarrow> [(''active'', JStr (if b then ''1'' else ''0''))]) @
     (if or_empty password = [] then []
      else [(''password'', JStr (or_empty password)), (''password2'', JStr (or_empty password))])"

definition mc_edit_mailbox ::
  "provider \<Rightarrow> mailcow_config \<Rightarrow> string \<Rightarrow> int option \<Rightarrow> string option \<Rightarrow> bool option \<Rightarrow> string option \<Rightarrow> json mact" where
  "mc_edit_mailbox p mc username quota nm active password =
     (let attr = mailbox_attrs quota nm active password in
      if attr = [] then act_raise (ProviderAPIError ''Mailcow'' ''No mailbox changes supplied.'' (Some 422))
      else mail_write p mc ''edit/mailbox'' (JObj [(''items'', JList [JStr username]), (''attr'', JObj attr)]))"

definition list_app_passwords :: "provider \<Rightarrow> mailcow_config \<Rightarrow> string \<Rightarrow> app_password list mact" where
  "list_app_passwords p mc mailbox =
     act_seq (lift (require_configured mc))
    (act_bind (mail_get p mc (''get/app-passwd/all/'' @ mailbox))
       (\<lambda>payload. case payload of JList xs \<Rightarrow> lift (map_result normalize_app_password (dict_items xs))
                  | _ \<Rightarrow> act_return []))"

definition mc_create_app_password ::
  "provider \<Rightarrow> mailcow_config \<Rightarrow> string \<Rightarrow> string \<Rightarrow> string \<Rightarrow> json mact" where
  "mc_create_app_password p mc mailbox app_name password =
     mail_write p mc ''add/app-passwd'' (JObj [(''active'', JStr ''1''), (''username'', JStr mailbox),
       (''app_name'', JStr app_name), (''app_passwd'', JStr password), (''app_passwd2'', JStr password),
       (''protocols'', JList [JStr ''imap_access'', JStr ''smtp_access''])])"

definition mc_delete_app_password :: "provider \<Rightarrow> mailcow_config \<Rightarrow> int \<Rightarrow> json mact" where
  "mc_delete_app_password p mc i = mail_write p mc ''delete/app-passwd'' (JList [JStr (int_str i)])"

definition list_quarantine :: "provider \<Rightarrow> mailcow_config \<Rightarrow> quarantine_item list mact" where
  "list_quarantine p mc =
     act_seq (lift (require_configured mc))
    (act_bind (mail_get p mc ''get/quarantine/all'')
       (\<lambda>payload. case payload of JList xs \<Rightarrow> lift (map_result normalize_quarantine_item (dict_items xs))
                  | _ \<Rightarrow> act_return []))"

definition act_on_quarantine :: "provider \<Rightarrow> mailcow_config \<Rightarrow> int list \<Rightarrow> string \<Rightarrow> json mact" where
  "act_on_quarantine p mc ids action =
     (if action \<notin> set [''release'', ''learnham'', ''learnspam''] then
        act_raise (ProviderAPIError ''Mailcow'' (''Unsupported quarantine action: '' @ action) (Some 422))
      else mail_write p mc ''edit/qitem'' (JObj [(''items'', JList (map (JStr \<circ> int_str) ids)),
             (''attr'', JObj [(''action'', JStr action)])]))"

definition mc_delete_quarantine :: "provider \<Rightarrow> mailcow_config \<Rightarrow> int list \<Rightarrow> json mact" where
  "mc_delete_quarantine p mc ids = mail_write p mc ''delete/qitem'' (JList (map (JStr \<circ> int_str) ids))"

lemmas mail_write_defs = mc_create_domain_def mc_delete_domain_def mc_create_mailbox_def
  mc_delete_mailbox_def mc_create_alias_def mc_delete_alias_def generate_dkim_def
  mc_create_relayhost_def assign_relayhost_def mc_create_app_password_def mc_delete_app_password_def
  mc_delete_quarantine_def

end
