(* ===== verification/Mail.thy ===== *)
theory Mail
  imports Mailcow
begin

text \<open>
  The mail service (\<^verbatim>\<open>modules/mail/service.py\<close>): tenant-scoped reads and writes of Mailcow,
  ownership rows, and the DNS records of a new mail domain. The state is the database, the
  world of the Mailcow client and the DNS calls issued; the Cloudflare client behind the DNS
  service is a parameter, and so are the random app passwords. \<open>ms_ci\<close> says whether the
  database compares LIKE patterns without case (SQLite does, PostgreSQL does not).
\<close>

section \<open>State\<close>

record mail_world =
  mw_db :: db
  mw_mail :: "mail_cached pworld"
  mw_dns :: "dns_call list"

type_synonym 'a mtask = "(mail_world, 'a) sx"

record mail_service =
  ms_actions :: bool
  ms_client :: mailcow_config
  ms_provider :: provider
  ms_hostname :: string
  ms_spf :: string
  ms_dmarc :: string
  ms_relayhost :: string
  ms_dns_configured :: bool
  ms_zones :: "cf_zone list result"
  ms_cloudflare :: "dns_call list \<Rightarrow> dns_call \<Rightarrow> unit result"
  ms_ci :: bool

definition via_mail :: "'a mact \<Rightarrow> 'a mtask" where
  "via_mail m w = (case m (mw_mail w) of (r, pw) \<Rightarrow> (r, w\<lparr>mw_mail := pw\<rparr>))"

definition db_read :: "(db \<Rightarrow> 'a result) \<Rightarrow> 'a mtask" where
  "db_read f w = (f (mw_db w), w)"

definition db_write :: "(db \<Rightarrow> db) \<Rightarrow> unit mtask" where
  "db_write f w = (Inr (), w\<lparr>mw_db := f (mw_db w)\<rparr>)"

text \<open>The request's session: it commits when the handler returns and rolls back when it raises.\<close>

definition in_session :: "'a mtask \<Rightarrow> 'a mtask" where
  "in_session m w = (case m w of (Inl e, w') \<Rightarrow> (Inl e, w'\<lparr>mw_db := mw_db w\<rparr>) | (Inr x, w') \<Rightarrow> (Inr x, w'))"

section \<open>Guards\<close>

definition mail_require_actions :: "mail_service \<Rightarrow> unit result" where
  "mail_require_actions sv =
     (if ms_actions sv then Inr ()
      else Inl (ProviderAPIError ''Mailcow''
        ''Provider actions are disabled (ENABLE_PROVIDER_ACTIONS=false).'' (Some 403)))"

definition domain_accessible :: "db \<Rightarrow> string option \<Rightarrow> string \<Rightarrow> bool" where
  "domain_accessible d tid domain = is_resource_accessible d tid PROVIDER_MAILCOW RESOURCE_TYPE_MAIL_DOMAIN domain"

definition ensure_domain_access :: "db \<Rightarrow> string option \<Rightarrow> string \<Rightarrow> unit result" where
  "ensure_domain_access d tid domain =
     (if domain_accessible d tid domain then Inr ()
      else Inl (ProviderAPIError ''Mailcow'' ''Mail domain not found.'' (Some 404)))"

definition mailbox_accessible :: "db \<Rightarrow> string option \<Rightarrow> string \<Rightarrow> bool" where
  "mailbox_accessible d tid username =
     (is_resource_accessible d tid PROVIDER_MAILCOW RESOURCE_TYPE_MAILBOX username \<or>
      CHR ''@'' \<in> set username \<and> domain_accessible d tid (part_after CHR ''@'' username))"

definition ensure_mailbox_access :: "db \<Rightarrow> string option \<Rightarrow> string \<Rightarrow> unit result" where
  "ensure_mailbox_access d tid username =
     (if mailbox_accessible d tid username then Inr ()
      else Inl (ProviderAPIError ''Mailcow'' ''Mailbox not found.'' (Some 404)))"

text \<open>Every write starts with the actions switch and a guard on the database.\<close>

definition guarded_mail :: "mail_service \<Rightarrow> (db \<Rightarrow> unit result) \<Rightarrow> 'a mtask \<Rightarrow> 'a mtask" where
  "guarded_mail sv guard m = act_seq (lift (mail_require_actions sv)) (act_seq (db_read guard) m)"

section \<open>Reads\<close>

definition load_mail_for_tenant ::
  "mail_service \<Rightarrow> string option \<Rightarrow> bool \<Rightarrow> (mail_domain list \<times> mailbox list) mtask" where
  "load_mail_for_tenant sv tid refresh =
     act_bind (via_mail (mc_list_domains (ms_provider sv) (ms_client sv) refresh))
       (\<lambda>domains. act_bind (via_mail (list_mailboxes (ms_provider sv) (ms_client sv) refresh))
         (\<lambda>mailboxes. db_read (\<lambda>d. Inr (filter_mail d tid domains mailboxes))))"

definition aliases_for_tenant :: "mail_service \<Rightarrow> string option \<Rightarrow> bool \<Rightarrow> mail_alias list mtask" where
  "aliases_for_tenant sv tid refresh =
     act_bind (via_mail (list_aliases (ms_provider sv) (ms_client sv) refresh))
       (\<lambda>aliases. db_read (\<lambda>d. Inr (filter_aliases d tid aliases)))"

definition dkim_names :: "string \<Rightarrow> jdict \<Rightarrow> string \<times> string" where
  "dkim_names domain dkim =
     (let tx = jstr (jor [jget dkim ''dkim_txt'', JStr []]);
          selector = jstr (jor [jget dkim ''dkim_selector'', JStr ''dkim''])
      in (if tx = [] then [] else selector @ ''._domainkey.'' @ domain, tx))"

definition dkim_for_tenant :: "mail_service \<Rightarrow> string option \<Rightarrow> string \<Rightarrow> (string \<times> string) mtask" where
  "dkim_for_tenant sv tid domain =
     act_seq (db_read (\<lambda>d. ensure_domain_access d tid domain))
    (act_bind (via_mail (get_dkim (ms_provider sv) (ms_client sv) domain))
       (\<lambda>dkim. act_return (dkim_names domain dkim)))"

section \<open>DNS records of a new domain\<close>

record dns_report =
  dr_name :: string
  dr_type :: string
  dr_status :: string
  dr_detail :: string

type_synonym planned = "string \<times> string \<times> string \<times> int option"

definition planned_records :: "mail_service \<Rightarrow> string \<Rightarrow> string \<Rightarrow> string \<Rightarrow> planned list" where
  "planned_records sv domain dkim_name dkim_txt =
     (if ms_hostname sv = [] then [] else [(''MX'', domain, ms_hostname sv, Some 10)]) @
     [(''TXT'', domain, ms_spf sv, None)] @
     (if dkim_txt = [] then [] else [(''TXT'', dkim_name, dkim_txt, None)]) @
     [(''TXT'', ''_dmarc.'' @ domain, ms_dmarc sv, None)]"

definition skipped :: "planned list \<Rightarrow> string \<Rightarrow> string \<times> dns_report list" where
  "skipped planned reason =
     ([], map (\<lambda>(rtype, nm, _, _). \<lparr>dr_name = nm, dr_type = rtype, dr_status = ''skipped'', dr_detail = reason\<rparr>) planned)"

definition zone_candidates :: "db \<Rightarrow> string option \<Rightarrow> string \<Rightarrow> cf_zone list \<Rightarrow> cf_zone list" where
  "zone_candidates d tid domain zones =
     filter (\<lambda>z. (domain = zn_name z \<or> ends_with (CHR ''.'' # zn_name z) domain) \<and>
        is_resource_accessible d tid PROVIDER_CLOUDFLARE RESOURCE_TYPE_DNS_ZONE (zn_id z)) zones"

text \<open>\<open>max\<close> keeps the first of the longest names.\<close>

fun longest_zone :: "cf_zone \<Rightarrow> cf_zone list \<Rightarrow> cf_zone" where
  "longest_zone z [] = z"
| "longest_zone z (y # ys) = longest_zone (if length (zn_name z) < length (zn_name y) then y else z) ys"

definition dns_call_act :: "(dns_call list \<times> 'a result) \<Rightarrow> 'a mtask" where
  "dns_call_act cr w = (snd cr, w\<lparr>mw_dns := mw_dns w @ fst cr\<rparr>)"

definition create_planned :: "mail_service \<Rightarrow> string option \<Rightarrow> string \<Rightarrow> planned \<Rightarrow> unit mtask" where
  "create_planned sv tid zone pl w =
     (case pl of (rtype, nm, content, prio) \<Rightarrow>
        dns_call_act (create_record_for_tenant (ms_cloudflare sv (mw_dns w)) (mw_db w) tid zone
          rtype nm content 1 False prio) w)"

text \<open>Only ProviderAPIError is reported per record; another exception leaves the loop.\<close>

fun provision_records :: "mail_service \<Rightarrow> string option \<Rightarrow> string \<Rightarrow> planned list \<Rightarrow> dns_report list mtask" where
  "provision_records sv tid zone [] = act_return []"
| "provision_records sv tid zone (pl # pls) =
     act_bind
       (act_catch
         (act_seq (create_planned sv tid zone pl)
           (act_return \<lparr>dr_name = fst (snd pl), dr_type = fst pl, dr_status = ''created'', dr_detail = []\<rparr>))
         (\<lambda>e. case e of
             ProviderAPIError s m c \<Rightarrow>
               act_return \<lparr>dr_name = fst (snd pl), dr_type = fst pl, dr_status = ''failed'', dr_detail = m\<rparr>
           | _ \<Rightarrow> act_raise e))
       (\<lambda>rep. act_bind (provision_records sv tid zone pls) (\<lambda>reps. act_return (rep # reps)))"

definition provision_mail_dns ::
  "mail_service \<Rightarrow> string option \<Rightarrow> string \<Rightarrow> string \<Rightarrow> string \<Rightarrow> (string \<times> dns_report list) mtask" where
  "provision_mail_dns sv tid domain dkim_name dkim_txt =
     (let planned = planned_records sv domain dkim_name dkim_txt in
      if \<not> ms_dns_configured sv then act_return (skipped planned ''Cloudflare is not configured.'')
      else (case ms_zones sv of
          Inl e \<Rightarrow> (case e of
              ProviderAPIError s m c \<Rightarrow> act_return (skipped planned (''Could not list zones: '' @ m))
            | _ \<Rightarrow> act_raise e)
        | Inr zones \<Rightarrow>
            act_bind (db_read (\<lambda>d. Inr (zone_candidates d tid domain zones)))
              (\<lambda>matches. case matches of
                  [] \<Rightarrow> act_return (skipped planned ''No matching Cloudflare zone.'')
                | z # zs \<Rightarrow>
                    (let zone = longest_zone z zs in
                     act_bind (provision_records sv tid (zn_id zone) planned)
                       (\<lambda>report. act_return (zn_name zone, report))))))"

section \<open>Domains\<close>

record domain_created =
  dc_domain :: string
  dc_dkim_name :: string
  dc_dkim_txt :: string
  dc_relay :: bool
  dc_zone :: string
  dc_records :: "dns_report list"

definition mail_resource :: "string \<Rightarrow> string \<Rightarrow> string \<Rightarrow> tenant_resource" where
  "mail_resource tid rtype ext =
     \<lparr>rs_tenant = tid, rs_provider = PROVIDER_MAILCOW, rs_type = rtype, rs_ext = ext, rs_display = ext,
      rs_cpu = None, rs_mem = None, rs_disk = None\<rparr>"

definition register_mail :: "string option \<Rightarrow> string \<Rightarrow> string \<Rightarrow> unit mtask" where
  "register_mail tid rtype ext =
     act_when (or_empty tid \<noteq> [])
       (db_write (\<lambda>d. d\<lparr>db_resources := db_resources d @ [mail_resource (or_empty tid) rtype ext]\<rparr>))"

definition enrich_domain :: "mail_service \<Rightarrow> string option \<Rightarrow> string \<Rightarrow> domain_created mtask" where
  "enrich_domain sv tid domain =
     act_seq (or_else (via_mail (act_seq (generate_dkim (ms_provider sv) (ms_client sv) domain) (act_return ()))) ())
    (act_bind (or_else (act_bind (via_mail (get_dkim (ms_provider sv) (ms_client sv) domain))
                 (\<lambda>dkim. act_return (dkim_names domain dkim))) ([], []))
      (\<lambda>(dkim_name, dkim_txt).
       act_bind (if ms_relayhost sv = [] then act_return False
                 else or_else (via_mail (act_seq (assign_relayhost (ms_provider sv) (ms_client sv) domain (ms_relayhost sv))
                        (act_return True))) False)
      (\<lambda>relay.
       act_bind (or_else (provision_mail_dns sv tid domain dkim_name dkim_txt)
           ([], [\<lparr>dr_name = domain, dr_type = ''*'', dr_status = ''skipped'',
                  dr_detail = ''DNS automation unavailable.''\<rparr>]))
      (\<lambda>(zone, records).
       act_return \<lparr>dc_domain = domain, dc_dkim_name = dkim_name, dc_dkim_txt = dkim_txt, dc_relay = relay,
         dc_zone = zone, dc_records = records\<rparr>))))"

definition create_mail_domain ::
  "mail_service \<Rightarrow> string option \<Rightarrow> string \<Rightarrow> string \<Rightarrow> int \<Rightarrow> domain_created mtask" where
  "create_mail_domain sv tid domain description quota =
     act_seq (lift (mail_require_actions sv))
    (act_seq (via_mail (mc_create_domain (ms_provider sv) (ms_client sv) domain description quota quota
        (min 3072 (max 1 quota))))
    (act_seq (register_mail tid RESOURCE_TYPE_MAIL_DOMAIN domain)
      (enrich_domain sv tid domain)))"

text \<open>LIKE: a percent sign matches any text, an underscore any one character.\<close>

definition same_char :: "bool \<Rightarrow> char \<Rightarrow> char \<Rightarrow> bool" where
  "same_char ci a b =
     (a = b \<or> ci \<and> ord_of a < 128 \<and> ord_of b < 128 \<and> lower_char a = lower_char b)"

fun sql_like :: "bool \<Rightarrow> string \<Rightarrow> string \<Rightarrow> bool" where
  "sql_like ci [] s = (s = [])"
| "sql_like ci (c # cs) [] = (c = CHR ''%'' \<and> sql_like ci cs [])"
| "sql_like ci (c # cs) (x # xs) =
     (if c = CHR ''%'' then sql_like ci cs (x # xs) \<or> sql_like ci (c # cs) xs
      else (c = CHR ''_'' \<or> same_char ci c x) \<and> sql_like ci cs xs)"

definition domain_row :: "mail_service \<Rightarrow> string \<Rightarrow> tenant_resource \<Rightarrow> bool" where
  "domain_row sv domain r \<longleftrightarrow> rs_provider r = PROVIDER_MAILCOW \<and>
     (rs_type r = RESOURCE_TYPE_MAIL_DOMAIN \<and> rs_ext r = domain \<or>
      rs_type r = RESOURCE_TYPE_MAILBOX \<and> sql_like (ms_ci sv) (''%@'' @ domain) (rs_ext r))"

definition drop_resources :: "(tenant_resource \<Rightarrow> bool) \<Rightarrow> unit mtask" where
  "drop_resources P = db_write (\<lambda>d. d\<lparr>db_resources := filter (\<lambda>r. \<not> P r) (db_resources d)\<rparr>)"

definition delete_mail_domain :: "mail_service \<Rightarrow> string option \<Rightarrow> string \<Rightarrow> unit mtask" where
  "delete_mail_domain sv tid domain =
     guarded_mail sv (\<lambda>d. ensure_domain_access d tid domain)
      (act_seq (via_mail (mc_delete_domain (ms_provider sv) (ms_client sv) domain))
        (drop_resources (domain_row sv domain)))"

section \<open>Mailboxes and aliases\<close>

definition create_mailbox ::
  "mail_service \<Rightarrow> string option \<Rightarrow> string \<Rightarrow> string \<Rightarrow> string \<Rightarrow> string \<Rightarrow> int \<Rightarrow> string mtask" where
  "create_mailbox sv tid local_part domain password nm quota =
     guarded_mail sv (\<lambda>d. ensure_domain_access d tid domain)
      (act_seq (via_mail (mc_create_mailbox (ms_provider sv) (ms_client sv) local_part domain password nm quota))
      (act_seq (register_mail tid RESOURCE_TYPE_MAILBOX (local_part @ ''@'' @ domain))
        (act_return (local_part @ ''@'' @ domain))))"

definition edit_mailbox ::
  "mail_service \<Rightarrow> string option \<Rightarrow> string \<Rightarrow> int option \<Rightarrow> string option \<Rightarrow> bool option \<Rightarrow> string option \<Rightarrow> unit mtask" where
  "edit_mailbox sv tid username quota nm active password =
     guarded_mail sv (\<lambda>d. ensure_mailbox_access d tid username)
      (act_seq (via_mail (mc_edit_mailbox (ms_provider sv) (ms_client sv) username quota nm active password))
        (act_return ()))"

definition delete_mailbox :: "mail_service \<Rightarrow> string option \<Rightarrow> string \<Rightarrow> unit mtask" where
  "delete_mailbox sv tid username =
     guarded_mail sv (\<lambda>d. ensure_mailbox_access d tid username)
      (act_seq (via_mail (mc_delete_mailbox (ms_provider sv) (ms_client sv) username))
        (drop_resources (\<lambda>r. rs_provider r = PROVIDER_MAILCOW \<and> rs_type r = RESOURCE_TYPE_MAILBOX \<and> rs_ext r = username)))"

definition create_alias :: "mail_service \<Rightarrow> string option \<Rightarrow> string \<Rightarrow> string \<Rightarrow> unit mtask" where
  "create_alias sv tid address goto =
     (let domain = domain_part address [] in
      guarded_mail sv
        (\<lambda>d. if domain = [] then Inl (ProviderAPIError ''Mailcow'' ''Alias address must contain a domain.'' (Some 422))
             else ensure_domain_access d tid domain)
        (act_seq (via_mail (mc_create_alias (ms_provider sv) (ms_client sv) address goto)) (act_return ())))"

definition delete_alias :: "mail_service \<Rightarrow> string option \<Rightarrow> int \<Rightarrow> unit mtask" where
  "delete_alias sv tid i =
     guarded_mail sv (\<lambda>_. require_configured (ms_client sv))
      (act_bind (via_mail (list_aliases (ms_provider sv) (ms_client sv) True))
        (\<lambda>aliases. act_seq (db_read (\<lambda>d.
             case find (\<lambda>a. ma_id a = i) aliases of
               Some a \<Rightarrow> if domain_accessible d tid (ma_domain a) then Inr ()
                         else Inl (ProviderAPIError ''Mailcow'' ''Alias not found.'' (Some 404))
             | None \<Rightarrow> Inl (ProviderAPIError ''Mailcow'' ''Alias not found.'' (Some 404))))
           (act_seq (via_mail (mc_delete_alias (ms_provider sv) (ms_client sv) i)) (act_return ()))))"

section \<open>App passwords\<close>

definition list_app_passwords_for_tenant :: "mail_service \<Rightarrow> string option \<Rightarrow> string \<Rightarrow> app_password list mtask" where
  "list_app_passwords_for_tenant sv tid username =
     act_seq (db_read (\<lambda>d. ensure_mailbox_access d tid username))
       (via_mail (list_app_passwords (ms_provider sv) (ms_client sv) username))"

text \<open>\<open>fresh\<close> is the generated password, shown once.\<close>

definition create_app_password ::
  "mail_service \<Rightarrow> string option \<Rightarrow> string \<Rightarrow> string \<Rightarrow> string \<Rightarrow> (string \<times> string) mtask" where
  "create_app_password sv tid username app_name fresh =
     (let nm = str_or (py_strip app_name) ''Tetra app password'' in
      guarded_mail sv (\<lambda>d. ensure_mailbox_access d tid username)
       (act_seq (via_mail (mc_create_app_password (ms_provider sv) (ms_client sv) username nm fresh))
         (act_return (nm, fresh))))"

definition delete_app_password :: "mail_service \<Rightarrow> string option \<Rightarrow> string \<Rightarrow> int \<Rightarrow> unit mtask" where
  "delete_app_password sv tid username i =
     guarded_mail sv (\<lambda>d. ensure_mailbox_access d tid username)
      (act_bind (via_mail (list_app_passwords (ms_provider sv) (ms_client sv) username))
        (\<lambda>existing. act_seq (lift (if list_ex (\<lambda>x. ap_id x = i) existing then Inr ()
             else Inl (ProviderAPIError ''Mailcow'' ''App password not found.'' (Some 404))))
          (act_seq (via_mail (mc_delete_app_password (ms_provider sv) (ms_client sv) i)) (act_return ()))))"

section \<open>Quarantine\<close>

text \<open>The tenant's domains and mailboxes; \<open>None\<close> without a tenant.\<close>

definition accessible_mail_scope :: "db \<Rightarrow> string option \<Rightarrow> (string list \<times> string list) option" where
  "accessible_mail_scope d tid =
     (case tid of
        None \<Rightarrow> None
      | Some t \<Rightarrow>
         (let rows = filter (\<lambda>r. rs_tenant r = t \<and> rs_provider r = PROVIDER_MAILCOW) (db_resources d);
              names = (\<lambda>ty. map (\<lambda>r. py_lower (py_strip (rs_ext r))) (filter (\<lambda>r. rs_type r = ty) rows))
          in Some (names RESOURCE_TYPE_MAIL_DOMAIN, names RESOURCE_TYPE_MAILBOX)))"

definition rcpt_in_scope :: "string \<Rightarrow> (string list \<times> string list) option \<Rightarrow> bool" where
  "rcpt_in_scope rcpt scope =
     (case scope of
        None \<Rightarrow> True
      | Some (domains, mailboxes) \<Rightarrow>
         (let r = py_lower (py_strip rcpt) in
          r \<in> set mailboxes \<or> CHR ''@'' \<in> set r \<and> part_after CHR ''@'' r \<in> set domains))"

definition list_quarantine_for_tenant :: "mail_service \<Rightarrow> string option \<Rightarrow> quarantine_item list mtask" where
  "list_quarantine_for_tenant sv tid =
     act_bind (db_read (\<lambda>d. Inr (accessible_mail_scope d tid)))
       (\<lambda>scope. act_bind (via_mail (list_quarantine (ms_provider sv) (ms_client sv)))
         (\<lambda>items. act_return (filter (\<lambda>q. rcpt_in_scope (qi_rcpt q) scope) items)))"

text \<open>\<open>by_id\<close> is a dict: the last item of an id counts.\<close>

definition quarantine_allowed :: "quarantine_item list \<Rightarrow> (string list \<times> string list) option \<Rightarrow> int \<Rightarrow> bool" where
  "quarantine_allowed items scope i =
     (case find (\<lambda>q. qi_id q = i) (rev items) of None \<Rightarrow> False | Some q \<Rightarrow> rcpt_in_scope (qi_rcpt q) scope)"

definition authorize_quarantine_ids :: "mail_service \<Rightarrow> string option \<Rightarrow> int list \<Rightarrow> unit mtask" where
  "authorize_quarantine_ids sv tid ids =
     act_bind (db_read (\<lambda>d. Inr (accessible_mail_scope d tid)))
       (\<lambda>scope. act_bind (via_mail (list_quarantine (ms_provider sv) (ms_client sv)))
         (\<lambda>items. lift (if list_all (quarantine_allowed items scope) ids then Inr ()
            else Inl (ProviderAPIError ''Mailcow'' ''Quarantine item not found.'' (Some 404)))))"

definition quarantine_op :: "mail_service \<Rightarrow> string option \<Rightarrow> int list \<Rightarrow> json mact \<Rightarrow> unit mtask" where
  "quarantine_op sv tid ids m =
     act_seq (lift (mail_require_actions sv))
    (act_seq (lift (if ids = [] then Inl (ProviderAPIError ''Mailcow'' ''No quarantine items selected.'' (Some 422)) else Inr ()))
    (act_seq (authorize_quarantine_ids sv tid ids) (act_seq (via_mail m) (act_return ()))))"

definition act_on_quarantine_for_tenant :: "mail_service \<Rightarrow> string option \<Rightarrow> int list \<Rightarrow> string \<Rightarrow> unit mtask" where
  "act_on_quarantine_for_tenant sv tid ids action =
     quarantine_op sv tid ids (act_on_quarantine (ms_provider sv) (ms_client sv) ids action)"

definition delete_quarantine_for_tenant :: "mail_service \<Rightarrow> string option \<Rightarrow> int list \<Rightarrow> unit mtask" where
  "delete_quarantine_for_tenant sv tid ids =
     quarantine_op sv tid ids (mc_delete_quarantine (ms_provider sv) (ms_client sv) ids)"

section \<open>Relay hosts\<close>

record relayhost =
  rh_id :: int
  rh_hostname :: string
  rh_username :: string
  rh_active :: bool
  rh_used_by :: string

definition relayhost_view :: "jdict \<Rightarrow> relayhost result" where
  "relayhost_view host =
     rbind (int_of host [''id'']) (\<lambda>i.
     Inr \<lparr>rh_id = i, rh_hostname = jstr (jor [jget host ''hostname'', JStr []]),
          rh_username = jstr (jor [jget host ''username'', JStr []]), rh_active = active_of host,
          rh_used_by = jstr (jor [jget host ''used_by_domains'', JStr []])\<rparr>)"

definition list_relayhosts :: "mail_service \<Rightarrow> relayhost list mtask" where
  "list_relayhosts sv =
     act_bind (via_mail (mc_list_relayhosts (ms_provider sv) (ms_client sv)))
       (\<lambda>hosts. lift (map_result relayhost_view hosts))"

definition find_relayhost :: "string \<Rightarrow> string \<Rightarrow> jdict list \<Rightarrow> int result" where
  "find_relayhost hostname username hosts =
     (case find (\<lambda>h. jstr (jget h ''hostname'') = hostname \<and> jstr (jget h ''username'') = username) (rev hosts) of
        None \<Rightarrow> Inr 0 | Some h \<Rightarrow> int_of h [''id''])"

definition create_relayhost :: "mail_service \<Rightarrow> string \<Rightarrow> string \<Rightarrow> string \<Rightarrow> int mtask" where
  "create_relayhost sv hostname username password =
     act_seq (lift (mail_require_actions sv))
    (act_seq (via_mail (mc_create_relayhost (ms_provider sv) (ms_client sv) hostname username password))
    (act_bind (act_catch (act_bind (via_mail (mc_list_relayhosts (ms_provider sv) (ms_client sv))) (\<lambda>hosts. act_return (Some hosts)))
        (\<lambda>e. case e of ProviderAPIError s m c \<Rightarrow> act_return None | _ \<Rightarrow> act_raise e))
      (\<lambda>hosts. case hosts of None \<Rightarrow> act_return 0 | Some hs \<Rightarrow> lift (find_relayhost hostname username hs))))"

end
