(* ===== verification/MailSafety.thy ===== *)
theory MailSafety
  imports Mail
begin

text \<open>
  What the mail service guarantees: tenant isolation of its writes, the ownership rows behind
  it, the best-effort contract of a new domain, and the places where the code falls short.
\<close>

section \<open>The operations as requests\<close>

datatype mail_op =
    OpCreateDomain string string int
  | OpDeleteDomain string
  | OpCreateMailbox string string string string int
  | OpEditMailbox string "int option" "string option" "bool option" "string option"
  | OpDeleteMailbox string
  | OpCreateAlias string string
  | OpDeleteAlias int
  | OpCreateAppPassword string string string
  | OpDeleteAppPassword string int
  | OpActQuarantine "int list" string
  | OpDeleteQuarantine "int list"

fun mail_step :: "mail_service \<Rightarrow> string option \<Rightarrow> mail_op \<Rightarrow> unit mtask" where
  "mail_step sv tid (OpCreateDomain dm descr q) = ignore (create_mail_domain sv tid dm descr q)"
| "mail_step sv tid (OpDeleteDomain dm) = delete_mail_domain sv tid dm"
| "mail_step sv tid (OpCreateMailbox lp dm pw nm q) = ignore (create_mailbox sv tid lp dm pw nm q)"
| "mail_step sv tid (OpEditMailbox u q nm act pw) = edit_mailbox sv tid u q nm act pw"
| "mail_step sv tid (OpDeleteMailbox u) = delete_mailbox sv tid u"
| "mail_step sv tid (OpCreateAlias a g) = create_alias sv tid a g"
| "mail_step sv tid (OpDeleteAlias i) = delete_alias sv tid i"
| "mail_step sv tid (OpCreateAppPassword u nm fresh) = ignore (create_app_password sv tid u nm fresh)"
| "mail_step sv tid (OpDeleteAppPassword u i) = delete_app_password sv tid u i"
| "mail_step sv tid (OpActQuarantine ids action) = act_on_quarantine_for_tenant sv tid ids action"
| "mail_step sv tid (OpDeleteQuarantine ids) = delete_quarantine_for_tenant sv tid ids"

section \<open>What an action of the service leaves alone\<close>

abbreviation mail_sent :: "mail_world \<Rightarrow> preq list" where
  "mail_sent w \<equiv> pw_sent (mw_mail w)"

abbreviation is_get :: "preq \<Rightarrow> bool" where
  "is_get rq \<equiv> pq_method rq = ''GET''"

lemma adds_via_mail [adds]: "adds pw_sent P m \<Longrightarrow> adds mail_sent P (via_mail m)"
proof (rule addsI)
  fix w r w' assume m: "adds pw_sent P m" and run: "via_mail m w = (r, w')"
  obtain q pw where q: "m (mw_mail w) = (q, pw)" by force
  from addsD [OF m q] run q show "\<exists>new. mail_sent w' = mail_sent w @ new \<and> list_all P new"
    by (auto simp: via_mail_def)
qed

lemma adds_db_read [adds]: "adds mail_sent P (db_read f)"
  and adds_db_write [adds]: "adds mail_sent P (db_write g)"
  and adds_dns [adds]: "adds mail_sent P (dns_call_act cr)"
  by (rule adds_same; simp add: db_read_def db_write_def dns_call_act_def)+

lemma keeps_via_mail [keeps]: "keeps (\<lambda>w. mw_db w = d) (via_mail m)"
  and keeps_db_read [keeps]: "keeps I (db_read f)"
  and keeps_lift [keeps]: "keeps J (lift r)"
  and keeps_dns [keeps]: "keeps (\<lambda>w. mw_db w = d) (dns_call_act cr)"
  by (rule keepsI; auto simp: via_mail_def db_read_def lift_def dns_call_act_def split: prod.splits)+

lemma keeps_case_exn: "(\<And>e. keeps I (f e)) \<Longrightarrow> keeps I (f e)"
  by simp

text \<open>Lists of Mailcow objects are fetched with GET requests only.\<close>

lemma gets_mail_get [adds]: "adds pw_sent is_get (mail_get p mc path)"
  by (simp add: mail_get_def adds)

lemma gets_mail_list [adds]: "adds pw_sent is_get (mail_list p mc key path f refresh)"
  by (auto simp: mail_list_def intro!: adds)

lemma gets_list_aliases [adds]: "adds pw_sent is_get (list_aliases p mc refresh)"
  by (auto simp: list_aliases_def intro!: adds)

lemma gets_list_app_passwords [adds]: "adds pw_sent is_get (list_app_passwords p mc u)"
  by (auto simp: list_app_passwords_def intro!: adds split: json.split)

lemma gets_list_quarantine [adds]: "adds pw_sent is_get (list_quarantine p mc)"
  by (auto simp: list_quarantine_def intro!: adds split: json.split)

text \<open>A write that fails its switch or guard does nothing.\<close>

lemma guarded_mail_stop:
  assumes "guard (mw_db w) = Inl e"
  shows "\<exists>e. guarded_mail sv guard m w = (Inl e, w)"
  using assms
  by (cases "mail_require_actions sv")
    (auto simp: guarded_mail_def act_seq_def act_bind_def lift_def db_read_def)

lemma guarded_mail_pass:
  assumes "guarded_mail sv guard m w = (r, w')"
  shows "(\<exists>e. r = Inl e) \<and> w' = w \<or> guard (mw_db w) = Inr () \<and> m w = (r, w')"
  using assms
  by (cases "mail_require_actions sv"; cases "guard (mw_db w)")
    (auto simp: guarded_mail_def act_seq_def act_bind_def lift_def db_read_def)

lemma act_bind_Inr: "m w = (Inr x, w1) \<Longrightarrow> act_bind m f w = f x w1"
  and act_bind_Inl: "m w = (Inl e, w1) \<Longrightarrow> act_bind m f w = (Inl e, w1)"
  by (simp_all add: act_bind_def)

section \<open>The scope of a request\<close>

definition owns_domain :: "db \<Rightarrow> string option \<Rightarrow> string \<Rightarrow> bool" where
  "owns_domain d tid x \<longleftrightarrow> x \<in> mapped_values d tid PROVIDER_MAILCOW RESOURCE_TYPE_MAIL_DOMAIN"

definition owns_mailbox :: "db \<Rightarrow> string option \<Rightarrow> string \<Rightarrow> bool" where
  "owns_mailbox d tid u \<longleftrightarrow> u \<in> mapped_values d tid PROVIDER_MAILCOW RESOURCE_TYPE_MAILBOX \<or>
     CHR ''@'' \<in> set u \<and> owns_domain d tid (part_after CHR ''@'' u)"

text \<open>The listing an operation consults, as the service would see it in this state.\<close>

definition listed :: "'a list mact \<Rightarrow> mail_world \<Rightarrow> 'a list" where
  "listed m w = (case via_mail m w of (Inr xs, _) \<Rightarrow> xs | (Inl _, _) \<Rightarrow> [])"

fun in_scope :: "mail_service \<Rightarrow> string option \<Rightarrow> mail_op \<Rightarrow> mail_world \<Rightarrow> bool" where
  "in_scope sv tid (OpCreateDomain dm descr q) w = True"
| "in_scope sv tid (OpDeleteDomain dm) w = owns_domain (mw_db w) tid dm"
| "in_scope sv tid (OpCreateMailbox lp dm pw nm q) w = owns_domain (mw_db w) tid dm"
| "in_scope sv tid (OpEditMailbox u q nm act pw) w = owns_mailbox (mw_db w) tid u"
| "in_scope sv tid (OpDeleteMailbox u) w = owns_mailbox (mw_db w) tid u"
| "in_scope sv tid (OpCreateAlias a g) w = owns_domain (mw_db w) tid (domain_part a [])"
| "in_scope sv tid (OpDeleteAlias i) w =
     (\<exists>a\<in>set (listed (list_aliases (ms_provider sv) (ms_client sv) True) w).
        ma_id a = i \<and> owns_domain (mw_db w) tid (ma_domain a))"
| "in_scope sv tid (OpCreateAppPassword u nm fresh) w = owns_mailbox (mw_db w) tid u"
| "in_scope sv tid (OpDeleteAppPassword u i) w =
     (owns_mailbox (mw_db w) tid u \<and>
      i \<in> ap_id ` set (listed (list_app_passwords (ms_provider sv) (ms_client sv) u) w))"
| "in_scope sv tid (OpActQuarantine ids action) w =
     (\<forall>i\<in>set ids. \<exists>q\<in>set (listed (list_quarantine (ms_provider sv) (ms_client sv)) w).
        qi_id q = i \<and> rcpt_in_scope (qi_rcpt q) (accessible_mail_scope (mw_db w) tid))"
| "in_scope sv tid (OpDeleteQuarantine ids) w =
     (\<forall>i\<in>set ids. \<exists>q\<in>set (listed (list_quarantine (ms_provider sv) (ms_client sv)) w).
        qi_id q = i \<and> rcpt_in_scope (qi_rcpt q) (accessible_mail_scope (mw_db w) tid))"

lemma ensure_domain_owns:
  "\<not> fall_open d tid \<Longrightarrow> ensure_domain_access d tid x = Inr () \<Longrightarrow> owns_domain d tid x"
  by (simp add: ensure_domain_access_def domain_accessible_def is_resource_accessible_def
      owns_domain_def split: if_splits)

lemma ensure_mailbox_owns:
  "\<not> fall_open d tid \<Longrightarrow> ensure_mailbox_access d tid u = Inr () \<Longrightarrow> owns_mailbox d tid u"
  by (auto simp: ensure_mailbox_access_def mailbox_accessible_def domain_accessible_def
      is_resource_accessible_def owns_mailbox_def owns_domain_def split: if_splits)

text \<open>The outcome of a request out of scope: an error, no change and no write.\<close>

definition refused :: "mail_world \<Rightarrow> unit result \<Rightarrow> mail_world \<Rightarrow> bool" where
  "refused w r w' \<longleftrightarrow> isl r \<and> mw_db w' = mw_db w \<and>
     (\<exists>new. mail_sent w' = mail_sent w @ new \<and> list_all is_get new)"

lemma refused_same: "refused w (Inl e) w"
  by (simp add: refused_def)

lemma refused_guard:
  assumes "guarded_mail sv guard m w = (r, w')" and "guard (mw_db w) \<noteq> Inr ()"
  shows "refused w r w'"
  using guarded_mail_pass [OF assms(1)] assms(2) by (auto simp: refused_same)

text \<open>An operation that lists with GET and then checks what it listed.\<close>

lemma refused_listed:
  assumes "act_bind (via_mail m) (\<lambda>xs. act_seq (chk xs) (rest xs)) w = (r, w')"
    and "adds pw_sent is_get m"
    and "\<And>w1. mw_db w1 = mw_db w \<Longrightarrow> \<exists>e. chk (listed m w) w1 = (Inl e, w1)"
  shows "refused w r w'"
proof -
  obtain q w1 where q: "via_mail m w = (q, w1)" by force
  have db: "mw_db w1 = mw_db w" using q by (auto simp: via_mail_def split: prod.splits)
  obtain new where new: "mail_sent w1 = mail_sent w @ new" "list_all is_get new"
    using addsD [OF adds_via_mail [OF assms(2)] q] by blast
  show ?thesis
  proof (cases q)
    case (Inl e)
    with assms(1) q db new show ?thesis by (auto simp: act_bind_def refused_def)
  next
    case (Inr xs)
    then have "listed m w = xs" using q by (simp add: listed_def)
    with assms(3) [OF db] Inr assms(1) q db new show ?thesis
      by (auto simp: act_bind_def act_seq_def refused_def)
  qed
qed

lemma refused_bind: "refused w r w' \<Longrightarrow> r = Inl e \<Longrightarrow> refused w (Inl e) w'"
  by simp

lemma refused_ignore:
  assumes "ignore m w = (r, w')" and "\<And>q. m w = (q, w') \<Longrightarrow> refused w (map_sum id (\<lambda>_. ()) q) w'"
  shows "refused w r w'"
proof (cases "m w")
  case (Pair q w1)
  with assms show ?thesis
    by (cases q) (auto simp: ignore_def act_bind_def act_return_def)
qed

lemma refused_guard_ignore:
  assumes "ignore (guarded_mail sv guard m) w = (r, w')" and "guard (mw_db w) \<noteq> Inr ()"
  shows "refused w r w'"
proof -
  obtain q w1 where q: "guarded_mail sv guard m w = (q, w1)" by force
  from guarded_mail_pass [OF q] assms(2) obtain e where "q = Inl e" "w1 = w" by auto
  with q assms(1) show ?thesis by (auto simp: ignore_def act_bind_def refused_same)
qed

lemma refused_delete_alias:
  assumes "\<not> fall_open (mw_db w) tid" and "\<not> in_scope sv tid (OpDeleteAlias i) w"
    and "delete_alias sv tid i w = (r, w')"
  shows "refused w r w'"
proof -
  let ?m = "list_aliases (ms_provider sv) (ms_client sv) True"
  from guarded_mail_pass [OF assms(3) [unfolded delete_alias_def]] consider
      "\<exists>e. r = Inl e" "w' = w"
    | "act_bind (via_mail ?m) (\<lambda>aliases. act_seq (db_read (\<lambda>d.
             case find (\<lambda>a. ma_id a = i) aliases of
               Some a \<Rightarrow> if domain_accessible d tid (ma_domain a) then Inr ()
                         else Inl (ProviderAPIError ''Mailcow'' ''Alias not found.'' (Some 404))
             | None \<Rightarrow> Inl (ProviderAPIError ''Mailcow'' ''Alias not found.'' (Some 404))))
           (act_seq (via_mail (mc_delete_alias (ms_provider sv) (ms_client sv) i)) (act_return ()))) w = (r, w')"
    by blast
  then show ?thesis
  proof cases
    case 1
    then show ?thesis by (auto simp: refused_same)
  next
    case 2
    show ?thesis
    proof (rule refused_listed [OF 2 gets_list_aliases])
      fix w1 :: mail_world assume db: "mw_db w1 = mw_db w"
      have "\<not> domain_accessible (mw_db w) tid (ma_domain a)" if "find (\<lambda>a. ma_id a = i) (listed ?m w) = Some a" for a
        using that assms(1,2)
        by (auto simp: find_Some_iff domain_accessible_def is_resource_accessible_def owns_domain_def dest: nth_mem)
      then show "\<exists>e. db_read (\<lambda>d. case find (\<lambda>a. ma_id a = i) (listed ?m w) of
               Some a \<Rightarrow> if domain_accessible d tid (ma_domain a) then Inr ()
                         else Inl (ProviderAPIError ''Mailcow'' ''Alias not found.'' (Some 404))
             | None \<Rightarrow> Inl (ProviderAPIError ''Mailcow'' ''Alias not found.'' (Some 404))) w1 = (Inl e, w1)"
        using db by (auto simp: db_read_def split: option.split)
    qed
  qed
qed

lemma refused_delete_app_password:
  assumes "\<not> fall_open (mw_db w) tid" and "\<not> in_scope sv tid (OpDeleteAppPassword u i) w"
    and "delete_app_password sv tid u i w = (r, w')"
  shows "refused w r w'"
proof (cases "ensure_mailbox_access (mw_db w) tid u = Inr ()")
  case False
  with assms(3) show ?thesis unfolding delete_app_password_def by (rule refused_guard)
next
  case True
  let ?m = "list_app_passwords (ms_provider sv) (ms_client sv) u"
  have nin: "i \<notin> ap_id ` set (listed ?m w)"
    using assms(1,2) True ensure_mailbox_owns by auto
  from guarded_mail_pass [OF assms(3) [unfolded delete_app_password_def]] consider
      "\<exists>e. r = Inl e" "w' = w"
    | "act_bind (via_mail ?m) (\<lambda>existing. act_seq (lift (if list_ex (\<lambda>x. ap_id x = i) existing then Inr ()
             else Inl (ProviderAPIError ''Mailcow'' ''App password not found.'' (Some 404))))
          (act_seq (via_mail (mc_delete_app_password (ms_provider sv) (ms_client sv) i)) (act_return ()))) w = (r, w')"
    by blast
  then show ?thesis
  proof cases
    case 1
    then show ?thesis by (auto simp: refused_same)
  next
    case 2
    show ?thesis
      by (rule refused_listed [OF 2 gets_list_app_passwords])
        (use nin in \<open>auto simp: lift_def list_ex_iff image_iff\<close>)
  qed
qed

text \<open>The authorisation of quarantine ids is itself a listing followed by a check.\<close>

lemma refused_authorize:
  assumes "i \<in> set ids"
    and "\<not> quarantine_allowed (listed (list_quarantine (ms_provider sv) (ms_client sv)) w)
           (accessible_mail_scope (mw_db w) tid) i"
    and "authorize_quarantine_ids sv tid ids w = (r, w')"
  shows "refused w r w'"
proof -
  let ?m = "list_quarantine (ms_provider sv) (ms_client sv)"
  let ?scope = "accessible_mail_scope (mw_db w) tid"
  let ?chk = "\<lambda>items. if list_all (quarantine_allowed items ?scope) ids then Inr ()
      else Inl (ProviderAPIError ''Mailcow'' ''Quarantine item not found.'' (Some 404))"
  have "act_bind (via_mail ?m) (\<lambda>items. act_seq (lift (?chk items)) (act_return ())) w = (r, w')"
    using assms(3)
    by (auto simp: authorize_quarantine_ids_def act_bind_def db_read_def act_seq_def act_return_def lift_def
        split: prod.splits sum.splits)
  moreover have "\<exists>e. lift (?chk (listed ?m w)) w1 = (Inl e, w1)" for w1 :: mail_world
    using assms(1,2) by (auto simp: lift_def list_all_iff)
  ultimately show ?thesis
    by (intro refused_listed [where m = ?m and chk = "\<lambda>items. lift (?chk items)" and rest = "\<lambda>_. act_return ()"])
      (auto intro: gets_list_quarantine)
qed

lemma quarantine_allowed_in:
  "quarantine_allowed items scope i \<Longrightarrow> \<exists>q\<in>set items. qi_id q = i \<and> rcpt_in_scope (qi_rcpt q) scope"
  unfolding quarantine_allowed_def
  by (auto simp: find_Some_iff split: option.splits) (metis length_rev nth_mem set_rev)

lemma refused_quarantine:
  assumes "\<not> (\<forall>i\<in>set ids. \<exists>q\<in>set (listed (list_quarantine (ms_provider sv) (ms_client sv)) w).
      qi_id q = i \<and> rcpt_in_scope (qi_rcpt q) (accessible_mail_scope (mw_db w) tid))"
    and "quarantine_op sv tid ids m w = (r, w')"
  shows "refused w r w'"
proof -
  obtain i where i: "i \<in> set ids" "\<not> quarantine_allowed
      (listed (list_quarantine (ms_provider sv) (ms_client sv)) w) (accessible_mail_scope (mw_db w) tid) i"
    using assms(1) quarantine_allowed_in by blast
  obtain q w1 where q: "authorize_quarantine_ids sv tid ids w = (q, w1)" by force
  have ref: "refused w q w1" by (rule refused_authorize [OF i q])
  then obtain e where e: "q = Inl e" by (auto simp: refused_def) (metis isl_def)
  show ?thesis
  proof (cases "mail_require_actions sv")
    case (Inl a)
    with assms(2) have "r = Inl a" "w' = w" by (auto simp: quarantine_op_def act_seq_def act_bind_def lift_def)
    then show ?thesis by (simp add: refused_same)
  next
    case (Inr u)
    from i(1) have "ids \<noteq> []" by auto
    with assms(2) q e Inr have "r = Inl e" "w' = w1"
      by (auto simp: quarantine_op_def act_seq_def act_bind_def lift_def)
    with ref e show ?thesis by simp
  qed
qed

section \<open>Properties\<close>

text \<open>
  C32. Tenant isolation of mail: a write of a tenant that is not platform scope for a domain,
  mailbox, alias, app password or quarantined message outside its own mail domains and
  mailboxes ends with an error, changes no row, and sends Mailcow nothing but reads.
\<close>

theorem mail_writes_stay_in_tenant:
  assumes "\<not> fall_open (mw_db w) tid" and "\<not> in_scope sv tid oper w"
    and "mail_step sv tid oper w = (r, w')"
  shows "isl r \<and> mw_db w' = mw_db w \<and>
     (\<exists>new. mail_sent w' = mail_sent w @ new \<and> list_all is_get new)"
proof -
  have "refused w r w'"
  proof (cases oper)
    case (OpDeleteDomain dm)
    with assms show ?thesis
      by (auto simp: delete_mail_domain_def intro!: refused_guard dest: ensure_domain_owns)
  next
    case (OpCreateMailbox lp dm pw nm q)
    with assms show ?thesis
      by (auto simp: create_mailbox_def intro!: refused_guard_ignore dest: ensure_domain_owns)
  next
    case (OpEditMailbox u q nm act pw)
    with assms show ?thesis
      by (auto simp: edit_mailbox_def intro!: refused_guard dest: ensure_mailbox_owns)
  next
    case (OpDeleteMailbox u)
    with assms show ?thesis
      by (auto simp: delete_mailbox_def intro!: refused_guard dest: ensure_mailbox_owns)
  next
    case (OpCreateAlias a g)
    with assms show ?thesis
      by (auto simp: create_alias_def Let_def intro!: refused_guard dest: ensure_domain_owns split: if_splits)
  next
    case (OpDeleteAlias i)
    show ?thesis
      by (rule refused_delete_alias [OF assms(1)]) (use assms OpDeleteAlias in simp_all)
  next
    case (OpCreateAppPassword u nm fresh)
    with assms show ?thesis
      by (auto simp: create_app_password_def Let_def intro!: refused_guard_ignore dest: ensure_mailbox_owns)
  next
    case (OpDeleteAppPassword u i)
    show ?thesis
      by (rule refused_delete_app_password [OF assms(1)]) (use assms OpDeleteAppPassword in simp_all)
  next
    case (OpActQuarantine ids action)
    with assms show ?thesis
      by (auto simp: act_on_quarantine_for_tenant_def intro!: refused_quarantine)
  next
    case (OpDeleteQuarantine ids)
    with assms show ?thesis by (auto simp: delete_quarantine_for_tenant_def intro!: refused_quarantine)
  qed (use assms in simp)
  then show ?thesis by (simp add: refused_def)
qed

definition mail_tenant :: "string \<Rightarrow> bool \<Rightarrow> tenant" where
  "mail_tenant i platform = \<lparr>tn_id = i, tn_name = i, tn_slug = i, tn_status = TENANT_ACTIVE, tn_plan_id = None,
     tn_platform = platform, tn_signup_ip = None\<rparr>"

definition demo_mail_db :: db where
  "demo_mail_db = empty_db\<lparr>db_tenants := [mail_tenant ''t1'' False, mail_tenant ''t2'' False],
     db_resources := [mail_resource ''t1'' RESOURCE_TYPE_MAIL_DOMAIN ''a_b.com'',
       mail_resource ''t2'' RESOURCE_TYPE_MAIL_DOMAIN ''a-b.com'',
       mail_resource ''t2'' RESOURCE_TYPE_MAILBOX ''x@a-b.com'']\<rparr>"

definition demo_mail_world :: mail_world where
  "demo_mail_world = \<lparr>mw_db = demo_mail_db, mw_mail = \<lparr>pw_sent = [], pw_cache = []\<rparr>, mw_dns = []\<rparr>"

text \<open>A Mailcow that answers every request with an empty 200, or as given.\<close>

definition demo_mail :: "(preq list \<Rightarrow> int \<Rightarrow> attempt) \<Rightarrow> (string \<Rightarrow> json option) \<Rightarrow> mail_service" where
  "demo_mail att parse = \<lparr>ms_actions = True, ms_client = make_mailcow ''https://m/'' ''k'' 60,
     ms_provider = \<lparr>pd_attempt = att, pd_parse = parse, pd_clock = (\<lambda>h. int (length h))\<rparr>,
     ms_hostname = [], ms_spf = ''v=spf1'', ms_dmarc = ''v=DMARC1'', ms_relayhost = [],
     ms_dns_configured = False, ms_zones = Inr [], ms_cloudflare = (\<lambda>_ _. Inr ()), ms_ci = False\<rparr>"

definition empty_200 :: attempt where
  "empty_200 = Answer \<lparr>hr_status = 200, hr_text = [], hr_retry_after = None\<rparr>"

abbreviation demo_sv :: mail_service where
  "demo_sv \<equiv> demo_mail (\<lambda>_ _. empty_200) (\<lambda>_. None)"

lemma mail_writes_stay_in_tenant_witness:
  "isl (fst (mail_step demo_sv (Some ''t1'') (OpDeleteMailbox ''x@a-b.com'') demo_mail_world)) \<and>
   mw_db (snd (mail_step demo_sv (Some ''t1'') (OpDeleteMailbox ''x@a-b.com'') demo_mail_world)) = demo_mail_db"
proof -
  let ?q = "mail_step demo_sv (Some ''t1'') (OpDeleteMailbox ''x@a-b.com'') demo_mail_world"
  have "\<not> fall_open (mw_db demo_mail_world) (Some ''t1'')" by code_simp
  moreover have "\<not> in_scope demo_sv (Some ''t1'') (OpDeleteMailbox ''x@a-b.com'') demo_mail_world" by code_simp
  ultimately have "isl (fst ?q) \<and> mw_db (snd ?q) = mw_db demo_mail_world"
    using mail_writes_stay_in_tenant [of demo_mail_world "Some ''t1''" demo_sv
        "OpDeleteMailbox ''x@a-b.com''" "fst ?q" "snd ?q"] by simp
  then show ?thesis by (simp add: demo_mail_world_def)
qed

section \<open>Ownership rows\<close>

text \<open>What an accepted request does to the database.\<close>

definition add_mail_row :: "string option \<Rightarrow> string \<Rightarrow> string \<Rightarrow> db \<Rightarrow> db" where
  "add_mail_row tid rtype ext d =
     (if or_empty tid = [] then d
      else d\<lparr>db_resources := db_resources d @ [mail_resource (or_empty tid) rtype ext]\<rparr>)"

definition drop_rows :: "(tenant_resource \<Rightarrow> bool) \<Rightarrow> db \<Rightarrow> db" where
  "drop_rows P d = d\<lparr>db_resources := filter (\<lambda>r. \<not> P r) (db_resources d)\<rparr>"

fun mail_effect :: "mail_service \<Rightarrow> string option \<Rightarrow> mail_op \<Rightarrow> db \<Rightarrow> db" where
  "mail_effect sv tid (OpCreateDomain dm descr q) = add_mail_row tid RESOURCE_TYPE_MAIL_DOMAIN dm"
| "mail_effect sv tid (OpDeleteDomain dm) = drop_rows (domain_row sv dm)"
| "mail_effect sv tid (OpCreateMailbox lp dm pw nm q) =
     add_mail_row tid RESOURCE_TYPE_MAILBOX (lp @ ''@'' @ dm)"
| "mail_effect sv tid (OpDeleteMailbox u) =
     drop_rows (\<lambda>r. rs_provider r = PROVIDER_MAILCOW \<and> rs_type r = RESOURCE_TYPE_MAILBOX \<and> rs_ext r = u)"
| "mail_effect sv tid _ = id"

lemma keepsD_db: "keeps (\<lambda>w. mw_db w = mw_db v) m \<Longrightarrow> m v = (r, v') \<Longrightarrow> mw_db v' = mw_db v"
  using keepsD [of "\<lambda>w. mw_db w = mw_db v" m v r v'] by simp

lemma via_mail_db: "via_mail m w = (r, w') \<Longrightarrow> mw_db w' = mw_db w"
  by (auto simp: via_mail_def split: prod.splits)

lemma keeps_case_json: "(\<And>s. keeps I (f s)) \<Longrightarrow> keeps I g \<Longrightarrow> keeps I (case v of JStr s \<Rightarrow> f s | _ \<Rightarrow> g)"
  by (cases v) simp_all

lemma keeps_provision_records [keeps]: "keeps (\<lambda>w. mw_db w = d) (provision_records sv tid zone pls)"
proof (induction pls)
  case (Cons pl pls)
  have "keeps (\<lambda>w. mw_db w = d) (create_planned sv tid zone pl)"
    by (rule keepsI) (auto simp: create_planned_def dns_call_act_def split: prod.splits)
  with Cons show ?case by (auto intro!: keeps split: exn.split)
qed (simp add: keeps)

lemma keeps_provision_dns [keeps]:
  "keeps (\<lambda>w. mw_db w = d) (provision_mail_dns sv tid dm n t)"
  by (auto simp: provision_mail_dns_def Let_def intro!: keeps split: sum.split exn.split list.split)

lemma keeps_enrich: "keeps (\<lambda>w. mw_db w = d) (enrich_domain sv tid dm)"
  by (auto simp: enrich_domain_def intro!: keeps split: prod.split)

lemma register_mail_run: "register_mail tid ty ext w = (Inr (), w\<lparr>mw_db := add_mail_row tid ty ext (mw_db w)\<rparr>)"
  by (simp add: register_mail_def act_when_def db_write_def add_mail_row_def act_return_def)

text \<open>The run of a mail call followed by something else.\<close>

lemma seq_via_mail:
  assumes "act_seq (via_mail m) n w = (r, w')"
  shows "mw_db w' = mw_db w \<and> isl r \<or> (\<exists>w1. mw_db w1 = mw_db w \<and> n w1 = (r, w'))"
proof -
  obtain q w1 where q: "via_mail m w = (q, w1)" by force
  with assms via_mail_db [OF q] show ?thesis
    by (cases q) (auto simp: act_seq_def act_bind_def)
qed

lemma act_seq_lift:
  assumes "act_seq (lift x) n w = (r, w')"
  shows "w' = w \<and> isl r \<or> n w = (r, w')"
  using assms by (cases x) (auto simp: act_seq_def act_bind_def lift_def)

lemma run_create_mail_domain:
  assumes "create_mail_domain sv tid dm descr q w = (r, w')"
  shows "mw_db w' = mw_db w \<or> mw_db w' = add_mail_row tid RESOURCE_TYPE_MAIL_DOMAIN dm (mw_db w)"
proof -
  let ?c = "mc_create_domain (ms_provider sv) (ms_client sv) dm descr q q (min 3072 (max 1 q))"
  from act_seq_lift [OF assms [unfolded create_mail_domain_def]] consider "w' = w"
    | "act_seq (via_mail ?c) (act_seq (register_mail tid RESOURCE_TYPE_MAIL_DOMAIN dm) (enrich_domain sv tid dm)) w = (r, w')"
    by blast
  then show ?thesis
  proof cases
    case 2
    from seq_via_mail [OF 2] show ?thesis
    proof (elim disjE exE conjE)
      fix w1 assume w1: "mw_db w1 = mw_db w"
        "act_seq (register_mail tid RESOURCE_TYPE_MAIL_DOMAIN dm) (enrich_domain sv tid dm) w1 = (r, w')"
      then have "enrich_domain sv tid dm (w1\<lparr>mw_db := add_mail_row tid RESOURCE_TYPE_MAIL_DOMAIN dm (mw_db w1)\<rparr>) = (r, w')"
        by (simp add: act_seq_def act_bind_def register_mail_run)
      from keepsD_db [OF keeps_enrich this] w1(1) show ?thesis by simp
    qed simp
  qed simp
qed

lemma guarded_ignore:
  assumes "ignore (guarded_mail sv guard m) w = (r, w')"
  shows "w' = w \<or> guard (mw_db w) = Inr () \<and> (\<exists>q. m w = (q, w'))"
proof -
  obtain q w1 where q: "guarded_mail sv guard m w = (q, w1)" by force
  with assms have "w' = w1" by (cases q) (auto simp: ignore_def act_bind_def act_return_def)
  with guarded_mail_pass [OF q] show ?thesis by blast
qed

text \<open>The guard under which an operation changes rows.\<close>

fun row_guard :: "string option \<Rightarrow> mail_op \<Rightarrow> db \<Rightarrow> bool" where
  "row_guard tid (OpCreateMailbox lp dm pw nm q) d = domain_accessible d tid dm"
| "row_guard tid _ d = True"

lemma run_create_mailbox:
  assumes "create_mailbox sv tid lp dm pw nm q w = (r, w')"
  shows "mw_db w' = mw_db w \<or> domain_accessible (mw_db w) tid dm \<and>
    mw_db w' = add_mail_row tid RESOURCE_TYPE_MAILBOX (lp @ ''@'' @ dm) (mw_db w)"
proof -
  from guarded_mail_pass [OF assms [unfolded create_mailbox_def]] show ?thesis
  proof (elim disjE conjE exE)
    assume g: "ensure_domain_access (mw_db w) tid dm = Inr ()"
      and run: "act_seq (via_mail (mc_create_mailbox (ms_provider sv) (ms_client sv) lp dm pw nm q))
        (act_seq (register_mail tid RESOURCE_TYPE_MAILBOX (lp @ ''@'' @ dm)) (act_return (lp @ ''@'' @ dm))) w = (r, w')"
    from g have "domain_accessible (mw_db w) tid dm" by (simp add: ensure_domain_access_def split: if_splits)
    with seq_via_mail [OF run] show ?thesis
      by (auto simp: act_seq_def act_bind_def register_mail_run act_return_def)
  qed simp
qed

lemma run_delete_rows:
  assumes "guarded_mail sv guard (act_seq (via_mail m) (drop_resources P)) w = (r, w')"
  shows "mw_db w' = mw_db w \<or> mw_db w' = drop_rows P (mw_db w)"
  using guarded_mail_pass [OF assms]
  by (auto dest!: seq_via_mail simp: drop_resources_def db_write_def drop_rows_def)

lemma keeps_guarded: "keeps (\<lambda>w. mw_db w = d) m \<Longrightarrow> keeps (\<lambda>w. mw_db w = d) (guarded_mail sv guard m)"
  by (simp add: guarded_mail_def keeps)

fun row_op :: "mail_op \<Rightarrow> bool" where
  "row_op (OpCreateDomain dm descr q) = True"
| "row_op (OpDeleteDomain dm) = True"
| "row_op (OpCreateMailbox lp dm pw nm q) = True"
| "row_op (OpDeleteMailbox u) = True"
| "row_op _ = False"

lemma keeps_other_ops:
  "\<not> row_op oper \<Longrightarrow> keeps (\<lambda>w. mw_db w = d) (mail_step sv tid oper)"
  by (cases oper)
    (auto simp: edit_mailbox_def create_alias_def delete_alias_def create_app_password_def ignore_def
      delete_app_password_def act_on_quarantine_for_tenant_def delete_quarantine_for_tenant_def
      quarantine_op_def authorize_quarantine_ids_def Let_def intro!: keeps keeps_guarded)

lemma mail_step_db:
  assumes "mail_step sv tid oper w = (r, w')"
  shows "mw_db w' = mw_db w \<or> row_guard tid oper (mw_db w) \<and> mw_db w' = mail_effect sv tid oper (mw_db w)"
proof (cases "row_op oper")
  case False
  from keepsD_db [OF keeps_other_ops [OF False] assms] show ?thesis by simp
next
  case True
  then show ?thesis
  proof (cases oper)
  case (OpCreateDomain dm descr q)
  with assms show ?thesis by (auto dest!: ignore_run run_create_mail_domain)
next
  case (OpDeleteDomain dm)
  with assms show ?thesis by (auto simp: delete_mail_domain_def dest!: run_delete_rows)
next
  case (OpCreateMailbox lp dm pw nm q)
  with assms show ?thesis by (auto dest!: ignore_run run_create_mailbox)
next
  case (OpDeleteMailbox u)
  with assms show ?thesis by (auto simp: delete_mailbox_def dest!: run_delete_rows)
  qed simp_all
qed

definition backs :: "tenant_resource \<Rightarrow> tenant_resource \<Rightarrow> bool" where
  "backs q r \<longleftrightarrow> rs_provider q = PROVIDER_MAILCOW \<and> rs_type q = RESOURCE_TYPE_MAIL_DOMAIN \<and>
     rs_tenant q = rs_tenant r \<and> ends_with (CHR ''@'' # rs_ext q) (rs_ext r)"

definition customer_mailbox :: "db \<Rightarrow> tenant_resource \<Rightarrow> bool" where
  "customer_mailbox d r \<longleftrightarrow> rs_provider r = PROVIDER_MAILCOW \<and> rs_type r = RESOURCE_TYPE_MAILBOX \<and>
     \<not> fall_open d (Some (rs_tenant r))"

definition mail_rows_backed :: "db \<Rightarrow> bool" where
  "mail_rows_backed d \<longleftrightarrow>
     (\<forall>r\<in>set (db_resources d). customer_mailbox d r \<longrightarrow> (\<exists>q\<in>set (db_resources d). backs q r))"

lemma ends_with_append: "ends_with p (u @ p)"
  by (simp add: ends_with_def)

lemma like_percent: "sql_like ci cs ys \<Longrightarrow> sql_like ci (CHR ''%'' # cs) (xs @ ys)"
proof (induction xs)
  case Nil
  then show ?case by (cases ys) simp_all
qed simp

lemma like_refl: "sql_like ci p p"
proof (induction p)
  case (Cons c p)
  then show ?case
    using like_percent [of ci p p "[CHR ''%'']"] by (cases "c = CHR ''%''") (simp_all add: same_char_def)
qed simp

lemma like_suffix: "ends_with (CHR ''@'' # dm) s \<Longrightarrow> sql_like ci (''%@'' @ dm) s"
  using like_percent [OF like_refl [of ci "CHR ''@'' # dm"]] by (auto simp: ends_with_iff)

lemma mail_type_neq: "RESOURCE_TYPE_MAIL_DOMAIN \<noteq> RESOURCE_TYPE_MAILBOX"
  by (simp add: resource_const_defs)

lemma fall_open_rows [simp]: "fall_open (d\<lparr>db_resources := rs\<rparr>) tid = fall_open d tid"
  by (simp add: fall_open_def get_tenant_def)

lemma customer_mailbox_rows [simp]: "customer_mailbox (d\<lparr>db_resources := rs\<rparr>) r = customer_mailbox d r"
  by (simp add: customer_mailbox_def)

lemma backed_add_row:
  assumes "mail_rows_backed d" and "or_empty tid \<noteq> []"
    and "customer_mailbox d (mail_resource (or_empty tid) ty ext) \<Longrightarrow>
      \<exists>q\<in>set (db_resources d). backs q (mail_resource (or_empty tid) ty ext)"
  shows "mail_rows_backed (add_mail_row tid ty ext d)"
  using assms by (auto simp: mail_rows_backed_def add_mail_row_def)

lemma backed_drop_rows:
  assumes "mail_rows_backed d"
    and "\<And>q r. \<lbrakk>customer_mailbox d r; backs q r; P q\<rbrakk> \<Longrightarrow> P r"
  shows "mail_rows_backed (drop_rows P d)"
  using assms unfolding mail_rows_backed_def drop_rows_def by (auto; blast)

lemma accessible_backs:
  assumes "domain_accessible d tid dm" and "customer_mailbox d (mail_resource (or_empty tid) ty (lp @ ''@'' @ dm))"
    and "or_empty tid \<noteq> []"
  shows "\<exists>q\<in>set (db_resources d). backs q (mail_resource (or_empty tid) ty (lp @ ''@'' @ dm))"
proof -
  have "\<not> fall_open d tid"
    using assms(2,3) by (auto simp: customer_mailbox_def mail_resource_def fall_open_def)
  with assms(1) have "dm \<in> mapped_values d tid PROVIDER_MAILCOW RESOURCE_TYPE_MAIL_DOMAIN"
    by (simp add: domain_accessible_def is_resource_accessible_def)
  then obtain q where "q \<in> set (db_resources d)" "rs_tenant q = or_empty tid" "rs_provider q = PROVIDER_MAILCOW"
      "rs_type q = RESOURCE_TYPE_MAIL_DOMAIN" "rs_ext q = dm"
    by (auto simp: mapped_values_iff)
  then show ?thesis
    using ends_with_append [of "CHR ''@'' # dm" lp] by (auto simp: backs_def mail_resource_def)
qed

lemma backed_effect:
  assumes backed: "mail_rows_backed d" and "row_guard tid oper d"
  shows "mail_rows_backed (mail_effect sv tid oper d)"
proof (cases oper)
  case (OpCreateDomain dm descr q)
  have "mail_rows_backed (add_mail_row tid RESOURCE_TYPE_MAIL_DOMAIN dm d)"
  proof (cases "or_empty tid = []")
    case True
    with backed show ?thesis by (simp add: add_mail_row_def)
  next
    case False
    with backed show ?thesis
      by (rule backed_add_row) (simp add: customer_mailbox_def mail_resource_def mail_type_neq)
  qed
  with OpCreateDomain show ?thesis by simp
next
  case (OpDeleteDomain dm)
  have "domain_row sv dm r" if "customer_mailbox d r" "backs q r" "domain_row sv dm q" for q r
    using that mail_type_neq like_suffix [of dm "rs_ext r" "ms_ci sv"]
    by (auto simp: customer_mailbox_def backs_def domain_row_def)
  with backed OpDeleteDomain show ?thesis by (auto intro: backed_drop_rows)
next
  case (OpCreateMailbox lp dm pw nm q)
  with assms(2) have dm: "domain_accessible d tid dm" by simp
  have "mail_rows_backed (add_mail_row tid RESOURCE_TYPE_MAILBOX (lp @ ''@'' @ dm) d)"
  proof (cases "or_empty tid = []")
    case True
    with backed show ?thesis by (simp add: add_mail_row_def)
  next
    case False
    show ?thesis by (rule backed_add_row [OF backed False]) (rule accessible_backs [OF dm _ False])
  qed
  with OpCreateMailbox show ?thesis by simp
next
  case (OpDeleteMailbox u)
  have "mail_rows_backed (drop_rows (\<lambda>r. rs_provider r = PROVIDER_MAILCOW \<and>
      rs_type r = RESOURCE_TYPE_MAILBOX \<and> rs_ext r = u) d)"
    by (rule backed_drop_rows [OF backed]) (use mail_type_neq in \<open>auto simp: backs_def\<close>)
  with OpDeleteMailbox show ?thesis by simp
qed (use backed in simp_all)

definition run_mail :: "mail_service \<Rightarrow> (string option \<times> mail_op) list \<Rightarrow> mail_world \<Rightarrow> mail_world" where
  "run_mail sv reqs w = fold (\<lambda>(tid, oper) w. snd (in_session (mail_step sv tid oper) w)) reqs w"



section \<open>A new domain\<close>

definition never_raises :: "('s, 'a) sx \<Rightarrow> bool" where
  "never_raises m \<longleftrightarrow> (\<forall>s. \<exists>x s'. m s = (Inr x, s'))"

lemma never_raises_or_else: "never_raises (or_else m x)"
  by (auto simp: never_raises_def or_else_def act_catch_def act_return_def split: prod.splits sum.splits)

lemma never_raises_return: "never_raises (act_return x)"
  by (simp add: never_raises_def act_return_def)

lemma never_raises_bind:
  assumes "never_raises m" and "\<And>x. never_raises (f x)"
  shows "never_raises (act_bind m f)"
  unfolding never_raises_def
proof
  fix s
  obtain x s1 where "m s = (Inr x, s1)" using assms(1) unfolding never_raises_def by blast
  moreover obtain y s2 where "f x s1 = (Inr y, s2)" using assms(2) [of x] unfolding never_raises_def by blast
  ultimately show "\<exists>x s'. act_bind m f s = (Inr x, s')" by (simp add: act_bind_def)
qed

lemma never_raises_enrich: "never_raises (enrich_domain sv tid dm)"
  by (auto simp: enrich_domain_def act_seq_def intro!: never_raises_bind never_raises_or_else
      never_raises_return split: prod.split)

lemma run_bind_Inr: "act_bind m f s = (Inr y, s') \<Longrightarrow> \<exists>x s1. m s = (Inr x, s1) \<and> f x s1 = (Inr y, s')"
  by (auto simp: act_bind_def split: prod.splits sum.splits)

lemma enrich_domain_name:
  assumes "enrich_domain sv tid dm s = (Inr r, s')"
  shows "dc_domain r = dm"
  using assms unfolding enrich_domain_def act_seq_def
  by (auto dest!: run_bind_Inr simp: act_return_def)

text \<open>
  The best-effort contract of a new domain: once Mailcow has accepted it, the request
  succeeds and the ownership row is there, whatever DKIM, the relay, the zone listing and the
  DNS provider do.
\<close>

theorem accepted_domain_is_registered:
  assumes "ms_actions sv"
    and "via_mail (mc_create_domain (ms_provider sv) (ms_client sv) dm descr q q (min 3072 (max 1 q))) w = (Inr v, w1)"
  shows "\<exists>r w'. create_mail_domain sv tid dm descr q w = (Inr r, w') \<and> dc_domain r = dm \<and>
    mw_db w' = add_mail_row tid RESOURCE_TYPE_MAIL_DOMAIN dm (mw_db w)"
proof -
  let ?w2 = "w1\<lparr>mw_db := add_mail_row tid RESOURCE_TYPE_MAIL_DOMAIN dm (mw_db w1)\<rparr>"
  obtain r w' where run: "enrich_domain sv tid dm ?w2 = (Inr r, w')"
    using never_raises_enrich [of sv tid dm] unfolding never_raises_def by blast
  have "create_mail_domain sv tid dm descr q w = (Inr r, w')"
    using assms run
    by (simp add: create_mail_domain_def act_seq_def act_bind_def lift_def mail_require_actions_def register_mail_run)
  moreover have "mw_db w' = mw_db ?w2" by (rule keepsD_db [OF keeps_enrich run])
  ultimately show ?thesis using enrich_domain_name [OF run] via_mail_db [OF assms(2)] by auto
qed

lemma accepted_domain_is_registered_witness:
  "owns_domain (mw_db (snd (create_mail_domain demo_sv (Some ''t1'') ''new.com'' [] 100 demo_mail_world)))
     (Some ''t1'') ''new.com''"
proof -
  let ?m = "via_mail (mc_create_domain (ms_provider demo_sv) (ms_client demo_sv) ''new.com'' [] 100 100 (min 3072 (max 1 100)))"
  have "\<not> isl (fst (?m demo_mail_world))" by code_simp
  then obtain v w1 where acc: "?m demo_mail_world = (Inr v, w1)"
    by (cases "?m demo_mail_world") (auto dest!: Inr_of_not_isl)
  have act: "ms_actions demo_sv" by code_simp
  have "owns_domain (add_mail_row (Some ''t1'') RESOURCE_TYPE_MAIL_DOMAIN ''new.com'' (mw_db demo_mail_world))
      (Some ''t1'') ''new.com''" by code_simp
  with accepted_domain_is_registered [OF act acc, of "Some ''t1''"] show ?thesis by auto
qed

section \<open>DNS automation\<close>

lemma longest_zone_in: "longest_zone z zs \<in> set (z # zs)"
  by (induction z zs rule: longest_zone.induct) auto

lemma longest_zone_max: "y \<in> set (z # zs) \<Longrightarrow> length (zn_name y) \<le> length (zn_name (longest_zone z zs))"
proof (induction z zs arbitrary: y rule: longest_zone.induct)
  case (2 z x xs)
  let ?n = "if length (zn_name z) < length (zn_name x) then x else z"
  have "length (zn_name z) \<le> length (zn_name ?n)" "length (zn_name x) \<le> length (zn_name ?n)" by auto
  moreover have "length (zn_name ?n) \<le> length (zn_name (longest_zone ?n xs))" by (rule "2.IH") simp
  moreover have "length (zn_name y) \<le> length (zn_name (longest_zone ?n xs))" if "y \<in> set xs"
    by (rule "2.IH") (use that in simp)
  ultimately show ?case using "2.prems" by fastforce
qed simp

definition own_zone :: "mail_service \<Rightarrow> db \<Rightarrow> string option \<Rightarrow> string \<Rightarrow> dns_call \<Rightarrow> bool" where
  "own_zone sv d tid dm c \<longleftrightarrow>
     (\<exists>zones z. ms_zones sv = Inr zones \<and> z \<in> set (zone_candidates d tid dm zones) \<and> call_zone c = zn_id z \<and>
        (\<forall>y\<in>set (zone_candidates d tid dm zones). length (zn_name y) \<le> length (zn_name z)))"

lemma adds_dns_quiet [adds]:
  "adds mw_dns P (via_mail m)" "adds mw_dns P (db_read f)" "adds mw_dns P (db_write g)"
  by (rule adds_same; simp add: via_mail_def db_read_def db_write_def split: prod.split)+

lemma adds_dns_records [adds]:
  "(\<And>c. call_zone c = zone \<Longrightarrow> P c) \<Longrightarrow> adds mw_dns P (provision_records sv tid zone pls)"
proof (induction pls)
  case (Cons pl pls)
  have "adds mw_dns P (create_planned sv tid zone pl)"
  proof (rule addsI)
    fix s r s' assume "create_planned sv tid zone pl s = (r, s')"
    with Cons.prems show "\<exists>new. mw_dns s' = mw_dns s @ new \<and> list_all P new"
      by (auto simp: create_planned_def dns_call_act_def create_record_for_tenant_def create_record_def
          guarded_def send_def split: prod.splits sum.splits)
  qed
  with Cons show ?case by (auto intro!: adds split: exn.split)
qed (simp add: adds)

lemma provision_dns_own:
  assumes "provision_mail_dns sv tid dm n t s = (r, s')"
  shows "\<exists>new. mw_dns s' = mw_dns s @ new \<and> list_all (own_zone sv (mw_db s) tid dm) new"
proof (cases "ms_dns_configured sv \<and> (\<exists>zones. ms_zones sv = Inr zones \<and> zone_candidates (mw_db s) tid dm zones \<noteq> [])")
  case False
  then have "s' = s" using assms
    by (auto simp: provision_mail_dns_def Let_def act_return_def act_raise_def act_bind_def db_read_def
        split: sum.splits exn.splits list.splits if_splits)
  then show ?thesis by simp
next
  case True
  then obtain zones z zs where zz: "ms_dns_configured sv" "ms_zones sv = Inr zones"
      "zone_candidates (mw_db s) tid dm zones = z # zs"
    by (auto simp: neq_Nil_conv)
  let ?z = "longest_zone z zs"
  have own: "own_zone sv (mw_db s) tid dm c" if "call_zone c = zn_id ?z" for c
    unfolding own_zone_def using zz that longest_zone_in [of z zs] longest_zone_max [of _ z zs] by fastforce
  have "adds mw_dns (own_zone sv (mw_db s) tid dm)
      (act_bind (provision_records sv tid (zn_id ?z) (planned_records sv dm n t)) (\<lambda>report. act_return (zn_name ?z, report)))"
    by (intro adds own)
  moreover have "act_bind (provision_records sv tid (zn_id ?z) (planned_records sv dm n t))
      (\<lambda>report. act_return (zn_name ?z, report)) s = (r, s')"
    using assms zz by (simp add: provision_mail_dns_def Let_def act_bind_def [of "db_read _"] db_read_def)
  ultimately show ?thesis by (rule addsD)
qed

definition quiet :: "'a mtask \<Rightarrow> bool" where
  "quiet m \<longleftrightarrow> (\<forall>w. mw_db (snd (m w)) = mw_db w \<and> mw_dns (snd (m w)) = mw_dns w)"

named_theorems quiet \<open>actions that change neither the database nor the DNS calls\<close>

lemma quiet_via_mail [quiet]: "quiet (via_mail m)" and quiet_return [quiet]: "quiet (act_return x)"
  and quiet_lift [quiet]: "quiet (lift r)"
  by (auto simp: quiet_def via_mail_def act_return_def lift_def split: prod.splits)

lemma quiet_bind [quiet]: "quiet m \<Longrightarrow> (\<And>x. quiet (f x)) \<Longrightarrow> quiet (act_bind m f)"
  by (auto simp: quiet_def act_bind_def split: prod.splits sum.splits) (metis snd_conv)+

lemma quiet_or_else [quiet]: "quiet m \<Longrightarrow> quiet (or_else m x)"
  by (auto simp: quiet_def or_else_def act_catch_def act_return_def split: prod.splits sum.splits) (metis snd_conv)+

lemma quiet_if [quiet]: "quiet m \<Longrightarrow> quiet n \<Longrightarrow> quiet (if b then m else n)"
  by simp

lemma quiet_bind_run:
  assumes "quiet m" and "act_bind m f s = (r, s')"
  shows "mw_dns s' = mw_dns s \<or> (\<exists>x s1. mw_db s1 = mw_db s \<and> mw_dns s1 = mw_dns s \<and> f x s1 = (r, s'))"
proof -
  obtain q s1 where q: "m s = (q, s1)" by force
  with assms(1) have "mw_db s1 = mw_db s \<and> mw_dns s1 = mw_dns s" by (metis quiet_def snd_conv)
  with q assms(2) show ?thesis by (cases q) (auto simp: act_bind_def)
qed

lemma provision_end:
  assumes "act_bind (or_else (provision_mail_dns sv tid dm n t) dflt) (\<lambda>(zone, records). act_return (f zone records)) s = (r, s')"
  shows "\<exists>new. mw_dns s' = mw_dns s @ new \<and> list_all (own_zone sv (mw_db s) tid dm) new"
proof -
  obtain q s1 where q: "provision_mail_dns sv tid dm n t s = (q, s1)" by force
  with assms have "s' = s1"
    by (cases q) (auto simp: act_bind_def or_else_def act_catch_def act_return_def split: prod.splits)
  with provision_dns_own [OF q] show ?thesis by simp
qed

lemma enrich_dns_own:
  assumes "enrich_domain sv tid dm s = (r, s')"
  shows "\<exists>new. mw_dns s' = mw_dns s @ new \<and> list_all (own_zone sv (mw_db s) tid dm) new"
proof -
  let ?goal = "\<lambda>v. \<exists>new. mw_dns s' = mw_dns v @ new \<and> list_all (own_zone sv (mw_db v) tid dm) new"
  let ?p = "ms_provider sv" and ?mc = "ms_client sv"
  let ?relay = "if ms_relayhost sv = [] then act_return False
     else or_else (via_mail (act_seq (assign_relayhost ?p ?mc dm (ms_relayhost sv)) (act_return True))) False"
  let ?last = "\<lambda>dkim_name dkim_txt relay.
     act_bind (or_else (provision_mail_dns sv tid dm dkim_name dkim_txt)
           ([], [\<lparr>dr_name = dm, dr_type = ''*'', dr_status = ''skipped'', dr_detail = ''DNS automation unavailable.''\<rparr>]))
      (\<lambda>(zone, records). act_return \<lparr>dc_domain = dm, dc_dkim_name = dkim_name, dc_dkim_txt = dkim_txt,
         dc_relay = relay, dc_zone = zone, dc_records = records\<rparr>)"
  have q3: "quiet ?relay" by (intro quiet)
  have third: "?goal v" if "act_bind ?relay (?last n t) v = (r, s')" for v n t
    using quiet_bind_run [OF q3 that]
  proof (elim disjE exE conjE)
    fix x s1 assume "mw_db s1 = mw_db v" "mw_dns s1 = mw_dns v" "?last n t x s1 = (r, s')"
    with provision_end [of sv tid dm n t _ _ s1 r s'] show ?thesis by fastforce
  qed simp
  have q2: "quiet (or_else (act_bind (via_mail (get_dkim ?p ?mc dm)) (\<lambda>dkim. act_return (dkim_names dm dkim))) ([], []))"
    by (intro quiet)
  have second: "?goal v" if "act_bind (or_else (act_bind (via_mail (get_dkim ?p ?mc dm))
       (\<lambda>dkim. act_return (dkim_names dm dkim))) ([], [])) (\<lambda>(n, t). act_bind ?relay (?last n t)) v = (r, s')" for v
    using quiet_bind_run [OF q2 that]
  proof (elim disjE exE conjE)
    fix x s1 assume h: "mw_db s1 = mw_db v" "mw_dns s1 = mw_dns v"
      "(case x of (n, t) \<Rightarrow> act_bind ?relay (?last n t)) s1 = (r, s')"
    obtain n t where "x = (n, t)" by force
    with h(3) have "act_bind ?relay (?last n t) s1 = (r, s')" by simp
    from third [OF this] h(1,2) show ?thesis by simp
  qed simp
  have q1: "quiet (or_else (via_mail (act_seq (generate_dkim ?p ?mc dm) (act_return ()))) ())" by (intro quiet)
  show ?thesis
    using quiet_bind_run [OF q1 assms [unfolded enrich_domain_def act_seq_def [of "or_else _ _"]]]
  proof (elim disjE exE conjE)
    fix x s1 assume h: "mw_db s1 = mw_db s" "mw_dns s1 = mw_dns s"
      "act_bind (or_else (act_bind (via_mail (get_dkim ?p ?mc dm)) (\<lambda>dkim. act_return (dkim_names dm dkim))) ([], []))
        (\<lambda>(n, t). act_bind ?relay (?last n t)) s1 = (r, s')"
    from second [OF h(3)] h(1,2) show ?thesis by simp
  qed simp
qed

lemma own_zone_add_row [simp]: "own_zone sv (add_mail_row tid' ty ext d) tid dm = own_zone sv d tid dm"
  if "ty = RESOURCE_TYPE_MAIL_DOMAIN"
proof -
  have "fall_open (add_mail_row tid' ty ext d) tid = fall_open d tid"
    by (simp add: add_mail_row_def)
  moreover have "mapped_values (add_mail_row tid' ty ext d) tid PROVIDER_CLOUDFLARE RESOURCE_TYPE_DNS_ZONE =
      mapped_values d tid PROVIDER_CLOUDFLARE RESOURCE_TYPE_DNS_ZONE"
    by (auto simp: mapped_values_def add_mail_row_def mail_resource_def resource_const_defs)
  ultimately have "zone_candidates (add_mail_row tid' ty ext d) tid dm = zone_candidates d tid dm"
    by (auto simp: zone_candidates_def is_resource_accessible_def fun_eq_iff)
  then show ?thesis by (simp add: own_zone_def fun_eq_iff)
qed

text \<open>
  The DNS automation of a new mail domain writes only to one zone: the longest-named zone that
  the tenant may access among those the domain is in.
\<close>

theorem mail_dns_stays_in_own_zone:
  assumes "create_mail_domain sv tid dm descr q w = (r, w')"
  shows "\<exists>new. mw_dns w' = mw_dns w @ new \<and> list_all (own_zone sv (mw_db w) tid dm) new"
proof -
  let ?c = "mc_create_domain (ms_provider sv) (ms_client sv) dm descr q q (min 3072 (max 1 q))"
  let ?rest = "act_seq (register_mail tid RESOURCE_TYPE_MAIL_DOMAIN dm) (enrich_domain sv tid dm)"
  have "quiet (act_seq (lift (mail_require_actions sv)) (via_mail ?c))"
    by (simp add: act_seq_def quiet)
  moreover have "act_bind (act_seq (lift (mail_require_actions sv)) (via_mail ?c)) (\<lambda>_. ?rest) w = (r, w')"
    using assms by (auto simp: create_mail_domain_def act_seq_def act_bind_def split: prod.splits sum.splits)
  ultimately consider "mw_dns w' = mw_dns w"
    | w1 where "mw_db w1 = mw_db w" "mw_dns w1 = mw_dns w" "?rest w1 = (r, w')"
    using quiet_bind_run by blast
  then show ?thesis
  proof cases
    case 2
    then have "enrich_domain sv tid dm (w1\<lparr>mw_db := add_mail_row tid RESOURCE_TYPE_MAIL_DOMAIN dm (mw_db w1)\<rparr>) = (r, w')"
      by (simp add: act_seq_def act_bind_def register_mail_run)
    from enrich_dns_own [OF this] 2 show ?thesis by simp
  qed simp
qed

section \<open>Where the code falls short\<close>

text \<open>
  LIKE patterns are not escaped: deleting a mail domain with an underscore removes the mailbox
  rows of every tenant under the domains that have another character there.
\<close>

theorem underscore_domain_drops_foreign_mailboxes:
  assumes "delete_mail_domain sv tid (a @ ''_'' @ b) w = (Inr (), w')"
    and "rs_provider r = PROVIDER_MAILCOW" "rs_type r = RESOURCE_TYPE_MAILBOX"
    and "rs_ext r = u @ ''@'' @ a @ [c] @ b"
  shows "r \<notin> set (db_resources (mw_db w'))"
proof -
  have under: "sql_like ci (p @ ''_'' @ q) (p @ [c] @ q)" for ci p q
  proof (induction p)
    case (Cons x p)
    then show ?case
      using like_percent [of ci "p @ ''_'' @ q" "p @ [c] @ q" "[CHR ''%'']"]
      by (cases "x = CHR ''%''") (simp_all add: same_char_def)
  qed (simp add: like_refl)
  have "sql_like (ms_ci sv) (CHR ''%'' # ''@'' @ a @ ''_'' @ b) (u @ ''@'' @ a @ [c] @ b)"
    using like_percent [OF under [of "ms_ci sv" "''@'' @ a" b]] by simp
  with assms(2-4) have row: "domain_row sv (a @ ''_'' @ b) r" by (simp add: domain_row_def)
  from guarded_mail_pass [OF assms(1) [unfolded delete_mail_domain_def]]
  have "act_seq (via_mail (mc_delete_domain (ms_provider sv) (ms_client sv) (a @ ''_'' @ b)))
      (drop_resources (domain_row sv (a @ ''_'' @ b))) w = (Inr (), w')" by auto
  from seq_via_mail [OF this] row show ?thesis by (auto simp: drop_resources_def db_write_def)
qed

lemma underscore_domain_drops_foreign_mailboxes_witness:
  "mail_resource ''t2'' RESOURCE_TYPE_MAILBOX ''x@a-b.com'' \<in> set (db_resources demo_mail_db) \<and>
   mail_resource ''t2'' RESOURCE_TYPE_MAILBOX ''x@a-b.com'' \<notin>
     set (db_resources (mw_db (snd (delete_mail_domain demo_sv (Some ''t1'') ''a_b.com'' demo_mail_world))))"
proof
  show "mail_resource ''t2'' RESOURCE_TYPE_MAILBOX ''x@a-b.com'' \<in> set (db_resources demo_mail_db)"
    by (simp add: demo_mail_db_def)
  let ?q = "delete_mail_domain demo_sv (Some ''t1'') (''a'' @ ''_'' @ ''b.com'') demo_mail_world"
  have "fst ?q = Inr ()" by code_simp
  then have "?q = (Inr (), snd ?q)" by (metis prod.collapse)
  from underscore_domain_drops_foreign_mailboxes [OF this,
      where r = "mail_resource ''t2'' RESOURCE_TYPE_MAILBOX ''x@a-b.com''" and u = "''x''" and c = "CHR ''-''"]
  show "mail_resource ''t2'' RESOURCE_TYPE_MAILBOX ''x@a-b.com'' \<notin>
     set (db_resources (mw_db (snd (delete_mail_domain demo_sv (Some ''t1'') ''a_b.com'' demo_mail_world))))"
    by (simp add: mail_resource_def)
qed

text \<open>
  Quarantine scope comes from the rows alone: a platform-scope tenant, which may change every
  mail domain, sees no quarantined message unless it is mapped to the domain, although the
  comment says that platform scope is unrestricted.
\<close>

lemma platform_scope_sees_no_quarantine:
  assumes "\<forall>r\<in>set (db_resources (mw_db w)). rs_tenant r = t \<longrightarrow> rs_provider r \<noteq> PROVIDER_MAILCOW"
    and "list_quarantine_for_tenant sv (Some t) w = (Inr items, w')"
  shows "items = []"
proof -
  have "accessible_mail_scope (mw_db w) (Some t) = Some ([], [])"
    using assms(1) by (auto simp: accessible_mail_scope_def Let_def filter_empty_conv)
  with assms(2) show ?thesis
    by (auto simp: list_quarantine_for_tenant_def act_bind_def db_read_def act_return_def rcpt_in_scope_def
        split: prod.splits sum.splits)
qed

text \<open>
  Writes are POST requests that \<open>request_json\<close> repeats after a transport error. If the
  answer to the first attempt is lost, the second finds the domain there, Mailcow refuses it,
  and the request fails with 422: the domain exists and no tenant owns it.
\<close>

theorem lost_answer_orphans_domain:
  assumes "ms_actions sv" and "mailcow_configured (ms_client sv)"
    and "\<And>h. pd_attempt (ms_provider sv) h 1 = TransportError"
    and "\<And>h. pd_attempt (ms_provider sv) h 2 = Answer \<lparr>hr_status = 200, hr_text = tx, hr_retry_after = None\<rparr>"
    and "tx \<noteq> []"
    and "pd_parse (ms_provider sv) tx = Some (JList [JObj [(''type'', JStr ''danger''), (''msg'', JStr msg)]])"
    and "msg \<noteq> []"
  shows "\<exists>rq w'. create_mail_domain sv tid dm descr q w = (Inl (ProviderAPIError ''Mailcow'' msg (Some 422)), w') \<and>
    mw_db w' = mw_db w \<and> mail_sent w' = mail_sent w @ [rq] \<and> pq_method rq = ''POST''"
proof -
  have answer: "pd_answer (ms_provider sv) h =
      Inr (JList [JObj [(''type'', JStr ''danger''), (''msg'', JStr msg)]])" for h
  proof -
    let ?c = "pd_attempt (ms_provider sv) h"
    have "\<exists>sl. send_from (pq_service (last h)) ?c 3 1 = (sl, final_outcome (pq_service (last h)) (?c 2)) \<and> int (length sl) = 2 - 1"
    proof (rule send_from_until)
      have only: "1 \<le> i \<and> i < 2 \<longleftrightarrow> i = 1" for i :: int by auto
      show "\<forall>i. 1 \<le> i \<and> i < 2 \<longrightarrow> transient (?c i)" "\<forall>i. 1 \<le> i \<and> i < 2 \<longrightarrow> good_retry_after (?c i)"
        unfolding only using assms(3) [of h] by (simp_all add: transient_def good_retry_after_def)
    qed (use assms(4) [of h] in \<open>simp_all add: transient_def retryable_def\<close>)
    with assms(4-6) show ?thesis
      by (auto simp: pd_answer_def request_json_def send_with_retries_def final_outcome_def is_error_def)
  qed
  show ?thesis
    using assms(1,2,7)
    by (auto simp: create_mail_domain_def mc_create_domain_def mail_write_def act_seq_def act_bind_def lift_def
        mail_require_actions_def require_configured_def via_mail_def call_json_def Let_def answer
        failure_message_def message_text_def jget_def jget_or_def jstr_def str_or_def act_raise_def)
qed

definition lost_then_danger :: "preq list \<Rightarrow> int \<Rightarrow> attempt" where
  "lost_then_danger h n = (if n = 1 then TransportError
     else Answer \<lparr>hr_status = 200, hr_text = ''danger'', hr_retry_after = None\<rparr>)"

definition danger_body :: "string \<Rightarrow> json option" where
  "danger_body tx = Some (JList [JObj [(''type'', JStr ''danger''), (''msg'', JStr ''domain_exists'')]])"

lemma lost_answer_orphans_domain_witness:
  "isl (fst (create_mail_domain (demo_mail lost_then_danger danger_body) (Some ''t1'') ''new.com'' [] 100 demo_mail_world))"
proof -
  let ?sv = "demo_mail lost_then_danger danger_body"
  have "\<exists>rq w'. create_mail_domain ?sv (Some ''t1'') ''new.com'' [] 100 demo_mail_world =
      (Inl (ProviderAPIError ''Mailcow'' ''domain_exists'' (Some 422)), w') \<and> mw_db w' = mw_db demo_mail_world \<and>
      mail_sent w' = mail_sent demo_mail_world @ [rq] \<and> pq_method rq = ''POST''"
    by (rule lost_answer_orphans_domain [where tx = "''danger''"])
      (simp_all add: demo_mail_def lost_then_danger_def danger_body_def mailcow_configured_def make_mailcow_def
        rstrip_if_def)
  then show ?thesis by auto
qed

section \<open>The cache of Mailcow reads\<close>

lemma fst_get_deleted: "fst (cache_get (cache_delete c k) k t) = None"
  by (simp add: fst_cache_get cache_delete_def map_of_cache_pop)

lemma cache_get_absent: "map_of c k = None \<Longrightarrow> cache_get c k t = (None, c)"
  by (simp add: cache_get_def)

lemma cache_delete_absent: "map_of c k = None \<Longrightarrow> cache_delete c k = c"
  by (auto simp: cache_delete_def cache_pop_def map_of_eq_None_iff intro!: filter_True)

lemma mail_list_absent:
  assumes "map_of (pw_cache w) key = None"
  shows "mail_list p mc key path f False w = mail_list p mc key path f True w"
  using cache_delete_absent [OF assms]
  by (simp add: mail_list_def act_seq_def act_bind_def act_when_def act_return_def drop_cached_def)

lemma drop_cached_absent:
  assumes "drop_cached ks w = (r, w')" and "k \<in> set ks"
  shows "map_of (pw_cache w') k = None"
proof -
  have "map_of (fold (\<lambda>k c. cache_delete c k) ks c) k = None"
    if "k \<in> set ks \<or> map_of c k = None" for c :: "'a ttl_cache"
    using that
    by (induction ks arbitrary: c) (auto simp: cache_delete_def map_of_cache_pop)
  with assms show ?thesis by (auto simp: drop_cached_def)
qed

lemma mail_write_drops:
  assumes "mail_write p mc path body w = (Inr v, w')" and "k \<in> set CACHE_KEYS"
  shows "map_of (pw_cache w') k = None"
  using assms
  by (auto simp: mail_write_def act_seq_def act_bind_def act_return_def act_raise_def
      split: prod.splits sum.splits option.splits intro: drop_cached_absent)

text \<open>
  Read your writes: after a write that Mailcow accepted, the cached listings of domains,
  mailboxes and aliases answer exactly as a forced refresh would.
\<close>

theorem mail_reads_follow_writes:
  assumes "mail_write p mc path body w = (Inr v, w')"
  shows "mc_list_domains p mc False w' = mc_list_domains p mc True w' \<and>
    list_mailboxes p mc False w' = list_mailboxes p mc True w' \<and>
    list_aliases p mc False w' = list_aliases p mc True w'"
proof -
  have "mail_list p mc k q f False w' = mail_list p mc k q f True w'" if "k \<in> set CACHE_KEYS" for k q f
    by (rule mail_list_absent [OF mail_write_drops [OF assms that]])
  then show ?thesis
    by (simp add: mc_list_domains_def list_mailboxes_def list_aliases_def act_bind_def CACHE_KEYS_def)
qed

end
