(* ===== verification/Coolify.thy ===== *)
theory Coolify
  imports Provider Resources
begin

text \<open>
  The Coolify client (\<^verbatim>\<open>services/coolify.py\<close>): normalisation of applications, deployments,
  databases, services, tasks, storages and servers, deployment logs, and one definition per
  request. Log lines of the server itself are left out.
\<close>

section \<open>Host of an fqdn\<close>

text \<open>\<open>urlparse(url).path\<close>, for the parts of \<^verbatim>\<open>Http.url_netloc\<close>; parameters are cut off the last
  segment for the schemes that have them.\<close>

definition USES_PARAMS :: "string list" where
  "USES_PARAMS = [[], ''ftp'', ''hdl'', ''prospero'', ''http'', ''https'', ''imap'', ''itms'', ''rtsp'', ''rtsps'',
     ''sip'', ''sips'', ''mms'', ''sftp'', ''tel'']"

definition clean_url :: "string \<Rightarrow> string" where
  "clean_url url = filter (\<lambda>c. ord_of c \<notin> set [9, 10, 13]) (dropWhile (\<lambda>c. ord_of c \<le> 32) url)"

definition url_scheme :: "string \<Rightarrow> string" where
  "url_scheme url = (let u = clean_url url in
     if strip_scheme u = u then [] else py_lower (part_before CHR '':'' u))"

definition cut_params :: "string \<Rightarrow> string" where
  "cut_params p =
     (let last_seg = rev (takeWhile (\<lambda>c. c \<noteq> CHR ''/'') (rev p))
      in take (length p - length last_seg) p @ takeWhile (\<lambda>c. c \<noteq> CHR '';'') last_seg)"

definition url_path :: "string \<Rightarrow> string" where
  "url_path url =
     (let u = strip_scheme (clean_url url);
          rest = (if starts_with ''//'' u then dropWhile (\<lambda>c. c \<notin> set ''/?#'') (drop 2 u) else u);
          p = takeWhile (\<lambda>c. c \<notin> set ''?#'') rest
      in if url_scheme url \<in> set USES_PARAMS then cut_params p else p)"

definition domain_from_fqdn :: "json \<Rightarrow> string result" where
  "domain_from_fqdn v =
     (if \<not> truthy v then Inr ''No domain''
      else (case v of
          JStr s \<Rightarrow>
            (let first = strip_if (\<lambda>c. c = CHR 0x22) (py_strip (hd (split_on CHR '','' s)));
                 url = (if contains ''://'' first then first else ''https://'' @ first);
                 net = url_netloc url
             in if (CHR ''['' \<in> set net) \<noteq> (CHR '']'' \<in> set net) then Inl (ValueError ''Invalid IPv6 URL'')
                else Inr (str_or net (str_or (url_path url) ''No domain'')))
        | _ \<Rightarrow> Inl (OtherError ''AttributeError'')))"

section \<open>Objects\<close>

record coolify_app = coolify_object +
  ca_name :: string
  ca_domain :: string
  ca_status :: string
  ca_repository :: string
  ca_environment :: string
  ca_updated :: string
  ca_kind :: string
  ca_branch :: string
  ca_build_pack :: string
  ca_healthcheck :: bool
  ca_environment_id :: int
  ca_project_uuid :: string
  ca_project_name :: string
  ca_description :: string
  ca_fqdn :: string
  ca_install :: string
  ca_build :: string
  ca_start :: string
  ca_base_dir :: string
  ca_publish_dir :: string
  ca_ports_exposes :: string
  ca_ports_mappings :: string
  ca_health_path :: string
  ca_health_port :: string
  ca_health_interval :: int
  ca_health_timeout :: int
  ca_health_retries :: int
  ca_limits_memory :: string
  ca_limits_cpu :: string
  ca_redirect :: string
  ca_image_name :: string
  ca_image_tag :: string
  ca_static_image :: string
  ca_instant :: bool

definition normalize_coolify_resource :: "json \<Rightarrow> coolify_app result" where
  "normalize_coolify_resource v =
     rbind (as_dict v) (\<lambda>raw.
     rbind (domain_from_fqdn (jor [jget raw ''fqdn'', jget raw ''domain''])) (\<lambda>domain.
     rbind (int_of raw [''environment_id'']) (\<lambda>env_id.
     rbind (int_of raw [''health_check_interval'']) (\<lambda>interval.
     rbind (int_of raw [''health_check_timeout'']) (\<lambda>timeout.
     rbind (int_of raw [''health_check_retries'']) (\<lambda>retries.
     Inr \<lparr>co_id = text_of raw [''uuid'', ''id'', ''name''] ''unknown'',
          ca_name = text_of raw [''name'', ''project_name'', ''description''] ''Untitled project'',
          ca_domain = py_strip domain,
          ca_status = text_of raw [''status'', ''state''] ''unknown'',
          ca_repository = text_of raw [''git_repository'', ''repository'', ''git''] ''Manual deploy'',
          ca_environment = text_of raw [''environment_name'', ''environment''] ''Production'',
          ca_updated = text_of raw [''updated_at'', ''created_at''] [],
          ca_kind = text_of raw [''type'', ''kind''] ''application'',
          ca_branch = text_of raw [''git_branch''] [],
          ca_build_pack = text_of raw [''build_pack''] [],
          ca_healthcheck = truthy (jget_or raw ''health_check_enabled'' (JBool False)),
          ca_environment_id = env_id, ca_project_uuid = [], ca_project_name = [],
          ca_description = text_of raw [''description''] [],
          ca_fqdn = text_of raw [''fqdn''] [],
          ca_install = text_of raw [''install_command''] [],
          ca_build = text_of raw [''build_command''] [],
          ca_start = text_of raw [''start_command''] [],
          ca_base_dir = text_of raw [''base_directory''] [],
          ca_publish_dir = text_of raw [''publish_directory''] [],
          ca_ports_exposes = text_of raw [''ports_exposes''] [],
          ca_ports_mappings = text_of raw [''ports_mappings''] [],
          ca_health_path = text_of raw [''health_check_path''] [],
          ca_health_port = text_of raw [''health_check_port''] [],
          ca_health_interval = interval, ca_health_timeout = timeout, ca_health_retries = retries,
          ca_limits_memory = text_of raw [''limits_memory''] [],
          ca_limits_cpu = text_of raw [''limits_cpu''] [],
          ca_redirect = text_of raw [''redirect''] [],
          ca_image_name = text_of raw [''docker_registry_image_name''] [],
          ca_image_tag = text_of raw [''docker_registry_image_tag''] [],
          ca_static_image = text_of raw [''static_image''] [],
          ca_instant = truthy (jget_or raw ''instant_deploy'' (JBool False))\<rparr>))))))"

record coolify_deployment =
  cd_id :: string
  cd_status :: string
  cd_created :: string
  cd_updated :: string
  cd_commit :: string
  cd_branch :: string
  cd_log :: string

definition normalize_coolify_deployment :: "jdict \<Rightarrow> coolify_deployment" where
  "normalize_coolify_deployment raw =
     \<lparr>cd_id = text_of raw [''deployment_uuid'', ''uuid'', ''id''] ''unknown'',
      cd_status = text_of raw [''status'', ''state''] ''unknown'',
      cd_created = text_of raw [''created_at''] [],
      cd_updated = text_of raw [''updated_at'', ''created_at''] [],
      cd_commit = text_of raw [''commit'', ''commit_sha'', ''git_commit_sha''] [],
      cd_branch = text_of raw [''branch'', ''git_branch''] [],
      cd_log = text_of raw [''logs'', ''deployment_log''] []\<rparr>"

record coolify_database = coolify_object +
  cb_name :: string
  cb_type :: string
  cb_status :: string
  cb_url :: string
  cb_port :: string
  cb_image :: string
  cb_created :: string
  cb_description :: string
  cb_memory :: string
  cb_cpu :: string

definition normalize_database :: "jdict \<Rightarrow> coolify_database" where
  "normalize_database raw =
     \<lparr>co_id = text_of raw [''uuid'', ''id''] ''unknown'', cb_name = text_of raw [''name''] ''Unnamed DB'',
      cb_type = text_of raw [''type'', ''database_type''] [], cb_status = text_of raw [''status''] ''unknown'',
      cb_url = text_of raw [''internal_db_url''] [], cb_port = text_of raw [''public_port''] [],
      cb_image = text_of raw [''image''] [], cb_created = text_of raw [''created_at''] [],
      cb_description = text_of raw [''description''] [], cb_memory = text_of raw [''limits_memory''] [],
      cb_cpu = text_of raw [''limits_cpu''] []\<rparr>"

record coolify_service = coolify_object +
  cv_name :: string
  cv_type :: string
  cv_status :: string
  cv_description :: string
  cv_created :: string
  cv_fqdn :: string

definition normalize_service :: "jdict \<Rightarrow> coolify_service" where
  "normalize_service raw =
     \<lparr>co_id = text_of raw [''uuid'', ''id''] ''unknown'', cv_name = text_of raw [''name''] ''Unnamed'',
      cv_type = text_of raw [''type''] [], cv_status = text_of raw [''status''] ''unknown'',
      cv_description = text_of raw [''description''] [], cv_created = text_of raw [''created_at''] [],
      cv_fqdn = text_of raw [''fqdn''] []\<rparr>"

record coolify_task =
  ct_id :: string
  ct_name :: string
  ct_command :: string
  ct_frequency :: string
  ct_status :: string
  ct_raw :: jdict

definition normalize_scheduled_task :: "jdict \<Rightarrow> coolify_task" where
  "normalize_scheduled_task raw =
     \<lparr>ct_id = text_of raw [''uuid'', ''id'', ''name''] ''unknown'',
      ct_name = text_of raw [''name'', ''title''] ''Scheduled Task'',
      ct_command = text_of raw [''command'', ''container_command''] [],
      ct_frequency = text_of raw [''frequency'', ''cron'', ''interval''] [],
      ct_status = text_of raw [''status'', ''state''] [], ct_raw = raw\<rparr>"

record coolify_storage =
  cs_id :: string
  cs_name :: string
  cs_mount :: string
  cs_host :: string
  cs_content :: string
  cs_raw :: jdict

definition normalize_storage :: "jdict \<Rightarrow> coolify_storage" where
  "normalize_storage raw =
     \<lparr>cs_id = text_of raw [''uuid'', ''id'', ''name''] ''unknown'',
      cs_name = text_of raw [''name'', ''mount_path'', ''host_path''] ''Storage'',
      cs_mount = text_of raw [''mount_path'', ''destination''] [],
      cs_host = text_of raw [''host_path'', ''source''] [],
      cs_content = text_of raw [''content''] [], cs_raw = raw\<rparr>"

record coolify_server = coolify_object +
  cr_name :: string
  cr_ip :: string
  cr_user :: string
  cr_description :: string
  cr_reachable :: bool
  cr_usable :: bool

definition server_bool :: "jdict \<Rightarrow> string \<Rightarrow> bool" where
  "server_bool raw k =
     truthy (case jget raw ''settings'' of JObj m \<Rightarrow> jget_or m k (JBool False)
       | _ \<Rightarrow> jget_or raw k (JBool False))"

definition normalize_server :: "jdict \<Rightarrow> coolify_server" where
  "normalize_server raw =
     \<lparr>co_id = text_of raw [''uuid'', ''id''] ''unknown'', cr_name = text_of raw [''name''] ''Unknown'',
      cr_ip = text_of raw [''ip''] [], cr_user = text_of raw [''user''] [],
      cr_description = text_of raw [''description''] [], cr_reachable = server_bool raw ''is_reachable'',
      cr_usable = server_bool raw ''is_usable''\<rparr>"

section \<open>Deployment logs\<close>

record log_line_view =
  ll_output :: string
  ll_type :: string
  ll_timestamp :: string

text \<open>\<open>str.splitlines\<close>; a carriage return and a line feed count as one break.\<close>

definition line_break :: "char \<Rightarrow> bool" where
  "line_break c = (ord_of c \<in> set [10, 11, 12, 13, 28, 29, 30, 133])"

fun splitlines_acc :: "string \<Rightarrow> string \<Rightarrow> string list" where
  "splitlines_acc acc [] = (if acc = [] then [] else [rev acc])"
| "splitlines_acc acc (c # cs) =
     (if \<not> line_break c then splitlines_acc (c # acc) cs
      else (case cs of
          d # ds \<Rightarrow> if ord_of c = 13 \<and> ord_of d = 10 then rev acc # splitlines_acc [] ds
                    else rev acc # splitlines_acc [] cs
        | [] \<Rightarrow> [rev acc]))"

definition py_splitlines :: "string \<Rightarrow> string list" where
  "py_splitlines s = splitlines_acc [] s"

definition plain_line :: "string \<Rightarrow> log_line_view" where
  "plain_line s = \<lparr>ll_output = s, ll_type = ''stdout'', ll_timestamp = []\<rparr>"

definition log_item :: "json \<Rightarrow> log_line_view" where
  "log_item v =
     (case v of
        JObj m \<Rightarrow>
          \<lparr>ll_output = jstr (jget_or m ''output'' (jget_or m ''line'' (jget_or m ''message'' (JStr [])))),
           ll_type = jstr (jget_or m ''type'' (JStr ''stdout'')),
           ll_timestamp = jstr (jget_or m ''timestamp'' (jget_or m ''created_at'' (JStr [])))\<rparr>
      | _ \<Rightarrow> plain_line (jstr v))"

definition parse_deployment_log_lines :: "(string \<Rightarrow> json option) \<Rightarrow> string \<Rightarrow> log_line_view list" where
  "parse_deployment_log_lines parse raw =
     (if raw = [] then []
      else (case parse raw of
          Some (JList items) \<Rightarrow> map log_item items
        | Some (JObj m) \<Rightarrow>
            (case jor [jget m ''logs'', jget m ''data'', jget m ''output''] of
               JList items \<Rightarrow> map log_item items
             | _ \<Rightarrow> [log_item (JObj m)])
        | _ \<Rightarrow> map plain_line (filter (\<lambda>l. py_strip l \<noteq> []) (py_splitlines raw))))"

text \<open>The uuid in a deploy answer, and the answer with the message of its first deployment.\<close>

definition flat_uuid :: "jdict \<Rightarrow> string" where
  "flat_uuid result =
     (let v = jor [jget result ''deployment_uuid'', jget result ''uuid''] in if truthy v then jstr v else [])"

definition extract_deployment_uuid :: "jdict \<Rightarrow> string \<times> jdict" where
  "extract_deployment_uuid result =
     (case jget result ''deployments'' of
        JList (JObj first # _) \<Rightarrow>
          (let uuid = jor [jget first ''deployment_uuid'', jget first ''uuid'', jget first ''id''];
               result' = (if \<not> truthy (jget result ''message'') \<and> truthy (jget first ''message'')
                          then dict_set ''message'' (jget first ''message'') result else result)
           in (if truthy uuid then jstr uuid else flat_uuid result', result'))
      | _ \<Rightarrow> (flat_uuid result, result))"

end
