(* ===== verification/CoolifyClient.thy ===== *)
theory CoolifyClient
  imports Coolify
begin

text \<open>
  The requests of the Coolify client (\<^verbatim>\<open>CoolifyClient\<close> in \<^verbatim>\<open>services/coolify.py\<close>). An unconfigured
  client makes no request: reads give nothing, writes a dict with \<open>ok\<close> false.
\<close>

section \<open>Requests\<close>

record coolify_config =
  cc_base_url :: string
  cc_token :: string
  cc_ttl :: int

definition make_coolify :: "string \<Rightarrow> string \<Rightarrow> int \<Rightarrow> coolify_config" where
  "make_coolify url token ttl =
     \<lparr>cc_base_url = rstrip_if (\<lambda>c. c = CHR ''/'') url, cc_token = token, cc_ttl = ttl\<rparr>"

definition coolify_configured :: "coolify_config \<Rightarrow> bool" where
  "coolify_configured cc = (cc_base_url cc \<noteq> [] \<and> cc_token cc \<noteq> [])"

definition coolify_headers :: "coolify_config \<Rightarrow> (string \<times> string) list" where
  "coolify_headers cc = [(''Authorization'', ''Bearer '' @ cc_token cc), (''Accept'', ''application/json'')]"

definition coolify_rq ::
  "coolify_config \<Rightarrow> string \<Rightarrow> string \<Rightarrow> (string \<times> string) list \<Rightarrow> json option \<Rightarrow> preq" where
  "coolify_rq cc meth path params body =
     \<lparr>pq_service = ''Coolify'', pq_method = meth, pq_url = cc_base_url cc @ ''/api/v1/'' @ path,
      pq_headers = coolify_headers cc, pq_params = params, pq_body = body\<rparr>"

type_synonym env_map = "(int \<times> string \<times> string \<times> string) list"

datatype coolify_cached = CApps "coolify_app list" | CEnvs env_map | CDatabases "coolify_database list"
  | CServices "coolify_service list"

type_synonym 'a cact = "(coolify_cached, 'a) pact"

definition cget :: "provider \<Rightarrow> coolify_config \<Rightarrow> string \<Rightarrow> json cact" where
  "cget p cc path = call_json p (coolify_rq cc ''GET'' path [] None)"

definition or_ok :: "json \<Rightarrow> jdict" where
  "or_ok v = (case v of JObj m \<Rightarrow> m | _ \<Rightarrow> [(''ok'', JBool True)])"

definition or_payload :: "json \<Rightarrow> jdict" where
  "or_payload v = (case v of JObj m \<Rightarrow> m | _ \<Rightarrow> [(''ok'', JBool True), (''payload'', v)])"

definition as_map :: "json \<Rightarrow> jdict" where
  "as_map v = (case v of JObj m \<Rightarrow> m | _ \<Rightarrow> [])"

definition NOT_OK :: jdict where "NOT_OK = [(''ok'', JBool False)]"

definition NOT_CONFIGURED :: jdict where
  "NOT_CONFIGURED = [(''ok'', JBool False), (''message'', JStr ''Coolify is not configured.'')]"

text \<open>A request that answers with a dict and then drops cache keys.\<close>

definition coolify_do ::
  "provider \<Rightarrow> coolify_config \<Rightarrow> jdict \<Rightarrow> preq \<Rightarrow> string list \<Rightarrow> (json \<Rightarrow> jdict) \<Rightarrow> jdict cact" where
  "coolify_do p cc unconfigured rq keys wrap =
     (if \<not> coolify_configured cc then act_return unconfigured
      else act_bind (call_json p rq) (\<lambda>v. act_seq (drop_cached keys) (act_return (wrap v))))"

text \<open>\<open>payload.get("data", payload)\<close> for a dict, else the payload; \<open>payload.get("data", [])\<close>.\<close>

definition data_or_self :: "json \<Rightarrow> json" where
  "data_or_self v = (case v of JObj m \<Rightarrow> jget_or m ''data'' v | _ \<Rightarrow> v)"

definition list_or_data :: "json \<Rightarrow> json" where
  "list_or_data v = (case v of JList _ \<Rightarrow> v | JObj m \<Rightarrow> jget_or m ''data'' (JList []) | _ \<Rightarrow> JList [])"

definition dict_rows :: "(jdict \<Rightarrow> 'a) \<Rightarrow> json \<Rightarrow> 'a list result" where
  "dict_rows f v = map_sum id (map f \<circ> dict_items) (jiter v)"

section \<open>Projects and applications\<close>

definition list_projects :: "provider \<Rightarrow> coolify_config \<Rightarrow> json cact" where
  "list_projects p cc =
     (if \<not> coolify_configured cc then act_return (JList [])
      else act_bind (cget p cc ''projects'')
        (\<lambda>v. case v of JList _ \<Rightarrow> act_return v
             | _ \<Rightarrow> lift (map_sum id (\<lambda>m. jget_or m ''data'' (JList [])) (as_dict v))))"

definition get_project :: "provider \<Rightarrow> coolify_config \<Rightarrow> string \<Rightarrow> jdict cact" where
  "get_project p cc uuid =
     (if \<not> coolify_configured cc \<or> uuid = [] then act_return []
      else act_bind (cget p cc (''projects/'' @ uuid)) (\<lambda>v. act_return (as_map v)))"

fun add_environments :: "string \<Rightarrow> string \<Rightarrow> json list \<Rightarrow> env_map \<Rightarrow> env_map result" where
  "add_environments uuid nm [] m = Inr m"
| "add_environments uuid nm (env # envs) m =
     rbind (as_dict env) (\<lambda>e.
       case jget e ''id'' of
         JNull \<Rightarrow> add_environments uuid nm envs m
       | v \<Rightarrow> rbind (jint v) (\<lambda>i.
           add_environments uuid nm envs ((i, uuid, nm, jstr (jor [jget e ''name'', JStr []])) # m)))"

fun project_environments :: "provider \<Rightarrow> coolify_config \<Rightarrow> json list \<Rightarrow> env_map \<Rightarrow> env_map cact" where
  "project_environments p cc [] m = act_return m"
| "project_environments p cc (pr # prs) m =
     act_bind (lift (as_dict pr)) (\<lambda>raw.
       (let uuid = jstr (jor [jget raw ''uuid'', JStr []]); nm = jstr (jor [jget raw ''name'', JStr ''Project'']) in
        act_bind (get_project p cc uuid) (\<lambda>detail.
        act_bind (lift (rbind (jiter (jor [jget detail ''environments'', JList []]))
                    (\<lambda>envs. add_environments uuid nm envs m)))
          (project_environments p cc prs))))"

definition environment_project_map :: "provider \<Rightarrow> coolify_config \<Rightarrow> bool \<Rightarrow> env_map cact" where
  "environment_project_map p cc refresh =
     (if \<not> coolify_configured cc then act_return []
      else act_seq (act_when refresh (drop_cached [''coolify:env_project_map'']))
        (act_bind (cached p ''coolify:env_project_map'' (cc_ttl cc)
            (act_bind (list_projects p cc) (\<lambda>projects.
             act_bind (lift (jiter projects)) (\<lambda>prs.
             act_bind (project_environments p cc prs []) (\<lambda>m. act_return (CEnvs m))))))
          (\<lambda>v. act_return (case v of CEnvs m \<Rightarrow> m | _ \<Rightarrow> []))))"

definition attach_project :: "env_map \<Rightarrow> coolify_app \<Rightarrow> coolify_app" where
  "attach_project m a =
     (case map_of m (ca_environment_id a) of
        None \<Rightarrow> a
      | Some (uuid, nm, environment) \<Rightarrow>
          a\<lparr>ca_project_uuid := uuid, ca_project_name := nm,
            ca_environment := (if environment = [] then ca_environment a else environment)\<rparr>)"

definition list_applications :: "provider \<Rightarrow> coolify_config \<Rightarrow> bool \<Rightarrow> coolify_app list cact" where
  "list_applications p cc refresh =
     (if \<not> coolify_configured cc then act_return []
      else act_seq (act_when refresh (drop_cached [''coolify:applications'']))
        (act_bind (cached p ''coolify:applications'' (cc_ttl cc)
            (act_bind (cget p cc ''applications'') (\<lambda>v.
             act_bind (lift (rbind (jiter (data_or_self v)) (map_result normalize_coolify_resource))) (\<lambda>apps.
             act_bind (environment_project_map p cc False) (\<lambda>m.
               act_return (CApps (map (attach_project m) apps)))))))
          (\<lambda>v. act_return (case v of CApps xs \<Rightarrow> xs | _ \<Rightarrow> []))))"

definition app_path :: "string \<Rightarrow> string \<Rightarrow> string" where
  "app_path uuid rest = ''applications/'' @ uuid @ rest"

definition get_application :: "provider \<Rightarrow> coolify_config \<Rightarrow> string \<Rightarrow> coolify_app option cact" where
  "get_application p cc uuid =
     (if \<not> coolify_configured cc then act_return None
      else act_bind (cget p cc (app_path uuid []))
        (\<lambda>v. if truthy (jget (as_map v) ''uuid'')
             then lift (map_sum id Some (normalize_coolify_resource v)) else act_return None))"

definition get_application_raw :: "provider \<Rightarrow> coolify_config \<Rightarrow> string \<Rightarrow> jdict cact" where
  "get_application_raw p cc uuid =
     (if \<not> coolify_configured cc then act_return []
      else act_bind (cget p cc (app_path uuid [])) (\<lambda>v. act_return (as_map v)))"

definition update_application :: "provider \<Rightarrow> coolify_config \<Rightarrow> string \<Rightarrow> jdict \<Rightarrow> jdict cact" where
  "update_application p cc uuid body =
     coolify_do p cc NOT_CONFIGURED (coolify_rq cc ''PATCH'' (app_path uuid []) [] (Some (JObj body)))
       [''coolify:applications''] or_ok"

definition delete_application :: "provider \<Rightarrow> coolify_config \<Rightarrow> string \<Rightarrow> jdict cact" where
  "delete_application p cc uuid =
     coolify_do p cc NOT_CONFIGURED (coolify_rq cc ''DELETE'' (app_path uuid []) [] None)
       [''coolify:applications''] or_ok"

definition deploy_result :: "json \<Rightarrow> jdict" where
  "deploy_result v =
     (let m = or_payload v; m1 = (if has_key ''ok'' m then m else m @ [(''ok'', JBool True)]);
          (uuid, m2) = extract_deployment_uuid m1
      in if uuid = [] then m2 else dict_set ''deployment_id'' (JStr uuid) m2)"

definition deploy_application :: "provider \<Rightarrow> coolify_config \<Rightarrow> string \<Rightarrow> bool \<Rightarrow> string \<Rightarrow> jdict cact" where
  "deploy_application p cc uuid force tag =
     coolify_do p cc NOT_CONFIGURED
       (coolify_rq cc ''GET'' ''deploy'' ([(''uuid'', uuid), (''force'', if force then ''true'' else ''false'')] @
          (if tag = [] then [] else [(''tag'', tag)])) None)
       [''coolify:applications''] deploy_result"

definition app_action :: "provider \<Rightarrow> coolify_config \<Rightarrow> string \<Rightarrow> string \<Rightarrow> jdict cact" where
  "app_action p cc uuid verb =
     coolify_do p cc NOT_CONFIGURED (coolify_rq cc ''GET'' (app_path uuid verb) [] None)
       [''coolify:applications''] or_payload"

definition start_application where "start_application p cc uuid = app_action p cc uuid ''/start''"
definition restart_application where "restart_application p cc uuid = app_action p cc uuid ''/restart''"
definition stop_application where "stop_application p cc uuid = app_action p cc uuid ''/stop''"

section \<open>Logs, commands, variables\<close>

definition log_text :: "json \<Rightarrow> string result" where
  "log_text line = rbind (as_dict line) (\<lambda>m.
     Inr (jstr (jget_or m ''output'' (jget_or m ''line'' (JStr (jstr line))))))"

definition get_application_logs :: "provider \<Rightarrow> coolify_config \<Rightarrow> string \<Rightarrow> int \<Rightarrow> json cact" where
  "get_application_logs p cc uuid lines =
     (if \<not> coolify_configured cc then act_return (JStr [])
      else or_else
        (act_bind (call_json p (coolify_rq cc ''GET'' (app_path uuid ''/logs'') [(''lines'', int_str lines)] None))
          (\<lambda>v. case v of
              JList xs \<Rightarrow> lift (map_sum id (JStr \<circ> join [CHR 0x0A]) (map_result log_text xs))
            | JObj m \<Rightarrow> act_return (jget_or m ''logs'' (jget_or m ''output'' (JStr (jstr v))))
            | _ \<Rightarrow> act_return (JStr (jstr v))))
        (JStr ''Logs unavailable for this application.''))"

definition execute_command :: "provider \<Rightarrow> coolify_config \<Rightarrow> string \<Rightarrow> string \<Rightarrow> string cact" where
  "execute_command p cc uuid cmd =
     (if \<not> coolify_configured cc then act_return ''Coolify is not configured.''
      else act_catch
        (act_bind (call_json p (coolify_rq cc ''POST'' (app_path uuid ''/execute'') []
             (Some (JObj [(''command'', JStr cmd)]))))
          (\<lambda>v. case v of
              JObj m \<Rightarrow> act_return (jstr (jget_or m ''output'' (jget_or m ''result'' (JStr (jstr v)))))
            | _ \<Rightarrow> act_return (jstr v)))
        (\<lambda>e. act_return (''Command execution failed: '' @ exn_text e)))"

definition get_application_envs :: "provider \<Rightarrow> coolify_config \<Rightarrow> string \<Rightarrow> json cact" where
  "get_application_envs p cc uuid =
     (if \<not> coolify_configured cc then act_return (JList [])
      else or_else (act_bind (cget p cc (app_path uuid ''/envs'')) (\<lambda>v. act_return (list_or_data v))) (JList []))"

definition env_body :: "string \<Rightarrow> string \<Rightarrow> bool \<Rightarrow> bool \<Rightarrow> json" where
  "env_body key val is_preview is_build_time =
     JObj [(''key'', JStr key), (''value'', JStr val), (''is_preview'', JBool is_preview),
       (''is_build_time'', JBool is_build_time)]"

definition create_env :: "provider \<Rightarrow> coolify_config \<Rightarrow> string \<Rightarrow> string \<Rightarrow> string \<Rightarrow> bool \<Rightarrow> bool \<Rightarrow> jdict cact" where
  "create_env p cc uuid key val is_preview is_build_time =
     coolify_do p cc NOT_OK (coolify_rq cc ''POST'' (app_path uuid ''/envs'') []
       (Some (env_body key val is_preview is_build_time))) [] or_ok"

definition update_env :: "provider \<Rightarrow> coolify_config \<Rightarrow> string \<Rightarrow> string \<Rightarrow> string \<Rightarrow> bool \<Rightarrow> bool \<Rightarrow> jdict cact" where
  "update_env p cc uuid key val is_preview is_build_time =
     coolify_do p cc NOT_OK (coolify_rq cc ''PATCH'' (app_path uuid ''/envs'') []
       (Some (env_body key val is_preview is_build_time))) [] or_ok"

definition coolify_delete_env :: "provider \<Rightarrow> coolify_config \<Rightarrow> string \<Rightarrow> string \<Rightarrow> jdict cact" where
  "coolify_delete_env p cc uuid env_uuid =
     coolify_do p cc NOT_OK (coolify_rq cc ''DELETE'' (app_path uuid (''/envs/'' @ env_uuid)) [] None) [] or_ok"

section \<open>Scheduled tasks and storages\<close>

definition list_scheduled_tasks :: "provider \<Rightarrow> coolify_config \<Rightarrow> string \<Rightarrow> coolify_task list cact" where
  "list_scheduled_tasks p cc uuid =
     (if \<not> coolify_configured cc then act_return []
      else act_bind (cget p cc (app_path uuid ''/scheduled-tasks''))
        (\<lambda>v. lift (dict_rows normalize_scheduled_task (data_or_self v))))"

definition create_scheduled_task :: "provider \<Rightarrow> coolify_config \<Rightarrow> string \<Rightarrow> jdict \<Rightarrow> jdict cact" where
  "create_scheduled_task p cc uuid body =
     coolify_do p cc NOT_OK (coolify_rq cc ''POST'' (app_path uuid ''/scheduled-tasks'') [] (Some (JObj body))) [] or_ok"

definition task_path :: "string \<Rightarrow> string \<Rightarrow> string \<Rightarrow> string" where
  "task_path uuid task rest = app_path uuid (''/scheduled-tasks/'' @ task @ rest)"

definition update_scheduled_task :: "provider \<Rightarrow> coolify_config \<Rightarrow> string \<Rightarrow> string \<Rightarrow> jdict \<Rightarrow> jdict cact" where
  "update_scheduled_task p cc uuid task body =
     coolify_do p cc NOT_OK (coolify_rq cc ''PATCH'' (task_path uuid task []) [] (Some (JObj body))) [] or_ok"

definition delete_scheduled_task :: "provider \<Rightarrow> coolify_config \<Rightarrow> string \<Rightarrow> string \<Rightarrow> jdict cact" where
  "delete_scheduled_task p cc uuid task =
     coolify_do p cc NOT_OK (coolify_rq cc ''DELETE'' (task_path uuid task []) [] None) [] or_ok"

definition list_scheduled_task_executions :: "provider \<Rightarrow> coolify_config \<Rightarrow> string \<Rightarrow> string \<Rightarrow> json cact" where
  "list_scheduled_task_executions p cc uuid task =
     (if \<not> coolify_configured cc then act_return (JList [])
      else act_bind (cget p cc (task_path uuid task ''/executions'')) (\<lambda>v. act_return (list_or_data v)))"

definition list_storages :: "provider \<Rightarrow> coolify_config \<Rightarrow> string \<Rightarrow> coolify_storage list cact" where
  "list_storages p cc uuid =
     (if \<not> coolify_configured cc then act_return []
      else act_bind (cget p cc (app_path uuid ''/storages''))
        (\<lambda>v. lift (dict_rows normalize_storage (data_or_self v))))"

definition create_storage :: "provider \<Rightarrow> coolify_config \<Rightarrow> string \<Rightarrow> jdict \<Rightarrow> jdict cact" where
  "create_storage p cc uuid body =
     coolify_do p cc NOT_OK (coolify_rq cc ''POST'' (app_path uuid ''/storages'') [] (Some (JObj body))) [] or_ok"

definition update_storage :: "provider \<Rightarrow> coolify_config \<Rightarrow> string \<Rightarrow> jdict \<Rightarrow> jdict cact" where
  "update_storage p cc uuid body =
     coolify_do p cc NOT_OK (coolify_rq cc ''PATCH'' (app_path uuid ''/storages'') [] (Some (JObj body))) [] or_ok"

definition delete_storage :: "provider \<Rightarrow> coolify_config \<Rightarrow> string \<Rightarrow> string \<Rightarrow> jdict cact" where
  "delete_storage p cc uuid storage =
     coolify_do p cc NOT_OK (coolify_rq cc ''DELETE'' (app_path uuid (''/storages/'' @ storage)) [] None) [] or_ok"

section \<open>Deployments\<close>

definition cancel_deployment :: "provider \<Rightarrow> coolify_config \<Rightarrow> string \<Rightarrow> jdict cact" where
  "cancel_deployment p cc deployment =
     coolify_do p cc NOT_CONFIGURED (coolify_rq cc ''GET'' (''deployments/'' @ deployment @ ''/cancel'') [] None) []
       or_payload"

definition coolify_get_deployment :: "provider \<Rightarrow> coolify_config \<Rightarrow> string \<Rightarrow> coolify_deployment option cact" where
  "coolify_get_deployment p cc deployment =
     (if \<not> coolify_configured cc then act_return None
      else or_else (act_bind (cget p cc (''deployments/'' @ deployment))
        (\<lambda>v. act_return (case v of JObj m \<Rightarrow> Some (normalize_coolify_deployment m) | _ \<Rightarrow> None))) None)"

definition deployment_items :: "json list \<Rightarrow> coolify_deployment list" where
  "deployment_items xs = concat (map (\<lambda>v. case v of
       JStr s \<Rightarrow> [\<lparr>cd_id = py_strip s, cd_status = ''unknown'', cd_created = [], cd_updated = [], cd_commit = [],
                  cd_branch = [], cd_log = []\<rparr>]
     | JObj m \<Rightarrow> [normalize_coolify_deployment m]
     | _ \<Rightarrow> []) xs)"

definition list_deployments_for_application ::
  "provider \<Rightarrow> coolify_config \<Rightarrow> string \<Rightarrow> coolify_deployment list cact" where
  "list_deployments_for_application p cc uuid =
     (if \<not> coolify_configured cc then act_return []
      else act_bind (cget p cc (''deployments/applications/'' @ uuid))
        (\<lambda>v. lift (map_sum id deployment_items (jiter (case v of
             JObj m \<Rightarrow> jor [jget m ''deployments'', jget m ''data'', JList []]
           | _ \<Rightarrow> jor [v, JList []])))))"

section \<open>Databases\<close>

definition DB_TYPE_ALLOWLIST :: "string list" where
  "DB_TYPE_ALLOWLIST = [''postgresql'', ''mysql'', ''mariadb'', ''mongodb'', ''redis'', ''keydb'', ''dragonfly'',
     ''clickhouse'']"

definition list_databases :: "provider \<Rightarrow> coolify_config \<Rightarrow> bool \<Rightarrow> coolify_database list cact" where
  "list_databases p cc refresh =
     (if \<not> coolify_configured cc then act_return []
      else act_seq (act_when refresh (drop_cached [''coolify:databases'']))
        (act_bind (cached p ''coolify:databases'' (cc_ttl cc)
            (act_bind (cget p cc ''databases'')
              (\<lambda>v. lift (map_sum id CDatabases (dict_rows normalize_database (data_or_self v))))))
          (\<lambda>v. act_return (case v of CDatabases xs \<Rightarrow> xs | _ \<Rightarrow> []))))"

definition get_database :: "provider \<Rightarrow> coolify_config \<Rightarrow> string \<Rightarrow> coolify_database option cact" where
  "get_database p cc uuid =
     (if \<not> coolify_configured cc then act_return None
      else act_bind (cget p cc (''databases/'' @ uuid))
        (\<lambda>v. act_return (if truthy (jget (as_map v) ''uuid'') then Some (normalize_database (as_map v)) else None)))"

definition database_action :: "provider \<Rightarrow> coolify_config \<Rightarrow> string \<Rightarrow> string \<Rightarrow> jdict cact" where
  "database_action p cc uuid verb =
     coolify_do p cc NOT_OK (coolify_rq cc ''GET'' (''databases/'' @ uuid @ verb) [] None) [''coolify:databases''] or_ok"

definition start_database where "start_database p cc uuid = database_action p cc uuid ''/start''"
definition stop_database where "stop_database p cc uuid = database_action p cc uuid ''/stop''"
definition restart_database where "restart_database p cc uuid = database_action p cc uuid ''/restart''"

definition provision_database ::
  "provider \<Rightarrow> coolify_config \<Rightarrow> string \<Rightarrow> string \<Rightarrow> string \<Rightarrow> string \<Rightarrow> string \<Rightarrow> jdict cact" where
  "provision_database p cc db_type server project environment nm =
     (if db_type \<notin> set DB_TYPE_ALLOWLIST then act_raise (ValueError (''Unsupported database type: '' @ db_type))
      else coolify_do p cc NOT_CONFIGURED (coolify_rq cc ''POST'' (''databases/'' @ db_type) []
             (Some (JObj [(''server_uuid'', JStr server), (''project_uuid'', JStr project),
                (''environment_name'', JStr environment), (''name'', JStr nm)])))
             [''coolify:databases''] or_payload)"

definition list_database_backups :: "provider \<Rightarrow> coolify_config \<Rightarrow> string \<Rightarrow> json cact" where
  "list_database_backups p cc uuid =
     (if \<not> coolify_configured cc then act_return (JList [])
      else act_bind (cget p cc (''databases/'' @ uuid @ ''/backups'')) (\<lambda>v. act_return (list_or_data v)))"

definition create_database_backup :: "provider \<Rightarrow> coolify_config \<Rightarrow> string \<Rightarrow> jdict \<Rightarrow> jdict cact" where
  "create_database_backup p cc uuid config =
     coolify_do p cc NOT_CONFIGURED (coolify_rq cc ''POST'' (''databases/'' @ uuid @ ''/backups'') []
       (Some (JObj config))) [] or_ok"

section \<open>Services and servers\<close>

definition list_services :: "provider \<Rightarrow> coolify_config \<Rightarrow> bool \<Rightarrow> coolify_service list cact" where
  "list_services p cc refresh =
     (if \<not> coolify_configured cc then act_return []
      else act_seq (act_when refresh (drop_cached [''coolify:services'']))
        (act_bind (cached p ''coolify:services'' (cc_ttl cc)
            (act_bind (cget p cc ''services'')
              (\<lambda>v. lift (map_sum id CServices (dict_rows normalize_service (data_or_self v))))))
          (\<lambda>v. act_return (case v of CServices xs \<Rightarrow> xs | _ \<Rightarrow> []))))"

definition service_action :: "provider \<Rightarrow> coolify_config \<Rightarrow> string \<Rightarrow> string \<Rightarrow> jdict cact" where
  "service_action p cc uuid verb =
     coolify_do p cc NOT_OK (coolify_rq cc ''GET'' (''services/'' @ uuid @ verb) [] None) [''coolify:services''] or_ok"

definition start_service where "start_service p cc uuid = service_action p cc uuid ''/start''"
definition stop_service where "stop_service p cc uuid = service_action p cc uuid ''/stop''"
definition restart_service where "restart_service p cc uuid = service_action p cc uuid ''/restart''"

definition list_servers :: "provider \<Rightarrow> coolify_config \<Rightarrow> coolify_server list cact" where
  "list_servers p cc =
     (if \<not> coolify_configured cc then act_return []
      else act_bind (cget p cc ''servers'') (\<lambda>v. lift (dict_rows normalize_server (list_or_data v))))"

definition server_read :: "provider \<Rightarrow> coolify_config \<Rightarrow> string \<Rightarrow> string \<Rightarrow> json cact" where
  "server_read p cc uuid what =
     (if \<not> coolify_configured cc then act_return (JList [])
      else act_bind (cget p cc (''servers/'' @ uuid @ what)) (\<lambda>v. act_return (list_or_data v)))"

definition get_server_resources where "get_server_resources p cc uuid = server_read p cc uuid ''/resources''"
definition get_server_domains where "get_server_domains p cc uuid = server_read p cc uuid ''/domains''"

definition validate_server :: "provider \<Rightarrow> coolify_config \<Rightarrow> string \<Rightarrow> jdict cact" where
  "validate_server p cc uuid =
     coolify_do p cc NOT_OK (coolify_rq cc ''GET'' (''servers/'' @ uuid @ ''/validate'') [] None) [] or_ok"

end
