(* ===== verification/Sites.thy ===== *)
theory Sites
  imports CoolifyClient Resources
begin

text \<open>
  The tenant-scoped services over the Coolify client: applications
  (\<^verbatim>\<open>modules/projects/service.py\<close>), managed databases (\<^verbatim>\<open>modules/databases/service.py\<close>) and
  servers (\<^verbatim>\<open>modules/servers/service.py\<close>). The state is the database and the client's world.
\<close>

section \<open>State and guards\<close>

record site_world =
  sw_db :: db
  sw_coolify :: "coolify_cached pworld"

type_synonym 'a stask = "(site_world, 'a) sx"

record site_service =
  ss_actions :: bool
  ss_client :: coolify_config
  ss_provider :: provider

definition via_coolify :: "'a cact \<Rightarrow> 'a stask" where
  "via_coolify m w = (case m (sw_coolify w) of (r, pw) \<Rightarrow> (r, w\<lparr>sw_coolify := pw\<rparr>))"

definition site_read :: "(db \<Rightarrow> 'a result) \<Rightarrow> 'a stask" where
  "site_read f w = (f (sw_db w), w)"

definition site_add :: "tenant_resource \<Rightarrow> unit stask" where
  "site_add row w = (Inr (), w\<lparr>sw_db := (sw_db w)\<lparr>db_resources := db_resources (sw_db w) @ [row]\<rparr>\<rparr>)"

definition site_accessible :: "db \<Rightarrow> string option \<Rightarrow> string \<Rightarrow> bool" where
  "site_accessible d tid app = is_resource_accessible d tid PROVIDER_COOLIFY RESOURCE_TYPE_SITE app"

definition ensure_site_access :: "string option \<Rightarrow> string \<Rightarrow> unit stask" where
  "ensure_site_access tid app =
     site_read (\<lambda>d. if site_accessible d tid app then Inr ()
       else Inl (ProviderAPIError ''Coolify'' ''Application is not assigned to this tenant.'' (Some 403)))"

definition database_accessible :: "db \<Rightarrow> string option \<Rightarrow> string \<Rightarrow> bool" where
  "database_accessible d tid uuid = is_resource_accessible d tid PROVIDER_COOLIFY RESOURCE_TYPE_DATABASE uuid"

definition ensure_database_access :: "string option \<Rightarrow> string \<Rightarrow> unit stask" where
  "ensure_database_access tid uuid =
     site_read (\<lambda>d. if database_accessible d tid uuid then Inr ()
       else Inl (ProviderAPIError ''Coolify'' ''Database is not assigned to this tenant.'' (Some 403)))"

definition site_require_actions :: "site_service \<Rightarrow> unit stask" where
  "site_require_actions sv = lift (if ss_actions sv then Inr ()
     else Inl (ProviderAPIError ''Coolify''
       ''Provider actions are disabled (ENABLE_PROVIDER_ACTIONS=false).'' (Some 403)))"

section \<open>Applications\<close>

definition list_sites_for_tenant :: "site_service \<Rightarrow> string option \<Rightarrow> bool \<Rightarrow> coolify_app list stask" where
  "list_sites_for_tenant sv tid refresh =
     act_bind (via_coolify (list_applications (ss_provider sv) (ss_client sv) refresh))
       (\<lambda>sites. site_read (\<lambda>d. Inr (filter_sites d tid sites)))"

text \<open>Every other operation checks the application and then calls the client.\<close>

definition for_site :: "string option \<Rightarrow> string \<Rightarrow> 'a cact \<Rightarrow> 'a stask" where
  "for_site tid app m = act_seq (ensure_site_access tid app) (via_coolify m)"

definition deploy_for_tenant where
  "deploy_for_tenant sv tid app force tag =
     for_site tid app (deploy_application (ss_provider sv) (ss_client sv) app force tag)"

definition start_for_tenant where
  "start_for_tenant sv tid app = for_site tid app (start_application (ss_provider sv) (ss_client sv) app)"

definition restart_for_tenant where
  "restart_for_tenant sv tid app = for_site tid app (restart_application (ss_provider sv) (ss_client sv) app)"

definition stop_for_tenant where
  "stop_for_tenant sv tid app = for_site tid app (stop_application (ss_provider sv) (ss_client sv) app)"

definition get_site_for_tenant where
  "get_site_for_tenant sv tid app = for_site tid app (get_application (ss_provider sv) (ss_client sv) app)"

definition get_site_raw_for_tenant where
  "get_site_raw_for_tenant sv tid app = for_site tid app (get_application_raw (ss_provider sv) (ss_client sv) app)"

definition update_site_for_tenant where
  "update_site_for_tenant sv tid app body =
     for_site tid app (update_application (ss_provider sv) (ss_client sv) app body)"

definition delete_site_for_tenant where
  "delete_site_for_tenant sv tid app = for_site tid app (delete_application (ss_provider sv) (ss_client sv) app)"

definition get_logs_for_tenant where
  "get_logs_for_tenant sv tid app lines =
     for_site tid app (get_application_logs (ss_provider sv) (ss_client sv) app lines)"

definition execute_command_for_tenant where
  "execute_command_for_tenant sv tid app cmd =
     for_site tid app (execute_command (ss_provider sv) (ss_client sv) app cmd)"

definition get_envs_for_tenant where
  "get_envs_for_tenant sv tid app = for_site tid app (get_application_envs (ss_provider sv) (ss_client sv) app)"

definition create_env_for_tenant where
  "create_env_for_tenant sv tid app key val is_preview is_build_time =
     for_site tid app (create_env (ss_provider sv) (ss_client sv) app key val is_preview is_build_time)"

definition update_env_for_tenant where
  "update_env_for_tenant sv tid app key val is_preview is_build_time =
     for_site tid app (update_env (ss_provider sv) (ss_client sv) app key val is_preview is_build_time)"

definition delete_env_for_tenant where
  "delete_env_for_tenant sv tid app env_uuid =
     for_site tid app (coolify_delete_env (ss_provider sv) (ss_client sv) app env_uuid)"

definition list_deployments_for_tenant where
  "list_deployments_for_tenant sv tid app =
     for_site tid app (list_deployments_for_application (ss_provider sv) (ss_client sv) app)"

definition site_deployment_for_tenant where
  "site_deployment_for_tenant sv tid app deployment_uuid =
     for_site tid app (coolify_get_deployment (ss_provider sv) (ss_client sv) deployment_uuid)"

definition cancel_deployment_for_tenant where
  "cancel_deployment_for_tenant sv tid app deployment_uuid =
     for_site tid app (cancel_deployment (ss_provider sv) (ss_client sv) deployment_uuid)"

definition list_scheduled_tasks_for_tenant where
  "list_scheduled_tasks_for_tenant sv tid app =
     for_site tid app (list_scheduled_tasks (ss_provider sv) (ss_client sv) app)"

definition create_scheduled_task_for_tenant where
  "create_scheduled_task_for_tenant sv tid app body =
     for_site tid app (create_scheduled_task (ss_provider sv) (ss_client sv) app body)"

definition update_scheduled_task_for_tenant where
  "update_scheduled_task_for_tenant sv tid app task body =
     for_site tid app (update_scheduled_task (ss_provider sv) (ss_client sv) app task body)"

definition delete_scheduled_task_for_tenant where
  "delete_scheduled_task_for_tenant sv tid app task =
     for_site tid app (delete_scheduled_task (ss_provider sv) (ss_client sv) app task)"

definition list_scheduled_task_executions_for_tenant where
  "list_scheduled_task_executions_for_tenant sv tid app task =
     for_site tid app (list_scheduled_task_executions (ss_provider sv) (ss_client sv) app task)"

definition list_storages_for_tenant where
  "list_storages_for_tenant sv tid app = for_site tid app (list_storages (ss_provider sv) (ss_client sv) app)"

definition create_storage_for_tenant where
  "create_storage_for_tenant sv tid app body =
     for_site tid app (create_storage (ss_provider sv) (ss_client sv) app body)"

definition update_storage_for_tenant where
  "update_storage_for_tenant sv tid app body =
     for_site tid app (update_storage (ss_provider sv) (ss_client sv) app body)"

definition delete_storage_for_tenant where
  "delete_storage_for_tenant sv tid app storage =
     for_site tid app (delete_storage (ss_provider sv) (ss_client sv) app storage)"

section \<open>Servers\<close>

definition list_servers_for_tenant :: "site_service \<Rightarrow> string option \<Rightarrow> coolify_server list stask" where
  "list_servers_for_tenant sv tid =
     act_bind (via_coolify (list_servers (ss_provider sv) (ss_client sv)))
       (\<lambda>servers. site_read (\<lambda>d. Inr (filter_servers d tid servers)))"

section \<open>Databases\<close>

definition list_databases_for_tenant :: "site_service \<Rightarrow> string option \<Rightarrow> bool \<Rightarrow> coolify_database list stask" where
  "list_databases_for_tenant sv tid refresh =
     act_bind (via_coolify (list_databases (ss_provider sv) (ss_client sv) refresh))
       (\<lambda>dbs. site_read (\<lambda>d. Inr (filter_databases d tid dbs)))"

text \<open>The pickers of the provisioning form; only a ProviderAPIError leaves one of them empty.\<close>

definition on_api_error :: "'a stask \<Rightarrow> 'a \<Rightarrow> 'a stask" where
  "on_api_error m x = act_catch m (\<lambda>e. case e of ProviderAPIError s t c \<Rightarrow> act_return x | _ \<Rightarrow> act_raise e)"

definition project_target :: "json \<Rightarrow> (string \<times> string) list result" where
  "project_target v = map_sum id (\<lambda>m.
     let uuid = jstr (jor [jget m ''uuid'', jget m ''id'', JStr []]) in
     if uuid = [] then [] else [(uuid, jstr (jor [jget m ''name'', JStr uuid]))]) (as_dict v)"

definition list_targets :: "site_service \<Rightarrow> ((string \<times> string) list \<times> (string \<times> string) list) stask" where
  "list_targets sv =
     act_bind (on_api_error
         (act_bind (via_coolify (list_servers (ss_provider sv) (ss_client sv)))
           (\<lambda>servers. act_return (map (\<lambda>s. (co_id s, cr_name s)) (filter cr_usable servers)))) [])
      (\<lambda>servers. act_bind (on_api_error
         (act_bind (via_coolify (list_projects (ss_provider sv) (ss_client sv)))
           (\<lambda>v. lift (map_sum id concat (rbind (jiter v) (map_result project_target))))) [])
      (\<lambda>projects. act_return (servers, projects)))"

definition database_resource :: "string \<Rightarrow> string \<Rightarrow> string \<Rightarrow> tenant_resource" where
  "database_resource tid uuid nm =
     \<lparr>rs_tenant = tid, rs_provider = PROVIDER_COOLIFY, rs_type = RESOURCE_TYPE_DATABASE, rs_ext = uuid,
      rs_display = nm, rs_cpu = None, rs_mem = None, rs_disk = None\<rparr>"

definition database_uuid :: "jdict \<Rightarrow> string" where
  "database_uuid m = jstr (jor [jget m ''uuid'', jget m ''id'', JStr []])"

definition unsupported_type :: "string \<Rightarrow> exn" where
  "unsupported_type ty = ValueError (''Unsupported db_type '' @ [CHR 0x27] @ ty @ [CHR 0x27] @ ''. Supported types: '' @
     join '', '' [''clickhouse'', ''dragonfly'', ''keydb'', ''mariadb'', ''mongodb'', ''mysql'', ''postgresql'', ''redis''])"

definition provision_guard :: "string option \<Rightarrow> site_service \<Rightarrow> string \<Rightarrow> unit stask" where
  "provision_guard tid sv db_type =
     act_seq (lift (if or_empty tid = [] then Inl (ProviderAPIError ''Coolify''
          ''Cannot provision a database without a tenant.'' (Some 400)) else Inr ()))
    (act_seq (site_require_actions sv)
      (lift (if db_type \<in> set DB_TYPE_ALLOWLIST then Inr () else Inl (unsupported_type db_type))))"

definition provision_for_tenant ::
  "site_service \<Rightarrow> string option \<Rightarrow> string \<Rightarrow> string \<Rightarrow> string \<Rightarrow> string \<Rightarrow> string \<Rightarrow> jdict stask" where
  "provision_for_tenant sv tid db_type nm server project environment =
     act_seq (provision_guard tid sv db_type)
    (act_bind (via_coolify (provision_database (ss_provider sv) (ss_client sv) db_type server project environment nm))
      (\<lambda>res. if database_uuid res = [] then act_raise (ProviderAPIError ''Coolify''
               ''Provision succeeded but Coolify returned no database UUID.'' (Some 502))
             else act_seq (site_add (database_resource (or_empty tid) (database_uuid res) nm))
               (act_return (if has_key ''ok'' res then res else res @ [(''ok'', JBool True)]))))"

definition backups_for_tenant :: "site_service \<Rightarrow> string option \<Rightarrow> string \<Rightarrow> json stask" where
  "backups_for_tenant sv tid uuid =
     act_seq (ensure_database_access tid uuid)
       (via_coolify (list_database_backups (ss_provider sv) (ss_client sv) uuid))"

definition create_backup_for_tenant :: "site_service \<Rightarrow> string option \<Rightarrow> string \<Rightarrow> jdict \<Rightarrow> jdict stask" where
  "create_backup_for_tenant sv tid uuid config =
     act_seq (site_require_actions sv)
    (act_seq (ensure_database_access tid uuid)
       (via_coolify (create_database_backup (ss_provider sv) (ss_client sv) uuid config)))"

end
