(* ===== verification/SiteSafety.thy ===== *)
theory SiteSafety
  imports Sites
begin

text \<open>
  What the services over Coolify guarantee: a request goes out only for an application of the
  tenant and names that application, and a database is recorded for its tenant exactly when
  Coolify gave it an id. The deployments of an application are the exception: their ids are
  passed on unchecked.
\<close>

section \<open>The operations on one application\<close>

datatype site_op =
    SDeploy bool string | SStart | SRestart | SStop
  | SGet | SGetRaw | SUpdate jdict | SDelete
  | SLogs int | SExec string
  | SEnvs | SCreateEnv string string bool bool | SUpdateEnv string string bool bool | SDeleteEnv string
  | SDeployments | SGetDeployment string | SCancelDeployment string
  | STasks | SCreateTask jdict | SUpdateTask string jdict | SDeleteTask string | STaskRuns string
  | SStorages | SCreateStorage jdict | SUpdateStorage jdict | SDeleteStorage string

fun site_step :: "site_service \<Rightarrow> string option \<Rightarrow> string \<Rightarrow> site_op \<Rightarrow> unit stask" where
  "site_step sv tid app (SDeploy force tag) = ignore (deploy_for_tenant sv tid app force tag)"
| "site_step sv tid app SStart = ignore (start_for_tenant sv tid app)"
| "site_step sv tid app SRestart = ignore (restart_for_tenant sv tid app)"
| "site_step sv tid app SStop = ignore (stop_for_tenant sv tid app)"
| "site_step sv tid app SGet = ignore (get_site_for_tenant sv tid app)"
| "site_step sv tid app SGetRaw = ignore (get_site_raw_for_tenant sv tid app)"
| "site_step sv tid app (SUpdate body) = ignore (update_site_for_tenant sv tid app body)"
| "site_step sv tid app SDelete = ignore (delete_site_for_tenant sv tid app)"
| "site_step sv tid app (SLogs n) = ignore (get_logs_for_tenant sv tid app n)"
| "site_step sv tid app (SExec cmd) = ignore (execute_command_for_tenant sv tid app cmd)"
| "site_step sv tid app SEnvs = ignore (get_envs_for_tenant sv tid app)"
| "site_step sv tid app (SCreateEnv k v a b) = ignore (create_env_for_tenant sv tid app k v a b)"
| "site_step sv tid app (SUpdateEnv k v a b) = ignore (update_env_for_tenant sv tid app k v a b)"
| "site_step sv tid app (SDeleteEnv u) = ignore (delete_env_for_tenant sv tid app u)"
| "site_step sv tid app SDeployments = ignore (list_deployments_for_tenant sv tid app)"
| "site_step sv tid app (SGetDeployment u) = ignore (site_deployment_for_tenant sv tid app u)"
| "site_step sv tid app (SCancelDeployment u) = ignore (cancel_deployment_for_tenant sv tid app u)"
| "site_step sv tid app STasks = ignore (list_scheduled_tasks_for_tenant sv tid app)"
| "site_step sv tid app (SCreateTask body) = ignore (create_scheduled_task_for_tenant sv tid app body)"
| "site_step sv tid app (SUpdateTask t body) = ignore (update_scheduled_task_for_tenant sv tid app t body)"
| "site_step sv tid app (SDeleteTask t) = ignore (delete_scheduled_task_for_tenant sv tid app t)"
| "site_step sv tid app (STaskRuns t) = ignore (list_scheduled_task_executions_for_tenant sv tid app t)"
| "site_step sv tid app SStorages = ignore (list_storages_for_tenant sv tid app)"
| "site_step sv tid app (SCreateStorage body) = ignore (create_storage_for_tenant sv tid app body)"
| "site_step sv tid app (SUpdateStorage body) = ignore (update_storage_for_tenant sv tid app body)"
| "site_step sv tid app (SDeleteStorage u) = ignore (delete_storage_for_tenant sv tid app u)"

lemmas site_op_defs = deploy_for_tenant_def start_for_tenant_def restart_for_tenant_def stop_for_tenant_def
  get_site_for_tenant_def get_site_raw_for_tenant_def update_site_for_tenant_def delete_site_for_tenant_def
  get_logs_for_tenant_def execute_command_for_tenant_def get_envs_for_tenant_def create_env_for_tenant_def
  update_env_for_tenant_def delete_env_for_tenant_def list_deployments_for_tenant_def
  site_deployment_for_tenant_def cancel_deployment_for_tenant_def list_scheduled_tasks_for_tenant_def
  create_scheduled_task_for_tenant_def update_scheduled_task_for_tenant_def
  delete_scheduled_task_for_tenant_def list_scheduled_task_executions_for_tenant_def
  list_storages_for_tenant_def create_storage_for_tenant_def update_storage_for_tenant_def
  delete_storage_for_tenant_def

section \<open>The application a request names\<close>

definition coolify_url :: "coolify_config \<Rightarrow> string \<Rightarrow> string" where
  "coolify_url cc path = cc_base_url cc @ ''/api/v1/'' @ path"

definition under_app :: "coolify_config \<Rightarrow> string \<Rightarrow> preq \<Rightarrow> bool" where
  "under_app cc app rq \<longleftrightarrow>
     (\<exists>rest. (rest = [] \<or> hd rest = CHR ''/'') \<and> pq_url rq = coolify_url cc (''applications/'' @ app @ rest)) \<or>
     pq_url rq = coolify_url cc ''deploy'' \<and> map_of (pq_params rq) ''uuid'' = Some app \<or>
     pq_url rq = coolify_url cc (''deployments/applications/'' @ app)"

fun op_target :: "coolify_config \<Rightarrow> string \<Rightarrow> site_op \<Rightarrow> preq \<Rightarrow> bool" where
  "op_target cc app (SGetDeployment u) rq = (pq_url rq = coolify_url cc (''deployments/'' @ u))"
| "op_target cc app (SCancelDeployment u) rq = (pq_url rq = coolify_url cc (''deployments/'' @ u @ ''/cancel''))"
| "op_target cc app op rq = under_app cc app rq"

lemma app_target:
  assumes "\<forall>u. op \<noteq> SGetDeployment u \<and> op \<noteq> SCancelDeployment u"
  shows "op_target cc app op = under_app cc app"
  using assms by (cases op) (auto simp: fun_eq_iff)

lemma pq_coolify [simp]: "pq_url (coolify_rq cc meth path params body) = coolify_url cc path"
    "pq_params (coolify_rq cc meth path params body) = params"
    "pq_method (coolify_rq cc meth path params body) = meth"
  by (simp_all add: coolify_rq_def coolify_url_def)

lemma under_app_path [simp]:
  assumes "rest = [] \<or> hd rest = CHR ''/''"
  shows "under_app cc app (coolify_rq cc meth (app_path app rest) params body)"
  using assms by (auto simp: under_app_def app_path_def intro: exI [of _ rest])

lemma under_task_path [simp]: "under_app cc app (coolify_rq cc meth (task_path app task rest) params body)"
  by (simp add: task_path_def)

lemma under_deploy [simp]:
  "under_app cc app (coolify_rq cc meth ''deploy'' ((''uuid'', app) # params) body)"
  by (simp add: under_app_def)

lemma adds_coolify_do [adds]: "P rq \<Longrightarrow> adds pw_sent P (coolify_do p cc unconf rq keys wrap)"
  by (simp add: coolify_do_def adds)

lemma adds_cget [adds]: "P (coolify_rq cc ''GET'' path [] None) \<Longrightarrow> adds pw_sent P (cget p cc path)"
  by (simp add: cget_def adds)

text \<open>Each operation sends requests for its target only.\<close>

lemma app_ops_send [adds]:
  fixes p :: provider
  shows "adds pw_sent (under_app cc app) (deploy_application p cc app force tag)"
    and "adds pw_sent (under_app cc app) (start_application p cc app)"
    and "adds pw_sent (under_app cc app) (restart_application p cc app)"
    and "adds pw_sent (under_app cc app) (stop_application p cc app)"
    and "adds pw_sent (under_app cc app) (update_application p cc app body)"
    and "adds pw_sent (under_app cc app) (delete_application p cc app)"
    and "adds pw_sent (under_app cc app) (create_env p cc app k v a b)"
    and "adds pw_sent (under_app cc app) (update_env p cc app k v a b)"
    and "adds pw_sent (under_app cc app) (coolify_delete_env p cc app u)"
    and "adds pw_sent (under_app cc app) (create_scheduled_task p cc app body)"
    and "adds pw_sent (under_app cc app) (update_scheduled_task p cc app t body)"
    and "adds pw_sent (under_app cc app) (delete_scheduled_task p cc app t)"
    and "adds pw_sent (under_app cc app) (create_storage p cc app body)"
    and "adds pw_sent (under_app cc app) (update_storage p cc app body)"
    and "adds pw_sent (under_app cc app) (delete_storage p cc app u)"
  by (simp_all add: deploy_application_def start_application_def restart_application_def stop_application_def
      app_action_def update_application_def delete_application_def create_env_def update_env_def
      coolify_delete_env_def create_scheduled_task_def update_scheduled_task_def delete_scheduled_task_def
      create_storage_def update_storage_def delete_storage_def adds)

lemma app_reads_send [adds]:
  fixes p :: provider
  shows "adds pw_sent (under_app cc app) (get_application p cc app)"
    and "adds pw_sent (under_app cc app) (get_application_raw p cc app)"
    and "adds pw_sent (under_app cc app) (get_application_logs p cc app n)"
    and "adds pw_sent (under_app cc app) (execute_command p cc app cmd)"
    and "adds pw_sent (under_app cc app) (get_application_envs p cc app)"
    and "adds pw_sent (under_app cc app) (list_scheduled_tasks p cc app)"
    and "adds pw_sent (under_app cc app) (list_scheduled_task_executions p cc app t)"
    and "adds pw_sent (under_app cc app) (list_storages p cc app)"
  by (auto simp: get_application_def get_application_raw_def get_application_logs_def execute_command_def
      get_application_envs_def list_scheduled_tasks_def list_scheduled_task_executions_def list_storages_def intro!: adds split: json.split)

lemma deployments_send [adds]: "adds pw_sent (under_app cc app) (list_deployments_for_application p cc app)"
  by (auto simp: list_deployments_for_application_def under_app_def intro!: adds)

lemma deployment_ops_send [adds]:
  fixes p :: provider
  shows "adds pw_sent (op_target cc app (SGetDeployment u)) (coolify_get_deployment p cc u)"
    and "adds pw_sent (op_target cc app (SCancelDeployment u)) (cancel_deployment p cc u)"
  by (auto simp: coolify_get_deployment_def cancel_deployment_def intro!: adds)

section \<open>The guard\<close>

abbreviation site_sent :: "site_world \<Rightarrow> preq list" where
  "site_sent w \<equiv> pw_sent (sw_coolify w)"

text \<open>What an operation leaves behind: nothing out of scope, its own requests in scope.\<close>

definition site_effect :: "(preq \<Rightarrow> bool) \<Rightarrow> bool \<Rightarrow> site_world \<Rightarrow> 'a result \<Rightarrow> site_world \<Rightarrow> bool" where
  "site_effect P permitted w r w' \<longleftrightarrow>
     (if permitted then sw_db w' = sw_db w \<and> (\<exists>new. site_sent w' = site_sent w @ new \<and> list_all P new)
      else isl r \<and> w' = w)"

lemma for_site_effect:
  assumes "adds pw_sent P m" and "for_site tid app m w = (r, w')"
  shows "site_effect P (site_accessible (sw_db w) tid app) w r w'"
proof -
  obtain q pw where q: "m (sw_coolify w) = (q, pw)" by force
  from addsD [OF assms(1) q] assms(2) q show ?thesis
    by (auto simp: site_effect_def for_site_def ensure_site_access_def site_read_def via_coolify_def
        act_seq_def act_bind_def split: if_splits)
qed

lemma ignore_site_effect:
  assumes "adds pw_sent P m" and "ignore (for_site tid app m) w = (r, w')"
  shows "site_effect P (site_accessible (sw_db w) tid app) w r w'"
proof -
  obtain q where q: "for_site tid app m w = (q, w')" using ignore_run [OF assms(2)] by blast
  from for_site_effect [OF assms(1) q] q assms(2) show ?thesis
    by (cases q) (auto simp: site_effect_def ignore_def act_bind_def)
qed

section \<open>Properties\<close>

text \<open>
  Every request of an operation on an application names that application, and an application
  of another tenant gets none: the operation fails and nothing changes.
\<close>

theorem requests_name_own_application:
  assumes "site_step sv tid app op w = (r, w')"
  shows "site_effect (op_target (ss_client sv) app op) (site_accessible (sw_db w) tid app) w r w'"
  using assms
  by (cases op) (auto simp: site_op_defs app_target intro: ignore_site_effect adds)

definition demo_site_db :: db where
  "demo_site_db = empty_db\<lparr>
     db_resources := [\<lparr>rs_tenant = ''t1'', rs_provider = PROVIDER_COOLIFY, rs_type = RESOURCE_TYPE_SITE,
        rs_ext = ''a1'', rs_display = ''One'', rs_cpu = None, rs_mem = None, rs_disk = None\<rparr>]\<rparr>"

definition demo_site_world :: site_world where
  "demo_site_world = \<lparr>sw_db = demo_site_db, sw_coolify = \<lparr>pw_sent = [], pw_cache = []\<rparr>\<rparr>"

text \<open>A Coolify that answers every request with the same JSON.\<close>

definition demo_site :: "json \<Rightarrow> site_service" where
  "demo_site v = \<lparr>ss_actions = True, ss_client = make_coolify ''https://c/'' ''k'' 60,
     ss_provider = \<lparr>pd_attempt = (\<lambda>_ _. Answer \<lparr>hr_status = 200, hr_text = ''{}'', hr_retry_after = None\<rparr>),
        pd_parse = (\<lambda>_. Some v), pd_clock = (\<lambda>h. int (length h))\<rparr>\<rparr>"

lemma requests_name_own_application_witness:
  "(let w' = snd (site_step (demo_site JNull) (Some ''t1'') ''a1'' SStop demo_site_world) in
     map pq_url (site_sent w') = [''https://c/api/v1/applications/a1/stop'']) \<and>
   site_step (demo_site JNull) (Some ''t2'') ''a1'' SStop demo_site_world =
     (Inl (ProviderAPIError ''Coolify'' ''Application is not assigned to this tenant.'' (Some 403)), demo_site_world) \<and>
   site_effect (op_target (ss_client (demo_site JNull)) ''a1'' SStop) True demo_site_world
     (fst (site_step (demo_site JNull) (Some ''t1'') ''a1'' SStop demo_site_world))
     (snd (site_step (demo_site JNull) (Some ''t1'') ''a1'' SStop demo_site_world))"
proof (intro conjI)
  let ?q = "site_step (demo_site JNull) (Some ''t1'') ''a1'' SStop demo_site_world"
  have "site_accessible (sw_db demo_site_world) (Some ''t1'') ''a1''" by code_simp
  with requests_name_own_application [of "demo_site JNull" "Some ''t1''" "''a1''" SStop demo_site_world "fst ?q" "snd ?q"]
  show "site_effect (op_target (ss_client (demo_site JNull)) ''a1'' SStop) True demo_site_world (fst ?q) (snd ?q)"
    by simp
  show "let w' = snd ?q in map pq_url (site_sent w') = [''https://c/api/v1/applications/a1/stop'']" by code_simp
  have "\<not> site_accessible (sw_db demo_site_world) (Some ''t2'') ''a1''" by code_simp
  then show "site_step (demo_site JNull) (Some ''t2'') ''a1'' SStop demo_site_world =
      (Inl (ProviderAPIError ''Coolify'' ''Application is not assigned to this tenant.'' (Some 403)), demo_site_world)"
    by (simp add: stop_for_tenant_def for_site_def ensure_site_access_def ignore_def act_seq_def act_bind_def site_read_def)
qed

lemma for_site_pass:
  "site_accessible (sw_db w) tid app \<Longrightarrow> for_site tid app m w = via_coolify m w"
  by (simp add: for_site_def ensure_site_access_def act_seq_def act_bind_def site_read_def)

lemma call_json_sent: "pw_sent (snd (call_json p rq w)) = pw_sent w @ [rq]"
  by (simp add: call_json_def Let_def)

lemma coolify_do_sent:
  "coolify_configured cc \<Longrightarrow> pw_sent (snd (coolify_do p cc u rq keys wrap w)) = pw_sent w @ [rq]"
  by (simp add: coolify_do_def act_bind_def act_seq_def drop_cached_def act_return_def call_json_def Let_def
      split: sum.splits)

text \<open>
  C40. The id of a deployment is not checked: whoever has one application cancels, and reads the
  log of, any deployment of the Coolify instance.
\<close>

theorem deployment_ids_are_unchecked:
  assumes "site_accessible (sw_db w) tid own" and "coolify_configured (ss_client sv)"
  shows "site_sent (snd (cancel_deployment_for_tenant sv tid own other w)) =
      site_sent w @ [coolify_rq (ss_client sv) ''GET'' (''deployments/'' @ other @ ''/cancel'') [] None] \<and>
    (pd_answer (ss_provider sv) (site_sent w @ [coolify_rq (ss_client sv) ''GET'' (''deployments/'' @ other) [] None]) = Inr (JObj m) \<longrightarrow>
      fst (site_deployment_for_tenant sv tid own other w) = Inr (Some (normalize_coolify_deployment m)))"
proof
  have "site_sent (snd (via_coolify m w)) = pw_sent (snd (m (sw_coolify w)))" for m :: "jdict cact"
    by (simp add: via_coolify_def split: prod.splits)
  then show "site_sent (snd (cancel_deployment_for_tenant sv tid own other w)) =
      site_sent w @ [coolify_rq (ss_client sv) ''GET'' (''deployments/'' @ other @ ''/cancel'') [] None]"
    by (simp add: cancel_deployment_for_tenant_def cancel_deployment_def for_site_pass [OF assms(1)]
        coolify_do_sent [OF assms(2)])
  show "pd_answer (ss_provider sv) (site_sent w @ [coolify_rq (ss_client sv) ''GET'' (''deployments/'' @ other) [] None]) = Inr (JObj m) \<longrightarrow>
      fst (site_deployment_for_tenant sv tid own other w) = Inr (Some (normalize_coolify_deployment m))"
    using assms(2)
    by (simp add: site_deployment_for_tenant_def for_site_pass [OF assms(1)] via_coolify_def coolify_get_deployment_def
        or_else_def act_catch_def act_bind_def act_return_def cget_def call_json_def Let_def)
qed

lemma deployment_ids_are_unchecked_witness:
  "map pq_url (site_sent (snd (cancel_deployment_for_tenant (demo_site JNull) (Some ''t1'') ''a1'' ''dep-of-t2'' demo_site_world))) =
     [''https://c/api/v1/deployments/dep-of-t2/cancel'']"
proof -
  have "site_accessible (sw_db demo_site_world) (Some ''t1'') ''a1''" "coolify_configured (ss_client (demo_site JNull))"
    by code_simp+
  then have "site_sent (snd (cancel_deployment_for_tenant (demo_site JNull) (Some ''t1'') ''a1'' ''dep-of-t2'' demo_site_world)) =
      site_sent demo_site_world @ [coolify_rq (ss_client (demo_site JNull)) ''GET'' (''deployments/'' @ ''dep-of-t2'' @ ''/cancel'') [] None]"
    using deployment_ids_are_unchecked by blast
  then show ?thesis
    by (simp add: demo_site_world_def coolify_url_def demo_site_def make_coolify_def rstrip_if_def)
qed

section \<open>Provisioned databases\<close>

lemma provision_guard_run:
  assumes "provision_guard tid sv ty w = (r, w')"
  shows "w' = w \<and> (r = Inr () \<longleftrightarrow> or_empty tid \<noteq> [] \<and> ss_actions sv \<and> ty \<in> set DB_TYPE_ALLOWLIST)"
  using assms
  by (auto simp: provision_guard_def site_require_actions_def act_seq_def act_bind_def lift_def split: if_splits)

lemma provision_database_run:
  assumes "provision_database p cc ty server project environment nm w = (r, w')"
  shows "\<exists>new. pw_sent w' = pw_sent w @ new \<and> length new \<le> 1"
proof (cases "ty \<in> set DB_TYPE_ALLOWLIST \<and> coolify_configured cc")
  case True
  from assms have "w' = snd (provision_database p cc ty server project environment nm w)" by simp
  then have "length (pw_sent w') = length (pw_sent w) + 1 \<and> take (length (pw_sent w)) (pw_sent w') = pw_sent w"
    using True by (simp add: provision_database_def coolify_do_sent)
  then show ?thesis by (intro exI [of _ "drop (length (pw_sent w)) (pw_sent w')"]) (metis append_take_drop_id diff_add_inverse le_refl length_drop)
next
  case False
  with assms have "w' = w"
    by (auto simp: provision_database_def coolify_do_def act_raise_def act_return_def split: if_splits)
  then show ?thesis by (intro exI [of _ "[]"]) simp
qed

lemma database_uuid_ok [simp]: "database_uuid (m @ [(''ok'', v)]) = database_uuid m"
  by (auto simp: database_uuid_def jget_def jget_or_def map_add_def split: option.splits)

text \<open>
  A database is recorded for the tenant exactly when provisioning returns, under the id Coolify
  gave, and the tenant can then reach it; when provisioning raises, no row is written. Either
  way at most one request goes out, and only for a tenant with actions enabled and a supported type.
\<close>

theorem provisioned_database_is_registered:
  assumes "provision_for_tenant sv tid ty nm server project environment w = (r, w')"
  shows "(case r of
      Inl e \<Rightarrow> sw_db w' = sw_db w
    | Inr m \<Rightarrow> sw_db w' = (sw_db w)\<lparr>db_resources := db_resources (sw_db w) @
          [database_resource (or_empty tid) (database_uuid m) nm]\<rparr> \<and>
        database_uuid m \<noteq> [] \<and> database_accessible (sw_db w') tid (database_uuid m)) \<and>
    (\<exists>new. site_sent w' = site_sent w @ new \<and> length new \<le> 1 \<and>
      (new \<noteq> [] \<longrightarrow> or_empty tid \<noteq> [] \<and> ss_actions sv \<and> ty \<in> set DB_TYPE_ALLOWLIST))"
proof -
  let ?p = "provision_database (ss_provider sv) (ss_client sv) ty server project environment nm"
  obtain g w1 where g: "provision_guard tid sv ty w = (g, w1)" by force
  note guard = provision_guard_run [OF g]
  show ?thesis
  proof (cases g)
    case (Inl e)
    with assms g guard show ?thesis
      by (auto simp: provision_for_tenant_def act_seq_def act_bind_def intro!: exI [of _ "[]"])
  next
    case (Inr u)
    with guard have w1: "w1 = w" and ok: "or_empty tid \<noteq> []" "ss_actions sv" "ty \<in> set DB_TYPE_ALLOWLIST" by auto
    obtain q pw where q: "?p (sw_coolify w) = (q, pw)" by force
    note sent = provision_database_run [OF q]
    show ?thesis
      using assms g w1 Inr q sent ok
      by (auto simp: provision_for_tenant_def act_seq_def act_bind_def via_coolify_def act_raise_def site_add_def
          act_return_def database_accessible_def is_resource_accessible_def mapped_values_iff database_resource_def
          split: sum.splits if_splits)
  qed
qed

lemma provisioned_database_is_registered_witness:
  "database_accessible (sw_db (snd (provision_for_tenant (demo_site (JObj [(''uuid'', JStr ''d1'')])) (Some ''t1'')
     ''redis'' ''cache'' ''s'' ''p'' ''production'' demo_site_world))) (Some ''t1'') ''d1''"
proof -
  let ?q = "provision_for_tenant (demo_site (JObj [(''uuid'', JStr ''d1'')])) (Some ''t1'')
     ''redis'' ''cache'' ''s'' ''p'' ''production'' demo_site_world"
  have res: "fst ?q = Inr [(''uuid'', JStr ''d1''), (''ok'', JBool True)]" by code_simp
  have "database_uuid [(''uuid'', JStr ''d1''), (''ok'', JBool True)] = ''d1''" by code_simp
  moreover have "provision_for_tenant (demo_site (JObj [(''uuid'', JStr ''d1'')])) (Some ''t1'')
     ''redis'' ''cache'' ''s'' ''p'' ''production'' demo_site_world = (fst ?q, snd ?q)" by simp
  note prov = provisioned_database_is_registered [OF this, unfolded res sum.case]
  have "database_accessible (sw_db (snd ?q)) (Some ''t1'')
     (database_uuid [(''uuid'', JStr ''d1''), (''ok'', JBool True)])"
    by (rule prov [THEN conjunct1, THEN conjunct2, THEN conjunct2])
  ultimately show ?thesis by simp
qed

end
