(* ===== verification/Admission.thy ===== *)
theory Admission
  imports Login Team Effects
begin

text \<open>
  Who gets in: the guards of the API (\<^verbatim>\<open>get_current_api_admin\<close>, \<^verbatim>\<open>require_platform_admin\<close>,
  \<^verbatim>\<open>require_tenant_owner\<close> in \<^verbatim>\<open>api/routes.py\<close>), its sign-in and sign-up routes, and the
  administration of tenants by platform staff, in the API and in the panel
  (\<^verbatim>\<open>modules/admin/routes.py\<close>). The state is the database, the audit log and the rate limiter;
  the signed session token (itsdangerous) is a parameter, which gives the payload of a token
  with a good signature that has not expired.
\<close>

section \<open>State and session\<close>

record audit_event =
  au_actor :: string
  au_action :: string
  au_target :: string
  au_details :: string
  au_created :: int

record api_world =
  aw_db :: db
  aw_audit :: "audit_event list"
  aw_limiter :: limiter

type_synonym 'a atask = "(api_world, 'a) sx"

record api_settings =
  as_rate_per_minute :: int
  as_signup_rate :: int
  as_max_pending :: int
  as_max_pending_ip :: int

text \<open>A request: method, Authorization header, client address, the clocks (s and monotonic ns).\<close>

record api_call =
  ac_method :: string
  ac_auth :: "string option"
  ac_client :: "string option"
  ac_now :: int
  ac_tick :: int

definition api_read :: "(db \<Rightarrow> 'a result) \<Rightarrow> 'a atask" where
  "api_read f w = (f (aw_db w), w)"

definition api_db :: "(db \<Rightarrow> ('a \<times> db) result) \<Rightarrow> 'a atask" where
  "api_db f w = (case f (aw_db w) of Inl e \<Rightarrow> (Inl e, w) | Inr (x, d) \<Rightarrow> (Inr x, w\<lparr>aw_db := d\<rparr>))"

definition api_check :: "string \<Rightarrow> int \<Rightarrow> int \<Rightarrow> int \<Rightarrow> rate_decision atask" where
  "api_check key limit window tick w =
     (case rate_check (aw_limiter w) key limit window tick of (r, l) \<Rightarrow> (r, w\<lparr>aw_limiter := l\<rparr>))"

definition add_audit :: "string \<Rightarrow> string \<Rightarrow> string \<Rightarrow> int \<Rightarrow> unit atask" where
  "add_audit actor action target now w = (Inr (), w\<lparr>aw_audit := aw_audit w @
     [\<lparr>au_actor = actor, au_action = action, au_target = target, au_details = [], au_created = now\<rparr>]\<rparr>)"

definition refuse :: "int \<Rightarrow> string \<Rightarrow> 'a atask" where
  "refuse code msg = act_raise (HTTPException code msg)"

text \<open>The session of a request commits when the handler returns and rolls back when it raises.\<close>

definition session_scope :: "'a atask \<Rightarrow> 'a atask" where
  "session_scope m w =
     (case m w of
        (Inl e, w') \<Rightarrow> (Inl e, w'\<lparr>aw_db := aw_db w, aw_audit := aw_audit w\<rparr>)
      | (Inr x, w') \<Rightarrow> (Inr x, w'))"

section \<open>Guards\<close>

definition enforce_api_token_rate_limit :: "api_settings \<Rightarrow> string \<Rightarrow> int \<Rightarrow> unit atask" where
  "enforce_api_token_rate_limit cfg token_id tick =
     (if as_rate_per_minute cfg \<le> 0 then act_return ()
      else act_bind (api_check (''apitoken:'' @ token_id) (as_rate_per_minute cfg) 60 tick)
        (\<lambda>r. if rd_allowed r then act_return () else refuse 429 ''API rate limit exceeded - slow down.''))"

type_synonym unsign = "string \<Rightarrow> int \<Rightarrow> (string \<times> string) list option"

definition bearer_admin :: "api_settings \<Rightarrow> unsign \<Rightarrow> (string \<Rightarrow> string) \<Rightarrow> api_call \<Rightarrow> string \<Rightarrow> string option atask" where
  "bearer_admin cfg unsign sha call token =
     (if looks_like_personal_token token then
        act_bind (api_db (\<lambda>d. Inr (authenticate_token sha d token (ac_now call))))
          (\<lambda>t. case t of
              None \<Rightarrow> act_return None
            | Some tok \<Rightarrow>
                act_seq (enforce_api_token_rate_limit cfg (tk_id tok) (ac_tick call))
                  (if tk_scope tok = ''read'' \<and> ac_method call \<notin> set [''GET'', ''HEAD'', ''OPTIONS'']
                   then refuse 403 ''This API token is read-only.''
                   else act_return (Some (tk_admin tok))))
      else act_return (case unsign token (ac_now call) of None \<Rightarrow> None | Some m \<Rightarrow> map_of m ''admin_user_id''))"

definition admin_tenant :: "db \<Rightarrow> admin_user \<Rightarrow> tenant option" where
  "admin_tenant d a = get_tenant d (ad_tenant a)"

definition tenant_active :: "db \<Rightarrow> admin_user \<Rightarrow> bool" where
  "tenant_active d a = (case admin_tenant d a of None \<Rightarrow> False | Some t \<Rightarrow> tn_status t = TENANT_ACTIVE)"

definition session_admin :: "string \<Rightarrow> string \<Rightarrow> admin_user atask" where
  "session_admin method i =
     (if i = [] then refuse 401 ''Invalid session token.''
      else api_read (\<lambda>d. case get_admin_by_id d i of
             None \<Rightarrow> Inl (HTTPException 401 ''Admin session is no longer valid.'')
           | Some a \<Rightarrow>
               if \<not> ad_active a then Inl (HTTPException 401 ''Admin session is no longer valid.'')
               else if ad_role a \<noteq> ROLE_PLATFORM_ADMIN \<and> unsafe_method method \<and> \<not> tenant_active d a
                 then Inl (HTTPException 403 ''Tenant is not active.'')
               else Inr a))"

definition get_current_api_admin ::
  "api_settings \<Rightarrow> unsign \<Rightarrow> (string \<Rightarrow> string) \<Rightarrow> api_call \<Rightarrow> admin_user atask" where
  "get_current_api_admin cfg unsign sha call =
     (if \<not> starts_with ''Bearer '' (or_empty (ac_auth call)) then refuse 401 ''Authentication required.''
      else act_bind (bearer_admin cfg unsign sha call (py_strip (drop 7 (or_empty (ac_auth call)))))
        (\<lambda>i. session_admin (ac_method call) (or_empty i)))"

definition api_platform_admin ::
  "api_settings \<Rightarrow> unsign \<Rightarrow> (string \<Rightarrow> string) \<Rightarrow> api_call \<Rightarrow> admin_user atask" where
  "api_platform_admin cfg unsign sha call =
     act_bind (get_current_api_admin cfg unsign sha call)
       (\<lambda>a. if ad_role a = ROLE_PLATFORM_ADMIN then act_return a else refuse 403 ''Platform admin only.'')"

definition require_tenant_owner ::
  "api_settings \<Rightarrow> unsign \<Rightarrow> (string \<Rightarrow> string) \<Rightarrow> api_call \<Rightarrow> admin_user atask" where
  "require_tenant_owner cfg unsign sha call =
     act_bind (get_current_api_admin cfg unsign sha call)
       (\<lambda>a. if ad_role a \<in> set [ROLE_OWNER, ROLE_PLATFORM_ADMIN] then act_return a
            else refuse 403 ''Only the tenant owner can manage the team.'')"

section \<open>Sign-in and sign-up\<close>

record admin_summary =
  sm_id :: string
  sm_email :: string
  sm_name :: string
  sm_active :: bool
  sm_tenant :: string
  sm_tenant_slug :: string
  sm_tenant_name :: string
  sm_role :: string
  sm_tenant_status :: string

definition status_text :: "tenant_status \<Rightarrow> string" where
  "status_text s = (case s of TENANT_PENDING \<Rightarrow> ''pending'' | TENANT_ACTIVE \<Rightarrow> ''active''
     | TENANT_SUSPENDED \<Rightarrow> ''suspended'' | TENANT_REJECTED \<Rightarrow> ''rejected'')"

definition admin_summary_of :: "db \<Rightarrow> admin_user \<Rightarrow> admin_summary" where
  "admin_summary_of d a =
     (let col = (\<lambda>f. case admin_tenant d a of None \<Rightarrow> [] | Some t \<Rightarrow> f t) in
      \<lparr>sm_id = ad_id a, sm_email = ad_email a, sm_name = ad_name a, sm_active = ad_active a,
       sm_tenant = ad_tenant a, sm_tenant_slug = col tn_slug, sm_tenant_name = col tn_name,
       sm_role = ad_role a, sm_tenant_status = col (\<lambda>t. status_text (tn_status t))\<rparr>)"

definition token_payload :: "db \<Rightarrow> admin_user \<Rightarrow> (string \<times> string) list" where
  "token_payload d a =
     [(''admin_user_id'', ad_id a), (''email'', ad_email a), (''name'', ad_name a), (''tenant_id'', ad_tenant a),
      (''tenant_slug'', case admin_tenant d a of None \<Rightarrow> [] | Some t \<Rightarrow> tn_slug t)]"

text \<open>\<open>sign\<close> is the serializer's \<open>dumps\<close>.\<close>

type_synonym sign = "(string \<times> string) list \<Rightarrow> string"

definition auth_response :: "sign \<Rightarrow> db \<Rightarrow> admin_user \<Rightarrow> string \<times> admin_summary" where
  "auth_response sign d a = (sign (token_payload d a), admin_summary_of d a)"

definition api_login ::
  "sign \<Rightarrow> (string \<Rightarrow> string \<Rightarrow> bool) \<Rightarrow> (nat list \<Rightarrow> nat list \<Rightarrow> nat list) \<Rightarrow> (string \<Rightarrow> string) \<Rightarrow> api_call \<Rightarrow>
   string \<Rightarrow> string \<Rightarrow> string \<Rightarrow> (string \<times> admin_summary) atask" where
  "api_login sign verify_pw hmac sha call email pw code =
     session_scope (act_bind (api_read (\<lambda>d. Inr (authenticate verify_pw d email pw)))
       (\<lambda>r. case r of
           None \<Rightarrow> refuse 401 ''Invalid credentials.''
         | Some a \<Rightarrow>
             act_seq (if \<not> ad_totp_enabled a then act_return ()
                      else if code = [] then refuse 401 ''2fa_required''
                      else act_bind (api_db (\<lambda>d. verify_totp_login hmac sha d a code (ac_now call)))
                        (\<lambda>ok. if ok then act_return () else refuse 401 ''Invalid two-factor code.''))
            (act_seq (api_db (\<lambda>d. Inr ((), touch_last_login d a (ac_now call))))
               (api_read (\<lambda>d. Inr (auth_response sign d a))))))"

definition pending_count :: "db \<Rightarrow> nat" where
  "pending_count d = length (filter (\<lambda>t. tn_status t = TENANT_PENDING) (db_tenants d))"

definition pending_from :: "db \<Rightarrow> string \<Rightarrow> nat" where
  "pending_from d ip =
     length (filter (\<lambda>t. tn_status t = TENANT_PENDING \<and> tn_signup_ip t = Some ip) (db_tenants d))"

definition client_host :: "api_call \<Rightarrow> string" where
  "client_host call = (case ac_client call of None \<Rightarrow> ''unknown'' | Some h \<Rightarrow> h)"

definition no_account :: "string \<times> admin_summary" where
  "no_account = ([], \<lparr>sm_id = [], sm_email = [], sm_name = [], sm_active = False, sm_tenant = [],
     sm_tenant_slug = [], sm_tenant_name = [], sm_role = [], sm_tenant_status = []\<rparr>)"

text \<open>The new row ids and the e-mails other sessions commit meanwhile are arguments.\<close>

record signup_request =
  sr_email :: string
  sr_password :: string
  sr_org :: string
  sr_tenant_id :: string
  sr_admin_id :: string
  sr_racing :: "string list"

definition signup_row :: "(string \<Rightarrow> string) \<Rightarrow> api_call \<Rightarrow> signup_request \<Rightarrow> admin_user option atask" where
  "signup_row hash_pw call rq =
     act_catch (api_db (\<lambda>d. signup hash_pw d (sr_racing rq) (sr_tenant_id rq) (sr_admin_id rq) (ac_now call)
         (sr_email rq) (sr_password rq) (sr_org rq) (Some (client_host call))))
       (\<lambda>e. case e of ValueError m \<Rightarrow> refuse 422 m | _ \<Rightarrow> act_raise e)"

definition api_signup ::
  "api_settings \<Rightarrow> sign \<Rightarrow> (string \<Rightarrow> string) \<Rightarrow> api_call \<Rightarrow> signup_request \<Rightarrow> (string \<times> admin_summary) atask" where
  "api_signup cfg sign hash_pw call rq =
     session_scope
      (act_bind (api_check (''signup:'' @ client_host call) (as_signup_rate cfg) 3600 (ac_tick call))
        (\<lambda>r. if \<not> rd_allowed r then
               refuse 429 (''Too many signup attempts. Try again in '' @ int_str (rd_retry_after r) @ ''s.'')
             else
               act_seq (api_read (\<lambda>d.
                   if as_max_pending cfg \<le> int (pending_count d) \<or>
                      as_max_pending_ip cfg \<le> int (pending_from d (client_host call))
                   then Inl (HTTPException 429 ''Signup is temporarily unavailable. Please try again later.'')
                   else Inr ()))
              (act_bind (signup_row hash_pw call rq)
                (\<lambda>a. case a of
                    None \<Rightarrow> act_return no_account
                  | Some x \<Rightarrow> api_read (\<lambda>d. Inr (auth_response sign d x))))))"

section \<open>Tenant administration\<close>

record tenant_summary =
  tsm_id :: string
  tsm_name :: string
  tsm_slug :: string
  tsm_active :: bool
  tsm_status :: string
  tsm_plan :: string

definition tenant_summary_of :: "tenant \<Rightarrow> string \<Rightarrow> tenant_summary" where
  "tenant_summary_of t plan_key =
     \<lparr>tsm_id = tn_id t, tsm_name = tn_name t, tsm_slug = tn_slug t, tsm_active = tenant_is_active t,
      tsm_status = status_text (tn_status t), tsm_plan = plan_key\<rparr>"

definition resolve_plan_key :: "db \<Rightarrow> string option \<Rightarrow> string" where
  "resolve_plan_key d pid =
     (if or_empty pid = [] then []
      else (case get_plan d (or_empty pid) of None \<Rightarrow> [] | Some p \<Rightarrow> pl_key p))"

definition set_status :: "string \<Rightarrow> tenant_status \<Rightarrow> db \<Rightarrow> db" where
  "set_status i s d = d\<lparr>db_tenants := upd_where (\<lambda>t. tn_id t = i) (\<lambda>t. t\<lparr>tn_status := s\<rparr>) (db_tenants d)\<rparr>"

definition tenant_or_404 :: "string \<Rightarrow> tenant atask" where
  "tenant_or_404 slug = api_read (\<lambda>d. case get_tenant_by_slug d slug of
     None \<Rightarrow> Inl (HTTPException 404 ''Tenant not found.'') | Some t \<Rightarrow> Inr t)"

datatype tenant_cmd = Approve | Reject | Suspend | Reactivate

fun cmd_from :: "tenant_cmd \<Rightarrow> tenant_status" where
  "cmd_from Approve = TENANT_PENDING"
| "cmd_from Reject = TENANT_PENDING"
| "cmd_from Suspend = TENANT_ACTIVE"
| "cmd_from Reactivate = TENANT_SUSPENDED"

fun cmd_to :: "tenant_cmd \<Rightarrow> tenant_status" where
  "cmd_to Approve = TENANT_ACTIVE"
| "cmd_to Reject = TENANT_REJECTED"
| "cmd_to Suspend = TENANT_SUSPENDED"
| "cmd_to Reactivate = TENANT_ACTIVE"

fun cmd_verb :: "tenant_cmd \<Rightarrow> string" where
  "cmd_verb Approve = ''approve''"
| "cmd_verb Reject = ''reject''"
| "cmd_verb Suspend = ''suspend''"
| "cmd_verb Reactivate = ''reactivate''"

definition api_tenant_status :: "tenant_cmd \<Rightarrow> string \<Rightarrow> int \<Rightarrow> string \<Rightarrow> tenant_summary atask" where
  "api_tenant_status cmd actor now slug =
     act_bind (tenant_or_404 slug)
      (\<lambda>t. if tn_status t \<noteq> cmd_from cmd then
             refuse 409 (''Cannot '' @ cmd_verb cmd @ '' a tenant in status '' @ [CHR 0x27] @
               status_text (tn_status t) @ [CHR 0x27] @ ''.'')
           else
             act_seq (api_db (\<lambda>d. Inr ((), set_status (tn_id t) (cmd_to cmd) d)))
            (act_seq (add_audit actor (''tenant.'' @ cmd_verb cmd) slug now)
              (api_read (\<lambda>d. Inr (tenant_summary_of (t\<lparr>tn_status := cmd_to cmd\<rparr>) (resolve_plan_key d (tn_plan_id t)))))))"

text \<open>The older pair of endpoints: any status to the given one, with no audit event.\<close>

definition api_set_status :: "tenant_status \<Rightarrow> string \<Rightarrow> tenant_summary atask" where
  "api_set_status s slug =
     act_bind (tenant_or_404 slug)
      (\<lambda>t. act_seq (api_db (\<lambda>d. Inr ((), set_status (tn_id t) s d)))
             (act_return (tenant_summary_of (t\<lparr>tn_status := s\<rparr>) [])))"

definition api_activate_tenant where "api_activate_tenant = api_set_status TENANT_ACTIVE"
definition api_deactivate_tenant where "api_deactivate_tenant = api_set_status TENANT_SUSPENDED"

definition new_tenant :: "string \<Rightarrow> string \<Rightarrow> string \<Rightarrow> tenant" where
  "new_tenant i nm slug = \<lparr>tn_id = i, tn_name = py_strip nm, tn_slug = slug, tn_status = TENANT_ACTIVE,
     tn_plan_id = None, tn_platform = False, tn_signup_ip = None\<rparr>"

definition api_create_tenant :: "string \<Rightarrow> string \<Rightarrow> string \<Rightarrow> tenant_summary atask" where
  "api_create_tenant new_id nm slug =
     api_db (\<lambda>d. let s = normalize_slug slug; t = new_tenant new_id nm s in
       if get_tenant_by_slug d s \<noteq> None then Inl (HTTPException 409 ''Tenant slug already exists.'')
       else map_sum id (\<lambda>ts. (tenant_summary_of t [], d\<lparr>db_tenants := ts\<rparr>)) (insert_unique tn_slug t (db_tenants d)))"

text \<open>The role of the new administrator is the column's default, owner.\<close>

definition api_create_tenant_admin ::
  "(string \<Rightarrow> string) \<Rightarrow> string \<Rightarrow> int \<Rightarrow> string \<Rightarrow> string \<Rightarrow> string \<Rightarrow> string \<Rightarrow> admin_summary atask" where
  "api_create_tenant_admin hash_pw new_id now slug email nm pw =
     act_bind (tenant_or_404 slug)
      (\<lambda>t. act_seq (api_db (\<lambda>d. let em = normalize_email email;
               a = new_admin new_id (tn_id t) em (py_strip nm) (hash_pw pw) ROLE_OWNER now in
             if get_admin_by_email d em \<noteq> None then Inl (HTTPException 409 ''Admin email already exists.'')
             else map_sum id (\<lambda>as. ((), d\<lparr>db_admins := as\<rparr>)) (insert_unique ad_email a (db_admins d))))
           (api_read (\<lambda>d. case get_admin_by_id d new_id of
               None \<Rightarrow> Inl (OtherError ''AssertionError'') | Some a \<Rightarrow> Inr (admin_summary_of d a))))"

definition resource_taken :: "db \<Rightarrow> string \<Rightarrow> string \<Rightarrow> string \<Rightarrow> bool" where
  "resource_taken d provider rtype ext =
     list_ex (\<lambda>r. rs_provider r = provider \<and> rs_type r = rtype \<and> rs_ext r = ext) (db_resources d)"

definition assigned_resource :: "string \<Rightarrow> string \<Rightarrow> string \<Rightarrow> string \<Rightarrow> string \<Rightarrow> tenant_resource" where
  "assigned_resource tid provider rtype ext display =
     \<lparr>rs_tenant = tid, rs_provider = py_lower (py_strip provider), rs_type = py_lower (py_strip rtype),
      rs_ext = py_strip ext, rs_display = str_or (py_strip display) (py_strip ext),
      rs_cpu = None, rs_mem = None, rs_disk = None\<rparr>"

definition api_create_tenant_resource ::
  "string \<Rightarrow> string \<Rightarrow> string \<Rightarrow> string \<Rightarrow> string \<Rightarrow> tenant_resource atask" where
  "api_create_tenant_resource slug provider rtype ext display =
     act_bind (tenant_or_404 slug)
      (\<lambda>t. api_db (\<lambda>d. let r = assigned_resource (tn_id t) provider rtype ext display in
         if resource_taken d (rs_provider r) (rs_type r) (rs_ext r)
         then Inl (HTTPException 409 ''Resource already assigned.'')
         else Inr (r, d\<lparr>db_resources := db_resources d @ [r]\<rparr>)))"

section \<open>Requests of platform staff\<close>

datatype admin_request =
    ReqStatus tenant_cmd string
  | ReqActivate string
  | ReqDeactivate string
  | ReqCreateTenant string string string
  | ReqCreateAdmin string string string string string
  | ReqAssign string string string string string

fun admin_handler :: "(string \<Rightarrow> string) \<Rightarrow> api_call \<Rightarrow> admin_user \<Rightarrow> admin_request \<Rightarrow> unit atask" where
  "admin_handler hash_pw call a (ReqStatus cmd slug) = ignore (api_tenant_status cmd (ad_email a) (ac_now call) slug)"
| "admin_handler hash_pw call a (ReqActivate slug) = ignore (api_activate_tenant slug)"
| "admin_handler hash_pw call a (ReqDeactivate slug) = ignore (api_deactivate_tenant slug)"
| "admin_handler hash_pw call a (ReqCreateTenant i nm slug) = ignore (api_create_tenant i nm slug)"
| "admin_handler hash_pw call a (ReqCreateAdmin i slug email nm pw) =
     ignore (api_create_tenant_admin hash_pw i (ac_now call) slug email nm pw)"
| "admin_handler hash_pw call a (ReqAssign slug p ty ext display) =
     ignore (api_create_tenant_resource slug p ty ext display)"

definition admin_route ::
  "api_settings \<Rightarrow> unsign \<Rightarrow> (string \<Rightarrow> string) \<Rightarrow> (string \<Rightarrow> string) \<Rightarrow> api_call \<Rightarrow> admin_request \<Rightarrow> unit atask" where
  "admin_route cfg unsign sha hash_pw call rq =
     session_scope (act_bind (api_platform_admin cfg unsign sha call) (\<lambda>a. admin_handler hash_pw call a rq))"

section \<open>The panel's administration pages\<close>

datatype admin_form =
    FormCreateTenant string string string
  | FormActivate string
  | FormDeactivate string
  | FormCreateAdmin string string string string string
  | FormAssign string string string string string

fun form_request :: "admin_form \<Rightarrow> admin_request" where
  "form_request (FormCreateTenant i nm slug) = ReqCreateTenant i nm slug"
| "form_request (FormActivate slug) = ReqActivate slug"
| "form_request (FormDeactivate slug) = ReqDeactivate slug"
| "form_request (FormCreateAdmin i slug email nm pw) = ReqCreateAdmin i slug email nm pw"
| "form_request (FormAssign slug p ty ext display) = ReqAssign slug p ty ext display"

fun form_success :: "admin_form \<Rightarrow> string" where
  "form_success (FormCreateTenant i nm slug) = ''Tenant+created''"
| "form_success (FormActivate slug) = ''Tenant+activated''"
| "form_success (FormDeactivate slug) = ''Tenant+deactivated''"
| "form_success (FormCreateAdmin i slug email nm pw) = ''Tenant+admin+created''"
| "form_success (FormAssign slug p ty ext display) = ''Resource+assigned''"

text \<open>
  The pages do what the API does, with redirects for results: 404 and 409 become the error of
  the next page, another exception escapes.
\<close>

fun form_error :: "admin_form \<Rightarrow> int \<Rightarrow> string" where
  "form_error (FormCreateTenant i nm slug) code = ''Tenant+slug+already+exists''"
| "form_error (FormCreateAdmin i slug email nm pw) code =
     (if code = 404 then ''Tenant+not+found'' else ''Admin+email+already+exists'')"
| "form_error (FormAssign slug p ty ext display) code =
     (if code = 404 then ''Tenant+not+found'' else ''Resource+already+assigned'')"
| "form_error _ code = ''Tenant+not+found''"

definition panel_form :: "(string \<Rightarrow> string) \<Rightarrow> api_call \<Rightarrow> admin_user \<Rightarrow> admin_form \<Rightarrow> page atask" where
  "panel_form hash_pw call a f =
     act_catch (act_seq (admin_handler hash_pw call a (form_request f))
         (act_return (RedirectTo (''/admin?success='' @ form_success f))))
       (\<lambda>e. case e of HTTPException code m \<Rightarrow> act_return (RedirectTo (''/admin?error='' @ form_error f code))
          | _ \<Rightarrow> act_raise e)"

definition panel_route ::
  "(string \<Rightarrow> string) \<Rightarrow> string \<Rightarrow> string \<Rightarrow> string \<Rightarrow> web_session \<Rightarrow> string \<Rightarrow> (string \<Rightarrow> string) \<Rightarrow> api_call \<Rightarrow>
   admin_form \<Rightarrow> page atask" where
  "panel_route quote path query fresh s csrf hash_pw call f w =
     (let (g, s1) = require_platform_admin quote (aw_db w) ''POST'' path query fresh s in
      session_scope (act_bind (lift g)
        (\<lambda>a. act_seq (lift (verify_csrf_token s1 csrf)) (panel_form hash_pw call a f))) w)"

end
