(* ===== verification/AdmissionSafety.thy ===== *)
theory AdmissionSafety
  imports Admission
begin

text \<open>
  What the guards and the tenant administration guarantee: whom the API admits, how a tenant's
  status may change, how many sign-ups may be pending, and that every account is well formed.
\<close>

section \<open>The guards\<close>

lemmas act_defs = act_bind_def act_seq_def act_return_def act_raise_def refuse_def api_read_def api_db_def
  lift_def

lemma session_scope_Inr: "session_scope m w = (Inr x, w') \<Longrightarrow> m w = (Inr x, w')"
  by (auto simp: session_scope_def split: prod.splits sum.splits)

lemma session_scope_Inl: "session_scope m w = (Inl e, w') \<Longrightarrow> aw_db w' = aw_db w \<and> aw_audit w' = aw_audit w"
  by (auto simp: session_scope_def split: prod.splits sum.splits)

text \<open>Tokens may be touched and checks counted; everything else stays.\<close>

definition guard_frame :: "api_world \<Rightarrow> api_world \<Rightarrow> bool" where
  "guard_frame w w' \<longleftrightarrow> aw_audit w' = aw_audit w \<and> (\<exists>ts. aw_db w' = (aw_db w)\<lparr>db_tokens := ts\<rparr>)"

lemma guard_frame_refl: "guard_frame w w"
  by (auto simp: guard_frame_def intro: exI [of _ "db_tokens (aw_db w)"])

lemma authenticate_token_frame: "\<exists>ts. snd (authenticate_token sha d t now) = d\<lparr>db_tokens := ts\<rparr>"
  by (auto simp: authenticate_token_def split: option.splits intro: exI [of _ "db_tokens d"])

lemma rate_limit_frame:
  "enforce_api_token_rate_limit cfg i tick w = (r, w') \<Longrightarrow> aw_db w' = aw_db w \<and> aw_audit w' = aw_audit w"
  by (auto simp: enforce_api_token_rate_limit_def api_check_def act_defs split: if_splits prod.splits sum.splits)

definition good_token :: "(string \<Rightarrow> string) \<Rightarrow> db \<Rightarrow> api_call \<Rightarrow> string \<Rightarrow> string \<Rightarrow> bool" where
  "good_token sha d call token i \<longleftrightarrow>
     (\<exists>tok\<in>set (db_tokens d). tk_hash tok = sha token \<and> \<not> tk_revoked tok \<and> tk_admin tok = i \<and>
        (case tk_expires tok of None \<Rightarrow> True | Some e \<Rightarrow> ac_now call \<le> e) \<and>
        (tk_scope tok = ''read'' \<longrightarrow> \<not> unsafe_method (ac_method call)))"

lemma authenticate_token_good:
  assumes "authenticate_token sha d token now = (Some tok, d')"
  shows "\<exists>t\<in>set (db_tokens d). tk_hash t = sha token \<and> \<not> tk_revoked t \<and> tk_admin t = tk_admin tok \<and>
    tk_scope t = tk_scope tok \<and> (case tk_expires t of None \<Rightarrow> True | Some e \<Rightarrow> now \<le> e)"
  using assms
  by (auto simp: authenticate_token_def find_Some_iff split: option.splits if_splits)

lemma bearer_admin_run:
  assumes "bearer_admin cfg unsign sha call token w = (r, w')"
  shows "guard_frame w w' \<and> (\<forall>i. r = Inr (Some i) \<longrightarrow>
    (if looks_like_personal_token token then good_token sha (aw_db w) call token i
     else \<exists>m. unsign token (ac_now call) = Some m \<and> map_of m ''admin_user_id'' = Some i))"
proof (cases "looks_like_personal_token token")
  case False
  with assms show ?thesis
    by (auto simp: bearer_admin_def act_defs guard_frame_refl split: option.splits)
next
  case True
  obtain t d1 where t: "authenticate_token sha (aw_db w) token (ac_now call) = (t, d1)" by force
  obtain ts where ts: "d1 = (aw_db w)\<lparr>db_tokens := ts\<rparr>"
    using authenticate_token_frame [of sha "aw_db w" token "ac_now call"] t by auto
  show ?thesis
  proof (cases t)
    case None
    with assms True t ts show ?thesis
      by (auto simp: bearer_admin_def act_defs guard_frame_def)
  next
    case (Some tok)
    obtain q w1 where q: "enforce_api_token_rate_limit cfg (tk_id tok) (ac_tick call) (w\<lparr>aw_db := d1\<rparr>) = (q, w1)"
      by force
    note frame = rate_limit_frame [OF q]
    have scope: "ac_method call \<in> {''GET'', ''HEAD'', ''OPTIONS''} \<Longrightarrow> \<not> unsafe_method (ac_method call)"
      by (auto simp: unsafe_method_def)
    obtain t0 where t0: "t0\<in>set (db_tokens (aw_db w))" "tk_hash t0 = sha token" "\<not> tk_revoked t0"
        "tk_admin t0 = tk_admin tok" "tk_scope t0 = tk_scope tok"
        "case tk_expires t0 of None \<Rightarrow> True | Some e \<Rightarrow> ac_now call \<le> e"
      using authenticate_token_good [OF t [unfolded Some]] by blast
    have good: "tk_scope tok = ''read'' \<longrightarrow> \<not> unsafe_method (ac_method call) \<Longrightarrow>
        good_token sha (aw_db w) call token (tk_admin tok)"
      unfolding good_token_def using t0 by auto
    show ?thesis
      using assms True t ts Some q frame scope good
      by (auto simp: bearer_admin_def act_defs guard_frame_def split: sum.splits if_splits)
  qed
qed

definition bearer_of :: "api_call \<Rightarrow> string" where
  "bearer_of call = py_strip (drop 7 (or_empty (ac_auth call)))"

definition may_act :: "db \<Rightarrow> string \<Rightarrow> admin_user \<Rightarrow> bool" where
  "may_act d method a \<longleftrightarrow> a \<in> set (db_admins d) \<and> ad_active a \<and>
     (unsafe_method method \<longrightarrow> ad_role a = ROLE_PLATFORM_ADMIN \<or> tenant_active d a)"

lemma guard_frame_cols:
  assumes "guard_frame w w'"
  shows "get_admin_by_id (aw_db w') i = get_admin_by_id (aw_db w) i" "tenant_active (aw_db w') a = tenant_active (aw_db w) a"
    "db_admins (aw_db w') = db_admins (aw_db w)" "db_tenants (aw_db w') = db_tenants (aw_db w)"
    "aw_audit w' = aw_audit w"
  using assms by (auto simp: guard_frame_def get_admin_by_id_def tenant_active_def admin_tenant_def get_tenant_def)

lemma api_guard_run:
  assumes "get_current_api_admin cfg unsign sha call w = (r, w')"
  shows "guard_frame w w' \<and> (\<forall>a. r = Inr a \<longrightarrow> may_act (aw_db w) (ac_method call) a \<and>
    (if looks_like_personal_token (bearer_of call) then good_token sha (aw_db w) call (bearer_of call) (ad_id a)
     else \<exists>m. unsign (bearer_of call) (ac_now call) = Some m \<and> map_of m ''admin_user_id'' = Some (ad_id a)))"
proof (cases "starts_with ''Bearer '' (or_empty (ac_auth call))")
  case False
  with assms show ?thesis
    by (auto simp: get_current_api_admin_def act_defs guard_frame_refl)
next
  case True
  obtain q w1 where q: "bearer_admin cfg unsign sha call (bearer_of call) w = (q, w1)" by force
  note b = bearer_admin_run [OF q]
  then have f: "guard_frame w w1" by blast
  have run: "act_bind (bearer_admin cfg unsign sha call (bearer_of call))
      (\<lambda>i. session_admin (ac_method call) (or_empty i)) w = (r, w')"
    using assms True by (simp add: get_current_api_admin_def bearer_of_def)
  show ?thesis
  proof (cases "\<exists>a. r = Inr a")
    case False
    then have "w' = w1" using run q
      by (auto simp: session_admin_def act_defs split: sum.splits option.splits if_splits)
    with False f show ?thesis by blast
  next
    case True
    then obtain a x where ax: "r = Inr a" "q = Inr x" "w' = w1" "or_empty x \<noteq> []"
        "get_admin_by_id (aw_db w1) (or_empty x) = Some a" "ad_active a"
        "ad_role a = ROLE_PLATFORM_ADMIN \<or> \<not> unsafe_method (ac_method call) \<or> tenant_active (aw_db w1) a"
      using run q
      by (auto simp: session_admin_def act_defs split: sum.splits option.splits if_splits)
    then obtain i where x: "x = Some i" by (cases x) (auto simp: or_empty_def)
    with ax have a: "r = Inr a" "q = Inr (Some i)" "w' = w1" "get_admin_by_id (aw_db w1) i = Some a"
        "ad_active a" "ad_role a = ROLE_PLATFORM_ADMIN \<or> \<not> unsafe_method (ac_method call) \<or> tenant_active (aw_db w1) a"
      by (auto simp: or_empty_def)
    have "ad_id a = i" "a \<in> set (db_admins (aw_db w))"
      using a(4) unfolding guard_frame_cols(1) [OF f]
      by (auto simp: get_admin_by_id_def find_Some_iff)
    with a b f show ?thesis
      by (auto simp: may_act_def guard_frame_cols [OF f] split: if_splits)
  qed
qed

section \<open>Properties of the guards\<close>

text \<open>
  C33. Whoever the API admits is an active administrator named by the credential: a personal token
  that is stored, unrevoked, unexpired and not read-only for this method, or a session token
  with a good signature. A request that may change state is admitted only for platform staff or
  for a member of an active tenant.
\<close>

theorem api_guard_admits:
  assumes "get_current_api_admin cfg unsign sha call w = (Inr a, w')"
  shows "may_act (aw_db w) (ac_method call) a \<and>
    (if looks_like_personal_token (bearer_of call) then good_token sha (aw_db w) call (bearer_of call) (ad_id a)
     else \<exists>m. unsign (bearer_of call) (ac_now call) = Some m \<and> map_of m ''admin_user_id'' = Some (ad_id a))"
  using api_guard_run [OF assms] by blast

section \<open>Runs of the handlers\<close>

lemma ignore_Inr: "ignore m w = (Inr u, w') \<Longrightarrow> \<exists>x. m w = (Inr x, w')"
  by (auto simp: ignore_def act_bind_def act_return_def split: prod.splits sum.splits)

lemma tenant_or_404_run [simp]:
  "tenant_or_404 slug w = (case get_tenant_by_slug (aw_db w) slug of
     None \<Rightarrow> (Inl (HTTPException 404 ''Tenant not found.''), w) | Some t \<Rightarrow> (Inr t, w))"
  by (simp add: tenant_or_404_def api_read_def split: option.splits)

definition audit_of :: "admin_user \<Rightarrow> api_call \<Rightarrow> tenant_cmd \<Rightarrow> string \<Rightarrow> audit_event" where
  "audit_of a call cmd slug =
     \<lparr>au_actor = ad_email a, au_action = ''tenant.'' @ cmd_verb cmd, au_target = slug, au_details = [],
      au_created = ac_now call\<rparr>"

text \<open>What a successful request of platform staff did.\<close>

fun admin_effect ::
  "(string \<Rightarrow> string) \<Rightarrow> api_call \<Rightarrow> admin_user \<Rightarrow> admin_request \<Rightarrow> api_world \<Rightarrow> api_world \<Rightarrow> bool" where
  "admin_effect hash_pw call a (ReqStatus cmd slug) w w' \<longleftrightarrow>
     (\<exists>t. get_tenant_by_slug (aw_db w) slug = Some t \<and> tn_status t = cmd_from cmd \<and>
        w' = w\<lparr>aw_db := set_status (tn_id t) (cmd_to cmd) (aw_db w), aw_audit := aw_audit w @ [audit_of a call cmd slug]\<rparr>)"
| "admin_effect hash_pw call a (ReqActivate slug) w w' \<longleftrightarrow>
     (\<exists>t. get_tenant_by_slug (aw_db w) slug = Some t \<and> w' = w\<lparr>aw_db := set_status (tn_id t) TENANT_ACTIVE (aw_db w)\<rparr>)"
| "admin_effect hash_pw call a (ReqDeactivate slug) w w' \<longleftrightarrow>
     (\<exists>t. get_tenant_by_slug (aw_db w) slug = Some t \<and> w' = w\<lparr>aw_db := set_status (tn_id t) TENANT_SUSPENDED (aw_db w)\<rparr>)"
| "admin_effect hash_pw call a (ReqCreateTenant i nm slug) w w' \<longleftrightarrow>
     (let t = new_tenant i nm (normalize_slug slug) in tn_slug t \<notin> tn_slug ` set (db_tenants (aw_db w)) \<and>
        w' = w\<lparr>aw_db := (aw_db w)\<lparr>db_tenants := db_tenants (aw_db w) @ [t]\<rparr>\<rparr>)"
| "admin_effect hash_pw call a (ReqCreateAdmin i slug email nm pw) w w' \<longleftrightarrow>
     (\<exists>t. get_tenant_by_slug (aw_db w) slug = Some t \<and> normalize_email email \<notin> ad_email ` set (db_admins (aw_db w)) \<and>
        w' = w\<lparr>aw_db := (aw_db w)\<lparr>db_admins := db_admins (aw_db w) @
          [new_admin i (tn_id t) (normalize_email email) (py_strip nm) (hash_pw pw) ROLE_OWNER (ac_now call)]\<rparr>\<rparr>)"
| "admin_effect hash_pw call a (ReqAssign slug p ty ext display) w w' \<longleftrightarrow>
     (\<exists>t. get_tenant_by_slug (aw_db w) slug = Some t \<and>
        (let row = assigned_resource (tn_id t) p ty ext display in
         \<not> resource_taken (aw_db w) (rs_provider row) (rs_type row) (rs_ext row) \<and>
         w' = w\<lparr>aw_db := (aw_db w)\<lparr>db_resources := db_resources (aw_db w) @ [row]\<rparr>\<rparr>))"

lemma admin_handler_run:
  assumes "admin_handler hash_pw call a rq w = (Inr u, w')"
  shows "admin_effect hash_pw call a rq w w'"
proof (cases rq)
  case (ReqStatus cmd slug)
  then show ?thesis using assms
    by (auto dest!: ignore_Inr simp: api_tenant_status_def act_defs add_audit_def audit_of_def
        split: option.splits if_splits)
next
  case (ReqActivate slug)
  then show ?thesis using assms
    by (auto dest!: ignore_Inr simp: api_activate_tenant_def api_set_status_def act_defs split: option.splits)
next
  case (ReqDeactivate slug)
  then show ?thesis using assms
    by (auto dest!: ignore_Inr simp: api_deactivate_tenant_def api_set_status_def act_defs split: option.splits)
next
  case (ReqCreateTenant i nm slug)
  then show ?thesis using assms
    by (auto dest!: ignore_Inr simp: api_create_tenant_def api_db_def Let_def insert_unique_def split: sum.splits if_splits)
next
  case (ReqCreateAdmin i slug email nm pw)
  then show ?thesis using assms
    by (auto dest!: ignore_Inr simp: api_create_tenant_admin_def act_defs Let_def insert_unique_def new_admin_def
        split: option.splits sum.splits if_splits)
next
  case (ReqAssign slug p ty ext display)
  then show ?thesis using assms
    by (auto dest!: ignore_Inr simp: api_create_tenant_resource_def act_defs Let_def split: option.splits if_splits)
qed

lemma admin_route_run:
  assumes "admin_route cfg unsign sha hash_pw call rq w = (r, w')"
  shows "(\<exists>e. r = Inl e) \<and> aw_db w' = aw_db w \<and> aw_audit w' = aw_audit w \<or>
    (\<exists>a w1. may_act (aw_db w) (ac_method call) a \<and> ad_role a = ROLE_PLATFORM_ADMIN \<and> guard_frame w w1 \<and>
      admin_effect hash_pw call a rq w1 w')"
proof (cases r)
  case (Inl e)
  with assms have "session_scope (act_bind (api_platform_admin cfg unsign sha call)
      (\<lambda>a. admin_handler hash_pw call a rq)) w = (Inl e, w')" by (simp add: admin_route_def)
  from session_scope_Inl [OF this] Inl show ?thesis by simp
next
  case (Inr u)
  from assms Inr have "session_scope (act_bind (api_platform_admin cfg unsign sha call)
      (\<lambda>a. admin_handler hash_pw call a rq)) w = (Inr u, w')" by (simp add: admin_route_def)
  from session_scope_Inr [OF this]
  obtain a w1 where a: "api_platform_admin cfg unsign sha call w = (Inr a, w1)"
      and h: "admin_handler hash_pw call a rq w1 = (Inr u, w')"
    by (auto simp: act_bind_def split: prod.splits sum.splits)
  from a have g: "get_current_api_admin cfg unsign sha call w = (Inr a, w1)" and pa: "ad_role a = ROLE_PLATFORM_ADMIN"
    by (auto simp: api_platform_admin_def act_defs split: prod.splits sum.splits if_splits)
  from api_guard_run [OF g] have "may_act (aw_db w) (ac_method call) a" "guard_frame w w1" by simp_all
  with admin_handler_run [OF h] pa show ?thesis by (intro disjI2 exI [of _ a] exI [of _ w1] conjI)
qed

section \<open>The life of a tenant\<close>

definition status_of :: "db \<Rightarrow> string \<Rightarrow> tenant_status option" where
  "status_of d i = map_option tn_status (get_tenant d i)"

lemma status_of_set_status:
  "status_of (set_status i s d) j = (if i = j then map_option (\<lambda>_. s) (status_of d j) else status_of d j)"
proof -
  have "get_tenant (set_status i s d) j =
      map_option (\<lambda>t. if tn_id t = i then t\<lparr>tn_status := s\<rparr> else t) (get_tenant d j)"
    unfolding get_tenant_def set_status_def by (simp add: find_upd_where)
  moreover have "tn_id t = j" if "get_tenant d j = Some t" for t
    using that by (auto simp: get_tenant_def find_Some_iff)
  ultimately show ?thesis by (cases "get_tenant d j") (auto simp: status_of_def)
qed

lemma status_of_tenant:
  assumes "distinct (map tn_id (db_tenants d))" and "get_tenant_by_slug d slug = Some t"
  shows "status_of d (tn_id t) = Some (tn_status t)"
proof -
  have "t \<in> set (db_tenants d)" using assms(2) by (auto simp: get_tenant_by_slug_def find_Some_iff)
  with assms(1) have "find (\<lambda>x. tn_id x = tn_id t) (db_tenants d) = Some t"
    by (rule distinct_find_unique)
  then show ?thesis by (simp add: status_of_def get_tenant_def)
qed

lemma status_of_append:
  "status_of d i = Some s \<Longrightarrow> status_of (d\<lparr>db_tenants := db_tenants d @ [t]\<rparr>) i = Some s"
  by (auto simp: status_of_def get_tenant_def find_append)

lemma status_of_other [simp]:
  "status_of (d\<lparr>db_admins := as\<rparr>) i = status_of d i" "status_of (d\<lparr>db_resources := rs\<rparr>) i = status_of d i"
  by (simp_all add: status_of_def get_tenant_def)

lemma guard_frame_status: "guard_frame w w1 \<Longrightarrow> status_of (aw_db w1) i = status_of (aw_db w) i"
  by (simp add: status_of_def get_tenant_def guard_frame_cols)

fun status_change :: "admin_user \<Rightarrow> api_call \<Rightarrow> admin_request \<Rightarrow> tenant_status \<Rightarrow> tenant_status \<Rightarrow>
   audit_event list \<Rightarrow> audit_event list \<Rightarrow> bool" where
  "status_change a call (ReqStatus cmd slug) s s' evs evs2 \<longleftrightarrow>
     s = cmd_from cmd \<and> s' = cmd_to cmd \<and> evs2 = evs @ [audit_of a call cmd slug]"
| "status_change a call (ReqActivate slug) s s' evs evs2 \<longleftrightarrow> s' = TENANT_ACTIVE \<and> evs2 = evs"
| "status_change a call (ReqDeactivate slug) s s' evs evs2 \<longleftrightarrow> s' = TENANT_SUSPENDED \<and> evs2 = evs"
| "status_change a call _ s s' evs evs2 \<longleftrightarrow> False"

text \<open>
  A request changes the status of a tenant only on behalf of an active platform administrator.
  The lifecycle endpoints move it along pending, active, suspended and rejected as their name
  says and write one audit event; the only others that can are activate and deactivate, which
  take any status and write none.
\<close>

theorem tenant_status_changes_are_authorised:
  assumes "admin_route cfg unsign sha hash_pw call rq w = (r, w')" and "unique_ok (aw_db w)"
    and "status_of (aw_db w) i = Some s" and "status_of (aw_db w') i = Some s'" and "s \<noteq> s'"
  shows "\<exists>a\<in>set (db_admins (aw_db w)). ad_active a \<and> ad_role a = ROLE_PLATFORM_ADMIN \<and>
    status_change a call rq s s' (aw_audit w) (aw_audit w')"
proof -
  from admin_route_run [OF assms(1)] assms(3-5) obtain a w1 where
      a: "may_act (aw_db w) (ac_method call) a" "ad_role a = ROLE_PLATFORM_ADMIN" and f: "guard_frame w w1"
      and e: "admin_effect hash_pw call a rq w1 w'" by auto
  have u1: "distinct (map tn_id (db_tenants (aw_db w1)))" and s1: "status_of (aw_db w1) i = Some s"
      and au: "aw_audit w1 = aw_audit w"
    using assms(2,3) by (simp_all add: guard_frame_cols [OF f] guard_frame_status [OF f] unique_ok_def)
  have "status_change a call rq s s' (aw_audit w) (aw_audit w')"
    using e s1 au assms(4,5) status_of_tenant [OF u1]
    by (cases rq) (auto simp: status_of_set_status Let_def status_of_append audit_of_def split: if_splits)
  with a show ?thesis unfolding may_act_def by blast
qed

section \<open>Sign-up\<close>

lemma signup_row_run:
  "signup_row hash_pw call rq w = (r, w') \<Longrightarrow> (\<exists>e. r = Inl e) \<and> w' = w \<or>
    (\<exists>a d. signup hash_pw (aw_db w) (sr_racing rq) (sr_tenant_id rq) (sr_admin_id rq) (ac_now call) (sr_email rq)
       (sr_password rq) (sr_org rq) (Some (client_host call)) = Inr (a, d) \<and> r = Inr a \<and> w' = w\<lparr>aw_db := d\<rparr>)"
  by (auto simp: signup_row_def act_catch_def act_defs split: sum.splits prod.splits exn.splits)

text \<open>The rows a sign-up adds.\<close>

definition signup_rows :: "api_call \<Rightarrow> signup_request \<Rightarrow> db \<Rightarrow> tenant \<Rightarrow> admin_user \<Rightarrow> db \<Rightarrow> bool" where
  "signup_rows call rq d t a d' \<longleftrightarrow>
     tn_status t = TENANT_PENDING \<and> tn_id t = sr_tenant_id rq \<and> tn_signup_ip t = Some (client_host call) \<and> tn_slug t \<noteq> [] \<and>
     ad_tenant a = tn_id t \<and> ad_role a = ROLE_OWNER \<and> ad_email a = normalize_email (sr_email rq) \<and>
     d' = d\<lparr>db_tenants := db_tenants d @ [t], db_admins := db_admins d @ [a]\<rparr>"

lemma unique_slug_nonempty: "unique_slug d base \<noteq> []"
proof -
  have "c \<noteq> [] \<Longrightarrow> find_slug d s c n \<noteq> []" for s c n
  proof (induction d s c n rule: find_slug.induct)
    case (1 d s c n)
    have "slug_n s n \<noteq> []" by (simp add: slug_n_def)
    with 1 show ?case by (simp add: find_slug.simps [of d s c n])
  qed
  moreover have "normalize_slug base \<noteq> []" by (simp add: normalize_slug_def str_or_def)
  ultimately show ?thesis by (simp add: unique_slug_def)
qed

lemma signup_adds:
  assumes "signup hash_pw d racing (sr_tenant_id rq) ia now (sr_email rq) pw org (Some (client_host call)) = Inr (res, d')"
  shows "(res = None \<and> d' = d) \<or> (\<exists>t a. res = Some a \<and> get_admin_by_email d (sr_email rq) = None \<and> signup_rows call rq d t a d')"
proof -
  have nn: "get_admin_by_email d (normalize_email (sr_email rq)) = get_admin_by_email d (sr_email rq)"
    by (simp add: get_admin_by_email_def normalize_email_def py_strip_lower)
  let ?t = "\<lparr>tn_id = sr_tenant_id rq, tn_name = str_or (py_strip org) (unique_slug d org), tn_slug = unique_slug d org,
      tn_status = TENANT_PENDING, tn_plan_id = map_option pl_id (get_default_plan d), tn_platform = False,
      tn_signup_ip = Some (client_host call)\<rparr>"
  show ?thesis
  proof (cases res)
    case None
    with assms show ?thesis by (auto simp: signup_def Let_def nn split: sum.splits if_splits)
  next
    case (Some a)
    have "get_admin_by_email d (sr_email rq) = None \<and> signup_rows call rq d ?t a d'"
      using assms Some unique_slug_nonempty [of d org]
      by (auto simp: signup_def Let_def nn signup_rows_def insert_unique_def new_admin_def
          split: sum.splits if_splits)
    with Some show ?thesis by blast
  qed
qed

lemma api_check_frame: "api_check k l win t w = (r, w') \<Longrightarrow> aw_db w' = aw_db w \<and> aw_audit w' = aw_audit w"
  by (auto simp: api_check_def split: prod.splits)

lemma api_signup_run:
  assumes "api_signup cfg sign hash_pw call rq w = (r, w')"
  shows "(\<exists>e. r = Inl e) \<and> aw_db w' = aw_db w \<and> aw_audit w' = aw_audit w \<or>
    (\<exists>res. int (pending_count (aw_db w)) < as_max_pending cfg \<and>
      int (pending_from (aw_db w) (client_host call)) < as_max_pending_ip cfg \<and> aw_audit w' = aw_audit w \<and>
      signup hash_pw (aw_db w) (sr_racing rq) (sr_tenant_id rq) (sr_admin_id rq) (ac_now call) (sr_email rq)
       (sr_password rq) (sr_org rq) (Some (client_host call)) = Inr (res, aw_db w') \<and>
      r = Inr (case res of None \<Rightarrow> no_account | Some a \<Rightarrow> auth_response sign (aw_db w') a))"
proof (cases r)
  case (Inl e)
  with session_scope_Inl [OF assms [unfolded api_signup_def Inl]] show ?thesis by simp
next
  case (Inr x)
  note run = session_scope_Inr [OF assms [unfolded api_signup_def Inr]]
  obtain q w1 where q: "api_check (''signup:'' @ client_host call) (as_signup_rate cfg) 3600 (ac_tick call) w = (q, w1)"
    by force
  note f = api_check_frame [OF q]
  obtain b w2 where b: "signup_row hash_pw call rq w1 = (b, w2)" by force
  show ?thesis
    using run Inr q f b signup_row_run [OF b]
    by (auto simp: act_defs split: sum.splits if_splits option.splits)
qed

fun run_signups :: "api_settings \<Rightarrow> sign \<Rightarrow> (string \<Rightarrow> string) \<Rightarrow> (api_call \<times> signup_request) list \<Rightarrow> api_world \<Rightarrow> api_world" where
  "run_signups cfg sign hash_pw [] w = w"
| "run_signups cfg sign hash_pw ((call, rq) # rest) w =
     run_signups cfg sign hash_pw rest (snd (api_signup cfg sign hash_pw call rq w))"

lemma signup_step_caps:
  defines "w' \<equiv> \<lambda>cfg sign hash_pw call rq w. snd (api_signup cfg sign hash_pw call rq w)"
  shows "int (pending_count (aw_db (w' cfg sign hash_pw call rq w))) \<le> max (int (pending_count (aw_db w))) (as_max_pending cfg)"
    and "int (pending_from (aw_db (w' cfg sign hash_pw call rq w)) ip) \<le>
      max (int (pending_from (aw_db w) ip)) (as_max_pending_ip cfg)"
proof -
  obtain r v where rv: "api_signup cfg sign hash_pw call rq w = (r, v)" by force
  have "aw_db v = aw_db w \<or> (\<exists>t a. int (pending_count (aw_db w)) < as_max_pending cfg \<and>
      int (pending_from (aw_db w) (client_host call)) < as_max_pending_ip cfg \<and> signup_rows call rq (aw_db w) t a (aw_db v))"
    using api_signup_run [OF rv] by (auto dest!: signup_adds)
  then show "int (pending_count (aw_db (w' cfg sign hash_pw call rq w))) \<le> max (int (pending_count (aw_db w))) (as_max_pending cfg)"
    and "int (pending_from (aw_db (w' cfg sign hash_pw call rq w)) ip) \<le>
      max (int (pending_from (aw_db w) ip)) (as_max_pending_ip cfg)"
    by (auto simp: w'_def rv signup_rows_def pending_count_def pending_from_def)
qed

text \<open>
  C39. Sequential sign-ups, from any addresses, never take the number of pending tenants beyond the
  platform's cap, nor those of one address beyond its cap (or beyond what was pending before).
\<close>

theorem signups_respect_caps:
  "int (pending_count (aw_db (run_signups cfg sign hash_pw rqs w))) \<le>
     max (int (pending_count (aw_db w))) (as_max_pending cfg) \<and>
   int (pending_from (aw_db (run_signups cfg sign hash_pw rqs w)) ip) \<le>
     max (int (pending_from (aw_db w) ip)) (as_max_pending_ip cfg)"
proof (induction rqs arbitrary: w)
  case (Cons x rqs)
  obtain call rq where x: "x = (call, rq)" by force
  let ?v = "snd (api_signup cfg sign hash_pw call rq w)"
  show ?case
    using Cons.IH [of ?v] signup_step_caps(1) [of cfg sign hash_pw call rq w]
      signup_step_caps(2) [of cfg sign hash_pw call rq w ip]
    by (simp add: x) linarith
qed simp

text \<open>
  The answer tells whether the address has an account: a sign-up that is answered at all gets
  an empty token exactly when the e-mail is registered.
\<close>

theorem signup_answer_reveals_accounts:
  assumes "api_signup cfg sign hash_pw call rq w = (Inr (token, summary), w')"
    and "sr_racing rq = []" and "\<And>p. sign p \<noteq> []"
  shows "token = [] \<longleftrightarrow> get_admin_by_email (aw_db w) (sr_email rq) \<noteq> None"
proof -
  have nn: "get_admin_by_email (aw_db w) (normalize_email (sr_email rq)) = get_admin_by_email (aw_db w) (sr_email rq)"
    by (simp add: get_admin_by_email_def normalize_email_def py_strip_lower)
  have taken: "normalize_email (sr_email rq) \<in> ad_email ` set (db_admins (aw_db w)) \<longleftrightarrow>
      get_admin_by_email (aw_db w) (sr_email rq) \<noteq> None"
    unfolding get_admin_by_email_def find_None_iff by (auto intro: rev_image_eqI)
  from api_signup_run [OF assms(1)] obtain res where
      s: "signup hash_pw (aw_db w) (sr_racing rq) (sr_tenant_id rq) (sr_admin_id rq) (ac_now call) (sr_email rq)
       (sr_password rq) (sr_org rq) (Some (client_host call)) = Inr (res, aw_db w')"
      and t: "(token, summary) = (case res of None \<Rightarrow> no_account | Some a \<Rightarrow> auth_response sign (aw_db w') a)" by auto
  have "res = None \<longleftrightarrow> get_admin_by_email (aw_db w) (sr_email rq) \<noteq> None"
    using s assms(2) taken
    by (auto simp: signup_def Let_def nn insert_unique_def new_admin_def split: sum.splits if_splits)
  with t assms(3) show ?thesis
    by (auto simp: no_account_def auth_response_def split: option.splits)
qed

section \<open>Well-formed accounts\<close>

definition ROLES :: "string list" where
  "ROLES = [ROLE_PLATFORM_ADMIN, ROLE_OWNER, ROLE_ADMIN, ROLE_MEMBER]"

definition known_tenant :: "db \<Rightarrow> string \<Rightarrow> bool" where
  "known_tenant d i \<longleftrightarrow> i \<in> tn_id ` set (db_tenants d)"

definition accounts_ok :: "db \<Rightarrow> bool" where
  "accounts_ok d \<longleftrightarrow>
     (\<forall>a\<in>set (db_admins d). ad_role a \<in> set ROLES \<and> known_tenant d (ad_tenant a) \<and> normalize_email (ad_email a) = ad_email a) \<and>
     (\<forall>i\<in>set (db_invites d). iv_role i \<in> set INVITABLE_ROLES \<and> known_tenant d (iv_tenant i) \<and>
        normalize_email (iv_email i) = iv_email i) \<and>
     (\<forall>t\<in>set (db_tenants d). tn_slug t \<noteq> [])"

record account_env =
  ae_cfg :: api_settings
  ae_sign :: sign
  ae_unsign :: unsign
  ae_sha :: "string \<Rightarrow> string"
  ae_hash :: "string \<Rightarrow> string"
  ae_verify :: "string \<Rightarrow> string \<Rightarrow> bool"
  ae_hmac :: "nat list \<Rightarrow> nat list \<Rightarrow> nat list"

text \<open>Account operations; team and profile requests name the administrator who acts.\<close>

datatype account_op =
    OpSignup api_call signup_request
  | OpStaff api_call admin_request
  | OpTeam string team_op
  | OpProfile string "string list" string string
  | OpPassword string string string
  | OpLogin api_call string string string

definition as_admin :: "string \<Rightarrow> (admin_user \<Rightarrow> db \<Rightarrow> db) \<Rightarrow> api_world \<Rightarrow> api_world" where
  "as_admin i f w = (case get_admin_by_id (aw_db w) i of None \<Rightarrow> w | Some a \<Rightarrow> w\<lparr>aw_db := f a (aw_db w)\<rparr>)"

definition kept :: "db \<Rightarrow> db result \<Rightarrow> db" where
  "kept d r = (case r of Inl e \<Rightarrow> d | Inr d' \<Rightarrow> d')"

fun account_step :: "account_env \<Rightarrow> account_op \<Rightarrow> api_world \<Rightarrow> api_world" where
  "account_step v (OpSignup call rq) w = snd (api_signup (ae_cfg v) (ae_sign v) (ae_hash v) call rq w)"
| "account_step v (OpStaff call rq) w = snd (admin_route (ae_cfg v) (ae_unsign v) (ae_sha v) (ae_hash v) call rq w)"
| "account_step v (OpTeam i oper) w = as_admin i (\<lambda>a. team_step (ae_sha v) (ae_hash v) (ad_tenant a) oper) w"
| "account_step v (OpProfile i racing nm email) w =
     as_admin i (\<lambda>a d. kept d (map_sum id snd (update_profile d racing a nm email))) w"
| "account_step v (OpPassword i old new) w =
     as_admin i (\<lambda>a d. kept d (change_password (ae_hash v) (ae_verify v) d a old new)) w"
| "account_step v (OpLogin call email pw code) w =
     snd (api_login (ae_sign v) (ae_verify v) (ae_hmac v) (ae_sha v) call email pw code w)"

inductive account_reach :: "account_env \<Rightarrow> (account_op \<Rightarrow> api_world \<Rightarrow> bool) \<Rightarrow> api_world \<Rightarrow> api_world \<Rightarrow> bool"
  for v P w where
  start: "account_reach v P w w"
| step: "account_reach v P w w1 \<Longrightarrow> P oper w1 \<Longrightarrow> account_reach v P w (account_step v oper w1)"

text \<open>Changes that keep every account well formed.\<close>

lemma normalize_email_idem [simp]: "normalize_email (normalize_email e) = normalize_email e"
  by (simp add: normalize_email_def py_strip_lower)

lemma accounts_ok_cong:
  "db_admins d' = db_admins d \<Longrightarrow> db_invites d' = db_invites d \<Longrightarrow> db_tenants d' = db_tenants d \<Longrightarrow>
   accounts_ok d' = accounts_ok d"
  by (simp add: accounts_ok_def known_tenant_def)

lemma accounts_ok_set_status: "accounts_ok d \<Longrightarrow> accounts_ok (set_status i s d)"
proof -
  have "map tn_id (db_tenants (set_status i s d)) = map tn_id (db_tenants d)"
    and "map tn_slug (db_tenants (set_status i s d)) = map tn_slug (db_tenants d)"
    by (simp_all add: set_status_def map_upd_where)
  then have "tn_id ` set (db_tenants (set_status i s d)) = tn_id ` set (db_tenants d)"
    and "tn_slug ` set (db_tenants (set_status i s d)) = tn_slug ` set (db_tenants d)"
    by (metis set_map)+
  moreover have "accounts_ok x \<longleftrightarrow>
     (\<forall>a\<in>set (db_admins x). ad_role a \<in> set ROLES \<and> ad_tenant a \<in> tn_id ` set (db_tenants x) \<and> normalize_email (ad_email a) = ad_email a) \<and>
     (\<forall>i\<in>set (db_invites x). iv_role i \<in> set INVITABLE_ROLES \<and> iv_tenant i \<in> tn_id ` set (db_tenants x) \<and>
        normalize_email (iv_email i) = iv_email i) \<and> [] \<notin> tn_slug ` set (db_tenants x)" for x
    unfolding accounts_ok_def known_tenant_def by (auto simp: image_iff)
  ultimately show "accounts_ok d \<Longrightarrow> accounts_ok (set_status i s d)"
    by (simp add: set_status_def)
qed

lemma accounts_ok_set_admin:
  assumes "accounts_ok d"
    and "\<And>a. ad_role (f a) = ad_role a \<or> ad_role (f a) \<in> set ROLES" and "\<And>a. ad_tenant (f a) = ad_tenant a"
    and "\<And>a. ad_email (f a) = ad_email a \<or> normalize_email (ad_email (f a)) = ad_email (f a)"
  shows "accounts_ok (set_admin i f d)"
  using assms unfolding accounts_ok_def set_admin_def known_tenant_def
  by (auto simp: set_upd_where) (metis image_eqI)+

lemma accounts_ok_add_admin:
  "accounts_ok d \<Longrightarrow> ad_role a \<in> set ROLES \<Longrightarrow> known_tenant d (ad_tenant a) \<Longrightarrow> normalize_email (ad_email a) = ad_email a \<Longrightarrow>
   accounts_ok (d\<lparr>db_admins := db_admins d @ [a]\<rparr>)"
  by (auto simp: accounts_ok_def known_tenant_def)

lemma accounts_ok_add_tenant:
  "accounts_ok d \<Longrightarrow> tn_slug t \<noteq> [] \<Longrightarrow> accounts_ok (d\<lparr>db_tenants := db_tenants d @ [t]\<rparr>)"
  by (auto simp: accounts_ok_def known_tenant_def)

lemma accounts_ok_upd_invites:
  assumes "accounts_ok d"
    and "\<And>x. iv_role (f x) = iv_role x" and "\<And>x. iv_tenant (f x) = iv_tenant x" and "\<And>x. iv_email (f x) = iv_email x"
  shows "accounts_ok (d\<lparr>db_invites := upd_where p f (db_invites d)\<rparr>)"
  using assms by (auto simp: accounts_ok_def known_tenant_def set_upd_where)

lemma accounts_ok_add_invite:
  "accounts_ok d \<Longrightarrow> iv_role x \<in> set INVITABLE_ROLES \<Longrightarrow> known_tenant d (iv_tenant x) \<Longrightarrow>
   normalize_email (iv_email x) = iv_email x \<Longrightarrow> accounts_ok (d\<lparr>db_invites := db_invites d @ [x]\<rparr>)"
  by (auto simp: accounts_ok_def known_tenant_def)

lemma invitable_roles: "r \<in> set INVITABLE_ROLES \<Longrightarrow> r \<in> set ROLES"
  by (auto simp: role_defs ROLES_def)

lemma accounts_ok_create_invite:
  assumes "accounts_ok d" and "known_tenant d tid" and "create_invite sha d i raw now tid a email role = Inr (x, d')"
  shows "accounts_ok d'"
proof -
  let ?d = "d\<lparr>db_invites := revoke_stale tid (normalize_email email) (db_invites d)\<rparr>"
  have "accounts_ok ?d" unfolding revoke_stale_def by (rule accounts_ok_upd_invites [OF assms(1)]) simp_all
  then have "accounts_ok (?d\<lparr>db_invites := db_invites ?d @ [iv]\<rparr>)"
      if "iv_role iv \<in> set INVITABLE_ROLES" "iv_tenant iv = tid" "iv_email iv = normalize_email email" for iv
    by (rule accounts_ok_add_invite) (use that assms(2) in \<open>simp_all add: known_tenant_def\<close>)
  then show ?thesis using assms(3)
    by (auto simp: create_invite_def Let_def insert_unique_def split: sum.splits if_splits)
qed

lemma accounts_ok_accept_invite:
  assumes ok: "accounts_ok d" and run: "accept_invite sha hash_pw d racing i now raw nm pw = Inr (a, d')"
  shows "accounts_ok d'"
proof -
  from run obtain iv where iv: "peek_invite sha d raw now = Some iv"
    by (auto simp: accept_invite_def split: option.splits)
  then have "iv \<in> set (db_invites d)"
    by (auto simp: peek_invite_def find_invite_def find_Some_iff split: option.splits if_splits)
  with ok have good: "iv_role iv \<in> set INVITABLE_ROLES" "known_tenant d (iv_tenant iv)"
      "normalize_email (iv_email iv) = iv_email iv" by (auto simp: accounts_ok_def)
  have "accounts_ok (d\<lparr>db_admins := db_admins d @ [x]\<rparr>)"
      if "ad_role x = iv_role iv" "ad_tenant x = iv_tenant iv" "ad_email x = iv_email iv" for x
    by (rule accounts_ok_add_admin [OF ok]) (use that good invitable_roles in auto)
  then have "accounts_ok (d\<lparr>db_admins := db_admins d @ [x], db_invites := upd_where p f (db_invites d)\<rparr>)"
      if "ad_role x = iv_role iv" "ad_tenant x = iv_tenant iv" "ad_email x = iv_email iv"
        "\<And>x. iv_role (f x) = iv_role x" "\<And>x. iv_tenant (f x) = iv_tenant x" "\<And>x. iv_email (f x) = iv_email x" for x p f
    using accounts_ok_upd_invites [of "d\<lparr>db_admins := db_admins d @ [x]\<rparr>" f p] that by simp
  then show ?thesis using run iv
    by (auto simp: accept_invite_def Let_def insert_unique_def new_admin_def split: sum.splits if_splits option.splits)
qed

lemma accounts_ok_team:
  assumes "accounts_ok d" and "known_tenant d tid"
  shows "accounts_ok (team_step sha hash_pw tid oper d)"
proof (cases oper)
  case (Invite i raw now inviter email role)
  then show ?thesis using assms(1) accounts_ok_create_invite [OF assms, of sha i raw now inviter email role]
    by (cases "create_invite sha d i raw now tid inviter email role") (auto simp: team_step_def)
next
  case (RevokeInvite i)
  then show ?thesis using assms(1)
    by (auto simp: team_step_def revoke_invite_def accounts_ok_upd_invites split: sum.splits option.splits if_splits)
next
  case (AcceptInvite racing i now raw nm pw)
  then show ?thesis using assms(1) accounts_ok_accept_invite [OF assms(1), of sha hash_pw racing i now raw nm pw]
    by (cases "accept_invite sha hash_pw d racing i now raw nm pw") (auto simp: team_step_def)
next
  case (ChangeRole m r)
  have "accounts_ok (set_admin j (\<lambda>x. x\<lparr>ad_role := q\<rparr>) d)" if "q \<in> set INVITABLE_ROLES" for j q
    by (rule accounts_ok_set_admin [OF assms(1)]) (use that invitable_roles in auto)
  then show ?thesis using assms(1) ChangeRole
    by (auto simp: team_step_def change_role_def Let_def split: sum.splits if_splits)
next
  case (RemoveMember m acting)
  have "accounts_ok (set_admin j (\<lambda>x. x\<lparr>ad_active := False\<rparr>) d)" for j
    by (rule accounts_ok_set_admin [OF assms(1)]) auto
  then show ?thesis using assms(1) RemoveMember
    by (auto simp: team_step_def remove_member_def split: sum.splits if_splits)
qed

lemma known_tenant_found: "get_tenant_by_slug d slug = Some t \<Longrightarrow> known_tenant d (tn_id t)"
  by (auto simp: get_tenant_by_slug_def known_tenant_def find_Some_iff)

lemma accounts_ok_admin_effect:
  assumes ok: "accounts_ok (aw_db w)" and eff: "admin_effect hash_pw call a rq w w'"
  shows "accounts_ok (aw_db w')"
proof (cases rq)
  case (ReqCreateTenant i nm slug)
  have "normalize_slug slug \<noteq> []" by (simp add: normalize_slug_def str_or_def)
  then show ?thesis using ReqCreateTenant eff accounts_ok_add_tenant [OF ok] by (auto simp: Let_def new_tenant_def)
next
  case (ReqCreateAdmin i slug email nm pw)
  then show ?thesis using eff
    by (auto intro!: accounts_ok_add_admin [OF ok] simp: new_admin_def ROLES_def known_tenant_found)
next
  case (ReqAssign slug p ty ext display)
  then show ?thesis using eff ok by (auto simp: Let_def accounts_ok_def known_tenant_def)
qed (use eff accounts_ok_set_status [OF ok] in auto)

lemma accounts_ok_signup:
  assumes ok: "accounts_ok d" and rows: "signup_rows call rq d t a d'"
  shows "accounts_ok d'"
proof -
  have "accounts_ok (d\<lparr>db_tenants := db_tenants d @ [t]\<rparr>)"
    using rows by (auto intro: accounts_ok_add_tenant [OF ok] simp: signup_rows_def)
  from accounts_ok_add_admin [OF this, of a] rows show ?thesis
    by (auto simp: signup_rows_def ROLES_def known_tenant_def)
qed

lemma totp_login_admins:
  "verify_totp_login hmac sha d a code now = Inr (b, d') \<Longrightarrow>
   d' = d \<or> (\<exists>f. d' = set_admin (ad_id a) f d \<and> (\<forall>x. ad_role (f x) = ad_role x \<and> ad_tenant (f x) = ad_tenant x \<and> ad_email (f x) = ad_email x))"
  by (auto simp: verify_totp_login_def consume_backup_code_def Let_def
      split: if_splits sum.splits option.splits json_codes.splits bool.splits intro!: exI)

lemma accounts_ok_login:
  assumes "accounts_ok (aw_db w)"
  shows "accounts_ok (aw_db (snd (api_login sign verify_pw hmac sha call email pw code w)))"
proof -
  have touch: "accounts_ok (touch_last_login d a now)" if "accounts_ok d" for d a now
    unfolding touch_last_login_def by (rule accounts_ok_set_admin [OF that]) simp_all
  have totp: "accounts_ok d'" if "accounts_ok d" "verify_totp_login hmac sha d a code now = Inr (b, d')" for d a now b d'
    using totp_login_admins [OF that(2)] accounts_ok_set_admin [OF that(1)] that(1) by auto
  show ?thesis
    using assms totp [OF assms] touch [OF totp [OF assms]] touch [OF assms]
    by (auto simp: api_login_def session_scope_def act_defs split: prod.splits sum.splits option.splits if_splits)
qed

lemma account_step_ok:
  assumes "accounts_ok (aw_db w)"
  shows "accounts_ok (aw_db (account_step v oper w))"
proof (cases oper)
  case (OpSignup call rq)
  obtain r w' where r: "api_signup (ae_cfg v) (ae_sign v) (ae_hash v) call rq w = (r, w')" by force
  show ?thesis using api_signup_run [OF r] r assms OpSignup
    by (auto dest!: signup_adds simp: accounts_ok_signup)
next
  case (OpStaff call rq)
  obtain r w' where r: "admin_route (ae_cfg v) (ae_unsign v) (ae_sha v) (ae_hash v) call rq w = (r, w')" by force
  have guarded: "accounts_ok (aw_db w1)" if "guard_frame w w1" for w1
    using that assms by (auto simp: guard_frame_def accounts_ok_def known_tenant_def)
  from admin_route_run [OF r] have "accounts_ok (aw_db w')"
  proof (elim disjE conjE exE)
    fix a w1 assume "guard_frame w w1" "admin_effect (ae_hash v) call a rq w1 w'"
    then show ?thesis by (intro accounts_ok_admin_effect [OF guarded])
  qed (simp add: assms)
  with r OpStaff show ?thesis by simp
next
  case (OpTeam i oper)
  have "known_tenant (aw_db w) (ad_tenant a)" if "get_admin_by_id (aw_db w) i = Some a" for a
    using that assms by (auto simp: get_admin_by_id_def accounts_ok_def find_Some_iff)
  then show ?thesis using OpTeam assms
    by (auto simp: as_admin_def accounts_ok_team split: option.splits)
next
  case (OpProfile i racing nm email)
  have "accounts_ok (set_admin j (\<lambda>x. x\<lparr>ad_name := n, ad_email := em\<rparr>) (aw_db w))"
      if "normalize_email email = em" for j n em
    by (rule accounts_ok_set_admin [OF assms]) (use that in auto)
  then show ?thesis using OpProfile assms
    by (auto simp: as_admin_def kept_def update_profile_def Let_def split: option.splits)
next
  case (OpPassword i old new)
  have "accounts_ok (set_admin j (\<lambda>x. x\<lparr>ad_pw := h\<rparr>) (aw_db w))" for j h
    by (rule accounts_ok_set_admin [OF assms]) simp_all
  then show ?thesis using OpPassword assms
    by (auto simp: as_admin_def kept_def change_password_def split: option.splits sum.splits)
next
  case (OpLogin call email pw code)
  then show ?thesis using accounts_ok_login [OF assms] by simp
qed


section \<open>A rejected tenant\<close>

text \<open>The audited operations: everything but activate and deactivate, with new tenant ids.\<close>

fun audited_op :: "account_op \<Rightarrow> api_world \<Rightarrow> bool" where
  "audited_op (OpStaff call (ReqActivate slug)) w = False"
| "audited_op (OpStaff call (ReqDeactivate slug)) w = False"
| "audited_op (OpStaff call (ReqCreateTenant i nm slug)) w = (\<not> known_tenant (aw_db w) i)"
| "audited_op (OpSignup call rq) w = (\<not> known_tenant (aw_db w) (sr_tenant_id rq))"
| "audited_op _ w = True"

definition stays_rejected :: "string \<Rightarrow> db \<Rightarrow> bool" where
  "stays_rejected i d \<longleftrightarrow> distinct (map tn_id (db_tenants d)) \<and> status_of d i = Some TENANT_REJECTED"

lemma stays_rejected_cong: "db_tenants d' = db_tenants d \<Longrightarrow> stays_rejected i d' = stays_rejected i d"
  by (simp add: stays_rejected_def status_of_def get_tenant_def)

lemma stays_rejected_append:
  "stays_rejected i d \<Longrightarrow> \<not> known_tenant d (tn_id t) \<Longrightarrow> db_tenants d' = db_tenants d @ [t] \<Longrightarrow> stays_rejected i d'"
  by (auto simp: stays_rejected_def status_of_def get_tenant_def find_append known_tenant_def)

lemma stays_rejected_status:
  assumes "stays_rejected i d" and "get_tenant_by_slug d slug = Some t" and "tn_status t = cmd_from cmd"
  shows "stays_rejected i (set_status (tn_id t) (cmd_to cmd) d)"
proof -
  have "distinct (map tn_id (db_tenants (set_status (tn_id t) (cmd_to cmd) d)))"
    using assms(1) by (simp add: stays_rejected_def set_status_def map_upd_where)
  moreover have "tn_id t \<noteq> i"
  proof
    assume "tn_id t = i"
    then have "status_of d i = Some (cmd_from cmd)"
      using status_of_tenant [OF _ assms(2)] assms(1,3) by (auto simp: stays_rejected_def)
    with assms(1) show False by (cases cmd) (auto simp: stays_rejected_def)
  qed
  ultimately show ?thesis using assms(1) by (simp add: stays_rejected_def status_of_set_status)
qed

lemma stays_rejected_effect:
  assumes "stays_rejected i (aw_db w)" and "audited_op (OpStaff call rq) w" and "admin_effect hash_pw call a rq w w'"
  shows "stays_rejected i (aw_db w')"
  using assms stays_rejected_status [OF assms(1)]
    stays_rejected_append [OF assms(1), of "new_tenant _ _ _" "aw_db w'"] stays_rejected_cong [of "aw_db w'" "aw_db w" i]
  by (cases rq) (auto simp: Let_def new_tenant_def)

lemma team_step_tenants: "db_tenants (team_step sha hash_pw tid oper d) = db_tenants d"
  by (cases oper)
    (auto simp: team_step_def create_invite_def revoke_invite_def accept_invite_def change_role_def remove_member_def
      set_admin_def Let_def insert_unique_def split: sum.splits option.splits if_splits)

lemma login_tenants:
  "db_tenants (aw_db (snd (api_login sign verify_pw hmac sha call email pw code w))) = db_tenants (aw_db w)"
  by (auto simp: api_login_def session_scope_def act_defs touch_last_login_def set_admin_def
      dest!: totp_login_admins split: prod.splits sum.splits option.splits if_splits)

lemma stays_rejected_step:
  assumes "stays_rejected i (aw_db w)" and "audited_op oper w"
  shows "stays_rejected i (aw_db (account_step v oper w))"
proof (cases oper)
  case (OpSignup call rq)
  obtain r w' where r: "api_signup (ae_cfg v) (ae_sign v) (ae_hash v) call rq w = (r, w')" by force
  have "aw_db w' = aw_db w \<or> (\<exists>t a. signup_rows call rq (aw_db w) t a (aw_db w'))"
    using api_signup_run [OF r] by (auto dest!: signup_adds)
  with assms OpSignup r stays_rejected_append [OF assms(1), of _ "aw_db w'"] show ?thesis
    by (auto simp: signup_rows_def)
next
  case (OpStaff call rq)
  obtain r w' where r: "admin_route (ae_cfg v) (ae_unsign v) (ae_sha v) (ae_hash v) call rq w = (r, w')" by force
  have guarded: "stays_rejected i (aw_db w1) \<and> audited_op (OpStaff call rq) w1" if f: "guard_frame w w1" for w1
  proof
    show "stays_rejected i (aw_db w1)" using assms(1) stays_rejected_cong [OF guard_frame_cols(4) [OF f]] by simp
    show "audited_op (OpStaff call rq) w1"
      using assms(2) OpStaff guard_frame_cols(4) [OF f] by (cases rq) (simp_all add: known_tenant_def)
  qed
  from admin_route_run [OF r] have "stays_rejected i (aw_db w')"
  proof (elim disjE conjE exE)
    fix a w1 assume "guard_frame w w1" "admin_effect (ae_hash v) call a rq w1 w'"
    with guarded [of w1] show ?thesis by (blast intro: stays_rejected_effect)
  qed (simp add: assms)
  with r OpStaff show ?thesis by simp
next
  case (OpTeam j oper)
  with assms show ?thesis
    by (auto simp: as_admin_def stays_rejected_cong [OF team_step_tenants] split: option.splits)
next
  case (OpProfile j racing nm email)
  have "db_tenants (kept (aw_db w) (map_sum id snd (update_profile (aw_db w) racing a nm email))) = db_tenants (aw_db w)" for a
    by (auto simp: kept_def update_profile_def Let_def set_admin_def)
  from stays_rejected_cong [OF this] assms OpProfile show ?thesis
    by (auto simp: as_admin_def split: option.splits)
next
  case (OpPassword j old new)
  have "db_tenants (kept (aw_db w) (change_password (ae_hash v) (ae_verify v) (aw_db w) a old new)) = db_tenants (aw_db w)" for a
    by (auto simp: kept_def change_password_def set_admin_def split: sum.splits)
  from stays_rejected_cong [OF this] assms OpPassword show ?thesis
    by (auto simp: as_admin_def split: option.splits)
next
  case (OpLogin call email pw code)
  with assms stays_rejected_cong [OF login_tenants] show ?thesis by simp
qed

text \<open>
  A rejected tenant stays rejected through any sequence of audited operations: sign-ups, the
  lifecycle endpoints, team, profile, password changes and sign-ins.
\<close>

theorem rejection_is_final:
  assumes "account_reach v audited_op w w'" and "distinct (map tn_id (db_tenants (aw_db w)))"
    and "status_of (aw_db w) i = Some TENANT_REJECTED"
  shows "status_of (aw_db w') i = Some TENANT_REJECTED"
proof -
  from assms(1) have "stays_rejected i (aw_db w')"
    by induction (simp add: stays_rejected_def assms(2,3), rule stays_rejected_step)
  then show ?thesis by (simp add: stays_rejected_def)
qed

text \<open>
  The older activate endpoint does revive it: with the rights of platform staff the rejected
  tenant is active afterwards and the audit log has no trace, while reactivate refuses.
\<close>

theorem activate_revives_rejected:
  assumes "api_platform_admin cfg unsign sha call w = (Inr a, w1)"
    and "get_tenant_by_slug (aw_db w) slug = Some t" and "tn_status t = TENANT_REJECTED"
    and "distinct (map tn_id (db_tenants (aw_db w)))"
  shows "let w' = snd (admin_route cfg unsign sha hash_pw call (ReqActivate slug) w) in
      status_of (aw_db w') (tn_id t) = Some TENANT_ACTIVE \<and> aw_audit w' = aw_audit w \<and>
      isl (fst (admin_route cfg unsign sha hash_pw call (ReqStatus Reactivate slug) w))"
proof -
  from assms(1) have "get_current_api_admin cfg unsign sha call w = (Inr a, w1)"
    by (auto simp: api_platform_admin_def act_defs split: prod.splits sum.splits if_splits)
  from api_guard_run [OF this] have f: "guard_frame w w1" by blast
  have t1: "get_tenant_by_slug (aw_db w1) slug = Some t"
    using assms(2) by (simp add: get_tenant_by_slug_def guard_frame_cols [OF f])
  have "status_of (set_status (tn_id t) TENANT_ACTIVE (aw_db w1)) (tn_id t) = Some TENANT_ACTIVE"
    using status_of_tenant [OF assms(4,2)] by (simp add: status_of_set_status guard_frame_status [OF f])
  then show ?thesis
    using assms(1,3) t1 f
    by (simp add: admin_route_def session_scope_def act_defs ignore_def api_activate_tenant_def api_set_status_def
        api_tenant_status_def guard_frame_cols)
qed

section \<open>Witnesses\<close>

definition demo_tenant :: "string \<Rightarrow> tenant_status \<Rightarrow> tenant" where
  "demo_tenant i s = \<lparr>tn_id = i, tn_name = i, tn_slug = i, tn_status = s, tn_plan_id = None, tn_platform = False,
     tn_signup_ip = None\<rparr>"

definition demo_accounts :: db where
  "demo_accounts = empty_db\<lparr>
     db_tenants := [demo_tenant ''hq'' TENANT_ACTIVE, demo_tenant ''t1'' TENANT_REJECTED, demo_tenant ''t2'' TENANT_PENDING],
     db_admins := [new_admin ''root'' ''hq'' ''r@x.y'' ''R'' ''p'' ROLE_PLATFORM_ADMIN 0,
                   new_admin ''o'' ''t2'' ''o@x.y'' ''O'' ''p'' ROLE_OWNER 1]\<rparr>"

definition demo_api :: api_world where
  "demo_api = \<lparr>aw_db = demo_accounts, aw_audit = [], aw_limiter = new_limiter\<rparr>"

definition demo_cfg :: api_settings where
  "demo_cfg = \<lparr>as_rate_per_minute = 300, as_signup_rate = 5, as_max_pending = 10, as_max_pending_ip = 3\<rparr>"

text \<open>The signed token of an administrator is the id itself.\<close>

definition demo_unsign :: unsign where
  "demo_unsign tok now = Some [(''admin_user_id'', tok)]"

definition demo_sign :: sign where
  "demo_sign m = ''s'' @ concat (map fst m)"

definition demo_call :: "string \<Rightarrow> api_call" where
  "demo_call i = \<lparr>ac_method = ''POST'', ac_auth = Some (''Bearer '' @ i), ac_client = Some ''ip'', ac_now = 5, ac_tick = 0\<rparr>"

definition demo_env :: account_env where
  "demo_env = \<lparr>ae_cfg = demo_cfg, ae_sign = demo_sign, ae_unsign = demo_unsign, ae_sha = id, ae_hash = id,
     ae_verify = (\<lambda>a b. a = b), ae_hmac = (\<lambda>_ _. [])\<rparr>"

lemma api_guard_admits_witness:
  "(\<exists>a. fst (get_current_api_admin demo_cfg demo_unsign id (demo_call ''root'') demo_api) = Inr a \<and>
      may_act demo_accounts ''POST'' a) \<and>
   fst (get_current_api_admin demo_cfg demo_unsign id (demo_call ''o'') demo_api) = Inl (HTTPException 403 ''Tenant is not active.'')"
proof
  let ?q = "get_current_api_admin demo_cfg demo_unsign id (demo_call ''root'') demo_api"
  have "\<not> isl (fst ?q)" by code_simp
  then obtain a w' where q: "?q = (Inr a, w')" by (cases ?q) (auto dest!: Inr_of_not_isl)
  have "aw_db demo_api = demo_accounts" "ac_method (demo_call ''root'') = ''POST''"
    by (simp_all add: demo_api_def demo_call_def)
  with api_guard_admits [OF q] q show "\<exists>a. fst ?q = Inr a \<and> may_act demo_accounts ''POST'' a" by auto
  show "fst (get_current_api_admin demo_cfg demo_unsign id (demo_call ''o'') demo_api) = Inl (HTTPException 403 ''Tenant is not active.'')"
    by code_simp
qed

lemma tenant_status_changes_are_authorised_witness:
  "\<exists>a. ad_email a = ''r@x.y'' \<and> ad_role a = ROLE_PLATFORM_ADMIN \<and>
     aw_audit (snd (admin_route demo_cfg demo_unsign id id (demo_call ''root'') (ReqStatus Approve ''t2'') demo_api)) =
       [audit_of a (demo_call ''root'') Approve ''t2'']"
proof -
  let ?q = "admin_route demo_cfg demo_unsign id id (demo_call ''root'') (ReqStatus Approve ''t2'') demo_api"
  have s: "status_of (aw_db demo_api) ''t2'' = Some TENANT_PENDING" by code_simp
  have s': "status_of (aw_db (snd ?q)) ''t2'' = Some TENANT_ACTIVE" by code_simp
  have u: "unique_ok (aw_db demo_api)" by code_simp
  have "?q = (fst ?q, snd ?q)" by simp
  from tenant_status_changes_are_authorised [OF this u s s'] obtain a where a: "a \<in> set (db_admins demo_accounts)"
      "ad_role a = ROLE_PLATFORM_ADMIN" "aw_audit (snd ?q) = [audit_of a (demo_call ''root'') Approve ''t2'']"
    by (auto simp: demo_api_def)
  then have "ad_email a = ''r@x.y''" by (auto simp: demo_accounts_def new_admin_def role_defs)
  with a show ?thesis by blast
qed


lemma rejection_is_final_witness:
  "status_of (aw_db (account_step demo_env (OpStaff (demo_call ''root'') (ReqStatus Reactivate ''t1'')) demo_api)) ''t1'' =
     Some TENANT_REJECTED"
proof (rule rejection_is_final)
  show "account_reach demo_env audited_op demo_api
      (account_step demo_env (OpStaff (demo_call ''root'') (ReqStatus Reactivate ''t1'')) demo_api)"
    by (rule account_reach.step [OF account_reach.start]) simp
  show "distinct (map tn_id (db_tenants (aw_db demo_api)))" by code_simp
  show "status_of (aw_db demo_api) ''t1'' = Some TENANT_REJECTED" by code_simp
qed

lemma activate_revives_rejected_witness:
  "status_of (aw_db (snd (admin_route demo_cfg demo_unsign id id (demo_call ''root'') (ReqActivate ''t1'') demo_api))) ''t1'' =
     Some TENANT_ACTIVE"
proof -
  let ?g = "api_platform_admin demo_cfg demo_unsign id (demo_call ''root'') demo_api"
  have "\<not> isl (fst ?g)" by code_simp
  then obtain a w1 where g: "?g = (Inr a, w1)" by (cases ?g) (auto dest!: Inr_of_not_isl)
  have t: "get_tenant_by_slug (aw_db demo_api) ''t1'' = Some (demo_tenant ''t1'' TENANT_REJECTED)" by code_simp
  have "distinct (map tn_id (db_tenants (aw_db demo_api)))" by code_simp
  from activate_revives_rejected [OF g t _ this, where hash_pw = id] show ?thesis
    by (simp add: demo_tenant_def Let_def)
qed

lemma signup_answer_reveals_accounts_witness:
  "\<exists>tok s w'. api_signup demo_cfg demo_sign id (demo_call []) \<lparr>sr_email = ''O@x.y'', sr_password = ''long enough'',
      sr_org = ''New'', sr_tenant_id = ''t3'', sr_admin_id = ''n'', sr_racing = []\<rparr> demo_api = (Inr (tok, s), w') \<and> tok = []"
proof -
  let ?q = "api_signup demo_cfg demo_sign id (demo_call []) \<lparr>sr_email = ''O@x.y'', sr_password = ''long enough'',
      sr_org = ''New'', sr_tenant_id = ''t3'', sr_admin_id = ''n'', sr_racing = []\<rparr> demo_api"
  have "\<not> isl (fst ?q)" by code_simp
  then obtain tok s w' where q: "?q = (Inr (tok, s), w')" by (cases ?q) (auto dest!: Inr_of_not_isl)
  have e: "get_admin_by_email (aw_db demo_api) ''O@x.y'' \<noteq> None" by code_simp
  from signup_answer_reveals_accounts [OF q] e q show ?thesis by (simp add: demo_sign_def)
qed

end
