(* ===== verification/Oidc.thy ===== *)
theory Oidc
  imports Mail Login
begin

text \<open>
  The OpenID provider for Mailcow (\<^verbatim>\<open>modules/oidc/service.py\<close>, \<^verbatim>\<open>modules/oidc/routes.py\<close>): from the
  console to webmail through a one-time code. The state is the database, the Mailcow client's
  world, the shared TTL cache (codes and access tokens) and the mailbox selected in the
  session. The JWT signature, \<open>urlencode\<close> and the random codes are parameters.
\<close>

section \<open>State\<close>

record oidc_config =
  oi_issuer :: string
  oi_key_pem :: string
  oi_client_id :: string
  oi_client_secret :: string
  oi_redirects_raw :: string
  oi_webmail_url :: string

record oidc_code =
  oc_mailbox :: string
  oc_name :: string
  oc_client :: string
  oc_redirect :: string
  oc_scope :: string
  oc_nonce :: "string option"

datatype oidc_entry = OCode oidc_code | OToken string string

record oidc_world =
  ow_db :: db
  ow_mail :: "mail_cached pworld"
  ow_store :: "oidc_entry ttl_cache"
  ow_selected :: "(string \<times> string) option"

type_synonym 'a otask = "(oidc_world, 'a) sx"

definition CODE_TTL :: int where "CODE_TTL = 300"
definition TOKEN_TTL :: int where "TOKEN_TTL = 600"
definition ID_TOKEN_TTL :: int where "ID_TOKEN_TTL = 600"
definition DEFAULT_MAILCOW_TEMPLATE :: string where "DEFAULT_MAILCOW_TEMPLATE = ''Default''"

definition oidc_redirect_uris :: "oidc_config \<Rightarrow> string list" where
  "oidc_redirect_uris cf = filter (\<lambda>u. u \<noteq> []) (map py_strip (split_on (CHR '','') (oi_redirects_raw cf)))"

definition oidc_configured :: "oidc_config \<Rightarrow> bool" where
  "oidc_configured cf = (oi_issuer cf \<noteq> [] \<and> oi_key_pem cf \<noteq> [] \<and> oi_client_id cf \<noteq> [] \<and>
     oi_client_secret cf \<noteq> [] \<and> oidc_redirect_uris cf \<noteq> [])"

definition oidc_fail :: "string \<Rightarrow> string \<Rightarrow> int \<Rightarrow> 'a otask" where
  "oidc_fail err msg code = act_raise (OIDCError err msg code)"

definition oidc_require_configured :: "oidc_config \<Rightarrow> unit otask" where
  "oidc_require_configured cf =
     (if oidc_configured cf then act_return () else oidc_fail ''temporarily_unavailable'' ''OIDC is not configured.'' 503)"

definition issuer :: "oidc_config \<Rightarrow> string" where
  "issuer cf = rstrip_if (\<lambda>c. c = CHR ''/'') (oi_issuer cf)"

section \<open>Discovery\<close>

definition discovery_document :: "oidc_config \<Rightarrow> jdict" where
  "discovery_document cf = (let base = issuer cf; strs = (\<lambda>xs. JList (map JStr xs)) in
     [(''issuer'', JStr base),
      (''authorization_endpoint'', JStr (base @ ''/oidc/authorize'')),
      (''token_endpoint'', JStr (base @ ''/oidc/token'')),
      (''userinfo_endpoint'', JStr (base @ ''/oidc/userinfo'')),
      (''jwks_uri'', JStr (base @ ''/oidc/jwks'')),
      (''response_types_supported'', strs [''code'']),
      (''grant_types_supported'', strs [''authorization_code'']),
      (''subject_types_supported'', strs [''public'']),
      (''id_token_signing_alg_values_supported'', strs [''RS256'']),
      (''scopes_supported'', strs [''openid'', ''profile'', ''email'', ''mailcow_template'']),
      (''token_endpoint_auth_methods_supported'', strs [''client_secret_post'', ''client_secret_basic'']),
      (''claims_supported'', strs [''sub'', ''email'', ''email_verified'', ''preferred_username'', ''name'',
         ''mailcow_template'', ''aud'', ''iss'', ''iat'', ''exp'', ''nonce''])])"

section \<open>Validation\<close>

definition validate_client_id :: "oidc_config \<Rightarrow> string \<Rightarrow> unit otask" where
  "validate_client_id cf cid =
     (if cid = oi_client_id cf then act_return () else oidc_fail ''unauthorized_client'' ''Unknown client_id.'' 400)"

definition validate_redirect_uri :: "oidc_config \<Rightarrow> string \<Rightarrow> unit otask" where
  "validate_redirect_uri cf uri =
     (if uri \<in> set (oidc_redirect_uris cf) then act_return ()
      else oidc_fail ''invalid_request'' ''redirect_uri is not registered.'' 400)"

text \<open>\<open>secrets.compare_digest\<close> on text takes ASCII only.\<close>

definition compare_digest :: "string \<Rightarrow> string \<Rightarrow> bool result" where
  "compare_digest a b =
     (if list_all (\<lambda>c. ord_of c < 128) (a @ b) then Inr (a = b) else Inl (OtherError ''TypeError''))"

definition validate_client_credentials :: "oidc_config \<Rightarrow> string \<Rightarrow> string \<Rightarrow> unit otask" where
  "validate_client_credentials cf cid secret =
     act_bind (lift (compare_digest cid (oi_client_id cf))) (\<lambda>ok_id.
     act_bind (lift (compare_digest secret (oi_client_secret cf))) (\<lambda>ok_secret.
     if ok_id \<and> ok_secret then act_return () else oidc_fail ''invalid_client'' ''Client authentication failed.'' 401))"

section \<open>Selection of a mailbox\<close>

definition set_selected_mailbox :: "string \<Rightarrow> string \<Rightarrow> unit otask" where
  "set_selected_mailbox u nm w = (Inr (), w\<lparr>ow_selected := Some (u, nm)\<rparr>)"

definition take_selected_mailbox :: "(string \<times> string) option otask" where
  "take_selected_mailbox w = (Inr (ow_selected w), w\<lparr>ow_selected := None\<rparr>)"

definition oidc_mail :: "'a mact \<Rightarrow> 'a otask" where
  "oidc_mail m w = (case m (ow_mail w) of (r, pw) \<Rightarrow> (r, w\<lparr>ow_mail := pw\<rparr>))"

definition oidc_read :: "(db \<Rightarrow> 'a) \<Rightarrow> 'a otask" where
  "oidc_read f w = (Inr (f (ow_db w)), w)"

text \<open>\<open>/oidc/launch\<close>; \<open>tid\<close> is the tenant of the signed-in administrator.\<close>

definition oidc_launch :: "mail_service \<Rightarrow> oidc_config \<Rightarrow> string option \<Rightarrow> string \<Rightarrow> page otask" where
  "oidc_launch sv cf tid mailbox =
     (if \<not> oidc_configured cf \<or> oi_webmail_url cf = [] then act_return (RedirectTo ''/mail'')
      else act_bind (oidc_read (\<lambda>d. mailbox_accessible d tid mailbox))
        (\<lambda>ok. if \<not> ok then act_return (RedirectTo ''/mail'')
           else act_bind (oidc_mail (list_mailboxes (ms_provider sv) (ms_client sv) False))
             (\<lambda>boxes.
               let display = (case find (\<lambda>m. mb_user m = mailbox) boxes of None \<Rightarrow> [] | Some m \<Rightarrow> mb_name m) in
               act_seq (set_selected_mailbox mailbox display) (act_return (RedirectTo (oi_webmail_url cf))))))"

section \<open>Codes\<close>

definition code_key :: "string \<Rightarrow> string" where "code_key code = ''oidc:code:'' @ code"
definition token_key :: "string \<Rightarrow> string" where "token_key tok = ''oidc:at:'' @ tok"

definition store_put :: "string \<Rightarrow> oidc_entry \<Rightarrow> int \<Rightarrow> int \<Rightarrow> unit otask" where
  "store_put k v ttl t w = (Inr (), w\<lparr>ow_store := cache_set (ow_store w) k v ttl t\<rparr>)"

definition store_get :: "string \<Rightarrow> int \<Rightarrow> oidc_entry option otask" where
  "store_get k t w = (case cache_get (ow_store w) k t of (v, c) \<Rightarrow> (Inr v, w\<lparr>ow_store := c\<rparr>))"

definition store_drop :: "string \<Rightarrow> unit otask" where
  "store_drop k w = (Inr (), w\<lparr>ow_store := cache_delete (ow_store w) k\<rparr>)"

definition issue_code :: "oidc_config \<Rightarrow> oidc_code \<Rightarrow> string \<Rightarrow> int \<Rightarrow> string otask" where
  "issue_code cf entry fresh t =
     act_seq (oidc_require_configured cf)
    (act_seq (store_put (code_key fresh) (OCode entry) CODE_TTL t) (act_return fresh))"

section \<open>Authorization\<close>

record authorize_request =
  az_client_id :: string
  az_redirect_uri :: string
  az_response_type :: string
  az_scope :: string
  az_state :: "string option"
  az_nonce :: "string option"

datatype oidc_reply = ORedirect string | OError string string int

definition error_reply :: "oidc_reply otask \<Rightarrow> oidc_reply otask" where
  "error_reply m = act_catch m (\<lambda>e. case e of OIDCError err msg code \<Rightarrow> act_return (OError err msg code) | _ \<Rightarrow> act_raise e)"

definition redirect_with :: "((string \<times> string) list \<Rightarrow> string) \<Rightarrow> string \<Rightarrow> (string \<times> string) list \<Rightarrow> oidc_reply" where
  "redirect_with urlencode uri params =
     ORedirect (uri @ (if CHR ''?'' \<in> set uri then ''&'' else ''?'') @ urlencode params)"

definition redirect_error ::
  "((string \<times> string) list \<Rightarrow> string) \<Rightarrow> authorize_request \<Rightarrow> string \<Rightarrow> string \<Rightarrow> oidc_reply" where
  "redirect_error urlencode rq err descr =
     redirect_with urlencode (az_redirect_uri rq)
       ((''error'', err) # (if or_empty (az_state rq) = [] then [] else [(''state'', or_empty (az_state rq))]) @
        (if descr = [] then [] else [(''error_description'', descr)]))"

definition authorize_checks :: "oidc_config \<Rightarrow> authorize_request \<Rightarrow> unit otask" where
  "authorize_checks cf rq =
     act_seq (oidc_require_configured cf)
    (act_seq (validate_client_id cf (az_client_id rq)) (validate_redirect_uri cf (az_redirect_uri rq)))"

definition authorize_code ::
  "((string \<times> string) list \<Rightarrow> string) \<Rightarrow> oidc_config \<Rightarrow> string option \<Rightarrow> authorize_request \<Rightarrow> string \<Rightarrow> int \<Rightarrow>
   oidc_reply otask" where
  "authorize_code urlencode cf tid rq fresh t =
     (if az_response_type rq \<noteq> ''code'' then act_return (redirect_error urlencode rq ''unsupported_response_type'' [])
      else act_bind take_selected_mailbox
        (\<lambda>sel. case sel of
            None \<Rightarrow> act_return (redirect_error urlencode rq ''access_denied'' ''Open your mailbox from the Tetra console first.'')
          | Some (mailbox, nm) \<Rightarrow>
              act_bind (oidc_read (\<lambda>d. mailbox_accessible d tid mailbox))
                (\<lambda>ok. if \<not> ok then
                     act_return (redirect_error urlencode rq ''access_denied'' ''You no longer have access to this mailbox.'')
                   else act_bind (issue_code cf \<lparr>oc_mailbox = mailbox, oc_name = str_or nm mailbox,
                          oc_client = az_client_id rq, oc_redirect = az_redirect_uri rq, oc_scope = az_scope rq,
                          oc_nonce = az_nonce rq\<rparr> fresh t)
                     (\<lambda>code. act_return (redirect_with urlencode (az_redirect_uri rq)
                        ((''code'', code) # (if or_empty (az_state rq) = [] then []
                           else [(''state'', or_empty (az_state rq))])))))))"

text \<open>Only the checks are under the handler's \<open>try\<close>.\<close>

definition oidc_authorize ::
  "((string \<times> string) list \<Rightarrow> string) \<Rightarrow> oidc_config \<Rightarrow> string option \<Rightarrow> authorize_request \<Rightarrow> string \<Rightarrow> int \<Rightarrow>
   oidc_reply otask" where
  "oidc_authorize urlencode cf tid rq fresh t =
     act_bind (act_catch (act_seq (authorize_checks cf rq) (act_return None))
         (\<lambda>e. case e of OIDCError err msg code \<Rightarrow> act_return (Some (OError err msg code)) | _ \<Rightarrow> act_raise e))
       (\<lambda>r. case r of Some x \<Rightarrow> act_return x | None \<Rightarrow> authorize_code urlencode cf tid rq fresh t)"

section \<open>Tokens\<close>

definition identity_claims :: "string \<Rightarrow> string \<Rightarrow> jdict" where
  "identity_claims mailbox nm =
     [(''email'', JStr mailbox), (''email_verified'', JBool True), (''preferred_username'', JStr mailbox),
      (''name'', JStr (str_or nm mailbox)), (''mailcow_template'', JStr DEFAULT_MAILCOW_TEMPLATE)]"

definition id_token_claims :: "oidc_config \<Rightarrow> string \<Rightarrow> string \<Rightarrow> string \<Rightarrow> string option \<Rightarrow> int \<Rightarrow> jdict" where
  "id_token_claims cf mailbox nm cid nonce iat =
     [(''iss'', JStr (issuer cf)), (''sub'', JStr mailbox), (''aud'', JStr cid), (''azp'', JStr cid), (''iat'', JInt iat),
      (''auth_time'', JInt iat), (''exp'', JInt (iat + ID_TOKEN_TTL))] @ identity_claims mailbox nm @
     (if or_empty nonce = [] then [] else [(''nonce'', JStr (or_empty nonce))])"

record token_response =
  to_access :: string
  to_type :: string
  to_expires :: int
  to_id_token :: string
  to_scope :: string

record token_request =
  tq_grant :: string
  tq_code :: string
  tq_redirect :: string
  tq_client :: string
  tq_secret :: string

text \<open>
  \<open>jwt\<close> signs the claims; \<open>t\<close> is the monotonic clock of the cache, \<open>iat\<close> the wall clock and
  \<open>fresh\<close> the new access token. The client's id and secret come from HTTP Basic or the form.
\<close>

definition redeem_code ::
  "(jdict \<Rightarrow> string) \<Rightarrow> oidc_config \<Rightarrow> token_request \<Rightarrow> string \<Rightarrow> int \<Rightarrow> int \<Rightarrow> token_response otask" where
  "redeem_code jwt cf rq fresh t iat =
     act_bind (store_get (code_key (tq_code rq)) t)
      (\<lambda>e. case e of
          Some (OCode entry) \<Rightarrow>
            act_seq (store_drop (code_key (tq_code rq)))
             (if oc_client entry \<noteq> tq_client rq then oidc_fail ''invalid_grant'' ''Code was issued to a different client.'' 400
              else if oc_redirect entry \<noteq> tq_redirect rq then oidc_fail ''invalid_grant'' ''redirect_uri mismatch.'' 400
              else (let nm = str_or (oc_name entry) (oc_mailbox entry) in
                act_seq (store_put (token_key fresh) (OToken (oc_mailbox entry) nm) TOKEN_TTL t)
                  (act_return \<lparr>to_access = fresh, to_type = ''Bearer'', to_expires = TOKEN_TTL,
                     to_id_token = jwt (id_token_claims cf (oc_mailbox entry) nm (tq_client rq) (oc_nonce entry) iat),
                     to_scope = str_or (oc_scope entry) ''openid''\<rparr>)))
        | _ \<Rightarrow> oidc_fail ''invalid_grant'' ''Authorization code is invalid or expired.'' 400)"

definition exchange_code ::
  "(jdict \<Rightarrow> string) \<Rightarrow> oidc_config \<Rightarrow> token_request \<Rightarrow> string \<Rightarrow> int \<Rightarrow> int \<Rightarrow> token_response otask" where
  "exchange_code jwt cf rq fresh t iat =
     act_seq (oidc_require_configured cf)
    (act_seq (validate_client_credentials cf (tq_client rq) (tq_secret rq)) (redeem_code jwt cf rq fresh t iat))"

definition oidc_token ::
  "(jdict \<Rightarrow> string) \<Rightarrow> oidc_config \<Rightarrow> token_request \<Rightarrow> string \<Rightarrow> int \<Rightarrow> int \<Rightarrow> token_response otask" where
  "oidc_token jwt cf rq fresh t iat =
     (if tq_grant rq \<noteq> ''authorization_code''
      then oidc_fail ''unsupported_grant_type'' ''Only authorization_code is supported.'' 400
      else exchange_code jwt cf rq fresh t iat)"

definition userinfo :: "oidc_config \<Rightarrow> string \<Rightarrow> int \<Rightarrow> jdict otask" where
  "userinfo cf tok t =
     act_seq (oidc_require_configured cf)
    (act_bind (store_get (token_key tok) t)
      (\<lambda>e. case e of
          Some (OToken mailbox nm) \<Rightarrow> act_return ((''sub'', JStr mailbox) # identity_claims mailbox (str_or nm mailbox))
        | _ \<Rightarrow> oidc_fail ''invalid_token'' ''Access token is invalid or expired.'' 401))"

definition oidc_userinfo :: "oidc_config \<Rightarrow> string \<Rightarrow> int \<Rightarrow> jdict otask" where
  "oidc_userinfo cf header t =
     (if starts_with ''Bearer '' header then userinfo cf (py_strip (drop 7 header)) t
      else oidc_fail ''invalid_token'' ''Missing bearer token.'' 401)"

end
