(* ===== verification/OidcSafety.thy ===== *)
theory OidcSafety
  imports Oidc
begin

text \<open>
  What the OpenID provider guarantees: a code is good once and for a few minutes, a token names
  a mailbox that the tenant of the authorization had, and the way from the console to webmail
  works for it.
\<close>

section \<open>Runs of the endpoints\<close>

lemmas oidc_act_defs = act_bind_def act_seq_def act_return_def act_raise_def act_catch_def oidc_fail_def lift_def

abbreviation live_code :: "oidc_world \<Rightarrow> int \<Rightarrow> string \<Rightarrow> oidc_entry option" where
  "live_code w t k \<equiv> ttl.live (ow_store w) t k"

lemma keys_differ [simp]: "token_key a \<noteq> code_key b" "code_key b \<noteq> token_key a"
  by (simp_all add: token_key_def code_key_def)

lemma code_key_inject [simp]: "code_key a = code_key b \<longleftrightarrow> a = b"
  by (simp add: code_key_def)

lemma token_key_inject [simp]: "token_key a = token_key b \<longleftrightarrow> a = b"
  by (simp add: token_key_def)

lemma store_get_run: "store_get k t w = (Inr (ttl.live (ow_store w) t k), w\<lparr>ow_store := snd (cache_get (ow_store w) k t)\<rparr>)"
  by (simp add: store_get_def ttl.live_def split: prod.splits)

lemma live_after_get: "t \<le> t' \<Longrightarrow> ttl.live (snd (cache_get s k t)) t' k' = ttl.live s t' k'"
  by (simp add: ttl.live_def ttl.get_state)

lemma credentials_run:
  assumes "validate_client_credentials cf cid secret w = (Inr u, w')"
  shows "w' = w \<and> cid = oi_client_id cf \<and> secret = oi_client_secret cf"
  using assms
  by (auto simp: validate_client_credentials_def oidc_act_defs compare_digest_def split: sum.splits if_splits)

lemma credentials_fail:
  assumes "validate_client_credentials cf cid secret w = (Inl e, w')"
  shows "w' = w"
  using assms
  by (auto simp: validate_client_credentials_def oidc_act_defs compare_digest_def split: sum.splits if_splits)

text \<open>What an exchange does: refused early, or the code is gone and, if all agrees, a token stored.\<close>

lemma exchange_run:
  assumes "exchange_code jwt cf rq fresh t iat w = (r, w')"
  shows "((\<exists>e. r = Inl e) \<and> w' = w) \<or>
    (let s = snd (cache_get (ow_store w) (code_key (tq_code rq)) t) in
      (\<exists>e. r = Inl e) \<and> (w' = w\<lparr>ow_store := s\<rparr> \<or> w' = w\<lparr>ow_store := cache_delete s (code_key (tq_code rq))\<rparr>) \<or>
      (\<exists>entry. live_code w t (code_key (tq_code rq)) = Some (OCode entry) \<and>
        tq_client rq = oi_client_id cf \<and> tq_secret rq = oi_client_secret cf \<and> oc_client entry = tq_client rq \<and>
        oc_redirect entry = tq_redirect rq \<and>
        (\<exists>resp. r = Inr resp \<and> to_id_token resp = jwt (id_token_claims cf (oc_mailbox entry)
           (str_or (oc_name entry) (oc_mailbox entry)) (tq_client rq) (oc_nonce entry) iat) \<and> to_access resp = fresh) \<and>
        w' = w\<lparr>ow_store := cache_set (cache_delete s (code_key (tq_code rq))) (token_key fresh)
          (OToken (oc_mailbox entry) (str_or (oc_name entry) (oc_mailbox entry))) TOKEN_TTL t\<rparr>))"
proof (cases "oidc_configured cf")
  case False
  with assms show ?thesis by (auto simp: exchange_code_def oidc_require_configured_def oidc_act_defs)
next
  case True
  obtain q w1 where q: "validate_client_credentials cf (tq_client rq) (tq_secret rq) w = (q, w1)" by force
  show ?thesis
  proof (cases q)
    case (Inl e)
    with assms True q credentials_fail [of cf _ _ w e w1] show ?thesis
      by (auto simp: exchange_code_def oidc_require_configured_def oidc_act_defs)
  next
    case (Inr u)
    with credentials_run q have c: "w1 = w" "tq_client rq = oi_client_id cf" "tq_secret rq = oi_client_secret cf" by blast+
    have run: "redeem_code jwt cf rq fresh t iat w = (r, w')"
      using assms True q Inr c(1) by (simp add: exchange_code_def oidc_require_configured_def oidc_act_defs)
    show ?thesis
    proof (cases "\<exists>entry. live_code w t (code_key (tq_code rq)) = Some (OCode entry)")
      case True
      then show ?thesis using run c(2,3)
        by (auto simp: redeem_code_def store_get_run oidc_act_defs store_drop_def store_put_def Let_def split: if_splits)
    next
      case False
      then show ?thesis using run
        by (auto simp: redeem_code_def store_get_run oidc_act_defs Let_def split: option.splits oidc_entry.splits)
    qed
  qed
qed

text \<open>A successful authorization stores one entry, for the mailbox it has just verified.\<close>

definition grants :: "oidc_config \<Rightarrow> string option \<Rightarrow> authorize_request \<Rightarrow> oidc_world \<Rightarrow> oidc_code \<Rightarrow> bool" where
  "grants cf tid rq w e \<longleftrightarrow> oidc_configured cf \<and> mailbox_accessible (ow_db w) tid (oc_mailbox e) \<and>
     ow_selected w \<noteq> None \<and> oc_mailbox e = fst (the (ow_selected w)) \<and>
     oc_client e = oi_client_id cf \<and> oc_redirect e = az_redirect_uri rq \<and> az_redirect_uri rq \<in> set (oidc_redirect_uris cf)"

lemma authorize_checks_run:
  "authorize_checks cf rq w = (r, w') \<Longrightarrow> w' = w \<and> (r = Inr () \<longrightarrow> oidc_configured cf \<and>
     az_client_id rq = oi_client_id cf \<and> az_redirect_uri rq \<in> set (oidc_redirect_uris cf))"
  by (auto simp: authorize_checks_def oidc_require_configured_def validate_client_id_def validate_redirect_uri_def
      oidc_act_defs split: if_splits)

lemma authorize_run:
  assumes "oidc_authorize urlencode cf tid rq fresh t w = (r, w')"
  shows "ow_db w' = ow_db w \<and> (ow_store w' = ow_store w \<or>
    (\<exists>e. grants cf tid rq w e \<and> ow_store w' = cache_set (ow_store w) (code_key fresh) (OCode e) CODE_TTL t))"
proof -
  obtain q w1 where q: "authorize_checks cf rq w = (q, w1)" by force
  note checks = authorize_checks_run [OF q]
  show ?thesis
  proof (cases q)
    case (Inl e)
    with assms q checks show ?thesis
      by (auto simp: oidc_authorize_def oidc_act_defs split: exn.splits)
  next
    case (Inr u)
    with assms q checks have run: "authorize_code urlencode cf tid rq fresh t w = (r, w')"
      by (auto simp: oidc_authorize_def oidc_act_defs)
    show ?thesis
    proof (cases "az_response_type rq = ''code'' \<and> (\<exists>m nm. ow_selected w = Some (m, nm) \<and> mailbox_accessible (ow_db w) tid m)")
      case False
      then show ?thesis using run
        by (auto simp: authorize_code_def oidc_act_defs take_selected_mailbox_def oidc_read_def
            split: option.splits if_splits)
    next
      case True
      then obtain m nm where m: "ow_selected w = Some (m, nm)" "mailbox_accessible (ow_db w) tid m" by blast
      let ?e = "\<lparr>oc_mailbox = m, oc_name = str_or nm m, oc_client = az_client_id rq, oc_redirect = az_redirect_uri rq,
          oc_scope = az_scope rq, oc_nonce = az_nonce rq\<rparr>"
      have "ow_db w' = ow_db w \<and> ow_store w' = cache_set (ow_store w) (code_key fresh) (OCode ?e) CODE_TTL t"
        using run checks Inr True m
        by (auto simp: authorize_code_def oidc_act_defs take_selected_mailbox_def oidc_read_def issue_code_def
            oidc_require_configured_def store_put_def)
      moreover have "grants cf tid rq w ?e" using checks Inr m by (simp add: grants_def)
      ultimately show ?thesis by blast
    qed
  qed
qed

section \<open>Sequences of requests\<close>

text \<open>
  Requests of any browsers and of Mailcow, at the given times: a launch or an authorization by
  an administrator of a tenant, an exchange, a userinfo request; between them another browser
  session or another state of the database may be the current one.
\<close>

datatype oidc_event =
    EvLaunch "string option" string int
  | EvAuthorize "string option" authorize_request string int
  | EvToken token_request string int int
  | EvUserinfo string int
  | EvSession "(string \<times> string) option" int
  | EvDatabase db int

fun ev_time :: "oidc_event \<Rightarrow> int" where
  "ev_time (EvLaunch tid m t) = t"
| "ev_time (EvAuthorize tid rq fresh t) = t"
| "ev_time (EvToken rq fresh t iat) = t"
| "ev_time (EvUserinfo h t) = t"
| "ev_time (EvSession sel t) = t"
| "ev_time (EvDatabase d t) = t"

record oidc_env =
  oe_mail :: mail_service
  oe_config :: oidc_config
  oe_urlencode :: "(string \<times> string) list \<Rightarrow> string"
  oe_jwt :: "jdict \<Rightarrow> string"

fun oidc_step :: "oidc_env \<Rightarrow> oidc_event \<Rightarrow> oidc_world \<Rightarrow> oidc_world" where
  "oidc_step v (EvLaunch tid m t) w = snd (oidc_launch (oe_mail v) (oe_config v) tid m w)"
| "oidc_step v (EvAuthorize tid rq fresh t) w = snd (oidc_authorize (oe_urlencode v) (oe_config v) tid rq fresh t w)"
| "oidc_step v (EvToken rq fresh t iat) w = snd (oidc_token (oe_jwt v) (oe_config v) rq fresh t iat w)"
| "oidc_step v (EvUserinfo h t) w = snd (oidc_userinfo (oe_config v) h t w)"
| "oidc_step v (EvSession sel t) w = w\<lparr>ow_selected := sel\<rparr>"
| "oidc_step v (EvDatabase d t) w = w\<lparr>ow_db := d\<rparr>"

definition run_oidc :: "oidc_env \<Rightarrow> oidc_event list \<Rightarrow> oidc_world \<Rightarrow> oidc_world" where
  "run_oidc v = fold (oidc_step v)"

lemma launch_store: "ow_store (snd (oidc_launch sv cf tid m w)) = ow_store w"
  by (auto simp: oidc_launch_def oidc_act_defs oidc_read_def oidc_mail_def set_selected_mailbox_def
      split: prod.splits sum.splits)

lemma userinfo_store:
  "ow_store (snd (oidc_userinfo cf h t w)) = ow_store w \<or>
   (\<exists>k. ow_store (snd (oidc_userinfo cf h t w)) = snd (cache_get (ow_store w) k t))"
  by (auto simp: oidc_userinfo_def userinfo_def oidc_require_configured_def oidc_act_defs store_get_run
      split: option.splits oidc_entry.splits)

text \<open>How a step changes what is stored under a code.\<close>

fun issues :: "string \<Rightarrow> oidc_event \<Rightarrow> bool" where
  "issues code (EvAuthorize tid rq fresh t) = (fresh = code)"
| "issues code _ = False"

lemma token_step_live:
  assumes "t \<le> t'"
  shows "live_code (snd (oidc_token jwt cf rq fresh t iat w)) t' (code_key c) \<in> {None, live_code w t' (code_key c)}"
proof (cases "tq_grant rq = ''authorization_code''")
  case False
  then show ?thesis by (simp add: oidc_token_def oidc_act_defs)
next
  case True
  obtain r w' where r: "exchange_code jwt cf rq fresh t iat w = (r, w')" by force
  have "live_code w' t' (code_key c) \<in> {None, live_code w t' (code_key c)}"
    using exchange_run [OF r] assms
    by (auto simp: Let_def live_after_get ttl.live_delete ttl.live_put)
  with True r show ?thesis by (simp add: oidc_token_def)
qed

lemma step_live:
  assumes "\<not> issues c ev" and "ev_time ev \<le> t"
  shows "live_code (oidc_step v ev w) t (code_key c) \<in> {None, live_code w t (code_key c)}"
proof (cases ev)
  case (EvAuthorize tid rq fresh t1)
  obtain r w' where r: "oidc_authorize (oe_urlencode v) (oe_config v) tid rq fresh t1 w = (r, w')" by force
  from authorize_run [OF r] assms(1) EvAuthorize r show ?thesis by (auto simp: ttl.live_put)
next
  case (EvUserinfo h t1)
  then show ?thesis using userinfo_store [of "oe_config v" h t1 w] assms(2) by (auto simp: live_after_get)
qed (use assms token_step_live in \<open>auto simp: launch_store\<close>)

lemma run_gone:
  "\<forall>ev\<in>set evs. \<not> issues c ev \<and> ev_time ev \<le> t \<Longrightarrow> live_code w t (code_key c) = None \<Longrightarrow>
   live_code (run_oidc v evs w) t (code_key c) = None"
proof (induction evs arbitrary: w)
  case (Cons ev evs)
  then show ?case using step_live [of c ev t v w] by (auto simp: run_oidc_def)
qed (simp add: run_oidc_def)

lemma exchange_needs_code:
  assumes "exchange_code jwt cf rq fresh t iat w = (Inr resp, w')"
  shows "\<exists>entry. live_code w t (code_key (tq_code rq)) = Some (OCode entry)"
  using exchange_run [OF assms] by (auto simp: Let_def)

section \<open>Properties\<close>

text \<open>
  A code is good once: after an exchange that returned a token, every later exchange of the
  same code fails, whatever happens in between, unless the code is issued anew.
\<close>

theorem webmail_code_is_single_use:
  assumes "exchange_code jwt cf rq fresh t iat w = (Inr resp, w')"
    and "\<forall>ev\<in>set evs. \<not> issues (tq_code rq) ev \<and> ev_time ev \<le> t'" and "t \<le> t'"
    and "tq_code rq' = tq_code rq"
  shows "isl (fst (exchange_code jwt cf rq' fresh' t' iat' (run_oidc v evs w')))"
proof (rule ccontr)
  assume "\<not> isl (fst (exchange_code jwt cf rq' fresh' t' iat' (run_oidc v evs w')))"
  then obtain resp' w2 where "exchange_code jwt cf rq' fresh' t' iat' (run_oidc v evs w') = (Inr resp', w2)"
    by (cases "exchange_code jwt cf rq' fresh' t' iat' (run_oidc v evs w')") (auto dest!: Inr_of_not_isl)
  from exchange_needs_code [OF this] obtain entry where
    "live_code (run_oidc v evs w') t' (code_key (tq_code rq)) = Some (OCode entry)" using assms(4) by auto
  moreover have "live_code w' t' (code_key (tq_code rq)) = None"
    using exchange_run [OF assms(1)] by (auto simp: Let_def ttl.live_put ttl.live_delete)
  then have "live_code (run_oidc v evs w') t' (code_key (tq_code rq)) = None"
    by (rule run_gone [OF assms(2)])
  ultimately show False by simp
qed

lemma live_empty: "ttl.live [] t k = None"
  unfolding ttl.live_def by (simp add: fst_cache_get)

lemma live_code_granted:
  assumes "live_code (run_oidc v evs w) t (code_key c) = Some (OCode e)"
    and "ow_store w = []" and "\<forall>ev\<in>set evs. ev_time ev \<le> t"
  shows "\<exists>pre tid arq t0 post. evs = pre @ EvAuthorize tid arq c t0 # post \<and>
    grants (oe_config v) tid arq (run_oidc v pre w) e \<and> t < t0 + CODE_TTL * NS"
  using assms(1,3)
proof (induction evs rule: rev_induct)
  case Nil
  with assms(2) show ?case by (simp add: run_oidc_def live_empty)
next
  case (snoc ev evs)
  let ?w = "run_oidc v evs w"
  have run: "run_oidc v (evs @ [ev]) w = oidc_step v ev ?w" by (simp add: run_oidc_def)
  have older: ?case if "live_code ?w t (code_key c) = Some (OCode e)"
  proof -
    from snoc.IH [OF that] snoc.prems(2) obtain pre tid arq t0 post where
      "evs = pre @ EvAuthorize tid arq c t0 # post" "grants (oe_config v) tid arq (run_oidc v pre w) e"
      "t < t0 + CODE_TTL * NS" by auto
    then show ?thesis
      by (intro exI [of _ pre] exI [of _ tid] exI [of _ arq] exI [of _ t0] exI [of _ "post @ [ev]"]) simp
  qed
  show ?case
  proof (cases "issues c ev")
    case False
    with step_live [OF False, of t v ?w] snoc.prems run older show ?thesis by auto
  next
    case True
    then obtain tid arq t0 where ev: "ev = EvAuthorize tid arq c t0" by (cases ev) auto
    obtain r w' where r: "oidc_authorize (oe_urlencode v) (oe_config v) tid arq c t0 ?w = (r, w')" by force
    have now: "ttl.live (ow_store w') t (code_key c) = Some (OCode e)"
      using snoc.prems(1) run ev r by simp
    from authorize_run [OF r] consider "ow_store w' = ow_store ?w"
      | x where "grants (oe_config v) tid arq ?w x" "ow_store w' = cache_set (ow_store ?w) (code_key c) (OCode x) CODE_TTL t0"
      by blast
    then show ?thesis
    proof cases
      case 1
      with now older show ?thesis by simp
    next
      case 2
      with now have "x = e" "t < t0 + CODE_TTL * NS" by (auto simp: ttl.live_put split: if_splits)
      with 2 ev show ?thesis by blast
    qed
  qed
qed

text \<open>
  C37. A token is issued only for a mailbox that the tenant of an authorization in the last five
  minutes could open, as the database was at that moment, and only to the registered client at
  the redirect address of that authorization.
\<close>

theorem webmail_tokens_are_granted:
  assumes "exchange_code (oe_jwt v) (oe_config v) rq fresh t iat (run_oidc v evs w) = (Inr resp, w')"
    and "ow_store w = []" and "\<forall>ev\<in>set evs. ev_time ev \<le> t"
  shows "\<exists>pre tid arq t0 post e. evs = pre @ EvAuthorize tid arq (tq_code rq) t0 # post \<and>
      grants (oe_config v) tid arq (run_oidc v pre w) e \<and> t < t0 + CODE_TTL * NS \<and>
      tq_client rq = oi_client_id (oe_config v) \<and> tq_redirect rq = az_redirect_uri arq \<and>
      to_id_token resp = oe_jwt v (id_token_claims (oe_config v) (oc_mailbox e) (str_or (oc_name e) (oc_mailbox e))
        (tq_client rq) (oc_nonce e) iat)"
proof -
  from exchange_run [OF assms(1)] obtain e where e:
      "live_code (run_oidc v evs w) t (code_key (tq_code rq)) = Some (OCode e)"
      "tq_client rq = oi_client_id (oe_config v)" "oc_redirect e = tq_redirect rq"
      "to_id_token resp = oe_jwt v (id_token_claims (oe_config v) (oc_mailbox e) (str_or (oc_name e) (oc_mailbox e))
        (tq_client rq) (oc_nonce e) iat)"
    by (auto simp: Let_def)
  from live_code_granted [OF e(1) assms(2,3)] obtain pre tid arq t0 post where
      p: "evs = pre @ EvAuthorize tid arq (tq_code rq) t0 # post" "grants (oe_config v) tid arq (run_oidc v pre w) e"
      "t < t0 + CODE_TTL * NS" by blast
  then have "tq_redirect rq = az_redirect_uri arq" using e(3) by (simp add: grants_def)
  with e p show ?thesis by blast
qed

definition webmail_way ::
  "oidc_env \<Rightarrow> string option \<Rightarrow> string \<Rightarrow> authorize_request \<Rightarrow> string \<Rightarrow> int \<Rightarrow> token_request \<Rightarrow> string \<Rightarrow> int \<Rightarrow> int \<Rightarrow>
   int \<Rightarrow> jdict otask" where
  "webmail_way v tid m arq code t1 rq tok t2 iat t3 =
     act_seq (oidc_launch (oe_mail v) (oe_config v) tid m)
    (act_seq (oidc_authorize (oe_urlencode v) (oe_config v) tid arq code t1)
    (act_seq (oidc_token (oe_jwt v) (oe_config v) rq tok t2 iat)
      (oidc_userinfo (oe_config v) (''Bearer '' @ tok) t3)))"


section \<open>Witnesses\<close>

definition demo_oidc :: oidc_env where
  "demo_oidc = \<lparr>
     oe_mail = \<lparr>ms_actions = True, ms_client = make_mailcow [] [] 60,
        ms_provider = \<lparr>pd_attempt = (\<lambda>_ _. Answer \<lparr>hr_status = 200, hr_text = [], hr_retry_after = None\<rparr>),
          pd_parse = (\<lambda>_. None), pd_clock = (\<lambda>_. 0)\<rparr>,
        ms_hostname = [], ms_spf = [], ms_dmarc = [], ms_relayhost = [], ms_dns_configured = False, ms_zones = Inr [],
        ms_cloudflare = (\<lambda>_ _. Inr ()), ms_ci = False\<rparr>,
     oe_config = \<lparr>oi_issuer = ''https://t/'', oi_key_pem = ''k'', oi_client_id = ''mc'', oi_client_secret = ''s'',
        oi_redirects_raw = ''https://m/cb'', oi_webmail_url = ''https://m/''\<rparr>,
     oe_urlencode = (\<lambda>ps. concat (map snd ps)), oe_jwt = (\<lambda>c. jrepr (JObj c))\<rparr>"

definition demo_oidc_world :: oidc_world where
  "demo_oidc_world = \<lparr>ow_db = empty_db\<lparr>db_resources := [mail_resource ''t1'' RESOURCE_TYPE_MAILBOX ''a@b.c'']\<rparr>,
     ow_mail = \<lparr>pw_sent = [], pw_cache = []\<rparr>, ow_store = [], ow_selected = None\<rparr>"

definition demo_authorize :: authorize_request where
  "demo_authorize = \<lparr>az_client_id = ''mc'', az_redirect_uri = ''https://m/cb'', az_response_type = ''code'',
     az_scope = ''openid'', az_state = Some ''st'', az_nonce = None\<rparr>"

definition demo_exchange :: token_request where
  "demo_exchange = \<lparr>tq_grant = ''authorization_code'', tq_code = ''c'', tq_redirect = ''https://m/cb'', tq_client = ''mc'',
     tq_secret = ''s''\<rparr>"

definition demo_events :: "oidc_event list" where
  "demo_events = [EvLaunch (Some ''t1'') ''a@b.c'' 0, EvAuthorize (Some ''t1'') demo_authorize ''c'' 1]"


lemma demo_exchange_ok:
  "\<exists>resp w'. exchange_code (oe_jwt demo_oidc) (oe_config demo_oidc) demo_exchange ''at'' 2 0
     (run_oidc demo_oidc demo_events demo_oidc_world) = (Inr resp, w')"
proof -
  let ?q = "exchange_code (oe_jwt demo_oidc) (oe_config demo_oidc) demo_exchange ''at'' 2 0
     (run_oidc demo_oidc demo_events demo_oidc_world)"
  have "\<not> isl (fst ?q)" by code_simp
  then show ?thesis by (cases ?q) (auto dest!: Inr_of_not_isl)
qed

lemma webmail_tokens_are_granted_witness:
  "\<exists>pre tid arq t0 post e. demo_events = pre @ EvAuthorize tid arq ''c'' t0 # post \<and>
     grants (oe_config demo_oidc) tid arq (run_oidc demo_oidc pre demo_oidc_world) e"
proof -
  obtain resp w' where r: "exchange_code (oe_jwt demo_oidc) (oe_config demo_oidc) demo_exchange ''at'' 2 0
     (run_oidc demo_oidc demo_events demo_oidc_world) = (Inr resp, w')" using demo_exchange_ok by blast
  have s: "ow_store demo_oidc_world = []" by (simp add: demo_oidc_world_def)
  have t: "\<forall>ev\<in>set demo_events. ev_time ev \<le> 2" by (simp add: demo_events_def)
  have c: "tq_code demo_exchange = ''c''" by (simp add: demo_exchange_def)
  from webmail_tokens_are_granted [OF r s t] show ?thesis unfolding c by blast
qed

lemma webmail_code_is_single_use_witness:
  "\<exists>resp w'. exchange_code (oe_jwt demo_oidc) (oe_config demo_oidc) demo_exchange ''at'' 2 0
      (run_oidc demo_oidc demo_events demo_oidc_world) = (Inr resp, w') \<and>
     isl (fst (exchange_code (oe_jwt demo_oidc) (oe_config demo_oidc) demo_exchange ''at2'' 4 0
       (run_oidc demo_oidc [EvUserinfo ''Bearer at'' 3] w')))"
proof -
  obtain resp w' where r: "exchange_code (oe_jwt demo_oidc) (oe_config demo_oidc) demo_exchange ''at'' 2 0
     (run_oidc demo_oidc demo_events demo_oidc_world) = (Inr resp, w')" using demo_exchange_ok by blast
  have "isl (fst (exchange_code (oe_jwt demo_oidc) (oe_config demo_oidc) demo_exchange ''at2'' 4 0
       (run_oidc demo_oidc [EvUserinfo ''Bearer at'' 3] w')))"
    by (rule webmail_code_is_single_use [OF r]) simp_all
  with r show ?thesis by blast
qed

end
