(* ===== verification/Sso.thy ===== *)
theory Sso
  imports Provider Deploys Auth
begin

text \<open>
  Single sign-on through a tenant's own OpenID provider (\<^verbatim>\<open>modules/sso/service.py\<close>). The state
  is the database, the process-wide cache of discovery documents and the requests sent to the
  provider. The answers, the JSON decoder, Fernet, the signed state (itsdangerous) and
  \<open>urlencode\<close> are parameters.
\<close>

section \<open>State and requests\<close>

datatype sso_request = SDiscover string | SToken string "(string \<times> string) list" | SUserinfo string string

record sso_world =
  xw_db :: db
  xw_docs :: "(string \<times> jdict) list"
  xw_sent :: "sso_request list"

type_synonym 'a xtask = "(sso_world, 'a) sx"

text \<open>\<open>unsign\<close>: the payload of a state with a good signature, if it is young enough.\<close>

datatype state_token = BadSignature | SignatureExpired | Signed "(string \<times> string) list"

record sso_env =
  xe_attempt :: "sso_request list \<Rightarrow> int \<Rightarrow> attempt"
  xe_parse :: "string \<Rightarrow> json option"
  xe_encrypt :: "string \<Rightarrow> string"
  xe_fernet :: "string \<Rightarrow> string option"
  xe_sign :: "(string \<times> string) list \<Rightarrow> string"
  xe_unsign :: "string \<Rightarrow> int \<Rightarrow> state_token"
  xe_urlencode :: "(string \<times> string) list \<Rightarrow> string"
  xe_hash :: "string \<Rightarrow> string"

definition sso_fail :: "string \<Rightarrow> int \<Rightarrow> 'a xtask" where
  "sso_fail msg code = act_raise (SSOError msg code)"

definition sso_call :: "sso_env \<Rightarrow> int \<Rightarrow> sso_request \<Rightarrow> json xtask" where
  "sso_call v n rq w = (let h = xw_sent w @ [rq] in
     (snd (request_json (JObj []) (xe_parse v) ''OIDC'' (xe_attempt v h) n), w\<lparr>xw_sent := h\<rparr>))"

text \<open>A ProviderAPIError becomes an SSOError, another exception passes.\<close>

definition sso_wrap :: "json xtask \<Rightarrow> string \<Rightarrow> int \<Rightarrow> json xtask" where
  "sso_wrap m msg code = act_catch m (\<lambda>e. case e of ProviderAPIError s t c \<Rightarrow> sso_fail msg code | _ \<Rightarrow> act_raise e)"

definition sso_read :: "(db \<Rightarrow> 'a) \<Rightarrow> 'a xtask" where
  "sso_read f w = (Inr (f (xw_db w)), w)"

section \<open>Configuration\<close>

definition get_config :: "db \<Rightarrow> string \<Rightarrow> sso_config option" where
  "get_config d tid = find (\<lambda>c. sc_tenant c = tid) (db_ssos d)"

definition allowed_domain_list :: "sso_config \<Rightarrow> string list" where
  "allowed_domain_list c =
     map py_lower (filter (\<lambda>x. x \<noteq> []) (map py_strip (split_on (CHR '','') (sc_domains c))))"

record sso_form =
  sf_issuer :: string
  sf_client_id :: string
  sf_secret :: "string option"
  sf_domains :: string
  sf_role :: string
  sf_label :: string
  sf_enabled :: bool

definition form_issuer :: "sso_form \<Rightarrow> string" where
  "form_issuer f = rstrip_if (\<lambda>c. c = CHR ''/'') (py_strip (sf_issuer f))"

text \<open>A blank secret keeps the stored one.\<close>

definition apply_form :: "(string \<Rightarrow> string) \<Rightarrow> sso_form \<Rightarrow> sso_config \<Rightarrow> sso_config" where
  "apply_form enc f c =
     c\<lparr>sc_issuer := form_issuer f, sc_client_id := py_strip (sf_client_id f),
       sc_secret_enc := (if or_empty (sf_secret f) = [] then sc_secret_enc c else enc (or_empty (sf_secret f))),
       sc_domains := py_strip (sf_domains f), sc_role := sf_role f,
       sc_label := py_strip (str_or (sf_label f) ''OpenID Connect''), sc_enabled := sf_enabled f\<rparr>"

definition blank_config :: "string \<Rightarrow> sso_config" where
  "blank_config tid = \<lparr>sc_tenant = tid, sc_label = ''OpenID Connect'', sc_issuer = [], sc_client_id = [],
     sc_secret_enc = [], sc_domains = [], sc_role = ''member'', sc_enabled = False\<rparr>"

definition upsert_config :: "(string \<Rightarrow> string) \<Rightarrow> db \<Rightarrow> string \<Rightarrow> sso_form \<Rightarrow> (sso_config \<times> db) result" where
  "upsert_config enc d tid f =
     (if sf_enabled f \<and> (form_issuer f = [] \<or> sf_client_id f = []) then
        Inl (SSOError ''Issuer and client ID are required to enable SSO.'' 400)
      else if sf_role f \<notin> set [''member'', ''admin''] then
        Inl (SSOError (''Default role must be '' @ [CHR 0x27] @ ''member'' @ [CHR 0x27] @ '' or '' @ [CHR 0x27] @
          ''admin'' @ [CHR 0x27] @ ''.'') 400)
      else (case get_config d tid of
          None \<Rightarrow> (let c = apply_form enc f (blank_config tid) in Inr (c, d\<lparr>db_ssos := db_ssos d @ [c]\<rparr>))
        | Some c \<Rightarrow> Inr (apply_form enc f c,
            d\<lparr>db_ssos := upd_where (\<lambda>x. sc_tenant x = tid) (apply_form enc f) (db_ssos d)\<rparr>)))"

definition delete_config :: "db \<Rightarrow> string \<Rightarrow> db" where
  "delete_config d tid = d\<lparr>db_ssos := filter (\<lambda>c. sc_tenant c \<noteq> tid) (db_ssos d)\<rparr>"

section \<open>Discovery\<close>

definition sso_discover :: "sso_env \<Rightarrow> string \<Rightarrow> jdict xtask" where
  "sso_discover v issuer w =
     (case map_of (xw_docs w) issuer of
        Some doc \<Rightarrow> (Inr doc, w)
      | None \<Rightarrow>
          act_bind (sso_wrap (sso_call v 3 (SDiscover (issuer @ ''/.well-known/openid-configuration'')))
              ''Could not reach the identity provider.'' 502)
            (\<lambda>doc. case doc of
                JObj m \<Rightarrow>
                  if has_key ''authorization_endpoint'' m
                  then (\<lambda>w'. (Inr m, w'\<lparr>xw_docs := (issuer, m) # xw_docs w'\<rparr>))
                  else sso_fail ''Identity provider returned an invalid discovery document.'' 502
              | _ \<Rightarrow> sso_fail ''Identity provider returned an invalid discovery document.'' 502) w)"

definition doc_url :: "jdict \<Rightarrow> string \<Rightarrow> string xtask" where
  "doc_url doc k = lift (case map_of doc k of
     None \<Rightarrow> Inl (KeyError k) | Some (JStr u) \<Rightarrow> Inr u | Some _ \<Rightarrow> Inl (OtherError ''TypeError''))"

section \<open>The authorization request\<close>

definition enabled_config_for_slug :: "string \<Rightarrow> (tenant \<times> sso_config) xtask" where
  "enabled_config_for_slug slug w = (case get_tenant_by_slug (xw_db w) slug of
       None \<Rightarrow> (Inl (SSOError ''Unknown workspace.'' 404), w)
     | Some t \<Rightarrow> (case get_config (xw_db w) (tn_id t) of
         None \<Rightarrow> (Inl (SSOError ''Single sign-on is not enabled for this workspace.'' 404), w)
       | Some c \<Rightarrow> if sc_enabled c then (Inr (t, c), w)
                   else (Inl (SSOError ''Single sign-on is not enabled for this workspace.'' 404), w)))"

definition build_authorize_url :: "sso_env \<Rightarrow> string \<Rightarrow> string \<Rightarrow> string \<Rightarrow> string xtask" where
  "build_authorize_url v slug redirect nonce =
     (if \<not> starts_with ''https://'' redirect \<and> \<not> starts_with ''http://'' redirect then sso_fail ''Invalid redirect URI.'' 400
      else act_bind (enabled_config_for_slug slug) (\<lambda>(t, c).
        act_bind (sso_discover v (sc_issuer c)) (\<lambda>doc.
          act_return (jstr (jget doc ''authorization_endpoint'') @ ''?'' @ xe_urlencode v
            [(''response_type'', ''code''), (''client_id'', sc_client_id c), (''redirect_uri'', redirect),
             (''scope'', ''openid email profile''),
             (''state'', xe_sign v [(''t'', tn_id t), (''r'', redirect), (''n'', nonce)]), (''nonce'', nonce)]))))"

section \<open>The callback\<close>

definition callback_state :: "sso_env \<Rightarrow> string \<Rightarrow> string \<Rightarrow> string \<Rightarrow> int \<Rightarrow> string xtask" where
  "callback_state v code state redirect now =
     (if code = [] \<or> state = [] then sso_fail ''Missing authorization code.'' 400
      else (case xe_unsign v state now of
          SignatureExpired \<Rightarrow> sso_fail ''Sign-in took too long - please try again.'' 400
        | BadSignature \<Rightarrow> sso_fail ''Invalid sign-in state.'' 400
        | Signed m \<Rightarrow> if map_of m ''r'' \<noteq> Some redirect then sso_fail ''Redirect URI mismatch.'' 400
                      else act_return (or_empty (map_of m ''t''))))"

definition callback_tenant :: "string \<Rightarrow> (tenant \<times> sso_config) xtask" where
  "callback_tenant tid w = (case get_config (xw_db w) tid of
       None \<Rightarrow> (Inl (SSOError ''Single sign-on is not enabled.'' 404), w)
     | Some c \<Rightarrow>
         if \<not> sc_enabled c then (Inl (SSOError ''Single sign-on is not enabled.'' 404), w)
         else (case get_tenant (xw_db w) tid of
             None \<Rightarrow> (Inl (SSOError ''Workspace is not active.'' 403), w)
           | Some t \<Rightarrow> if tn_status t = TENANT_ACTIVE then (Inr (t, c), w)
                       else (Inl (SSOError ''Workspace is not active.'' 403), w)))"

text \<open>\<open>(v or {}).get(k)\<close>\<close>

definition dict_get :: "json \<Rightarrow> string \<Rightarrow> json result" where
  "dict_get v k = (if truthy v then map_sum id (\<lambda>m. jget m k) (as_dict v) else Inr JNull)"

definition fetch_userinfo :: "sso_env \<Rightarrow> sso_config \<Rightarrow> string \<Rightarrow> string \<Rightarrow> json xtask" where
  "fetch_userinfo v c code redirect =
     act_bind (sso_discover v (sc_issuer c)) (\<lambda>doc.
     act_bind (doc_url doc ''token_endpoint'') (\<lambda>token_url.
     act_bind (sso_wrap (sso_call v 1 (SToken token_url
          [(''grant_type'', ''authorization_code''), (''code'', code), (''redirect_uri'', redirect),
           (''client_id'', sc_client_id c), (''client_secret'', decrypt (xe_fernet v) (sc_secret_enc c))]))
        ''The identity provider rejected the sign-in.'' 401) (\<lambda>tokens.
     act_bind (lift (dict_get tokens ''access_token'')) (\<lambda>access.
     if \<not> truthy access then sso_fail ''The identity provider did not return a token.'' 401
     else act_bind (doc_url doc ''userinfo_endpoint'') (\<lambda>userinfo_url.
       sso_wrap (sso_call v 1 (SUserinfo userinfo_url (jstr access)))
         ''Could not read your profile from the provider.'' 502)))))"

definition checked_email :: "sso_config \<Rightarrow> json \<Rightarrow> string result" where
  "checked_email c info =
     rbind (dict_get info ''email'') (\<lambda>raw.
     rbind (dict_get info ''email_verified'') (\<lambda>verified.
     (let email = normalize_email (jstr (jor [raw, JStr []])); domains = allowed_domain_list c in
      if email = [] \<or> CHR ''@'' \<notin> set email then Inl (SSOError ''The identity provider did not return an email.'' 401)
      else if verified = JBool False then Inl (SSOError ''Your email is not verified with the identity provider.'' 403)
      else if domains \<noteq> [] \<and> part_after CHR ''@'' email \<notin> set domains then
        Inl (SSOError ''Your email domain is not permitted for this workspace.'' 403)
      else Inr email)))"

definition provision_member ::
  "(string \<Rightarrow> string) \<Rightarrow> tenant \<Rightarrow> sso_config \<Rightarrow> string \<Rightarrow> string \<Rightarrow> string \<Rightarrow> string \<Rightarrow> int \<Rightarrow> admin_user xtask" where
  "provision_member hash_pw t c email nm new_id random now w =
     (case get_admin_by_email (xw_db w) email of
        Some a \<Rightarrow>
          if ad_tenant a \<noteq> tn_id t then (Inl (SSOError ''That email is already registered to another workspace.'' 409), w)
          else if \<not> ad_active a then (Inl (SSOError ''Your account has been deactivated.'' 403), w)
          else (Inr a, w)
      | None \<Rightarrow>
         (let a = new_admin new_id (tn_id t) email (str_or (py_strip nm) email) (hash_pw random) (sc_role c) now in
          case insert_unique ad_email a (db_admins (xw_db w)) of
            Inl e \<Rightarrow> (Inl e, w)
          | Inr as \<Rightarrow> (Inr a, w\<lparr>xw_db := (xw_db w)\<lparr>db_admins := as\<rparr>\<rparr>)))"

text \<open>\<open>now\<close> in seconds; \<open>new_id\<close> and \<open>random\<close> are the id and the unused password of a new member.\<close>

definition handle_callback ::
  "sso_env \<Rightarrow> string \<Rightarrow> string \<Rightarrow> string \<Rightarrow> string \<Rightarrow> string \<Rightarrow> int \<Rightarrow> admin_user xtask" where
  "handle_callback v code state redirect new_id random now =
     act_bind (callback_state v code state redirect now) (\<lambda>tid.
     act_bind (callback_tenant tid) (\<lambda>(t, c).
     act_bind (fetch_userinfo v c code redirect) (\<lambda>info.
     act_bind (lift (checked_email c info)) (\<lambda>email.
     act_bind (lift (dict_get info ''name'')) (\<lambda>nm.
       provision_member (xe_hash v) t c email (jstr (jor [nm, JStr []])) new_id random now)))))"

end
