(* ===== verification/SelfService.thy ===== *)
theory SelfService
  imports Admission Monitoring Cron Sso
begin

text \<open>
  The self-service routes of the API (\<^verbatim>\<open>api/routes.py\<close>): the account and its tokens and second
  factor, notification channels, uptime monitors, scheduled jobs, the team and the sign-on
  configuration. Each route is a guard, the checks of its payload and a handler that calls a
  service and turns its errors into statuses, in one database session.
\<close>

section \<open>The environment of a request\<close>

text \<open>
  The functions that stand for libraries and the network, and the values the program draws
  while it answers: new row ids, random secrets, and the e-mails other sessions commit.
\<close>

record self_env =
  sv_cfg :: api_settings
  sv_unsign :: unsign
  sv_sign :: sign
  sv_sha :: "string \<Rightarrow> string"
  sv_hash :: "string \<Rightarrow> string"
  sv_verify :: "string \<Rightarrow> string \<Rightarrow> bool"
  sv_hmac :: "nat list \<Rightarrow> nat list \<Rightarrow> nat list"
  sv_uri :: "string \<Rightarrow> string \<Rightarrow> string"
  sv_mac :: "string \<Rightarrow> string \<Rightarrow> string"
  sv_encode :: "string \<Rightarrow> json \<Rightarrow> string"
  sv_post :: "sent_event \<Rightarrow> http_outcome"
  sv_probe :: "string \<Rightarrow> int \<times> http_outcome"
  sv_encrypt :: "string \<Rightarrow> string"

record fresh_values =
  fv_id :: string
  fv_random :: string
  fv_raw :: "nat list"
  fv_codes :: "(nat \<times> nat) list"
  fv_racing :: "string list"

definition add_event :: "string \<Rightarrow> string \<Rightarrow> string \<Rightarrow> string \<Rightarrow> int \<Rightarrow> unit atask" where
  "add_event actor action target details now w = (Inr (), w\<lparr>aw_audit := aw_audit w @
     [\<lparr>au_actor = actor, au_action = action, au_target = target, au_details = details, au_created = now\<rparr>]\<rparr>)"

text \<open>\<open>except E as exc: raise HTTPException(...)\<close>\<close>

definition raise_as :: "(exn \<Rightarrow> (int \<times> string) option) \<Rightarrow> 'a atask \<Rightarrow> 'a atask" where
  "raise_as f m = act_catch m (\<lambda>e. case f e of Some (code, msg) \<Rightarrow> refuse code msg | None \<Rightarrow> act_raise e)"

definition value_as :: "int \<Rightarrow> exn \<Rightarrow> (int \<times> string) option" where
  "value_as code e = (case e of ValueError m \<Rightarrow> Some (code, m) | _ \<Rightarrow> None)"

definition job_as :: "exn \<Rightarrow> (int \<times> string) option" where
  "job_as e = (case e of JobError m c \<Rightarrow> Some (c, m) | _ \<Rightarrow> None)"

definition team_as :: "exn \<Rightarrow> (int \<times> string) option" where
  "team_as e = (case e of TeamError m c \<Rightarrow> Some (c, m) | _ \<Rightarrow> None)"

definition sso_as :: "exn \<Rightarrow> (int \<times> string) option" where
  "sso_as e = (case e of SSOError m c \<Rightarrow> Some (c, m) | _ \<Rightarrow> None)"

text \<open>A page of a listing with the header \<open>X-Total-Count\<close>.\<close>

definition paginate :: "'a list \<Rightarrow> nat \<Rightarrow> nat \<Rightarrow> nat \<times> 'a list" where
  "paginate items limit offset = (length items, take limit (drop offset items))"

section \<open>Account\<close>

definition api_me :: "admin_user \<Rightarrow> admin_summary atask" where
  "api_me a = api_read (\<lambda>d. Inr (admin_summary_of d a))"

definition api_account_update :: "fresh_values \<Rightarrow> admin_user \<Rightarrow> string \<Rightarrow> string \<Rightarrow> admin_summary atask" where
  "api_account_update fv a full_name email =
     act_bind (raise_as (value_as 400) (api_db (\<lambda>d. update_profile d (fv_racing fv) a full_name email)))
       (\<lambda>r. case r of None \<Rightarrow> act_raise (OtherError ''AttributeError'')
          | Some x \<Rightarrow> api_read (\<lambda>d. Inr (admin_summary_of d x)))"

definition api_account_password :: "self_env \<Rightarrow> admin_user \<Rightarrow> string \<Rightarrow> string \<Rightarrow> unit atask" where
  "api_account_password v a current new =
     raise_as (value_as 400) (api_db (\<lambda>d. map_sum id (Pair ()) (change_password (sv_hash v) (sv_verify v) d a current new)))"

section \<open>Personal tokens\<close>

record token_summary =
  ts_id :: string
  ts_name :: string
  ts_scope :: string
  ts_prefix :: string
  ts_created :: int
  ts_last_used :: "int option"
  ts_expires :: "int option"

definition api_token_summary :: "api_token \<Rightarrow> token_summary" where
  "api_token_summary t = \<lparr>ts_id = tk_id t, ts_name = tk_name t, ts_scope = tk_scope t, ts_prefix = tk_prefix t,
     ts_created = tk_created t, ts_last_used = tk_last_used t, ts_expires = tk_expires t\<rparr>"

definition api_list_tokens :: "admin_user \<Rightarrow> token_summary list atask" where
  "api_list_tokens a = api_read (\<lambda>d. Inr (map api_token_summary (list_tokens d a)))"

definition api_create_token ::
  "self_env \<Rightarrow> fresh_values \<Rightarrow> int \<Rightarrow> admin_user \<Rightarrow> string \<Rightarrow> bool \<Rightarrow> int option \<Rightarrow> (token_summary \<times> string) atask" where
  "api_create_token v fv now a nm read_only days =
     act_bind (api_db (\<lambda>d. create_token (sv_sha v) d (fv_id fv) (fv_random fv) now a nm
         (if read_only then ''read'' else ''full'') days))
       (\<lambda>(row, secret). act_seq (add_event (ad_email a) ''api_token.create'' (tk_prefix row) (tk_name row) now)
          (act_return (api_token_summary row, secret)))"

definition api_revoke_token :: "int \<Rightarrow> admin_user \<Rightarrow> string \<Rightarrow> unit atask" where
  "api_revoke_token now a i =
     act_bind (api_db (\<lambda>d. Inr (revoke_token d a i)))
       (\<lambda>revoked. if \<not> revoked then refuse 404 ''Token not found.''
          else add_event (ad_email a) ''api_token.revoke'' i [] now)"

section \<open>Second factor\<close>

definition backup_codes_remaining :: "admin_user \<Rightarrow> nat" where
  "backup_codes_remaining a =
     (case ad_totp_codes a of None \<Rightarrow> 0 | Some (CodeList cs) \<Rightarrow> length cs | Some (NotJson s) \<Rightarrow> 0)"

definition api_two_factor_status :: "admin_user \<Rightarrow> (bool \<times> nat) atask" where
  "api_two_factor_status a = act_return (ad_totp_enabled a, backup_codes_remaining a)"

definition api_two_factor_setup :: "self_env \<Rightarrow> fresh_values \<Rightarrow> admin_user \<Rightarrow> (string \<times> string) atask" where
  "api_two_factor_setup v fv a = raise_as (value_as 409) (api_db (\<lambda>d. setup_totp (sv_uri v) d a (fv_raw fv)))"

definition api_two_factor_enable :: "self_env \<Rightarrow> fresh_values \<Rightarrow> int \<Rightarrow> admin_user \<Rightarrow> string \<Rightarrow> string list atask" where
  "api_two_factor_enable v fv now a code =
     act_bind (raise_as (value_as 400) (api_db (\<lambda>d. enable_totp (sv_hmac v) (sv_sha v) d a code now (fv_codes fv))))
       (\<lambda>codes. act_seq (add_event (ad_email a) ''account.2fa_enable'' (ad_email a) [] now) (act_return codes))"

definition api_two_factor_disable :: "self_env \<Rightarrow> int \<Rightarrow> admin_user \<Rightarrow> string \<Rightarrow> unit atask" where
  "api_two_factor_disable v now a pw =
     act_seq (raise_as (value_as 400) (api_db (\<lambda>d. map_sum id (Pair ()) (disable_totp (sv_verify v) d a pw))))
       (add_event (ad_email a) ''account.2fa_disable'' (ad_email a) [] now)"

section \<open>Notification channels\<close>

record channel_summary =
  cs_id :: string
  cs_name :: string
  cs_url :: string
  cs_events :: string
  cs_enabled :: bool
  cs_created :: int
  cs_delivered :: "int option"
  cs_status :: string

definition notification_summary :: "notification_channel \<Rightarrow> channel_summary" where
  "notification_summary c = \<lparr>cs_id = ch_id c, cs_name = ch_name c, cs_url = ch_url c, cs_events = ch_events c,
     cs_enabled = ch_enabled c, cs_created = ch_created c, cs_delivered = ch_delivered c, cs_status = ch_last_status c\<rparr>"

definition api_list_notifications :: "admin_user \<Rightarrow> channel_summary list atask" where
  "api_list_notifications a = api_read (\<lambda>d. Inr (map notification_summary (list_channels d (ad_tenant a))))"

definition http_prefixed :: "string \<Rightarrow> bool" where
  "http_prefixed url = (starts_with ''http://'' (py_strip url) \<or> starts_with ''https://'' (py_strip url))"

definition api_create_notification ::
  "fresh_values \<Rightarrow> int \<Rightarrow> admin_user \<Rightarrow> string \<Rightarrow> string \<Rightarrow> string \<Rightarrow> (channel_summary \<times> string) atask" where
  "api_create_notification fv now a nm url events =
     (if \<not> http_prefixed url then refuse 400 ''URL must start with http:// or https://.''
      else act_bind (api_db (\<lambda>d. Inr (create_channel d (fv_id fv) (fv_random fv) now (ad_tenant a) nm (py_strip url) (Some events))))
        (\<lambda>c. act_seq (add_event (ad_email a) ''notification.create'' (ch_name c) [] now)
           (act_return (notification_summary c, ch_secret c))))"

definition api_delete_notification :: "int \<Rightarrow> admin_user \<Rightarrow> string \<Rightarrow> unit atask" where
  "api_delete_notification now a i =
     act_bind (api_db (\<lambda>d. Inr (delete_channel d (ad_tenant a) i)))
       (\<lambda>deleted. if \<not> deleted then refuse 404 ''Channel not found.''
          else add_event (ad_email a) ''notification.delete'' i [] now)"

definition api_test_notification :: "self_env \<Rightarrow> int \<Rightarrow> admin_user \<Rightarrow> string \<Rightarrow> (bool \<times> string) atask" where
  "api_test_notification v now a i =
     act_bind (api_read (\<lambda>d. case get_channel d (ad_tenant a) i of
         None \<Rightarrow> Inl (HTTPException 404 ''Channel not found.'') | Some c \<Rightarrow> Inr c))
       (\<lambda>c. api_db (\<lambda>d. map_sum id (\<lambda>(ok, label, d'). ((ok, label), d'))
          (snd (deliver (sv_mac v) (sv_encode v) (sv_post v) d now c ''test''
             (JObj [(''message'', JStr ''Test notification from Tetra Host.''), (''channel'', JStr (ch_name c))])))))"

section \<open>Uptime monitors\<close>

record monitor_summary =
  mo_id :: string
  mo_name :: string
  mo_url :: string
  mo_enabled :: bool
  mo_status :: uptime_status
  mo_checked :: "int option"
  mo_latency :: int
  mo_detail :: string
  mo_created :: int

definition uptime_summary :: "uptime_monitor \<Rightarrow> monitor_summary" where
  "uptime_summary m = \<lparr>mo_id = um_id m, mo_name = um_name m, mo_url = um_url m, mo_enabled = um_enabled m,
     mo_status = um_status m, mo_checked = um_checked m, mo_latency = um_latency m, mo_detail = um_detail m,
     mo_created = um_created m\<rparr>"

definition uptime_text :: "uptime_status \<Rightarrow> string" where
  "uptime_text s = (case s of UPTIME_UNKNOWN \<Rightarrow> ''unknown'' | UPTIME_UP \<Rightarrow> ''up'' | UPTIME_DOWN \<Rightarrow> ''down'')"

text \<open>The alert of a monitor, sent to the tenant's channels with what the probe recorded.\<close>

definition uptime_notify :: "self_env \<Rightarrow> int \<Rightarrow> string \<Rightarrow> db \<Rightarrow> string \<Rightarrow> uptime_alert \<Rightarrow> db result" where
  "uptime_notify v now mid d tid ev =
     (case find (\<lambda>m. um_id m = mid) (db_monitors d) of
        None \<Rightarrow> Inr d
      | Some m \<Rightarrow> snd (dispatch (sv_mac v) (sv_encode v) (sv_post v) d now tid
          (case ev of APP_DOWN \<Rightarrow> ''app.down'' | APP_UP \<Rightarrow> ''app.up'')
          (JObj [(''monitor'', JStr (um_name m)), (''url'', JStr (um_url m)), (''status'', JStr (uptime_text (um_status m))),
             (''latency_ms'', JInt (um_latency m)), (''detail'', JStr (um_detail m))])))"

definition api_list_monitors :: "admin_user \<Rightarrow> monitor_summary list atask" where
  "api_list_monitors a = api_read (\<lambda>d. Inr (map uptime_summary (list_monitors d (ad_tenant a))))"

definition api_create_monitor :: "fresh_values \<Rightarrow> int \<Rightarrow> admin_user \<Rightarrow> string \<Rightarrow> string \<Rightarrow> monitor_summary atask" where
  "api_create_monitor fv now a nm url =
     (if \<not> http_prefixed url then refuse 400 ''URL must start with http:// or https://.''
      else act_bind (api_db (\<lambda>d. Inr (create_monitor d (fv_id fv) now (ad_tenant a) nm (py_strip url))))
        (\<lambda>m. act_seq (add_event (ad_email a) ''monitor.create'' (um_name m) [] now) (act_return (uptime_summary m))))"

definition api_delete_monitor :: "int \<Rightarrow> admin_user \<Rightarrow> string \<Rightarrow> unit atask" where
  "api_delete_monitor now a i =
     act_bind (api_db (\<lambda>d. Inr (delete_monitor d (ad_tenant a) i)))
       (\<lambda>deleted. if \<not> deleted then refuse 404 ''Monitor not found.''
          else add_event (ad_email a) ''monitor.delete'' i [] now)"

definition api_check_monitor :: "self_env \<Rightarrow> int \<Rightarrow> admin_user \<Rightarrow> string \<Rightarrow> monitor_summary atask" where
  "api_check_monitor v now a i =
     act_bind (api_read (\<lambda>d. case get_monitor d (ad_tenant a) i of
         None \<Rightarrow> Inl (HTTPException 404 ''Monitor not found.'') | Some m \<Rightarrow> Inr m))
       (\<lambda>m. act_seq (api_db (\<lambda>d. map_sum id (\<lambda>(current, alert, d'). ((), d'))
              (check_one (sv_probe v) (uptime_notify v now (um_id m)) d now m)))
          (api_read (\<lambda>d. case get_monitor d (ad_tenant a) i of
             None \<Rightarrow> Inr (uptime_summary m) | Some m' \<Rightarrow> Inr (uptime_summary m'))))"

section \<open>Scheduled jobs\<close>

record job_summary =
  js_id :: string
  js_name :: string
  js_cron :: string
  js_url :: string
  js_method :: string
  js_enabled :: bool
  js_last_run :: "int option"
  js_status :: "job_status option"
  js_detail :: string

definition job_summary_of :: "scheduled_job \<Rightarrow> job_summary" where
  "job_summary_of j = \<lparr>js_id = jb_id j, js_name = jb_name j, js_cron = jb_cron j, js_url = jb_url j,
     js_method = jb_method j, js_enabled = jb_enabled j, js_last_run = jb_last_run j, js_status = jb_last_status j,
     js_detail = jb_last_detail j\<rparr>"

definition api_list_jobs :: "admin_user \<Rightarrow> nat \<Rightarrow> nat \<Rightarrow> (nat \<times> job_summary list) atask" where
  "api_list_jobs a limit offset =
     api_read (\<lambda>d. Inr (paginate (map job_summary_of (list_jobs_for_tenant d (Some (ad_tenant a)))) limit offset))"

definition api_create_job ::
  "fresh_values \<Rightarrow> int \<Rightarrow> admin_user \<Rightarrow> string \<Rightarrow> string \<Rightarrow> string \<Rightarrow> string \<Rightarrow> job_summary atask" where
  "api_create_job fv now a nm cron url method =
     act_bind (raise_as job_as (api_db (\<lambda>d. create_job d (fv_id fv) now (Some (ad_tenant a)) nm cron url method)))
       (\<lambda>j. act_return (job_summary_of j))"

definition api_update_job ::
  "admin_user \<Rightarrow> string \<Rightarrow> string option \<Rightarrow> string option \<Rightarrow> string option \<Rightarrow> bool option \<Rightarrow> job_summary atask" where
  "api_update_job a i cron url method enabled =
     act_bind (raise_as job_as (api_db (\<lambda>d. update_job d (Some (ad_tenant a)) i cron url method enabled)))
       (\<lambda>j. act_return (job_summary_of j))"

definition api_delete_job :: "admin_user \<Rightarrow> string \<Rightarrow> unit atask" where
  "api_delete_job a i = raise_as job_as (api_db (\<lambda>d. map_sum id (Pair ()) (delete_job d (Some (ad_tenant a)) i)))"

text \<open>The service's own limit of 20 runs comes before the page.\<close>

definition api_job_runs :: "admin_user \<Rightarrow> string \<Rightarrow> nat \<Rightarrow> nat \<Rightarrow> (nat \<times> (job_status \<times> string \<times> int \<times> int) list) atask" where
  "api_job_runs a i limit offset =
     raise_as job_as (api_read (\<lambda>d. map_sum id (\<lambda>runs. paginate
         (map (\<lambda>r. (jr_status r, jr_detail r, jr_duration r, jr_started r)) runs) limit offset)
       (list_runs d (Some (ad_tenant a)) i 20)))"

section \<open>Team\<close>

record member_summary =
  me_id :: string
  me_email :: string
  me_name :: string
  me_role :: string
  me_active :: bool
  me_last_login :: "int option"
  me_created :: int

definition team_member_summary :: "admin_user \<Rightarrow> member_summary" where
  "team_member_summary m = \<lparr>me_id = ad_id m, me_email = ad_email m, me_name = ad_name m, me_role = ad_role m,
     me_active = ad_active m, me_last_login = ad_last_login m, me_created = ad_created m\<rparr>"

record invite_summary =
  is_id :: string
  is_email :: string
  is_role :: string
  is_status :: invite_status
  is_created :: int
  is_expires :: "int option"

definition team_invite_summary :: "tenant_invite \<Rightarrow> invite_summary" where
  "team_invite_summary i = \<lparr>is_id = iv_id i, is_email = iv_email i, is_role = iv_role i, is_status = iv_status i,
     is_created = iv_created i, is_expires = iv_expires i\<rparr>"

definition api_team :: "admin_user \<Rightarrow> (member_summary list \<times> invite_summary list) atask" where
  "api_team a = api_read (\<lambda>d. Inr (map team_member_summary (list_members d (ad_tenant a)),
     map team_invite_summary (list_invites d (ad_tenant a))))"

definition api_create_invite ::
  "self_env \<Rightarrow> fresh_values \<Rightarrow> int \<Rightarrow> admin_user \<Rightarrow> string \<Rightarrow> string \<Rightarrow> (invite_summary \<times> string \<times> string) atask" where
  "api_create_invite v fv now a email role =
     act_bind (raise_as team_as (api_db (\<lambda>d. create_invite (sv_sha v) d (fv_id fv) (fv_random fv) now (ad_tenant a) a email role)))
       (\<lambda>(i, raw). act_return (team_invite_summary i, raw, ''/auth/accept-invite?token='' @ raw))"

definition api_revoke_invite :: "admin_user \<Rightarrow> string \<Rightarrow> unit atask" where
  "api_revoke_invite a i = raise_as team_as (api_db (\<lambda>d. map_sum id (Pair ()) (revoke_invite d (ad_tenant a) i)))"

definition api_change_member_role :: "admin_user \<Rightarrow> string \<Rightarrow> string \<Rightarrow> member_summary atask" where
  "api_change_member_role a i role =
     act_bind (raise_as team_as (api_db (\<lambda>d. change_role d (ad_tenant a) i role))) (\<lambda>m. act_return (team_member_summary m))"

definition api_remove_member :: "admin_user \<Rightarrow> string \<Rightarrow> member_summary atask" where
  "api_remove_member a i =
     act_bind (raise_as team_as (api_db (\<lambda>d. remove_member d (ad_tenant a) i a))) (\<lambda>m. act_return (team_member_summary m))"

section \<open>Single sign-on configuration\<close>

record sso_response =
  sp_configured :: bool
  sp_enabled :: bool
  sp_label :: string
  sp_issuer :: string
  sp_client_id :: string
  sp_has_secret :: bool
  sp_domains :: string
  sp_role :: string

definition sso_config_response :: "sso_config option \<Rightarrow> sso_response" where
  "sso_config_response c = (case c of
       None \<Rightarrow> \<lparr>sp_configured = False, sp_enabled = False, sp_label = ''OpenID Connect'', sp_issuer = [],
                sp_client_id = [], sp_has_secret = False, sp_domains = [], sp_role = ''member''\<rparr>
     | Some c \<Rightarrow> \<lparr>sp_configured = True, sp_enabled = sc_enabled c, sp_label = sc_label c, sp_issuer = sc_issuer c,
                sp_client_id = sc_client_id c, sp_has_secret = (sc_secret_enc c \<noteq> []), sp_domains = sc_domains c,
                sp_role = sc_role c\<rparr>)"

definition api_get_sso :: "admin_user \<Rightarrow> sso_response atask" where
  "api_get_sso a = api_read (\<lambda>d. Inr (sso_config_response (get_config d (ad_tenant a))))"

definition api_put_sso :: "self_env \<Rightarrow> admin_user \<Rightarrow> sso_form \<Rightarrow> sso_response atask" where
  "api_put_sso v a f =
     act_bind (raise_as sso_as (api_db (\<lambda>d. upsert_config (sv_encrypt v) d (ad_tenant a) f)))
       (\<lambda>c. act_return (sso_config_response (Some c)))"

definition api_delete_sso :: "admin_user \<Rightarrow> unit atask" where
  "api_delete_sso a = api_db (\<lambda>d. Inr ((), delete_config d (ad_tenant a)))"

section \<open>Requests\<close>

datatype self_request =
    GetMe | UpdateAccount string string | ChangePassword string string
  | ListTokens | CreateToken string bool "int option" | RevokeToken string
  | GetTwoFactor | SetupTwoFactor | EnableTwoFactor string | DisableTwoFactor string
  | ListChannels | CreateChannel string string string | DeleteChannel string | TestChannel string
  | ListMonitors | CreateMonitor string string | DeleteMonitor string | CheckMonitor string
  | ListJobs nat nat | CreateJob string string string string
  | UpdateJob string "string option" "string option" "string option" "bool option" | DeleteJob string
  | JobRuns string nat nat
  | GetTeam | InviteMember string string | RevokeMemberInvite string | SetMemberRole string string | RemoveTeamMember string
  | GetSso | PutSso sso_form | DeleteSso

datatype self_reply =
    RepAdmin admin_summary | RepOk | RepNoContent
  | RepTokens "token_summary list" | RepToken token_summary string
  | RepTwoFactor bool nat | RepSetup string string | RepCodes "string list"
  | RepChannels "channel_summary list" | RepChannel channel_summary string | RepTest bool string
  | RepMonitors "monitor_summary list" | RepMonitor monitor_summary
  | RepJobs nat "job_summary list" | RepJob job_summary | RepRuns nat "(job_status \<times> string \<times> int \<times> int) list"
  | RepTeam "member_summary list" "invite_summary list" | RepInvite invite_summary string string | RepMember member_summary
  | RepSso sso_response

fun self_method :: "self_request \<Rightarrow> string" where
  "self_method (UpdateAccount _ _) = ''PATCH''"
| "self_method (ChangePassword _ _) = ''POST''"
| "self_method (CreateToken _ _ _) = ''POST''"
| "self_method (RevokeToken _) = ''DELETE''"
| "self_method SetupTwoFactor = ''POST''"
| "self_method (EnableTwoFactor _) = ''POST''"
| "self_method (DisableTwoFactor _) = ''POST''"
| "self_method (CreateChannel _ _ _) = ''POST''"
| "self_method (DeleteChannel _) = ''DELETE''"
| "self_method (TestChannel _) = ''POST''"
| "self_method (CreateMonitor _ _) = ''POST''"
| "self_method (DeleteMonitor _) = ''DELETE''"
| "self_method (CheckMonitor _) = ''POST''"
| "self_method (CreateJob _ _ _ _) = ''POST''"
| "self_method (UpdateJob _ _ _ _ _) = ''PATCH''"
| "self_method (DeleteJob _) = ''DELETE''"
| "self_method (InviteMember _ _) = ''POST''"
| "self_method (RevokeMemberInvite _) = ''DELETE''"
| "self_method (SetMemberRole _ _) = ''POST''"
| "self_method (RemoveTeamMember _) = ''DELETE''"
| "self_method (PutSso _) = ''PUT''"
| "self_method DeleteSso = ''DELETE''"
| "self_method _ = ''GET''"

text \<open>The routes behind \<open>require_tenant_owner\<close>.\<close>

fun owner_only :: "self_request \<Rightarrow> bool" where
  "owner_only (InviteMember _ _) = True"
| "owner_only (RevokeMemberInvite _) = True"
| "owner_only (SetMemberRole _ _) = True"
| "owner_only (RemoveTeamMember _) = True"
| "owner_only GetSso = True"
| "owner_only (PutSso _) = True"
| "owner_only DeleteSso = True"
| "owner_only _ = False"

definition page_ok :: "nat \<Rightarrow> bool" where
  "page_ok limit = (1 \<le> limit \<and> limit \<le> 1000)"

text \<open>The field constraints of the payload models (\<^verbatim>\<open>api/contracts.py\<close>) and of the page parameters.\<close>

fun self_valid :: "self_request \<Rightarrow> bool" where
  "self_valid (ListJobs limit offset) = page_ok limit"
| "self_valid (JobRuns i limit offset) = page_ok limit"
| "self_valid (CreateJob nm cron url method) = (1 \<le> length nm \<and> length nm \<le> 120 \<and> cron \<noteq> [] \<and> url \<noteq> [])"
| "self_valid (InviteMember email role) = (length email \<le> 254)"
| "self_valid (PutSso f) = (length (sf_issuer f) \<le> 500 \<and> length (sf_client_id f) \<le> 255 \<and>
     length (or_empty (sf_secret f)) \<le> 1000 \<and> length (sf_domains f) \<le> 500 \<and> length (sf_label f) \<le> 80)"
| "self_valid _ = True"

definition check_payload :: "self_request \<Rightarrow> unit atask" where
  "check_payload rq = (if self_valid rq then act_return () else refuse 422 ''Request validation failed.'')"

definition reply_with :: "('a \<Rightarrow> self_reply) \<Rightarrow> 'a atask \<Rightarrow> self_reply atask" where
  "reply_with f m = act_bind m (\<lambda>x. act_return (f x))"

fun self_handler :: "self_env \<Rightarrow> fresh_values \<Rightarrow> int \<Rightarrow> admin_user \<Rightarrow> self_request \<Rightarrow> self_reply atask" where
  "self_handler v fv now a GetMe = reply_with RepAdmin (api_me a)"
| "self_handler v fv now a (UpdateAccount nm email) = reply_with RepAdmin (api_account_update fv a nm email)"
| "self_handler v fv now a (ChangePassword cur new) = reply_with (\<lambda>_. RepOk) (api_account_password v a cur new)"
| "self_handler v fv now a ListTokens = reply_with RepTokens (api_list_tokens a)"
| "self_handler v fv now a (CreateToken nm ro days) = reply_with (case_prod RepToken) (api_create_token v fv now a nm ro days)"
| "self_handler v fv now a (RevokeToken i) = reply_with (\<lambda>_. RepOk) (api_revoke_token now a i)"
| "self_handler v fv now a GetTwoFactor = reply_with (case_prod RepTwoFactor) (api_two_factor_status a)"
| "self_handler v fv now a SetupTwoFactor = reply_with (case_prod RepSetup) (api_two_factor_setup v fv a)"
| "self_handler v fv now a (EnableTwoFactor code) = reply_with RepCodes (api_two_factor_enable v fv now a code)"
| "self_handler v fv now a (DisableTwoFactor pw) = reply_with (\<lambda>_. RepNoContent) (api_two_factor_disable v now a pw)"
| "self_handler v fv now a ListChannels = reply_with RepChannels (api_list_notifications a)"
| "self_handler v fv now a (CreateChannel nm url ev) = reply_with (case_prod RepChannel) (api_create_notification fv now a nm url ev)"
| "self_handler v fv now a (DeleteChannel i) = reply_with (\<lambda>_. RepOk) (api_delete_notification now a i)"
| "self_handler v fv now a (TestChannel i) = reply_with (case_prod RepTest) (api_test_notification v now a i)"
| "self_handler v fv now a ListMonitors = reply_with RepMonitors (api_list_monitors a)"
| "self_handler v fv now a (CreateMonitor nm url) = reply_with RepMonitor (api_create_monitor fv now a nm url)"
| "self_handler v fv now a (DeleteMonitor i) = reply_with (\<lambda>_. RepOk) (api_delete_monitor now a i)"
| "self_handler v fv now a (CheckMonitor i) = reply_with RepMonitor (api_check_monitor v now a i)"
| "self_handler v fv now a (ListJobs n k) = reply_with (case_prod RepJobs) (api_list_jobs a n k)"
| "self_handler v fv now a (CreateJob nm cron url me) = reply_with RepJob (api_create_job fv now a nm cron url me)"
| "self_handler v fv now a (UpdateJob i cron url me en) = reply_with RepJob (api_update_job a i cron url me en)"
| "self_handler v fv now a (DeleteJob i) = reply_with (\<lambda>_. RepOk) (api_delete_job a i)"
| "self_handler v fv now a (JobRuns i n k) = reply_with (case_prod RepRuns) (api_job_runs a i n k)"
| "self_handler v fv now a GetTeam = reply_with (case_prod RepTeam) (api_team a)"
| "self_handler v fv now a (InviteMember email role) =
     reply_with (\<lambda>(i, t, u). RepInvite i t u) (api_create_invite v fv now a email role)"
| "self_handler v fv now a (RevokeMemberInvite i) = reply_with (\<lambda>_. RepOk) (api_revoke_invite a i)"
| "self_handler v fv now a (SetMemberRole i role) = reply_with RepMember (api_change_member_role a i role)"
| "self_handler v fv now a (RemoveTeamMember i) = reply_with RepMember (api_remove_member a i)"
| "self_handler v fv now a GetSso = reply_with RepSso (api_get_sso a)"
| "self_handler v fv now a (PutSso f) = reply_with RepSso (api_put_sso v a f)"
| "self_handler v fv now a DeleteSso = reply_with (\<lambda>_. RepOk) (api_delete_sso a)"

definition self_guard :: "self_env \<Rightarrow> api_call \<Rightarrow> self_request \<Rightarrow> admin_user atask" where
  "self_guard v call rq =
     (if owner_only rq then require_tenant_owner (sv_cfg v) (sv_unsign v) (sv_sha v) call
      else get_current_api_admin (sv_cfg v) (sv_unsign v) (sv_sha v) call)"

definition self_route :: "self_env \<Rightarrow> fresh_values \<Rightarrow> api_call \<Rightarrow> self_request \<Rightarrow> self_reply atask" where
  "self_route v fv call rq =
     session_scope (act_bind (self_guard v (call\<lparr>ac_method := self_method rq\<rparr>) rq)
       (\<lambda>a. act_seq (check_payload rq) (self_handler v fv (ac_now call) a rq)))"

section \<open>Open routes\<close>

record invite_preview =
  ip_tenant :: string
  ip_email :: string
  ip_role :: string

definition api_preview_invite :: "self_env \<Rightarrow> int \<Rightarrow> string \<Rightarrow> invite_preview atask" where
  "api_preview_invite v now token =
     session_scope (api_read (\<lambda>d. case peek_invite (sv_sha v) d token now of
         None \<Rightarrow> Inl (HTTPException 404 ''Invite is invalid or expired.'')
       | Some i \<Rightarrow> Inr \<lparr>ip_tenant = (case get_tenant d (iv_tenant i) of None \<Rightarrow> [] | Some t \<Rightarrow> tn_name t),
            ip_email = iv_email i, ip_role = iv_role i\<rparr>))"

definition accept_valid :: "string \<Rightarrow> string \<Rightarrow> string \<Rightarrow> bool" where
  "accept_valid token full_name pw =
     (1 \<le> length token \<and> 1 \<le> length full_name \<and> length full_name \<le> 120 \<and> length pw \<le> 200)"

definition api_accept_invite ::
  "self_env \<Rightarrow> fresh_values \<Rightarrow> int \<Rightarrow> string \<Rightarrow> string \<Rightarrow> string \<Rightarrow> (string \<times> admin_summary) atask" where
  "api_accept_invite v fv now token full_name pw =
     session_scope
       (if \<not> accept_valid token full_name pw then refuse 422 ''Request validation failed.''
        else act_bind (raise_as team_as (api_db (\<lambda>d.
            accept_invite (sv_sha v) (sv_hash v) d (fv_racing fv) (fv_id fv) now token full_name pw)))
          (\<lambda>a. api_read (\<lambda>d. Inr (auth_response (sv_sign v) d a))))"

text \<open>Sign-on works on its own world; a failure rolls the database back but keeps the cache.\<close>

definition sso_scope :: "'a xtask \<Rightarrow> 'a xtask" where
  "sso_scope m w = (case m w of (Inl e, w') \<Rightarrow>
       (Inl (case e of SSOError msg code \<Rightarrow> HTTPException code msg | _ \<Rightarrow> e), w'\<lparr>xw_db := xw_db w\<rparr>)
     | (Inr x, w') \<Rightarrow> (Inr x, w'))"

definition api_sso_authorize :: "sso_env \<Rightarrow> string \<Rightarrow> string \<Rightarrow> string \<Rightarrow> string xtask" where
  "api_sso_authorize v slug redirect nonce = sso_scope (build_authorize_url v slug redirect nonce)"

definition api_sso_callback ::
  "sign \<Rightarrow> sso_env \<Rightarrow> string \<Rightarrow> string \<Rightarrow> string \<Rightarrow> string \<Rightarrow> string \<Rightarrow> int \<Rightarrow> (string \<times> admin_summary) xtask" where
  "api_sso_callback sign v code state redirect new_id random now =
     (if code = [] \<or> state = [] \<or> redirect = [] \<or> 500 < length redirect
      then act_raise (HTTPException 422 ''Request validation failed.'')
      else sso_scope (act_bind (handle_callback v code state redirect new_id random now)
        (\<lambda>a. sso_read (\<lambda>d. auth_response sign d a))))"

end
