(* ===== verification/SsoSafety.thy ===== *)
theory SsoSafety
  imports Sso AdmissionSafety
begin

text \<open>
  What single sign-on guarantees: an account it returns is vouched for by the tenant's own
  provider for an active tenant, and new accounts get an invitable role. And what it does not
  look at: the role of an existing account, its second factor, and most values of the
  \<open>email_verified\<close> claim.
\<close>

section \<open>Runs\<close>

lemmas sso_act_defs = act_bind_def act_seq_def act_return_def act_raise_def act_catch_def sso_fail_def lift_def

definition sso_frame :: "sso_world \<Rightarrow> sso_world \<Rightarrow> bool" where
  "sso_frame w w' \<longleftrightarrow> xw_db w' = xw_db w"

lemma sso_call_frame: "sso_call v n rq w = (r, w') \<Longrightarrow> xw_db w' = xw_db w"
  by (auto simp: sso_call_def Let_def)

lemma keeps_sso_call [keeps]: "keeps (\<lambda>w. xw_db w = d) (sso_call v n rq)"
  by (rule keepsI) (auto dest: sso_call_frame)

lemma keeps_sso_fail [keeps]: "keeps I (sso_fail msg code)"
  by (simp add: sso_fail_def keeps)

lemma keeps_sso_lift [keeps]: "keeps I (lift r)"
  by (rule keepsI) (simp add: lift_def)

lemma keeps_sso_wrap [keeps]: "keeps (\<lambda>w. xw_db w = d) m \<Longrightarrow> keeps (\<lambda>w. xw_db w = d) (sso_wrap m msg code)"
  unfolding sso_wrap_def by (intro keeps) (auto intro: keeps split: exn.split)

lemma keeps_doc_url [keeps]: "keeps I (doc_url doc k)"
  by (simp add: doc_url_def keeps)

lemma keeps_sso_discover [keeps]: "keeps (\<lambda>w. xw_db w = d) (sso_discover v issuer)"
proof (rule keepsI)
  fix w r w' assume db: "xw_db w = d" and run: "sso_discover v issuer w = (r, w')"
  show "xw_db w' = d"
  proof (cases "map_of (xw_docs w) issuer")
    case (Some doc)
    with run db show ?thesis by (simp add: sso_discover_def)
  next
    case None
    let ?m = "sso_wrap (sso_call v 3 (SDiscover (issuer @ ''/.well-known/openid-configuration'')))
        ''Could not reach the identity provider.'' 502"
    obtain q w1 where q: "?m w = (q, w1)" by force
    have "keeps (\<lambda>w. xw_db w = d) ?m" by (intro keeps)
    then have "xw_db w1 = d" using db q by (rule keepsD)
    with run None q show ?thesis
      by (auto simp: sso_discover_def sso_act_defs split: sum.splits json.splits if_splits)
  qed
qed

lemma keeps_fetch_userinfo [keeps]: "keeps (\<lambda>w. xw_db w = d) (fetch_userinfo v c code redirect)"
  unfolding fetch_userinfo_def
  by (intro keeps) (auto intro!: keeps)

lemma callback_state_run:
  "callback_state v code state redirect now w = (r, w') \<Longrightarrow> w' = w \<and> (\<forall>tid. r = Inr tid \<longrightarrow>
     (\<exists>m. xe_unsign v state now = Signed m \<and> map_of m ''r'' = Some redirect \<and> tid = or_empty (map_of m ''t'')))"
  by (auto simp: callback_state_def sso_act_defs split: state_token.splits if_splits)

lemma callback_tenant_run:
  "callback_tenant tid w = (r, w') \<Longrightarrow> w' = w \<and> (\<forall>t c. r = Inr (t, c) \<longrightarrow>
     get_config (xw_db w) tid = Some c \<and> sc_enabled c \<and> get_tenant (xw_db w) tid = Some t \<and> tn_status t = TENANT_ACTIVE)"
  by (auto simp: callback_tenant_def split: option.splits if_splits)

lemma checked_email_normal:
  "checked_email c info = Inr email \<Longrightarrow> normalize_email email = email \<and> email \<noteq> [] \<and>
     (allowed_domain_list c = [] \<or> part_after CHR ''@'' email \<in> set (allowed_domain_list c))"
  by (auto simp: checked_email_def rbind_Inr Let_def normalize_email_def py_strip_lower split: if_splits)

text \<open>A new member, or an account as it was.\<close>

lemma provision_member_run:
  assumes "provision_member hash_pw t c email nm i random now w = (Inr a, w')" and "normalize_email email = email"
  shows "ad_email a = email \<and> ad_tenant a = tn_id t \<and> ad_active a \<and>
    (a \<in> set (db_admins (xw_db w)) \<and> w' = w \<or>
     get_admin_by_email (xw_db w) email = None \<and> ad_role a = sc_role c \<and>
       w' = w\<lparr>xw_db := (xw_db w)\<lparr>db_admins := db_admins (xw_db w) @ [a]\<rparr>\<rparr>)"
proof (cases "get_admin_by_email (xw_db w) email")
  case (Some b)
  then have "b \<in> set (db_admins (xw_db w))" "ad_email b = email"
    using assms(2) by (auto simp: get_admin_by_email_def find_Some_iff)
  with Some assms show ?thesis by (auto simp: provision_member_def split: if_splits)
next
  case None
  with assms show ?thesis
    by (auto simp: provision_member_def Let_def insert_unique_def new_admin_def split: sum.splits if_splits)
qed

lemma handle_callback_run:
  assumes "handle_callback v code state redirect i random now w = (Inr a, w')"
  shows "\<exists>m t c info email nm w1. xe_unsign v state now = Signed m \<and> map_of m ''r'' = Some redirect \<and>
    get_tenant (xw_db w) (or_empty (map_of m ''t'')) = Some t \<and> tn_status t = TENANT_ACTIVE \<and>
    get_config (xw_db w) (or_empty (map_of m ''t'')) = Some c \<and> sc_enabled c \<and>
    fetch_userinfo v c code redirect w = (Inr info, w1) \<and> xw_db w1 = xw_db w \<and> checked_email c info = Inr email \<and>
    provision_member (xe_hash v) t c email nm i random now w1 = (Inr a, w')"
proof -
  obtain s w1 where s: "callback_state v code state redirect now w = (s, w1)" by force
  with assms obtain tid where tid: "s = Inr tid" by (cases s) (auto simp: handle_callback_def act_bind_def)
  obtain m where m: "xe_unsign v state now = Signed m" "map_of m ''r'' = Some redirect" "tid = or_empty (map_of m ''t'')"
      and w1: "w1 = w" using callback_state_run [OF s] tid by blast
  obtain q w2 where q: "callback_tenant tid w = (q, w2)" by force
  with assms s tid w1 obtain t c where tc: "q = Inr (t, c)"
    by (cases q) (auto simp: handle_callback_def act_bind_def)
  note tenant = callback_tenant_run [OF q]
  obtain f w3 where f: "fetch_userinfo v c code redirect w = (f, w3)" by force
  with assms s tid w1 q tc tenant obtain info where info: "f = Inr info"
    by (cases f) (auto simp: handle_callback_def act_bind_def)
  have db: "xw_db w3 = xw_db w"
    using keepsD [OF keeps_fetch_userinfo, of w "xw_db w" v c code redirect f w3] f by simp
  from assms s tid w1 q tc tenant f info obtain email nm where
      "checked_email c info = Inr email" "provision_member (xe_hash v) t c email nm i random now w3 = (Inr a, w')"
    by (auto simp: handle_callback_def act_bind_def lift_def split: sum.splits)
  with m tenant tc f info db show ?thesis by blast
qed

lemma dict_get_obj: "m \<noteq> [] \<Longrightarrow> dict_get (JObj m) k = Inr (jget m k)"
  by (cases m) (simp_all add: dict_get_def as_dict_def)

lemma jget_cons: "jget ((k, x) # m) k' = (if k = k' then x else jget m k')"
  by (simp add: jget_def jget_or_def)

lemma checked_email_cong:
  assumes "dict_get i ''email'' = dict_get j ''email''"
    and "dict_get i ''email_verified'' = Inr x" and "dict_get j ''email_verified'' = Inr y"
    and "x \<noteq> JBool False" and "y \<noteq> JBool False"
  shows "checked_email c i = checked_email c j"
  unfolding checked_email_def assms(1-3) using assms(4,5) by (cases "dict_get j ''email''") (simp_all add: Let_def)

section \<open>Properties\<close>

text \<open>
  C35. An account that single sign-on returns belongs to the tenant named by a signed state for this
  redirect address; the tenant is active and has sign-on enabled; its provider answered with the
  account's e-mail, in an allowed domain. The account existed and is active, or is new with the
  configured role.
\<close>

theorem sso_sign_in_is_vouched:
  assumes "handle_callback v code state redirect i random now w = (Inr a, w')"
  shows "\<exists>m t c info w1. xe_unsign v state now = Signed m \<and> map_of m ''r'' = Some redirect \<and>
    get_tenant (xw_db w) (or_empty (map_of m ''t'')) = Some t \<and> tn_status t = TENANT_ACTIVE \<and>
    get_config (xw_db w) (or_empty (map_of m ''t'')) = Some c \<and> sc_enabled c \<and>
    fetch_userinfo v c code redirect w = (Inr info, w1) \<and> checked_email c info = Inr (ad_email a) \<and>
    (allowed_domain_list c = [] \<or> part_after CHR ''@'' (ad_email a) \<in> set (allowed_domain_list c)) \<and>
    ad_tenant a = tn_id t \<and> ad_active a \<and>
    (a \<in> set (db_admins (xw_db w)) \<and> xw_db w' = xw_db w \<or>
     get_admin_by_email (xw_db w) (ad_email a) = None \<and> ad_role a = sc_role c \<and>
       xw_db w' = (xw_db w)\<lparr>db_admins := db_admins (xw_db w) @ [a]\<rparr>)"
proof -
  from handle_callback_run [OF assms] obtain m t c info email nm w1 where
      h: "xe_unsign v state now = Signed m" "map_of m ''r'' = Some redirect"
        "get_tenant (xw_db w) (or_empty (map_of m ''t'')) = Some t" "tn_status t = TENANT_ACTIVE"
        "get_config (xw_db w) (or_empty (map_of m ''t'')) = Some c" "sc_enabled c"
        "fetch_userinfo v c code redirect w = (Inr info, w1)" "checked_email c info = Inr email"
      and db: "xw_db w1 = xw_db w"
      and p: "provision_member (xe_hash v) t c email nm i random now w1 = (Inr a, w')" by blast
  note e = checked_email_normal [OF h(8)]
  from provision_member_run [OF p] e have a: "ad_email a = email" "ad_tenant a = tn_id t" "ad_active a"
      "a \<in> set (db_admins (xw_db w1)) \<and> w' = w1 \<or>
       get_admin_by_email (xw_db w1) email = None \<and> ad_role a = sc_role c \<and>
       w' = w1\<lparr>xw_db := (xw_db w1)\<lparr>db_admins := db_admins (xw_db w1) @ [a]\<rparr>\<rparr>" by blast+
  show ?thesis
    by (rule exI [of _ m], rule exI [of _ t], rule exI [of _ c], rule exI [of _ info], rule exI [of _ w1])
      (use h a e db in auto)
qed

text \<open>
  The role and the second factor of an existing account are not looked at: when the provider
  that the tenant's owner configured asserts the e-mail of any active account of the tenant,
  platform staff included, the caller is signed in as that account.
\<close>

theorem sso_returns_any_account_of_tenant:
  assumes "code \<noteq> []" and "state \<noteq> []" and "xe_unsign v state now = Signed m" and "map_of m ''r'' = Some redirect"
    and "get_config (xw_db w) (or_empty (map_of m ''t'')) = Some c" and "sc_enabled c"
    and "get_tenant (xw_db w) (or_empty (map_of m ''t'')) = Some t" and "tn_status t = TENANT_ACTIVE"
    and "fetch_userinfo v c code redirect w = (Inr info, w1)" and "checked_email c info = Inr email"
    and "get_admin_by_email (xw_db w) email = Some a" and "ad_tenant a = tn_id t" and "ad_active a"
  shows "handle_callback v code state redirect i random now w = (Inr a, w1)"
proof -
  have "callback_state v code state redirect now w = (Inr (or_empty (map_of m ''t'')), w)"
    using assms(1-4) by (simp add: callback_state_def sso_act_defs)
  moreover have "callback_tenant (or_empty (map_of m ''t'')) w = (Inr (t, c), w)"
    using assms(5-8) by (simp add: callback_tenant_def)
  moreover have "xw_db w1 = xw_db w"
    using keepsD [OF keeps_fetch_userinfo, of w "xw_db w" v c code redirect "Inr info" w1] assms(9) by simp
  then have "provision_member (xe_hash v) t c email nm i random now w1 = (Inr a, w1)" for nm
    using assms(11-13) by (simp add: provision_member_def)
  moreover have "\<exists>nm. dict_get info ''name'' = Inr nm"
    using assms(10) by (auto simp: checked_email_def rbind_Inr dict_get_def as_dict_def split: json.splits if_splits)
  ultimately show ?thesis using assms(9,10)
    by (auto simp: handle_callback_def act_bind_def lift_def)
qed

text \<open>
  Any value of \<open>email_verified\<close> but the JSON false counts as verified: the text \<open>false\<close>, null, or
  no claim at all.
\<close>

theorem unverified_text_counts_as_verified:
  assumes "x \<noteq> JBool False" and "map_of m ''email_verified'' = None"
  shows "checked_email c (JObj ((''email_verified'', x) # m)) = checked_email c (JObj ((''email_verified'', JBool True) # m)) \<and>
    (m \<noteq> [] \<longrightarrow> checked_email c (JObj m) = checked_email c (JObj ((''email_verified'', JBool True) # m)))"
proof (intro conjI impI)
  show "checked_email c (JObj ((''email_verified'', x) # m)) = checked_email c (JObj ((''email_verified'', JBool True) # m))"
    by (rule checked_email_cong [where x = x and y = "JBool True"]) (use assms(1) in \<open>simp_all add: dict_get_obj jget_cons\<close>)
next
  assume "m \<noteq> []"
  moreover have "jget m ''email_verified'' = JNull" using assms(2) by (simp add: jget_def jget_or_def)
  ultimately show "checked_email c (JObj m) = checked_email c (JObj ((''email_verified'', JBool True) # m))"
    by (intro checked_email_cong [where x = JNull and y = "JBool True"]) (simp_all add: dict_get_obj jget_cons)
qed

text \<open>A client id of blanks passes the check that enabling needs one, and is saved empty.\<close>

theorem blank_client_id_enables_sso:
  assumes "sf_enabled f" and "form_issuer f \<noteq> []" and "sf_role f \<in> set [''member'', ''admin'']"
    and "sf_client_id f \<noteq> []" and "py_strip (sf_client_id f) = []"
  shows "\<exists>c d'. upsert_config enc d tid f = Inr (c, d') \<and> sc_enabled c \<and> sc_client_id c = []"
proof -
  have a: "sc_enabled (apply_form enc f c) \<and> sc_client_id (apply_form enc f c) = []" for c
    unfolding apply_form_def using assms(1,5) by simp
  have n: "\<not> (sf_enabled f \<and> (form_issuer f = [] \<or> sf_client_id f = []))" "\<not> sf_role f \<notin> set [''member'', ''admin'']"
    using assms by blast+
  have "\<exists>c0 d'. upsert_config enc d tid f = Inr (apply_form enc f c0, d')"
    unfolding upsert_config_def if_not_P [OF n(1)] if_not_P [OF n(2)] Let_def by (cases "get_config d tid") auto
  with a show ?thesis by blast
qed

section \<open>Well-formed accounts, with sign-on\<close>

definition sso_roles_ok :: "db \<Rightarrow> bool" where
  "sso_roles_ok d \<longleftrightarrow> (\<forall>c\<in>set (db_ssos d). sc_role c \<in> set [''member'', ''admin''])"

lemma sso_role_invitable: "r \<in> set [''member'', ''admin''] \<Longrightarrow> r \<in> set ROLES"
  by (auto simp: ROLES_def role_defs)

lemma upsert_run:
  assumes "upsert_config enc d tid f = Inr (c, d')"
  shows "sf_role f \<in> set [''member'', ''admin''] \<and>
    (d' = d\<lparr>db_ssos := db_ssos d @ [apply_form enc f (blank_config tid)]\<rparr> \<or>
     d' = d\<lparr>db_ssos := upd_where (\<lambda>x. sc_tenant x = tid) (apply_form enc f) (db_ssos d)\<rparr>)"
proof -
  have n: "\<not> (sf_enabled f \<and> (form_issuer f = [] \<or> sf_client_id f = []))"
    by (rule notI) (use assms in \<open>unfold upsert_config_def, simp only: if_True Inl_Inr_False simp_thms\<close>)
  have r: "\<not> sf_role f \<notin> set [''member'', ''admin'']"
    by (rule notI) (use assms in \<open>unfold upsert_config_def if_not_P [OF n], simp only: if_True Inl_Inr_False simp_thms\<close>)
  show ?thesis using r assms unfolding upsert_config_def if_not_P [OF n] if_not_P [OF r] Let_def
    by (cases "get_config d tid") auto
qed

lemma apply_form_role: "sc_role (apply_form enc f c) = sf_role f"
  by (simp add: apply_form_def)

lemma roles_after_save:
  assumes "\<forall>c\<in>set cs. sc_role c \<in> R" and "sf_role f \<in> R"
  shows "\<forall>c\<in>set (cs @ [apply_form enc f c0]). sc_role c \<in> R"
    and "\<forall>c\<in>set (upd_where p (apply_form enc f) cs). sc_role c \<in> R"
  using assms by (auto simp: set_upd_where apply_form_role)

lemma upsert_keeps_roles:
  assumes "upsert_config enc d tid f = Inr (c, d')" and "sso_roles_ok d"
  shows "sso_roles_ok d'" and "accounts_ok d' = accounts_ok d"
proof -
  from upsert_run [OF assms(1)] obtain cs where r: "sf_role f \<in> set [''member'', ''admin'']" and d: "d' = d\<lparr>db_ssos := cs\<rparr>"
      and cs: "cs = db_ssos d @ [apply_form enc f (blank_config tid)] \<or>
        cs = upd_where (\<lambda>x. sc_tenant x = tid) (apply_form enc f) (db_ssos d)" by blast
  show "accounts_ok d' = accounts_ok d" unfolding d accounts_ok_def known_tenant_def by simp
  have s: "db_ssos d' = cs" unfolding d by simp
  from cs show "sso_roles_ok d'" unfolding sso_roles_ok_def s
    by (elim disjE) (hypsubst, rule roles_after_save [OF assms(2) [unfolded sso_roles_ok_def] r])+
qed

text \<open>
  Configuring sign-on and signing in through it keep every account well formed and the roles of
  the configurations invitable.
\<close>

theorem sso_keeps_accounts_well_formed:
  assumes "accounts_ok d" and "sso_roles_ok d"
  shows "(\<forall>f c d'. upsert_config enc d tid f = Inr (c, d') \<longrightarrow> accounts_ok d' \<and> sso_roles_ok d') \<and>
    (\<forall>w a w'. xw_db w = d \<and> handle_callback v code state redirect i random now w = (Inr a, w') \<longrightarrow>
       accounts_ok (xw_db w') \<and> sso_roles_ok (xw_db w'))"
proof (intro conjI allI impI)
  fix f c d' assume "upsert_config enc d tid f = Inr (c, d')"
  with upsert_keeps_roles assms show "accounts_ok d'" "sso_roles_ok d'" by blast+
next
  fix w a w' assume run: "xw_db w = d \<and> handle_callback v code state redirect i random now w = (Inr a, w')"
  then obtain m t c info email nm w1 where h: "get_tenant d (or_empty (map_of m ''t'')) = Some t"
      "get_config d (or_empty (map_of m ''t'')) = Some c" "xw_db w1 = d" "checked_email c info = Inr email"
      "provision_member (xe_hash v) t c email nm i random now w1 = (Inr a, w')"
    using handle_callback_run by (metis (no_types, lifting))
  have e: "normalize_email email = email" using checked_email_normal [OF h(4)] by simp
  have "c \<in> set (db_ssos d)" using h(2) by (auto simp: get_config_def find_Some_iff)
  then have role: "sc_role c \<in> set ROLES" using assms(2) sso_role_invitable by (auto simp: sso_roles_ok_def)
  have "known_tenant d (tn_id t)" using h(1) by (auto simp: get_tenant_def known_tenant_def find_Some_iff)
  with provision_member_run [OF h(5) e] h(3) e role assms show "accounts_ok (xw_db w')" "sso_roles_ok (xw_db w')"
    by (auto intro!: accounts_ok_add_admin simp: sso_roles_ok_def)
qed

section \<open>Witnesses\<close>

text \<open>A provider that vouches for the address it is built with, and a tenant that trusts it.\<close>

definition demo_doc :: jdict where
  "demo_doc = [(''authorization_endpoint'', JStr ''a''), (''token_endpoint'', JStr ''t''), (''userinfo_endpoint'', JStr ''u'')]"

definition demo_claims :: "string \<Rightarrow> json" where
  "demo_claims e = JObj [(''email'', JStr e), (''name'', JStr ''n'')]"

definition demo_sso_parse :: "string \<Rightarrow> json option" where
  "demo_sso_parse s = (if s = ''tok'' then Some (JObj [(''access_token'', JStr ''at'')]) else Some (demo_claims s))"

definition demo_sso_env :: "string \<Rightarrow> sso_env" where
  "demo_sso_env e = \<lparr>
     xe_attempt = (\<lambda>h n. Answer \<lparr>hr_status = 200,
       hr_text = (case last h of SToken _ _ \<Rightarrow> ''tok'' | _ \<Rightarrow> e), hr_retry_after = None\<rparr>),
     xe_parse = demo_sso_parse, xe_encrypt = (\<lambda>s. s), xe_fernet = Some,
     xe_sign = (\<lambda>m. ''sig''), xe_unsign = (\<lambda>s n. Signed [(''t'', ''hq''), (''r'', ''/cb'')]),
     xe_urlencode = (\<lambda>m. []), xe_hash = (\<lambda>s. ''h'')\<rparr>"

definition demo_sso_config :: sso_config where
  "demo_sso_config = (blank_config ''hq'')\<lparr>sc_issuer := ''i'', sc_client_id := ''c'', sc_domains := ''X.y'', sc_enabled := True\<rparr>"

definition demo_sso_world :: sso_world where
  "demo_sso_world = \<lparr>xw_db = demo_accounts\<lparr>db_ssos := [demo_sso_config]\<rparr>, xw_docs = [(''i'', demo_doc)], xw_sent = []\<rparr>"

abbreviation demo_callback :: "string \<Rightarrow> (exn + admin_user) \<times> sso_world" where
  "demo_callback e \<equiv> handle_callback (demo_sso_env e) ''code'' ''st'' ''/cb'' ''new'' ''rnd'' 7 demo_sso_world"

lemma demo_callback_ok: "\<exists>a w'. demo_callback ''n@x.y'' = (Inr a, w')"
proof -
  let ?q = "demo_callback ''n@x.y''"
  have "\<not> isl (fst ?q)" by code_simp
  then show ?thesis by (cases ?q) (auto dest!: Inr_of_not_isl)
qed

lemma sso_sign_in_is_vouched_witness:
  "\<exists>a w' (t :: tenant). demo_callback ''n@x.y'' = (Inr a, w') \<and> tn_status t = TENANT_ACTIVE \<and> ad_tenant a = tn_id t \<and> ad_active a"
proof -
  obtain a w' where r: "demo_callback ''n@x.y'' = (Inr a, w')" using demo_callback_ok by blast
  from sso_sign_in_is_vouched [OF r]
  have "\<exists>t :: tenant. tn_status t = TENANT_ACTIVE \<and> ad_tenant a = tn_id t \<and> ad_active a" by blast
  with r show ?thesis by blast
qed

lemma sso_returns_any_account_of_tenant_witness:
  "\<exists>a w'. demo_callback ''r@x.y'' = (Inr a, w') \<and> ad_role a = ROLE_PLATFORM_ADMIN"
proof -
  let ?a = "new_admin ''root'' ''hq'' ''r@x.y'' ''R'' ''p'' ROLE_PLATFORM_ADMIN 0"
  let ?q = "fetch_userinfo (demo_sso_env ''r@x.y'') demo_sso_config ''code'' ''/cb'' demo_sso_world"
  have "fst ?q = Inr (demo_claims ''r@x.y'')" by code_simp
  then have q: "?q = (Inr (demo_claims ''r@x.y''), snd ?q)" by (cases ?q) simp
  have "demo_callback ''r@x.y'' = (Inr ?a, snd ?q)"
  proof (rule sso_returns_any_account_of_tenant [OF _ _ _ _ _ _ _ _ q])
    show "xe_unsign (demo_sso_env ''r@x.y'') ''st'' 7 = Signed [(''t'', ''hq''), (''r'', ''/cb'')]"
      by (simp add: demo_sso_env_def)
    show "get_tenant (xw_db demo_sso_world) (or_empty (map_of [(''t'', ''hq''), (''r'', ''/cb'')] ''t'')) =
        Some (demo_tenant ''hq'' TENANT_ACTIVE)"
      by (simp add: demo_sso_world_def demo_accounts_def get_tenant_def demo_tenant_def)
    show "get_config (xw_db demo_sso_world) (or_empty (map_of [(''t'', ''hq''), (''r'', ''/cb'')] ''t'')) = Some demo_sso_config"
      by (simp add: demo_sso_world_def get_config_def demo_sso_config_def blank_config_def)
    show "checked_email demo_sso_config (demo_claims ''r@x.y'') = Inr ''r@x.y''" by code_simp
    show "get_admin_by_email (xw_db demo_sso_world) ''r@x.y'' = Some ?a"
      by (simp add: demo_sso_world_def demo_accounts_def get_admin_by_email_def normalize_email_def new_admin_def) code_simp
  qed (simp_all add: demo_sso_config_def demo_tenant_def new_admin_def)
  then show ?thesis by (auto simp: new_admin_def)
qed

lemma unverified_text_counts_as_verified_witness:
  "checked_email demo_sso_config (JObj ((''email_verified'', JStr ''false'') # [(''email'', JStr ''n@x.y'')])) = Inr ''n@x.y''"
proof -
  let ?m = "[(''email'', JStr ''n@x.y'')]"
  have "checked_email demo_sso_config (JObj ((''email_verified'', JStr ''false'') # ?m)) =
      checked_email demo_sso_config (JObj ((''email_verified'', JBool True) # ?m))"
    by (rule unverified_text_counts_as_verified [THEN conjunct1]) simp_all
  also have "\<dots> = Inr ''n@x.y''" by code_simp
  finally show ?thesis .
qed

definition demo_sso_form :: sso_form where
  "demo_sso_form = \<lparr>sf_issuer = ''https://i/'', sf_client_id = '' '', sf_secret = None, sf_domains = [], sf_role = ''member'',
     sf_label = [], sf_enabled = True\<rparr>"

lemma blank_client_id_enables_sso_witness:
  "\<exists>c d'. upsert_config id demo_accounts ''t1'' demo_sso_form = Inr (c, d') \<and> sc_enabled c \<and> sc_client_id c = []"
  by (rule blank_client_id_enables_sso) code_simp+

lemma sso_keeps_accounts_well_formed_witness:
  "accounts_ok (xw_db demo_sso_world) \<and> (\<exists>a. fst (demo_callback ''n@x.y'') = Inr a) \<and>
   accounts_ok (xw_db (snd (demo_callback ''n@x.y'')))"
proof -
  have a: "accounts_ok (xw_db demo_sso_world)" by code_simp
  have b: "sso_roles_ok (xw_db demo_sso_world)" by code_simp
  obtain x w' where r: "demo_callback ''n@x.y'' = (Inr x, w')" using demo_callback_ok by blast
  from sso_keeps_accounts_well_formed [OF a b] r have "accounts_ok (xw_db w')" by blast
  with a r show ?thesis by simp
qed

end
