(* ===== verification/SelfSafety.thy ===== *)
theory SelfSafety
  imports SelfService SsoSafety
begin

text \<open>
  What the self-service routes guarantee: an administrator reaches only what is his own or his
  tenant's, the changes that matter for security leave an audit event, a read-only token changes
  nothing, and an invitation leads its colleague into the tenant.
\<close>

section \<open>What a request cannot reach\<close>

text \<open>The database without the tokens of one administrator and the rows of his tenant.\<close>

definition outside :: "admin_user \<Rightarrow> db \<Rightarrow> db" where
  "outside a d = d\<lparr>
     db_tokens := filter (\<lambda>t. tk_admin t \<noteq> ad_id a) (db_tokens d),
     db_admins := filter (\<lambda>x. ad_tenant x \<noteq> ad_tenant a) (db_admins d),
     db_invites := filter (\<lambda>i. iv_tenant i \<noteq> ad_tenant a) (db_invites d),
     db_jobs := filter (\<lambda>j. jb_tenant j \<noteq> ad_tenant a) (db_jobs d),
     db_runs := filter (\<lambda>r. jr_tenant r \<noteq> ad_tenant a) (db_runs d),
     db_monitors := filter (\<lambda>m. um_tenant m \<noteq> ad_tenant a) (db_monitors d),
     db_channels := filter (\<lambda>c. ch_tenant c \<noteq> ad_tenant a) (db_channels d),
     db_ssos := filter (\<lambda>c. sc_tenant c \<noteq> ad_tenant a) (db_ssos d)\<rparr>"

text \<open>Primary keys are unique, and a run belongs to the tenant of its job.\<close>

definition keys_ok :: "db \<Rightarrow> bool" where
  "keys_ok d \<longleftrightarrow> distinct (map tk_id (db_tokens d)) \<and> distinct (map ad_id (db_admins d)) \<and>
     distinct (map iv_id (db_invites d)) \<and> distinct (map jb_id (db_jobs d)) \<and>
     distinct (map um_id (db_monitors d)) \<and> distinct (map ch_id (db_channels d)) \<and>
     (\<forall>r\<in>set (db_runs d). \<forall>j\<in>set (db_jobs d). jr_job r = jb_id j \<longrightarrow> jr_tenant r = jb_tenant j)"

lemma same_key: "distinct (map k xs) \<Longrightarrow> x \<in> set xs \<Longrightarrow> y \<in> set xs \<Longrightarrow> k y = k x \<Longrightarrow> y = x"
  by (simp add: distinct_map inj_on_def)

lemma others_upd:
  assumes "distinct (map k xs)" and "x \<in> set xs" and "own x = t" and "own (f x) = t"
  shows "filter (\<lambda>y. own y \<noteq> t) (upd_where (\<lambda>y. k y = k x) f xs) = filter (\<lambda>y. own y \<noteq> t) xs"
  using assms by (intro filter_upd_where_out) (auto dest: same_key [OF assms(1,2)])

lemma others_del:
  assumes "distinct (map k xs)" and "x \<in> set xs" and "own x = t"
  shows "filter (\<lambda>y. own y \<noteq> t) (filter (\<lambda>y. k y \<noteq> k x) xs) = filter (\<lambda>y. own y \<noteq> t) xs"
  using assms by (auto simp: filter_filter intro!: filter_cong dest: same_key [OF assms(1,2)])

text \<open>A change that stays within reach.\<close>

definition confined :: "admin_user \<Rightarrow> db \<Rightarrow> db \<Rightarrow> bool" where
  "confined a d d' \<longleftrightarrow> (keys_ok d \<and> a \<in> set (db_admins d) \<longrightarrow> outside a d' = outside a d)"

lemma confined_refl [simp]: "confined a d d"
  by (simp add: confined_def)

lemma confined_member:
  assumes "x \<in> set (db_admins d)" and "ad_tenant x = ad_tenant a" and "\<And>y. ad_tenant (f y) = ad_tenant y"
  shows "confined a d (set_admin (ad_id x) f d)"
  using assms others_upd [of ad_id "db_admins d" x ad_tenant "ad_tenant a" f]
  by (auto simp: confined_def outside_def set_admin_def keys_ok_def)

lemma confined_self: "(\<And>y. ad_tenant (f y) = ad_tenant y) \<Longrightarrow> confined a d (set_admin (ad_id a) f d)"
  using confined_member [of a d a f] by (auto simp: confined_def)

subsection \<open>Services\<close>

lemma confined_update_profile: "update_profile d racing a nm em = Inr (r, d') \<Longrightarrow> confined a d d'"
  by (auto simp: update_profile_def Let_def confined_self split: if_splits)

lemma confined_change_password: "change_password h v d a cur new = Inr d' \<Longrightarrow> confined a d d'"
  by (auto simp: change_password_def confined_self split: if_splits sum.splits)

lemma confined_setup_totp: "setup_totp uri d a raw = Inr (r, d') \<Longrightarrow> confined a d d'"
  by (auto simp: setup_totp_def Let_def confined_self split: if_splits)

lemma confined_enable_totp: "enable_totp hm sha d a code now rs = Inr (r, d') \<Longrightarrow> confined a d d'"
  by (auto simp: enable_totp_def Let_def confined_self split: if_splits sum.splits bool.splits)

lemma confined_disable_totp: "disable_totp v d a pw = Inr d' \<Longrightarrow> confined a d d'"
  by (auto simp: disable_totp_def confined_self split: if_splits)

lemma confined_create_token: "create_token sha d i r now a nm sc days = Inr (x, d') \<Longrightarrow> confined a d d'"
  by (auto simp: create_token_def Let_def map_sum_Inr insert_unique_Inr confined_def outside_def)

lemma confined_revoke_token: "revoke_token d a i = (b, d') \<Longrightarrow> confined a d d'"
  using others_upd [of tk_id "db_tokens d" _ tk_admin "ad_id a"]
  by (auto simp: revoke_token_def confined_def outside_def keys_ok_def split: option.splits if_splits dest!: find_SomeD)

lemma confined_create_channel: "create_channel d i r now (ad_tenant a) nm url ev = (c, d') \<Longrightarrow> confined a d d'"
  by (auto simp: create_channel_def Let_def confined_def outside_def)

lemma get_channel_Some:
  "get_channel d tid i = Some c \<Longrightarrow> c \<in> set (db_channels d) \<and> ch_id c = i \<and> ch_tenant c = tid"
  by (auto simp: get_channel_def split: option.splits if_splits dest!: find_SomeD)

lemma confined_delete_channel: "delete_channel d (ad_tenant a) i = (b, d') \<Longrightarrow> confined a d d'"
  using others_del [of ch_id "db_channels d" _ ch_tenant "ad_tenant a"]
  by (auto simp: delete_channel_def confined_def outside_def keys_ok_def split: option.splits dest!: get_channel_Some)

lemma channel_outcome:
  assumes "c \<in> set (db_channels d)" and "ch_tenant c = ad_tenant a" and "\<And>x. ch_tenant (f x) = ch_tenant x"
  shows "confined a d (d\<lparr>db_channels := upd_where (\<lambda>x. ch_id x = ch_id c) f (db_channels d)\<rparr>)"
  using assms others_upd [of ch_id "db_channels d" c ch_tenant "ad_tenant a" f]
  by (auto simp: confined_def outside_def keys_ok_def)

lemma confined_deliver:
  assumes "deliver mac enc post d now c ev p = (e, Inr (ok, label, d'))" and "c \<in> set (db_channels d)"
    and "ch_tenant c = ad_tenant a"
  shows "confined a d d'"
  using assms channel_outcome [of c d a]
  by (auto simp: deliver_def Let_def split: http_outcome.splits if_splits)

text \<open>Sending changes only the delivery columns of the channels, so it stays within reach.\<close>

definition channel_ids :: "db \<Rightarrow> (string \<times> string) list" where
  "channel_ids d = map (\<lambda>c. (ch_id c, ch_tenant c)) (db_channels d)"

lemma deliver_same_channels:
  assumes "deliver mac enc post d now c ev p = (e, Inr (ok, label, d'))"
  shows "channel_ids d' = channel_ids d" and "\<exists>cs. d' = d\<lparr>db_channels := cs\<rparr>"
  using assms by (auto simp: deliver_def Let_def channel_ids_def map_upd_where split: http_outcome.splits if_splits)

lemma channel_ids_keys: "distinct (map ch_id (db_channels d)) = distinct (map fst (channel_ids d))"
  by (simp add: channel_ids_def comp_def)

lemma confined_deliver_all:
  assumes "deliver_all mac enc post d now cs ev p = (es, Inr d')"
    and "\<forall>c\<in>set cs. (ch_id c, ad_tenant a) \<in> set (channel_ids d)"
  shows "confined a d d'"
  using assms
proof (induction cs arbitrary: d es)
  case (Cons c cs)
  from Cons.prems(1) obtain e ok label d1 es1 where one: "deliver mac enc post d now c ev p = (e, Inr (ok, label, d1))"
      and rest: "deliver_all mac enc post d1 now cs ev p = (es1, Inr d')"
    by (auto split: prod.splits sum.splits)
  obtain xs where d1: "d1 = d\<lparr>db_channels := xs\<rparr>" using deliver_same_channels(2) [OF one] by blast
  note ids = deliver_same_channels(1) [OF one]
  have tail: "confined a d1 d'" using Cons.IH [OF rest] Cons.prems(2) ids by simp
  obtain c0 where c0: "c0 \<in> set (db_channels d)" "ch_id c0 = ch_id c" "ch_tenant c0 = ad_tenant a"
    using Cons.prems(2) by (auto simp: channel_ids_def)
  have head: "confined a d d1"
    using one c0 channel_outcome [of c0 d a]
    by (auto simp: deliver_def Let_def split: http_outcome.splits if_splits)
  have "keys_ok d1" if "keys_ok d" using that ids unfolding keys_ok_def channel_ids_keys by (simp add: d1)
  with head tail show ?case by (auto simp: confined_def d1)
qed simp

lemma confined_dispatch:
  assumes "dispatch mac enc post d now (ad_tenant a) ev p = (es, Inr d')"
  shows "confined a d d'"
proof (rule confined_deliver_all [OF assms [unfolded dispatch_def]], intro ballI)
  fix c assume "c \<in> set (filter (\<lambda>c. subscribed c ev) (list_channels d (ad_tenant a)))"
  then show "(ch_id c, ad_tenant a) \<in> set (channel_ids d)" by (auto simp: list_channels_def channel_ids_def)
qed

lemma confined_uptime_notify: "uptime_notify v now mid d (ad_tenant a) ev = Inr d' \<Longrightarrow> confined a d d'"
  using confined_dispatch [of "sv_mac v" "sv_encode v" "sv_post v" d now a]
  by (auto simp: uptime_notify_def split: option.splits) (metis prod.collapse)+

lemma get_monitor_Some:
  "get_monitor d tid i = Some m \<Longrightarrow> m \<in> set (db_monitors d) \<and> um_id m = i \<and> um_tenant m = tid"
  by (auto simp: get_monitor_def split: option.splits if_splits dest!: find_SomeD)

lemma confined_create_monitor: "create_monitor d i now (ad_tenant a) nm url = (m, d') \<Longrightarrow> confined a d d'"
  by (auto simp: create_monitor_def Let_def confined_def outside_def)

lemma confined_delete_monitor: "delete_monitor d (ad_tenant a) i = (b, d') \<Longrightarrow> confined a d d'"
  using others_del [of um_id "db_monitors d" _ um_tenant "ad_tenant a"]
  by (auto simp: delete_monitor_def confined_def outside_def keys_ok_def split: option.splits dest!: get_monitor_Some)

lemma confined_trans_cols:
  assumes "confined a d d1" and "confined a d1 d2" and "keys_ok d \<Longrightarrow> keys_ok d1" and "db_admins d1 = db_admins d"
  shows "confined a d d2"
  using assms by (auto simp: confined_def)

lemma confined_check_one:
  assumes "check_one get (uptime_notify v now mid) d now m = Inr (cur, al, d')" and "m \<in> set (db_monitors d)"
    and "um_tenant m = ad_tenant a"
  shows "confined a d d'"
proof -
  obtain lat det where p: "probe get (um_url m) = Inr (cur, lat, det)"
    using assms(1) by (auto simp: check_one_def Let_def split: sum.splits option.splits)
  let ?d = "d\<lparr>db_monitors := upd_where (\<lambda>x. um_id x = um_id m)
    (\<lambda>x. x\<lparr>um_status := cur, um_checked := Some now, um_latency := lat, um_detail := det\<rparr>) (db_monitors d)\<rparr>"
  have one: "confined a d ?d"
    using assms(2,3) others_upd [of um_id "db_monitors d" m um_tenant "ad_tenant a"]
    by (auto simp: confined_def outside_def keys_ok_def)
  have keys: "keys_ok d \<Longrightarrow> keys_ok ?d" by (simp add: keys_ok_def map_upd_where)
  have two: "d' = ?d \<or> (\<exists>ev. uptime_notify v now mid ?d (ad_tenant a) ev = Inr d')"
    using assms(1,3) p by (auto simp: check_one_def Let_def split: sum.splits option.splits)
  then have "confined a ?d d'" using confined_uptime_notify by auto
  with one keys show ?thesis by (intro confined_trans_cols [of a d ?d d']) auto
qed

lemma owned_job_Some: "owned_job d (Some t) i = Inr j \<Longrightarrow> j \<in> set (db_jobs d) \<and> jb_id j = i \<and> jb_tenant j = t"
  by (auto simp: owned_job_def or_empty_def split: option.splits if_splits dest!: find_SomeD)

lemma confined_create_job: "create_job d i now (Some (ad_tenant a)) nm cron url me = Inr (j, d') \<Longrightarrow> confined a d d'"
  by (auto simp: create_job_def Let_def confined_def outside_def or_empty_def split: if_splits)

lemma confined_update_job:
  assumes "update_job d (Some (ad_tenant a)) i cron url me en = Inr (j, d')"
  shows "confined a d d'"
proof -
  from assms obtain j0 where j0: "owned_job d (Some (ad_tenant a)) i = Inr j0" "jb_tenant j = jb_tenant j0"
      and d': "d' = d\<lparr>db_jobs := upd_where (\<lambda>x. jb_id x = i) (\<lambda>_. j) (db_jobs d)\<rparr>"
    by (auto simp: update_job_def Let_def upd_job_cron_def upd_job_url_def upd_job_method_def upd_job_enabled_def
        split: sum.splits option.splits if_splits)
  with owned_job_Some [OF j0(1)] others_upd [of jb_id "db_jobs d" j0 jb_tenant "ad_tenant a" "\<lambda>_. j"]
  show ?thesis by (auto simp: confined_def outside_def keys_ok_def)
qed

lemma confined_delete_job:
  assumes "delete_job d (Some (ad_tenant a)) i = Inr d'"
  shows "confined a d d'"
proof -
  from assms obtain j where j: "j \<in> set (db_jobs d)" "jb_tenant j = ad_tenant a"
      and d': "d' = d\<lparr>db_runs := filter (\<lambda>r. jr_job r \<noteq> jb_id j) (db_runs d), db_jobs := filter (\<lambda>x. jb_id x \<noteq> jb_id j) (db_jobs d)\<rparr>"
    by (auto simp: delete_job_def split: sum.splits dest!: owned_job_Some)
  show ?thesis unfolding confined_def
  proof
    assume k: "keys_ok d \<and> a \<in> set (db_admins d)"
    then have "filter (\<lambda>r. jr_tenant r \<noteq> ad_tenant a) (filter (\<lambda>r. jr_job r \<noteq> jb_id j) (db_runs d)) =
        filter (\<lambda>r. jr_tenant r \<noteq> ad_tenant a) (db_runs d)"
      using j by (auto simp: keys_ok_def filter_filter intro!: filter_cong)
    with k j show "outside a d' = outside a d"
      using others_del [of jb_id "db_jobs d" j jb_tenant "ad_tenant a"] by (auto simp: outside_def d' keys_ok_def)
  qed
qed

lemma confined_create_invite:
  assumes "create_invite sha d i raw now (ad_tenant a) inviter em role = Inr (x, d')"
  shows "confined a d d'"
proof -
  have "filter (\<lambda>i. iv_tenant i \<noteq> ad_tenant a) (revoke_stale (ad_tenant a) e xs) = filter (\<lambda>i. iv_tenant i \<noteq> ad_tenant a) xs" for e xs
    unfolding revoke_stale_def by (rule filter_upd_where_out) auto
  with assms show ?thesis
    by (auto simp: create_invite_def Let_def insert_unique_Inr map_sum_Inr confined_def outside_def split: if_splits option.splits)
qed

lemma confined_revoke_invite: "revoke_invite d (ad_tenant a) i = Inr d' \<Longrightarrow> confined a d d'"
  using others_upd [of iv_id "db_invites d" _ iv_tenant "ad_tenant a"]
  by (auto simp: revoke_invite_def confined_def outside_def keys_ok_def split: option.splits if_splits dest!: find_SomeD)

lemma member_in_tenant_Some: "member_in_tenant d t i = Inr m \<Longrightarrow> m \<in> set (db_admins d) \<and> ad_tenant m = t"
  by (auto simp: member_in_tenant_def get_admin_by_id_def split: option.splits if_splits dest!: find_SomeD)

lemma confined_change_role: "change_role d (ad_tenant a) i role = Inr (m, d') \<Longrightarrow> confined a d d'"
  by (auto simp: change_role_def Let_def split: if_splits sum.splits dest!: member_in_tenant_Some intro!: confined_member)

lemma confined_remove_member: "remove_member d (ad_tenant a) i b = Inr (m, d') \<Longrightarrow> confined a d d'"
  by (auto simp: remove_member_def split: if_splits sum.splits dest!: member_in_tenant_Some intro!: confined_member)

lemma confined_sso:
  assumes "db_ssos d' = cs" and "d' = d\<lparr>db_ssos := cs\<rparr>"
    and "filter (\<lambda>c. sc_tenant c \<noteq> ad_tenant a) cs = filter (\<lambda>c. sc_tenant c \<noteq> ad_tenant a) (db_ssos d)"
  shows "confined a d d'"
  using assms by (simp add: confined_def outside_def)

lemma confined_upsert_config:
  assumes "upsert_config enc d (ad_tenant a) f = Inr (c, d')"
  shows "confined a d d'"
proof -
  have t: "sc_tenant (apply_form enc f x) = sc_tenant x" for x by (simp add: apply_form_def)
  obtain cs where "d' = d\<lparr>db_ssos := cs\<rparr>"
      "cs = db_ssos d @ [apply_form enc f (blank_config (ad_tenant a))] \<or>
       cs = upd_where (\<lambda>x. sc_tenant x = ad_tenant a) (apply_form enc f) (db_ssos d)"
    using upsert_run [OF assms] by blast
  then show ?thesis
    by (intro confined_sso [of d' cs]) (auto simp: t blank_config_def intro!: filter_upd_where_out)
qed

lemma confined_delete_config: "confined a d (delete_config d (ad_tenant a))"
  by (simp add: confined_def outside_def delete_config_def)

subsection \<open>Handlers\<close>

definition reaches :: "admin_user \<Rightarrow> 'a atask \<Rightarrow> bool" where
  "reaches a m \<longleftrightarrow> (\<forall>w r w'. m w = (r, w') \<longrightarrow> confined a (aw_db w) (aw_db w'))"

definition db_still :: "'a atask \<Rightarrow> bool" where
  "db_still m \<longleftrightarrow> (\<forall>w r w'. m w = (r, w') \<longrightarrow> aw_db w' = aw_db w)"

named_theorems reaching \<open>handlers that stay within reach\<close>

lemma still_return [reaching]: "db_still (act_return x)"
  and still_raise [reaching]: "db_still (act_raise e)"
  and still_refuse [reaching]: "db_still (refuse c msg)"
  and still_read [reaching]: "db_still (api_read f)"
  and still_event [reaching]: "db_still (add_event ac t tg dt n)"
  by (simp_all add: db_still_def act_return_def act_raise_def refuse_def api_read_def add_event_def)

lemma still_bind [reaching]: "db_still m \<Longrightarrow> (\<And>x. db_still (f x)) \<Longrightarrow> db_still (act_bind m f)"
  by (fastforce simp: db_still_def act_bind_def split: prod.splits sum.splits)

lemma still_seq [reaching]: "db_still m \<Longrightarrow> db_still n \<Longrightarrow> db_still (act_seq m n)"
  by (simp add: act_seq_def still_bind)

lemma reaches_still: "db_still m \<Longrightarrow> reaches a m"
  by (auto simp: reaches_def db_still_def)

lemma reaches_db [reaching]: "(\<And>d x d'. f d = Inr (x, d') \<Longrightarrow> confined a d d') \<Longrightarrow> reaches a (api_db f)"
  by (auto simp: reaches_def api_db_def split: sum.splits)

lemma reaches_then [reaching]: "reaches a m \<Longrightarrow> (\<And>x. db_still (f x)) \<Longrightarrow> reaches a (act_bind m f)"
  by (fastforce simp: reaches_def db_still_def act_bind_def split: prod.splits sum.splits)

lemma reaches_after: "db_still m \<Longrightarrow> (\<And>x. reaches a (f x)) \<Longrightarrow> reaches a (act_bind m f)"
  by (fastforce simp: reaches_def db_still_def act_bind_def split: prod.splits sum.splits)

lemma reaches_seq [reaching]: "reaches a m \<Longrightarrow> db_still n \<Longrightarrow> reaches a (act_seq m n)"
  by (simp add: act_seq_def reaches_then)

lemma reaches_raise_as [reaching]: "reaches a m \<Longrightarrow> reaches a (raise_as f m)"
  by (fastforce simp: reaches_def raise_as_def act_catch_def refuse_def act_raise_def
      split: prod.splits sum.splits option.splits)

lemma reaches_reply [reaching]: "reaches a m \<Longrightarrow> reaches a (reply_with f m)"
  unfolding reply_with_def by (intro reaching)

lemma reaches_if [reaching]: "reaches a m \<Longrightarrow> reaches a n \<Longrightarrow> reaches a (if b then m else n)"
  by simp

lemma still_if [reaching]: "db_still m \<Longrightarrow> db_still n \<Longrightarrow> db_still (if b then m else n)"
  by simp

text \<open>A row is looked up and then worked on in the same state.\<close>

lemma reaches_found [reaching]:
  assumes "\<And>d x y d'. f d = Inr x \<Longrightarrow> g x d = Inr (y, d') \<Longrightarrow> confined a d d'"
  shows "reaches a (act_bind (api_read f) (\<lambda>x. api_db (g x)))"
  using assms by (fastforce simp: reaches_def act_bind_def api_read_def api_db_def split: prod.splits sum.splits)

lemma map_sum_unit: "map_sum id (Pair ()) r = Inr (x, d') \<Longrightarrow> r = Inr d'"
  by (cases r) auto

lemmas confined_ops = confined_update_profile confined_change_password confined_setup_totp confined_enable_totp
  confined_disable_totp confined_create_token confined_revoke_token confined_create_channel confined_delete_channel
  confined_create_monitor confined_delete_monitor confined_create_job confined_update_job confined_delete_job
  confined_create_invite confined_revoke_invite confined_change_role confined_remove_member confined_upsert_config
  confined_delete_config

lemmas self_route_defs = api_me_def api_account_update_def api_account_password_def api_list_tokens_def api_create_token_def
  api_revoke_token_def api_two_factor_status_def api_two_factor_setup_def api_two_factor_enable_def
  api_two_factor_disable_def api_list_notifications_def api_create_notification_def api_delete_notification_def
  api_list_monitors_def api_create_monitor_def api_delete_monitor_def api_list_jobs_def api_create_job_def
  api_update_job_def api_delete_job_def api_job_runs_def api_team_def api_create_invite_def api_revoke_invite_def
  api_change_member_role_def api_remove_member_def api_get_sso_def api_put_sso_def api_delete_sso_def

lemma reaches_test: "reaches a (api_test_notification v now a i)"
  unfolding api_test_notification_def
  by (intro reaching)
    (auto simp: map_sum_Inr split: option.splits prod.splits dest!: get_channel_Some intro: confined_deliver [OF prod_eqI])

lemma reaches_found_seq:
  assumes "\<And>d x y d'. f d = Inr x \<Longrightarrow> g x d = Inr (y, d') \<Longrightarrow> confined a d d'" and "\<And>x. db_still (n x)"
  shows "reaches a (act_bind (api_read f) (\<lambda>x. act_seq (api_db (g x)) (n x)))"
  using assms
  by (fastforce simp: reaches_def db_still_def act_bind_def act_seq_def api_read_def api_db_def split: prod.splits sum.splits)

lemma reaches_check: "reaches a (api_check_monitor v now a i)"
  unfolding api_check_monitor_def
  by (intro reaches_found_seq still_read)
    (auto simp: map_sum_Inr split: option.splits prod.splits dest!: get_monitor_Some intro: confined_check_one)

lemma still_option [reaching]: "db_still n \<Longrightarrow> (\<And>x. db_still (f x)) \<Longrightarrow> db_still (case r of None \<Rightarrow> n | Some x \<Rightarrow> f x)"
  by (cases r) auto

lemma still_pair [reaching]: "(\<And>x y. db_still (f x y)) \<Longrightarrow> db_still (case p of (x, y) \<Rightarrow> f x y)"
  by (cases p) auto

lemma reaches_self_handler: "reaches a (self_handler v fv now a rq)"
proof (cases rq)
  case (TestChannel i)
  then show ?thesis using reaches_test by (simp add: reaches_reply)
next
  case (CheckMonitor i)
  then show ?thesis using reaches_check by (simp add: reaches_reply)
qed (simp_all only: self_handler.simps self_route_defs,
  (intro reaching reaches_still [OF still_read] reaches_still [OF still_return] reaches_still [OF still_refuse];
   auto dest!: map_sum_unit intro: confined_ops)+)

section \<open>The routes\<close>

lemma token_touch:
  assumes "authenticate_token sha d t now = (Some tok, d')" and "keys_ok d"
  shows "keys_ok d'" and "tk_admin tok = ad_id a \<Longrightarrow> outside a d' = outside a d"
proof -
  from assms(1) obtain x where x: "x \<in> set (db_tokens d)" "tk_admin x = tk_admin tok"
      and d': "d' = d\<lparr>db_tokens := upd_where (\<lambda>y. tk_id y = tk_id x) (\<lambda>y. y\<lparr>tk_last_used := Some now\<rparr>) (db_tokens d)\<rparr>"
    by (auto simp: authenticate_token_def split: option.splits if_splits dest!: find_SomeD)
  show "keys_ok d'" using assms(2) by (simp add: d' keys_ok_def map_upd_where)
  show "outside a d' = outside a d" if "tk_admin tok = ad_id a"
    using assms(2) x that others_upd [of tk_id "db_tokens d" x tk_admin "ad_id a"]
    by (auto simp: d' outside_def keys_ok_def)
qed

lemma bearer_touch:
  assumes "bearer_admin cfg unsign sha call token w = (Inr (Some i), w1)" and "keys_ok (aw_db w)"
  shows "keys_ok (aw_db w1)" and "ad_id a = i \<Longrightarrow> outside a (aw_db w1) = outside a (aw_db w)"
proof -
  have "keys_ok (aw_db w1) \<and> (ad_id a = i \<longrightarrow> outside a (aw_db w1) = outside a (aw_db w))"
  proof (cases "looks_like_personal_token token")
    case False
    with assms show ?thesis by (auto simp: bearer_admin_def act_defs split: option.splits)
  next
    case True
    obtain t d1 where t: "authenticate_token sha (aw_db w) token (ac_now call) = (t, d1)" by force
    show ?thesis
    proof (cases t)
      case None
      with assms True t show ?thesis by (auto simp: bearer_admin_def act_defs)
    next
      case (Some tok)
      obtain q w2 where q: "enforce_api_token_rate_limit cfg (tk_id tok) (ac_tick call) (w\<lparr>aw_db := d1\<rparr>) = (q, w2)"
        by force
      with assms(1) True t Some rate_limit_frame [OF q] have "i = tk_admin tok" "aw_db w1 = d1"
        by (auto simp: bearer_admin_def act_defs split: sum.splits if_splits)
      with token_touch [OF t [unfolded Some] assms(2)] show ?thesis by auto
    qed
  qed
  then show "keys_ok (aw_db w1)" and "ad_id a = i \<Longrightarrow> outside a (aw_db w1) = outside a (aw_db w)" by auto
qed

lemma api_guard_touch:
  assumes "get_current_api_admin cfg unsign sha call w = (Inr a, w1)" and "keys_ok (aw_db w)"
  shows "keys_ok (aw_db w1)" and "outside a (aw_db w1) = outside a (aw_db w)"
proof -
  from assms(1) obtain x w2 where x: "bearer_admin cfg unsign sha call (bearer_of call) w = (Inr x, w2)"
      and s: "session_admin (ac_method call) (or_empty x) w2 = (Inr a, w1)"
    by (auto simp: get_current_api_admin_def bearer_of_def act_defs split: if_splits prod.splits sum.splits)
  then have a: "w1 = w2" "or_empty x \<noteq> []" "get_admin_by_id (aw_db w2) (or_empty x) = Some a"
    by (auto simp: session_admin_def act_defs split: if_splits option.splits)
  then obtain i where i: "x = Some i" "ad_id a = i"
    by (cases x) (auto simp: or_empty_def get_admin_by_id_def dest!: find_SomeD)
  with bearer_touch [OF x [unfolded i(1)] assms(2)] a(1)
  show "keys_ok (aw_db w1)" and "outside a (aw_db w1) = outside a (aw_db w)" by auto
qed

lemma self_guard_run:
  assumes "self_guard v call rq w = (Inr a, w1)"
  shows "get_current_api_admin (sv_cfg v) (sv_unsign v) (sv_sha v) call w = (Inr a, w1)"
    and "owner_only rq \<Longrightarrow> ad_role a \<in> {ROLE_OWNER, ROLE_PLATFORM_ADMIN}"
proof -
  have "get_current_api_admin (sv_cfg v) (sv_unsign v) (sv_sha v) call w = (Inr a, w1) \<and>
      (owner_only rq \<longrightarrow> ad_role a \<in> {ROLE_OWNER, ROLE_PLATFORM_ADMIN})"
    using assms by (auto simp: self_guard_def require_tenant_owner_def act_defs split: if_splits prod.splits sum.splits)
  then show "get_current_api_admin (sv_cfg v) (sv_unsign v) (sv_sha v) call w = (Inr a, w1)"
    and "owner_only rq \<Longrightarrow> ad_role a \<in> {ROLE_OWNER, ROLE_PLATFORM_ADMIN}" by blast+
qed

text \<open>A route that answers has passed its guard and its payload check, and ran its handler.\<close>

lemma self_route_run:
  assumes "self_route v fv call rq w = (Inr rep, w')"
  obtains a w1 where "self_guard v (call\<lparr>ac_method := self_method rq\<rparr>) rq w = (Inr a, w1)" and "self_valid rq"
    and "self_handler v fv (ac_now call) a rq w1 = (Inr rep, w')"
  using session_scope_Inr [OF assms [unfolded self_route_def]]
  by (auto simp: act_bind_def act_seq_def check_payload_def act_return_def refuse_def act_raise_def
      split: prod.splits sum.splits if_splits)

section \<open>Properties\<close>


section \<open>The audit log\<close>

definition log_still :: "'a atask \<Rightarrow> bool" where
  "log_still m \<longleftrightarrow> (\<forall>w r w'. m w = (r, w') \<longrightarrow> aw_audit w' = aw_audit w)"

text \<open>\<open>logs_one who act now m\<close>: when \<open>m\<close> returns it has added one event, of \<open>who\<close> and named \<open>act\<close>.\<close>

definition one_event :: "string \<Rightarrow> string \<Rightarrow> int \<Rightarrow> audit_event list \<Rightarrow> bool" where
  "one_event who act now es \<longleftrightarrow> (\<exists>e. es = [e] \<and> au_actor e = who \<and> au_action e = act \<and> au_created e = now)"

definition logs_one :: "string \<Rightarrow> string \<Rightarrow> int \<Rightarrow> 'a atask \<Rightarrow> bool" where
  "logs_one who act now m \<longleftrightarrow>
     (\<forall>w x w'. m w = (Inr x, w') \<longrightarrow> (\<exists>es. aw_audit w' = aw_audit w @ es \<and> one_event who act now es))"

named_theorems logging \<open>handlers and the audit log\<close>

lemma log_return [logging]: "log_still (act_return x)"
  and log_raise [logging]: "log_still (act_raise e)"
  and log_refuse [logging]: "log_still (refuse c msg)"
  and log_read [logging]: "log_still (api_read f)"
  by (simp_all add: log_still_def act_return_def act_raise_def refuse_def api_read_def)

lemma log_db [logging]: "log_still (api_db g)"
  by (auto simp: log_still_def api_db_def split: sum.splits)

lemma log_bind [logging]: "log_still m \<Longrightarrow> (\<And>x. log_still (f x)) \<Longrightarrow> log_still (act_bind m f)"
  by (fastforce simp: log_still_def act_bind_def split: prod.splits sum.splits)

lemma log_seq [logging]: "log_still m \<Longrightarrow> log_still n \<Longrightarrow> log_still (act_seq m n)"
  by (simp add: act_seq_def log_bind)

lemma log_raise_as [logging]: "log_still m \<Longrightarrow> log_still (raise_as f m)"
  by (fastforce simp: log_still_def raise_as_def act_catch_def refuse_def act_raise_def
      split: prod.splits sum.splits option.splits)

lemma log_reply [logging]: "log_still m \<Longrightarrow> log_still (reply_with f m)"
  by (simp add: reply_with_def logging)

lemma log_option [logging]: "log_still n \<Longrightarrow> (\<And>x. log_still (f x)) \<Longrightarrow> log_still (case r of None \<Rightarrow> n | Some x \<Rightarrow> f x)"
  by (cases r) auto

lemma log_pair [logging]: "(\<And>x y. log_still (f x y)) \<Longrightarrow> log_still (case p of (x, y) \<Rightarrow> f x y)"
  by (cases p) auto

lemma logs_event [logging]: "logs_one who act now (add_event who act t dt now)"
  by (simp add: logs_one_def add_event_def one_event_def)

lemma logs_bind [logging]: "log_still m \<Longrightarrow> (\<And>x. logs_one who act now (f x)) \<Longrightarrow> logs_one who act now (act_bind m f)"
  by (fastforce simp: logs_one_def log_still_def act_bind_def split: prod.splits sum.splits)

lemma logs_then [logging]: "logs_one who act now m \<Longrightarrow> (\<And>x. log_still (f x)) \<Longrightarrow> logs_one who act now (act_bind m f)"
  by (fastforce simp: logs_one_def log_still_def act_bind_def split: prod.splits sum.splits)

lemma logs_seq [logging]: "logs_one who act now m \<Longrightarrow> log_still n \<Longrightarrow> logs_one who act now (act_seq m n)"
  by (simp add: act_seq_def logs_then)

lemma logs_seq2 [logging]: "log_still m \<Longrightarrow> logs_one who act now n \<Longrightarrow> logs_one who act now (act_seq m n)"
  by (simp add: act_seq_def logs_bind)

lemma logs_refuse [logging]: "logs_one who act now (refuse c msg)"
  by (simp add: logs_one_def refuse_def act_raise_def)

lemma logs_if [logging]: "logs_one who act now m \<Longrightarrow> logs_one who act now n \<Longrightarrow> logs_one who act now (if b then m else n)"
  by simp

lemma logs_pair [logging]: "(\<And>x y. logs_one who act now (f x y)) \<Longrightarrow> logs_one who act now (case p of (x, y) \<Rightarrow> f x y)"
  by (cases p) auto

lemma logs_reply [logging]: "logs_one who act now m \<Longrightarrow> logs_one who act now (reply_with f m)"
  unfolding reply_with_def by (intro logging)

text \<open>The action that a request is logged under.\<close>

fun audit_action :: "self_request \<Rightarrow> string option" where
  "audit_action (CreateToken _ _ _) = Some ''api_token.create''"
| "audit_action (RevokeToken _) = Some ''api_token.revoke''"
| "audit_action (EnableTwoFactor _) = Some ''account.2fa_enable''"
| "audit_action (DisableTwoFactor _) = Some ''account.2fa_disable''"
| "audit_action (CreateChannel _ _ _) = Some ''notification.create''"
| "audit_action (DeleteChannel _) = Some ''notification.delete''"
| "audit_action (CreateMonitor _ _) = Some ''monitor.create''"
| "audit_action (DeleteMonitor _) = Some ''monitor.delete''"
| "audit_action _ = None"

lemma handler_logs:
  "(case audit_action rq of None \<Rightarrow> log_still (self_handler v fv now a rq)
    | Some act \<Rightarrow> logs_one (ad_email a) act now (self_handler v fv now a rq))"
  by (cases rq) (simp_all only: self_handler.simps self_route_defs api_test_notification_def api_check_monitor_def
      audit_action.simps option.case, (intro logging)+)

text \<open>
  The changes to tokens, second factor, channels and monitors leave exactly one audit event, in
  the name of the administrator who made them; no other self-service request leaves one,
  password, team and sign-on changes included, and neither does a refused request.
\<close>

theorem sensitive_changes_are_audited:
  assumes "self_route v fv call rq w = (r, w')"
  shows "case r of Inl e \<Rightarrow> aw_audit w' = aw_audit w
    | Inr rep \<Rightarrow> \<exists>a es. may_act (aw_db w) (self_method rq) a \<and> aw_audit w' = aw_audit w @ es \<and>
        (case audit_action rq of None \<Rightarrow> es = [] | Some act \<Rightarrow> one_event (ad_email a) act (ac_now call) es)"
proof (cases r)
  case (Inl e)
  with assms session_scope_Inl show ?thesis by (auto simp: self_route_def)
next
  case (Inr rep)
  from assms [unfolded Inr] obtain a w1 where g: "self_guard v (call\<lparr>ac_method := self_method rq\<rparr>) rq w = (Inr a, w1)"
      and h: "self_handler v fv (ac_now call) a rq w1 = (Inr rep, w')" by (rule self_route_run)
  note run = api_guard_run [OF self_guard_run(1) [OF g]]
  have m: "may_act (aw_db w) (self_method rq) a" using run by simp
  have f: "aw_audit w1 = aw_audit w" using run guard_frame_cols(5) by blast
  show ?thesis
  proof (cases "audit_action rq")
    case None
    with handler_logs [where rq = rq and v = v and fv = fv and now = "ac_now call" and a = a] h f m Inr show ?thesis
      by (auto simp: log_still_def)
  next
    case (Some act)
    with handler_logs [where rq = rq and v = v and fv = fv and now = "ac_now call" and a = a] h f m Inr show ?thesis
      by (fastforce simp: logs_one_def)
  qed
qed

section \<open>Read-only tokens\<close>

definition forget_use :: "db \<Rightarrow> db" where
  "forget_use d = d\<lparr>db_tokens := map (\<lambda>t. t\<lparr>tk_last_used := None\<rparr>) (db_tokens d)\<rparr>"

lemma still_raise_as [reaching]: "db_still m \<Longrightarrow> db_still (raise_as f m)"
  by (fastforce simp: db_still_def raise_as_def act_catch_def refuse_def act_raise_def
      split: prod.splits sum.splits option.splits)

lemma still_reply [reaching]: "db_still m \<Longrightarrow> db_still (reply_with f m)"
  unfolding reply_with_def by (intro reaching)

lemma get_is_still: "self_method rq = ''GET'' \<Longrightarrow> db_still (self_handler v fv now a rq)"
  by (cases rq) (simp_all only: self_handler.simps self_route_defs, (intro reaching | simp)+)

lemma token_touch_forget:
  "authenticate_token sha d t now = (r, d') \<Longrightarrow> forget_use d' = forget_use d"
  by (auto simp: authenticate_token_def forget_use_def upd_where_def split: option.splits if_splits)

lemma api_guard_forget:
  assumes "get_current_api_admin cfg unsign sha call w = (r, w1)"
  shows "forget_use (aw_db w1) = forget_use (aw_db w)"
proof -
  have b: "forget_use (aw_db w') = forget_use (aw_db w)" if "bearer_admin cfg unsign sha call tok w = (q, w')" for tok q w'
  proof -
    obtain t d1 where t: "authenticate_token sha (aw_db w) tok (ac_now call) = (t, d1)" by force
    note f = token_touch_forget [OF t]
    show ?thesis
    proof (cases t)
      case None
      with that t f show ?thesis by (auto simp: bearer_admin_def act_defs split: if_splits)
    next
      case (Some tk)
      obtain q2 w2 where q2: "enforce_api_token_rate_limit cfg (tk_id tk) (ac_tick call) (w\<lparr>aw_db := d1\<rparr>) = (q2, w2)"
        by force
      with that t f Some rate_limit_frame [OF q2] show ?thesis
        by (auto simp: bearer_admin_def act_defs split: if_splits sum.splits)
    qed
  qed
  with assms show ?thesis
    by (auto simp: get_current_api_admin_def session_admin_def act_defs
        split: if_splits prod.splits sum.splits option.splits)
qed

lemma read_token_guard:
  assumes "looks_like_personal_token (bearer_of call)"
    and "find (\<lambda>t. tk_hash t = sha (bearer_of call)) (db_tokens (aw_db w)) = Some t" and "tk_scope t = ''read''"
    and "unsafe_method (ac_method call)" and "get_current_api_admin cfg unsign sha call w = (r, w1)"
  shows "isl r"
proof -
  have m: "ac_method call \<notin> set [''GET'', ''HEAD'', ''OPTIONS'']" using assms(4) by (auto simp: unsafe_method_def)
  have "isl q \<or> q = Inr None" if "bearer_admin cfg unsign sha call (bearer_of call) w = (q, w')" for q w'
    using that assms(1-3) m
    by (auto simp: bearer_admin_def authenticate_token_def act_defs split: if_splits sum.splits prod.splits)
  with assms(5) show ?thesis
    by (auto simp: get_current_api_admin_def bearer_of_def session_admin_def or_empty_def act_defs
        split: if_splits prod.splits sum.splits option.splits)
qed

lemma self_method_cases: "self_method rq = ''GET'' \<or> unsafe_method (self_method rq)"
  by (cases rq) (simp_all add: unsafe_method_def)

text \<open>
  A read-only token changes nothing: whatever self-service route is called with it, the
  database, but for the time a token was last used, and the audit log stay as they were, and a
  route that is not a GET is refused.
\<close>

theorem read_tokens_change_nothing:
  assumes "looks_like_personal_token (bearer_of call)"
    and "find (\<lambda>t. tk_hash t = sv_sha v (bearer_of call)) (db_tokens (aw_db w)) = Some t" and "tk_scope t = ''read''"
    and "self_route v fv call rq w = (r, w')"
  shows "forget_use (aw_db w') = forget_use (aw_db w) \<and> aw_audit w' = aw_audit w \<and> (self_method rq \<noteq> ''GET'' \<longrightarrow> isl r)"
proof (cases r)
  case (Inl e)
  with assms(4) session_scope_Inl show ?thesis by (auto simp: self_route_def)
next
  case (Inr rep)
  let ?call = "call\<lparr>ac_method := self_method rq\<rparr>"
  from assms(4) [unfolded Inr] obtain a w1 where g: "self_guard v ?call rq w = (Inr a, w1)"
      and h: "self_handler v fv (ac_now call) a rq w1 = (Inr rep, w')" by (rule self_route_run)
  note guard = self_guard_run(1) [OF g]
  have b: "bearer_of ?call = bearer_of call" by (simp add: bearer_of_def)
  have "\<not> unsafe_method (self_method rq)"
    using read_token_guard [OF _ _ assms(3) _ guard] assms(1,2) by (auto simp: b)
  then have get: "self_method rq = ''GET''" using self_method_cases by blast
  then have "audit_action rq = None" by (cases rq) auto
  with handler_logs [where rq = rq and v = v and fv = fv and now = "ac_now call" and a = a] h
  have "aw_audit w' = aw_audit w1" by (simp add: log_still_def)
  moreover have "aw_db w' = aw_db w1" using get_is_still [OF get] h by (auto simp: db_still_def)
  ultimately show ?thesis
    using api_guard_forget [OF guard] api_guard_run [OF guard] guard_frame_cols(5) get by auto
qed

section \<open>Invitations\<close>

lemma find_last_unique: "f x \<notin> f ` set xs \<Longrightarrow> find (\<lambda>y. f y = f x) (xs @ [x]) = Some x"
  by (induction xs) auto

lemma revoke_stale_hashes: "iv_hash ` set (revoke_stale t e xs) = iv_hash ` set xs"
  by (induction xs) (auto simp: revoke_stale_def)

lemma create_invite_finds:
  assumes "create_invite sha d i raw now tid inviter em role = Inr ((iv, raw'), d')"
  shows "find_invite sha d' raw' = Some iv" and "iv_tenant iv = tid" and "iv_email iv = normalize_email em"
    and "iv_role iv = py_lower (py_strip role)" and "iv_status iv = INVITE_PENDING"
    and "iv_expires iv = Some (now + INVITE_TTL_DAYS * 86400)" and "db_tenants d' = db_tenants d"
proof -
  note c = create_invite_Inr [OF assms]
  then have "iv_hash iv \<notin> iv_hash ` set (revoke_stale tid (iv_email iv) (db_invites d))"
    unfolding revoke_stale_hashes by blast
  then have "find (\<lambda>y. iv_hash y = iv_hash iv) (revoke_stale tid (iv_email iv) (db_invites d) @ [iv]) = Some iv"
    by (rule find_last_unique)
  with c have "find_invite sha d' raw = Some iv" by (simp add: find_invite_def)
  moreover have "raw' = raw \<and> iv_tenant iv = tid \<and> iv_email iv = normalize_email em \<and> iv_role iv = py_lower (py_strip role) \<and>
      iv_status iv = INVITE_PENDING \<and> iv_expires iv = Some (now + INVITE_TTL_DAYS * 86400) \<and> db_tenants d' = db_tenants d"
    using assms by (auto simp: create_invite_def Let_def map_sum_Inr split: if_splits option.splits)
  ultimately show "find_invite sha d' raw' = Some iv" and "iv_tenant iv = tid" and "iv_email iv = normalize_email em"
    and "iv_role iv = py_lower (py_strip role)" and "iv_status iv = INVITE_PENDING"
    and "iv_expires iv = Some (now + INVITE_TTL_DAYS * 86400)" and "db_tenants d' = db_tenants d" by auto
qed

lemma invite_route_run:
  assumes "self_route v fv call (InviteMember email role) w = (Inr rep, w1)"
  obtains a d0 iv raw where "may_act (aw_db w) ''POST'' a" and "ad_role a \<in> {ROLE_OWNER, ROLE_PLATFORM_ADMIN}"
    and "create_invite (sv_sha v) d0 (fv_id fv) (fv_random fv) (ac_now call) (ad_tenant a) a email role = Inr ((iv, raw), aw_db w1)"
    and "rep = RepInvite (team_invite_summary iv) raw (''/auth/accept-invite?token='' @ raw)"
proof -
  from assms obtain a w0 where g: "self_guard v (call\<lparr>ac_method := ''POST''\<rparr>) (InviteMember email role) w = (Inr a, w0)"
      and h: "self_handler v fv (ac_now call) a (InviteMember email role) w0 = (Inr rep, w1)"
    by (rule self_route_run) simp
  have m: "may_act (aw_db w) ''POST'' a" using api_guard_run [OF self_guard_run(1) [OF g]] by simp
  from h obtain r w2 where r: "api_create_invite v fv (ac_now call) a email role w0 = (Inr r, w1)"
      and rep: "rep = (case r of (i, t, u) \<Rightarrow> RepInvite i t u)"
    by (auto simp: reply_with_def act_bind_def act_return_def split: sum.splits prod.splits)
  let ?c = "create_invite (sv_sha v) (aw_db w0) (fv_id fv) (fv_random fv) (ac_now call) (ad_tenant a) a email role"
  from r obtain iv raw where c: "?c = Inr ((iv, raw), aw_db w1)"
      and rr: "r = (team_invite_summary iv, raw, ''/auth/accept-invite?token='' @ raw)"
    by (cases ?c) (auto simp: api_create_invite_def raise_as_def act_bind_def act_catch_def api_db_def act_return_def
        refuse_def act_raise_def split: option.splits simp del: append.simps)
  show ?thesis by (rule that [OF m _ c]) (use self_guard_run(2) [OF g] in \<open>simp_all add: rep rr\<close>)
qed

text \<open>
  An invitation leads into the tenant: the token that the owner's request returned, redeemed in
  time with an acceptable password, creates and signs in an active account with the invited
  e-mail and role in the owner's tenant, provided no account has the e-mail.
\<close>

theorem invited_colleague_gets_in:
  assumes "self_route v fv call (InviteMember email role) w = (Inr (RepInvite i token url), w1)"
    and "get_admin_by_email (aw_db w1) (normalize_email email) = None"
    and "now < ac_now call + INVITE_TTL_DAYS * 86400" and "accept_valid token full_name pw"
    and "validate_password pw = Inr ()" and "normalize_email email \<notin> set (fv_racing fv')"
  shows "\<exists>tok s w2 a. api_accept_invite v fv' now token full_name pw w1 = (Inr (tok, s), w2) \<and>
    may_act (aw_db w) ''POST'' a \<and> ad_role a \<in> {ROLE_OWNER, ROLE_PLATFORM_ADMIN} \<and> sm_tenant s = ad_tenant a \<and>
    sm_email s = normalize_email email \<and> sm_role s = py_lower (py_strip role) \<and> sm_active s"
proof -
  from assms(1) obtain a d0 iv where a: "may_act (aw_db w) ''POST'' a" "ad_role a \<in> {ROLE_OWNER, ROLE_PLATFORM_ADMIN}"
      and c: "create_invite (sv_sha v) d0 (fv_id fv) (fv_random fv) (ac_now call) (ad_tenant a) a email role =
        Inr ((iv, token), aw_db w1)" by (rule invite_route_run) auto
  note iv = create_invite_finds [OF c]
  have peek: "peek_invite (sv_sha v) (aw_db w1) token now = Some iv"
    using iv assms(3) by (simp add: peek_invite_def is_redeemable_def)
  have free: "normalize_email email \<notin> ad_email ` set (db_admins (aw_db w1))"
    using assms(2) by (auto simp: get_admin_by_email_def find_None normalize_email_idem)
  define x where "x = new_admin (fv_id fv') (ad_tenant a) (normalize_email email)
    (str_or (py_strip full_name) (normalize_email email)) (sv_hash v pw) (py_lower (py_strip role)) now"
  have "insert_unique ad_email x (db_admins (aw_db w1)) = Inr (db_admins (aw_db w1) @ [x])"
    using free by (auto simp: insert_unique_def x_def new_admin_def)
  then obtain d2 where "accept_invite (sv_sha v) (sv_hash v) (aw_db w1) (fv_racing fv') (fv_id fv') now token full_name pw = Inr (x, d2)"
    using peek iv assms(2,5,6) by (auto simp: accept_invite_def Let_def x_def [symmetric])
  then have "api_accept_invite v fv' now token full_name pw w1 =
      (Inr (auth_response (sv_sign v) d2 x), w1\<lparr>aw_db := d2\<rparr>)"
    using assms(4)
    by (simp add: api_accept_invite_def session_scope_def raise_as_def act_bind_def act_catch_def api_db_def api_read_def)
  moreover have "snd (auth_response (sv_sign v) d2 x) = admin_summary_of d2 x" by (simp add: auth_response_def)
  then have "sm_tenant (snd (auth_response (sv_sign v) d2 x)) = ad_tenant a \<and>
      sm_email (snd (auth_response (sv_sign v) d2 x)) = normalize_email email \<and>
      sm_role (snd (auth_response (sv_sign v) d2 x)) = py_lower (py_strip role) \<and> sm_active (snd (auth_response (sv_sign v) d2 x))"
    by (simp add: admin_summary_of_def Let_def x_def new_admin_def)
  ultimately show ?thesis using a by (metis prod.collapse)
qed

section \<open>Pages\<close>

text \<open>The pages of a listing, one after the other, are the listing, and each states its length.\<close>

theorem pages_tile:
  assumes "0 < n" and "length xs \<le> k * n"
  shows "concat (map (\<lambda>i. snd (paginate xs n (i * n))) [0..<k]) = xs \<and> (\<forall>i. fst (paginate xs n i) = length xs)"
proof -
  have "concat (map (\<lambda>i. snd (paginate xs n (i * n))) [0..<k]) = take (k * n) xs"
  proof (induction k)
    case (Suc k)
    have "take (n + k * n) xs = take (k * n) xs @ take n (drop (k * n) xs)"
      by (metis add.commute take_add)
    with Suc show ?case by (simp add: paginate_def)
  qed simp
  with assms show ?thesis by (simp add: paginate_def)
qed

section \<open>Witnesses\<close>

definition demo_self_env :: self_env where
  "demo_self_env = \<lparr>sv_cfg = demo_cfg, sv_unsign = demo_unsign, sv_sign = demo_sign, sv_sha = id, sv_hash = id,
     sv_verify = (\<lambda>a b. a = b), sv_hmac = (\<lambda>_ _. []), sv_uri = (\<lambda>a b. a), sv_mac = (\<lambda>a b. b),
     sv_encode = (\<lambda>e p. e), sv_post = (\<lambda>_. HttpStatus 200), sv_probe = (\<lambda>_. (7, HttpStatus 500)), sv_encrypt = id\<rparr>"

definition demo_fresh :: fresh_values where
  "demo_fresh = \<lparr>fv_id = ''new'', fv_random = ''rnd'', fv_raw = [], fv_codes = [], fv_racing = []\<rparr>"

abbreviation demo_self :: "string \<Rightarrow> self_request \<Rightarrow> (exn + self_reply) \<times> api_world" where
  "demo_self cred rq \<equiv> self_route demo_self_env demo_fresh (demo_call cred) rq demo_api"


lemma sensitive_changes_are_audited_witness:
  "\<exists>a es. may_act demo_accounts ''POST'' a \<and> aw_audit (snd (demo_self ''root'' (CreateToken ''t'' True None))) = es \<and>
     one_event (ad_email a) ''api_token.create'' 5 es"
proof -
  let ?q = "demo_self ''root'' (CreateToken ''t'' True None)"
  have "\<not> isl (fst ?q)" by code_simp
  then obtain rep w' where q: "?q = (Inr rep, w')" by (cases ?q) (auto dest!: Inr_of_not_isl)
  from sensitive_changes_are_audited [OF q] obtain a es where "may_act demo_accounts ''POST'' a" "aw_audit w' = es"
      "one_event (ad_email a) ''api_token.create'' 5 es"
    by (auto simp: demo_api_def demo_call_def)
  with q show ?thesis by auto
qed

definition demo_read_world :: api_world where
  "demo_read_world = demo_api\<lparr>aw_db := demo_accounts\<lparr>db_tokens := [\<lparr>tk_id = ''k'', tk_tenant = ''hq'', tk_admin = ''root'',
     tk_name = ''ci'', tk_scope = ''read'', tk_prefix = ''tetra_'', tk_hash = ''tetra_abc'', tk_created = 0, tk_last_used = None,
     tk_expires = None, tk_revoked = False\<rparr>]\<rparr>\<rparr>"

lemma read_tokens_change_nothing_witness:
  "isl (fst (self_route demo_self_env demo_fresh (demo_call ''tetra_abc'') (RevokeToken ''k'') demo_read_world)) \<and>
   \<not> isl (fst (self_route demo_self_env demo_fresh (demo_call ''tetra_abc'') ListTokens demo_read_world)) \<and>
   forget_use (aw_db (snd (self_route demo_self_env demo_fresh (demo_call ''tetra_abc'') ListTokens demo_read_world))) =
     forget_use (aw_db demo_read_world)"
proof -
  have p: "looks_like_personal_token (bearer_of (demo_call ''tetra_abc''))" by code_simp
  have f: "find (\<lambda>t. tk_hash t = sv_sha demo_self_env (bearer_of (demo_call ''tetra_abc''))) (db_tokens (aw_db demo_read_world)) =
      Some (hd (db_tokens (aw_db demo_read_world)))" by code_simp
  have s: "tk_scope (hd (db_tokens (aw_db demo_read_world))) = ''read''" by code_simp
  have ok: "\<not> isl (fst (self_route demo_self_env demo_fresh (demo_call ''tetra_abc'') ListTokens demo_read_world))" by code_simp
  let ?r = "self_route demo_self_env demo_fresh (demo_call ''tetra_abc'')"
  have all: "(self_method rq \<noteq> ''GET'' \<longrightarrow> isl (fst (?r rq demo_read_world))) \<and>
      forget_use (aw_db (snd (?r rq demo_read_world))) = forget_use (aw_db demo_read_world)" for rq
  proof -
    have "?r rq demo_read_world = (fst (?r rq demo_read_world), snd (?r rq demo_read_world))" by simp
    from read_tokens_change_nothing [OF p f s this] show ?thesis by blast
  qed
  from all [of "RevokeToken ''k''"] all [of ListTokens] ok show ?thesis by simp
qed

lemma invite_reply:
  assumes "case fst q of Inr (RepInvite i token url) \<Rightarrow> P token | _ \<Rightarrow> False"
  shows "\<exists>i token url w1. q = (Inr (RepInvite i token url), w1) \<and> P token"
  using assms by (cases q) (auto split: sum.splits self_reply.splits)

lemma invited_colleague_gets_in_witness:
  "\<exists>i token url w1 tok s w2. demo_self ''root'' (InviteMember '' New@x.y'' ''member'') = (Inr (RepInvite i token url), w1) \<and>
     api_accept_invite demo_self_env demo_fresh 9 token ''New'' ''long enough'' w1 = (Inr (tok, s), w2) \<and>
     sm_email s = ''new@x.y'' \<and> sm_role s = ''member''"
proof -
  let ?q = "demo_self ''root'' (InviteMember '' New@x.y'' ''member'')"
  have "case fst ?q of Inr (RepInvite i token url) \<Rightarrow> accept_valid token ''New'' ''long enough'' | _ \<Rightarrow> False" by code_simp
  from invite_reply [OF this] obtain i token url w1 where q: "?q = (Inr (RepInvite i token url), w1)"
      and v: "accept_valid token ''New'' ''long enough''" by blast
  have e: "normalize_email '' New@x.y'' = ''new@x.y''" by code_simp
  have "get_admin_by_email (aw_db (snd ?q)) (normalize_email '' New@x.y'') = None" by code_simp
  then have n: "get_admin_by_email (aw_db w1) (normalize_email '' New@x.y'') = None" by (simp add: q)
  have t: "9 < ac_now (demo_call ''root'') + INVITE_TTL_DAYS * 86400" by code_simp
  have pw: "validate_password ''long enough'' = Inr ()" by code_simp
  have r: "normalize_email '' New@x.y'' \<notin> set (fv_racing demo_fresh)" by (simp add: demo_fresh_def)
  have m: "py_lower (py_strip ''member'') = ''member''" by code_simp
  from invited_colleague_gets_in [OF q n t v pw r] q show ?thesis unfolding e m by blast
qed

lemma pages_tile_witness: "concat (map (\<lambda>i. snd (paginate [1::int, 2, 3] 2 (i * 2))) [0..<2]) = [1, 2, 3]"
  by (rule pages_tile [THEN conjunct1]) simp_all

end
