(* ===== verification/Backoffice.thy ===== *)
theory Backoffice
  imports SelfService Billing Quota Mail
begin

text \<open>
  The back office of the API (\<^verbatim>\<open>api/routes.py\<close>): plans, usage, credits, pricing and charges, the
  platform overview and the audit log with its CSV export. Amounts in dollars are the rationals
  that the floats of the code denote; the time of a row is its value in seconds.
\<close>

section \<open>Plans\<close>

text \<open>\<open>ORDER BY sort_order, name\<close>: two stable sorts.\<close>

definition list_plans :: "db \<Rightarrow> bool \<Rightarrow> plan list" where
  "list_plans d archived =
     sort_key pl_sort (sort_key pl_name (filter (\<lambda>p. archived \<or> \<not> pl_archived p) (db_plans d)))"

definition api_list_plans :: "bool \<Rightarrow> nat \<Rightarrow> nat \<Rightarrow> (nat \<times> plan list) atask" where
  "api_list_plans archived limit offset = api_read (\<lambda>d. Inr (paginate (list_plans d archived) limit offset))"

record plan_request =
  pq_key :: string
  pq_name :: string
  pq_desc :: string
  pq_price :: int
  pq_currency :: string
  pq_max_apps :: int
  pq_max_domains :: int
  pq_cpu :: int
  pq_mem :: int
  pq_disk :: int
  pq_sort :: int

definition api_create_plan :: "settings \<Rightarrow> string \<Rightarrow> plan_request \<Rightarrow> plan atask" where
  "api_create_plan cf new_id q =
     raise_as (value_as 422) (api_db (\<lambda>d. create_plan cf d new_id (pq_key q) (pq_name q) (pq_desc q) (pq_price q)
       (pq_currency q) (pq_max_apps q) (pq_max_domains q) (pq_cpu q) (pq_mem q) (pq_disk q) (pq_sort q)))"

definition found_or_404 :: "string \<Rightarrow> 'a option \<Rightarrow> 'a atask" where
  "found_or_404 msg r = (case r of None \<Rightarrow> refuse 404 msg | Some x \<Rightarrow> act_return x)"

text \<open>The fields that the payload has are given in the order of the model.\<close>

definition api_update_plan :: "settings \<Rightarrow> string \<Rightarrow> plan_field list \<Rightarrow> plan atask" where
  "api_update_plan cf i kws =
     act_bind (raise_as (value_as 422) (api_db (\<lambda>d. update_plan cf d i kws))) (found_or_404 ''Plan not found.'')"

definition api_archive_plan :: "string \<Rightarrow> plan atask" where
  "api_archive_plan i = act_bind (api_db (\<lambda>d. Inr (archive_plan d i))) (found_or_404 ''Plan not found.'')"

section \<open>Usage\<close>

record usage_response =
  ur_plan :: string
  ur_apps :: int
  ur_apps_limit :: int
  ur_cpu :: int
  ur_cpu_limit :: int
  ur_mem :: int
  ur_mem_limit :: int
  ur_disk :: int
  ur_disk_limit :: int
  ur_domains :: int
  ur_domains_limit :: int

definition resolve_plan_for_tenant :: "db \<Rightarrow> string \<Rightarrow> plan option" where
  "resolve_plan_for_tenant d tid =
     (case (case get_tenant d tid of None \<Rightarrow> None
            | Some t \<Rightarrow> if or_empty (tn_plan_id t) = [] then None else get_plan d (or_empty (tn_plan_id t))) of
        Some p \<Rightarrow> Some p
      | None \<Rightarrow> find (\<lambda>p. pl_key p = ''free'') (db_plans d))"

definition domains_used :: "db \<Rightarrow> string \<Rightarrow> int" where
  "domains_used d tid =
     int (length (filter (\<lambda>r. rs_tenant r = tid \<and> rs_type r = RESOURCE_TYPE_DNS_ZONE) (db_resources d)))"

definition api_usage :: "settings \<Rightarrow> admin_user \<Rightarrow> usage_response atask" where
  "api_usage cf a = api_read (\<lambda>d.
     let tid = ad_tenant a; used = usage cf d tid; p = resolve_plan_for_tenant d tid;
         num = (\<lambda>f z. case p of None \<Rightarrow> z | Some x \<Rightarrow> f x) in
     Inr \<lparr>ur_plan = (case p of None \<Rightarrow> [] | Some x \<Rightarrow> pl_key x),
       ur_apps = us_apps used, ur_apps_limit = num pl_max_apps DEFAULT_FREE_MAX_APPS,
       ur_cpu = us_cpu used, ur_cpu_limit = num pl_cpu 0, ur_mem = us_mem used, ur_mem_limit = num pl_mem 0,
       ur_disk = us_disk used, ur_disk_limit = num pl_disk 0, ur_domains = domains_used d tid,
       ur_domains_limit = num pl_max_domains 0\<rparr>)"

section \<open>Credits, pricing and charges\<close>

definition dollars :: "int \<Rightarrow> rat" where
  "dollars n = of_int n / of_int MICRO_USD_PER_USD"

record credit_response =
  cr_balance :: rat
  cr_transactions :: "(txn_kind \<times> rat \<times> string \<times> int) list"

definition credit_balance_response :: "int \<Rightarrow> credit_txn list \<Rightarrow> credit_response" where
  "credit_balance_response b txns = \<lparr>cr_balance = dollars b,
     cr_transactions = map (\<lambda>t. (tx_kind t, dollars (tx_delta t), tx_ref t, tx_created t)) txns\<rparr>"

definition credits_of :: "db \<Rightarrow> string \<Rightarrow> credit_response" where
  "credits_of d tid = credit_balance_response (balance d tid) (transactions d tid 100)"

definition api_billing_credits :: "admin_user \<Rightarrow> credit_response atask" where
  "api_billing_credits a = api_read (\<lambda>d. Inr (credits_of d (ad_tenant a)))"

definition api_billing_credits_overview :: "int \<Rightarrow> nat \<Rightarrow> nat \<Rightarrow> (nat \<times> wallet_overview list) atask" where
  "api_billing_credits_overview now limit offset = api_read (\<lambda>d. Inr (paginate (credit_overview d now 30) limit offset))"

text \<open>\<open>gt=0\<close> on the amount; the ValueError of a top-up that rounds to nothing is not caught.\<close>

definition api_billing_topup :: "int \<Rightarrow> string \<Rightarrow> rat \<Rightarrow> credit_response atask" where
  "api_billing_topup now tid amount =
     (if amount \<le> 0 then refuse 422 ''Request validation failed.''
      else act_seq (api_db (\<lambda>d. topup d now tid (py_round (amount * of_int MICRO_USD_PER_USD)) ''admin top-up''))
        (api_read (\<lambda>d. Inr (credits_of d tid))))"

record rule_summary =
  rm_key :: string
  rm_provider :: string
  rm_shape :: string
  rm_wholesale :: int
  rm_unit :: string
  rm_rule :: string
  rm_value :: rat
  rm_resale :: int

definition pricing_rule_summary :: "pricing_rule \<Rightarrow> rule_summary" where
  "pricing_rule_summary r = \<lparr>rm_key = pr_key r, rm_provider = pr_provider r, rm_shape = pr_shape r,
     rm_wholesale = pr_wholesale r, rm_unit = pr_unit r, rm_rule = pr_rule r, rm_value = pr_value r,
     rm_resale = compute_resale_cents (pr_wholesale r) (pr_rule r) (pr_value r)\<rparr>"

definition list_rules :: "db \<Rightarrow> pricing_rule list" where
  "list_rules d = sort_key pr_key (db_rules d)"

definition api_billing_pricing :: "nat \<Rightarrow> nat \<Rightarrow> (nat \<times> rule_summary list) atask" where
  "api_billing_pricing limit offset =
     api_read (\<lambda>d. Inr (paginate (map pricing_rule_summary (list_rules d)) limit offset))"

definition api_billing_set_pricing ::
  "string \<Rightarrow> string \<Rightarrow> string \<Rightarrow> int \<Rightarrow> string \<Rightarrow> string \<Rightarrow> rat \<Rightarrow> rule_summary atask" where
  "api_billing_set_pricing key provider shape wholesale unit_label rule val =
     act_bind (api_db (\<lambda>d. Inr (set_rule d key provider shape wholesale unit_label rule val)))
       (\<lambda>r. act_return (pricing_rule_summary r))"

definition billing_as :: "exn \<Rightarrow> (int \<times> string) option" where
  "billing_as e = (case e of BillingError m c \<Rightarrow> Some (c, m) | _ \<Rightarrow> None)"

definition api_billing_quote :: "rat \<Rightarrow> string \<Rightarrow> int option \<Rightarrow> price_quote atask" where
  "api_billing_quote markup key wholesale = raise_as billing_as (api_read (\<lambda>d. quote_price d markup key wholesale))"

definition api_billing_charges :: "admin_user \<Rightarrow> nat \<Rightarrow> nat \<Rightarrow> (nat \<times> reseller_charge list) atask" where
  "api_billing_charges a limit offset = api_read (\<lambda>d. Inr (paginate
     (list_charges d (if ad_role a = ROLE_PLATFORM_ADMIN then None else Some (ad_tenant a)) 100) limit offset))"

section \<open>The platform overview\<close>

record platform_overview =
  po_active :: nat
  po_pending :: nat
  po_suspended :: nat
  po_rejected :: nat
  po_tenants :: nat
  po_admins :: nat
  po_apps :: nat
  po_databases :: nat
  po_plans :: nat
  po_cpu :: int
  po_mem :: int
  po_disk :: int
  po_resale :: rat
  po_margin :: rat
  po_resale_30d :: rat
  po_charges :: nat
  po_float :: rat
  po_spend_30d :: rat
  po_requests_30d :: nat
  po_queue :: "tenant_summary list"
  po_events :: "audit_event list"

definition count_where :: "('a \<Rightarrow> bool) \<Rightarrow> 'a list \<Rightarrow> nat" where
  "count_where p xs = length (filter p xs)"

definition cents :: "int \<Rightarrow> rat" where
  "cents n = of_int n / 100"

definition zero_or :: "int option \<Rightarrow> int" where
  "zero_or x = (case x of None \<Rightarrow> 0 | Some n \<Rightarrow> n)"

text \<open>\<open>order_by(created_at.desc())\<close>\<close>

definition newest_first :: "audit_event list \<Rightarrow> audit_event list" where
  "newest_first es = sort_key (\<lambda>e. - au_created e) es"

definition api_admin_overview :: "int \<Rightarrow> platform_overview atask" where
  "api_admin_overview now w =
     (let d = aw_db w; since = now - 30 * 86400;
          tenants = (\<lambda>s. count_where (\<lambda>t. tn_status t = s) (db_tenants d));
          typed = (\<lambda>ty. count_where (\<lambda>r. rs_type r = ty) (db_resources d));
          total = (\<lambda>f. sum_list (map (\<lambda>r. zero_or (f r)) (db_resources d)));
          recent = filter (\<lambda>e. since \<le> ai_created e) (db_usage_events d) in
      (Inr \<lparr>po_active = tenants TENANT_ACTIVE, po_pending = tenants TENANT_PENDING,
         po_suspended = tenants TENANT_SUSPENDED, po_rejected = tenants TENANT_REJECTED,
         po_tenants = length (db_tenants d), po_admins = length (db_admins d),
         po_apps = typed RESOURCE_TYPE_APP, po_databases = typed RESOURCE_TYPE_DATABASE,
         po_plans = count_where (\<lambda>p. \<not> pl_archived p) (db_plans d),
         po_cpu = total rs_cpu, po_mem = total rs_mem, po_disk = total rs_disk,
         po_resale = cents (sum_list (map rc_resale (db_charges d))),
         po_margin = cents (sum_list (map rc_margin (db_charges d))),
         po_resale_30d = cents (sum_list (map rc_resale (filter (\<lambda>c. since \<le> rc_created c) (db_charges d)))),
         po_charges = length (db_charges d),
         po_float = dollars (sum_list (map wl_balance (db_wallets d))),
         po_spend_30d = dollars (sum_list (map ai_billed recent)), po_requests_30d = length recent,
         po_queue = map (\<lambda>t. tenant_summary_of t (resolve_plan_key d (tn_plan_id t)))
           (filter (\<lambda>t. tn_status t = TENANT_PENDING) (db_tenants d)),
         po_events = take 20 (newest_first (aw_audit w))\<rparr>, w))"

section \<open>The audit log\<close>

text \<open>The filters are ILIKE patterns around the trimmed text.\<close>

definition audit_matches :: "string \<Rightarrow> string \<Rightarrow> audit_event \<Rightarrow> bool" where
  "audit_matches action actor e \<longleftrightarrow>
     (py_strip action = [] \<or> sql_like True (''%'' @ py_strip action @ ''%'') (au_action e)) \<and>
     (py_strip actor = [] \<or> sql_like True (''%'' @ py_strip actor @ ''%'') (au_actor e))"

record audit_page =
  ag_events :: "audit_event list"
  ag_total :: nat
  ag_limit :: int
  ag_offset :: int

definition api_audit_log :: "int \<Rightarrow> int \<Rightarrow> string \<Rightarrow> string \<Rightarrow> audit_page atask" where
  "api_audit_log limit offset action actor w =
     (let n = max 1 (min limit 200); k = max 0 offset; es = filter (audit_matches action actor) (aw_audit w) in
      (Inr \<lparr>ag_events = take (nat n) (drop (nat k) (newest_first es)), ag_total = length es, ag_limit = n, ag_offset = k\<rparr>, w))"

text \<open>
  \<open>csv.writer\<close>: a field with a comma, a double quote or a line break is quoted, its quotes
  doubled; rows end in carriage return and line feed.
\<close>

definition csv_special :: "char \<Rightarrow> bool" where
  "csv_special c = (c = CHR '','' \<or> c = CHR 0x22 \<or> c = CHR 0x0D \<or> c = CHR 0x0A)"

definition csv_field :: "string \<Rightarrow> string" where
  "csv_field s =
     (if list_ex csv_special s
      then CHR 0x22 # concat (map (\<lambda>c. if c = CHR 0x22 then [c, c] else [c]) s) @ [CHR 0x22] else s)"

definition csv_row :: "string list \<Rightarrow> string" where
  "csv_row fs = join '','' (map csv_field fs) @ [CHR 0x0D, CHR 0x0A]"

text \<open>\<open>iso_text\<close> is \<open>isoformat\<close>.\<close>

definition audit_cells :: "(int \<Rightarrow> string) \<Rightarrow> audit_event \<Rightarrow> string list" where
  "audit_cells iso_text e = [iso_text (au_created e), au_actor e, au_action e, au_target e, au_details e]"

definition api_audit_log_csv :: "(int \<Rightarrow> string) \<Rightarrow> string \<Rightarrow> string \<Rightarrow> string atask" where
  "api_audit_log_csv iso_text action actor w =
     (Inr (concat (map csv_row ([''created_at'', ''actor_email'', ''action'', ''target'', ''details''] #
        map (audit_cells iso_text) (take 10000 (newest_first (filter (audit_matches action actor) (aw_audit w))))))), w)"

section \<open>Requests\<close>

datatype office_request =
    ListPlans bool nat nat | CreatePlan string plan_request | UpdatePlan string "plan_field list" | ArchivePlan string
  | Usage | Credits | CreditsOverview nat nat | Topup string rat
  | Pricing nat nat | SetPricing string string string int string string rat | Quote string "int option" | Charges nat nat
  | Overview | AuditLog int int string string | AuditCsv string string

datatype office_reply =
    OfPlans nat "plan list" | OfPlan plan | OfUsage usage_response | OfCredits credit_response
  | OfWallets nat "wallet_overview list" | OfRules nat "rule_summary list" | OfRule rule_summary | OfQuote price_quote
  | OfCharges nat "reseller_charge list" | OfOverview platform_overview | OfAudit audit_page | OfCsv string

record office_env =
  of_self :: self_env
  of_settings :: settings
  of_markup :: rat
  of_iso :: "int \<Rightarrow> string"

fun office_method :: "office_request \<Rightarrow> string" where
  "office_method (CreatePlan _ _) = ''POST''"
| "office_method (UpdatePlan _ _) = ''PATCH''"
| "office_method (ArchivePlan _) = ''POST''"
| "office_method (Topup _ _) = ''POST''"
| "office_method (SetPricing _ _ _ _ _ _ _) = ''PUT''"
| "office_method _ = ''GET''"

text \<open>The routes open to every administrator; the others need platform staff.\<close>

fun for_every_admin :: "office_request \<Rightarrow> bool" where
  "for_every_admin (ListPlans _ _ _) = True"
| "for_every_admin Usage = True"
| "for_every_admin Credits = True"
| "for_every_admin (Quote _ _) = True"
| "for_every_admin (Charges _ _) = True"
| "for_every_admin _ = False"

fun office_valid :: "office_request \<Rightarrow> bool" where
  "office_valid (ListPlans b limit offset) = page_ok limit"
| "office_valid (CreditsOverview limit offset) = page_ok limit"
| "office_valid (Pricing limit offset) = page_ok limit"
| "office_valid (Charges limit offset) = page_ok limit"
| "office_valid _ = True"

definition office_with :: "('a \<Rightarrow> office_reply) \<Rightarrow> 'a atask \<Rightarrow> office_reply atask" where
  "office_with f m = act_bind m (\<lambda>x. act_return (f x))"

fun office_handler :: "office_env \<Rightarrow> int \<Rightarrow> admin_user \<Rightarrow> office_request \<Rightarrow> office_reply atask" where
  "office_handler v now a (ListPlans b n k) = office_with (case_prod OfPlans) (api_list_plans b n k)"
| "office_handler v now a (CreatePlan i q) = office_with OfPlan (api_create_plan (of_settings v) i q)"
| "office_handler v now a (UpdatePlan i kws) = office_with OfPlan (api_update_plan (of_settings v) i kws)"
| "office_handler v now a (ArchivePlan i) = office_with OfPlan (api_archive_plan i)"
| "office_handler v now a Usage = office_with OfUsage (api_usage (of_settings v) a)"
| "office_handler v now a Credits = office_with OfCredits (api_billing_credits a)"
| "office_handler v now a (CreditsOverview n k) = office_with (case_prod OfWallets) (api_billing_credits_overview now n k)"
| "office_handler v now a (Topup tid amount) = office_with OfCredits (api_billing_topup now tid amount)"
| "office_handler v now a (Pricing n k) = office_with (case_prod OfRules) (api_billing_pricing n k)"
| "office_handler v now a (SetPricing key p sh w u r x) = office_with OfRule (api_billing_set_pricing key p sh w u r x)"
| "office_handler v now a (Quote key w) = office_with OfQuote (api_billing_quote (of_markup v) key w)"
| "office_handler v now a (Charges n k) = office_with (case_prod OfCharges) (api_billing_charges a n k)"
| "office_handler v now a Overview = office_with OfOverview (api_admin_overview now)"
| "office_handler v now a (AuditLog n k act who) = office_with OfAudit (api_audit_log n k act who)"
| "office_handler v now a (AuditCsv act who) = office_with OfCsv (api_audit_log_csv (of_iso v) act who)"

definition office_guard :: "office_env \<Rightarrow> api_call \<Rightarrow> office_request \<Rightarrow> admin_user atask" where
  "office_guard v call rq = (let s = of_self v in
     if for_every_admin rq then get_current_api_admin (sv_cfg s) (sv_unsign s) (sv_sha s) call
     else api_platform_admin (sv_cfg s) (sv_unsign s) (sv_sha s) call)"

definition office_route :: "office_env \<Rightarrow> api_call \<Rightarrow> office_request \<Rightarrow> office_reply atask" where
  "office_route v call rq =
     session_scope (act_bind (office_guard v (call\<lparr>ac_method := office_method rq\<rparr>) rq)
       (\<lambda>a. if office_valid rq then office_handler v (ac_now call) a rq else refuse 422 ''Request validation failed.''))"

end
