(* ===== verification/BackofficeSafety.thy ===== *)
theory BackofficeSafety
  imports Backoffice SelfSafety
begin

text \<open>
  What the back office guarantees: the exported audit log can be read back, changes need platform
  staff, a top-up credits exactly what was entered, the usage page shows the cap that is enforced,
  and the ledger of a customer holds only his own charges.
\<close>

section \<open>Reading a CSV file\<close>

text \<open>A reader of RFC 4180: the state is whether a quoted part is open, the cell and the row so far.\<close>

fun csv_read :: "bool \<Rightarrow> string \<Rightarrow> string list \<Rightarrow> string \<Rightarrow> string list list" where
  "csv_read q cell row [] = []"
| "csv_read True cell row (c # s) =
     (if c \<noteq> CHR 0x22 then csv_read True (cell @ [c]) row s
      else case s of
          [] \<Rightarrow> []
        | d # s' \<Rightarrow> if d = CHR 0x22 then csv_read True (cell @ [c]) row s' else csv_read False cell row (d # s'))"
| "csv_read False cell row (c # s) =
     (if c = CHR 0x22 then csv_read True cell row s
      else if c = CHR '','' then csv_read False [] (row @ [cell]) s
      else if c = CHR 0x0D then
        (case s of [] \<Rightarrow> [] | d # s' \<Rightarrow> if d = CHR 0x0A then (row @ [cell]) # csv_read False [] [] s' else csv_read False (cell @ [c]) row (d # s'))
      else csv_read False (cell @ [c]) row s)"

definition csv_table :: "string \<Rightarrow> string list list" where
  "csv_table s = csv_read False [] [] s"

abbreviation doubled :: "string \<Rightarrow> string" where
  "doubled s \<equiv> concat (map (\<lambda>c. if c = CHR 0x22 then [c, c] else [c]) s)"

lemma read_doubled: "csv_read True cell row (doubled s @ t) = csv_read True (cell @ s) row t"
  by (induction s arbitrary: cell) simp_all

lemma read_plain: "\<not> list_ex csv_special s \<Longrightarrow> csv_read False cell row (s @ t) = csv_read False (cell @ s) row t"
  by (induction s arbitrary: cell) (simp_all add: csv_special_def)

lemma read_close: "c \<noteq> CHR 0x22 \<Longrightarrow> csv_read True cell row (CHR 0x22 # c # t) = csv_read False cell row (c # t)"
  by (subst csv_read.simps(2)) (simp del: csv_read.simps)

lemma read_field:
  assumes "c \<noteq> CHR 0x22"
  shows "csv_read False [] row (csv_field s @ c # t) = csv_read False s row (c # t)"
proof (cases "list_ex csv_special s")
  case True
  have "csv_read False [] row (csv_field s @ c # t) = csv_read True [] row (doubled s @ CHR 0x22 # c # t)"
    by (simp add: csv_field_def True)
  also have "\<dots> = csv_read False s row (c # t)" unfolding read_doubled by (simp only: append_Nil read_close [OF assms])
  finally show ?thesis .
next
  case False
  then show ?thesis using read_plain [OF False, of "[]" row "c # t"] by (simp only: csv_field_def if_False append_Nil)
qed

lemma read_cells:
  assumes "fs \<noteq> []"
  shows "csv_read False [] row (join '','' (map csv_field fs) @ [CHR 0x0D, CHR 0x0A] @ t) =
    (row @ fs) # csv_read False [] [] t"
  using assms
proof (induction fs arbitrary: row)
  case (Cons f fs)
  then show ?case
    using read_field [of "CHR 0x0D" row f "CHR 0x0A # t"]
      read_field [of "CHR '',''" row f "join '','' (map csv_field fs) @ CHR 0x0D # CHR 0x0A # t"]
    by (cases fs) simp_all
qed simp

lemma read_row: "r \<noteq> [] \<Longrightarrow> csv_read False [] [] (csv_row r @ t) = r # csv_read False [] [] t"
  using read_cells [of r "[]" t] by (simp add: csv_row_def)

lemma csv_table_rows: "\<forall>r\<in>set rows. r \<noteq> [] \<Longrightarrow> csv_table (concat (map csv_row rows)) = rows"
  by (induction rows) (simp_all add: csv_table_def read_row)

section \<open>Properties\<close>

text \<open>
  The export is faithful whatever the events hold (commas, quotes, line breaks, empty texts): a
  reader of the file gets the header and then, newest first, exactly the cells of the first ten
  thousand events that match the filter. Nothing is written by the download.
\<close>

theorem audit_csv_roundtrip:
  "\<exists>body. api_audit_log_csv iso_text action actor w = (Inr body, w) \<and>
     csv_table body = [''created_at'', ''actor_email'', ''action'', ''target'', ''details''] #
       map (audit_cells iso_text) (take 10000 (newest_first (filter (audit_matches action actor) (aw_audit w))))"
proof -
  have "csv_table (concat (map csv_row (h # map (audit_cells iso_text) es))) = h # map (audit_cells iso_text) es"
    if "h \<noteq> []" for h es using that by (intro csv_table_rows) (auto simp: audit_cells_def)
  then show ?thesis unfolding api_audit_log_csv_def by blast
qed

text \<open>
  The usage page shows the cap that is enforced: the limit and the count it gives to an
  administrator decide whether his tenant's next reservation is refused, although the page and the
  quota service each resolve the plan in their own way. The quota error names the same numbers.
\<close>

theorem usage_page_predicts_reservation:
  "\<exists>u. api_usage cf a w = (Inr u, w) \<and> ur_apps u = count_apps (aw_db w) (ad_tenant a) \<and>
     (\<forall>project al display. check_and_reserve (aw_db w) (ad_tenant a) project al display =
        (if \<not> is_platform_scope (aw_db w) (ad_tenant a) \<and> ur_apps_limit u \<le> ur_apps u
         then Inl (QuotaExceeded ''apps'' (ur_apps_limit u) (ur_apps u))
         else Inr ((aw_db w)\<lparr>db_resources := db_resources (aw_db w) @ [reservation (ad_tenant a) project al display]\<rparr>)))"
proof -
  have p: "resolve_plan_for_tenant d tid = resolve_plan d tid" for d tid
    by (simp add: resolve_plan_for_tenant_def resolve_plan_def get_default_plan_def or_empty_def split: option.splits)
  let ?d = "aw_db w" let ?t = "ad_tenant a"
  obtain u where u: "api_usage cf a w = (Inr u, w)" "ur_apps u = count_apps ?d ?t"
      "ur_apps_limit u = resolve_max_apps ?d ?t"
    by (simp add: api_usage_def api_read_def Let_def p usage_def resolve_max_apps_def)
  then show ?thesis by (auto simp: check_and_reserve_def)
qed

section \<open>Who may change what\<close>

lemma still_office [reaching]: "db_still m \<Longrightarrow> db_still (office_with f m)"
  unfolding office_with_def by (intro reaching)

lemma log_office [logging]: "log_still m \<Longrightarrow> log_still (office_with f m)"
  unfolding office_with_def by (intro logging)

lemma log_found [logging]: "log_still (found_or_404 msg r)"
  by (cases r) (simp_all add: found_or_404_def logging)

lemma log_if [logging]: "log_still m \<Longrightarrow> log_still n \<Longrightarrow> log_still (if b then m else n)"
  by simp

lemma log_looks [logging]:
  "log_still (api_admin_overview now)" "log_still (api_audit_log n k act who)"
  "log_still (api_audit_log_csv iso_text act who)"
  by (auto simp: log_still_def api_admin_overview_def api_audit_log_def api_audit_log_csv_def Let_def)

text \<open>The routes that every administrator may call only read; none writes an audit event.\<close>

lemma open_routes_read: "for_every_admin rq \<Longrightarrow> db_still (office_handler v now a rq)"
  by (cases rq) (auto simp: api_list_plans_def api_usage_def api_billing_credits_def api_billing_quote_def
      api_billing_charges_def intro!: reaching still_raise_as)

lemma office_logs: "log_still (office_handler v now a rq)"
  by (cases rq) (auto simp: api_list_plans_def api_create_plan_def api_update_plan_def api_archive_plan_def api_usage_def
      api_billing_credits_def api_billing_credits_overview_def api_billing_topup_def api_billing_pricing_def
      api_billing_set_pricing_def api_billing_quote_def api_billing_charges_def intro!: logging)

lemma office_route_run:
  assumes "office_route v call rq w = (Inr rep, w')"
  obtains a w1 where "get_current_api_admin (sv_cfg (of_self v)) (sv_unsign (of_self v)) (sv_sha (of_self v))
      (call\<lparr>ac_method := office_method rq\<rparr>) w = (Inr a, w1)"
    and "for_every_admin rq \<or> ad_role a = ROLE_PLATFORM_ADMIN"
    and "office_handler v (ac_now call) a rq w1 = (Inr rep, w')"
  using session_scope_Inr [OF assms [unfolded office_route_def]]
  by (auto simp: office_guard_def api_platform_admin_def act_defs Let_def split: prod.splits sum.splits if_splits)

text \<open>
  Plans, prices and balances are changed by platform staff alone: when a back-office request
  changes the database, beyond the time a token was last used, or answers on a route that is not
  open to every administrator, an active platform administrator sent it. No back-office request
  adds to the audit log.
\<close>

theorem office_changes_need_platform_staff:
  assumes "office_route v call rq w = (r, w')"
  shows "aw_audit w' = aw_audit w \<and>
    (forget_use (aw_db w') \<noteq> forget_use (aw_db w) \<or> \<not> isl r \<and> \<not> for_every_admin rq \<longrightarrow>
      (\<exists>a. may_act (aw_db w) (office_method rq) a \<and> ad_role a = ROLE_PLATFORM_ADMIN))"
proof (cases r)
  case (Inl e)
  with assms session_scope_Inl show ?thesis by (auto simp: office_route_def)
next
  case (Inr rep)
  from assms [unfolded Inr] obtain a w1 where g: "get_current_api_admin (sv_cfg (of_self v)) (sv_unsign (of_self v))
      (sv_sha (of_self v)) (call\<lparr>ac_method := office_method rq\<rparr>) w = (Inr a, w1)"
      and role: "for_every_admin rq \<or> ad_role a = ROLE_PLATFORM_ADMIN"
      and h: "office_handler v (ac_now call) a rq w1 = (Inr rep, w')" by (rule office_route_run)
  from api_guard_run [OF g] have act: "may_act (aw_db w) (office_method rq) a" and f: "guard_frame w w1" by simp_all
  have "aw_audit w' = aw_audit w"
    using office_logs h guard_frame_cols(5) [OF f] by (fastforce simp: log_still_def)
  moreover have "forget_use (aw_db w') = forget_use (aw_db w)" if "for_every_admin rq"
    using open_routes_read [OF that] h api_guard_forget [OF g] by (fastforce simp: db_still_def)
  ultimately show ?thesis using role act by auto
qed

text \<open>
  Outside the platform tenant an administrator reads only his own tenant's charges, newest first
  and at most a hundred, whatever page he asks for.
\<close>

theorem charges_stay_in_tenant:
  assumes "office_route v call (Charges n k) w = (Inr (OfCharges sum_of cs), w')"
  shows "sum_of \<le> 100 \<and> (\<exists>a. may_act (aw_db w) ''GET'' a \<and>
    (ad_role a \<noteq> ROLE_PLATFORM_ADMIN \<longrightarrow> (\<forall>c\<in>set cs. c \<in> set (db_charges (aw_db w)) \<and> rc_tenant c = ad_tenant a)))"
proof -
  from assms obtain a w1 where g: "get_current_api_admin (sv_cfg (of_self v)) (sv_unsign (of_self v))
      (sv_sha (of_self v)) (call\<lparr>ac_method := ''GET''\<rparr>) w = (Inr a, w1)"
      and h: "office_handler v (ac_now call) a (Charges n k) w1 = (Inr (OfCharges sum_of cs), w')"
    by (auto elim: office_route_run)
  let ?scope = "if ad_role a = ROLE_PLATFORM_ADMIN then None else Some (ad_tenant a)"
  let ?cs = "list_charges (aw_db w1) ?scope 100"
  from h have c: "sum_of = length ?cs" "cs = take n (drop k ?cs)"
    by (auto simp: office_with_def api_billing_charges_def api_read_def paginate_def act_defs)
  from api_guard_run [OF g] have act: "may_act (aw_db w) ''GET'' a" and f: "guard_frame w w1" by simp_all
  have "db_charges (aw_db w1) = db_charges (aw_db w)" using arg_cong [OF api_guard_forget [OF g], of db_charges] by (simp add: forget_use_def)
  then have "set cs \<subseteq> {c \<in> set (db_charges (aw_db w)). rc_tenant c = ad_tenant a}" if "ad_role a \<noteq> ROLE_PLATFORM_ADMIN"
    using that by (auto simp: c list_charges_def dest!: in_set_takeD in_set_dropD)
  with act show ?thesis by (auto simp: c list_charges_def)
qed

text \<open>
  A top-up credits exactly what was entered, rounded to a millionth of a dollar: the wallet of
  that tenant grows by it, the answer shows the new balance and the new transaction, and no other
  wallet moves.
\<close>

theorem topup_credits_exactly:
  assumes "api_billing_topup now tid amount w = (Inr rep, w')"
  shows "0 < amount \<and> balance (aw_db w') t = balance (aw_db w) t +
      (if t = tid then py_round (amount * of_int MICRO_USD_PER_USD) else 0) \<and>
    cr_balance rep = dollars (balance (aw_db w') tid) \<and>
    (\<exists>tx. db_txns (aw_db w') = db_txns (aw_db w) @ [tx] \<and> tx_tenant tx = tid \<and> tx_kind tx = TXN_TOPUP \<and>
       tx_delta tx = py_round (amount * of_int MICRO_USD_PER_USD))"
proof -
  let ?n = "py_round (amount * of_int MICRO_USD_PER_USD)"
  from assms obtain b d where pos: "0 < amount" and b: "topup (aw_db w) now tid ?n ''admin top-up'' = Inr (b, d)"
      and w: "aw_db w' = d" and rep: "rep = credits_of d tid"
    by (auto simp: api_billing_topup_def refuse_def act_defs api_db_def api_read_def split: if_splits sum.splits)
  from b have c: "apply_credit (aw_db w) now tid ?n TXN_TOPUP ''admin top-up'' = (b, d)"
    by (simp add: topup_def split: if_splits)
  have "\<exists>tx. db_txns d = db_txns (aw_db w) @ [tx] \<and> tx_tenant tx = tid \<and> tx_kind tx = TXN_TOPUP \<and> tx_delta tx = ?n"
    using c by (auto simp: apply_credit_def Let_def ensure_wallet_def split: option.splits)
  with pos apply_credit_effect(1) [OF c] show ?thesis
    by (simp add: w rep credits_of_def credit_balance_response_def)
qed

text \<open>
  An amount of at most half a millionth of a dollar passes the payload check (\<open>gt=0\<close>) and rounds
  to nothing; the ValueError of the wallet is not caught by the route, so the client sees a server
  error instead of a 422.
\<close>

theorem tiny_topup_is_a_server_error:
  assumes "0 < amount" and "amount \<le> 1 / 2000000"
  shows "api_billing_topup now tid amount w = (Inl (ValueError ''Top-up amount must be positive.''), w)"
proof -
  let ?x = "amount * 1000000"
  have "0 < ?x" "?x \<le> 1 / 2" using assms by simp_all
  moreover then have "\<lfloor>?x\<rfloor> = 0" by (simp add: floor_eq_iff)
  ultimately have "py_round ?x = 0" by (simp add: py_round_def Let_def)
  then show ?thesis
    using assms by (simp add: api_billing_topup_def topup_def MICRO_USD_PER_USD_def act_defs api_db_def)
qed

lemma count_status: "length (filter (\<lambda>t. tn_status t = TENANT_ACTIVE) ts) + length (filter (\<lambda>t. tn_status t = TENANT_PENDING) ts) +
    length (filter (\<lambda>t. tn_status t = TENANT_SUSPENDED) ts) + length (filter (\<lambda>t. tn_status t = TENANT_REJECTED) ts) = length ts"
  by (induction ts) (auto split: if_splits intro: tenant_status.exhaust)

text \<open>
  The head counts of the platform overview add up: every tenant is in exactly one of the four
  status counts, the approval queue is as long as the pending count, and at most twenty events are
  shown.
\<close>

theorem overview_counts_add_up:
  "\<exists>p. api_admin_overview now w = (Inr p, w) \<and> po_active p + po_pending p + po_suspended p + po_rejected p = po_tenants p \<and>
     length (po_queue p) = po_pending p \<and> length (po_events p) \<le> 20"
  using count_status [of "db_tenants (aw_db w)"]
  by (simp add: api_admin_overview_def Let_def count_where_def)

section \<open>Witnesses\<close>

definition demo_office_env :: office_env where
  "demo_office_env = \<lparr>of_self = demo_self_env, of_settings = demo_settings, of_markup = 10, of_iso = (\<lambda>t. int_str t)\<rparr>"

lemma demo_topup_ok: "\<not> isl (fst (office_route demo_office_env (demo_call ''root'') (Topup ''hq'' (5 / 2)) demo_api))"
  by code_simp

lemma office_changes_need_platform_staff_witness:
  "balance (aw_db (snd (office_route demo_office_env (demo_call ''root'') (Topup ''hq'' (5 / 2)) demo_api))) ''hq'' = 2500000 \<and>
   (\<exists>a. may_act (aw_db demo_api) ''POST'' a \<and> ad_role a = ROLE_PLATFORM_ADMIN)"
proof -
  let ?q = "office_route demo_office_env (demo_call ''root'') (Topup ''hq'' (5 / 2)) demo_api"
  have "?q = (fst ?q, snd ?q)" by simp
  from office_changes_need_platform_staff [OF this] demo_topup_ok
  have "\<exists>a. may_act (aw_db demo_api) ''POST'' a \<and> ad_role a = ROLE_PLATFORM_ADMIN" by simp
  moreover have "balance (aw_db (snd ?q)) ''hq'' = 2500000" by code_simp
  ultimately show ?thesis by blast
qed

definition demo_charge_world :: api_world where
  "demo_charge_world = demo_api\<lparr>aw_db := demo_accounts\<lparr>db_charges := [\<lparr>rc_tenant = ''hq'', rc_offering = ''o'', rc_provider = ''p'',
     rc_wholesale = 1, rc_resale = 2, rc_margin = 1, rc_status = ''ok'', rc_created = 3\<rparr>]\<rparr>\<rparr>"

lemma charges_stay_in_tenant_witness:
  "\<exists>n cs w'. office_route demo_office_env (demo_call ''root'') (Charges 500 0) demo_charge_world = (Inr (OfCharges n cs), w') \<and>
     n \<le> 100 \<and> length cs = 1"
proof -
  let ?q = "office_route demo_office_env (demo_call ''root'') (Charges 500 0) demo_charge_world"
  have "\<not> isl (fst ?q)" by code_simp
  then obtain rep w' where q: "?q = (Inr rep, w')" by (cases ?q) (auto dest!: Inr_of_not_isl)
  have "case fst ?q of Inr (OfCharges n cs) \<Rightarrow> length cs = 1 | _ \<Rightarrow> False" by code_simp
  with q obtain n cs where r: "rep = OfCharges n cs" "length cs = 1" by (auto split: office_reply.splits)
  from charges_stay_in_tenant [OF q [unfolded r(1)]] q r show ?thesis by blast
qed

lemma topup_credits_exactly_witness:
  "\<exists>rep w'. api_billing_topup 4 ''t'' (5 / 2) demo_api = (Inr rep, w') \<and> balance (aw_db w') ''t'' = 2500000 \<and>
     cr_balance rep = 5 / 2"
proof -
  let ?q = "api_billing_topup 4 ''t'' (5 / 2) demo_api"
  have "\<not> isl (fst ?q)" by code_simp
  then obtain rep w' where q: "?q = (Inr rep, w')" by (cases ?q) (auto dest!: Inr_of_not_isl)
  have n: "py_round (5 / 2 * of_int MICRO_USD_PER_USD) = 2500000" "balance (aw_db demo_api) ''t'' = 0" by code_simp+
  from topup_credits_exactly [OF q, of "''t''"] n show ?thesis
    by (intro exI [of _ rep] exI [of _ w']) (simp add: q dollars_def MICRO_USD_PER_USD_def)
qed

lemma tiny_topup_is_a_server_error_witness:
  "api_billing_topup 4 ''t'' (1 / 5000000) demo_api = (Inl (ValueError ''Top-up amount must be positive.''), demo_api)"
  by (rule tiny_topup_is_a_server_error) simp_all

end
