(* ===== verification/Apps.thy ===== *)
theory Apps
  imports Compose Quota Engine Resources Provider Deploys Billing
begin

text \<open>
  The marketplace: the catalog of compose templates (\<^verbatim>\<open>services/app_catalog.py\<close>), the
  installation and control of its apps (\<^verbatim>\<open>modules/apps/service.py\<close>) and the readings of
  \<open>docker stats\<close> (\<^verbatim>\<open>services/compute.py\<close>). The YAML parser and printer, base64, the process
  runner, the HTTP answers and the random generator are parameters.
\<close>

section \<open>Service variables\<close>

definition upper_or_digit :: "char \<Rightarrow> bool" where
  "upper_or_digit c = (let n = ord_of c in 65 \<le> n \<and> n \<le> 90 \<or> 48 \<le> n \<and> n \<le> 57)"

text \<open>\<open>_[A-Z0-9]+(?:_\d+)?\<close>: the length matched at the head of a text.\<close>

definition name_match :: "string \<Rightarrow> nat option" where
  "name_match s =
     (case s of
        [] \<Rightarrow> None
      | c # r \<Rightarrow>
         (let n = length (takeWhile upper_or_digit r) in
          if c \<noteq> CHR ''_'' \<or> n = 0 then None
          else (case drop n r of
              [] \<Rightarrow> Some (1 + n)
            | d # q \<Rightarrow> (let k = length (takeWhile ascii_digit q) in
                 if d = CHR ''_'' \<and> k \<noteq> 0 then Some (2 + n + k) else Some (1 + n)))))"

text \<open>The optional \<open>_64\<close> is taken when the rest still matches.\<close>

definition suffix_match :: "string \<Rightarrow> nat option" where
  "suffix_match s =
     (case (if starts_with ''_64'' s then name_match (drop 3 s) else None) of
        Some n \<Rightarrow> Some (3 + n)
      | None \<Rightarrow> name_match s)"

definition SERVICE_KINDS :: "string list" where
  "SERVICE_KINDS = [''FQDN'', ''URL'', ''USER'', ''PASSWORD'', ''BASE64'', ''REALBASE64'']"

definition token_match :: "string \<Rightarrow> nat option" where
  "token_match s =
     (case find (\<lambda>k. starts_with (''SERVICE_'' @ k) s \<and> suffix_match (drop (8 + length k) s) \<noteq> None) SERVICE_KINDS of
        None \<Rightarrow> None
      | Some k \<Rightarrow> map_option (\<lambda>n. 8 + length k + n) (suffix_match (drop (8 + length k) s)))"

text \<open>\<open>finditer\<close>: left to right, the search goes on behind a match.\<close>

function service_tokens :: "string \<Rightarrow> string list" where
  "service_tokens [] = []"
| "service_tokens (c # s) =
     (case token_match (c # s) of
        None \<Rightarrow> service_tokens s
      | Some n \<Rightarrow> if n = 0 then service_tokens s else take n (c # s) # service_tokens (drop n (c # s)))"
  by pat_completeness auto
termination by (relation "measure length") auto

text \<open>
  \<open>rs_choice token alphabet n\<close> and \<open>rs_urlsafe token n\<close> are the random texts drawn for a token.
\<close>

record random_source =
  rx_choice :: "string \<Rightarrow> string \<Rightarrow> nat \<Rightarrow> string"
  rx_urlsafe :: "string \<Rightarrow> nat \<Rightarrow> string"

definition LOWER :: string where "LOWER = ''abcdefghijklmnopqrstuvwxyz''"
definition UPPER :: string where "UPPER = ''ABCDEFGHIJKLMNOPQRSTUVWXYZ''"
definition DIGIT_CHARS :: string where "DIGIT_CHARS = ''0123456789''"

definition value_for_token :: "random_source \<Rightarrow> string \<Rightarrow> string \<Rightarrow> string" where
  "value_for_token rx domain tok =
     (let long = contains ''_64_'' tok \<or> ends_with ''_64'' tok in
      if starts_with ''SERVICE_FQDN_'' tok then domain
      else if starts_with ''SERVICE_URL_'' tok then (if domain \<noteq> [] then ''https://'' @ domain else [])
      else if starts_with ''SERVICE_USER_'' tok then rx_choice rx tok (LOWER @ DIGIT_CHARS) 12
      else if starts_with ''SERVICE_PASSWORD_'' tok then rx_choice rx tok (LOWER @ UPPER @ DIGIT_CHARS) (if long then 64 else 24)
      else if starts_with ''SERVICE_BASE64_'' tok \<or> starts_with ''SERVICE_REALBASE64_'' tok
        then rx_urlsafe rx tok (if long then 48 else 24)
      else rx_choice rx tok (LOWER @ UPPER @ DIGIT_CHARS) 24)"

definition render_service_vars :: "random_source \<Rightarrow> string \<Rightarrow> string \<Rightarrow> (string \<times> string) list" where
  "render_service_vars rx text domain =
     map (\<lambda>tok. (tok, value_for_token rx domain tok)) (rev (remdups (rev (service_tokens text))))"

section \<open>Making a template runnable\<close>

text \<open>\<open>str\<close> is Python's \<open>str\<close> of a YAML value.\<close>

definition referenced_volume_name :: "(yaml \<Rightarrow> string) \<Rightarrow> yaml \<Rightarrow> string option" where
  "referenced_volume_name str entry =
     (case entry of
        YMap m \<Rightarrow> if map_of m ''type'' = Some (YStr ''volume'') \<and> \<not> falsy (map_of m ''source'')
                   then Some (case map_of m ''source'' of Some v \<Rightarrow> str v | None \<Rightarrow> []) else None
      | YStr s \<Rightarrow> (let source = py_strip (part_before (CHR '':'') s) in
          if source \<noteq> [] \<and> hd source \<notin> set ''/.~$'' then Some source else None)
      | _ \<Rightarrow> None)"

text \<open>\<open>service.get("volumes") or []\<close>, iterated: a mapping gives its keys, a text its characters.\<close>

definition volume_entries :: "ydict \<Rightarrow> yaml list result" where
  "volume_entries svc =
     (if falsy (map_of svc ''volumes'') then Inr []
      else (case map_of svc ''volumes'' of
          Some (YSeq xs) \<Rightarrow> Inr xs
        | Some (YMap m) \<Rightarrow> Inr (map (YStr \<circ> fst) m)
        | Some (YStr s) \<Rightarrow> Inr (map (\<lambda>c. YStr [c]) s)
        | _ \<Rightarrow> Inl (OtherError ''TypeError'')))"

definition service_volumes :: "(yaml \<Rightarrow> string) \<Rightarrow> yaml \<Rightarrow> string list result" where
  "service_volumes str svc =
     (case svc of
        YMap m \<Rightarrow> rbind (volume_entries m) (\<lambda>es.
          Inr (filter (\<lambda>n. n \<noteq> []) (concat (map (\<lambda>e. case referenced_volume_name str e of Some n \<Rightarrow> [n] | None \<Rightarrow> []) es))))
      | _ \<Rightarrow> Inr [])"

text \<open>The set of names is walked in the order of their first occurrence.\<close>

definition normalize_compose_for_engine ::
  "(string \<Rightarrow> yaml option) \<Rightarrow> (yaml \<Rightarrow> string) \<Rightarrow> (yaml \<Rightarrow> string) \<Rightarrow> string \<Rightarrow> string result" where
  "normalize_compose_for_engine load dump str text =
     (case load text of
        Some (YMap doc) \<Rightarrow>
          rbind (service_items doc) (\<lambda>svcs. rbind (map_result (\<lambda>(k, v). service_volumes str v) svcs) (\<lambda>vs.
            if concat vs = [] then Inr text
            else (let declared = (case map_of doc ''volumes'' of Some (YMap d) \<Rightarrow> d | _ \<Rightarrow> []) in
              Inr (dump (YMap (dict_set ''volumes''
                (YMap (fold (\<lambda>n d. if has_key n d then d else dict_set n (YMap []) d) (concat vs) declared)) doc))))))
      | _ \<Rightarrow> Inr text)"

section \<open>The catalog\<close>

record app_template =
  at_slug :: string
  at_name :: string
  at_description :: string
  at_category :: string
  at_tags :: "string list"
  at_logo :: string
  at_port :: string
  at_compose :: string

definition capitalize :: "string \<Rightarrow> string" where
  "capitalize s = (case s of [] \<Rightarrow> [] | c # r \<Rightarrow>
     (case upper_char c of [] \<Rightarrow> [] | u # us \<Rightarrow> u # map lower_char us) @ py_lower r)"

definition titleize :: "string \<Rightarrow> string" where
  "titleize slug = join '' '' (map capitalize (filter (\<lambda>p. p \<noteq> [])
     (split_on (CHR ''-'') (map (\<lambda>c. if c = CHR ''_'' then CHR ''-'' else c) slug))))"

definition normalize_template :: "string \<Rightarrow> jdict \<Rightarrow> app_template" where
  "normalize_template slug raw =
     \<lparr>at_slug = slug, at_name = jstr (jor [jget raw ''name'', JStr (titleize slug)]),
      at_description = jstr (jor [jget raw ''slogan'', jget raw ''description'', JStr []]),
      at_category = jstr (jor [jget raw ''category'', JStr ''other'']),
      at_tags = (case jget raw ''tags'' of JList xs \<Rightarrow> map jstr xs | _ \<Rightarrow> []),
      at_logo = jstr (jor [jget raw ''logo'', JStr []]), at_port = jstr (jor [jget raw ''port'', JStr []]),
      at_compose = jstr (jor [jget raw ''compose'', JStr []])\<rparr>"

definition CATALOG_KEY :: string where "CATALOG_KEY = ''catalog:templates''"

record catalog_env =
  ct_provider :: provider
  ct_url :: string
  ct_ttl :: int
  ct_b64 :: "string \<Rightarrow> string option"

definition decoded_compose :: "catalog_env \<Rightarrow> app_template \<Rightarrow> string" where
  "decoded_compose ct t = or_empty (ct_b64 ct (at_compose t))"

definition catalog_of :: "json \<Rightarrow> app_template list" where
  "catalog_of payload =
     (case payload of
        JObj m \<Rightarrow> sort_key (\<lambda>t. py_lower (at_name t))
          (concat (map (\<lambda>(slug, raw). case raw of JObj r \<Rightarrow> [normalize_template slug r] | _ \<Rightarrow> []) m))
      | _ \<Rightarrow> [])"

definition list_templates :: "catalog_env \<Rightarrow> bool \<Rightarrow> (app_template list, app_template list) pact" where
  "list_templates ct refresh =
     act_seq (act_when refresh (drop_cached [CATALOG_KEY]))
       (cached (ct_provider ct) CATALOG_KEY (max 3600 (ct_ttl ct))
          (act_bind (call_json (ct_provider ct) \<lparr>pq_service = ''Catalog'', pq_method = ''GET'', pq_url = ct_url ct,
               pq_headers = [], pq_params = [], pq_body = None\<rparr>)
             (\<lambda>payload. act_return (catalog_of payload))))"

definition get_template :: "catalog_env \<Rightarrow> string \<Rightarrow> (app_template list, app_template option) pact" where
  "get_template ct slug =
     act_bind (list_templates ct False) (\<lambda>ts. act_return (find (\<lambda>t. at_slug t = slug) ts))"

section \<open>The service\<close>

record app_world =
  pa_db :: db
  pa_cmds :: "command list"
  pa_catalog :: "app_template list pworld"

type_synonym 'a ptask = "(app_world, 'a) sx"

record app_env =
  pe_cf :: settings
  pe_bin :: string
  pe_run :: runner
  pe_catalog :: catalog_env
  pe_load :: "string \<Rightarrow> yaml option"
  pe_dump :: "yaml \<Rightarrow> string"
  pe_str :: "yaml \<Rightarrow> string"
  pe_random :: random_source
  pe_json :: "string \<Rightarrow> json option"

text \<open>
  \<open>_parse_json_objects\<close>: one document, or else one object per line; what does not parse is left out.
\<close>

definition json_line :: "(string \<Rightarrow> json option) \<Rightarrow> string \<Rightarrow> jdict list" where
  "json_line dec l = (if py_strip l = [] then [] else (case dec (py_strip l) of Some (JObj m) \<Rightarrow> [m] | _ \<Rightarrow> []))"

definition parse_json_objects :: "(string \<Rightarrow> json option) \<Rightarrow> string \<Rightarrow> jdict list" where
  "parse_json_objects dec text =
     (if py_strip text = [] then []
      else (case dec (py_strip text) of
          Some (JList xs) \<Rightarrow> dict_items xs
        | Some (JObj m) \<Rightarrow> [m]
        | _ \<Rightarrow> concat (map (json_line dec) (split_on (CHR 0x0A) (py_strip text)))))"

definition pe_rows :: "app_env \<Rightarrow> string \<Rightarrow> jdict list" where
  "pe_rows v = parse_json_objects (pe_json v)"

definition via_engine :: "'a act \<Rightarrow> 'a ptask" where
  "via_engine m w = (case m (pa_cmds w) of (r, h) \<Rightarrow> (r, w\<lparr>pa_cmds := h\<rparr>))"

definition via_catalog :: "(app_template list, 'a) pact \<Rightarrow> 'a ptask" where
  "via_catalog m w = (case m (pa_catalog w) of (r, p) \<Rightarrow> (r, w\<lparr>pa_catalog := p\<rparr>))"

definition app_read :: "(db \<Rightarrow> 'a result) \<Rightarrow> 'a ptask" where
  "app_read f w = (f (pa_db w), w)"

definition app_write :: "(db \<Rightarrow> db result) \<Rightarrow> unit ptask" where
  "app_write f w = (case f (pa_db w) of Inl e \<Rightarrow> (Inl e, w) | Inr d \<Rightarrow> (Inr (), w\<lparr>pa_db := d\<rparr>))"

definition engine_refuse :: "string \<Rightarrow> int \<Rightarrow> 'a ptask" where
  "engine_refuse msg code = act_raise (DockerEngineError msg (Some code))"

definition app_require_actions :: "app_env \<Rightarrow> unit ptask" where
  "app_require_actions v = lift (require_deploy_actions (pe_cf v))"

definition app_accessible :: "db \<Rightarrow> string option \<Rightarrow> string \<Rightarrow> bool" where
  "app_accessible d tid project = is_resource_accessible d tid PROVIDER_DOCKER RESOURCE_TYPE_APP project"

definition ensure_app_access :: "string option \<Rightarrow> string \<Rightarrow> unit ptask" where
  "ensure_app_access tid project =
     app_read (\<lambda>d. if app_accessible d tid project then Inr ()
       else Inl (DockerEngineError ''App is not assigned to this tenant.'' (Some 403)))"

definition list_catalog :: "app_env \<Rightarrow> string \<Rightarrow> string \<Rightarrow> app_template list ptask" where
  "list_catalog v search category =
     act_bind (via_catalog (list_templates (pe_catalog v) False))
       (\<lambda>ts. let a = (if category \<noteq> [] then filter (\<lambda>t. at_category t = category) ts else ts);
                 needle = py_lower (py_strip search) in
          act_return (if search = [] then a
            else filter (\<lambda>t. contains needle (py_lower (at_name t)) \<or> contains needle (py_lower (at_description t)) \<or>
              list_ex (\<lambda>g. contains needle (py_lower g)) (at_tags t)) a))"

record installed_app =
  ia_project :: string
  ia_name :: string
  ia_status :: string
  ia_domain :: string

definition stack_status_map :: "jdict list \<Rightarrow> (string \<times> string) list" where
  "stack_status_map stacks =
     fold (\<lambda>s m. let nm = jstr (jor [jget s ''Name'', jget s ''name'', JStr []]) in
        if nm = [] then m else dict_set nm (jstr (jor [jget s ''Status'', jget s ''status'', JStr []])) m) stacks []"

definition app_domain :: "settings \<Rightarrow> string \<Rightarrow> string" where
  "app_domain cf project = (if cf_base_domain cf \<noteq> [] then app_hostname cf project else [])"

text \<open>An engine that cannot be asked leaves every status unknown.\<close>

definition list_installed_for_tenant :: "app_env \<Rightarrow> string option \<Rightarrow> installed_app list ptask" where
  "list_installed_for_tenant v tid =
     act_bind (app_read (\<lambda>d. Inr (filter (\<lambda>r. rs_tenant r = or_empty tid \<and> rs_provider r = PROVIDER_DOCKER \<and>
         rs_type r = RESOURCE_TYPE_APP) (db_resources d))))
       (\<lambda>rows. act_bind (act_catch (act_bind (via_engine (list_stacks (pe_run v) (pe_bin v) (pe_rows v)))
              (\<lambda>stacks. act_return (stack_status_map stacks)))
            (\<lambda>e. case e of DockerEngineError _ _ \<Rightarrow> act_return [] | _ \<Rightarrow> act_raise e))
         (\<lambda>status. act_return (map (\<lambda>r. \<lparr>ia_project = rs_ext r, ia_name = str_or (rs_display r) (rs_ext r),
            ia_status = (case map_of status (rs_ext r) of Some s \<Rightarrow> s | None \<Rightarrow> ''unknown''),
            ia_domain = app_domain (pe_cf v) (rs_ext r)\<rparr>) rows)))"

definition app_installed :: "db \<Rightarrow> string option \<Rightarrow> string \<Rightarrow> bool" where
  "app_installed d tid project = list_ex (\<lambda>r. rs_tenant r = or_empty tid \<and> rs_provider r = PROVIDER_DOCKER \<and>
     rs_type r = RESOURCE_TYPE_APP \<and> rs_ext r = project) (db_resources d)"

text \<open>The arrow and the tick of the log lines are written in ASCII.\<close>

definition install_row :: "string \<Rightarrow> int \<Rightarrow> string option \<Rightarrow> string \<Rightarrow> app_template \<Rightarrow> string \<Rightarrow> int \<Rightarrow> deployment" where
  "install_row i now tid project t domain port =
     \<lparr>dp_id = i, dp_tenant = or_empty tid, dp_project = project, dp_git = [], dp_ref = [], dp_status = STATUS_READY,
      dp_builder = ''app'', dp_image = at_slug t, dp_commit = [], dp_domain = domain, dp_port = port,
      dp_log = ''-> installing '' @ at_name t @ [CHR 0x0A] @
        (if domain \<noteq> [] then ''OK live at https://'' @ domain else ''OK running''),
      dp_error = [], dp_created = now\<rparr>"

definition port_number :: "string \<Rightarrow> int result" where
  "port_number p = (if py_isdigit p then
     (case py_int p of Some n \<Rightarrow> Inr n | None \<Rightarrow> Inl (ValueError ''invalid literal for int()'')) else Inr 0)"

text \<open>What is computed before anything is reserved: the template's compose text and its environment.\<close>

definition runnable_compose :: "app_env \<Rightarrow> app_template \<Rightarrow> string result" where
  "runnable_compose v t =
     rbind (normalize_compose_for_engine (pe_load v) (pe_dump v) (pe_str v) (decoded_compose (pe_catalog v) t)) (\<lambda>text.
       if text = [] then Inl (DockerEngineError ''Template has no compose definition.'' (Some 422)) else Inr text)"

definition capped_compose :: "app_env \<Rightarrow> allocation \<Rightarrow> string \<Rightarrow> string" where
  "capped_compose v al text =
     apply_resource_limits (pe_load v) (pe_dump v) (pe_cf v) text (al_cpu al) (al_mem al) None"

text \<open>A failed start releases the reservation and is raised again, whatever it was.\<close>

definition deploy_reserved :: "app_env \<Rightarrow> string option \<Rightarrow> string \<Rightarrow> string \<Rightarrow> (string \<times> string) list \<Rightarrow> string ptask" where
  "deploy_reserved v tid project text env =
     act_catch (via_engine (deploy_stack (pe_run v) (pe_bin v) project text env))
       (\<lambda>e. act_seq (app_write (\<lambda>d. Inr (release d (or_empty tid) project))) (act_raise e))"

text \<open>From the reservation to the recorded deployment.\<close>

definition install_reserved ::
  "app_env \<Rightarrow> string \<Rightarrow> int \<Rightarrow> string option \<Rightarrow> string \<Rightarrow> app_template \<Rightarrow> string \<Rightarrow> string \<Rightarrow> (string \<times> string) ptask" where
  "install_reserved v i now tid project t host text =
     act_bind (app_read (\<lambda>d. Inr (plan_allocation (pe_cf v) d (or_empty tid)))) (\<lambda>al.
       let capped = capped_compose v al text; env = render_service_vars (pe_random v) capped host in
       act_seq (app_write (\<lambda>d. check_and_reserve d (or_empty tid) project al (at_name t)))
         (act_seq (deploy_reserved v tid project capped env)
           (act_bind (lift (port_number (at_port t))) (\<lambda>port.
             act_seq (app_write (\<lambda>d. Inr (d\<lparr>db_deployments := db_deployments d @
                  [install_row i now tid project t host port]\<rparr>)))
               (act_return (project, host))))))"

definition install_template ::
  "app_env \<Rightarrow> string \<Rightarrow> int \<Rightarrow> string option \<Rightarrow> string \<Rightarrow> string \<Rightarrow> app_template \<Rightarrow> (string \<times> string) ptask" where
  "install_template v i now tid project host t =
     act_bind (lift (runnable_compose v t)) (\<lambda>text.
       act_bind (app_read (\<lambda>d. Inr (app_installed d tid project))) (\<lambda>taken.
         if taken then engine_refuse (''App '' @ [CHR 0x27] @ project @ [CHR 0x27] @ '' is already installed.'') 409
         else act_bind (lift (apply_edge (pe_load v) (pe_dump v) (pe_str v) (pe_cf v) text project (at_port t) []))
           (\<lambda>routed. install_reserved v i now tid project t host routed)))"

definition app_project :: "string option \<Rightarrow> string \<Rightarrow> string" where
  "app_project nm slug = sanitize_project_name (str_or (or_empty nm) slug)"

definition install_for_tenant ::
  "app_env \<Rightarrow> string \<Rightarrow> int \<Rightarrow> string option \<Rightarrow> string \<Rightarrow> string option \<Rightarrow> string option \<Rightarrow> (string \<times> string) ptask" where
  "install_for_tenant v i now tid slug nm domain =
     act_seq (app_require_actions v) (act_bind (via_catalog (get_template (pe_catalog v) slug)) (\<lambda>found.
       case found of
         None \<Rightarrow> engine_refuse (''Unknown app template '' @ [CHR 0x27] @ slug @ [CHR 0x27] @ ''.'') 404
       | Some t \<Rightarrow> install_template v i now tid (app_project nm slug)
           (str_or (or_empty domain) (app_domain (pe_cf v) (app_project nm slug))) t))"

definition control_for_tenant :: "app_env \<Rightarrow> string option \<Rightarrow> string \<Rightarrow> string \<Rightarrow> string ptask" where
  "control_for_tenant v tid project action =
     act_seq (app_require_actions v) (act_seq (ensure_app_access tid project)
       (if action = ''start'' then via_engine (start_stack (pe_run v) (pe_bin v) project)
        else if action = ''stop'' then via_engine (stop_stack (pe_run v) (pe_bin v) project)
        else engine_refuse (''Unknown action '' @ [CHR 0x27] @ action @ [CHR 0x27] @ ''.'') 400))"

definition forget_app :: "string option \<Rightarrow> string \<Rightarrow> db \<Rightarrow> db" where
  "forget_app tid project d = d\<lparr>
     db_resources := filter (\<lambda>r. \<not> (rs_tenant r = or_empty tid \<and> rs_provider r = PROVIDER_DOCKER \<and>
        rs_type r = RESOURCE_TYPE_APP \<and> rs_ext r = project)) (db_resources d),
     db_deployments := filter (\<lambda>p. \<not> (dp_tenant p = or_empty tid \<and> dp_project p = project \<and> dp_builder p = ''app''))
        (db_deployments d)\<rparr>"

definition remove_for_tenant :: "app_env \<Rightarrow> string option \<Rightarrow> string \<Rightarrow> bool \<Rightarrow> string ptask" where
  "remove_for_tenant v tid project volumes =
     act_seq (app_require_actions v) (act_seq (ensure_app_access tid project)
       (act_bind (via_engine (remove_stack (pe_run v) (pe_bin v) project volumes))
         (\<lambda>r. act_seq (app_write (\<lambda>d. Inr (forget_app tid (sanitize_project_name project) d))) (act_return r))))"

definition logs_for_tenant :: "app_env \<Rightarrow> string option \<Rightarrow> string \<Rightarrow> int \<Rightarrow> string ptask" where
  "logs_for_tenant v tid project lines =
     act_seq (ensure_app_access tid project) (via_engine (stack_logs (pe_run v) (pe_bin v) project lines))"

section \<open>Live compute\<close>

text \<open>\<open>float(s)\<close> of digits with at most one point; \<open>[0-9.]+\<close> with more of them is a ValueError.\<close>

definition digits_value :: "string \<Rightarrow> int" where
  "digits_value s = foldl (\<lambda>n c. 10 * n + digit_val c) 0 s"

definition decimal_text :: "string \<Rightarrow> rat option" where
  "decimal_text s = (let a = part_before (CHR ''.'') s; b = part_after (CHR ''.'') s in
     if list_all ascii_digit (a @ b) \<and> a @ b \<noteq> [] then Some (of_int (digits_value (a @ b)) / 10 ^ length b) else None)"

definition size_unit :: "string \<Rightarrow> rat" where
  "size_unit u = (case map_of [(''kb'', 10 ^ 3), (''mb'', 10 ^ 6), (''gb'', 10 ^ 9), (''tb'', 10 ^ 12),
     (''kib'', 1024), (''mib'', 1024 ^ 2), (''gib'', 1024 ^ 3), (''tib'', 1024 ^ 4)] u of Some q \<Rightarrow> q | None \<Rightarrow> 1)"

definition ascii_letter :: "char \<Rightarrow> bool" where
  "ascii_letter c = (let n = ord_of c in 65 \<le> n \<and> n \<le> 90 \<or> 97 \<le> n \<and> n \<le> 122)"

definition parse_size_to_bytes :: "string \<Rightarrow> rat" where
  "parse_size_to_bytes text =
     (let t = py_strip text; num = takeWhile (\<lambda>c. ascii_digit c \<or> c = CHR ''.'') t;
          unit_text = py_strip (drop (length num) t) in
      if list_all ascii_letter unit_text
      then (case decimal_text num of None \<Rightarrow> 0 | Some q \<Rightarrow> q * size_unit (py_lower unit_text)) else 0)"

definition round2 :: "rat \<Rightarrow> rat" where
  "round2 q = of_int (py_round (q * 100)) / 100"

definition mb_of :: "string \<Rightarrow> rat" where
  "mb_of text = round2 (parse_size_to_bytes text / 10 ^ 6)"

text \<open>\<open>flt\<close> is Python's \<open>float\<close> of a text, None for a ValueError; NaN and infinities are left out.\<close>

definition percent_of :: "(string \<Rightarrow> rat option) \<Rightarrow> string \<Rightarrow> rat" where
  "percent_of flt text =
     (case flt (rstrip_if (\<lambda>c. c = CHR ''%'') (py_strip text)) of Some q \<Rightarrow> round2 q | None \<Rightarrow> 0)"

record compute_sample =
  cs_name :: string
  cs_cpu :: rat
  cs_mem_used :: rat
  cs_mem_limit :: rat
  cs_mem_percent :: rat
  cs_net_rx :: rat
  cs_net_tx :: rat
  cs_pids :: int

text \<open>\<open>(row.get(k, "") or "")\<close> used as a text: another true value has no text methods.\<close>

definition text_field :: "jdict \<Rightarrow> string \<Rightarrow> string result" where
  "text_field row k = (let v = jget_or row k (JStr []) in
     if \<not> truthy v then Inr [] else (case v of JStr s \<Rightarrow> Inr s | _ \<Rightarrow> Inl (OtherError ''AttributeError'')))"

definition split_pair :: "string \<Rightarrow> string \<times> string" where
  "split_pair t = (py_strip (part_before (CHR ''/'') t), py_strip (part_after (CHR ''/'') t))"

definition pids_of :: "jdict \<Rightarrow> int" where
  "pids_of row = (let t = py_strip (jstr (jget_or row ''PIDs'' (JStr ''0''))) in
     if t = [] then 0 else (case py_int t of Some n \<Rightarrow> n | None \<Rightarrow> 0))"

definition compute_sample_of :: "(string \<Rightarrow> rat option) \<Rightarrow> jdict \<Rightarrow> compute_sample result" where
  "compute_sample_of flt row =
     rbind (text_field row ''MemUsage'') (\<lambda>mem. rbind (text_field row ''NetIO'') (\<lambda>net.
       rbind (text_field row ''CPUPerc'') (\<lambda>cpu. rbind (text_field row ''MemPerc'') (\<lambda>memp.
         Inr \<lparr>cs_name = jstr (jor [jget row ''Name'', jget row ''Container'', jget row ''ID'', JStr []]),
           cs_cpu = percent_of flt cpu, cs_mem_used = mb_of (fst (split_pair mem)), cs_mem_limit = mb_of (snd (split_pair mem)),
           cs_mem_percent = percent_of flt memp, cs_net_rx = mb_of (fst (split_pair net)),
           cs_net_tx = mb_of (snd (split_pair net)), cs_pids = pids_of row\<rparr>))))"

definition container_id :: "jdict \<Rightarrow> string" where
  "container_id c = (let v = jor [jget c ''ID'', jget c ''Id'', jget c ''Name''] in if truthy v then jstr v else [])"

definition compute_for_tenant ::
  "app_env \<Rightarrow> (string \<Rightarrow> rat option) \<Rightarrow> string option \<Rightarrow> string \<Rightarrow> compute_sample list ptask" where
  "compute_for_tenant v flt tid project =
     act_seq (ensure_app_access tid project)
       (act_bind (via_engine (stats_for_project (pe_run v) (pe_bin v) (pe_rows v) container_id project))
         (\<lambda>rows. lift (map_result (compute_sample_of flt) rows)))"

end
