(* ===== verification/AppsSafety.thy ===== *)
theory AppsSafety
  imports Apps
begin

text \<open>
  What the marketplace guarantees: installs stay within the plan and start exactly one stack, a
  failed install leaves nothing behind, every volume a template names is declared; and what it
  does not: two tenants who install the same app share its stack.
\<close>

section \<open>Runs of an installation\<close>

lemmas app_acts = act_bind_def act_seq_def act_return_def act_raise_def act_catch_def act_when_def lift_def
  app_read_def app_write_def via_engine_def via_catalog_def engine_refuse_def

lemma app_require_run: "act_seq (app_require_actions v) m w = (Inr x, w') \<Longrightarrow> cf_actions (pe_cf v) \<and> m w = (Inr x, w')"
  by (auto simp: app_require_actions_def require_deploy_actions_def app_acts split: if_splits)

lemma ensure_access_run:
  "act_seq (ensure_app_access tid project) m w = (Inr x, w') \<Longrightarrow> app_accessible (pa_db w) tid project \<and> m w = (Inr x, w')"
  by (auto simp: ensure_app_access_def app_acts split: if_splits)

definition up_command :: "app_env \<Rightarrow> string \<Rightarrow> string \<Rightarrow> (string \<times> string) list \<Rightarrow> command" where
  "up_command v project text env = \<lparr>cm_argv = pe_bin v # compose_cmd (sanitize_project_name project)
     [''-f'', ''-'', ''up'', ''-d'', ''--remove-orphans''], cm_stdin = Some text, cm_env = env\<rparr>"

lemma deploy_reserved_run:
  assumes "deploy_reserved v tid project text env w = (r, w')"
  shows "pa_cmds w' = pa_cmds w @ [up_command v project text env] \<and>
    pa_db w' = (if isl r then release (pa_db w) (or_empty tid) project else pa_db w)"
  using assms by (auto simp: deploy_reserved_def deploy_stack_def docker_def Let_def app_acts up_command_def
      split: prod.splits sum.splits run_outcome.splits if_splits)

text \<open>An installation stops before its reservation, or reserves and runs one command.\<close>

definition stopped_early :: "app_world \<Rightarrow> app_world \<Rightarrow> 'a result \<Rightarrow> bool" where
  "stopped_early w w' r \<longleftrightarrow> isl r \<and> pa_db w' = pa_db w \<and> pa_cmds w' = pa_cmds w"

lemma install_reserved_run:
  assumes "install_reserved v i now tid project t host text w = (r, w')"
  obtains "stopped_early w w' r"
  | d1 body env al where "check_and_reserve (pa_db w) (or_empty tid) project al (at_name t) = Inr d1"
    and "pa_cmds w' = pa_cmds w @ [up_command v project body env]"
    and "isl r \<and> pa_db w' = release d1 (or_empty tid) project \<or> isl (port_number (at_port t)) \<and> isl r \<or>
      (\<exists>port. r = Inr (project, host) \<and>
         pa_db w' = d1\<lparr>db_deployments := db_deployments d1 @ [install_row i now tid project t host port]\<rparr>)"
proof -
  let ?al = "plan_allocation (pe_cf v) (pa_db w) (or_empty tid)"
  let ?body = "capped_compose v ?al text"
  let ?env = "render_service_vars (pe_random v) ?body host"
  show thesis
  proof (cases "check_and_reserve (pa_db w) (or_empty tid) project ?al (at_name t)")
    case (Inl e)
    with assms have "stopped_early w w' r"
      by (auto simp: install_reserved_def app_acts Let_def stopped_early_def)
    then show thesis by (rule that(1))
  next
    case (Inr d1)
    obtain q w2 where q: "deploy_reserved v tid project ?body ?env (w\<lparr>pa_db := d1\<rparr>) = (q, w2)" by force
    from deploy_reserved_run [OF q] have w2: "pa_cmds w2 = pa_cmds w @ [up_command v project ?body ?env]"
        "pa_db w2 = (if isl q then release d1 (or_empty tid) project else d1)" by simp_all
    show thesis
      using assms q w2 Inr
      by (intro that(2) [OF Inr, of ?body ?env])
        (auto simp: install_reserved_def app_acts Let_def split: sum.splits)
  qed
qed

lemma install_run:
  assumes "install_for_tenant v i now tid slug nm domain w = (r, w')"
  defines "project \<equiv> app_project nm slug"
  defines "host \<equiv> str_or (or_empty domain) (app_domain (pe_cf v) project)"
  obtains "stopped_early w w' r"
  | t d1 body env al where "fst (get_template (pe_catalog v) slug (pa_catalog w)) = Inr (Some t)"
    and "\<not> app_installed (pa_db w) tid project"
    and "check_and_reserve (pa_db w) (or_empty tid) project al (at_name t) = Inr d1"
    and "pa_cmds w' = pa_cmds w @ [up_command v project body env]"
    and "isl r \<and> pa_db w' = release d1 (or_empty tid) project \<or> isl (port_number (at_port t)) \<and> isl r \<or>
      (\<exists>port. r = Inr (project, host) \<and>
         pa_db w' = d1\<lparr>db_deployments := db_deployments d1 @ [install_row i now tid project t host port]\<rparr>)"
proof -
  obtain q w1 where q: "via_catalog (get_template (pe_catalog v) slug) w = (q, w1)" by force
  then have w1: "pa_db w1 = pa_db w" "pa_cmds w1 = pa_cmds w" "fst (get_template (pe_catalog v) slug (pa_catalog w)) = q"
    by (auto simp: via_catalog_def split: prod.splits)
  consider "stopped_early w w' r"
    | t src where "install_reserved v i now tid project t host src w1 = (r, w')" "\<not> app_installed (pa_db w) tid project"
        "q = Inr (Some t)"
    using assms q w1
    by (auto simp: install_for_tenant_def install_template_def app_require_actions_def require_deploy_actions_def
        stopped_early_def act_bind_def act_seq_def act_raise_def act_return_def lift_def engine_refuse_def app_read_def
        split: sum.splits option.splits if_splits)
  then show thesis
  proof cases
    case (2 t src)
    from 2(1) show thesis
    proof (cases rule: install_reserved_run)
      case 1
      with w1 show thesis using that(1) by (simp add: stopped_early_def)
    next
      case (2 d1 body env al)
      with \<open>\<not> app_installed (pa_db w) tid project\<close> \<open>q = Inr (Some t)\<close> w1 show thesis using that(2) by simp
    qed
  qed (rule that(1))
qed

section \<open>Properties\<close>

lemma count_apps_ready_row:
  "\<not> inflight (dp_status p) \<Longrightarrow> count_apps (d\<lparr>db_deployments := db_deployments d @ [p]\<rparr>) tid = count_apps d tid"
  by (simp add: count_apps_def reserved_ids_def app_rows_def inflight_unreserved_def)

text \<open>
  An app is installed only into a free slot: after a successful installation the tenant still uses
  no more apps than its plan allows, the app belongs to it where it did not before, and exactly one
  command was run, which starts the stack of that project.
\<close>

theorem install_stays_within_plan:
  assumes "install_for_tenant v i now tid slug nm domain w = (Inr (project, host), w')"
    and "\<not> is_platform_scope (pa_db w) (or_empty tid)"
  shows "count_apps (pa_db w') (or_empty tid) \<le> resolve_max_apps (pa_db w') (or_empty tid) \<and>
    project = app_project nm slug \<and> \<not> app_installed (pa_db w) tid project \<and> app_installed (pa_db w') tid project \<and>
    (\<exists>body env. pa_cmds w' = pa_cmds w @ [up_command v project body env])"
  using assms(1)
proof (cases rule: install_run)
  case (2 t d1 body env al)
  let ?t = "or_empty tid"
  from 2(3) assms(2) have room: "count_apps (pa_db w) ?t + 1 \<le> resolve_max_apps (pa_db w) ?t"
    and d1: "d1 = (pa_db w)\<lparr>db_resources := db_resources (pa_db w) @ [reservation ?t (app_project nm slug) al (at_name t)]\<rparr>"
    by (auto simp: check_and_reserve_Inr)
  from 2(5) obtain port host' where w': "pa_db w' = d1\<lparr>db_deployments := db_deployments d1 @ [install_row i now tid (app_project nm slug) t host' port]\<rparr>"
      and p: "project = app_project nm slug" by auto
  have "count_apps (pa_db w') ?t = count_apps d1 ?t"
    unfolding w' by (rule count_apps_ready_row) (simp add: install_row_def inflight_def)
  also have "\<dots> \<le> count_apps (pa_db w) ?t + 1" unfolding d1 by (rule count_apps_reserve)
  also have "\<dots> \<le> resolve_max_apps (pa_db w') ?t"
    using room tenant_plan_frame(5) [of "pa_db w'" "pa_db w"] by (simp add: w' d1)
  finally show ?thesis using 2(2,4) by (auto simp: p w' d1 app_installed_def)
qed (simp add: stopped_early_def)

text \<open>
  An installation that fails, at whatever step, leaves the database as it was: the reservation is
  released again. (The template's port must be a number or no number at all.)
\<close>

theorem failed_install_leaves_nothing:
  assumes "install_for_tenant v i now tid slug nm domain w = (Inl e, w')"
    and "\<forall>r\<in>set (db_resources (pa_db w)). \<not> (rs_tenant r = or_empty tid \<and> rs_type r = RESOURCE_TYPE_APP \<and> rs_ext r = app_project nm slug)"
    and "\<forall>t. fst (get_template (pe_catalog v) slug (pa_catalog w)) = Inr (Some t) \<longrightarrow> \<not> isl (port_number (at_port t))"
  shows "pa_db w' = pa_db w"
  using assms(1)
proof (cases rule: install_run)
  case (2 t d1 body env al)
  have "filter (\<lambda>r. \<not> (rs_tenant r = or_empty tid \<and> rs_ext r = app_project nm slug \<and> rs_type r = RESOURCE_TYPE_APP))
      (db_resources (pa_db w)) = db_resources (pa_db w)"
    using assms(2) by (auto intro!: filter_True)
  moreover have "pa_db w' = release d1 (or_empty tid) (app_project nm slug)" using 2(1,5) assms(3) by auto
  ultimately show ?thesis using 2(3) by (auto simp: check_and_reserve_Inr release_def)
qed (simp add: stopped_early_def)

text \<open>
  Two tenants who install the same app, as they do when neither renames it, share one compose
  stack: the second installation is accepted, runs the same project, and when the second tenant
  removes its app the command takes the first tenant's containers down, while the first tenant's
  app is still recorded as installed.
\<close>

theorem second_install_shares_the_stack:
  assumes "install_for_tenant v i1 n1 (Some t1) slug nm dom1 w = (Inr (p1, h1), w1)"
    and "install_for_tenant v i2 n2 (Some t2) slug nm dom2 w1 = (Inr (p2, h2), w2)"
    and "remove_for_tenant v (Some t2) p2 volumes w2 = (Inr r, w3)" and "t1 \<noteq> t2"
  shows "p2 = p1 \<and> cm_argv (last (pa_cmds w3)) = pe_bin v # compose_cmd p1
      ([''down'', ''--remove-orphans''] @ (if volumes then [''--volumes''] else [])) \<and> app_installed (pa_db w3) (Some t1) p1"
proof -
  from assms(1) have one: "p1 = app_project nm slug" "app_installed (pa_db w1) (Some t1) p1"
    by (cases rule: install_run; auto simp: stopped_early_def check_and_reserve_Inr app_installed_def or_empty_def)+
  from assms(2) have two: "p2 = app_project nm slug" "app_installed (pa_db w2) (Some t1) p1"
    using one(2) by (cases rule: install_run; auto simp: stopped_early_def check_and_reserve_Inr app_installed_def)+
  have s: "sanitize_project_name p1 = p1" unfolding one(1) app_project_def by (rule sanitize_idem)
  from assms(3) have m: "act_bind (via_engine (remove_stack (pe_run v) (pe_bin v) p1 volumes))
      (\<lambda>r. act_seq (app_write (\<lambda>d. Inr (forget_app (Some t2) (sanitize_project_name p1) d))) (act_return r)) w2 = (Inr r, w3)"
    unfolding remove_for_tenant_def one(1) two(1) by (blast dest: app_require_run ensure_access_run)
  then have "pa_db w3 = forget_app (Some t2) p1 (pa_db w2)" and
      "pa_cmds w3 = pa_cmds w2 @ [\<lparr>cm_argv = pe_bin v # compose_cmd p1 ([''down'', ''--remove-orphans''] @
         (if volumes then [''--volumes''] else [])), cm_stdin = None, cm_env = []\<rparr>]"
    by (auto simp: app_acts remove_stack_def docker_def Let_def s split: prod.splits sum.splits run_outcome.splits if_splits)
  moreover from two(2) assms(4) have "app_installed (forget_app (Some t2) p1 (pa_db w2)) (Some t1) p1"
    by (auto simp: app_installed_def forget_app_def list_ex_iff or_empty_def)
  ultimately show ?thesis using one(1) two(1) by simp
qed

lemma declares_all: "n \<in> set ns \<or> has_key n d \<Longrightarrow> has_key n (fold (\<lambda>n d. if has_key n d then d else dict_set n y d) ns d)"
proof (induction ns arbitrary: d)
  case (Cons m ns)
  then show ?case by (auto simp: has_key_def map_of_dict_set)
qed simp

text \<open>
  A template that names a volume in one of its services can be started by plain compose: in the
  document that is written out every named volume of every service is declared at the top level,
  and the services are unchanged.
\<close>

theorem named_volumes_are_declared:
  assumes "load text = Some (YMap doc)"
    and "normalize_compose_for_engine load dump str text = Inr out"
    and "service_items doc = Inr svcs" and "(k, svc) \<in> set svcs" and "service_volumes str svc = Inr names" and "n \<in> set names"
  shows "\<exists>doc' d. out = dump (YMap doc') \<and> map_of doc' ''volumes'' = Some (YMap d) \<and> has_key n d \<and>
    service_items doc' = Inr svcs"
proof -
  obtain vs where vs: "map_result (\<lambda>(k, v). service_volumes str v) svcs = Inr vs"
    using assms(1-3) by (auto simp: normalize_compose_for_engine_def rbind_Inr)
  have n: "n \<in> set (concat vs)"
  proof -
    obtain i where i: "i < length svcs" "svcs ! i = (k, svc)" using assms(4) by (auto simp: in_set_conv_nth)
    with vs have l: "i < length vs" and e: "service_volumes str svc = Inr (vs ! i)"
      unfolding map_result_Inr list_all2_conv_all_nth by fastforce+
    from e assms(5,6) have "n \<in> set (vs ! i)" by simp
    with nth_mem [OF l] show ?thesis by auto
  qed
  have ne: "concat vs \<noteq> []"
  proof
    assume "concat vs = []"
    with n show False by (simp only: list.set(1) empty_iff)
  qed
  let ?d = "fold (\<lambda>n d. if has_key n d then d else dict_set n (YMap []) d) (concat vs)
    (case map_of doc ''volumes'' of Some (YMap d) \<Rightarrow> d | _ \<Rightarrow> [])"
  let ?doc = "dict_set ''volumes'' (YMap ?d) doc"
  have out: "out = dump (YMap ?doc)"
    using assms(2) unfolding normalize_compose_for_engine_def assms(1)
    by (simp only: option.case yaml.case assms(3) rbind_simps vs Let_def ne if_False sum.inject)
  have "map_of ?doc ''services'' = map_of doc ''services''" by (simp add: map_of_dict_set)
  then have "service_items ?doc = service_items doc" unfolding service_items_def by simp
  moreover have "has_key n ?d" using n by (intro declares_all disjI1)
  ultimately show ?thesis using out assms(3) by (intro exI [of _ ?doc] exI [of _ ?d]) (simp add: map_of_dict_set)
qed

section \<open>Witnesses\<close>

definition demo_template :: json where
  "demo_template = JObj [(''ghost'', JObj [(''name'', JStr ''Ghost''), (''port'', JStr ''2368''), (''compose'', JStr ''c'')])]"

definition demo_apps :: app_env where
  "demo_apps = \<lparr>pe_cf = demo_cf, pe_bin = ''docker'', pe_run = (\<lambda>_ _. Exited 0 [] []),
     pe_catalog = \<lparr>ct_provider = \<lparr>pd_attempt = (\<lambda>_ _. Answer \<lparr>hr_status = 200, hr_text = ''{}'', hr_retry_after = None\<rparr>),
        pd_parse = (\<lambda>_. Some demo_template), pd_clock = (\<lambda>h. int (length h))\<rparr>, ct_url = ''https://c'', ct_ttl = 60,
        ct_b64 = (\<lambda>_. Some ''SERVICE_FQDN_GHOST_2368'')\<rparr>,
     pe_load = (\<lambda>_. None), pe_dump = (\<lambda>_. []), pe_str = demo_str,
     pe_random = \<lparr>rx_choice = (\<lambda>t _ _. t), rx_urlsafe = (\<lambda>t _. t)\<rparr>, pe_json = (\<lambda>_. None)\<rparr>"

definition demo_app_world :: app_world where
  "demo_app_world = \<lparr>pa_db = empty_db, pa_cmds = [], pa_catalog = \<lparr>pw_sent = [], pw_cache = []\<rparr>\<rparr>"

abbreviation demo_install :: "string \<Rightarrow> app_world \<Rightarrow> (exn + (string \<times> string)) \<times> app_world" where
  "demo_install tid \<equiv> install_for_tenant demo_apps ''d1'' 5 (Some tid) ''ghost'' None None"

lemma demo_install_ok: "fst (demo_install ''t1'' demo_app_world) = Inr (''ghost'', ''ghost.apps.example'')"
  "fst (demo_install ''t2'' (snd (demo_install ''t1'' demo_app_world))) = Inr (''ghost'', ''ghost.apps.example'')"
  "\<not> isl (fst (remove_for_tenant demo_apps (Some ''t2'') ''ghost'' True (snd (demo_install ''t2'' (snd (demo_install ''t1'' demo_app_world))))))"
  by code_simp+

lemma install_stays_within_plan_witness:
  "\<exists>w'. demo_install ''t1'' demo_app_world = (Inr (''ghost'', ''ghost.apps.example''), w') \<and>
     count_apps (pa_db w') ''t1'' \<le> resolve_max_apps (pa_db w') ''t1'' \<and> app_installed (pa_db w') (Some ''t1'') ''ghost''"
proof -
  obtain w' where w': "demo_install ''t1'' demo_app_world = (Inr (''ghost'', ''ghost.apps.example''), w')"
    using demo_install_ok(1) by (cases "demo_install ''t1'' demo_app_world") simp
  have "\<not> is_platform_scope (pa_db demo_app_world) (or_empty (Some ''t1''))" by code_simp
  from install_stays_within_plan [OF w' this] w' show ?thesis by (simp add: or_empty_def)
qed

definition demo_broken :: app_env where
  "demo_broken = demo_apps\<lparr>pe_run := (\<lambda>_ _. Exited 1 [] ''no'')\<rparr>"

lemma failed_install_leaves_nothing_witness:
  "\<exists>e w'. install_for_tenant demo_broken ''d1'' 5 (Some ''t1'') ''ghost'' None None demo_app_world = (Inl e, w') \<and> pa_db w' = empty_db"
proof -
  let ?q = "install_for_tenant demo_broken ''d1'' 5 (Some ''t1'') ''ghost'' None None demo_app_world"
  have "isl (fst ?q)" by code_simp
  then obtain e w' where q: "?q = (Inl e, w')" by (cases ?q) (auto simp: isl_def)
  have g: "fst (get_template (pe_catalog demo_broken) ''ghost'' (pa_catalog demo_app_world)) =
      Inr (Some (hd (catalog_of demo_template)))" by code_simp
  have p: "\<not> isl (port_number (at_port (hd (catalog_of demo_template))))" by code_simp
  have "pa_db w' = pa_db demo_app_world"
    by (rule failed_install_leaves_nothing [OF q]) (use g p in \<open>auto simp: demo_app_world_def empty_db_def\<close>)
  with q show ?thesis by (simp add: demo_app_world_def)
qed

lemma second_install_shares_the_stack_witness:
  "\<exists>w1 w2 r w3. demo_install ''t1'' demo_app_world = (Inr (''ghost'', ''ghost.apps.example''), w1) \<and>
     demo_install ''t2'' w1 = (Inr (''ghost'', ''ghost.apps.example''), w2) \<and>
     remove_for_tenant demo_apps (Some ''t2'') ''ghost'' True w2 = (Inr r, w3) \<and>
     cm_argv (last (pa_cmds w3)) = [''docker'', ''compose'', ''-p'', ''ghost'', ''down'', ''--remove-orphans'', ''--volumes''] \<and>
     app_installed (pa_db w3) (Some ''t1'') ''ghost''"
proof -
  obtain w1 where w1: "demo_install ''t1'' demo_app_world = (Inr (''ghost'', ''ghost.apps.example''), w1)"
    using demo_install_ok(1) by (cases "demo_install ''t1'' demo_app_world") simp
  obtain w2 where w2: "demo_install ''t2'' w1 = (Inr (''ghost'', ''ghost.apps.example''), w2)"
    using demo_install_ok(2) w1 by (cases "demo_install ''t2'' w1") simp
  obtain r w3 where w3: "remove_for_tenant demo_apps (Some ''t2'') ''ghost'' True w2 = (Inr r, w3)"
    using demo_install_ok(3) w1 w2 by (cases "remove_for_tenant demo_apps (Some ''t2'') ''ghost'' True w2") (auto dest!: Inr_of_not_isl)
  have "pe_bin demo_apps = ''docker''" by (simp add: demo_apps_def)
  with second_install_shares_the_stack [OF w1 w2 w3] w1 w2 w3 show ?thesis by (simp add: compose_cmd_def)
qed

definition demo_volume_service :: yaml where
  "demo_volume_service = YMap [(''volumes'', YSeq [YStr ''data:/var/lib'', YStr ''/etc:/etc''])]"

definition demo_volume_doc :: ydict where
  "demo_volume_doc = [(''services'', YMap [(''db'', demo_volume_service)])]"

lemma named_volumes_are_declared_witness:
  "\<exists>doc' d. YMap demo_volume_doc \<noteq> YMap doc' \<and> map_of doc' ''volumes'' = Some (YMap d) \<and> has_key ''data'' d"
proof -
  have l: "(\<lambda>t. Some (YMap demo_volume_doc)) ''in'' = Some (YMap demo_volume_doc)" by simp
  have i: "service_items demo_volume_doc = Inr [(''db'', demo_volume_service)]" by code_simp
  have v: "service_volumes demo_str demo_volume_service = Inr [''data'']" by code_simp
  have "\<not> isl (normalize_compose_for_engine (\<lambda>t. Some (YMap demo_volume_doc)) (\<lambda>_. ''out'') demo_str ''in'')" by code_simp
  then obtain out where out: "normalize_compose_for_engine (\<lambda>t. Some (YMap demo_volume_doc)) (\<lambda>_. ''out'') demo_str ''in'' = Inr out"
    by (auto simp: isl_def) (metis sum.exhaust_sel)
  obtain doc' d where "map_of doc' ''volumes'' = Some (YMap d)" "has_key ''data'' d"
    using named_volumes_are_declared [OF l out i, of "''db''" demo_volume_service "[''data'']" "''data''"] v by auto
  moreover have "map_of demo_volume_doc ''volumes'' = None" by code_simp
  ultimately show ?thesis by (intro exI [of _ doc'] exI [of _ d]) auto
qed

end
