(* ===== verification/Cloud.thy ===== *)
theory Cloud
  imports Billing Resources Provider
begin

text \<open>
  The platform's own cloud accounts: object storage (\<^verbatim>\<open>services/r2.py\<close>,
  \<^verbatim>\<open>modules/reseller/storage_service.py\<close>), servers (\<^verbatim>\<open>services/hetzner.py\<close>) and AI models
  (\<^verbatim>\<open>services/openrouter.py\<close>, the reading half of \<^verbatim>\<open>modules/reseller/ai_service.py\<close>). The HTTP
  answers, the JSON decoder and SHA-256 are parameters.
\<close>

section \<open>State\<close>

record hetzner_server =
  hs_id :: int
  hs_name :: string
  hs_status :: string
  hs_type :: string
  hs_ipv4 :: string
  hs_location :: string
  hs_created :: string

datatype cloud_cached = CachedServers "hetzner_server list" | CachedModels "json list"

type_synonym 'a hact = "(cloud_cached, 'a) pact"

record cloud_world =
  cw_db :: db
  cw_http :: "cloud_cached pworld"

type_synonym 'a cltask = "(cloud_world, 'a) sx"

definition via_cloud :: "'a hact \<Rightarrow> 'a cltask" where
  "via_cloud m w = (case m (cw_http w) of (r, p) \<Rightarrow> (r, w\<lparr>cw_http := p\<rparr>))"

definition cloud_read :: "(db \<Rightarrow> 'a result) \<Rightarrow> 'a cltask" where
  "cloud_read f w = (f (cw_db w), w)"

definition cloud_write :: "(db \<Rightarrow> db) \<Rightarrow> unit cltask" where
  "cloud_write f w = (Inr (), w\<lparr>cw_db := f (cw_db w)\<rparr>)"

definition reseller_refuse :: "string \<Rightarrow> int \<Rightarrow> 'a cltask" where
  "reseller_refuse msg code = act_raise (ResellerError msg code)"

definition sub_dict :: "jdict \<Rightarrow> string \<Rightarrow> jdict result" where
  "sub_dict m k = (if truthy (jget m k) then as_dict (jget m k) else Inr [])"

text \<open>\<open>x.get(k) or ""\<close> for a pydantic text field: another true value is a validation error.\<close>

definition text_value :: "jdict \<Rightarrow> string \<Rightarrow> string result" where
  "text_value m k = (if \<not> truthy (jget m k) then Inr []
     else (case jget m k of JStr s \<Rightarrow> Inr (py_strip s) | _ \<Rightarrow> Inl (OtherError ''ValidationError'')))"

definition text_or_empty :: "jdict \<Rightarrow> string \<Rightarrow> string" where
  "text_or_empty m k = jstr (jor [jget m k, JStr []])"

definition dict_or_empty :: "json \<Rightarrow> jdict" where
  "dict_or_empty v = (case v of JObj m \<Rightarrow> m | _ \<Rightarrow> [])"

section \<open>Object storage\<close>

record r2_config =
  r2_token :: string
  r2_account :: string
  r2_group :: string
  r2_jurisdiction :: string

definition R2_API :: string where "R2_API = ''https://api.cloudflare.com/client/v4''"

definition r2_configured :: "r2_config \<Rightarrow> bool" where
  "r2_configured c = (r2_token c \<noteq> [] \<and> r2_account c \<noteq> [])"

definition can_issue_credentials :: "r2_config \<Rightarrow> bool" where
  "can_issue_credentials c = (r2_configured c \<and> r2_group c \<noteq> [])"

definition s3_endpoint :: "r2_config \<Rightarrow> string" where
  "s3_endpoint c = ''https://'' @ r2_account c @ ''.r2.cloudflarestorage.com''"

definition r2_request :: "r2_config \<Rightarrow> string \<Rightarrow> string \<Rightarrow> json option \<Rightarrow> preq" where
  "r2_request c verb path body =
     \<lparr>pq_service = ''Cloudflare R2'', pq_method = verb, pq_url = R2_API @ ''/accounts/'' @ r2_account c @ path,
      pq_headers = [(''Authorization'', ''Bearer '' @ r2_token c), (''Content-Type'', ''application/json'')],
      pq_params = [], pq_body = body\<rparr>"

definition list_buckets :: "provider \<Rightarrow> r2_config \<Rightarrow> json list hact" where
  "list_buckets p c =
     act_bind (call_json p (r2_request c ''GET'' ''/r2/buckets'' None)) (\<lambda>payload.
       let found = jget (dict_or_empty payload) ''result'';
           buckets = (case found of JObj m \<Rightarrow> jget m ''buckets'' | v \<Rightarrow> v) in
       act_return (case buckets of JList xs \<Rightarrow> xs | _ \<Rightarrow> []))"

definition r2_jurisdiction_of :: "r2_config \<Rightarrow> string" where
  "r2_jurisdiction_of c = str_or (r2_jurisdiction c) ''default''"

definition create_bucket :: "provider \<Rightarrow> r2_config \<Rightarrow> string \<Rightarrow> json hact" where
  "create_bucket p c nm =
     act_bind (call_json p (r2_request c ''POST'' ''/r2/buckets'' (Some (JObj ((''name'', JStr nm) #
         (if r2_jurisdiction_of c \<noteq> ''default'' then [(''jurisdiction'', JStr (r2_jurisdiction_of c))] else []))))))
       (\<lambda>payload. act_return (case payload of JObj m \<Rightarrow> jget_or m ''result'' (JObj []) | _ \<Rightarrow> JObj []))"

definition delete_bucket :: "provider \<Rightarrow> r2_config \<Rightarrow> string \<Rightarrow> unit hact" where
  "delete_bucket p c nm = ignore (call_json p (r2_request c ''DELETE'' (''/r2/buckets/'' @ nm) None))"

definition credential_body :: "r2_config \<Rightarrow> string \<Rightarrow> string \<Rightarrow> json" where
  "credential_body c bucket label =
     JObj [(''name'', JStr label), (''policies'', JList [JObj [(''effect'', JStr ''allow''),
       (''permission_groups'', JList [JObj [(''id'', JStr (r2_group c))]]),
       (''resources'', JObj [(''com.cloudflare.edge.r2.bucket.'' @ r2_account c @ ''_'' @ r2_jurisdiction_of c @ ''_'' @ bucket, JStr ''*'')])]])]"

text \<open>\<open>payload.get("result", {})\<close> may be null, which has no \<open>get\<close>.\<close>

definition create_bucket_credentials ::
  "(string \<Rightarrow> string) \<Rightarrow> provider \<Rightarrow> r2_config \<Rightarrow> string \<Rightarrow> string \<Rightarrow> (string \<times> string) hact" where
  "create_bucket_credentials sha p c bucket label =
     (if r2_group c = [] then act_raise (ProviderAPIError ''Cloudflare R2''
        ''R2 credential issuance is not configured (permission group id missing).'' (Some 400))
      else act_bind (call_json p (r2_request c ''POST'' ''/tokens'' (Some (credential_body c bucket label)))) (\<lambda>payload.
        act_bind (lift (case payload of JObj m \<Rightarrow> as_dict (jget_or m ''result'' (JObj [])) | _ \<Rightarrow> Inr [])) (\<lambda>m.
          let val = text_or_empty m ''value'' in
          act_return (text_or_empty m ''id'', if val \<noteq> [] then sha val else []))))"

definition RESOURCE_TYPE_BUCKET :: string where "RESOURCE_TYPE_BUCKET = ''bucket''"

definition alnum_lower :: "char \<Rightarrow> bool" where
  "alnum_lower c = (let n = ord_of c in 97 \<le> n \<and> n \<le> 122 \<or> 48 \<le> n \<and> n \<le> 57)"

text \<open>\<open>re.sub("[^a-z0-9-]+", "-", s)\<close>\<close>

function bucket_squash :: "string \<Rightarrow> string" where
  "bucket_squash [] = []"
| "bucket_squash (c # cs) =
     (if alnum_lower c \<or> c = CHR ''-'' then c # bucket_squash cs
      else CHR ''-'' # bucket_squash (dropWhile (\<lambda>x. \<not> (alnum_lower x \<or> x = CHR ''-'')) cs))"
  by pat_completeness auto
termination by (relation "measure length") (auto simp: le_imp_less_Suc length_dropWhile_le)

definition sanitize_bucket_name :: "string \<Rightarrow> string \<Rightarrow> string" where
  "sanitize_bucket_name tid nm =
     (let prefix = str_or (take 8 (filter alnum_lower (py_lower (str_or tid ''t'')))) ''t'';
          slug = str_or (take 40 (strip_if (\<lambda>c. c = CHR ''-'') (bucket_squash (py_lower (py_strip nm))))) ''bucket'' in
      take 63 (prefix @ ''-'' @ slug))"

record storage_env =
  se_actions :: bool
  se_r2 :: r2_config
  se_provider :: provider
  se_sha :: "string \<Rightarrow> string"

definition bucket_row :: "string \<Rightarrow> string \<Rightarrow> tenant_resource \<Rightarrow> bool" where
  "bucket_row tid nm r \<longleftrightarrow> rs_tenant r = tid \<and> rs_provider r = PROVIDER_CLOUDFLARE \<and> rs_type r = RESOURCE_TYPE_BUCKET \<and> rs_ext r = nm"

definition list_buckets_for_tenant :: "storage_env \<Rightarrow> db \<Rightarrow> string option \<Rightarrow> (string \<times> string \<times> string) list" where
  "list_buckets_for_tenant v d tid =
     (let endpoint = (if r2_configured (se_r2 v) then s3_endpoint (se_r2 v) else []) in
      map (\<lambda>r. (rs_ext r, str_or (rs_display r) (rs_ext r), endpoint))
        (filter (\<lambda>r. rs_tenant r = or_empty tid \<and> rs_provider r = PROVIDER_CLOUDFLARE \<and> rs_type r = RESOURCE_TYPE_BUCKET)
          (db_resources d)))"

record bucket_created =
  bk_name :: string
  bk_endpoint :: string
  bk_key_id :: string
  bk_secret :: string

definition storage_actions :: "storage_env \<Rightarrow> unit cltask" where
  "storage_actions v = lift (require_actions (se_actions v))"

definition provision_bucket_for_tenant :: "storage_env \<Rightarrow> string option \<Rightarrow> string \<Rightarrow> bucket_created cltask" where
  "provision_bucket_for_tenant v tid nm =
     act_seq (storage_actions v)
       (if \<not> r2_configured (se_r2 v) then reseller_refuse ''Object storage (R2) is not configured on this platform.'' 503
        else if or_empty tid = [] then reseller_refuse ''A tenant context is required.'' 400
        else (let bucket = sanitize_bucket_name (or_empty tid) nm in
          act_bind (cloud_read (\<lambda>d. Inr (list_ex (bucket_row (or_empty tid) bucket) (db_resources d)))) (\<lambda>taken.
            if taken then reseller_refuse (''Bucket '' @ [CHR 0x27] @ bucket @ [CHR 0x27] @ '' already exists.'') 409
            else act_seq (via_cloud (create_bucket (se_provider v) (se_r2 v) bucket))
              (act_seq (cloud_write (\<lambda>d. d\<lparr>db_resources := db_resources d @
                   [plain_resource (or_empty tid) PROVIDER_CLOUDFLARE RESOURCE_TYPE_BUCKET bucket (py_strip nm)]\<rparr>))
                (act_bind (if can_issue_credentials (se_r2 v)
                    then via_cloud (create_bucket_credentials (se_sha v) (se_provider v) (se_r2 v) bucket (''tetra-'' @ bucket))
                    else act_return ([], []))
                  (\<lambda>(key_id, secret). act_return \<lparr>bk_name = bucket, bk_endpoint = s3_endpoint (se_r2 v),
                     bk_key_id = key_id, bk_secret = secret\<rparr>))))))"

definition ensure_bucket_owned :: "string option \<Rightarrow> string \<Rightarrow> unit cltask" where
  "ensure_bucket_owned tid nm =
     cloud_read (\<lambda>d. if is_resource_accessible d tid PROVIDER_CLOUDFLARE RESOURCE_TYPE_BUCKET nm then Inr ()
       else Inl (ResellerError ''Bucket not found.'' 404))"

definition delete_bucket_for_tenant :: "storage_env \<Rightarrow> string option \<Rightarrow> string \<Rightarrow> unit cltask" where
  "delete_bucket_for_tenant v tid nm =
     act_seq (storage_actions v) (act_seq (ensure_bucket_owned tid nm)
       (act_seq (via_cloud (delete_bucket (se_provider v) (se_r2 v) nm))
         (cloud_write (\<lambda>d. case tid of None \<Rightarrow> d
            | Some t \<Rightarrow> d\<lparr>db_resources := remove_first (bucket_row t nm) (db_resources d)\<rparr>))))"

section \<open>Servers\<close>

record hetzner_config =
  hz_token :: string
  hz_ttl :: int

definition HETZNER_API :: string where "HETZNER_API = ''https://api.hetzner.cloud/v1''"

definition nl_join :: "string list \<Rightarrow> string" where
  "nl_join xs = concat (map (\<lambda>x. x @ [CHR 0x0A]) xs)"

definition DEFAULT_CLOUD_INIT :: string where
  "DEFAULT_CLOUD_INIT = nl_join [''#cloud-config'', ''package_update: true'', ''runcmd:'',
     ''  - curl -fsSL https://get.docker.com | sh'', ''  - systemctl enable --now docker'']"

definition mailcow_cloud_init :: "string \<Rightarrow> string \<Rightarrow> string" where
  "mailcow_cloud_init hostname tz = nl_join [''#cloud-config'', ''package_update: true'', ''packages:'', ''  - git'', ''  - curl'',
     ''write_files:'', ''  - path: /opt/tetra-install-mailcow.sh'', ''    permissions: '' @ [CHR 0x27] @ ''0755'' @ [CHR 0x27], ''    content: |'',
     ''      #!/usr/bin/env bash'', ''      set -euo pipefail'', ''      curl -fsSL https://get.docker.com | sh'',
     ''      systemctl enable --now docker'', ''      git clone https://github.com/mailcow/mailcow-dockerized /opt/mailcow-dockerized'',
     ''      cd /opt/mailcow-dockerized'',
     ''      MAILCOW_HOSTNAME='' @ hostname @ '' MAILCOW_TZ='' @ tz @ '' ./generate_config.sh'',
     ''      docker compose pull'', ''      docker compose up -d'', ''runcmd:'', ''  - [ bash, /opt/tetra-install-mailcow.sh ]'']"

definition normalize_hetzner_server :: "jdict \<Rightarrow> hetzner_server result" where
  "normalize_hetzner_server item =
     rbind (sub_dict item ''public_net'') (\<lambda>net. rbind (sub_dict net ''ipv4'') (\<lambda>v4. rbind (text_value v4 ''ip'') (\<lambda>ip.
     rbind (sub_dict item ''server_type'') (\<lambda>ty. rbind (text_value ty ''name'') (\<lambda>ty_name.
     rbind (sub_dict item ''datacenter'') (\<lambda>dc. rbind (sub_dict dc ''location'') (\<lambda>loc. rbind (text_value loc ''name'') (\<lambda>loc_name.
     rbind (jint (jor [jget item ''id'', JInt 0])) (\<lambda>i.
       Inr \<lparr>hs_id = i, hs_name = py_strip (text_or_empty item ''name''), hs_status = py_strip (text_or_empty item ''status''),
         hs_type = ty_name, hs_ipv4 = ip, hs_location = loc_name, hs_created = py_strip (text_or_empty item ''created'')\<rparr>)))))))))"

definition hetzner_request :: "hetzner_config \<Rightarrow> string \<Rightarrow> string \<Rightarrow> (string \<times> string) list \<Rightarrow> json option \<Rightarrow> preq" where
  "hetzner_request c verb path params body =
     \<lparr>pq_service = ''Hetzner'', pq_method = verb, pq_url = HETZNER_API @ path,
      pq_headers = [(''Authorization'', ''Bearer '' @ hz_token c), (''Accept'', ''application/json'')],
      pq_params = params, pq_body = body\<rparr>"

definition SERVERS_KEY :: string where "SERVERS_KEY = ''hetzner:servers''"

text \<open>A cached value of another kind cannot stand under this key.\<close>

definition list_hetzner_servers :: "provider \<Rightarrow> hetzner_config \<Rightarrow> bool \<Rightarrow> hetzner_server list hact" where
  "list_hetzner_servers p c refresh =
     (if hz_token c = [] then act_return []
      else act_seq (act_when refresh (drop_cached [SERVERS_KEY]))
        (act_bind (cached p SERVERS_KEY (hz_ttl c)
           (act_bind (call_json p (hetzner_request c ''GET'' ''/servers'' [(''per_page'', ''50'')] None)) (\<lambda>payload.
             lift (rbind (as_dict payload) (\<lambda>m. rbind (jiter (jget_or m ''servers'' (JList []))) (\<lambda>xs.
               map_sum id CachedServers (map_result (\<lambda>x. rbind (as_dict x) normalize_hetzner_server) xs)))))))
          (\<lambda>v. act_return (case v of CachedServers ss \<Rightarrow> ss | CachedModels _ \<Rightarrow> []))))"

definition get_server :: "provider \<Rightarrow> hetzner_config \<Rightarrow> int \<Rightarrow> hetzner_server option hact" where
  "get_server p c i =
     act_bind (call_json p (hetzner_request c ''GET'' (''/servers/'' @ int_str i) [] None)) (\<lambda>payload.
       lift (rbind (as_dict payload) (\<lambda>m. case jget m ''server'' of
           JObj s \<Rightarrow> map_sum id Some (normalize_hetzner_server s) | _ \<Rightarrow> Inr None)))"

record server_order =
  so_name :: string
  so_type :: string
  so_image :: string
  so_location :: string
  so_user_data :: string
  so_labels :: "(string \<times> string) list"

definition order_body :: "server_order \<Rightarrow> json" where
  "order_body o' = JObj ([(''name'', JStr (so_name o')), (''server_type'', JStr (so_type o')), (''image'', JStr (so_image o'))] @
     (if so_location o' \<noteq> [] then [(''location'', JStr (so_location o'))] else []) @
     (if so_user_data o' \<noteq> [] then [(''user_data'', JStr (so_user_data o'))] else []) @
     (if so_labels o' \<noteq> [] then [(''labels'', JObj (map (\<lambda>(k, x). (k, JStr x)) (so_labels o')))] else []))"

definition create_server :: "provider \<Rightarrow> hetzner_config \<Rightarrow> server_order \<Rightarrow> jdict hact" where
  "create_server p c o' =
     act_bind (call_json p (hetzner_request c ''POST'' ''/servers'' [] (Some (order_body o')))) (\<lambda>payload.
       act_seq (drop_cached [SERVERS_KEY]) (act_return (dict_or_empty payload)))"

definition delete_server :: "provider \<Rightarrow> hetzner_config \<Rightarrow> int \<Rightarrow> jdict hact" where
  "delete_server p c i =
     act_bind (call_json p (hetzner_request c ''DELETE'' (''/servers/'' @ int_str i) [] None)) (\<lambda>payload.
       act_seq (drop_cached [SERVERS_KEY]) (act_return (dict_or_empty payload)))"

definition get_action :: "provider \<Rightarrow> hetzner_config \<Rightarrow> int \<Rightarrow> jdict hact" where
  "get_action p c i =
     act_bind (call_json p (hetzner_request c ''GET'' (''/actions/'' @ int_str i) [] None)) (\<lambda>payload.
       lift (case payload of JObj m \<Rightarrow> as_dict (jget_or m ''action'' (JObj [])) | _ \<Rightarrow> Inr []))"

text \<open>One poll every two seconds: so many polls fit into the time.\<close>

primrec wait_polls :: "provider \<Rightarrow> hetzner_config \<Rightarrow> int \<Rightarrow> nat \<Rightarrow> string hact" where
  "wait_polls p c i 0 = act_return ''running''"
| "wait_polls p c i (Suc n) =
     act_bind (get_action p c i) (\<lambda>a.
       let st = text_or_empty a ''status'' in
       if st = ''success'' \<or> st = ''error'' then act_return st else wait_polls p c i n)"

definition wait_action :: "provider \<Rightarrow> hetzner_config \<Rightarrow> int \<Rightarrow> nat \<Rightarrow> string hact" where
  "wait_action p c i max_seconds = wait_polls p c i ((max_seconds + 1) div 2)"

section \<open>AI models\<close>

record openrouter_config =
  or_provisioning :: string
  or_runtime :: string
  or_ttl :: int

definition OPENROUTER_API :: string where "OPENROUTER_API = ''https://openrouter.ai/api/v1''"

definition openrouter_mode :: "openrouter_config \<Rightarrow> ai_mode" where
  "openrouter_mode c = (if or_provisioning c \<noteq> [] then MODE_KEYS else if or_runtime c \<noteq> [] then MODE_GATEWAY else MODE_DISABLED)"

definition openrouter_request :: "string \<Rightarrow> string \<Rightarrow> string \<Rightarrow> (string \<times> string) list \<Rightarrow> json option \<Rightarrow> preq" where
  "openrouter_request key verb path params body =
     \<lparr>pq_service = ''OpenRouter'', pq_method = verb, pq_url = OPENROUTER_API @ path,
      pq_headers = [(''Authorization'', ''Bearer '' @ key), (''Content-Type'', ''application/json'')],
      pq_params = params, pq_body = body\<rparr>"

definition payload_data :: "json \<Rightarrow> json" where
  "payload_data payload = (case payload of JObj m \<Rightarrow> jget_or m ''data'' (JObj []) | _ \<Rightarrow> JObj [])"

definition get_credits :: "provider \<Rightarrow> openrouter_config \<Rightarrow> json hact" where
  "get_credits p c = act_bind (call_json p (openrouter_request (or_runtime c) ''GET'' ''/credits'' [] None))
     (\<lambda>payload. act_return (payload_data payload))"

text \<open>A completion is asked for once: a retry could bill twice.\<close>

definition call_once :: "provider \<Rightarrow> preq \<Rightarrow> json hact" where
  "call_once p rq w =
     (let h = pw_sent w @ [rq] in
      (snd (request_json (JObj []) (pd_parse p) (pq_service rq) (pd_attempt p h) 1), w\<lparr>pw_sent := h\<rparr>))"

definition chat_completion :: "provider \<Rightarrow> openrouter_config \<Rightarrow> json \<Rightarrow> jdict hact" where
  "chat_completion p c body =
     act_bind (call_once p (openrouter_request (or_runtime c) ''POST'' ''/chat/completions'' [] (Some body)))
       (\<lambda>payload. act_return (dict_or_empty payload))"

definition MODELS_KEY :: string where "MODELS_KEY = ''openrouter:models''"

definition list_models :: "provider \<Rightarrow> openrouter_config \<Rightarrow> bool \<Rightarrow> json list hact" where
  "list_models p c refresh =
     act_seq (act_when refresh (drop_cached [MODELS_KEY]))
       (act_bind (cached p MODELS_KEY (or_ttl c)
          (act_bind (call_json p \<lparr>pq_service = ''OpenRouter'', pq_method = ''GET'', pq_url = OPENROUTER_API @ ''/models'',
               pq_headers = [], pq_params = [], pq_body = None\<rparr>)
             (\<lambda>payload. act_return (CachedModels (case jget (dict_or_empty payload) ''data'' of JList xs \<Rightarrow> xs | _ \<Rightarrow> [])))))
         (\<lambda>v. act_return (case v of CachedModels ms \<Rightarrow> ms | CachedServers _ \<Rightarrow> [])))"

definition create_key :: "provider \<Rightarrow> openrouter_config \<Rightarrow> string \<Rightarrow> json option \<Rightarrow> string \<Rightarrow> jdict hact" where
  "create_key p c nm cap reset =
     act_bind (call_json p (openrouter_request (or_provisioning c) ''POST'' ''/keys'' [] (Some (JObj ((''name'', JStr nm) #
         (case cap of None \<Rightarrow> [] | Some x \<Rightarrow> [(''limit'', x)]) @
         (if reset \<noteq> [] then [(''limitReset'', JStr reset)] else []))))))
       (\<lambda>payload. act_return (dict_or_empty payload))"

definition list_keys :: "provider \<Rightarrow> openrouter_config \<Rightarrow> int \<Rightarrow> json list hact" where
  "list_keys p c offset =
     act_bind (call_json p (openrouter_request (or_provisioning c) ''GET'' ''/keys'' [(''offset'', int_str offset)] None))
       (\<lambda>payload. act_return (case jget (dict_or_empty payload) ''data'' of JList xs \<Rightarrow> xs | _ \<Rightarrow> []))"

definition get_key :: "provider \<Rightarrow> openrouter_config \<Rightarrow> string \<Rightarrow> json hact" where
  "get_key p c h = act_bind (call_json p (openrouter_request (or_provisioning c) ''GET'' (''/keys/'' @ h) [] None))
     (\<lambda>payload. act_return (payload_data payload))"

definition update_key :: "provider \<Rightarrow> openrouter_config \<Rightarrow> string \<Rightarrow> json option \<Rightarrow> bool option \<Rightarrow> json hact" where
  "update_key p c h cap disabled =
     act_bind (call_json p (openrouter_request (or_provisioning c) ''PATCH'' (''/keys/'' @ h) [] (Some (JObj (
         (case cap of None \<Rightarrow> [] | Some x \<Rightarrow> [(''limit'', x)]) @
         (case disabled of None \<Rightarrow> [] | Some b \<Rightarrow> [(''disabled'', JBool b)]))))))
       (\<lambda>payload. act_return (payload_data payload))"

definition delete_key :: "provider \<Rightarrow> openrouter_config \<Rightarrow> string \<Rightarrow> unit hact" where
  "delete_key p c h = ignore (call_json p (openrouter_request (or_provisioning c) ''DELETE'' (''/keys/'' @ h) [] None))"

section \<open>The reseller's reads\<close>

definition platform_credits :: "provider \<Rightarrow> openrouter_config \<Rightarrow> json hact" where
  "platform_credits p c =
     (if openrouter_mode c \<noteq> MODE_GATEWAY then act_return (JObj [])
      else act_catch (get_credits p c) (\<lambda>e. case e of ProviderAPIError _ _ _ \<Rightarrow> act_return (JObj []) | _ \<Rightarrow> act_raise e))"

record model_usage =
  mu_model :: string
  mu_requests :: nat
  mu_billed :: int

record usage_view =
  uv_billed :: int
  uv_cost :: int
  uv_requests :: nat
  uv_models :: "model_usage list"
  uv_events :: "ai_usage_event list"

definition count_model :: "ai_usage_event \<Rightarrow> model_usage list \<Rightarrow> model_usage list" where
  "count_model e ms =
     (let m = str_or (ai_model e) ''unknown'' in
      if list_ex (\<lambda>u. mu_model u = m) ms
      then upd_where (\<lambda>u. mu_model u = m) (\<lambda>u. u\<lparr>mu_requests := mu_requests u + 1, mu_billed := mu_billed u + ai_billed e\<rparr>) ms
      else ms @ [\<lparr>mu_model = m, mu_requests = 1, mu_billed = ai_billed e\<rparr>])"

text \<open>Amounts stay in millionths of a dollar; the sort by billed amount is stable.\<close>

definition usage_for_tenant :: "db \<Rightarrow> int \<Rightarrow> string option \<Rightarrow> int \<Rightarrow> nat \<Rightarrow> usage_view" where
  "usage_for_tenant d now tid days cap =
     (if or_empty tid = [] then \<lparr>uv_billed = 0, uv_cost = 0, uv_requests = 0, uv_models = [], uv_events = []\<rparr>
      else (let rows = sort_key (\<lambda>e. - ai_created e) (filter (\<lambda>e. ai_tenant e = or_empty tid \<and> now - days * 86400 \<le> ai_created e)
              (db_usage_events d)) in
        \<lparr>uv_billed = sum_list (map ai_billed rows), uv_cost = sum_list (map ai_cost rows), uv_requests = length rows,
         uv_models = sort_key (\<lambda>u. - mu_billed u) (fold count_model rows []), uv_events = take cap rows\<rparr>))"

definition owned_hashes :: "db \<Rightarrow> string option \<Rightarrow> string list" where
  "owned_hashes d tid =
     (if or_empty tid = [] then []
      else remdups (filter (\<lambda>h. h \<noteq> []) (map rs_ext (filter (\<lambda>r. rs_tenant r = or_empty tid \<and>
        rs_provider r = PROVIDER_OPENROUTER \<and> rs_type r = RESOURCE_TYPE_AI_KEY) (db_resources d)))))"

fun collect :: "('x \<Rightarrow> ('s, 'a) sx) \<Rightarrow> 'x list \<Rightarrow> ('s, 'a list) sx" where
  "collect f [] = act_return []"
| "collect f (x # xs) = act_bind (f x) (\<lambda>y. act_bind (collect f xs) (\<lambda>ys. act_return (y # ys)))"

text \<open>A key that cannot be read is listed by its hash; the set of hashes has no fixed order.\<close>

definition list_keys_for_tenant :: "provider \<Rightarrow> openrouter_config \<Rightarrow> string option \<Rightarrow> json list cltask" where
  "list_keys_for_tenant p c tid =
     act_bind (cloud_read (\<lambda>d. Inr (owned_hashes d tid))) (\<lambda>hs.
       via_cloud (collect (\<lambda>h. act_catch (get_key p c h)
         (\<lambda>e. case e of ProviderAPIError _ _ _ \<Rightarrow> act_return (JObj [(''hash'', JStr h)]) | _ \<Rightarrow> act_raise e)) hs))"

definition update_key_for_tenant ::
  "provider \<Rightarrow> openrouter_config \<Rightarrow> bool \<Rightarrow> string option \<Rightarrow> string \<Rightarrow> json option \<Rightarrow> bool option \<Rightarrow> json cltask" where
  "update_key_for_tenant p c actions tid h cap disabled =
     act_seq (lift (require_actions actions)) (act_seq (cloud_read (\<lambda>d. ensure_key_owned d tid h))
       (via_cloud (update_key p c h cap disabled)))"

end
