(* ===== verification/Gateway.thy ===== *)
theory Gateway
  imports SelfService
begin

text \<open>
  How a route of \<^verbatim>\<open>api/routes.py\<close> puts a service behind the API guard. The world of a request is
  the API's own state beside the world of the service, which works on the same database. The
  request's session commits when the handler returns and is rolled back when it raises; what was
  sent to a provider, or run, stays done.
\<close>

section \<open>A request and a service\<close>

record 's gate =
  gt_api :: api_world
  gt_svc :: 's

type_synonym ('s, 'a) gtask = "('s gate, 'a) sx"

definition of_api :: "'a atask \<Rightarrow> ('s, 'a) gtask" where
  "of_api m g = (case m (gt_api g) of (r, w) \<Rightarrow> (r, g\<lparr>gt_api := w\<rparr>))"

text \<open>The service works on the database of the request.\<close>

definition of_service :: "('s \<Rightarrow> db) \<Rightarrow> (db \<Rightarrow> 's \<Rightarrow> 's) \<Rightarrow> ('s, 'a) sx \<Rightarrow> ('s, 'a) gtask" where
  "of_service db_of with_db m g =
     (case m (with_db (aw_db (gt_api g)) (gt_svc g)) of
        (r, s) \<Rightarrow> (r, g\<lparr>gt_api := (gt_api g)\<lparr>aw_db := db_of s\<rparr>, gt_svc := s\<rparr>))"

definition gate_scope :: "('s, 'a) gtask \<Rightarrow> ('s, 'a) gtask" where
  "gate_scope m g =
     (case m g of
        (Inl e, g') \<Rightarrow> (Inl e, g'\<lparr>gt_api := (gt_api g')\<lparr>aw_db := aw_db (gt_api g), aw_audit := aw_audit (gt_api g)\<rparr>\<rparr>)
      | (Inr x, g') \<Rightarrow> (Inr x, g'))"

text \<open>\<open>except E as exc: raise HTTPException(status, str(exc))\<close>\<close>

definition http_as :: "(exn \<Rightarrow> (int \<times> string) option) \<Rightarrow> ('s, 'a) sx \<Rightarrow> ('s, 'a) sx" where
  "http_as f m = act_catch m (\<lambda>e. case f e of Some (code, msg) \<Rightarrow> act_raise (HTTPException code msg) | None \<Rightarrow> act_raise e)"

definition provider_as :: "exn \<Rightarrow> (int \<times> string) option" where
  "provider_as e = (case e of ProviderAPIError s m c \<Rightarrow> Some (int_or c 502, m) | _ \<Rightarrow> None)"

definition reseller_as :: "exn \<Rightarrow> (int \<times> string) option" where
  "reseller_as e = (case e of ResellerError m c \<Rightarrow> Some (c, m) | _ \<Rightarrow> provider_as e)"

definition engine_as :: "exn \<Rightarrow> (int \<times> string) option" where
  "engine_as e = (case e of DockerEngineError m c \<Rightarrow> Some (int_or c 502, m) | _ \<Rightarrow> provider_as e)"

definition build_as :: "exn \<Rightarrow> (int \<times> string) option" where
  "build_as e = (case e of BuildError m c \<Rightarrow> Some (int_or c 502, m) | _ \<Rightarrow> engine_as e)"

text \<open>
  What the client is answered: the handlers registered in \<^verbatim>\<open>main.py\<close> turn a full quota into 402
  and a provider failure no route has caught into 502; anything else is a server error.
\<close>

definition answer_status :: "'a result \<Rightarrow> int" where
  "answer_status r = (case r of
       Inr _ \<Rightarrow> 200
     | Inl (HTTPException c _) \<Rightarrow> c
     | Inl (QuotaExceeded _ _ _) \<Rightarrow> 402
     | Inl (ProviderAPIError _ _ _) \<Rightarrow> 502
     | Inl _ \<Rightarrow> 500)"

text \<open>The guard runs first, then the payload is checked, then the handler runs.\<close>

definition gate_check :: "bool \<Rightarrow> ('s, unit) gtask" where
  "gate_check ok = (if ok then act_return () else act_raise (HTTPException 422 ''Request validation failed.''))"

definition gate_route :: "admin_user atask \<Rightarrow> bool \<Rightarrow> (admin_user \<Rightarrow> ('s, 'a) gtask) \<Rightarrow> ('s, 'a) gtask" where
  "gate_route guard ok h = gate_scope (act_bind (of_api guard) (\<lambda>a. act_seq (gate_check ok) (h a)))"

text \<open>What the guards need.\<close>

record gate_env =
  ge_cfg :: api_settings
  ge_unsign :: unsign
  ge_sha :: "string \<Rightarrow> string"

definition gate_admin :: "gate_env \<Rightarrow> api_call \<Rightarrow> string \<Rightarrow> admin_user atask" where
  "gate_admin v call verb = get_current_api_admin (ge_cfg v) (ge_unsign v) (ge_sha v) (call\<lparr>ac_method := verb\<rparr>)"

definition gate_staff :: "gate_env \<Rightarrow> api_call \<Rightarrow> string \<Rightarrow> admin_user atask" where
  "gate_staff v call verb = api_platform_admin (ge_cfg v) (ge_unsign v) (ge_sha v) (call\<lparr>ac_method := verb\<rparr>)"

record action_reply =
  ar_ok :: bool
  ar_message :: string
  ar_deployment :: string

definition acted :: "string \<Rightarrow> action_reply" where
  "acted msg = \<lparr>ar_ok = True, ar_message = msg, ar_deployment = []\<rparr>"

text \<open>\<open>ActionResponse(ok=bool(result.get("ok", True)), message=str(result.get("message", ...)))\<close>\<close>

definition acted_as :: "string \<Rightarrow> jdict \<Rightarrow> action_reply" where
  "acted_as msg m = \<lparr>ar_ok = truthy (jget_or m ''ok'' (JBool True)),
     ar_message = jstr (jget_or m ''message'' (JStr msg)), ar_deployment = []\<rparr>"

definition gives :: "('a \<Rightarrow> 'b) \<Rightarrow> ('s, 'a) sx \<Rightarrow> ('s, 'b) sx" where
  "gives f m = act_bind m (\<lambda>x. act_return (f x))"

section \<open>Runs\<close>

lemma gate_scope_Inr: "gate_scope m g = (Inr x, g') \<Longrightarrow> m g = (Inr x, g')"
  by (auto simp: gate_scope_def split: prod.splits sum.splits)

lemma gate_scope_Inl:
  "gate_scope m g = (Inl e, g') \<Longrightarrow> \<exists>g1. m g = (Inl e, g1) \<and> gt_svc g' = gt_svc g1 \<and>
     aw_db (gt_api g') = aw_db (gt_api g) \<and> aw_audit (gt_api g') = aw_audit (gt_api g)"
  by (auto simp: gate_scope_def split: prod.splits sum.splits)

lemma http_as_run:
  "http_as f m g = (r, g') \<Longrightarrow> \<exists>q. m g = (q, g') \<and> isl q = isl r \<and> (\<not> isl r \<longrightarrow> q = r)"
  by (auto simp: http_as_def act_catch_def act_raise_def split: prod.splits sum.splits option.splits)

lemma of_api_run: "of_api m g = (r, g') \<Longrightarrow> m (gt_api g) = (r, gt_api g') \<and> gt_svc g' = gt_svc g"
  by (auto simp: of_api_def split: prod.splits)

text \<open>
  A route stops at its guard or at its payload, and then has asked nothing of the service; or its
  handler ran for the administrator the guard admitted.
\<close>

lemma gate_route_run:
  assumes "gate_route guard ok h g = (r, g')"
  obtains (refused) "isl r" and "gt_svc g' = gt_svc g" and "aw_db (gt_api g') = aw_db (gt_api g)"
      and "aw_audit (gt_api g') = aw_audit (gt_api g)"
  | (handled) a w1 q g1 where "guard (gt_api g) = (Inr a, w1)" and ok
      and "h a (g\<lparr>gt_api := w1\<rparr>) = (q, g1)" and "gt_svc g' = gt_svc g1" and "q = r"
      and "isl r \<longrightarrow> aw_db (gt_api g') = aw_db (gt_api g) \<and> aw_audit (gt_api g') = aw_audit (gt_api g)"
      and "\<not> isl r \<longrightarrow> g' = g1"
proof -
  obtain q g1 where m: "act_bind (of_api guard) (\<lambda>a. act_seq (gate_check ok) (h a)) g = (q, g1)" by force
  have q: "q = r" "gt_svc g' = gt_svc g1"
      "isl r \<longrightarrow> aw_db (gt_api g') = aw_db (gt_api g) \<and> aw_audit (gt_api g') = aw_audit (gt_api g)"
      "\<not> isl r \<longrightarrow> g' = g1"
    using assms m by (auto simp: gate_route_def gate_scope_def split: prod.splits sum.splits)
  obtain x w1 where x: "guard (gt_api g) = (x, w1)" by force
  show thesis
  proof (cases x)
    case (Inl e)
    with m x have "isl q" "gt_svc g1 = gt_svc g" by (auto simp: act_bind_def of_api_def)
    with q show thesis using refused by simp
  next
    case (Inr a)
    show thesis
    proof (cases ok)
      case True
      with Inr m x have "h a (g\<lparr>gt_api := w1\<rparr>) = (q, g1)"
        by (simp add: act_bind_def act_seq_def of_api_def gate_check_def act_return_def)
      with handled [of a w1 q g1] q x Inr True show thesis by blast
    next
      case False
      with Inr m x have "isl q" "gt_svc g1 = gt_svc g"
        by (auto simp: act_bind_def act_seq_def of_api_def gate_check_def act_raise_def)
      with q show thesis using refused by simp
    qed
  qed
qed

section \<open>Services on the request's database\<close>

text \<open>
  A service keeps the database in its own world. The laws make \<open>of_service\<close> a homomorphism: a
  sequence of service steps is one service step, and nothing of the service is lost in between.
\<close>

locale session_store =
  fixes db_of :: "'s \<Rightarrow> db" and with_db :: "db \<Rightarrow> 's \<Rightarrow> 's"
  assumes stored [simp]: "db_of (with_db d s) = d"
    and restored [simp]: "with_db (db_of s) s = s"
begin

abbreviation service :: "('s, 'a) sx \<Rightarrow> ('s, 'a) gtask" where
  "service \<equiv> of_service db_of with_db"

lemma service_run:
  assumes "service m g = (r, g')"
  shows "m (with_db (aw_db (gt_api g)) (gt_svc g)) = (r, gt_svc g')"
    and "gt_api g' = (gt_api g)\<lparr>aw_db := db_of (gt_svc g')\<rparr>"
  using assms by (auto simp: of_service_def split: prod.splits)

lemma service_bind: "service (act_bind m f) g = act_bind (service m) (\<lambda>x. service (f x)) g"
  by (simp add: of_service_def act_bind_def split: prod.splits sum.splits)

lemma service_seq: "service (act_seq m n) g = act_seq (service m) (service n) g"
  by (simp add: act_seq_def service_bind)

lemma service_catch: "service (act_catch m k) g = act_catch (service m) (\<lambda>e. service (k e)) g"
  by (simp add: of_service_def act_catch_def split: prod.splits sum.splits)

lemma service_http: "service (http_as f m) g = http_as f (service m) g"
  by (simp add: of_service_def http_as_def act_catch_def act_raise_def split: prod.splits sum.splits option.splits)

text \<open>A step that keeps the database in its own world keeps the request's.\<close>

lemma service_reads:
  assumes "service m g = (r, g')" and "keeps (\<lambda>s. db_of s = d) m" and "d = aw_db (gt_api g)"
  shows "gt_api g' = gt_api g"
proof -
  have "db_of (gt_svc g') = d"
    using keepsD [OF assms(2) _ service_run(1) [OF assms(1)]] assms(3) by simp
  with service_run(2) [OF assms(1)] assms(3) show ?thesis by simp
qed

end

end
