(* ===== verification/ProjectRoutes.thy ===== *)
theory ProjectRoutes
  imports Gateway Sites
begin

text \<open>
  The routes of \<^verbatim>\<open>api/routes.py\<close> over Coolify: applications with their settings, volumes,
  deployments, logs and variables, the live log stream of a deployment, and managed databases.
\<close>

section \<open>Applications\<close>

type_synonym 'a pjtask = "(site_world, 'a) gtask"

definition of_site :: "'a stask \<Rightarrow> 'a pjtask" where
  "of_site = of_service sw_db (\<lambda>d s. s\<lparr>sw_db := d\<rparr>)"

definition gated_site :: "'a stask \<Rightarrow> 'a pjtask" where
  "gated_site m = http_as provider_as (of_site m)"

definition own :: "admin_user \<Rightarrow> string option" where
  "own a = Some (ad_tenant a)"

definition api_projects :: "site_service \<Rightarrow> admin_user \<Rightarrow> bool \<Rightarrow> nat \<Rightarrow> nat \<Rightarrow> (nat \<times> coolify_app list) pjtask" where
  "api_projects sv a refresh limit offset =
     act_bind (of_site (list_sites_for_tenant sv (own a) refresh)) (\<lambda>sites. act_return (paginate sites limit offset))"

definition UPDATE_FIELDS :: "string list" where
  "UPDATE_FIELDS = [''name'', ''description'', ''fqdn'', ''build_pack'', ''install_command'', ''build_command'',
     ''start_command'', ''base_directory'', ''publish_directory'', ''ports_exposes'']"

text \<open>The fields that are given and not null.\<close>

definition update_data :: "(string \<Rightarrow> string option) \<Rightarrow> jdict" where
  "update_data f = concat (map (\<lambda>k. case f k of None \<Rightarrow> [] | Some v \<Rightarrow> [(k, JStr v)]) UPDATE_FIELDS)"

definition api_update_project :: "site_service \<Rightarrow> admin_user \<Rightarrow> string \<Rightarrow> (string \<Rightarrow> string option) \<Rightarrow> action_reply pjtask" where
  "api_update_project sv a app f =
     (if update_data f = [] then act_return (acted ''No changes to save.'')
      else act_seq (gated_site (update_site_for_tenant sv (own a) app (update_data f)))
        (act_return (acted ''App settings saved. Redeploy to apply build changes.'')))"

record storage_view =
  sg_id :: string
  sg_name :: string
  sg_mount :: string
  sg_host :: string

definition storage_view_of :: "coolify_storage \<Rightarrow> storage_view" where
  "storage_view_of s = \<lparr>sg_id = coolify_storage.cs_id s, sg_name = coolify_storage.cs_name s, sg_mount = cs_mount s, sg_host = cs_host s\<rparr>"

definition api_list_app_storages :: "site_service \<Rightarrow> admin_user \<Rightarrow> string \<Rightarrow> nat \<Rightarrow> nat \<Rightarrow> (nat \<times> storage_view list) pjtask" where
  "api_list_app_storages sv a app limit offset =
     act_bind (gated_site (list_storages_for_tenant sv (own a) app))
       (\<lambda>items. act_return (paginate (map storage_view_of items) limit offset))"

definition storage_data :: "string \<Rightarrow> string \<Rightarrow> string \<Rightarrow> jdict" where
  "storage_data nm mount host = [(''name'', JStr (py_strip nm)), (''mount_path'', JStr (py_strip mount))] @
     (if py_strip host \<noteq> [] then [(''host_path'', JStr (py_strip host))] else [])"

definition api_create_app_storage :: "site_service \<Rightarrow> admin_user \<Rightarrow> string \<Rightarrow> string \<Rightarrow> string \<Rightarrow> string \<Rightarrow> action_reply pjtask" where
  "api_create_app_storage sv a app nm mount host =
     act_seq (gated_site (create_storage_for_tenant sv (own a) app (storage_data nm mount host)))
       (act_return (acted ''Volume added. Redeploy to mount it.''))"

definition api_delete_app_storage :: "site_service \<Rightarrow> admin_user \<Rightarrow> string \<Rightarrow> string \<Rightarrow> action_reply pjtask" where
  "api_delete_app_storage sv a app storage =
     act_seq (gated_site (delete_storage_for_tenant sv (own a) app storage)) (act_return (acted ''Volume removed.''))"

definition flag_param :: "string option \<Rightarrow> bool" where
  "flag_param q = (q \<in> {Some ''1'', Some ''true'', Some ''yes''})"

definition api_deploy_project :: "site_service \<Rightarrow> admin_user \<Rightarrow> string \<Rightarrow> string option \<Rightarrow> action_reply pjtask" where
  "api_deploy_project sv a app force =
     act_bind (gated_site (deploy_for_tenant sv (own a) app (flag_param force) []))
       (\<lambda>m. act_return ((acted_as ''Deployment queued.'' m)\<lparr>ar_deployment := jstr (jget_or m ''deployment_id'' (JStr []))\<rparr>))"

definition api_start_project :: "site_service \<Rightarrow> admin_user \<Rightarrow> string \<Rightarrow> action_reply pjtask" where
  "api_start_project sv a app = act_bind (gated_site (start_for_tenant sv (own a) app))
     (\<lambda>m. act_return (acted_as ''Application start requested.'' m))"

definition api_restart_project :: "site_service \<Rightarrow> admin_user \<Rightarrow> string \<Rightarrow> action_reply pjtask" where
  "api_restart_project sv a app = act_bind (gated_site (restart_for_tenant sv (own a) app))
     (\<lambda>m. act_return (acted_as ''Application restart requested.'' m))"

definition api_stop_project :: "site_service \<Rightarrow> admin_user \<Rightarrow> string \<Rightarrow> action_reply pjtask" where
  "api_stop_project sv a app = act_bind (gated_site (stop_for_tenant sv (own a) app))
     (\<lambda>m. act_return (acted_as ''Application stop requested.'' m))"

definition api_project_deployments ::
  "site_service \<Rightarrow> admin_user \<Rightarrow> string \<Rightarrow> nat \<Rightarrow> nat \<Rightarrow> (nat \<times> coolify_deployment list) pjtask" where
  "api_project_deployments sv a app limit offset =
     act_bind (gated_site (list_deployments_for_tenant sv (own a) app)) (\<lambda>ds. act_return (paginate ds limit offset))"

text \<open>An answer that does not have its declared type is a server error.\<close>

definition bad_answer :: "'a pjtask" where
  "bad_answer = act_raise (OtherError ''ResponseValidationError'')"

definition api_project_logs :: "site_service \<Rightarrow> admin_user \<Rightarrow> string \<Rightarrow> int \<Rightarrow> string pjtask" where
  "api_project_logs sv a app lines =
     act_bind (gated_site (get_logs_for_tenant sv (own a) app (max 1 (min lines 1000))))
       (\<lambda>v. case v of JStr s \<Rightarrow> act_return s | _ \<Rightarrow> bad_answer)"

definition env_page :: "json \<Rightarrow> nat \<Rightarrow> nat \<Rightarrow> (nat \<times> jdict list) pjtask" where
  "env_page v limit offset =
     (case v of
        JList xs \<Rightarrow> (let page = snd (paginate xs limit offset) in
          if list_all is_dict page then act_return (length xs, dict_items page) else bad_answer)
      | _ \<Rightarrow> act_raise (OtherError ''TypeError''))"

definition api_project_envs :: "site_service \<Rightarrow> admin_user \<Rightarrow> string \<Rightarrow> nat \<Rightarrow> nat \<Rightarrow> (nat \<times> jdict list) pjtask" where
  "api_project_envs sv a app limit offset =
     act_bind (gated_site (get_envs_for_tenant sv (own a) app)) (\<lambda>v. env_page v limit offset)"

definition api_create_env :: "site_service \<Rightarrow> admin_user \<Rightarrow> string \<Rightarrow> string \<Rightarrow> string \<Rightarrow> bool \<Rightarrow> bool \<Rightarrow> action_reply pjtask" where
  "api_create_env sv a app key val is_preview is_build_time =
     act_seq (gated_site (create_env_for_tenant sv (own a) app key val is_preview is_build_time))
       (act_return (acted ''Environment variable saved.''))"

definition api_delete_env :: "site_service \<Rightarrow> admin_user \<Rightarrow> string \<Rightarrow> string \<Rightarrow> action_reply pjtask" where
  "api_delete_env sv a app env_uuid =
     act_seq (gated_site (delete_env_for_tenant sv (own a) app env_uuid)) (act_return (acted ''Environment variable deleted.''))"

record deployment_detail =
  dd_id :: string
  dd_status :: string
  dd_created :: string
  dd_updated :: string
  dd_commit :: string
  dd_branch :: string
  dd_lines :: "log_line_view list"

definition api_deployment_detail :: "site_service \<Rightarrow> admin_user \<Rightarrow> string \<Rightarrow> string \<Rightarrow> deployment_detail pjtask" where
  "api_deployment_detail sv a app deployment =
     act_bind (gated_site (site_deployment_for_tenant sv (own a) app deployment))
       (\<lambda>x. case x of None \<Rightarrow> act_raise (HTTPException 404 ''Deployment not found.'')
          | Some d \<Rightarrow> act_return \<lparr>dd_id = cd_id d, dd_status = cd_status d, dd_created = cd_created d, dd_updated = cd_updated d,
              dd_commit = cd_commit d, dd_branch = cd_branch d,
              dd_lines = parse_deployment_log_lines (pd_parse (ss_provider sv)) (cd_log d)\<rparr>)"

text \<open>The stream checks the access of the tenant before its first event.\<close>

definition api_stream_deployment_logs :: "admin_user \<Rightarrow> string \<Rightarrow> unit pjtask" where
  "api_stream_deployment_logs a app = gated_site (ensure_site_access (own a) app)"

definition api_cancel_deployment :: "site_service \<Rightarrow> admin_user \<Rightarrow> string \<Rightarrow> string \<Rightarrow> action_reply pjtask" where
  "api_cancel_deployment sv a app deployment =
     act_bind (gated_site (cancel_deployment_for_tenant sv (own a) app deployment))
       (\<lambda>m. act_return (acted_as ''Deployment cancelled.'' m))"

section \<open>The stream of a build log\<close>

datatype live_event = SseStatus string | SseLog log_line_view | SseDone string bool | SseError string

definition TERMINAL_STATES :: "string list" where
  "TERMINAL_STATES = [''finished'', ''success'', ''succeeded'', ''failed'', ''error'', ''cancelled'', ''canceled'',
     ''cancelled_by_user'', ''closed'', ''skipped'']"

text \<open>
  The events given out so far stay given out when a poll raises, so the generator returns them
  beside the error. \<open>gone k\<close> says that the client has left before poll \<open>k\<close>, \<open>n\<close> is the number of
  polls that fit into the time that is left: one every one and a half seconds.
\<close>

primrec watch_from ::
  "site_service \<Rightarrow> (nat \<Rightarrow> bool) \<Rightarrow> string \<Rightarrow> nat \<Rightarrow> nat \<Rightarrow> nat \<Rightarrow> string option \<Rightarrow> coolify_cached pworld \<Rightarrow>
    (live_event list \<times> exn option) \<times> coolify_cached pworld" where
  "watch_from sv gone deployment 0 k sent last_status w = (([], None), w)"
| "watch_from sv gone deployment (Suc n) k sent last_status w =
     (if gone k then (([], None), w)
      else (case coolify_get_deployment (ss_provider sv) (ss_client sv) deployment w of
          (Inl e, w1) \<Rightarrow> (([], Some e), w1)
        | (Inr None, w1) \<Rightarrow> (([SseError ''Deployment not found.''], None), w1)
        | (Inr (Some d), w1) \<Rightarrow>
            (let st = (if Some (cd_status d) \<noteq> last_status then [SseStatus (cd_status d)] else []);
                 lines = parse_deployment_log_lines (pd_parse (ss_provider sv)) (cd_log d);
                 out = st @ map SseLog (drop sent lines) in
             if py_lower (cd_status d) \<in> set TERMINAL_STATES then ((out @ [SseDone (cd_status d) False], None), w1)
             else if n = 0 then ((out @ [SseDone (cd_status d) True], None), w1)
             else (case watch_from sv gone deployment n (Suc k) (max sent (length lines)) (Some (cd_status d)) w1 of
                 ((es, x), w2) \<Rightarrow> ((out @ es, x), w2)))))"

definition STREAM_POLLS :: nat where "STREAM_POLLS = 600"

definition stream_deployment_logs where
  "stream_deployment_logs sv gone deployment w = watch_from sv gone deployment STREAM_POLLS 0 0 None w"

section \<open>Databases\<close>

record database_view =
  dv_id :: string
  dv_name :: string
  dv_type :: string
  dv_status :: string
  dv_url :: string
  dv_image :: string

definition database_view_of :: "coolify_database \<Rightarrow> database_view" where
  "database_view_of d = \<lparr>dv_id = co_id d, dv_name = cb_name d, dv_type = cb_type d, dv_status = cb_status d,
     dv_url = cb_url d, dv_image = cb_image d\<rparr>"

definition api_list_databases :: "site_service \<Rightarrow> admin_user \<Rightarrow> bool \<Rightarrow> nat \<Rightarrow> nat \<Rightarrow> (nat \<times> database_view list) pjtask" where
  "api_list_databases sv a refresh limit offset =
     act_bind (of_site (list_databases_for_tenant sv (own a) refresh))
       (\<lambda>ds. act_return (paginate (map database_view_of ds) limit offset))"

definition api_database_targets :: "site_service \<Rightarrow> ((string \<times> string) list \<times> (string \<times> string) list) pjtask" where
  "api_database_targets sv = of_site (list_targets sv)"

definition database_as :: "exn \<Rightarrow> (int \<times> string) option" where
  "database_as e = (case e of ValueError m \<Rightarrow> Some (422, m) | _ \<Rightarrow> provider_as e)"

definition api_provision_database ::
  "site_service \<Rightarrow> admin_user \<Rightarrow> string \<Rightarrow> string \<Rightarrow> string \<Rightarrow> string \<Rightarrow> string \<Rightarrow> action_reply pjtask" where
  "api_provision_database sv a db_type nm server project environment =
     act_bind (http_as database_as (of_site (provision_for_tenant sv (own a) db_type nm server project environment)))
       (\<lambda>m. act_return (acted_as ''Database provisioned.'' m))"

record backup_view =
  bv_id :: string
  bv_frequency :: string
  bv_retention :: int
  bv_s3 :: string

definition backup_view_of :: "json \<Rightarrow> backup_view result" where
  "backup_view_of v = rbind (as_dict v) (\<lambda>m.
     rbind (jint (jor [jget m ''retention_days'', jget m ''retention'', JInt 0])) (\<lambda>n.
       Inr \<lparr>bv_id = jstr (jor [jget m ''uuid'', jget m ''id'', JStr []]), bv_frequency = jstr (jor [jget m ''frequency'', JStr []]),
         bv_retention = n, bv_s3 = jstr (jor [jget m ''s3_storage_id'', JStr []])\<rparr>))"

definition api_list_database_backups :: "site_service \<Rightarrow> admin_user \<Rightarrow> string \<Rightarrow> nat \<Rightarrow> nat \<Rightarrow> (nat \<times> backup_view list) pjtask" where
  "api_list_database_backups sv a uuid limit offset =
     act_bind (gated_site (backups_for_tenant sv (own a) uuid)) (\<lambda>v.
       act_bind (lift (rbind (jiter v) (map_result backup_view_of))) (\<lambda>bs. act_return (paginate bs limit offset)))"

definition backup_config :: "string \<Rightarrow> int \<Rightarrow> string \<Rightarrow> jdict" where
  "backup_config frequency days s3 = [(''frequency'', JStr frequency), (''retention_days'', JInt days)] @
     (if s3 \<noteq> [] then [(''s3_storage_id'', JStr s3)] else [])"

definition api_create_database_backup :: "site_service \<Rightarrow> admin_user \<Rightarrow> string \<Rightarrow> string \<Rightarrow> int \<Rightarrow> string \<Rightarrow> action_reply pjtask" where
  "api_create_database_backup sv a uuid frequency days s3 =
     act_bind (gated_site (create_backup_for_tenant sv (own a) uuid (backup_config frequency days s3)))
       (\<lambda>m. act_return (acted_as ''Backup config created.'' m))"

section \<open>Requests\<close>

datatype project_request =
    ListProjects bool nat nat | UpdateProject string "string \<Rightarrow> string option"
  | ListStorages string nat nat | AddStorage string string string string | DropStorage string string
  | DeployProject string "string option" | StartProject string | RestartProject string | StopProject string
  | ProjectDeployments string nat nat | ProjectLogs string int
  | ProjectEnvs string nat nat | AddEnv string string string bool bool | DropEnv string string
  | ShowDeployment string string | WatchDeployment string string | CancelDeployment string string
  | ListDatabases bool nat nat | DatabaseTargets | ProvisionDatabase string string string string string
  | ListBackups string nat nat | AddBackup string string int string

datatype project_reply =
    PrApps nat "coolify_app list" | PrDone action_reply | PrStorages nat "storage_view list"
  | PrDeployments nat "coolify_deployment list" | PrLogs string | PrEnvs nat "jdict list"
  | PrDeployment deployment_detail | PrStream | PrDatabases nat "database_view list"
  | PrTargets "(string \<times> string) list" "(string \<times> string) list" | PrBackups nat "backup_view list"

fun project_method :: "project_request \<Rightarrow> string" where
  "project_method (UpdateProject _ _) = ''PATCH''"
| "project_method (AddStorage _ _ _ _) = ''POST''"
| "project_method (DropStorage _ _) = ''DELETE''"
| "project_method (DeployProject _ _) = ''POST''"
| "project_method (StartProject _) = ''POST''"
| "project_method (RestartProject _) = ''POST''"
| "project_method (StopProject _) = ''POST''"
| "project_method (AddEnv _ _ _ _ _) = ''POST''"
| "project_method (DropEnv _ _) = ''DELETE''"
| "project_method (CancelDeployment _ _) = ''POST''"
| "project_method (ProvisionDatabase _ _ _ _ _) = ''POST''"
| "project_method (AddBackup _ _ _ _) = ''POST''"
| "project_method _ = ''GET''"

fun project_valid :: "project_request \<Rightarrow> bool" where
  "project_valid (ListProjects _ limit _) = page_ok limit"
| "project_valid (ListStorages _ limit _) = page_ok limit"
| "project_valid (ProjectDeployments _ limit _) = page_ok limit"
| "project_valid (ProjectEnvs _ limit _) = page_ok limit"
| "project_valid (ListDatabases _ limit _) = page_ok limit"
| "project_valid (ListBackups _ limit _) = page_ok limit"
| "project_valid (ProvisionDatabase _ nm _ _ _) = (1 \<le> length nm \<and> length nm \<le> 120)"
| "project_valid _ = True"

fun project_handler :: "site_service \<Rightarrow> admin_user \<Rightarrow> project_request \<Rightarrow> project_reply pjtask" where
  "project_handler sv a (ListProjects r n k) = gives (case_prod PrApps) (api_projects sv a r n k)"
| "project_handler sv a (UpdateProject app f) = gives PrDone (api_update_project sv a app f)"
| "project_handler sv a (ListStorages app n k) = gives (case_prod PrStorages) (api_list_app_storages sv a app n k)"
| "project_handler sv a (AddStorage app nm mount host) = gives PrDone (api_create_app_storage sv a app nm mount host)"
| "project_handler sv a (DropStorage app u) = gives PrDone (api_delete_app_storage sv a app u)"
| "project_handler sv a (DeployProject app force) = gives PrDone (api_deploy_project sv a app force)"
| "project_handler sv a (StartProject app) = gives PrDone (api_start_project sv a app)"
| "project_handler sv a (RestartProject app) = gives PrDone (api_restart_project sv a app)"
| "project_handler sv a (StopProject app) = gives PrDone (api_stop_project sv a app)"
| "project_handler sv a (ProjectDeployments app n k) = gives (case_prod PrDeployments) (api_project_deployments sv a app n k)"
| "project_handler sv a (ProjectLogs app n) = gives PrLogs (api_project_logs sv a app n)"
| "project_handler sv a (ProjectEnvs app n k) = gives (case_prod PrEnvs) (api_project_envs sv a app n k)"
| "project_handler sv a (AddEnv app k v p b) = gives PrDone (api_create_env sv a app k v p b)"
| "project_handler sv a (DropEnv app u) = gives PrDone (api_delete_env sv a app u)"
| "project_handler sv a (ShowDeployment app u) = gives PrDeployment (api_deployment_detail sv a app u)"
| "project_handler sv a (WatchDeployment app u) = gives (\<lambda>_. PrStream) (api_stream_deployment_logs a app)"
| "project_handler sv a (CancelDeployment app u) = gives PrDone (api_cancel_deployment sv a app u)"
| "project_handler sv a (ListDatabases r n k) = gives (case_prod PrDatabases) (api_list_databases sv a r n k)"
| "project_handler sv a DatabaseTargets = gives (case_prod PrTargets) (api_database_targets sv)"
| "project_handler sv a (ProvisionDatabase ty nm s p e) = gives PrDone (api_provision_database sv a ty nm s p e)"
| "project_handler sv a (ListBackups u n k) = gives (case_prod PrBackups) (api_list_database_backups sv a u n k)"
| "project_handler sv a (AddBackup u f d s3) = gives PrDone (api_create_database_backup sv a u f d s3)"

definition project_route :: "gate_env \<Rightarrow> site_service \<Rightarrow> api_call \<Rightarrow> project_request \<Rightarrow> project_reply pjtask" where
  "project_route v sv call rq =
     gate_route (gate_admin v call (project_method rq)) (project_valid rq) (\<lambda>a. project_handler sv a rq)"

end
