(* ===== verification/Client.thy ===== *)
theory Client
  imports Provider
begin

text \<open>
  The command-line client's HTTP layer (\<^verbatim>\<open>tetra_cli/client.py\<close>): every method is the request it
  sends, and \<open>client_answer\<close> is what the client makes of the answer. The JSON decoder of the
  HTTP library is a parameter.
\<close>

section \<open>Requests and answers\<close>

record client_request =
  cq_method :: string
  cq_path :: string
  cq_params :: "(string \<times> string) list"
  cq_body :: "json option"

record client_response =
  cr_status :: int
  cr_text :: string

text \<open>A path written as an f-string: its pieces, each after a slash; nothing is escaped.\<close>

definition path :: "string list \<Rightarrow> string" where
  "path ss = concat (map (\<lambda>s. CHR ''/'' # s) ss)"

definition request_of :: "string \<Rightarrow> string list \<Rightarrow> (string \<times> string) list \<Rightarrow> json option \<Rightarrow> client_request" where
  "request_of verb ss params body = \<lparr>cq_method = verb, cq_path = path ss, cq_params = params, cq_body = body\<rparr>"

abbreviation "get_rq ss \<equiv> request_of ''GET'' ss [] None"
abbreviation "delete_rq ss \<equiv> request_of ''DELETE'' ss [] None"
abbreviation "act_rq ss \<equiv> request_of ''POST'' ss [] None"
abbreviation "post_rq ss m \<equiv> request_of ''POST'' ss [] (Some (JObj m))"
abbreviation "patch_rq ss m \<equiv> request_of ''PATCH'' ss [] (Some (JObj m))"

text \<open>\<open>if x is not None\<close>, and \<open>if x\<close>.\<close>

definition given :: "string \<Rightarrow> ('a \<Rightarrow> json) \<Rightarrow> 'a option \<Rightarrow> jdict" where
  "given k f x = (case x of None \<Rightarrow> [] | Some v \<Rightarrow> [(k, f v)])"

definition text_given :: "string \<Rightarrow> string \<Rightarrow> jdict" where
  "text_given k s = (if s \<noteq> [] then [(k, JStr s)] else [])"

definition param_given :: "string \<Rightarrow> string \<Rightarrow> (string \<times> string) list" where
  "param_given k s = (if s \<noteq> [] then [(k, s)] else [])"

definition bool_text :: "bool \<Rightarrow> string" where
  "bool_text b = (if b then ''true'' else ''false'')"

text \<open>\<open>_request\<close>: 204 is None, an error status raises with the \<open>detail\<close> of a JSON object or the text.\<close>

datatype client_error = TetraError string int

definition client_answer :: "(string \<Rightarrow> json option) \<Rightarrow> client_response \<Rightarrow> client_error + json" where
  "client_answer parse r =
     (if cr_status r = 204 then Inr JNull
      else if 400 \<le> cr_status r then
        Inl (TetraError (jstr (case parse (cr_text r) of
            Some (JObj m) \<Rightarrow> jget_or m ''detail'' (JStr (cr_text r))
          | _ \<Rightarrow> JStr (cr_text r))) (cr_status r))
      else Inr (case parse (cr_text r) of Some v \<Rightarrow> v | None \<Rightarrow> JStr (cr_text r)))"

definition client_url :: "string \<Rightarrow> client_request \<Rightarrow> string" where
  "client_url base rq = rstrip_if (\<lambda>c. c = CHR ''/'') base @ ''/api/v1'' @ cq_path rq"

definition client_headers :: "string \<Rightarrow> (string \<times> string) list" where
  "client_headers token = (''Accept'', ''application/json'') #
     (if token \<noteq> [] then [(''Authorization'', ''Bearer '' @ token)] else [])"

section \<open>Account\<close>

definition cl_login where
  "cl_login email password code = post_rq [''auth'', ''login'']
     ([(''email'', JStr email), (''password'', JStr password)] @ text_given ''code'' (or_empty code))"

text \<open>The token of a sign-in is kept for the next requests.\<close>

definition login_token :: "json \<Rightarrow> string result" where
  "login_token v = (case v of
       JObj m \<Rightarrow> (case map_of m ''token'' of Some t \<Rightarrow> Inr (jstr t) | None \<Rightarrow> Inl (KeyError ''token''))
     | _ \<Rightarrow> Inl (OtherError ''TypeError''))"

definition cl_me where "cl_me = get_rq [''auth'', ''me'']"

definition cl_account_update where
  "cl_account_update full_name email = patch_rq [''account''] [(''full_name'', JStr full_name), (''email'', JStr email)]"

definition cl_account_password where
  "cl_account_password cur new = post_rq [''account'', ''password'']
     [(''current_password'', JStr cur), (''new_password'', JStr new)]"

definition cl_dashboard where "cl_dashboard = get_rq [''dashboard'']"

definition cl_list_tokens where "cl_list_tokens = get_rq [''account'', ''tokens'']"

definition cl_create_token where
  "cl_create_token nm read_only days = post_rq [''account'', ''tokens''] ([(''name'', JStr nm)] @
     (if read_only then [(''read_only'', JBool True)] else []) @
     (case days of None \<Rightarrow> [] | Some n \<Rightarrow> if n = 0 then [] else [(''expires_in_days'', JInt n)]))"

definition cl_revoke_token where "cl_revoke_token i = delete_rq [''account'', ''tokens'', i]"
definition cl_two_factor_status where "cl_two_factor_status = get_rq [''account'', ''2fa'']"
definition cl_two_factor_setup where "cl_two_factor_setup = act_rq [''account'', ''2fa'', ''setup'']"
definition cl_two_factor_enable where "cl_two_factor_enable code = post_rq [''account'', ''2fa'', ''enable''] [(''code'', JStr code)]"
definition cl_two_factor_disable where "cl_two_factor_disable pw = post_rq [''account'', ''2fa'', ''disable''] [(''password'', JStr pw)]"
definition cl_list_notifications where "cl_list_notifications = get_rq [''account'', ''notifications'']"

definition cl_create_notification where
  "cl_create_notification nm url events = post_rq [''account'', ''notifications'']
     [(''name'', JStr nm), (''url'', JStr url), (''events'', JStr events)]"

definition cl_delete_notification where "cl_delete_notification i = delete_rq [''account'', ''notifications'', i]"
definition cl_test_notification where "cl_test_notification i = act_rq [''account'', ''notifications'', i, ''test'']"
definition cl_list_monitors where "cl_list_monitors = get_rq [''account'', ''monitors'']"
definition cl_create_monitor where "cl_create_monitor nm url = post_rq [''account'', ''monitors''] [(''name'', JStr nm), (''url'', JStr url)]"
definition cl_delete_monitor where "cl_delete_monitor i = delete_rq [''account'', ''monitors'', i]"
definition cl_check_monitor where "cl_check_monitor i = act_rq [''account'', ''monitors'', i, ''check'']"

section \<open>Resale, storage, jobs, team, billing\<close>

definition cl_cf_services where "cl_cf_services = get_rq [''cloudflare'', ''services'']"
definition cl_cf_zone_plans where "cl_cf_zone_plans z = get_rq [''cloudflare'', ''zones'', z, ''plans'']"
definition cl_cf_zone_subscription where "cl_cf_zone_subscription z = get_rq [''cloudflare'', ''zones'', z, ''subscription'']"

definition cl_cf_activate_plan where
  "cl_cf_activate_plan z plan frequency = post_rq [''cloudflare'', ''zones'', z, ''subscription'']
     [(''rate_plan_id'', JStr plan), (''frequency'', JStr frequency)]"

definition cl_cf_activate_service where
  "cl_cf_activate_service z key = act_rq [''cloudflare'', ''zones'', z, ''services'', key, ''activate'']"

definition cl_ai_models where "cl_ai_models = get_rq [''ai'', ''models'']"
definition cl_ai_keys where "cl_ai_keys = get_rq [''ai'', ''keys'']"

definition cl_ai_provision where
  "cl_ai_provision label cap reset = post_rq [''ai'', ''keys'']
     ([(''label'', JStr label), (''limit_reset'', JStr reset)] @ given ''limit'' id cap)"

definition cl_ai_update where
  "cl_ai_update h cap disabled = patch_rq [''ai'', ''keys'', h] (given ''limit'' id cap @ given ''disabled'' JBool disabled)"

definition cl_ai_revoke where "cl_ai_revoke h = delete_rq [''ai'', ''keys'', h]"
definition cl_ai_status where "cl_ai_status = get_rq [''ai'', ''status'']"

definition cl_ai_chat where
  "cl_ai_chat model prompt = post_rq [''ai'', ''chat''] [(''model'', JStr model),
     (''messages'', JList [JObj [(''role'', JStr ''user''), (''content'', JStr prompt)]])]"

definition cl_ai_usage where "cl_ai_usage days = request_of ''GET'' [''ai'', ''usage''] [(''days'', int_str days)] None"
definition cl_credits_balance where "cl_credits_balance = get_rq [''billing'', ''credits'']"

definition cl_credits_topup where
  "cl_credits_topup tid amount = post_rq [''billing'', ''credits''] [(''tenant_id'', JStr tid), (''amount_usd'', amount)]"

definition cl_storage_status where "cl_storage_status = get_rq [''storage'', ''status'']"
definition cl_storage_buckets where "cl_storage_buckets = get_rq [''storage'', ''buckets'']"
definition cl_storage_create where "cl_storage_create nm = post_rq [''storage'', ''buckets''] [(''name'', JStr nm)]"
definition cl_storage_delete where "cl_storage_delete nm = delete_rq [''storage'', ''buckets'', nm]"

definition cl_jobs_list where "cl_jobs_list = get_rq [''jobs'']"

definition cl_jobs_create where
  "cl_jobs_create nm cron url verb = post_rq [''jobs'']
     [(''name'', JStr nm), (''cron'', JStr cron), (''url'', JStr url), (''method'', JStr verb)]"

definition cl_jobs_delete where "cl_jobs_delete i = delete_rq [''jobs'', i]"
definition cl_team where "cl_team = get_rq [''team'']"
definition cl_team_invite where "cl_team_invite email role = post_rq [''team'', ''invites''] [(''email'', JStr email), (''role'', JStr role)]"
definition cl_team_revoke where "cl_team_revoke i = delete_rq [''team'', ''invites'', i]"
definition cl_team_role where "cl_team_role i role = post_rq [''team'', ''members'', i, ''role''] [(''role'', JStr role)]"
definition cl_team_remove where "cl_team_remove i = delete_rq [''team'', ''members'', i]"
definition cl_sso_get where "cl_sso_get = get_rq [''sso'']"
definition cl_sso_set where "cl_sso_set m = request_of ''PUT'' [''sso''] [] (Some (JObj m))"
definition cl_sso_delete where "cl_sso_delete = delete_rq [''sso'']"
definition cl_billing_pricing where "cl_billing_pricing = get_rq [''billing'', ''pricing'']"

definition cl_billing_set_price where
  "cl_billing_set_price key provider shape cents unit rule rule_value =
     request_of ''PUT'' [''billing'', ''pricing'', key] [] (Some (JObj [(''provider'', JStr provider),
       (''cost_shape'', JStr shape), (''wholesale_cost_cents'', JInt cents), (''unit'', JStr unit), (''rule'', JStr rule),
       (''rule_value'', rule_value)]))"

definition cl_billing_quote where
  "cl_billing_quote key cents = request_of ''GET'' [''billing'', ''quote'', key]
     (case cents of None \<Rightarrow> [] | Some n \<Rightarrow> [(''wholesale_cents'', int_str n)]) None"

definition cl_billing_charges where "cl_billing_charges = get_rq [''billing'', ''charges'']"

definition cl_audit where
  "cl_audit limit offset action actor = request_of ''GET'' [''audit'']
     ([(''limit'', int_str limit), (''offset'', int_str offset)] @ param_given ''action'' action @ param_given ''actor'' actor) None"

section \<open>Projects and their variables\<close>

definition cl_projects where "cl_projects = get_rq [''projects'']"

definition cl_deploy where
  "cl_deploy app force = request_of ''POST'' [''projects'', app, ''deploy''] (if force then [(''force'', ''1'')] else []) None"

definition cl_update_project where "cl_update_project app m = patch_rq [''projects'', app] (filter (\<lambda>(k, v). v \<noteq> JNull) m)"
definition cl_app_storages where "cl_app_storages app = get_rq [''projects'', app, ''storages'']"

definition cl_app_storage_add where
  "cl_app_storage_add app nm mount host = post_rq [''projects'', app, ''storages'']
     ([(''name'', JStr nm), (''mount_path'', JStr mount)] @ text_given ''host_path'' host)"

definition cl_app_storage_rm where "cl_app_storage_rm app u = delete_rq [''projects'', app, ''storages'', u]"
definition cl_deployments where "cl_deployments app = get_rq [''projects'', app, ''deployments'']"

definition cl_runtime_logs where
  "cl_runtime_logs app n = request_of ''GET'' [''projects'', app, ''logs''] [(''lines'', int_str n)] None"

definition cl_project_analytics where
  "cl_project_analytics app period = request_of ''GET'' [''projects'', app, ''analytics''] [(''period'', period)] None"

definition cl_project_errors where "cl_project_errors app = get_rq [''projects'', app, ''errors'']"
definition cl_explain_error where "cl_explain_error app i = get_rq [''projects'', app, ''errors'', i, ''explain'']"
definition cl_stream_logs where "cl_stream_logs app i = get_rq [''projects'', app, ''deployments'', i, ''logs'', ''stream'']"
definition cl_envs where "cl_envs app = get_rq [''projects'', app, ''envs'']"
definition cl_env_set where "cl_env_set app k v = post_rq [''projects'', app, ''envs''] [(''key'', JStr k), (''value'', JStr v)]"
definition cl_env_rm where "cl_env_rm app u = delete_rq [''projects'', app, ''envs'', u]"

section \<open>DNS\<close>

definition cl_dns where
  "cl_dns zone = request_of ''GET'' [''dns''] (param_given ''zone'' (or_empty zone)) None"

definition dns_body :: "string \<Rightarrow> string \<Rightarrow> string \<Rightarrow> int \<Rightarrow> bool \<Rightarrow> jdict" where
  "dns_body ty nm content ttl proxied = [(''type'', JStr ty), (''name'', JStr nm), (''content'', JStr content),
     (''ttl'', JInt ttl), (''proxied'', JBool proxied)]"

definition cl_dns_add where
  "cl_dns_add z ty nm content ttl proxied = post_rq [''dns'', ''zones'', z, ''records''] (dns_body ty nm content ttl proxied)"

definition cl_dns_update where
  "cl_dns_update z i ty nm content ttl proxied priority = request_of ''PUT'' [''dns'', ''zones'', z, ''records'', i] []
     (Some (JObj (dns_body ty nm content ttl proxied @ given ''priority'' JInt priority)))"

definition cl_dns_rm where "cl_dns_rm z i = delete_rq [''dns'', ''zones'', z, ''records'', i]"
definition cl_zone_settings where "cl_zone_settings z = get_rq [''dns'', ''zones'', z, ''settings'']"
definition cl_zone_set where "cl_zone_set z k v = patch_rq [''dns'', ''zones'', z, ''settings''] [(''setting'', JStr k), (''value'', JStr v)]"
definition cl_zone_dnssec where "cl_zone_dnssec z st = patch_rq [''dns'', ''zones'', z, ''dnssec''] [(''status'', JStr st)]"

definition cl_zone_purge where
  "cl_zone_purge z everything files = post_rq [''dns'', ''zones'', z, ''purge'']
     [(''everything'', JBool everything), (''files'', JList (map JStr files))]"

definition cl_zone_analytics where
  "cl_zone_analytics z days = request_of ''GET'' [''dns'', ''zones'', z, ''analytics''] [(''days'', int_str days)] None"

definition cl_dns_export where "cl_dns_export z = get_rq [''dns'', ''zones'', z, ''export'']"
definition cl_dns_import where "cl_dns_import z bind = post_rq [''dns'', ''zones'', z, ''import''] [(''bind'', JStr bind)]"

section \<open>Apps and deployments of the engine\<close>

definition cl_apps_catalog where
  "cl_apps_catalog search category = request_of ''GET'' [''apps'', ''catalog'']
     (param_given ''search'' (or_empty search) @ param_given ''category'' (or_empty category)) None"

definition cl_apps where "cl_apps = get_rq [''apps'']"

definition cl_apps_install where
  "cl_apps_install slug nm domain = post_rq [''apps'', ''install'']
     ([(''slug'', JStr slug)] @ text_given ''name'' (or_empty nm) @ text_given ''domain'' (or_empty domain))"

definition cl_apps_start where "cl_apps_start p = act_rq [''apps'', p, ''start'']"
definition cl_apps_stop where "cl_apps_stop p = act_rq [''apps'', p, ''stop'']"

definition cl_apps_rm where
  "cl_apps_rm p volumes = request_of ''DELETE'' [''apps'', p] (if volumes then [(''volumes'', ''1'')] else []) None"

definition cl_apps_logs where "cl_apps_logs p = get_rq [''apps'', p, ''logs'']"
definition cl_apps_compute where "cl_apps_compute p = get_rq [''apps'', p, ''compute'']"

definition cl_deploy_git where
  "cl_deploy_git url nm ref port = post_rq [''deploys'', ''git'']
     [(''git_url'', JStr url), (''ref'', JStr ref), (''name'', JStr nm), (''port'', JInt port)]"

definition cl_native_deploys where "cl_native_deploys = get_rq [''deploys'']"
definition cl_explain_deployment where "cl_explain_deployment i = get_rq [''deploys'', i, ''explain'']"
definition cl_deploy_status where "cl_deploy_status i = get_rq [''deploys'', i]"
definition cl_rollback_deploy where "cl_rollback_deploy i = act_rq [''deploys'', i, ''rollback'']"
definition cl_stream_deploy_logs where "cl_stream_deploy_logs i = get_rq [''deploys'', i, ''logs'', ''stream'']"
definition cl_deploy_env where "cl_deploy_env p = get_rq [''deploys'', p, ''env'']"

definition cl_deploy_env_set where
  "cl_deploy_env_set p k v secret build_time = post_rq [''deploys'', p, ''env'']
     [(''key'', JStr k), (''value'', JStr v), (''is_secret'', JBool secret), (''is_build_time'', JBool build_time)]"

definition cl_deploy_env_rm where "cl_deploy_env_rm p k = delete_rq [''deploys'', p, ''env'', k]"

definition cl_create_deploy_hook where
  "cl_create_deploy_hook p url ref port previews = post_rq [''deploy-hooks'']
     [(''project'', JStr p), (''git_url'', JStr url), (''ref'', JStr ref), (''port'', JInt port), (''previews'', JBool previews)]"

definition cl_deploy_hooks where "cl_deploy_hooks = get_rq [''deploy-hooks'']"
definition cl_delete_deploy_hook where "cl_delete_deploy_hook i = delete_rq [''deploy-hooks'', i]"

definition cl_previews where
  "cl_previews p = request_of ''GET'' [''previews''] (param_given ''project'' (or_empty p)) None"

definition cl_delete_preview where "cl_delete_preview i = delete_rq [''previews'', i]"
definition cl_infra_servers where "cl_infra_servers = get_rq [''infra'', ''servers'']"

definition cl_infra_provision where
  "cl_infra_provision nm ty img location role mail_hostname = post_rq [''infra'', ''servers'']
     [(''name'', JStr nm), (''server_type'', JStr ty), (''image'', JStr img), (''location'', JStr location),
      (''role'', JStr role), (''mail_hostname'', JStr mail_hostname)]"

definition cl_infra_destroy where "cl_infra_destroy i = delete_rq [''infra'', ''servers'', int_str i]"

definition cl_domains where
  "cl_domains p = request_of ''GET'' [''domains''] (param_given ''project'' (or_empty p)) None"

definition cl_domain_add where
  "cl_domain_add p hostname = post_rq [''domains''] [(''project'', JStr p), (''hostname'', JStr hostname)]"

definition cl_domain_verify where "cl_domain_verify i = act_rq [''domains'', i, ''verify'']"
definition cl_domain_rm where "cl_domain_rm i = delete_rq [''domains'', i]"

section \<open>Plans, tenants, databases\<close>

definition cl_plans where
  "cl_plans archived = request_of ''GET'' [''plans''] [(''include_archived'', bool_text archived)] None"

definition cl_plan_create where "cl_plan_create m = post_rq [''plans''] m"
text \<open>The fields \<^verbatim>\<open>cmd_plans_create\<close> (\<^verbatim>\<open>tetra_cli/cli.py\<close>) puts together from its options.\<close>

definition plan_fields ::
  "string \<Rightarrow> string \<Rightarrow> int \<Rightarrow> string \<Rightarrow> int \<Rightarrow> int \<Rightarrow> string option \<Rightarrow> int option \<Rightarrow> int option \<Rightarrow> int option \<Rightarrow> int option \<Rightarrow> jdict" where
  "plan_fields key nm price currency apps domains description cpu mem disk sort_order =
     [(''key'', JStr key), (''name'', JStr nm), (''price_cents'', JInt price), (''currency'', JStr currency),
      (''max_apps'', JInt apps), (''max_domains'', JInt domains)] @ given ''description'' JStr description @
     given ''cpu_millicores'' JInt cpu @ given ''mem_mb'' JInt mem @ given ''disk_mb'' JInt disk @
     given ''sort_order'' JInt sort_order"

definition cl_plan_update where "cl_plan_update i m = patch_rq [''plans'', i] m"
definition cl_plan_archive where "cl_plan_archive i = act_rq [''plans'', i, ''archive'']"
definition cl_tenants where "cl_tenants = get_rq [''tenants'']"
definition cl_tenant_action where "cl_tenant_action slug action = act_rq [''tenants'', slug, action]"
definition cl_admin_overview where "cl_admin_overview = get_rq [''admin'', ''overview'']"
definition cl_databases where "cl_databases = get_rq [''databases'']"

definition cl_provision_database where
  "cl_provision_database ty nm server project environment = post_rq [''databases'']
     [(''type'', JStr ty), (''name'', JStr nm), (''server_uuid'', JStr server), (''project_uuid'', JStr project),
      (''environment_name'', JStr environment)]"

definition cl_database_backups where "cl_database_backups u = get_rq [''databases'', u, ''backups'']"

definition cl_create_database_backup where
  "cl_create_database_backup u config = request_of ''POST'' [''databases'', u, ''backups''] []
     (if config = [] then None else Some (JObj config))"

definition cl_usage where "cl_usage = get_rq [''usage'']"

section \<open>Mail\<close>

definition refresh_param :: "bool \<Rightarrow> (string \<times> string) list" where
  "refresh_param r = (if r then [(''refresh'', ''1'')] else [])"

definition cl_mail where "cl_mail r = request_of ''GET'' [''mail''] (refresh_param r) None"

definition cl_create_mail_domain where
  "cl_create_mail_domain domain description quota = post_rq [''mail'', ''domains'']
     [(''domain'', JStr domain), (''description'', JStr description), (''quota_mb'', JInt quota)]"

definition cl_delete_mail_domain where "cl_delete_mail_domain domain = delete_rq [''mail'', ''domains'', domain]"

definition cl_create_mailbox where
  "cl_create_mailbox local_part domain pw nm quota = post_rq [''mail'', ''mailboxes'']
     [(''local_part'', JStr local_part), (''domain'', JStr domain), (''password'', JStr pw), (''name'', JStr nm),
      (''quota_mb'', JInt quota)]"

definition cl_edit_mailbox where
  "cl_edit_mailbox user quota nm active pw = patch_rq [''mail'', ''mailboxes'', user]
     (given ''quota_mb'' JInt quota @ given ''name'' JStr nm @ given ''active'' JBool active @ given ''password'' JStr pw)"

definition cl_delete_mailbox where "cl_delete_mailbox user = delete_rq [''mail'', ''mailboxes'', user]"
definition cl_list_app_passwords where "cl_list_app_passwords user = get_rq [''mail'', ''mailboxes'', user, ''app-passwords'']"

definition cl_create_app_password where
  "cl_create_app_password user nm = post_rq [''mail'', ''mailboxes'', user, ''app-passwords''] [(''app_name'', JStr nm)]"

definition cl_delete_app_password where
  "cl_delete_app_password user i = delete_rq [''mail'', ''mailboxes'', user, ''app-passwords'', i]"

definition cl_mail_quarantine where "cl_mail_quarantine = get_rq [''mail'', ''quarantine'']"

definition cl_quarantine_action where
  "cl_quarantine_action ids action = post_rq [''mail'', ''quarantine'', ''actions'']
     [(''ids'', JList (map JInt ids)), (''action'', JStr action)]"

definition cl_quarantine_delete where
  "cl_quarantine_delete ids = post_rq [''mail'', ''quarantine'', ''delete''] [(''ids'', JList (map JInt ids))]"

definition cl_mail_aliases where "cl_mail_aliases r = request_of ''GET'' [''mail'', ''aliases''] (refresh_param r) None"
definition cl_create_mail_alias where "cl_create_mail_alias address goto = post_rq [''mail'', ''aliases''] [(''address'', JStr address), (''goto'', JStr goto)]"
definition cl_delete_mail_alias where "cl_delete_mail_alias i = delete_rq [''mail'', ''aliases'', i]"
definition cl_mail_dkim where "cl_mail_dkim domain = get_rq [''mail'', ''domains'', domain, ''dkim'']"
definition cl_list_mail_relayhosts where "cl_list_mail_relayhosts = get_rq [''mail'', ''relayhosts'']"

definition cl_create_mail_relayhost where
  "cl_create_mail_relayhost hostname user pw = post_rq [''mail'', ''relayhosts'']
     [(''hostname'', JStr hostname), (''username'', JStr user), (''password'', JStr pw)]"

section \<open>The event stream\<close>

text \<open>
  The client reads a log stream line by line: an \<open>event:\<close> line names the next event, a \<open>data:\<close>
  line gives it; data that is no JSON is kept as text under \<open>raw\<close>.
\<close>

fun read_events :: "(string \<Rightarrow> json option) \<Rightarrow> string \<Rightarrow> string list \<Rightarrow> (string \<times> json) list" where
  "read_events parse event [] = []"
| "read_events parse event (l # ls) =
     (if l = [] then read_events parse event ls
      else if starts_with ''event:'' l then read_events parse (py_strip (drop 6 l)) ls
      else if starts_with ''data:'' l then
        (let payload = py_strip (drop 5 l) in
         (event, case parse payload of Some v \<Rightarrow> v | None \<Rightarrow> JObj [(''raw'', JStr payload)])
           # read_events parse ''message'' ls)
      else read_events parse event ls)"

definition client_events :: "(string \<Rightarrow> json option) \<Rightarrow> string list \<Rightarrow> (string \<times> json) list" where
  "client_events parse ls = read_events parse ''message'' ls"

end
