(* ===== verification/ProjectSafety.thy ===== *)
theory ProjectSafety
  imports ProjectRoutes SiteSafety AdmissionSafety Client
begin

text \<open>
  What the API guarantees around Coolify: a request of a tenant reaches Coolify only for an
  application mapped to the tenant of the administrator the guard admitted, and the live log of a
  deployment arrives whole, at the client as well.
\<close>

section \<open>The guard\<close>

lemma gate_admin_run:
  assumes "gate_admin v call verb w = (Inr a, w1)"
  shows "guard_frame w w1" and "may_act (aw_db w) verb a"
  using api_guard_run [OF assms [unfolded gate_admin_def]] by simp_all

text \<open>The guard changes nothing that the access to a resource depends on.\<close>

lemma guard_frame_access:
  "guard_frame w w1 \<Longrightarrow> is_resource_accessible (aw_db w1) tid prov ty i = is_resource_accessible (aw_db w) tid prov ty i"
  by (auto simp: guard_frame_def is_resource_accessible_def fall_open_def mapped_values_def get_tenant_def)

section \<open>Requests for one application\<close>

interpretation sites: session_store sw_db "\<lambda>d s. s\<lparr>sw_db := d\<rparr>"
  by unfold_locales simp_all

definition coolify_sent :: "site_world gate \<Rightarrow> preq list" where
  "coolify_sent g = pw_sent (sw_coolify (gt_svc g))"

text \<open>
  \<open>asks P tid app m\<close>: the handler leaves the API's state alone and sends only requests with \<open>P\<close>,
  and none at all when the application is not the tenant's.
\<close>

definition asks :: "(preq \<Rightarrow> bool) \<Rightarrow> string option \<Rightarrow> string \<Rightarrow> 'a pjtask \<Rightarrow> bool" where
  "asks P tid app m \<longleftrightarrow> (\<forall>g r g'. m g = (r, g') \<longrightarrow> gt_api g' = gt_api g \<and>
     (\<exists>new. coolify_sent g' = coolify_sent g @ new \<and> list_all P new \<and>
       (site_accessible (aw_db (gt_api g)) tid app \<or> new = [])))"

named_theorems asking \<open>handlers that ask Coolify only about one application\<close>

lemma asks_still:
  assumes "\<And>g. snd (m g) = g"
  shows "asks P tid app m"
  unfolding asks_def
proof (intro allI impI)
  fix g r g' assume "m g = (r, g')"
  with assms [of g] show "gt_api g' = gt_api g \<and> (\<exists>new. coolify_sent g' = coolify_sent g @ new \<and> list_all P new \<and>
      (site_accessible (aw_db (gt_api g)) tid app \<or> new = []))"
    by (auto intro: exI [of _ "[]"])
qed

lemma asks_return [asking]: "asks P tid app (act_return x)" and asks_raise [asking]: "asks P tid app (act_raise e)"
  by (rule asks_still; simp add: act_return_def act_raise_def)+

lemma asks_lift [asking]: "asks P tid app (lift r)"
  by (rule asks_still) (simp add: lift_def)

lemma asks_bind [asking]:
  assumes "asks P tid app m" and "\<And>x. asks P tid app (f x)"
  shows "asks P tid app (act_bind m f)"
  unfolding asks_def
proof (intro allI impI)
  fix g r g' assume run: "act_bind m f g = (r, g')"
  obtain q g1 where m: "m g = (q, g1)" by force
  with assms(1) obtain n1 where 1: "gt_api g1 = gt_api g" "coolify_sent g1 = coolify_sent g @ n1" "list_all P n1"
      "site_accessible (aw_db (gt_api g)) tid app \<or> n1 = []" unfolding asks_def by blast
  show "gt_api g' = gt_api g \<and> (\<exists>new. coolify_sent g' = coolify_sent g @ new \<and> list_all P new \<and>
      (site_accessible (aw_db (gt_api g)) tid app \<or> new = []))"
  proof (cases q)
    case (Inl e)
    with run m 1 show ?thesis by (auto simp: act_bind_def)
  next
    case (Inr x)
    with run m have "f x g1 = (r, g')" by (simp add: act_bind_def)
    with assms(2) obtain n2 where "gt_api g' = gt_api g1" "coolify_sent g' = coolify_sent g1 @ n2" "list_all P n2"
        "site_accessible (aw_db (gt_api g1)) tid app \<or> n2 = []" unfolding asks_def by blast
    with 1 show ?thesis by (auto intro: exI [of _ "n1 @ n2"])
  qed
qed

lemma asks_seq [asking]: "asks P tid app m \<Longrightarrow> asks P tid app n \<Longrightarrow> asks P tid app (act_seq m n)"
  by (simp add: act_seq_def asks_bind)

lemma asks_gives [asking]: "asks P tid app m \<Longrightarrow> asks P tid app (gives f m)"
  by (simp add: gives_def asks_bind asks_return)

lemma asks_if [asking]: "asks P tid app m \<Longrightarrow> asks P tid app n \<Longrightarrow> asks P tid app (if b then m else n)"
  by simp

lemma asks_env_page [asking]: "asks P tid app (env_page v n k)"
  by (rule asks_still) (auto simp: env_page_def bad_answer_def act_return_def act_raise_def Let_def split: json.split)

lemma asks_access: "asks P tid app (gated_site (ensure_site_access tid app))"
  by (auto simp: asks_def gated_site_def of_site_def of_service_def http_as_def act_catch_def ensure_site_access_def
      site_read_def act_raise_def coolify_sent_def split: if_splits option.splits)

text \<open>The operations of the service are those of one application.\<close>

lemma asks_for_site:
  assumes "adds pw_sent P m"
  shows "asks P tid app (gated_site (for_site tid app m))"
  unfolding asks_def
proof (intro allI impI)
  fix g r g' assume "gated_site (for_site tid app m) g = (r, g')"
  from http_as_run [OF this [unfolded gated_site_def of_site_def]]
  obtain q where "sites.service (for_site tid app m) g = (q, g')" by (elim exE conjE)
  note run = sites.service_run [OF this]
  from for_site_effect [OF assms run(1)]
  have eff: "site_effect P (site_accessible (aw_db (gt_api g)) tid app) ((gt_svc g)\<lparr>sw_db := aw_db (gt_api g)\<rparr>) q (gt_svc g')"
    by simp
  have "sw_db (gt_svc g') = aw_db (gt_api g) \<and> (\<exists>new. coolify_sent g' = coolify_sent g @ new \<and> list_all P new \<and>
      (site_accessible (aw_db (gt_api g)) tid app \<or> new = []))"
  proof (cases "site_accessible (aw_db (gt_api g)) tid app")
    case True
    with eff show ?thesis by (auto simp: site_effect_def coolify_sent_def)
  next
    case False
    with eff have "gt_svc g' = (gt_svc g)\<lparr>sw_db := aw_db (gt_api g)\<rparr>" by (simp add: site_effect_def)
    then show ?thesis by (simp add: coolify_sent_def)
  qed
  moreover from this run(2) have "gt_api g' = gt_api g" by simp
  ultimately show "gt_api g' = gt_api g \<and> (\<exists>new. coolify_sent g' = coolify_sent g @ new \<and> list_all P new \<and>
      (site_accessible (aw_db (gt_api g)) tid app \<or> new = []))" by (intro conjI) blast+
qed

fun target_app :: "project_request \<Rightarrow> string option" where
  "target_app (UpdateProject app _) = Some app"
| "target_app (ListStorages app _ _) = Some app"
| "target_app (AddStorage app _ _ _) = Some app"
| "target_app (DropStorage app _) = Some app"
| "target_app (DeployProject app _) = Some app"
| "target_app (StartProject app) = Some app"
| "target_app (RestartProject app) = Some app"
| "target_app (StopProject app) = Some app"
| "target_app (ProjectDeployments app _ _) = Some app"
| "target_app (ProjectLogs app _) = Some app"
| "target_app (ProjectEnvs app _ _) = Some app"
| "target_app (AddEnv app _ _ _ _) = Some app"
| "target_app (DropEnv app _) = Some app"
| "target_app (ShowDeployment app _) = Some app"
| "target_app (WatchDeployment app _) = Some app"
| "target_app (CancelDeployment app _) = Some app"
| "target_app _ = None"

text \<open>What a request may send: requests on its application, or on the deployment it names.\<close>

fun may_ask :: "coolify_config \<Rightarrow> project_request \<Rightarrow> preq \<Rightarrow> bool" where
  "may_ask cc (ShowDeployment app u) rq = op_target cc app (SGetDeployment u) rq"
| "may_ask cc (CancelDeployment app u) rq = op_target cc app (SCancelDeployment u) rq"
| "may_ask cc req rq = (\<exists>app. target_app req = Some app \<and> under_app cc app rq)"

lemmas project_api_defs = api_update_project_def api_list_app_storages_def api_create_app_storage_def
  api_delete_app_storage_def api_deploy_project_def api_start_project_def api_restart_project_def api_stop_project_def
  api_project_deployments_def api_project_logs_def api_project_envs_def api_create_env_def api_delete_env_def
  api_deployment_detail_def api_stream_deployment_logs_def api_cancel_deployment_def

lemma asks_json [asking]: "(\<And>s. asks P tid app (f s)) \<Longrightarrow> asks P tid app n \<Longrightarrow>
    asks P tid app (case v of JStr s \<Rightarrow> f s | _ \<Rightarrow> n)"
  by (simp split: json.split)

lemma asks_option [asking]: "asks P tid app n \<Longrightarrow> (\<And>x. asks P tid app (f x)) \<Longrightarrow>
    asks P tid app (case v of None \<Rightarrow> n | Some x \<Rightarrow> f x)"
  by (simp split: option.split)

lemma may_ask_app: "\<forall>u. rq \<noteq> ShowDeployment app u \<and> rq \<noteq> CancelDeployment app u \<Longrightarrow> target_app rq = Some app \<Longrightarrow>
    may_ask cc rq = under_app cc app"
  by (cases rq) (auto simp: fun_eq_iff)

lemma may_ask_deployment: "may_ask cc (ShowDeployment app u) = op_target cc app (SGetDeployment u)"
    "may_ask cc (CancelDeployment app u) = op_target cc app (SCancelDeployment u)"
  by (simp_all add: fun_eq_iff)

lemma project_handler_asks:
  assumes "target_app rq = Some app"
  shows "asks (may_ask (ss_client sv) rq) (own a) app (project_handler sv a rq)"
  using assms
  by (cases rq) (auto simp: project_api_defs site_op_defs may_ask_app may_ask_deployment bad_answer_def
      intro!: asking asks_for_site asks_access adds)

section \<open>Properties\<close>


section \<open>The live log\<close>

text \<open>The polls of a stream: the world before poll \<open>k\<close> and the log that poll \<open>k\<close> sees.\<close>

fun poll_world :: "site_service \<Rightarrow> string \<Rightarrow> coolify_cached pworld \<Rightarrow> nat \<Rightarrow> coolify_cached pworld" where
  "poll_world sv u w 0 = w"
| "poll_world sv u w (Suc k) = snd (coolify_get_deployment (ss_provider sv) (ss_client sv) u (poll_world sv u w k))"

definition poll_lines :: "site_service \<Rightarrow> string \<Rightarrow> coolify_cached pworld \<Rightarrow> nat \<Rightarrow> log_line_view list" where
  "poll_lines sv u w k =
     (case fst (coolify_get_deployment (ss_provider sv) (ss_client sv) u (poll_world sv u w k)) of
        Inr (Some d) \<Rightarrow> parse_deployment_log_lines (pd_parse (ss_provider sv)) (cd_log d) | _ \<Rightarrow> [])"

definition log_of :: "live_event list \<Rightarrow> log_line_view list" where
  "log_of es = concat (map (\<lambda>e. case e of SseLog l \<Rightarrow> [l] | _ \<Rightarrow> []) es)"

lemma log_of_simps [simp]: "log_of [] = []" "log_of (SseLog l # es) = l # log_of es" "log_of (SseStatus s # es) = log_of es"
    "log_of (SseDone s b # es) = log_of es" "log_of (SseError s # es) = log_of es" "log_of (es @ fs) = log_of es @ log_of fs"
    "log_of (map SseLog ls) = ls"
  by (simp_all add: log_of_def comp_def)

lemma polled:
  "coolify_get_deployment (ss_provider sv) (ss_client sv) u (poll_world sv u w k) = (Inr (Some d), w1) \<Longrightarrow>
    poll_world sv u w (Suc k) = w1 \<and> poll_lines sv u w k = parse_deployment_log_lines (pd_parse (ss_provider sv)) (cd_log d)"
  by (simp add: poll_lines_def)

definition log_grows :: "site_service \<Rightarrow> string \<Rightarrow> coolify_cached pworld \<Rightarrow> bool" where
  "log_grows sv u w \<longleftrightarrow> (\<forall>k. \<exists>more. poll_lines sv u w (Suc k) = poll_lines sv u w k @ more)"

lemma watch_whole:
  assumes "watch_from sv gone u n k sent last_status (poll_world sv u w k) = ((es, x), w')"
    and "log_grows sv u w" and "sent \<le> length (poll_lines sv u w k)" and "SseDone s b \<in> set es"
  shows "\<exists>m. k \<le> m \<and> m < k + n \<and> log_of es = drop sent (poll_lines sv u w m)"
  using assms
proof (induction n arbitrary: k sent last_status es x w')
  case (Suc n)
  obtain q w1 where q: "coolify_get_deployment (ss_provider sv) (ss_client sv) u (poll_world sv u w k) = (q, w1)" by force
  show ?case
  proof (cases "gone k \<or> isl q \<or> q = Inr None")
    case True
    with Suc.prems(1,4) q show ?thesis by (cases q; cases "gone k") auto
  next
    case False
    then obtain d where d: "q = Inr (Some d)" by (cases q) auto
    note p = polled [OF q [unfolded d]]
    let ?st = "if Some (cd_status d) \<noteq> last_status then [SseStatus (cd_status d)] else []"
    let ?out = "?st @ map SseLog (drop sent (poll_lines sv u w k))"
    have out: "log_of ?out = drop sent (poll_lines sv u w k)" by simp
    show ?thesis
    proof (cases "py_lower (cd_status d) \<in> set TERMINAL_STATES \<or> n = 0")
      case True
      with Suc.prems(1) q d False p have "\<exists>c. es = ?out @ [SseDone (cd_status d) c]" by (auto simp: Let_def split: if_splits)
      with out show ?thesis by (intro exI [of _ k]) auto
    next
      case False': False
      let ?sent = "max sent (length (poll_lines sv u w k))"
      obtain es1 x1 where r: "watch_from sv gone u n (Suc k) ?sent (Some (cd_status d)) w1 = ((es1, x1), w')"
          and es: "es = ?out @ es1"
        using Suc.prems(1) q d False False' p by (auto simp: Let_def split: prod.splits)
      have s: "?sent = length (poll_lines sv u w k)" using Suc.prems(3) by simp
      obtain ls where ls: "poll_lines sv u w (Suc k) = poll_lines sv u w k @ ls"
        using Suc.prems(2) unfolding log_grows_def by blast
      have "SseDone s b \<in> set es1" using Suc.prems(4) es by (auto split: if_splits)
      have "?sent \<le> length (poll_lines sv u w (Suc k))" using ls s by simp
      from Suc.IH [OF r [folded p [THEN conjunct1]] Suc.prems(2) this \<open>SseDone s b \<in> set es1\<close>] s
      obtain m where m: "Suc k \<le> m" "m < Suc k + n" "log_of es1 = drop (length (poll_lines sv u w k)) (poll_lines sv u w m)"
        by auto
      have "\<exists>zs. poll_lines sv u w m = poll_lines sv u w k @ zs"
        using m(1)
      proof (induction m rule: dec_induct)
        case base
        show ?case using ls by blast
      next
        case (step m)
        with Suc.prems(2) show ?case unfolding log_grows_def by (metis append_assoc)
      qed
      then obtain zs where "poll_lines sv u w m = poll_lines sv u w k @ zs" ..
      with m es out Suc.prems(3) have "log_of es = drop sent (poll_lines sv u w m)" by simp
      with m show ?thesis by (intro exI [of _ m]) auto
    qed
  qed
qed simp

lemma get_deployment_sends: "length (pw_sent (snd (coolify_get_deployment p cc u w))) \<le> Suc (length (pw_sent w))"
  by (auto simp: coolify_get_deployment_def or_else_def act_catch_def act_bind_def act_return_def act_raise_def
      cget_def call_json_def lift_def Let_def split: sum.splits prod.splits)

lemma watch_sends:
  "length (pw_sent (snd (watch_from sv gone u n k sent last_status w))) \<le> length (pw_sent w) + n"
proof (induction n arbitrary: k sent last_status w)
  case (Suc n)
  obtain q w1 where q: "coolify_get_deployment (ss_provider sv) (ss_client sv) u w = (q, w1)" by force
  with get_deployment_sends [of "ss_provider sv" "ss_client sv" u w] have "length (pw_sent w1) \<le> Suc (length (pw_sent w))" by simp
  with q Suc show ?case
    by (auto simp: Let_def split: sum.splits option.splits prod.splits) (metis le_trans add_Suc add_Suc_right Suc_leI snd_conv add_le_mono1)+
qed simp


text \<open>
  One poll that Coolify does not answer well ends the stream with \<open>Deployment not found.\<close>, although
  the deployment exists and the build goes on.
\<close>

theorem failed_poll_ends_the_stream:
  assumes "coolify_configured (ss_client sv)" and "\<not> gone k"
    and "pd_answer (ss_provider sv) (pw_sent w @ [coolify_rq (ss_client sv) ''GET'' (''deployments/'' @ u) [] None]) = Inl e"
  shows "fst (watch_from sv gone u (Suc n) k sent last_status w) = ([SseError ''Deployment not found.''], None)"
  using assms
  by (simp add: coolify_get_deployment_def or_else_def act_catch_def act_bind_def act_return_def cget_def call_json_def Let_def)

section \<open>From the server to the client\<close>

text \<open>\<open>_sse_event\<close>: two lines and an empty one; \<open>enc\<close> is the JSON encoder.\<close>

definition sse_fields :: "live_event \<Rightarrow> string \<times> json" where
  "sse_fields e = (case e of
       SseStatus s \<Rightarrow> (''status'', JObj [(''status'', JStr s)])
     | SseLog l \<Rightarrow> (''log'', JObj [(''output'', JStr (ll_output l)), (''type'', JStr (ll_type l)), (''timestamp'', JStr (ll_timestamp l))])
     | SseDone s late \<Rightarrow> (''done'', JObj ((''status'', JStr s) # (if late then [(''timeout'', JBool True)] else [])))
     | SseError m \<Rightarrow> (''error'', JObj [(''message'', JStr m)]))"

definition sse_text :: "(json \<Rightarrow> string) \<Rightarrow> live_event \<Rightarrow> string" where
  "sse_text enc e = ''event: '' @ fst (sse_fields e) @ [CHR 0x0A] @ ''data: '' @ enc (snd (sse_fields e)) @ [CHR 0x0A, CHR 0x0A]"

text \<open>The encoder writes one line without white space at its ends, and the client's decoder reads it back.\<close>

definition plain_encoder :: "(json \<Rightarrow> string) \<Rightarrow> (string \<Rightarrow> json option) \<Rightarrow> json \<Rightarrow> bool" where
  "plain_encoder enc parse v \<longleftrightarrow> \<not> list_ex line_break (enc v) \<and> py_strip (enc v) = enc v \<and> parse (enc v) = Some v"

lemma splitlines_line:
  "\<not> list_ex line_break s \<Longrightarrow> splitlines_acc acc (s @ CHR 0x0A # t) = (rev acc @ s) # splitlines_acc [] t"
proof (induction s arbitrary: acc)
  case Nil
  have "line_break (CHR 0x0A)" "ord_of (CHR 0x0A) = 10" by code_simp+
  then show ?case by (cases t) auto
qed auto

lemma event_line: "\<not> list_ex line_break (''event: '' @ fst (sse_fields e))"
    "starts_with ''event:'' (''event: '' @ fst (sse_fields e))"
    "py_strip (drop 6 (''event: '' @ fst (sse_fields e))) = fst (sse_fields e)"
  by (cases e; simp add: sse_fields_def; code_simp)+

lemma prefix_lines: "starts_with ''event:'' (CHR ''d'' # CHR ''a'' # CHR ''t'' # CHR ''a'' # CHR '':'' # CHR '' '' # s) = False" "starts_with ''data:'' (CHR ''d'' # CHR ''a'' # CHR ''t'' # CHR ''a'' # CHR '':'' # CHR '' '' # s) = True"
    "starts_with ''event:'' (CHR ''e'' # CHR ''v'' # CHR ''e'' # CHR ''n'' # CHR ''t'' # CHR '':'' # CHR '' '' # s) = True"
  by (simp_all add: starts_with_def)

text \<open>
  What the server streams is what the client yields: read line by line, the text of a sequence of
  events gives the same events in the same order.
\<close>

theorem events_reach_the_client:
  assumes "\<forall>e\<in>set es. plain_encoder enc parse (snd (sse_fields e))"
  shows "client_events parse (py_splitlines (concat (map (sse_text enc) es))) = map sse_fields es"
proof -
  have "py_space (CHR '' '')" by code_simp
  then have strip: "py_strip (CHR '' '' # s) = py_strip s" for s by (simp add: py_strip_def strip_if_def lstrip_if_def)
  show ?thesis
    using assms
    unfolding client_events_def py_splitlines_def
  proof (induction es)
    case (Cons e es)
    let ?v = "snd (sse_fields e)"
    have enc: "plain_encoder enc parse ?v" using Cons.prems by simp
    have "\<not> list_ex line_break ''data: ''" by code_simp
    with enc have d: "\<not> list_ex line_break (''data: '' @ enc ?v)"
      unfolding list_ex_append plain_encoder_def by blast
    have "splitlines_acc [] (concat (map (sse_text enc) (e # es))) =
        (''event: '' @ fst (sse_fields e)) # (''data: '' @ enc ?v) # [] # splitlines_acc [] (concat (map (sse_text enc) es))"
      using splitlines_line [OF event_line(1) [of e], of "[]"] splitlines_line [OF d, of "[]"] splitlines_line [of "[]" "[]"]
      by (simp add: sse_text_def)
    then show ?case
      using Cons event_line(2,3) [of e] enc
      by (simp add: prefix_lines Let_def plain_encoder_def strip)
  qed simp
qed

section \<open>Witnesses\<close>

definition demo_gate :: "site_world gate" where
  "demo_gate = \<lparr>gt_api = demo_api\<lparr>aw_db := demo_accounts\<lparr>db_resources :=
     map (\<lambda>r. r\<lparr>rs_tenant := ''hq''\<rparr>) (db_resources demo_site_db)\<rparr>\<rparr>, gt_svc = demo_site_world\<rparr>"

definition demo_gate_env :: gate_env where
  "demo_gate_env = \<lparr>ge_cfg = demo_cfg, ge_unsign = demo_unsign, ge_sha = id\<rparr>"


definition demo_fields :: jdict where
  "demo_fields = [(''uuid'', JStr ''d''), (''status'', JStr ''finished''), (''logs'', JStr ''one'')]"

definition demo_build :: json where "demo_build = JObj demo_fields"

lemma demo_build_answer: "pd_answer (ss_provider (demo_site demo_build)) h = Inr demo_build"
proof -
  have "\<not> retryable 200" by code_simp
  then show ?thesis
    by (simp add: demo_site_def pd_answer_def request_json_def send_with_retries_def send_from.simps final_outcome_def is_error_def)
qed

lemma demo_build_polled: "poll_lines (demo_site demo_build) u w k =
    parse_deployment_log_lines (\<lambda>_. Some demo_build) (cd_log (normalize_coolify_deployment demo_fields))"
proof -
  have c: "coolify_configured (ss_client (demo_site demo_build))" by code_simp
  have p: "pd_parse (ss_provider (demo_site demo_build)) = (\<lambda>_. Some demo_build)" by (simp add: demo_site_def)
  show ?thesis
    unfolding poll_lines_def p
    by (simp add: coolify_get_deployment_def c p or_else_def act_catch_def act_bind_def act_return_def cget_def
        call_json_def Let_def demo_build_answer demo_build_def [symmetric]) (simp add: demo_build_def)
qed


lemma failed_poll_ends_the_stream_witness:
  "\<exists>sv. coolify_configured (ss_client sv) \<and>
     fst (watch_from sv (\<lambda>_. False) ''d'' 600 0 0 None (sw_coolify demo_site_world)) = ([SseError ''Deployment not found.''], None)"
proof (intro exI conjI)
  let ?sv = "(demo_site JNull)\<lparr>ss_provider := (ss_provider (demo_site JNull))\<lparr>pd_attempt :=
      (\<lambda>_ _. Answer \<lparr>hr_status = 404, hr_text = ''no'', hr_retry_after = None\<rparr>)\<rparr>\<rparr>"
  show c: "coolify_configured (ss_client ?sv)" by code_simp
  have "isl (pd_answer (ss_provider ?sv) [coolify_rq (ss_client ?sv) ''GET'' (''deployments/'' @ ''d'') [] None])" by code_simp
  then obtain e where "pd_answer (ss_provider ?sv) [coolify_rq (ss_client ?sv) ''GET'' (''deployments/'' @ ''d'') [] None] = Inl e"
    by (auto simp: isl_def)
  with failed_poll_ends_the_stream [OF c, of "\<lambda>_. False" 0 "sw_coolify demo_site_world" "''d''" e 599 0 None]
  show "fst (watch_from ?sv (\<lambda>_. False) ''d'' 600 0 0 None (sw_coolify demo_site_world)) = ([SseError ''Deployment not found.''], None)"
    by (simp add: demo_site_world_def numeral_eq_Suc)
qed

text \<open>Two events with the same data.\<close>

lemma events_reach_the_client_witness:
  "client_events (\<lambda>_. Some (JObj [(''status'', JStr ''ok'')]))
     (py_splitlines (concat (map (sse_text (\<lambda>_. ''ok'')) [SseStatus ''ok'', SseDone ''ok'' False]))) =
   [(''status'', JObj [(''status'', JStr ''ok'')]), (''done'', JObj [(''status'', JStr ''ok'')])]"
proof -
  have "\<not> list_ex line_break ''ok''" "py_strip ''ok'' = ''ok''" by code_simp+
  then have "\<forall>e\<in>set [SseStatus ''ok'', SseDone ''ok'' False]. plain_encoder (\<lambda>_. ''ok'')
      (\<lambda>_. Some (JObj [(''status'', JStr ''ok'')])) (snd (sse_fields e))"
    by (simp add: plain_encoder_def sse_fields_def)
  from events_reach_the_client [OF this] show ?thesis by (simp add: sse_fields_def)
qed

end
