(* ===== verification/Router.thy ===== *)
theory Router
  imports Provider
begin

text \<open>
  The routes of \<^verbatim>\<open>api/routes.py\<close>: for every handler its method, its path below \<^verbatim>\<open>/api/v1\<close> and the
  fields its payload model (\<^verbatim>\<open>api/contracts.py\<close>) requires. A request goes to the first route that
  fits, and a path parameter stands for one piece between slashes, as the web framework documents.
  The first piece of every path is fixed, so the routes stand under it, in the order of the code.
\<close>

datatype segment = Lit string | Par

record route =
  rt_method :: string
  rt_path :: "segment list"
  rt_name :: string
  rt_fields :: "string list option"

text \<open>A route without a payload has no fields; \<open>rt_path\<close> is the path behind its first piece.\<close>

definition route_of :: "string \<Rightarrow> segment list \<Rightarrow> string \<Rightarrow> string list option \<Rightarrow> route" where
  "route_of verb ps nm req = \<lparr>rt_method = verb, rt_path = ps, rt_name = nm, rt_fields = req\<rparr>"

definition status_routes :: "route list" where
  "status_routes = [
     route_of ''GET'' [] ''api_status'' None]"

definition auth_routes :: "route list" where
  "auth_routes = [
     route_of ''POST'' [Lit ''login''] ''api_login'' (Some []),
     route_of ''POST'' [Lit ''signup''] ''api_signup'' (Some [''email'', ''password'', ''org_name'']),
     route_of ''GET'' [Lit ''me''] ''api_me'' None,
     route_of ''GET'' [Lit ''invite''] ''api_preview_invite'' None,
     route_of ''POST'' [Lit ''accept-invite''] ''api_accept_invite'' (Some [''token'', ''full_name'', ''password'']),
     route_of ''GET'' [Lit ''sso'', Par, Lit ''authorize''] ''api_sso_authorize'' None,
     route_of ''POST'' [Lit ''sso'', Lit ''callback''] ''api_sso_callback'' (Some [''code'', ''state'', ''redirect_uri''])]"

definition account_routes :: "route list" where
  "account_routes = [
     route_of ''PATCH'' [] ''api_account_update'' (Some [''full_name'', ''email'']),
     route_of ''POST'' [Lit ''password''] ''api_account_password'' (Some [''current_password'', ''new_password'']),
     route_of ''GET'' [Lit ''tokens''] ''api_list_tokens'' None,
     route_of ''POST'' [Lit ''tokens''] ''api_create_token'' (Some [''name'']),
     route_of ''DELETE'' [Lit ''tokens'', Par] ''api_revoke_token'' None,
     route_of ''GET'' [Lit ''2fa''] ''api_two_factor_status'' None,
     route_of ''POST'' [Lit ''2fa'', Lit ''setup''] ''api_two_factor_setup'' None,
     route_of ''POST'' [Lit ''2fa'', Lit ''enable''] ''api_two_factor_enable'' (Some [''code'']),
     route_of ''POST'' [Lit ''2fa'', Lit ''disable''] ''api_two_factor_disable'' (Some [''password'']),
     route_of ''GET'' [Lit ''notifications''] ''api_list_notifications'' None,
     route_of ''POST'' [Lit ''notifications''] ''api_create_notification'' (Some [''name'', ''url'']),
     route_of ''DELETE'' [Lit ''notifications'', Par] ''api_delete_notification'' None,
     route_of ''POST'' [Lit ''notifications'', Par, Lit ''test''] ''api_test_notification'' None,
     route_of ''GET'' [Lit ''monitors''] ''api_list_monitors'' None,
     route_of ''POST'' [Lit ''monitors''] ''api_create_monitor'' (Some [''name'', ''url'']),
     route_of ''DELETE'' [Lit ''monitors'', Par] ''api_delete_monitor'' None,
     route_of ''POST'' [Lit ''monitors'', Par, Lit ''check''] ''api_check_monitor'' None]"

definition dashboard_routes :: "route list" where
  "dashboard_routes = [
     route_of ''GET'' [] ''api_dashboard'' None]"

definition projects_routes :: "route list" where
  "projects_routes = [
     route_of ''GET'' [] ''api_projects'' None,
     route_of ''PATCH'' [Par] ''api_update_project'' (Some []),
     route_of ''GET'' [Par, Lit ''storages''] ''api_list_app_storages'' None,
     route_of ''POST'' [Par, Lit ''storages''] ''api_create_app_storage'' (Some [''name'', ''mount_path'']),
     route_of ''DELETE'' [Par, Lit ''storages'', Par] ''api_delete_app_storage'' None,
     route_of ''POST'' [Par, Lit ''deploy''] ''api_deploy_project'' None,
     route_of ''POST'' [Par, Lit ''start''] ''api_start_project'' None,
     route_of ''POST'' [Par, Lit ''restart''] ''api_restart_project'' None,
     route_of ''GET'' [Par, Lit ''deployments''] ''api_project_deployments'' None,
     route_of ''POST'' [Par, Lit ''stop''] ''api_stop_project'' None,
     route_of ''GET'' [Par, Lit ''logs''] ''api_project_logs'' None,
     route_of ''GET'' [Par, Lit ''analytics''] ''api_project_analytics'' None,
     route_of ''GET'' [Par, Lit ''errors''] ''api_project_errors'' None,
     route_of ''GET'' [Par, Lit ''errors'', Par, Lit ''explain''] ''api_explain_error'' None,
     route_of ''GET'' [Par, Lit ''envs''] ''api_project_envs'' None,
     route_of ''POST'' [Par, Lit ''envs''] ''api_create_env'' (Some [''key'', ''value'']),
     route_of ''DELETE'' [Par, Lit ''envs'', Par] ''api_delete_env'' None,
     route_of ''GET'' [Par, Lit ''deployments'', Par] ''api_deployment_detail'' None,
     route_of ''GET'' [Par, Lit ''deployments'', Par, Lit ''logs'', Lit ''stream''] ''api_stream_deployment_logs'' None,
     route_of ''POST'' [Par, Lit ''deployments'', Par, Lit ''cancel''] ''api_cancel_deployment'' None]"

definition mail_routes :: "route list" where
  "mail_routes = [
     route_of ''GET'' [] ''api_mail'' None,
     route_of ''POST'' [Lit ''domains''] ''api_create_mail_domain'' (Some [''domain'']),
     route_of ''DELETE'' [Lit ''domains'', Par] ''api_delete_mail_domain'' None,
     route_of ''POST'' [Lit ''mailboxes''] ''api_create_mailbox'' (Some [''local_part'', ''domain'', ''password'']),
     route_of ''PATCH'' [Lit ''mailboxes'', Par] ''api_edit_mailbox'' (Some []),
     route_of ''DELETE'' [Lit ''mailboxes'', Par] ''api_delete_mailbox'' None,
     route_of ''GET'' [Lit ''mailboxes'', Par, Lit ''app-passwords''] ''api_list_app_passwords'' None,
     route_of ''POST'' [Lit ''mailboxes'', Par, Lit ''app-passwords''] ''api_create_app_password'' (Some []),
     route_of ''DELETE'' [Lit ''mailboxes'', Par, Lit ''app-passwords'', Par] ''api_delete_app_password'' None,
     route_of ''GET'' [Lit ''quarantine''] ''api_list_quarantine'' None,
     route_of ''POST'' [Lit ''quarantine'', Lit ''actions''] ''api_quarantine_action'' (Some [''ids'']),
     route_of ''POST'' [Lit ''quarantine'', Lit ''delete''] ''api_quarantine_delete'' (Some [''ids'']),
     route_of ''GET'' [Lit ''aliases''] ''api_mail_aliases'' None,
     route_of ''POST'' [Lit ''aliases''] ''api_create_mail_alias'' (Some [''address'', ''goto'']),
     route_of ''DELETE'' [Lit ''aliases'', Par] ''api_delete_mail_alias'' None,
     route_of ''GET'' [Lit ''domains'', Par, Lit ''dkim''] ''api_mail_dkim'' None,
     route_of ''GET'' [Lit ''relayhosts''] ''api_list_mail_relayhosts'' None,
     route_of ''POST'' [Lit ''relayhosts''] ''api_create_mail_relayhost'' (Some [''hostname'', ''username'', ''password''])]"

definition dns_routes :: "route list" where
  "dns_routes = [
     route_of ''GET'' [] ''api_dns'' None,
     route_of ''POST'' [Lit ''zones'', Par, Lit ''records''] ''api_create_dns_record'' (Some [''type'', ''name'', ''content'']),
     route_of ''PUT'' [Lit ''zones'', Par, Lit ''records'', Par] ''api_update_dns_record'' (Some [''type'', ''name'', ''content'']),
     route_of ''DELETE'' [Lit ''zones'', Par, Lit ''records'', Par] ''api_delete_dns_record'' None,
     route_of ''GET'' [Lit ''zones'', Par, Lit ''settings''] ''api_zone_settings'' None,
     route_of ''PATCH'' [Lit ''zones'', Par, Lit ''settings''] ''api_update_zone_setting'' (Some [''setting'', ''value'']),
     route_of ''PATCH'' [Lit ''zones'', Par, Lit ''dnssec''] ''api_update_dnssec'' (Some [''status'']),
     route_of ''POST'' [Lit ''zones'', Par, Lit ''purge''] ''api_purge_cache'' (Some []),
     route_of ''GET'' [Lit ''zones'', Par, Lit ''analytics''] ''api_zone_analytics'' None,
     route_of ''GET'' [Lit ''zones'', Par, Lit ''export''] ''api_export_dns_records'' None,
     route_of ''POST'' [Lit ''zones'', Par, Lit ''import''] ''api_import_dns_records'' (Some [''bind''])]"

definition apps_routes :: "route list" where
  "apps_routes = [
     route_of ''GET'' [Lit ''catalog''] ''api_apps_catalog'' None,
     route_of ''GET'' [] ''api_apps_installed'' None,
     route_of ''POST'' [Lit ''install''] ''api_apps_install'' (Some [''slug'']),
     route_of ''POST'' [Par, Lit ''start''] ''api_apps_start'' None,
     route_of ''POST'' [Par, Lit ''stop''] ''api_apps_stop'' None,
     route_of ''DELETE'' [Par] ''api_apps_remove'' None,
     route_of ''GET'' [Par, Lit ''logs''] ''api_apps_logs'' None,
     route_of ''GET'' [Par, Lit ''compute''] ''api_apps_compute'' None]"

definition deploys_routes :: "route list" where
  "deploys_routes = [
     route_of ''POST'' [Lit ''git''] ''api_deploy_git'' (Some [''git_url'', ''name'']),
     route_of ''GET'' [] ''api_list_deploys'' None,
     route_of ''GET'' [Par] ''api_deploy_status'' None,
     route_of ''GET'' [Par, Lit ''explain''] ''api_explain_deploy'' None,
     route_of ''GET'' [Par, Lit ''logs'', Lit ''stream''] ''api_stream_deploy_logs'' None,
     route_of ''POST'' [Par, Lit ''rollback''] ''api_rollback_deploy'' None,
     route_of ''GET'' [Par, Lit ''env''] ''api_list_deploy_env'' None,
     route_of ''POST'' [Par, Lit ''env''] ''api_set_deploy_env'' (Some [''key'', ''value'']),
     route_of ''DELETE'' [Par, Lit ''env'', Par] ''api_delete_deploy_env'' None]"

definition infra_routes :: "route list" where
  "infra_routes = [
     route_of ''GET'' [Lit ''servers''] ''api_infra_servers'' None,
     route_of ''POST'' [Lit ''servers''] ''api_infra_provision'' (Some [''name'']),
     route_of ''DELETE'' [Lit ''servers'', Par] ''api_infra_destroy'' None]"

definition domains_routes :: "route list" where
  "domains_routes = [
     route_of ''POST'' [] ''api_add_domain'' (Some [''project'', ''hostname'']),
     route_of ''GET'' [] ''api_list_domains'' None,
     route_of ''POST'' [Par, Lit ''verify''] ''api_verify_domain'' None,
     route_of ''DELETE'' [Par] ''api_delete_domain'' None]"

definition edge_routes :: "route list" where
  "edge_routes = [
     route_of ''GET'' [Lit ''ask''] ''api_edge_ask'' None]"

definition deploy_hooks_routes :: "route list" where
  "deploy_hooks_routes = [
     route_of ''POST'' [] ''api_create_deploy_hook'' (Some [''project'', ''git_url'']),
     route_of ''GET'' [] ''api_list_deploy_hooks'' None,
     route_of ''DELETE'' [Par] ''api_delete_deploy_hook'' None]"

definition webhooks_routes :: "route list" where
  "webhooks_routes = [
     route_of ''POST'' [Lit ''github'', Par] ''api_github_webhook'' None]"

definition previews_routes :: "route list" where
  "previews_routes = [
     route_of ''GET'' [] ''api_list_previews'' None,
     route_of ''DELETE'' [Par] ''api_delete_preview'' None]"

definition admin_routes :: "route list" where
  "admin_routes = [
     route_of ''GET'' [Lit ''overview''] ''api_admin_overview'' None,
     route_of ''GET'' [] ''api_admin'' None]"

definition audit_routes :: "route list" where
  "audit_routes = [
     route_of ''GET'' [] ''api_audit_log'' None,
     route_of ''GET'' [Lit ''export.csv''] ''api_audit_log_csv'' None]"

definition cloudflare_routes :: "route list" where
  "cloudflare_routes = [
     route_of ''GET'' [Lit ''services''] ''api_cf_services'' None,
     route_of ''GET'' [Lit ''zones'', Par, Lit ''plans''] ''api_cf_zone_plans'' None,
     route_of ''GET'' [Lit ''zones'', Par, Lit ''subscription''] ''api_cf_zone_subscription'' None,
     route_of ''POST'' [Lit ''zones'', Par, Lit ''subscription''] ''api_cf_activate_plan'' (Some [''rate_plan_id'']),
     route_of ''POST'' [Lit ''zones'', Par, Lit ''services'', Par, Lit ''activate''] ''api_cf_activate_service'' None]"

definition ai_routes :: "route list" where
  "ai_routes = [
     route_of ''GET'' [Lit ''models''] ''api_ai_models'' None,
     route_of ''GET'' [Lit ''keys''] ''api_ai_keys'' None,
     route_of ''POST'' [Lit ''keys''] ''api_ai_provision_key'' (Some [''label'']),
     route_of ''PATCH'' [Lit ''keys'', Par] ''api_ai_update_key'' (Some []),
     route_of ''DELETE'' [Lit ''keys'', Par] ''api_ai_revoke_key'' None,
     route_of ''GET'' [Lit ''status''] ''api_ai_status'' None,
     route_of ''POST'' [Lit ''chat''] ''api_ai_chat'' (Some [''model'', ''messages'']),
     route_of ''GET'' [Lit ''usage''] ''api_ai_usage'' None]"

definition billing_routes :: "route list" where
  "billing_routes = [
     route_of ''GET'' [Lit ''credits''] ''api_billing_credits'' None,
     route_of ''GET'' [Lit ''credits'', Lit ''overview''] ''api_billing_credits_overview'' None,
     route_of ''POST'' [Lit ''credits''] ''api_billing_topup'' (Some [''tenant_id'', ''amount_usd'']),
     route_of ''GET'' [Lit ''pricing''] ''api_billing_pricing'' None,
     route_of ''PUT'' [Lit ''pricing'', Par] ''api_billing_set_pricing'' (Some []),
     route_of ''GET'' [Lit ''quote'', Par] ''api_billing_quote'' None,
     route_of ''GET'' [Lit ''charges''] ''api_billing_charges'' None]"

definition tenants_routes :: "route list" where
  "tenants_routes = [
     route_of ''POST'' [] ''api_create_tenant'' (Some [''name'', ''slug'']),
     route_of ''GET'' [] ''api_list_tenants'' None,
     route_of ''POST'' [Par, Lit ''activate''] ''api_activate_tenant'' None,
     route_of ''POST'' [Par, Lit ''deactivate''] ''api_deactivate_tenant'' None,
     route_of ''POST'' [Par, Lit ''approve''] ''api_approve_tenant'' None,
     route_of ''POST'' [Par, Lit ''reject''] ''api_reject_tenant'' None,
     route_of ''POST'' [Par, Lit ''suspend''] ''api_suspend_tenant'' None,
     route_of ''POST'' [Par, Lit ''reactivate''] ''api_reactivate_tenant'' None]"

definition tenant_admins_routes :: "route list" where
  "tenant_admins_routes = [
     route_of ''POST'' [] ''api_create_tenant_admin'' (Some [''tenant_slug'', ''email'', ''full_name'', ''password''])]"

definition tenant_resources_routes :: "route list" where
  "tenant_resources_routes = [
     route_of ''POST'' [] ''api_create_tenant_resource'' (Some [''tenant_slug'', ''provider'', ''resource_type'', ''external_id'', ''display_name''])]"

definition plans_routes :: "route list" where
  "plans_routes = [
     route_of ''GET'' [] ''api_list_plans'' None,
     route_of ''POST'' [] ''api_create_plan'' (Some [''key'', ''name'', ''max_apps'', ''max_domains'', ''cpu_millicores'', ''mem_mb'', ''disk_mb'']),
     route_of ''PATCH'' [Par] ''api_update_plan'' (Some []),
     route_of ''POST'' [Par, Lit ''archive''] ''api_archive_plan'' None]"

definition usage_routes :: "route list" where
  "usage_routes = [
     route_of ''GET'' [] ''api_usage'' None]"

definition databases_routes :: "route list" where
  "databases_routes = [
     route_of ''GET'' [] ''api_list_databases'' None,
     route_of ''GET'' [Lit ''targets''] ''api_database_targets'' None,
     route_of ''POST'' [] ''api_provision_database'' (Some [''db_type'', ''name'', ''server_uuid'', ''project_uuid'', ''environment_name'']),
     route_of ''GET'' [Par, Lit ''backups''] ''api_list_database_backups'' None,
     route_of ''POST'' [Par, Lit ''backups''] ''api_create_database_backup'' (Some [])]"

definition storage_routes :: "route list" where
  "storage_routes = [
     route_of ''GET'' [Lit ''status''] ''api_storage_status'' None,
     route_of ''GET'' [Lit ''buckets''] ''api_list_buckets'' None,
     route_of ''POST'' [Lit ''buckets''] ''api_provision_bucket'' (Some [''name'']),
     route_of ''DELETE'' [Lit ''buckets'', Par] ''api_delete_bucket'' None]"

definition jobs_routes :: "route list" where
  "jobs_routes = [
     route_of ''GET'' [] ''api_list_jobs'' None,
     route_of ''POST'' [] ''api_create_job'' (Some [''name'', ''cron'', ''url'']),
     route_of ''PATCH'' [Par] ''api_update_job'' (Some []),
     route_of ''DELETE'' [Par] ''api_delete_job'' None,
     route_of ''GET'' [Par, Lit ''runs''] ''api_job_runs'' None]"

definition team_routes :: "route list" where
  "team_routes = [
     route_of ''GET'' [] ''api_team'' None,
     route_of ''POST'' [Lit ''invites''] ''api_create_invite'' (Some [''email'']),
     route_of ''DELETE'' [Lit ''invites'', Par] ''api_revoke_invite'' None,
     route_of ''POST'' [Lit ''members'', Par, Lit ''role''] ''api_change_member_role'' (Some [''role'']),
     route_of ''DELETE'' [Lit ''members'', Par] ''api_remove_member'' None]"

definition sso_routes :: "route list" where
  "sso_routes = [
     route_of ''GET'' [] ''api_get_sso'' None,
     route_of ''PUT'' [] ''api_put_sso'' (Some []),
     route_of ''DELETE'' [] ''api_delete_sso'' None]"

definition api_table :: "(string \<times> route list) list" where
  "api_table = [
     (''status'', status_routes),
     (''auth'', auth_routes),
     (''account'', account_routes),
     (''dashboard'', dashboard_routes),
     (''projects'', projects_routes),
     (''mail'', mail_routes),
     (''dns'', dns_routes),
     (''apps'', apps_routes),
     (''deploys'', deploys_routes),
     (''infra'', infra_routes),
     (''domains'', domains_routes),
     (''edge'', edge_routes),
     (''deploy-hooks'', deploy_hooks_routes),
     (''webhooks'', webhooks_routes),
     (''previews'', previews_routes),
     (''admin'', admin_routes),
     (''audit'', audit_routes),
     (''cloudflare'', cloudflare_routes),
     (''ai'', ai_routes),
     (''billing'', billing_routes),
     (''tenants'', tenants_routes),
     (''tenant-admins'', tenant_admins_routes),
     (''tenant-resources'', tenant_resources_routes),
     (''plans'', plans_routes),
     (''usage'', usage_routes),
     (''databases'', databases_routes),
     (''storage'', storage_routes),
     (''jobs'', jobs_routes),
     (''team'', team_routes),
     (''sso'', sso_routes)]"


fun fits :: "segment list \<Rightarrow> string list \<Rightarrow> bool" where
  "fits [] [] = True"
| "fits (Lit l # ps) (s # ss) = (l = s \<and> fits ps ss)"
| "fits (Par # ps) (s # ss) = (s \<noteq> [] \<and> fits ps ss)"
| "fits _ _ = False"

definition pieces :: "string \<Rightarrow> string list" where
  "pieces p = tl (split_on (CHR ''/'') p)"

definition dispatch_route :: "string \<Rightarrow> string \<Rightarrow> route option" where
  "dispatch_route verb p = (case pieces p of
       [] \<Rightarrow> None
     | h # ss \<Rightarrow> (case map_of api_table h of
           None \<Rightarrow> None
         | Some rs \<Rightarrow> find (\<lambda>r. rt_method r = verb \<and> fits (rt_path r) ss) rs))"

text \<open>A payload that is missing, or lacks a required field, is refused before the handler runs.\<close>

definition payload_ok :: "route \<Rightarrow> json option \<Rightarrow> bool" where
  "payload_ok r body = (case rt_fields r of
       None \<Rightarrow> True
     | Some req \<Rightarrow> (case body of Some (JObj m) \<Rightarrow> list_all (\<lambda>k. k \<in> set (map fst m)) req | _ \<Rightarrow> False))"

end
