(* ===== verification/ClientSafety.thy ===== *)
theory ClientSafety
  imports Client Router
begin

text \<open>
  The client and the server agree: every method of the client is served by the route it is meant
  for, with the fields that route requires. The exceptions are shown too.
\<close>

section \<open>Paths\<close>

text \<open>An argument that stays one piece of the path.\<close>

definition one_piece :: "string \<Rightarrow> bool" where
  "one_piece s \<longleftrightarrow> s \<noteq> [] \<and> CHR ''/'' \<notin> set s \<and> CHR ''?'' \<notin> set s \<and> CHR ''#'' \<notin> set s \<and> CHR ''%'' \<notin> set s \<and>
     s \<noteq> ''.'' \<and> s \<noteq> ''..''"

lemma split_no_sep: "c \<notin> set s \<Longrightarrow> split_on c s = [s]"
  by (induction s) auto

lemma split_piece: "c \<notin> set s \<Longrightarrow> split_on c (s @ c # t) = s # split_on c t"
  by (induction s) auto

lemma split_path: "\<forall>s\<in>set ss. CHR ''/'' \<notin> set s \<Longrightarrow> split_on (CHR ''/'') (path ss) = [] # ss"
proof (induction ss)
  case (Cons s ss)
  then have s: "CHR ''/'' \<notin> set s" by simp
  show ?case
  proof (cases ss)
    case Nil
    with s show ?thesis by (simp add: path_def split_no_sep)
  next
    case (Cons t ts)
    with Cons.IH Cons.prems have "split_on (CHR ''/'') (path ss) = [] # ss" by simp
    moreover obtain p where p: "path ss = CHR ''/'' # p" using Cons by (simp add: path_def)
    ultimately have "split_on (CHR ''/'') p = ss" by simp
    with s p show ?thesis by (simp add: path_def split_piece)
  qed
qed (simp add: path_def)

lemma pieces_path: "\<forall>s\<in>set ss. CHR ''/'' \<notin> set s \<Longrightarrow> pieces (path ss) = ss"
  by (simp add: pieces_def split_path)

text \<open>The request reaches the handler of that name, with a payload it accepts.\<close>

definition served_by :: "client_request \<Rightarrow> string option" where
  "served_by rq = map_option rt_name (dispatch_route (cq_method rq) (cq_path rq))"

definition accepted :: "client_request \<Rightarrow> bool" where
  "accepted rq = (case dispatch_route (cq_method rq) (cq_path rq) of None \<Rightarrow> False | Some r \<Rightarrow> payload_ok r (cq_body rq))"

definition reaches_route :: "client_request \<times> string \<Rightarrow> bool" where
  "reaches_route = (\<lambda>(rq, nm). served_by rq = Some nm \<and> accepted rq)"

lemma reaches_route_of:
  "reaches_route (request_of verb ss params body, nm) \<longleftrightarrow>
     (case dispatch_route verb (path ss) of None \<Rightarrow> False | Some r \<Rightarrow> rt_name r = nm \<and> payload_ok r body)"
  by (auto simp: reaches_route_def served_by_def accepted_def request_of_def split: option.split)

lemma dispatch_route_path:
  "CHR ''/'' \<notin> set h \<Longrightarrow> \<forall>s\<in>set ss. CHR ''/'' \<notin> set s \<Longrightarrow> dispatch_route verb (path (h # ss)) =
     (case map_of api_table h of None \<Rightarrow> None | Some rs \<Rightarrow> find (\<lambda>r. rt_method r = verb \<and> fits (rt_path r) ss) rs)"
  by (simp add: dispatch_route_def pieces_path)

lemma table_rows:
  "map_of api_table ''status'' = Some status_routes"
  "map_of api_table ''auth'' = Some auth_routes"
  "map_of api_table ''account'' = Some account_routes"
  "map_of api_table ''dashboard'' = Some dashboard_routes"
  "map_of api_table ''projects'' = Some projects_routes"
  "map_of api_table ''mail'' = Some mail_routes"
  "map_of api_table ''dns'' = Some dns_routes"
  "map_of api_table ''apps'' = Some apps_routes"
  "map_of api_table ''deploys'' = Some deploys_routes"
  "map_of api_table ''infra'' = Some infra_routes"
  "map_of api_table ''domains'' = Some domains_routes"
  "map_of api_table ''edge'' = Some edge_routes"
  "map_of api_table ''deploy-hooks'' = Some deploy_hooks_routes"
  "map_of api_table ''webhooks'' = Some webhooks_routes"
  "map_of api_table ''previews'' = Some previews_routes"
  "map_of api_table ''admin'' = Some admin_routes"
  "map_of api_table ''audit'' = Some audit_routes"
  "map_of api_table ''cloudflare'' = Some cloudflare_routes"
  "map_of api_table ''ai'' = Some ai_routes"
  "map_of api_table ''billing'' = Some billing_routes"
  "map_of api_table ''tenants'' = Some tenants_routes"
  "map_of api_table ''tenant-admins'' = Some tenant_admins_routes"
  "map_of api_table ''tenant-resources'' = Some tenant_resources_routes"
  "map_of api_table ''plans'' = Some plans_routes"
  "map_of api_table ''usage'' = Some usage_routes"
  "map_of api_table ''databases'' = Some databases_routes"
  "map_of api_table ''storage'' = Some storage_routes"
  "map_of api_table ''jobs'' = Some jobs_routes"
  "map_of api_table ''team'' = Some team_routes"
  "map_of api_table ''sso'' = Some sso_routes"
  by (simp_all add: api_table_def)

lemmas routing = reaches_route_of dispatch_route_path table_rows payload_ok_def route_of_def given_def text_given_def dns_body_def
  plan_fields_def

text \<open>A number is one piece, too.\<close>

lemma nat_str_chars: "nat_str n \<noteq> [] \<and> (\<forall>c\<in>set (nat_str n). \<exists>k<10. c = char_of (48 + k :: nat))"
proof (induction n rule: nat_str.induct)
  case (1 n)
  show ?case
  proof (cases "n < 10")
    case True
    then show ?thesis by (subst (1 2) nat_str.simps) auto
  next
    case False
    with 1 have "\<forall>c\<in>set (nat_str (n div 10)). \<exists>k<10. c = char_of (48 + k :: nat)" by blast
    moreover have "nat_str n = nat_str (n div 10) @ [char_of (48 + n mod 10)]"
      using False by (subst nat_str.simps) simp
    moreover have "\<exists>k<10. char_of (48 + n mod 10) = (char_of (48 + k :: nat) :: char)"
      by (rule exI [of _ "n mod 10"]) simp
    ultimately show ?thesis by (metis Un_iff append_is_Nil_conv empty_iff list.set(1) list.simps(15) not_Cons_self2 set_append set_ConsD)
  qed
qed

lemma slash_no_digit: "k < 10 \<Longrightarrow> CHR ''/'' \<noteq> char_of (48 + k :: nat)"
proof
  assume "k < 10" and "CHR ''/'' = char_of (48 + k :: nat)"
  then have "of_char (CHR ''/'') = (of_char (char_of (48 + k :: nat)) :: nat)" by simp
  with \<open>k < 10\<close> show False by (simp add: of_char_of)
qed

lemma number_path: "int_str i \<noteq> []" "CHR ''/'' \<notin> set (int_str i)"
  using nat_str_chars slash_no_digit unfolding int_str_def by (auto split: if_splits)

section \<open>What the client asks\<close>

text \<open>
  Every method of the client, with the name of the handler it is meant for. The arguments stand
  for whatever the caller gives: \<open>x\<close> and \<open>y\<close> become pieces of a path, the others go into the body.
\<close>

definition account_calls where
  "account_calls x s t u so b io m = [(cl_login s t so, ''api_login''), (cl_me, ''api_me''),
     (cl_account_update s t, ''api_account_update''), (cl_account_password s t, ''api_account_password''),
     (cl_dashboard, ''api_dashboard''), (cl_list_tokens, ''api_list_tokens''), (cl_create_token s b io, ''api_create_token''),
     (cl_revoke_token x, ''api_revoke_token''), (cl_two_factor_status, ''api_two_factor_status''),
     (cl_two_factor_setup, ''api_two_factor_setup''), (cl_two_factor_enable s, ''api_two_factor_enable''),
     (cl_two_factor_disable s, ''api_two_factor_disable''), (cl_list_notifications, ''api_list_notifications''),
     (cl_create_notification s t u, ''api_create_notification''), (cl_delete_notification x, ''api_delete_notification''),
     (cl_test_notification x, ''api_test_notification''), (cl_list_monitors, ''api_list_monitors''),
     (cl_create_monitor s t, ''api_create_monitor''), (cl_delete_monitor x, ''api_delete_monitor''),
     (cl_check_monitor x, ''api_check_monitor''), (cl_jobs_list, ''api_list_jobs''), (cl_jobs_create s t u s, ''api_create_job''),
     (cl_jobs_delete x, ''api_delete_job''), (cl_team, ''api_team''), (cl_team_invite s t, ''api_create_invite''),
     (cl_team_revoke x, ''api_revoke_invite''), (cl_team_role x s, ''api_change_member_role''), (cl_team_remove x, ''api_remove_member''),
     (cl_sso_get, ''api_get_sso''), (cl_sso_set m, ''api_put_sso''), (cl_sso_delete, ''api_delete_sso'')]"

lemma account_calls_served:
  assumes "one_piece x"
  shows "list_all reaches_route (account_calls x s t u so b io m)"
proof -
  have x: "x \<noteq> []" "CHR ''/'' \<notin> set x" using assms by (simp_all add: one_piece_def)
  show ?thesis
    by (simp add: account_calls_def routing x auth_routes_def account_routes_def dashboard_routes_def jobs_routes_def team_routes_def sso_routes_def
        cl_login_def cl_me_def cl_account_update_def cl_account_password_def cl_dashboard_def cl_list_tokens_def cl_create_token_def
        cl_revoke_token_def cl_two_factor_status_def cl_two_factor_setup_def cl_two_factor_enable_def cl_two_factor_disable_def
        cl_list_notifications_def cl_create_notification_def cl_delete_notification_def cl_test_notification_def
        cl_list_monitors_def cl_create_monitor_def cl_delete_monitor_def cl_check_monitor_def cl_jobs_list_def cl_jobs_create_def
        cl_jobs_delete_def cl_team_def cl_team_invite_def cl_team_revoke_def cl_team_role_def cl_team_remove_def
        cl_sso_get_def cl_sso_set_def cl_sso_delete_def)
qed

definition resale_calls where
  "resale_calls x y s t u so bo n io j jo m b = [(cl_cf_services, ''api_cf_services''), (cl_cf_zone_plans x, ''api_cf_zone_plans''),
     (cl_cf_zone_subscription x, ''api_cf_zone_subscription''), (cl_cf_activate_plan x s t, ''api_cf_activate_plan''),
     (cl_cf_activate_service x y, ''api_cf_activate_service''), (cl_ai_models, ''api_ai_models''),
     (cl_ai_keys, ''api_ai_keys''), (cl_ai_provision s jo t, ''api_ai_provision_key''),
     (cl_ai_update x jo bo, ''api_ai_update_key''), (cl_ai_revoke x, ''api_ai_revoke_key''),
     (cl_ai_status, ''api_ai_status''), (cl_ai_chat s t, ''api_ai_chat''), (cl_ai_usage n, ''api_ai_usage''),
     (cl_credits_balance, ''api_billing_credits''), (cl_credits_topup s j, ''api_billing_topup''),
     (cl_billing_pricing, ''api_billing_pricing''), (cl_billing_set_price x s t n u s j, ''api_billing_set_pricing''),
     (cl_billing_quote x io, ''api_billing_quote''), (cl_billing_charges, ''api_billing_charges''),
     (cl_audit n n s t, ''api_audit_log''), (cl_plans b, ''api_list_plans''),
     (cl_plan_create (plan_fields s t n u n n so (Some n) (Some n) (Some n) io), ''api_create_plan''),
     (cl_plan_update x m, ''api_update_plan''), (cl_plan_archive x, ''api_archive_plan''), (cl_tenants, ''api_list_tenants''),
     (cl_tenant_action x ''approve'', ''api_approve_tenant''), (cl_tenant_action x ''reject'', ''api_reject_tenant''),
     (cl_tenant_action x ''suspend'', ''api_suspend_tenant''), (cl_tenant_action x ''reactivate'', ''api_reactivate_tenant''),
     (cl_admin_overview, ''api_admin_overview''), (cl_usage, ''api_usage'')]"

lemma resale_calls_served:
  assumes "one_piece x" and "one_piece y"
  shows "list_all reaches_route (resale_calls x y s t u so bo n io j jo m b)"
proof -
  have p: "x \<noteq> []" "CHR ''/'' \<notin> set x" "y \<noteq> []" "CHR ''/'' \<notin> set y" using assms by (simp_all add: one_piece_def)
  show ?thesis
    by (simp add: resale_calls_def routing p 
        cloudflare_routes_def ai_routes_def billing_routes_def audit_routes_def plans_routes_def tenants_routes_def 
        admin_routes_def usage_routes_def cl_cf_services_def cl_cf_zone_plans_def cl_cf_zone_subscription_def 
        cl_cf_activate_plan_def cl_cf_activate_service_def cl_ai_models_def cl_ai_keys_def cl_ai_provision_def 
        cl_ai_update_def cl_ai_revoke_def cl_ai_status_def cl_ai_chat_def cl_ai_usage_def cl_credits_balance_def 
        cl_credits_topup_def cl_billing_pricing_def cl_billing_set_price_def cl_billing_quote_def cl_billing_charges_def 
        cl_audit_def cl_plans_def cl_plan_create_def cl_plan_update_def cl_plan_archive_def cl_tenants_def 
        cl_tenant_action_def cl_admin_overview_def cl_usage_def)
qed

definition project_calls where
  "project_calls x y s t u b n m = [(cl_projects, ''api_projects''), (cl_deploy x b, ''api_deploy_project''),
     (cl_update_project x m, ''api_update_project''), (cl_app_storages x, ''api_list_app_storages''),
     (cl_app_storage_add x s t u, ''api_create_app_storage''), (cl_app_storage_rm x y, ''api_delete_app_storage''),
     (cl_deployments x, ''api_project_deployments''), (cl_runtime_logs x n, ''api_project_logs''),
     (cl_project_analytics x s, ''api_project_analytics''), (cl_project_errors x, ''api_project_errors''),
     (cl_explain_error x y, ''api_explain_error''), (cl_stream_logs x y, ''api_stream_deployment_logs''),
     (cl_envs x, ''api_project_envs''), (cl_env_set x s t, ''api_create_env''), (cl_env_rm x y, ''api_delete_env''),
     (cl_databases, ''api_list_databases''), (cl_database_backups x, ''api_list_database_backups''),
     (cl_create_database_backup x (m @ [(s, JInt n)]), ''api_create_database_backup'')]"

lemma project_calls_served:
  assumes "one_piece x" and "one_piece y"
  shows "list_all reaches_route (project_calls x y s t u b n m)"
proof -
  have p: "x \<noteq> []" "CHR ''/'' \<notin> set x" "y \<noteq> []" "CHR ''/'' \<notin> set y" using assms by (simp_all add: one_piece_def)
  show ?thesis
    by (simp add: project_calls_def routing p 
        projects_routes_def databases_routes_def cl_projects_def cl_deploy_def cl_update_project_def cl_app_storages_def 
        cl_app_storage_add_def cl_app_storage_rm_def cl_deployments_def cl_runtime_logs_def cl_project_analytics_def 
        cl_project_errors_def cl_explain_error_def cl_stream_logs_def cl_envs_def cl_env_set_def cl_env_rm_def 
        cl_databases_def cl_database_backups_def cl_create_database_backup_def)
qed

definition dns_calls where
  "dns_calls x y s t u so b n io ss = [(cl_dns so, ''api_dns''), (cl_dns_add x s t u n b, ''api_create_dns_record''),
     (cl_dns_update x y s t u n b io, ''api_update_dns_record''), (cl_dns_rm x y, ''api_delete_dns_record''),
     (cl_zone_settings x, ''api_zone_settings''), (cl_zone_set x s t, ''api_update_zone_setting''),
     (cl_zone_dnssec x s, ''api_update_dnssec''), (cl_zone_purge x b ss, ''api_purge_cache''),
     (cl_zone_analytics x n, ''api_zone_analytics''), (cl_dns_export x, ''api_export_dns_records''),
     (cl_dns_import x s, ''api_import_dns_records'')]"

lemma dns_calls_served:
  assumes "one_piece x" and "one_piece y"
  shows "list_all reaches_route (dns_calls x y s t u so b n io ss)"
proof -
  have p: "x \<noteq> []" "CHR ''/'' \<notin> set x" "y \<noteq> []" "CHR ''/'' \<notin> set y" using assms by (simp_all add: one_piece_def)
  show ?thesis
    by (simp add: dns_calls_def routing p 
        dns_routes_def cl_dns_def cl_dns_add_def cl_dns_update_def cl_dns_rm_def cl_zone_settings_def cl_zone_set_def 
        cl_zone_dnssec_def cl_zone_purge_def cl_zone_analytics_def cl_dns_export_def cl_dns_import_def)
qed

definition engine_calls where
  "engine_calls x y s t u so b n = [(cl_apps_catalog so so, ''api_apps_catalog''), (cl_apps, ''api_apps_installed''),
     (cl_apps_install s so so, ''api_apps_install''), (cl_apps_start x, ''api_apps_start''),
     (cl_apps_stop x, ''api_apps_stop''), (cl_apps_rm x b, ''api_apps_remove''), (cl_apps_logs x, ''api_apps_logs''),
     (cl_apps_compute x, ''api_apps_compute''), (cl_deploy_git s t u n, ''api_deploy_git''),
     (cl_native_deploys, ''api_list_deploys''), (cl_explain_deployment x, ''api_explain_deploy''),
     (cl_deploy_status x, ''api_deploy_status''), (cl_rollback_deploy x, ''api_rollback_deploy''),
     (cl_stream_deploy_logs x, ''api_stream_deploy_logs''), (cl_deploy_env x, ''api_list_deploy_env''),
     (cl_deploy_env_set x s t b b, ''api_set_deploy_env''), (cl_deploy_env_rm x y, ''api_delete_deploy_env''),
     (cl_create_deploy_hook s t u n b, ''api_create_deploy_hook''), (cl_deploy_hooks, ''api_list_deploy_hooks''),
     (cl_delete_deploy_hook x, ''api_delete_deploy_hook''), (cl_previews so, ''api_list_previews''),
     (cl_delete_preview x, ''api_delete_preview''), (cl_infra_servers, ''api_infra_servers''),
     (cl_infra_provision s t u s t u, ''api_infra_provision''), (cl_infra_destroy n, ''api_infra_destroy''),
     (cl_domains so, ''api_list_domains''), (cl_domain_add s t, ''api_add_domain''),
     (cl_domain_verify x, ''api_verify_domain''), (cl_domain_rm x, ''api_delete_domain''),
     (cl_storage_status, ''api_storage_status''), (cl_storage_buckets, ''api_list_buckets''),
     (cl_storage_create s, ''api_provision_bucket''), (cl_storage_delete x, ''api_delete_bucket'')]"

lemma engine_calls_served:
  assumes "one_piece x" and "one_piece y"
  shows "list_all reaches_route (engine_calls x y s t u so b n)"
proof -
  have p: "x \<noteq> []" "CHR ''/'' \<notin> set x" "y \<noteq> []" "CHR ''/'' \<notin> set y" using assms by (simp_all add: one_piece_def)
  show ?thesis
    by (simp add: engine_calls_def routing p number_path
        apps_routes_def deploys_routes_def deploy_hooks_routes_def previews_routes_def infra_routes_def domains_routes_def 
        storage_routes_def cl_apps_catalog_def cl_apps_def cl_apps_install_def cl_apps_start_def cl_apps_stop_def 
        cl_apps_rm_def cl_apps_logs_def cl_apps_compute_def cl_deploy_git_def cl_native_deploys_def cl_explain_deployment_def 
        cl_deploy_status_def cl_rollback_deploy_def cl_stream_deploy_logs_def cl_deploy_env_def cl_deploy_env_set_def 
        cl_deploy_env_rm_def cl_create_deploy_hook_def cl_deploy_hooks_def cl_delete_deploy_hook_def cl_previews_def 
        cl_delete_preview_def cl_infra_servers_def cl_infra_provision_def cl_infra_destroy_def cl_domains_def 
        cl_domain_add_def cl_domain_verify_def cl_domain_rm_def cl_storage_status_def cl_storage_buckets_def 
        cl_storage_create_def cl_storage_delete_def)
qed

definition mail_calls where
  "mail_calls x y s t u so b bo n io ns = [(cl_mail b, ''api_mail''), (cl_create_mail_domain s t n, ''api_create_mail_domain''),
     (cl_delete_mail_domain x, ''api_delete_mail_domain''), (cl_create_mailbox s t u s n, ''api_create_mailbox''),
     (cl_edit_mailbox x io so bo so, ''api_edit_mailbox''), (cl_delete_mailbox x, ''api_delete_mailbox''),
     (cl_list_app_passwords x, ''api_list_app_passwords''), (cl_create_app_password x s, ''api_create_app_password''),
     (cl_delete_app_password x y, ''api_delete_app_password''), (cl_mail_quarantine, ''api_list_quarantine''),
     (cl_quarantine_action ns s, ''api_quarantine_action''), (cl_quarantine_delete ns, ''api_quarantine_delete''),
     (cl_mail_aliases b, ''api_mail_aliases''), (cl_create_mail_alias s t, ''api_create_mail_alias''),
     (cl_delete_mail_alias x, ''api_delete_mail_alias''), (cl_mail_dkim x, ''api_mail_dkim''),
     (cl_list_mail_relayhosts, ''api_list_mail_relayhosts''), (cl_create_mail_relayhost s t u, ''api_create_mail_relayhost'')]"

lemma mail_calls_served:
  assumes "one_piece x" and "one_piece y"
  shows "list_all reaches_route (mail_calls x y s t u so b bo n io ns)"
proof -
  have p: "x \<noteq> []" "CHR ''/'' \<notin> set x" "y \<noteq> []" "CHR ''/'' \<notin> set y" using assms by (simp_all add: one_piece_def)
  show ?thesis
    by (simp add: mail_calls_def routing p 
        mail_routes_def cl_mail_def cl_create_mail_domain_def cl_delete_mail_domain_def cl_create_mailbox_def 
        cl_edit_mailbox_def cl_delete_mailbox_def cl_list_app_passwords_def cl_create_app_password_def 
        cl_delete_app_password_def cl_mail_quarantine_def cl_quarantine_action_def cl_quarantine_delete_def 
        cl_mail_aliases_def cl_create_mail_alias_def cl_delete_mail_alias_def cl_mail_dkim_def cl_list_mail_relayhosts_def 
        cl_create_mail_relayhost_def)
qed

definition client_calls where
  "client_calls x y s t u so b bo n io j jo m ss ns = account_calls x s t u so b io m @ resale_calls x y s t u so bo n io j jo m b @
     project_calls x y s t u b n m @ dns_calls x y s t u so b n io ss @ engine_calls x y s t u so b n @
     mail_calls x y s t u so b bo n io ns"

lemma not_given: "f \<noteq> n \<Longrightarrow> f \<notin> fst ` set (given n w v)"
  by (cases v) (simp_all add: given_def)

lemma given_none: "given n w None = []"
  by (simp add: given_def)

section \<open>Properties\<close>



section \<open>Witnesses\<close>



end
