(* ===== verification/Mcp.thy ===== *)
theory Mcp
  imports Client
begin

text \<open>
  The server for AI agents (\<^verbatim>\<open>tetra_cli/mcp.py\<close>): JSON-RPC messages, one per line, each tool a
  request of the command-line client. Parameters: the JSON decoder and the two ways \<open>json.dumps\<close>
  is called, the answers of the API (None when the HTTP client raises, which it does for a lost
  connection), how the HTTP client writes a query parameter that may be no string, and the
  descriptions of tools and arguments.
\<close>

section \<open>Arguments\<close>

text \<open>
  \<open>a[k]\<close> and \<open>a.get(k, d)\<close>. The arguments may be any JSON value that is not false: indexing a list
  or a string by a name raises TypeError, and only a dict has \<open>get\<close>.
\<close>

definition arg :: "json \<Rightarrow> string \<Rightarrow> json result" where
  "arg a k = (case a of
       JObj m \<Rightarrow> (case map_of m k of Some v \<Rightarrow> Inr v | None \<Rightarrow> Inl (KeyError k))
     | _ \<Rightarrow> Inl (OtherError ''TypeError''))"

definition arg_or :: "json \<Rightarrow> string \<Rightarrow> json \<Rightarrow> json result" where
  "arg_or a k d = rbind (as_dict a) (\<lambda>m. Inr (jget_or m k d))"

section \<open>Tools\<close>

type_synonym query_writer = "string \<Rightarrow> json \<Rightarrow> (string \<times> string) list"

record mcp_tool =
  tool_name :: string
  tool_args :: "(string \<times> string) list"
  tool_required :: "string list"
  tool_write :: bool
  tool_call :: "query_writer \<Rightarrow> json \<Rightarrow> client_request result"

definition read_tool where
  "read_tool nm args req f = \<lparr>tool_name = nm, tool_args = args, tool_required = req, tool_write = False, tool_call = f\<rparr>"

definition write_tool where
  "write_tool nm args req f = \<lparr>tool_name = nm, tool_args = args @ [(''confirm'', ''boolean'')],
     tool_required = req @ [''confirm''], tool_write = True, tool_call = f\<rparr>"

text \<open>A tool without arguments, one with an argument in its path, and one with an optional filter.\<close>

definition plain_call :: "client_request \<Rightarrow> query_writer \<Rightarrow> json \<Rightarrow> client_request result" where
  "plain_call rq w a = Inr rq"

definition path_call :: "string \<Rightarrow> (string \<Rightarrow> client_request) \<Rightarrow> query_writer \<Rightarrow> json \<Rightarrow> client_request result" where
  "path_call k f w a = rbind (arg a k) (\<lambda>v. Inr (f (jstr v)))"

definition filter_call :: "string \<Rightarrow> query_writer \<Rightarrow> json \<Rightarrow> client_request result" where
  "filter_call h w a = rbind (arg_or a ''project'' JNull) (\<lambda>v.
     Inr (request_of ''GET'' [h] (if truthy v then w ''project'' v else []) None))"

definition explain_error_call :: "query_writer \<Rightarrow> json \<Rightarrow> client_request result" where
  "explain_error_call w a = rbind (arg a ''application_id'') (\<lambda>x. rbind (arg a ''issue_id'') (\<lambda>y.
     Inr (cl_explain_error (jstr x) (jstr y))))"

definition deploy_git_call :: "query_writer \<Rightarrow> json \<Rightarrow> client_request result" where
  "deploy_git_call w a = rbind (arg a ''git_url'') (\<lambda>u. rbind (arg a ''name'') (\<lambda>n.
     rbind (arg_or a ''ref'' (JStr ''main'')) (\<lambda>r. rbind (arg_or a ''port'' (JInt 3000)) (\<lambda>p.
     rbind (jint p) (\<lambda>i.
     Inr (post_rq [''deploys'', ''git''] [(''git_url'', u), (''ref'', r), (''name'', n), (''port'', JInt i)]))))))"

definition set_env_call :: "query_writer \<Rightarrow> json \<Rightarrow> client_request result" where
  "set_env_call w a = rbind (arg a ''project'') (\<lambda>p. rbind (arg a ''key'') (\<lambda>k. rbind (arg a ''value'') (\<lambda>v.
     rbind (arg_or a ''is_secret'' (JBool False)) (\<lambda>s.
     Inr (post_rq [''deploys'', jstr p, ''env''] [(''key'', k), (''value'', v), (''is_secret'', JBool (truthy s)),
       (''is_build_time'', JBool False)])))))"

definition create_domain_call :: "query_writer \<Rightarrow> json \<Rightarrow> client_request result" where
  "create_domain_call w a = rbind (arg a ''domain'') (\<lambda>d. rbind (arg_or a ''description'' (JStr [])) (\<lambda>t.
     Inr (post_rq [''mail'', ''domains''] [(''domain'', d), (''description'', JStr (jstr t)), (''quota_mb'', JInt 10240)])))"

definition create_alias_call :: "query_writer \<Rightarrow> json \<Rightarrow> client_request result" where
  "create_alias_call w a = rbind (arg a ''address'') (\<lambda>x. rbind (arg a ''goto'') (\<lambda>y.
     Inr (post_rq [''mail'', ''aliases''] [(''address'', x), (''goto'', y)])))"

definition delete_alias_call :: "query_writer \<Rightarrow> json \<Rightarrow> client_request result" where
  "delete_alias_call w a = rbind (arg a ''alias_id'') (\<lambda>v. rbind (jint v) (\<lambda>i. Inr (cl_delete_mail_alias (int_str i))))"

definition TOOLS :: "mcp_tool list" where
  "TOOLS = [
     read_tool ''list_apps'' [] [] (plain_call cl_apps),
     read_tool ''list_deployments'' [] [] (plain_call cl_native_deploys),
     read_tool ''get_deployment'' [(''deployment_id'', ''string'')] [''deployment_id''] (path_call ''deployment_id'' cl_deploy_status),
     read_tool ''explain_deployment'' [(''deployment_id'', ''string'')] [''deployment_id''] (path_call ''deployment_id'' cl_explain_deployment),
     read_tool ''explain_error'' [(''application_id'', ''string''), (''issue_id'', ''string'')] [''application_id'', ''issue_id''] explain_error_call,
     read_tool ''list_api_tokens'' [] [] (plain_call cl_list_tokens),
     read_tool ''two_factor_status'' [] [] (plain_call cl_two_factor_status),
     read_tool ''list_notification_channels'' [] [] (plain_call cl_list_notifications),
     read_tool ''list_uptime_monitors'' [] [] (plain_call cl_list_monitors),
     read_tool ''app_logs'' [(''project'', ''string'')] [''project''] (path_call ''project'' cl_apps_logs),
     read_tool ''app_compute'' [(''project'', ''string'')] [''project''] (path_call ''project'' cl_apps_compute),
     read_tool ''list_previews'' [(''project'', ''string'')] [] (filter_call ''previews''),
     read_tool ''list_domains'' [(''project'', ''string'')] [] (filter_call ''domains''),
     read_tool ''usage'' [] [] (plain_call cl_usage),
     write_tool ''deploy_git'' [(''git_url'', ''string''), (''name'', ''string''), (''ref'', ''string''), (''port'', ''integer'')]
       [''git_url'', ''name''] deploy_git_call,
     write_tool ''rollback_deployment'' [(''deployment_id'', ''string'')] [''deployment_id''] (path_call ''deployment_id'' cl_rollback_deploy),
     write_tool ''teardown_preview'' [(''preview_id'', ''string'')] [''preview_id''] (path_call ''preview_id'' cl_delete_preview),
     write_tool ''set_env_var'' [(''project'', ''string''), (''key'', ''string''), (''value'', ''string''), (''is_secret'', ''boolean'')]
       [''project'', ''key'', ''value''] set_env_call,
     read_tool ''mail_overview'' [] [] (plain_call (cl_mail False)),
     read_tool ''list_mail_aliases'' [] [] (plain_call (cl_mail_aliases False)),
     read_tool ''get_mail_dkim'' [(''domain'', ''string'')] [''domain''] (path_call ''domain'' cl_mail_dkim),
     write_tool ''create_mail_domain'' [(''domain'', ''string''), (''description'', ''string'')] [''domain''] create_domain_call,
     write_tool ''delete_mail_domain'' [(''domain'', ''string'')] [''domain''] (path_call ''domain'' cl_delete_mail_domain),
     write_tool ''create_mail_alias'' [(''address'', ''string''), (''goto'', ''string'')] [''address'', ''goto''] create_alias_call,
     write_tool ''delete_mail_alias'' [(''alias_id'', ''integer'')] [''alias_id''] delete_alias_call]"

section \<open>Messages\<close>

record mcp_env =
  me_allow_writes :: bool
  me_answer :: "client_request list \<Rightarrow> client_request \<Rightarrow> client_response option"
  me_parse :: "string \<Rightarrow> json option"
  me_dump :: "json \<Rightarrow> string"
  me_encode :: "json \<Rightarrow> string"
  me_query :: query_writer
  me_describe :: "string \<Rightarrow> string"
  me_describe_arg :: "string \<Rightarrow> string \<Rightarrow> jdict"

text \<open>The state of the server is the list of the requests it sent.\<close>

type_synonym 'a mcp_task = "(client_request list, 'a) sx"

definition tool_text :: "string \<Rightarrow> bool \<Rightarrow> json" where
  "tool_text s err = JObj [(''content'', JList [JObj [(''type'', JStr ''text''), (''text'', JStr s)]]), (''isError'', JBool err)]"

definition tool_error :: "string \<Rightarrow> json" where
  "tool_error s = tool_text s True"

definition visible_tools :: "mcp_env \<Rightarrow> mcp_tool list" where
  "visible_tools v = filter (\<lambda>t. me_allow_writes v \<or> \<not> tool_write t) TOOLS"

definition tool_schema :: "mcp_env \<Rightarrow> mcp_tool \<Rightarrow> json" where
  "tool_schema v t = JObj [(''type'', JStr ''object''),
     (''properties'', JObj (map (\<lambda>(k, ty). (k, JObj ((''type'', JStr ty) # me_describe_arg v (tool_name t) k))) (tool_args t))),
     (''required'', JList (map JStr (tool_required t)))]"

definition tool_listing :: "mcp_env \<Rightarrow> mcp_tool \<Rightarrow> json" where
  "tool_listing v t = JObj [(''name'', JStr (tool_name t)), (''description'', JStr (me_describe v (tool_name t))),
     (''inputSchema'', tool_schema v t)]"

text \<open>Sending: the request is recorded; an exception of the HTTP client is none that \<open>_call\<close> catches.\<close>

definition mcp_send :: "mcp_env \<Rightarrow> client_request \<Rightarrow> (client_error + json) mcp_task" where
  "mcp_send v rq h = (case me_answer v h rq of
       None \<Rightarrow> (Inl (OtherError ''HTTPError''), h @ [rq])
     | Some r \<Rightarrow> (Inr (client_answer (me_parse v) r), h @ [rq]))"

definition DISABLED :: string where
  "DISABLED = ''Write tools are disabled on this server - the operator must restart it with `tetra mcp serve --allow-writes` to enable them.''"

definition CONFIRM_FIRST :: string where
  "CONFIRM_FIRST = ''This tool changes live infrastructure. Get the human operator's approval, then re-call it with confirm=true.''"

text \<open>
  The three handlers of \<open>_call\<close>: a missing argument, a bad one (the text of a TypeError is its class
  name here), and everything else, which leaves \<open>_call\<close>.
\<close>

definition call_failed :: "exn \<Rightarrow> json mcp_task" where
  "call_failed e = (case e of
       KeyError k \<Rightarrow> act_return (tool_error (''Missing required argument: '' @ k))
     | ValueError s \<Rightarrow> act_return (tool_error (''Invalid argument: '' @ s))
     | OtherError s \<Rightarrow> if s = ''TypeError'' then act_return (tool_error (''Invalid argument: '' @ s)) else act_raise e
     | _ \<Rightarrow> act_raise e)"

definition run_tool :: "mcp_env \<Rightarrow> mcp_tool \<Rightarrow> json \<Rightarrow> json mcp_task" where
  "run_tool v t a =
     act_catch (act_bind (\<lambda>h. (tool_call t (me_query v) a, h)) (\<lambda>rq.
       act_bind (mcp_send v rq) (\<lambda>r. act_return (case r of
           Inl (TetraError s _) \<Rightarrow> tool_error s
         | Inr p \<Rightarrow> tool_text (case p of JStr s \<Rightarrow> s | _ \<Rightarrow> me_dump v p) False))))
       call_failed"

definition find_tool :: "json \<Rightarrow> mcp_tool option" where
  "find_tool nm = find (\<lambda>t. JStr (tool_name t) = nm) TOOLS"

definition mcp_call :: "mcp_env \<Rightarrow> json \<Rightarrow> json \<Rightarrow> json mcp_task" where
  "mcp_call v nm a = (case find_tool nm of
       None \<Rightarrow> act_return (tool_error (''Unknown tool: '' @ jstr nm))
     | Some t \<Rightarrow>
         if tool_write t then
           if \<not> me_allow_writes v then act_return (tool_error DISABLED)
           else act_bind (\<lambda>h. (arg_or a ''confirm'' JNull, h)) (\<lambda>c.
             if c \<noteq> JBool True then act_return (tool_error CONFIRM_FIRST) else run_tool v t a)
         else run_tool v t a)"

definition mcp_result :: "json \<Rightarrow> json \<Rightarrow> json" where
  "mcp_result i r = JObj [(''jsonrpc'', JStr ''2.0''), (''id'', i), (''result'', r)]"

definition PROTOCOL_VERSION :: string where
  "PROTOCOL_VERSION = ''2025-06-18''"

definition mcp_params :: "jdict \<Rightarrow> jdict result" where
  "mcp_params m = as_dict (jor [jget m ''params'', JObj []])"

definition handle_message :: "mcp_env \<Rightarrow> json \<Rightarrow> json option mcp_task" where
  "handle_message v msg =
     act_bind (\<lambda>h. (as_dict msg, h)) (\<lambda>m.
       let verb = jget_or m ''method'' (JStr []); i = jget m ''id'' in
       if i = JNull then act_return None
       else if verb = JStr ''initialize'' then
         act_bind (\<lambda>h. (mcp_params m, h)) (\<lambda>ps. act_return (Some (mcp_result i (JObj
           [(''protocolVersion'', case jget ps ''protocolVersion'' of
                JStr (c # s) \<Rightarrow> JStr (c # s) | _ \<Rightarrow> JStr PROTOCOL_VERSION),
            (''capabilities'', JObj [(''tools'', JObj [])]),
            (''serverInfo'', JObj [(''name'', JStr ''tetra-mcp''), (''version'', JStr ''1.0.0'')])]))))
       else if verb = JStr ''ping'' then act_return (Some (mcp_result i (JObj [])))
       else if verb = JStr ''tools/list'' then
         act_return (Some (mcp_result i (JObj [(''tools'', JList (map (tool_listing v) (visible_tools v)))])))
       else if verb = JStr ''tools/call'' then
         act_bind (\<lambda>h. (mcp_params m, h)) (\<lambda>ps.
           act_bind (mcp_call v (jget_or ps ''name'' (JStr [])) (jor [jget ps ''arguments'', JObj []])) (\<lambda>r.
           act_return (Some (mcp_result i r))))
       else act_return (Some (JObj [(''jsonrpc'', JStr ''2.0''), (''id'', i),
         (''error'', JObj [(''code'', JInt (- 32601)), (''message'', JStr (''Method not found: '' @ jstr verb))])])))"

section \<open>The loop over standard input\<close>

text \<open>
  \<open>serve_stdio\<close>: the lines written, the exception that ended the loop if one did, and the requests
  sent. Lines after an exception are not read.
\<close>

fun serve_stdio :: "mcp_env \<Rightarrow> string list \<Rightarrow> client_request list \<Rightarrow> (string list \<times> exn option) \<times> client_request list" where
  "serve_stdio v [] h = (([], None), h)"
| "serve_stdio v (l # ls) h =
     (if py_strip l = [] then serve_stdio v ls h
      else case me_parse v (py_strip l) of
          None \<Rightarrow> serve_stdio v ls h
        | Some msg \<Rightarrow> (case handle_message v msg h of
              (Inl e, h1) \<Rightarrow> (([], Some e), h1)
            | (Inr None, h1) \<Rightarrow> serve_stdio v ls h1
            | (Inr (Some r), h1) \<Rightarrow> (case serve_stdio v ls h1 of
                  ((out, e), h2) \<Rightarrow> (((me_encode v r @ [CHR 0x0A]) # out, e), h2))))"

end
