(* ===== verification/McpSafety.thy ===== *)
theory McpSafety
  imports Mcp ClientSafety
begin

text \<open>
  What the server for AI agents promises: nothing changes without the two consents, well-formed
  messages are all answered, and where it falls short of either.
\<close>

section \<open>Tools\<close>

text \<open>A request that may change something, and a line that asks for it with the consent in it.\<close>

definition changes :: "client_request \<Rightarrow> bool" where
  "changes rq \<longleftrightarrow> cq_method rq \<noteq> ''GET''"

definition confirms :: "mcp_env \<Rightarrow> json \<Rightarrow> client_request \<Rightarrow> bool" where
  "confirms v msg rq \<longleftrightarrow> (\<exists>m ps a t. msg = JObj m \<and> jget m ''method'' = JStr ''tools/call'' \<and>
     jget m ''params'' = JObj ps \<and> jget ps ''arguments'' = JObj a \<and> map_of a ''confirm'' = Some (JBool True) \<and>
     t \<in> set TOOLS \<and> tool_write t \<and> jget ps ''name'' = JStr (tool_name t) \<and>
     tool_call t (me_query v) (JObj a) = Inr rq)"

definition confirmed :: "mcp_env \<Rightarrow> string \<Rightarrow> client_request \<Rightarrow> bool" where
  "confirmed v l rq \<longleftrightarrow> (\<exists>msg. me_parse v (py_strip l) = Some msg \<and> confirms v msg rq)"

lemma find_toolD: "find_tool nm = Some t \<Longrightarrow> t \<in> set TOOLS \<and> nm = JStr (tool_name t)"
  unfolding find_tool_def by (auto simp: find_Some_iff)

lemmas calls = plain_call_def path_call_def filter_call_def explain_error_call_def deploy_git_call_def set_env_call_def
  create_domain_call_def create_alias_call_def delete_alias_call_def

lemma read_tools_get: "t \<in> set TOOLS \<Longrightarrow> \<not> tool_write t \<Longrightarrow> tool_call t w a = Inr rq \<Longrightarrow> \<not> changes rq"
  unfolding TOOLS_def
  by (auto simp: read_tool_def write_tool_def calls rbind_Inr changes_def request_of_def cl_apps_def cl_native_deploys_def
      cl_deploy_status_def cl_explain_deployment_def cl_explain_error_def cl_list_tokens_def cl_two_factor_status_def
      cl_list_notifications_def cl_list_monitors_def cl_apps_logs_def cl_apps_compute_def cl_usage_def cl_mail_def
      cl_mail_aliases_def cl_mail_dkim_def)

text \<open>With a dict of arguments a tool raises only what the server turns into an answer.\<close>

definition answered_exn :: "exn \<Rightarrow> bool" where
  "answered_exn e \<longleftrightarrow> (\<exists>s. e = KeyError s \<or> e = ValueError s \<or> e = OtherError ''TypeError'')"

lemma answered_arg: "arg (JObj m) k = Inl e \<Longrightarrow> answered_exn e"
  by (auto simp: arg_def answered_exn_def split: option.splits)

lemma answered_arg_or [simp]: "arg_or (JObj m) k d = Inr (jget_or m k d)"
  by (simp add: arg_or_def as_dict_def)

lemma answered_jint: "jint x = Inl e \<Longrightarrow> answered_exn e"
  by (auto simp: jint_def answered_exn_def split: json.splits option.splits)

lemma answered_rbind: "rbind x f = Inl e \<Longrightarrow> (x = Inl e \<Longrightarrow> P) \<Longrightarrow> (\<And>y. x = Inr y \<Longrightarrow> f y = Inl e \<Longrightarrow> P) \<Longrightarrow> P"
  by (cases x) auto

lemma tools_answer: "t \<in> set TOOLS \<Longrightarrow> tool_call t w (JObj a) = Inl e \<Longrightarrow> answered_exn e"
  unfolding TOOLS_def
  by (auto simp: read_tool_def write_tool_def calls elim!: answered_rbind dest: answered_arg answered_jint)

section \<open>One message\<close>

lemma run_tool_sent:
  assumes "run_tool v t a h = (r, h1)"
  shows "h1 = h \<or> (\<exists>rq. h1 = h @ [rq] \<and> tool_call t (me_query v) a = Inr rq)"
  using assms
  by (auto simp: run_tool_def act_catch_def act_bind_def act_return_def act_raise_def mcp_send_def call_failed_def
      split: sum.splits option.splits exn.splits if_splits prod.splits)

lemma mcp_call_sent:
  assumes "mcp_call v nm a h = (r, h1)"
  shows "h1 = h \<or> (\<exists>rq. h1 = h @ [rq] \<and> (changes rq \<longrightarrow> me_allow_writes v \<and> (\<exists>m t. a = JObj m \<and>
    map_of m ''confirm'' = Some (JBool True) \<and> t \<in> set TOOLS \<and> tool_write t \<and> nm = JStr (tool_name t) \<and>
    tool_call t (me_query v) a = Inr rq)))"
proof (cases "find_tool nm")
  case None
  with assms show ?thesis by (simp add: mcp_call_def act_return_def)
next
  case (Some t)
  note t = find_toolD [OF this]
  show ?thesis
  proof (cases "tool_write t")
    case False
    with assms Some have "run_tool v t a h = (r, h1)" by (simp add: mcp_call_def)
    from run_tool_sent [OF this] t False read_tools_get show ?thesis by blast
  next
    case True
    show ?thesis
    proof (cases "me_allow_writes v \<and> arg_or a ''confirm'' JNull = Inr (JBool True)")
      case False
      with assms Some True show ?thesis
        by (auto simp: mcp_call_def act_return_def act_bind_def split: sum.splits if_splits)
    next
      case ok: True
      with assms Some True have "run_tool v t a h = (r, h1)" by (simp add: mcp_call_def act_bind_def)
      moreover from ok obtain m where "a = JObj m" "map_of m ''confirm'' = Some (JBool True)"
        by (auto simp: arg_or_def as_dict_def jget_or_def split: json.splits option.splits)
      ultimately show ?thesis using run_tool_sent [of v t a h r h1] t True ok by blast
    qed
  qed
qed

lemma jor_dict: "jor [x, JObj []] = JObj m \<Longrightarrow> m \<noteq> [] \<Longrightarrow> x = JObj m"
  by (auto split: if_splits)

lemma handle_message_sent:
  assumes "handle_message v msg h = (r, h1)"
  shows "h1 = h \<or> (\<exists>rq. h1 = h @ [rq] \<and> (changes rq \<longrightarrow> me_allow_writes v \<and> confirms v msg rq))"
proof (cases "\<exists>m ps. msg = JObj m \<and> mcp_params m = Inr ps \<and> jget_or m ''method'' (JStr []) = JStr ''tools/call'' \<and> jget m ''id'' \<noteq> JNull")
  case False
  with assms show ?thesis
    by (auto simp: handle_message_def act_bind_def act_return_def as_dict_def Let_def
        split: sum.splits json.splits if_splits)
next
  case True
  then obtain m ps where m: "msg = JObj m" "mcp_params m = Inr ps" "jget_or m ''method'' (JStr []) = JStr ''tools/call''"
    "jget m ''id'' \<noteq> JNull" by blast
  from assms m obtain r2 where "mcp_call v (jget_or ps ''name'' (JStr [])) (jor [jget ps ''arguments'', JObj []]) h = (r2, h1)"
    by (auto simp: handle_message_def act_bind_def act_return_def as_dict_def Let_def split: sum.splits prod.splits)
  from mcp_call_sent [OF this] show ?thesis
  proof (elim disjE exE conjE)
    fix rq
    assume rq: "h1 = h @ [rq]" "changes rq \<longrightarrow> me_allow_writes v \<and> (\<exists>m t. jor [jget ps ''arguments'', JObj []] = JObj m \<and>
      map_of m ''confirm'' = Some (JBool True) \<and> t \<in> set TOOLS \<and> tool_write t \<and> jget_or ps ''name'' (JStr []) = JStr (tool_name t) \<and>
      tool_call t (me_query v) (jor [jget ps ''arguments'', JObj []]) = Inr rq)"
    have "confirms v msg rq" if c: "changes rq"
    proof -
      from c rq(2) obtain a t where t: "jor [jget ps ''arguments'', JObj []] = JObj a" "map_of a ''confirm'' = Some (JBool True)"
        "t \<in> set TOOLS" "tool_write t" "jget_or ps ''name'' (JStr []) = JStr (tool_name t)"
        "tool_call t (me_query v) (JObj a) = Inr rq" by force
      from t(2) have "a \<noteq> []" by auto
      with t(1) have a: "jget ps ''arguments'' = JObj a" by (rule jor_dict)
      then have "ps \<noteq> []" by (auto simp: jget_def jget_or_def)
      with m(2) have p: "jget m ''params'' = JObj ps"
        by (auto simp: mcp_params_def as_dict_def split: json.splits if_splits)
      have "tool_name t \<noteq> []" using t(3) by (auto simp: TOOLS_def read_tool_def write_tool_def)
      with t(5) m(3) have "jget ps ''name'' = JStr (tool_name t)" "jget m ''method'' = JStr ''tools/call''"
        by (auto simp: jget_def jget_or_def split: option.splits)
      with m(1) p a t show ?thesis unfolding confirms_def by blast
    qed
    with rq show ?thesis by blast
  qed blast
qed

section \<open>The loop\<close>

text \<open>Lines that the loop can serve: blank, no JSON, or a message with its parts of the expected shape.\<close>

definition dict_or_false :: "json \<Rightarrow> bool" where
  "dict_or_false x \<longleftrightarrow> \<not> truthy x \<or> is_dict x"

definition well_formed :: "json \<Rightarrow> bool" where
  "well_formed msg \<longleftrightarrow> (\<exists>m. msg = JObj m \<and> dict_or_false (jget m ''params'') \<and>
     (\<forall>ps. jget m ''params'' = JObj ps \<longrightarrow> dict_or_false (jget ps ''arguments'')))"

definition message_of :: "mcp_env \<Rightarrow> string \<Rightarrow> json option" where
  "message_of v l = (if py_strip l = [] then None else me_parse v (py_strip l))"

text \<open>The ids of the messages that ask for an answer.\<close>

definition asked :: "json \<Rightarrow> json list" where
  "asked msg = (case msg of JObj m \<Rightarrow> if jget m ''id'' = JNull then [] else [jget m ''id''] | _ \<Rightarrow> [])"

definition asked_in :: "mcp_env \<Rightarrow> string list \<Rightarrow> json list" where
  "asked_in v ls = concat (map (\<lambda>l. case message_of v l of None \<Rightarrow> [] | Some msg \<Rightarrow> asked msg) ls)"

definition answers_id :: "json \<Rightarrow> json \<Rightarrow> bool" where
  "answers_id i b \<longleftrightarrow> (\<exists>m. b = JObj m \<and> map_of m ''id'' = Some i)"

lemma jor_dict_false: "dict_or_false x \<Longrightarrow> \<exists>m. jor [x, JObj []] = JObj m \<and> (x = JObj m \<or> m = [])"
  by (cases x) (auto simp: dict_or_false_def is_dict_def)

lemma run_tool_returns:
  assumes "t \<in> set TOOLS" and "\<And>h rq. me_answer v h rq \<noteq> None"
  shows "\<exists>r h1. run_tool v t (JObj a) h = (Inr r, h1)"
proof (cases "tool_call t (me_query v) (JObj a)")
  case (Inl e)
  from tools_answer [OF assms(1) this] Inl show ?thesis
    by (auto simp: run_tool_def act_catch_def act_bind_def call_failed_def act_return_def answered_exn_def)
next
  case (Inr rq)
  moreover obtain x where "me_answer v h rq = Some x" using assms(2) [of h rq] by auto
  ultimately show ?thesis by (simp add: run_tool_def act_catch_def act_bind_def mcp_send_def act_return_def)
qed

lemma mcp_call_returns:
  assumes "\<And>h rq. me_answer v h rq \<noteq> None"
  shows "\<exists>r h1. mcp_call v nm (JObj a) h = (Inr r, h1)"
proof (cases "find_tool nm")
  case None
  then show ?thesis by (simp add: mcp_call_def act_return_def)
next
  case (Some t)
  then have "t \<in> set TOOLS" by (simp add: find_toolD)
  from run_tool_returns [OF this assms, of a h] Some show ?thesis
    by (auto simp: mcp_call_def act_return_def act_bind_def)
qed

lemma handle_message_answers:
  assumes "\<And>h rq. me_answer v h rq \<noteq> None" and "well_formed msg"
  shows "\<exists>r h1. handle_message v msg h = (Inr r, h1) \<and> list_all2 answers_id (asked msg) (case r of None \<Rightarrow> [] | Some b \<Rightarrow> [b])"
proof -
  from assms(2) obtain m where m: "msg = JObj m" "dict_or_false (jget m ''params'')"
    "\<And>ps. jget m ''params'' = JObj ps \<Longrightarrow> dict_or_false (jget ps ''arguments'')" by (auto simp: well_formed_def)
  from jor_dict_false [OF m(2)] obtain ps where ps: "mcp_params m = Inr ps" "jget m ''params'' = JObj ps \<or> ps = []"
    by (auto simp: mcp_params_def as_dict_def)
  have "dict_or_false (jget ps ''arguments'')"
    using ps(2) m(3) by (auto simp: dict_or_false_def jget_def jget_or_def)
  from jor_dict_false [OF this] obtain a where a: "jor [jget ps ''arguments'', JObj []] = JObj a" by blast
  from mcp_call_returns [OF assms(1), of "jget_or ps ''name'' (JStr [])" a h] obtain r h1
    where c: "mcp_call v (jget_or ps ''name'' (JStr [])) (JObj a) h = (Inr r, h1)" by blast
  show ?thesis
    unfolding handle_message_def
    by (simp only: act_bind_def as_dict_def m(1) json.case sum.case prod.case Let_def ps(1) a c act_return_def if_distrib [of fst])
      (auto simp: asked_def answers_id_def mcp_result_def act_bind_def act_return_def ps(1) a c simp del: jor.simps)
qed

lemma serve_answers:
  assumes "\<And>h rq. me_answer v h rq \<noteq> None" and "\<forall>l\<in>set ls. \<forall>msg. message_of v l = Some msg \<longrightarrow> well_formed msg"
  shows "\<exists>bs h1. serve_stdio v ls h = ((map (\<lambda>b. me_encode v b @ [CHR 0x0A]) bs, None), h1) \<and>
    list_all2 answers_id (asked_in v ls) bs"
  using assms(2)
proof (induction ls arbitrary: h)
  case (Cons l ls)
  then have IH: "\<exists>bs h1. serve_stdio v ls h = ((map (\<lambda>b. me_encode v b @ [CHR 0x0A]) bs, None), h1) \<and>
    list_all2 answers_id (asked_in v ls) bs" for h by simp
  show ?case
  proof (cases "message_of v l")
    case None
    with IH [of h] show ?thesis by (auto simp: message_of_def asked_in_def split: if_splits)
  next
    case (Some msg)
    with Cons.prems have "well_formed msg" by simp
    from handle_message_answers [OF assms(1) this, of h] obtain r h1
      where r: "handle_message v msg h = (Inr r, h1)" "list_all2 answers_id (asked msg) (case r of None \<Rightarrow> [] | Some b \<Rightarrow> [b])"
      by blast
    from IH [of h1] obtain bs h2 where bs: "serve_stdio v ls h1 = ((map (\<lambda>b. me_encode v b @ [CHR 0x0A]) bs, None), h2)"
      "list_all2 answers_id (asked_in v ls) bs" by blast
    have step: "list_all2 answers_id (asked_in v (l # ls)) ((case r of None \<Rightarrow> [] | Some b \<Rightarrow> [b]) @ bs)"
      using list_all2_appendI [OF r(2) bs(2)] Some by (simp add: asked_in_def)
    have "serve_stdio v (l # ls) h =
      ((map (\<lambda>b. me_encode v b @ [CHR 0x0A]) ((case r of None \<Rightarrow> [] | Some b \<Rightarrow> [b]) @ bs), None), h2)"
      using Some r(1) bs(1) by (cases r) (auto simp: message_of_def split: if_splits)
    with step show ?thesis by blast
  qed
qed (simp add: asked_in_def)

lemma serve_changes:
  "serve_stdio v ls h = (r, h1) \<Longrightarrow> \<exists>new ls'. h1 = h @ new \<and> subseq ls' ls \<and> list_all2 (confirmed v) ls' (filter changes new) \<and>
     (ls' \<noteq> [] \<longrightarrow> me_allow_writes v)"
proof (induction ls arbitrary: h r)
  case (Cons l ls)
  show ?case
  proof (cases "py_strip l = [] \<or> me_parse v (py_strip l) = None")
    case True
    with Cons.prems have "serve_stdio v ls h = (r, h1)" by (auto split: if_splits)
    from Cons.IH [OF this] obtain new ls' where "h1 = h @ new" "subseq ls' ls" "list_all2 (confirmed v) ls' (filter changes new)"
      "ls' \<noteq> [] \<longrightarrow> me_allow_writes v" by blast
    then show ?thesis by (intro exI [of _ new] exI [of _ ls']) auto
  next
    case False
    then obtain msg where msg: "py_strip l \<noteq> []" "me_parse v (py_strip l) = Some msg" by auto
    obtain q h2 where q: "handle_message v msg h = (q, h2)" by (cases "handle_message v msg h")
    from handle_message_sent [OF q] obtain one where one: "h2 = h @ one"
      "one = [] \<or> (\<exists>rq. one = [rq] \<and> (changes rq \<longrightarrow> me_allow_writes v \<and> confirmed v l rq))"
      using msg(2) unfolding confirmed_def by force
    have "\<exists>new ls'. h1 = h2 @ new \<and> subseq ls' ls \<and> list_all2 (confirmed v) ls' (filter changes new) \<and> (ls' \<noteq> [] \<longrightarrow> me_allow_writes v)"
    proof (cases q)
      case (Inl e)
      with Cons.prems msg q have "h1 = h2" by auto
      then show ?thesis by (intro exI [of _ "[]"]) simp
    next
      case (Inr o1)
      obtain r2 h3 where s: "serve_stdio v ls h2 = (r2, h3)" by (cases "serve_stdio v ls h2")
      with Cons.prems msg q Inr have "h3 = h1" by (auto split: option.splits prod.splits)
      with s Cons.IH show ?thesis by blast
    qed
    then obtain new ls' where n: "h1 = h2 @ new" "subseq ls' ls" "list_all2 (confirmed v) ls' (filter changes new)"
      "ls' \<noteq> [] \<longrightarrow> me_allow_writes v" by blast
    show ?thesis
    proof (cases "\<exists>rq. one = [rq] \<and> changes rq")
      case True
      then obtain rq where "one = [rq]" "changes rq" by blast
      with one n show ?thesis
        by (intro exI [of _ "one @ new"] exI [of _ "l # ls'"]) auto
    next
      case False
      with one have "filter changes (one @ new) = filter changes new" by auto
      with one(1) n show ?thesis
        by (intro exI [of _ "one @ new"] exI [of _ ls']) auto
    qed
  qed
qed simp

lemma domain_tool: "find_tool (JStr ''delete_mail_domain'') =
    Some (write_tool ''delete_mail_domain'' [(''domain'', ''string'')] [''domain''] (path_call ''domain'' cl_delete_mail_domain))"
  by (simp add: find_tool_def TOOLS_def read_tool_def write_tool_def)

section \<open>Properties\<close>

text \<open>
  C11. Two consents: without \<open>--allow-writes\<close> the server sends nothing but GET requests, and with it
  every other request is the one a line of the input asks for, by the name of a write tool and
  with \<open>confirm\<close> true; a confirmation is used once, and they are used in their order.
\<close>

theorem mcp_changes_need_two_consents:
  assumes "serve_stdio v ls [] = (r, sent)"
  shows "\<exists>ls'. subseq ls' ls \<and> list_all2 (confirmed v) ls' (filter changes sent) \<and> (ls' \<noteq> [] \<longrightarrow> me_allow_writes v)"
  using serve_changes [OF assms] by auto


text \<open>
  One line ends the server: JSON that is no object, which the loop means to ignore, and a call of
  a tool while the API cannot be reached. Neither is answered, and the lines after it are not read.
\<close>

theorem one_line_ends_mcp_server:
  assumes "me_parse v l = Some msg" and "py_strip l = l" and "l \<noteq> []"
    and "\<not> is_dict msg \<or> (\<exists>i. i \<noteq> JNull \<and> me_answer v sent cl_apps = None \<and>
      msg = JObj [(''id'', i), (''method'', JStr ''tools/call''), (''params'', JObj [(''name'', JStr ''list_apps'')])])"
  shows "\<exists>e sent'. serve_stdio v (l # ls) sent = (([], Some e), sent')"
proof -
  have "\<exists>e h. handle_message v msg sent = (Inl e, h)"
    using assms(4)
  proof (elim disjE exE conjE)
    assume "\<not> is_dict msg"
    then show ?thesis by (cases msg) (simp_all add: handle_message_def act_bind_def as_dict_def is_dict_def)
  next
    fix i
    assume "i \<noteq> JNull" "me_answer v sent cl_apps = None"
      "msg = JObj [(''id'', i), (''method'', JStr ''tools/call''), (''params'', JObj [(''name'', JStr ''list_apps'')])]"
    then show ?thesis
      by (simp add: handle_message_def act_bind_def as_dict_def jget_or_def jget_def mcp_params_def mcp_call_def find_tool_def
          TOOLS_def read_tool_def run_tool_def plain_call_def act_catch_def mcp_send_def call_failed_def act_raise_def)
  qed
  with assms(1-3) show ?thesis by auto
qed

text \<open>
  The tool that deletes a mail domain puts its argument into the path as it is. As HTTP clients
  resolve \<open>..\<close>, it also sends the request that destroys a server, an operation that the server
  for agents means not to offer.
\<close>

theorem domain_tool_destroys_servers:
  fixes resolve :: "string list \<Rightarrow> string list"
  assumes "\<And>a s b. one_piece s \<Longrightarrow> resolve (a @ [s, ''..''] @ b) = resolve (a @ b)"
    and "\<And>ss. list_all one_piece ss \<Longrightarrow> resolve ss = ss"
    and "one_piece i" and "find_tool (JStr ''delete_mail_domain'') = Some t"
  shows "\<exists>rq. tool_call t w (JObj [(''domain'', JStr (''../../infra/servers/'' @ i)), (''confirm'', JBool True)]) = Inr rq \<and>
    map_option rt_name (dispatch_route (cq_method rq) (path (resolve (pieces (cq_path rq))))) = Some ''api_infra_destroy''"
proof -
  have i: "CHR ''/'' \<notin> set i" "i \<noteq> []" using assms(3) by (simp_all add: one_piece_def)
  have t: "t = write_tool ''delete_mail_domain'' [(''domain'', ''string'')] [''domain''] (path_call ''domain'' cl_delete_mail_domain)"
    using assms(4) by (simp only: domain_tool option.inject)
  have p: "path [''mail'', ''domains'', ''../../infra/servers/'' @ i] =
    path [''mail'', ''domains'', ''..'', ''..'', ''infra'', ''servers'', i]"
    by (simp add: path_def)
  have pieces: "pieces (path [''mail'', ''domains'', ''..'', ''..'', ''infra'', ''servers'', i]) =
    [''mail'', ''domains'', ''..'', ''..'', ''infra'', ''servers'', i]"
    by (rule pieces_path) (simp add: i)
  have o: "one_piece ''mail''" "one_piece ''domains''" "one_piece ''infra''" "one_piece ''servers''"
    by (simp_all add: one_piece_def)
  have "resolve [''mail'', ''domains'', ''..'', ''..'', ''infra'', ''servers'', i] = resolve [''mail'', ''..'', ''infra'', ''servers'', i]"
    using assms(1) [OF o(2), of "[''mail'']" "[''..'', ''infra'', ''servers'', i]"] by simp
  also have "\<dots> = resolve [''infra'', ''servers'', i]"
    using assms(1) [OF o(1), of "[]" "[''infra'', ''servers'', i]"] by simp
  also have "\<dots> = [''infra'', ''servers'', i]" using assms(2,3) o by simp
  finally have r: "resolve [''mail'', ''domains'', ''..'', ''..'', ''infra'', ''servers'', i] = [''infra'', ''servers'', i]" .
  let ?rq = "cl_delete_mail_domain (''../../infra/servers/'' @ i)"
  have c: "tool_call t w (JObj [(''domain'', JStr (''../../infra/servers/'' @ i)), (''confirm'', JBool True)]) = Inr ?rq"
    by (simp add: t write_tool_def path_call_def arg_def jstr_def)
  have "cq_method ?rq = ''DELETE''" "cq_path ?rq = path [''mail'', ''domains'', ''..'', ''..'', ''infra'', ''servers'', i]"
    by (simp_all only: cl_delete_mail_domain_def request_of_def client_request.simps p)
  then have "map_option rt_name (dispatch_route (cq_method ?rq) (path (resolve (pieces (cq_path ?rq))))) =
    map_option rt_name (dispatch_route ''DELETE'' (path [''infra'', ''servers'', i]))"
    by (simp only: pieces r)
  also have "\<dots> = Some ''api_infra_destroy''"
    by (simp add: dispatch_route_path i table_rows infra_routes_def route_of_def)
  finally show ?thesis using c by blast
qed

section \<open>Witnesses\<close>

text \<open>A decoder that knows four lines, and an API that answers \<open>{}\<close>.\<close>

definition demo_line :: "string \<Rightarrow> json option" where
  "demo_line s = map_of [(''a'', JObj [(''id'', JInt 1), (''method'', JStr ''tools/call''),
      (''params'', JObj [(''name'', JStr ''teardown_preview''),
         (''arguments'', JObj [(''preview_id'', JStr ''p''), (''confirm'', JBool True)])])]),
     (''b'', JObj [(''id'', JInt 2), (''method'', JStr ''tools/list'')]),
     (''c'', JList []), (''{}'', JObj [])] s"

definition demo_mcp :: mcp_env where
  "demo_mcp = \<lparr>me_allow_writes = True, me_answer = \<lambda>h rq. Some \<lparr>cr_status = 200, cr_text = ''{}''\<rparr>, me_parse = demo_line,
     me_dump = \<lambda>_. ''{}'', me_encode = \<lambda>_. ''ok'', me_query = \<lambda>k v. [], me_describe = \<lambda>_. [], me_describe_arg = \<lambda>_ _. []\<rparr>"

lemma mcp_changes_need_two_consents_witness:
  "\<exists>ls'. subseq ls' [''b'', ''a''] \<and> list_all2 (confirmed demo_mcp) ls' [cl_delete_preview ''p'']"
proof -
  have "filter changes (snd (serve_stdio demo_mcp [''b'', ''a''] [])) = [cl_delete_preview ''p'']"
    unfolding changes_def by code_simp
  with mcp_changes_need_two_consents [of demo_mcp "[''b'', ''a'']" "fst (serve_stdio demo_mcp [''b'', ''a''] [])"
      "snd (serve_stdio demo_mcp [''b'', ''a''] [])"]
  show ?thesis by auto
qed


lemma one_line_ends_mcp_server_witness: "\<exists>e sent'. serve_stdio demo_mcp [''c'', ''b''] [] = (([], Some e), sent')"
proof -
  have "me_parse demo_mcp ''c'' = Some (JList [])" "py_strip ''c'' = ''c''" by code_simp+
  from one_line_ends_mcp_server [OF this] show ?thesis by (simp add: is_dict_def)
qed

text \<open>Resolving as RFC 3986 describes it.\<close>

definition remove_dots :: "string list \<Rightarrow> string list" where
  "remove_dots ss = rev (fold (\<lambda>s acc. if s = ''..'' then tl acc else if s = ''.'' then acc else s # acc) ss [])"

lemma remove_dots_laws:
  "one_piece s \<Longrightarrow> remove_dots (a @ [s, ''..''] @ b) = remove_dots (a @ b)"
  "list_all one_piece ss \<Longrightarrow> remove_dots ss = ss"
proof -
  show "remove_dots (a @ [s, ''..''] @ b) = remove_dots (a @ b)" if "one_piece s"
    using that by (simp add: remove_dots_def one_piece_def)
  have "list_all one_piece ss \<Longrightarrow> fold (\<lambda>s acc. if s = ''..'' then tl acc else if s = ''.'' then acc else s # acc) ss acc = rev ss @ acc"
    for acc
    by (induction ss arbitrary: acc) (auto simp: one_piece_def)
  then show "remove_dots ss = ss" if "list_all one_piece ss" using that by (simp add: remove_dots_def)
qed

lemma domain_tool_destroys_servers_witness:
  "\<exists>t. find_tool (JStr ''delete_mail_domain'') = Some t \<and> (\<exists>rq. tool_call t (\<lambda>k v. [])
     (JObj [(''domain'', JStr ''../../infra/servers/5''), (''confirm'', JBool True)]) = Inr rq \<and>
     map_option rt_name (dispatch_route (cq_method rq) (path (remove_dots (pieces (cq_path rq))))) = Some ''api_infra_destroy'')"
proof -
  have "one_piece ''5''" by (simp add: one_piece_def)
  from domain_tool_destroys_servers [of remove_dots, OF remove_dots_laws this domain_tool]
  show ?thesis using domain_tool by simp
qed

end
