(* ===== verification/EngineRoutes.thy ===== *)
theory EngineRoutes
  imports Gateway Apps DeployTask Diagnosis
begin

text \<open>
  The routes of \<^verbatim>\<open>api/routes.py\<close> over the Tetra engine: marketplace apps, deployments, their
  environment, domains, push hooks and previews. The services behind them are those of the
  component theories; what a route starts in the background is recorded as a spawned task.
\<close>

section \<open>The services' world\<close>

text \<open>
  \<open>en_rest\<close> is what a task needs beside the database and the commands: the notifications it sends
  and what other requests do before it opens its own session.
\<close>

record engine_world =
  en_db :: db
  en_cmds :: "command list"
  en_catalog :: "app_template list pworld"
  en_spawned :: "spawned list"
  en_calls :: "cf_call list"
  en_rest :: world

type_synonym 'a etask = "(engine_world, 'a) sx"
type_synonym 'a egtask = "(engine_world, 'a) gtask"

definition by_apps :: "'a ptask \<Rightarrow> 'a etask" where
  "by_apps m w = (case m \<lparr>pa_db = en_db w, pa_cmds = en_cmds w, pa_catalog = en_catalog w\<rparr> of
     (r, x) \<Rightarrow> (r, w\<lparr>en_db := pa_db x, en_cmds := pa_cmds x, en_catalog := pa_catalog x\<rparr>))"

definition by_task :: "'a task \<Rightarrow> 'a etask" where
  "by_task m w = (case m ((en_rest w)\<lparr>wd_db := en_db w, wd_cmds := en_cmds w\<rparr>) of
     (r, x) \<Rightarrow> (r, w\<lparr>en_db := wd_db x, en_cmds := wd_cmds x, en_rest := x\<rparr>))"

definition by_read :: "(db \<Rightarrow> 'a) \<Rightarrow> 'a etask" where
  "by_read f w = (Inr (f (en_db w)), w)"

definition by_write :: "(db \<Rightarrow> ('a \<times> db) result) \<Rightarrow> 'a etask" where
  "by_write f w = (case f (en_db w) of Inl e \<Rightarrow> (Inl e, w) | Inr (x, d) \<Rightarrow> (Inr x, w\<lparr>en_db := d\<rparr>))"

text \<open>The service's answer is an id, and the task is started.\<close>

definition by_spawn :: "(db \<Rightarrow> ((string \<times> spawned) \<times> db) result) \<Rightarrow> string etask" where
  "by_spawn f w = (case f (en_db w) of
       Inl e \<Rightarrow> (Inl e, w)
     | Inr ((i, t), d) \<Rightarrow> (Inr i, w\<lparr>en_db := d, en_spawned := en_spawned w @ [t]\<rparr>))"

text \<open>The domains service also calls Cloudflare.\<close>

definition by_domains :: "(db \<Rightarrow> ('a \<times> cf_call list \<times> db) result) \<Rightarrow> 'a etask" where
  "by_domains f w = (case f (en_db w) of
       Inl e \<Rightarrow> (Inl e, w)
     | Inr (x, calls, d) \<Rightarrow> (Inr x, w\<lparr>en_db := d, en_calls := en_calls w @ calls\<rparr>))"

definition of_engine :: "'a etask \<Rightarrow> 'a egtask" where
  "of_engine = of_service en_db (\<lambda>d w. w\<lparr>en_db := d\<rparr>)"

record engine_env =
  ee_apps :: app_env
  ee_task :: task_deps
  ee_flt :: "string \<Rightarrow> rat option"
  ee_encrypt :: "string \<Rightarrow> string"
  ee_resolve :: "string \<Rightarrow> string list result"
  ee_cf_client :: cf_client
  ee_diagnoser :: "(string \<Rightarrow> deploy_status \<Rightarrow> string \<Rightarrow> diagnosis option result) option"
  ee_id :: string
  ee_secret :: string
  ee_base :: string

definition ee_cf :: "engine_env \<Rightarrow> settings" where
  "ee_cf v = pe_cf (ee_apps v)"

section \<open>Marketplace apps\<close>

record template_view =
  tv_slug :: string
  tv_name :: string
  tv_description :: string
  tv_category :: string
  tv_tags :: "string list"
  tv_logo :: string
  tv_port :: string

definition template_view_of :: "app_template \<Rightarrow> template_view" where
  "template_view_of t = \<lparr>tv_slug = at_slug t, tv_name = at_name t, tv_description = at_description t,
     tv_category = at_category t, tv_tags = at_tags t, tv_logo = at_logo t, tv_port = at_port t\<rparr>"

record app_reply =
  ay_message :: string
  ay_project :: string
  ay_domain :: string

definition api_apps_catalog ::
  "engine_env \<Rightarrow> string option \<Rightarrow> string option \<Rightarrow> nat \<Rightarrow> nat \<Rightarrow> (nat \<times> template_view list) egtask" where
  "api_apps_catalog v search category limit offset =
     act_bind (http_as engine_as (of_engine (by_apps (list_catalog (ee_apps v) (or_empty search) (or_empty category)))))
       (\<lambda>ts. act_return (paginate (map template_view_of ts) limit offset))"

definition api_apps_installed :: "engine_env \<Rightarrow> admin_user \<Rightarrow> nat \<Rightarrow> nat \<Rightarrow> (nat \<times> installed_app list) egtask" where
  "api_apps_installed v a limit offset =
     act_bind (of_engine (by_apps (list_installed_for_tenant (ee_apps v) (Some (ad_tenant a)))))
       (\<lambda>xs. act_return (paginate xs limit offset))"

definition api_apps_install ::
  "engine_env \<Rightarrow> admin_user \<Rightarrow> int \<Rightarrow> string \<Rightarrow> string option \<Rightarrow> string option \<Rightarrow> app_reply egtask" where
  "api_apps_install v a now slug nm domain =
     act_bind (http_as engine_as (of_engine (by_apps
         (install_for_tenant (ee_apps v) (ee_id v) now (Some (ad_tenant a)) slug nm domain))))
       (\<lambda>(p, h). act_return \<lparr>ay_message = ''App installed.'', ay_project = p, ay_domain = h\<rparr>)"

definition api_apps_start :: "engine_env \<Rightarrow> admin_user \<Rightarrow> string \<Rightarrow> app_reply egtask" where
  "api_apps_start v a p =
     act_seq (http_as engine_as (of_engine (by_apps (control_for_tenant (ee_apps v) (Some (ad_tenant a)) p ''start''))))
       (act_return \<lparr>ay_message = ''App started.'', ay_project = p, ay_domain = []\<rparr>)"

definition api_apps_stop :: "engine_env \<Rightarrow> admin_user \<Rightarrow> string \<Rightarrow> app_reply egtask" where
  "api_apps_stop v a p =
     act_seq (http_as engine_as (of_engine (by_apps (control_for_tenant (ee_apps v) (Some (ad_tenant a)) p ''stop''))))
       (act_return \<lparr>ay_message = ''App stopped.'', ay_project = p, ay_domain = []\<rparr>)"

definition api_apps_remove :: "engine_env \<Rightarrow> admin_user \<Rightarrow> string \<Rightarrow> string option \<Rightarrow> app_reply egtask" where
  "api_apps_remove v a p volumes =
     act_seq (http_as engine_as (of_engine (by_apps (remove_for_tenant (ee_apps v) (Some (ad_tenant a)) p
         (volumes \<in> {Some ''1'', Some ''true'', Some ''yes''})))))
       (act_return \<lparr>ay_message = ''App removed.'', ay_project = p, ay_domain = []\<rparr>)"

definition api_apps_logs :: "engine_env \<Rightarrow> admin_user \<Rightarrow> string \<Rightarrow> string egtask" where
  "api_apps_logs v a p = http_as engine_as (of_engine (by_apps (logs_for_tenant (ee_apps v) (Some (ad_tenant a)) p 200)))"

record compute_reply =
  cy_project :: string
  cy_samples :: "compute_sample list"
  cy_cpu :: rat
  cy_mem :: rat

definition api_apps_compute :: "engine_env \<Rightarrow> admin_user \<Rightarrow> string \<Rightarrow> compute_reply egtask" where
  "api_apps_compute v a p =
     act_bind (http_as engine_as (of_engine (by_apps (compute_for_tenant (ee_apps v) (ee_flt v) (Some (ad_tenant a)) p))))
       (\<lambda>xs. act_return \<lparr>cy_project = p, cy_samples = xs, cy_cpu = round2 (sum_list (map cs_cpu xs)),
          cy_mem = round2 (sum_list (map cs_mem_used xs))\<rparr>)"

section \<open>Deployments\<close>

record deployment_view =
  dv_id :: string
  dv_project :: string
  dv_status :: string
  dv_source :: string
  dv_git :: string
  dv_ref :: string
  dv_builder :: string
  dv_image :: string
  dv_commit :: string
  dv_port :: int
  dv_domain :: string
  dv_log :: string
  dv_error :: string
  dv_created :: int

definition deployment_view_of :: "deployment \<Rightarrow> deployment_view" where
  "deployment_view_of p = \<lparr>dv_id = dp_id p, dv_project = dp_project p, dv_status = status_word (dp_status p),
     dv_source = (if dp_builder p = ''app'' then ''app'' else ''git''), dv_git = dp_git p, dv_ref = dp_ref p,
     dv_builder = dp_builder p, dv_image = dp_image p, dv_commit = dp_commit p, dv_port = dp_port p,
     dv_domain = dp_domain p, dv_log = dp_log p, dv_error = dp_error p, dv_created = dp_created p\<rparr>"

definition api_deploy_git :: "engine_env \<Rightarrow> admin_user \<Rightarrow> int \<Rightarrow> string \<Rightarrow> string \<Rightarrow> string \<Rightarrow> int \<Rightarrow> string egtask" where
  "api_deploy_git v a now git ref nm port = http_as build_as (of_engine (by_spawn
     (\<lambda>d. start_deploy (ee_cf v) d (ee_id v) now (Some (ad_tenant a)) git ref nm port)))"

text \<open>The service lists at most its default of twenty.\<close>

definition api_list_deploys :: "admin_user \<Rightarrow> nat \<Rightarrow> nat \<Rightarrow> (nat \<times> deployment_view list) egtask" where
  "api_list_deploys a limit offset =
     act_bind (of_engine (by_read (\<lambda>d. list_deployments d (Some (ad_tenant a)) 20)))
       (\<lambda>ps. act_return (paginate (map deployment_view_of ps) limit offset))"

definition own_deployment :: "admin_user \<Rightarrow> string \<Rightarrow> deployment egtask" where
  "own_deployment a i = act_bind (of_engine (by_read (\<lambda>d. get_deployment_for_tenant d (Some (ad_tenant a)) i)))
     (\<lambda>p. case p of Some p \<Rightarrow> act_return p | None \<Rightarrow> act_raise (HTTPException 404 ''Deployment not found.''))"

definition api_deploy_status :: "admin_user \<Rightarrow> string \<Rightarrow> deployment_view egtask" where
  "api_deploy_status a i = act_bind (own_deployment a i) (\<lambda>p. act_return (deployment_view_of p))"

definition api_explain_deploy :: "engine_env \<Rightarrow> admin_user \<Rightarrow> string \<Rightarrow> (string \<times> string \<times> diagnosis) egtask" where
  "api_explain_deploy v a i = act_bind (own_deployment a i)
     (\<lambda>p. act_return (i, status_word (dp_status p), diagnose_deployment (ee_diagnoser v) p))"

text \<open>The stream itself is \<open>stream_logs\<close> of \<open>LogStream\<close>; here only the access check before it.\<close>

definition api_stream_deploy_logs :: "admin_user \<Rightarrow> string \<Rightarrow> unit egtask" where
  "api_stream_deploy_logs a i = act_bind (own_deployment a i) (\<lambda>_. act_return ())"

definition api_rollback_deploy :: "engine_env \<Rightarrow> admin_user \<Rightarrow> int \<Rightarrow> string \<Rightarrow> string egtask" where
  "api_rollback_deploy v a now i = http_as build_as (of_engine (by_spawn
     (\<lambda>d. rollback (ee_cf v) d (ee_id v) now (Some (ad_tenant a)) i)))"

section \<open>Domains\<close>

definition docker_as :: "exn \<Rightarrow> (int \<times> string) option" where
  "docker_as e = (case e of DockerEngineError m c \<Rightarrow> Some (int_or c 502, m) | _ \<Rightarrow> None)"

definition domain_as :: "exn \<Rightarrow> (int \<times> string) option" where
  "domain_as e = (case e of ValueError m \<Rightarrow> Some (422, m) | _ \<Rightarrow> docker_as e)"

record domain_view =
  mv_id :: string
  mv_project :: string
  mv_host :: string
  mv_status :: domain_status
  mv_dns :: domain_instructions

definition domain_view_of :: "engine_env \<Rightarrow> custom_domain \<Rightarrow> domain_view" where
  "domain_view_of v x = \<lparr>mv_id = dm_id x, mv_project = dm_project x, mv_host = dm_host x, mv_status = dm_status x,
     mv_dns = domain_instructions_for (ee_cf v) x\<rparr>"

definition api_add_domain :: "engine_env \<Rightarrow> admin_user \<Rightarrow> int \<Rightarrow> string \<Rightarrow> string \<Rightarrow> domain_view egtask" where
  "api_add_domain v a now p h =
     act_bind (http_as domain_as (of_engine (by_write
         (\<lambda>d. add_domain (ee_cf v) d (ee_id v) (ee_secret v) now (Some (ad_tenant a)) p h))))
       (\<lambda>x. act_return (domain_view_of v x))"

definition api_list_domains :: "engine_env \<Rightarrow> admin_user \<Rightarrow> string option \<Rightarrow> nat \<Rightarrow> nat \<Rightarrow> (nat \<times> domain_view list) egtask" where
  "api_list_domains v a p limit offset =
     act_bind (of_engine (by_read (\<lambda>d. list_domains d (Some (ad_tenant a)) p)))
       (\<lambda>xs. act_return (paginate (map (domain_view_of v) xs) limit offset))"

definition api_verify_domain :: "engine_env \<Rightarrow> admin_user \<Rightarrow> string \<Rightarrow> domain_view egtask" where
  "api_verify_domain v a i =
     act_bind (http_as docker_as (of_engine (by_domains
         (\<lambda>d. verify_domain (ee_cf v) (ee_resolve v) (ee_cf_client v) d (Some (ad_tenant a)) i))))
       (\<lambda>x. act_return (domain_view_of v x))"

definition found_or :: "string \<Rightarrow> bool \<Rightarrow> unit egtask" where
  "found_or what ok = (if ok then act_return () else act_raise (HTTPException 404 (what @ '' not found.'')))"

definition api_delete_domain :: "engine_env \<Rightarrow> admin_user \<Rightarrow> string \<Rightarrow> unit egtask" where
  "api_delete_domain v a i =
     act_bind (of_engine (by_domains (\<lambda>d. Inr (delete_domain (ee_cf v) (ee_cf_client v) d (Some (ad_tenant a)) i))))
       (found_or ''Domain'')"

text \<open>The question of the edge proxy has no guard in front of it.\<close>

definition api_edge_ask :: "db \<Rightarrow> string \<Rightarrow> bool result" where
  "api_edge_ask d host =
     (if is_hostname_verified d host then Inr True else Inl (HTTPException 404 ''Unknown domain.''))"

section \<open>Environment\<close>

text \<open>A secret is masked with six bullets, written here as asterisks.\<close>

record env_view =
  nv_key :: string
  nv_value :: string
  nv_secret :: bool
  nv_build :: bool

definition MASK :: string where "MASK = ''******''"

definition env_view_of :: "engine_env \<Rightarrow> app_env_var \<Rightarrow> env_view" where
  "env_view_of v e = \<lparr>nv_key = ev_key e,
     nv_value = (if ev_secret e then MASK else decrypt (td_fernet (ee_task v)) (ev_value e)),
     nv_secret = ev_secret e, nv_build = ev_build e\<rparr>"

definition api_list_deploy_env :: "engine_env \<Rightarrow> admin_user \<Rightarrow> string \<Rightarrow> nat \<Rightarrow> nat \<Rightarrow> (nat \<times> env_view list) egtask" where
  "api_list_deploy_env v a p limit offset =
     act_bind (of_engine (by_read (\<lambda>d. list_env d (Some (ad_tenant a)) p)))
       (\<lambda>xs. act_return (paginate (map (env_view_of v) xs) limit offset))"

definition api_set_deploy_env ::
  "engine_env \<Rightarrow> admin_user \<Rightarrow> string \<Rightarrow> string \<Rightarrow> string \<Rightarrow> bool \<Rightarrow> bool \<Rightarrow> env_view list egtask" where
  "api_set_deploy_env v a p key val secret bt =
     (if py_strip key = [] then act_raise (HTTPException 422 ''Env var key is required.'')
      else act_seq (of_engine (by_write (\<lambda>d. Inr ((),
             set_env (ee_encrypt v) d (Some (ad_tenant a)) p (py_strip key) val secret bt))))
        (act_bind (of_engine (by_read (\<lambda>d. list_env d (Some (ad_tenant a)) p)))
          (\<lambda>xs. act_return (map (env_view_of v) xs))))"

definition api_delete_deploy_env :: "admin_user \<Rightarrow> string \<Rightarrow> string \<Rightarrow> unit egtask" where
  "api_delete_deploy_env a p key =
     act_bind (of_engine (by_write (\<lambda>d. Inr (delete_env d (Some (ad_tenant a)) p key)))) (found_or ''Env var'')"

section \<open>Hooks and previews\<close>

record hook_created =
  hc_id :: string
  hc_project :: string
  hc_ref :: string
  hc_secret :: string
  hc_url :: string

definition api_create_deploy_hook ::
  "engine_env \<Rightarrow> admin_user \<Rightarrow> int \<Rightarrow> string \<Rightarrow> string \<Rightarrow> string \<Rightarrow> int \<Rightarrow> bool \<Rightarrow> hook_created egtask" where
  "api_create_deploy_hook v a now p git ref port previews =
     act_bind (of_engine (by_write (\<lambda>d. Inr
         (create_hook (ee_encrypt v) d (ee_id v) (ee_secret v) now (Some (ad_tenant a)) p git ref port previews))))
       (\<lambda>(h, s). act_return \<lparr>hc_id = hk_id h, hc_project = hk_project h, hc_ref = hk_ref h, hc_secret = s,
          hc_url = rstrip_if (\<lambda>c. c = CHR ''/'') (ee_base v) @ ''/api/v1/webhooks/github/'' @ hk_id h\<rparr>)"

record hook_view =
  hv_id :: string
  hv_project :: string
  hv_git :: string
  hv_ref :: string
  hv_port :: int
  hv_enabled :: bool
  hv_previews :: bool

definition hook_view_of :: "deploy_hook \<Rightarrow> hook_view" where
  "hook_view_of h = \<lparr>hv_id = hk_id h, hv_project = hk_project h, hv_git = hk_git h, hv_ref = hk_ref h, hv_port = hk_port h,
     hv_enabled = hk_enabled h, hv_previews = hk_previews h\<rparr>"

definition api_list_deploy_hooks :: "admin_user \<Rightarrow> nat \<Rightarrow> nat \<Rightarrow> (nat \<times> hook_view list) egtask" where
  "api_list_deploy_hooks a limit offset =
     act_bind (of_engine (by_read (\<lambda>d. list_hooks d (Some (ad_tenant a)))))
       (\<lambda>hs. act_return (paginate (map hook_view_of hs) limit offset))"

definition api_delete_deploy_hook :: "admin_user \<Rightarrow> string \<Rightarrow> unit egtask" where
  "api_delete_deploy_hook a i =
     act_bind (of_engine (by_write (\<lambda>d. Inr (delete_hook d (Some (ad_tenant a)) i)))) (found_or ''Webhook'')"

record preview_view =
  qv_id :: string
  qv_project :: string
  qv_branch :: string
  qv_stack :: string
  qv_domain :: string
  qv_last :: string

definition preview_view_of :: "preview_env \<Rightarrow> preview_view" where
  "preview_view_of x = \<lparr>qv_id = pv_id x, qv_project = pv_project x, qv_branch = pv_branch x, qv_stack = pv_stack x,
     qv_domain = pv_domain x, qv_last = pv_last_deployment x\<rparr>"

definition api_list_previews :: "admin_user \<Rightarrow> string option \<Rightarrow> nat \<Rightarrow> nat \<Rightarrow> (nat \<times> preview_view list) egtask" where
  "api_list_previews a p limit offset =
     act_bind (of_engine (by_read (\<lambda>d. list_previews d (Some (ad_tenant a)) p)))
       (\<lambda>xs. act_return (paginate (map preview_view_of xs) limit offset))"

definition api_delete_preview :: "engine_env \<Rightarrow> admin_user \<Rightarrow> string \<Rightarrow> unit egtask" where
  "api_delete_preview v a i =
     act_bind (http_as docker_as (of_engine (by_task (delete_preview (ee_task v) (Some (ad_tenant a)) i))))
       (found_or ''Preview'')"

section \<open>The routes behind their guard\<close>

datatype engine_request =
    AppCatalog "string option" "string option" nat nat | ListApps nat nat
  | InstallApp string "string option" "string option" | StartApp string | StopApp string
  | RemoveApp string "string option" | AppLogs string | AppCompute string
  | DeployGit string string string int | ListDeploys nat nat | DeployStatus string | ExplainDeploy string
  | WatchDeploy string | RollbackDeploy string
  | AddDomain string string | ListDomains "string option" nat nat | VerifyDomain string | DeleteDomain string
  | ListEnv string nat nat | SetEnv string string string bool bool | DeleteEnv string string
  | CreateHook string string string int bool | ListHooks nat nat | DeleteHook string
  | ListPreviews "string option" nat nat | DeletePreview string

datatype engine_reply =
    ErTemplates nat "template_view list" | ErApps nat "installed_app list" | ErApp app_reply | ErText string
  | ErCompute compute_reply | ErStarted string | ErDeployments nat "deployment_view list" | ErDeployment deployment_view
  | ErDiagnosis string string diagnosis | ErStream | ErDomain domain_view | ErDomains nat "domain_view list"
  | ErEnvs nat "env_view list" | ErEnvNow "env_view list" | ErHook hook_created | ErHooks nat "hook_view list"
  | ErPreviews nat "preview_view list" | ErOk

fun engine_method :: "engine_request \<Rightarrow> string" where
  "engine_method (InstallApp _ _ _) = ''POST''"
| "engine_method (StartApp _) = ''POST''"
| "engine_method (StopApp _) = ''POST''"
| "engine_method (RemoveApp _ _) = ''DELETE''"
| "engine_method (DeployGit _ _ _ _) = ''POST''"
| "engine_method (RollbackDeploy _) = ''POST''"
| "engine_method (AddDomain _ _) = ''POST''"
| "engine_method (VerifyDomain _) = ''POST''"
| "engine_method (DeleteDomain _) = ''DELETE''"
| "engine_method (SetEnv _ _ _ _ _) = ''POST''"
| "engine_method (DeleteEnv _ _) = ''DELETE''"
| "engine_method (CreateHook _ _ _ _ _) = ''POST''"
| "engine_method (DeleteHook _) = ''DELETE''"
| "engine_method (DeletePreview _) = ''DELETE''"
| "engine_method _ = ''GET''"

fun engine_valid :: "engine_request \<Rightarrow> bool" where
  "engine_valid (AppCatalog _ _ n _) = page_ok n"
| "engine_valid (ListApps n _) = page_ok n"
| "engine_valid (ListDeploys n _) = page_ok n"
| "engine_valid (ListDomains _ n _) = page_ok n"
| "engine_valid (ListEnv _ n _) = page_ok n"
| "engine_valid (ListHooks n _) = page_ok n"
| "engine_valid (ListPreviews _ n _) = page_ok n"
| "engine_valid _ = True"

fun engine_handler :: "engine_env \<Rightarrow> int \<Rightarrow> admin_user \<Rightarrow> engine_request \<Rightarrow> engine_reply egtask" where
  "engine_handler v now a (AppCatalog s c n k) = gives (case_prod ErTemplates) (api_apps_catalog v s c n k)"
| "engine_handler v now a (ListApps n k) = gives (case_prod ErApps) (api_apps_installed v a n k)"
| "engine_handler v now a (InstallApp s nm h) = gives ErApp (api_apps_install v a now s nm h)"
| "engine_handler v now a (StartApp p) = gives ErApp (api_apps_start v a p)"
| "engine_handler v now a (StopApp p) = gives ErApp (api_apps_stop v a p)"
| "engine_handler v now a (RemoveApp p q) = gives ErApp (api_apps_remove v a p q)"
| "engine_handler v now a (AppLogs p) = gives ErText (api_apps_logs v a p)"
| "engine_handler v now a (AppCompute p) = gives ErCompute (api_apps_compute v a p)"
| "engine_handler v now a (DeployGit g r nm port) = gives ErStarted (api_deploy_git v a now g r nm port)"
| "engine_handler v now a (ListDeploys n k) = gives (case_prod ErDeployments) (api_list_deploys a n k)"
| "engine_handler v now a (DeployStatus i) = gives ErDeployment (api_deploy_status a i)"
| "engine_handler v now a (ExplainDeploy i) = gives (\<lambda>(i, s, g). ErDiagnosis i s g) (api_explain_deploy v a i)"
| "engine_handler v now a (WatchDeploy i) = gives (\<lambda>_. ErStream) (api_stream_deploy_logs a i)"
| "engine_handler v now a (RollbackDeploy i) = gives ErStarted (api_rollback_deploy v a now i)"
| "engine_handler v now a (AddDomain p h) = gives ErDomain (api_add_domain v a now p h)"
| "engine_handler v now a (ListDomains p n k) = gives (case_prod ErDomains) (api_list_domains v a p n k)"
| "engine_handler v now a (VerifyDomain i) = gives ErDomain (api_verify_domain v a i)"
| "engine_handler v now a (DeleteDomain i) = gives (\<lambda>_. ErOk) (api_delete_domain v a i)"
| "engine_handler v now a (ListEnv p n k) = gives (case_prod ErEnvs) (api_list_deploy_env v a p n k)"
| "engine_handler v now a (SetEnv p key val s b) = gives ErEnvNow (api_set_deploy_env v a p key val s b)"
| "engine_handler v now a (DeleteEnv p key) = gives (\<lambda>_. ErOk) (api_delete_deploy_env a p key)"
| "engine_handler v now a (CreateHook p g r port pre) = gives ErHook (api_create_deploy_hook v a now p g r port pre)"
| "engine_handler v now a (ListHooks n k) = gives (case_prod ErHooks) (api_list_deploy_hooks a n k)"
| "engine_handler v now a (DeleteHook i) = gives (\<lambda>_. ErOk) (api_delete_deploy_hook a i)"
| "engine_handler v now a (ListPreviews p n k) = gives (case_prod ErPreviews) (api_list_previews a p n k)"
| "engine_handler v now a (DeletePreview i) = gives (\<lambda>_. ErOk) (api_delete_preview v a i)"

definition engine_route :: "gate_env \<Rightarrow> engine_env \<Rightarrow> api_call \<Rightarrow> engine_request \<Rightarrow> engine_reply egtask" where
  "engine_route u v call rq =
     gate_route (gate_admin u call (engine_method rq)) (engine_valid rq) (\<lambda>a. engine_handler v (ac_now call) a rq)"

end
