(* ===== verification/EngineSafety.thy ===== *)
theory EngineSafety
  imports EngineRoutes ProjectSafety AppsSafety
begin

text \<open>
  What the API guarantees around the engine: a request changes rows of its own tenant only, and
  the value of a secret variable has no influence on anything the environment routes answer.
\<close>

section \<open>The rows of other tenants\<close>

definition elsewhere :: "string \<Rightarrow> db \<Rightarrow> db" where
  "elsewhere tid d = d\<lparr>
     db_tokens := [],
     db_resources := filter (\<lambda>r. rs_tenant r \<noteq> tid) (db_resources d),
     db_deployments := filter (\<lambda>p. dp_tenant p \<noteq> tid) (db_deployments d),
     db_envs := filter (\<lambda>e. ev_tenant e \<noteq> tid) (db_envs d),
     db_hooks := filter (\<lambda>h. hk_tenant h \<noteq> tid) (db_hooks d),
     db_previews := filter (\<lambda>x. pv_tenant x \<noteq> tid) (db_previews d),
     db_domains := filter (\<lambda>x. dm_tenant x \<noteq> tid) (db_domains d)\<rparr>"

text \<open>The primary keys that deletions go by.\<close>

definition ids_ok :: "db \<Rightarrow> bool" where
  "ids_ok d \<longleftrightarrow> distinct (map hk_id (db_hooks d)) \<and> distinct (map dm_id (db_domains d)) \<and>
     distinct (map pv_id (db_previews d))"

lemma found_only: "distinct (map k xs) \<Longrightarrow> find (\<lambda>x. k x = i) xs = Some h \<Longrightarrow> x \<in> set xs \<Longrightarrow> k x = i \<Longrightarrow> x = h"
  by (auto simp: find_Some_iff distinct_map inj_on_def)

lemma drop_found:
  assumes "distinct (map k xs)" and "h \<in> set xs" and "k h = i" and "\<not> q h"
  shows "filter q (filter (\<lambda>x. k x \<noteq> i) xs) = filter q xs"
  unfolding filter_filter using assms by (intro filter_cong refl) (auto simp: distinct_map inj_on_def)

lemma upd_found:
  assumes "distinct (map k xs)" and "h \<in> set xs" and "k h = i" and "\<not> q h" and "\<not> q y"
  shows "filter q (upd_where (\<lambda>x. k x = i) (\<lambda>_. y) xs) = filter q xs"
  using assms
proof (induction xs)
  case (Cons x xs)
  show ?case
  proof (cases "k x = i")
    case True
    with Cons.prems have "x = h" by (auto simp: image_iff)
    moreover have "upd_where (\<lambda>x. k x = i) (\<lambda>_. y) xs = xs"
      using Cons.prems(1) True unfolding upd_where_def by (intro map_idI) (auto simp: image_iff)
    ultimately show ?thesis using Cons.prems(4,5) True by simp
  next
    case False
    with Cons show ?thesis by auto
  qed
qed simp

lemma filter_upd: "(\<And>x. p x \<Longrightarrow> \<not> q x \<and> \<not> q (f x)) \<Longrightarrow> filter q (upd_where p f xs) = filter q xs"
  by (induction xs) auto

named_theorems abroad \<open>operations that leave the rows of other tenants alone\<close>

lemma abroad_reserve [abroad]: "check_and_reserve d tid p al nm = Inr d' \<Longrightarrow> elsewhere tid d' = elsewhere tid d"
  by (auto simp: check_and_reserve_def elsewhere_def reservation_def split: if_splits)

lemma abroad_release [abroad]: "elsewhere tid (release d tid p) = elsewhere tid d"
  by (auto simp: release_def elsewhere_def intro!: db.equality filter_cong)

lemma abroad_deployment [abroad]: "dp_tenant p = tid \<Longrightarrow> elsewhere tid (d\<lparr>db_deployments := db_deployments d @ [p]\<rparr>) = elsewhere tid d"
  by (simp add: elsewhere_def)

lemma abroad_forget [abroad]: "elsewhere tid (forget_app (Some tid) p d) = elsewhere tid d"
  by (auto simp: forget_app_def elsewhere_def intro!: db.equality filter_cong)

lemma abroad_start [abroad]: "start_deploy cf d i now (Some tid) git ref nm port = Inr (x, d') \<Longrightarrow> elsewhere tid d' = elsewhere tid d"
  by (auto simp: start_deploy_def Let_def add_deployment_def queued_row_def abroad split: sum.splits if_splits)

lemma abroad_rollback [abroad]: "rollback cf d i now (Some tid) did = Inr (x, d') \<Longrightarrow> elsewhere tid d' = elsewhere tid d"
  by (auto simp: rollback_def add_deployment_def queued_row_def abroad split: sum.splits option.splits if_splits)

lemma abroad_set_env [abroad]: "elsewhere tid (set_env enc d (Some tid) p key val s b) = elsewhere tid d"
  by (auto simp: set_env_def elsewhere_def env_row_def intro!: db.equality filter_upd)

lemma abroad_delete_env [abroad]: "delete_env d (Some tid) p key = (x, d') \<Longrightarrow> elsewhere tid d' = elsewhere tid d"
  by (auto simp: delete_env_def elsewhere_def env_row_def intro!: db.equality filter_cong split: if_splits)

lemma abroad_create_hook [abroad]:
  "create_hook enc d i s now (Some tid) p git ref port pre = (x, d') \<Longrightarrow> elsewhere tid d' = elsewhere tid d"
  by (auto simp: create_hook_def elsewhere_def Let_def)

lemma abroad_delete_hook [abroad]:
  assumes "ids_ok d" and "delete_hook d (Some tid) i = (x, d')"
  shows "elsewhere tid d' = elsewhere tid d"
proof (cases "get_hook d i")
  case (Some h)
  then have h: "h \<in> set (db_hooks d)" "hk_id h = i" by (auto simp: get_hook_def find_Some_iff)
  have "filter (\<lambda>h. hk_tenant h \<noteq> tid) (filter (\<lambda>x. hk_id x \<noteq> i) (db_hooks d)) = filter (\<lambda>h. hk_tenant h \<noteq> tid) (db_hooks d)"
    if "hk_tenant h = tid"
    using assms(1) h that unfolding ids_ok_def by (intro drop_found [where h = h]) auto
  with assms(2) Some show ?thesis by (auto simp: delete_hook_def elsewhere_def split: if_splits)
qed (use assms(2) in \<open>simp add: delete_hook_def\<close>)

lemma abroad_add_domain [abroad]: "add_domain cf d i tok now (Some tid) p h = Inr (x, d') \<Longrightarrow> elsewhere tid d' = elsewhere tid d"
  by (auto simp: add_domain_def elsewhere_def Let_def split: sum.splits if_splits)

lemma get_domainD: "get_domain d (Some tid) i = Some x \<Longrightarrow> x \<in> set (db_domains d) \<and> dm_id x = i \<and> dm_tenant x = tid"
  by (auto simp: get_domain_def find_Some_iff split: option.splits if_splits)

lemma abroad_delete_domain [abroad]:
  assumes "ids_ok d" and "delete_domain cf cl d (Some tid) i = (b, calls, d')"
  shows "elsewhere tid d' = elsewhere tid d"
proof (cases "get_domain d (Some tid) i")
  case (Some x)
  note x = get_domainD [OF this]
  have "filter (\<lambda>x. dm_tenant x \<noteq> tid) (filter (\<lambda>x. dm_id x \<noteq> i) (db_domains d)) = filter (\<lambda>x. dm_tenant x \<noteq> tid) (db_domains d)"
    using assms(1) x unfolding ids_ok_def by (intro drop_found [where h = x]) auto
  with assms(2) Some show ?thesis by (auto simp: delete_domain_def elsewhere_def)
qed (use assms(2) in \<open>simp add: delete_domain_def\<close>)

lemma register_tenant: "register_hostname cf cl x = (y, calls) \<Longrightarrow> dm_tenant y = dm_tenant x"
  by (auto simp: register_hostname_def split: option.splits if_splits)

lemma abroad_verify [abroad]:
  assumes "ids_ok d" and "verify_domain cf res cl d (Some tid) i = Inr (y, calls, d')"
  shows "elsewhere tid d' = elsewhere tid d"
proof -
  from assms(2) obtain x where g: "get_domain d (Some tid) i = Some x"
    by (auto simp: verify_domain_def split: option.splits)
  note x = get_domainD [OF g]
  have "filter (\<lambda>x. dm_tenant x \<noteq> tid) (upd_where (\<lambda>z. dm_id z = i) (\<lambda>_. y) (db_domains d)) =
      filter (\<lambda>x. dm_tenant x \<noteq> tid) (db_domains d)" if "dm_tenant y = tid"
    using assms(1) x that unfolding ids_ok_def by (intro upd_found [where h = x]) auto
  with assms(2) g x show ?thesis
    by (auto simp: verify_domain_def elsewhere_def split: sum.splits if_splits prod.splits dest: register_tenant)
qed

section \<open>Marketplace apps\<close>

lemma keeps_db_lift [keeps]: "keeps I (lift r)"
  by (rule keepsI) (simp add: lift_def)

lemma keeps_db_engine: "keeps (\<lambda>w. Q (pa_db w)) (via_engine m)"
  by (rule keepsI) (auto simp: via_engine_def split: prod.splits)

lemma keeps_db_catalog: "keeps (\<lambda>w. Q (pa_db w)) (via_catalog m)"
  by (rule keepsI) (auto simp: via_catalog_def split: prod.splits)

lemma keeps_db_read: "keeps (\<lambda>w. Q (pa_db w)) (app_read f)"
  by (rule keepsI) (auto simp: app_read_def)

lemma keeps_db_write: "(\<And>d d'. f d = Inr d' \<Longrightarrow> Q d \<Longrightarrow> Q d') \<Longrightarrow> keeps (\<lambda>w. Q (pa_db w)) (app_write f)"
  by (rule keepsI) (auto simp: app_write_def split: sum.splits)

lemmas keeps_db = keeps keeps_db_engine keeps_db_catalog keeps_db_read keeps_db_write

definition abroad_same :: "string \<Rightarrow> db \<Rightarrow> db \<Rightarrow> bool" where
  "abroad_same tid d0 d \<longleftrightarrow> elsewhere tid d = elsewhere tid d0"

lemma keeps_require: "keeps (\<lambda>w. Q (pa_db w)) (app_require_actions v)"
  "keeps (\<lambda>w. Q (pa_db w)) (ensure_app_access tid p)" "keeps (\<lambda>w. Q (pa_db w)) (engine_refuse msg c)"
  unfolding app_require_actions_def ensure_app_access_def engine_refuse_def by (intro keeps_db)+

lemma keeps_reads:
  "keeps (\<lambda>w. Q (pa_db w)) (list_catalog v s c)" "keeps (\<lambda>w. Q (pa_db w)) (list_installed_for_tenant v t)"
  "keeps (\<lambda>w. Q (pa_db w)) (control_for_tenant v t p act)" "keeps (\<lambda>w. Q (pa_db w)) (logs_for_tenant v t p n)"
  "keeps (\<lambda>w. Q (pa_db w)) (compute_for_tenant v flt t p)"
  unfolding list_catalog_def list_installed_for_tenant_def control_for_tenant_def logs_for_tenant_def compute_for_tenant_def Let_def
  by (auto intro!: keeps_db keeps_require split: exn.split)

lemma keeps_remove: "keeps (\<lambda>w. abroad_same tid d0 (pa_db w)) (remove_for_tenant v (Some tid) p vol)"
  unfolding remove_for_tenant_def by (auto intro!: keeps_db keeps_require simp: abroad_same_def abroad)

lemma keeps_install: "keeps (\<lambda>w. abroad_same tid d0 (pa_db w)) (install_for_tenant v i now (Some tid) slug nm dom')"
  unfolding install_for_tenant_def install_template_def install_reserved_def deploy_reserved_def Let_def
  by (auto intro!: keeps_db keeps_require simp: abroad_same_def abroad install_row_def split: option.split)

section \<open>Every route\<close>

text \<open>
  \<open>own_rows tid m\<close>: with no other request in between, the step leaves the rows of other tenants
  alone.
\<close>

definition own_rows :: "string \<Rightarrow> 'a etask \<Rightarrow> bool" where
  "own_rows tid m \<longleftrightarrow> (\<forall>w r w'. m w = (r, w') \<longrightarrow> ids_ok (en_db w) \<longrightarrow> wd_env (en_rest w) = [] \<longrightarrow>
     elsewhere tid (en_db w') = elsewhere tid (en_db w))"

lemma own_by_apps:
  assumes "\<And>d0. keeps (\<lambda>w. abroad_same tid d0 (pa_db w)) m"
  shows "own_rows tid (by_apps m)"
  unfolding own_rows_def
proof (intro allI impI)
  fix w r w'
  assume "by_apps m w = (r, w')"
  then obtain x where x: "m \<lparr>pa_db = en_db w, pa_cmds = en_cmds w, pa_catalog = en_catalog w\<rparr> = (r, x)" "en_db w' = pa_db x"
    by (auto simp: by_apps_def split: prod.splits)
  from keepsD [OF assms [of "en_db w"] _ x(1)] x(2) show "elsewhere tid (en_db w') = elsewhere tid (en_db w)"
    by (simp add: abroad_same_def)
qed

lemma own_by_read: "own_rows tid (by_read f)"
  by (simp add: own_rows_def by_read_def)

lemma own_by_write: "(\<And>d x d'. ids_ok d \<Longrightarrow> f d = Inr (x, d') \<Longrightarrow> elsewhere tid d' = elsewhere tid d) \<Longrightarrow> own_rows tid (by_write f)"
  by (auto simp: own_rows_def by_write_def split: sum.splits prod.splits)

lemma own_by_spawn: "(\<And>d x d'. f d = Inr (x, d') \<Longrightarrow> elsewhere tid d' = elsewhere tid d) \<Longrightarrow> own_rows tid (by_spawn f)"
  by (auto simp: own_rows_def by_spawn_def split: sum.splits prod.splits)

lemma own_by_domains:
  "(\<And>d x calls d'. ids_ok d \<Longrightarrow> f d = Inr (x, calls, d') \<Longrightarrow> elsewhere tid d' = elsewhere tid d) \<Longrightarrow> own_rows tid (by_domains f)"
  by (auto simp: own_rows_def by_domains_def split: sum.splits prod.splits)

lemma keeps_stack_removal: "keeps (\<lambda>w. wd_db w = d) (remove_preview_stack sv stack)"
  unfolding remove_preview_stack_def
  by (auto intro!: keeps split: exn.split) (auto intro!: keepsI simp: command_act_def split: prod.splits)

lemma own_delete_preview: "own_rows tid (by_task (delete_preview sv (Some tid) i))"
  unfolding own_rows_def
proof (intro allI impI)
  fix w r w'
  assume run: "by_task (delete_preview sv (Some tid) i) w = (r, w')" and ids: "ids_ok (en_db w)" and none: "wd_env (en_rest w) = []"
  let ?w = "(en_rest w)\<lparr>wd_db := en_db w, wd_cmds := en_cmds w\<rparr>" and ?sel = "\<lambda>v. pv_id v = i \<and> pv_tenant v = tid"
  from run obtain x where x: "delete_preview sv (Some tid) i ?w = (r, x)" and w': "en_db w' = wd_db x"
    by (auto simp: by_task_def split: prod.splits)
  have o: "opened ?w = ?w" using none by (simp add: opened_def)
  show "elsewhere tid (en_db w') = elsewhere tid (en_db w)"
  proof (cases "isl (require_deploy_actions (td_cf sv)) \<or> find ?sel (db_previews (en_db w)) = None")
    case True
    with x o have "wd_db x = en_db w"
      by (auto simp: delete_preview_def drop_preview_def act_bind_def lift_result_def act_raise_def take_preview_def Let_def act_return_def
          split: sum.splits)
    with w' show ?thesis by simp
  next
    case False
    then obtain v where v: "find ?sel (db_previews (en_db w)) = Some v" and go: "require_deploy_actions (td_cf sv) = Inr ()" by (auto dest!: Inr_of_not_isl)
    have v2: "v \<in> set (db_previews (en_db w))" "pv_tenant v = tid" using v by (auto simp: find_Some_iff)
    let ?d = "(en_db w)\<lparr>db_previews := filter (\<lambda>x. pv_id x \<noteq> pv_id v) (db_previews (en_db w))\<rparr>"
    obtain q y where y: "remove_preview_stack sv (pv_stack v) (?w\<lparr>wd_db := ?d\<rparr>) = (q, y)" by fastforce
    from keepsD [OF keeps_stack_removal _ y, of ?d] have "wd_db y = ?d" by simp
    moreover from x y v go o have "x = y"
      by (auto simp: delete_preview_def drop_preview_def act_bind_def lift_result_def take_preview_def Let_def act_return_def
          split: sum.splits)
    ultimately have "wd_db x = ?d" by simp
    moreover have "filter (\<lambda>x. pv_tenant x \<noteq> tid) (filter (\<lambda>x. pv_id x \<noteq> pv_id v) (db_previews (en_db w))) =
        filter (\<lambda>x. pv_tenant x \<noteq> tid) (db_previews (en_db w))"
      using ids v2 unfolding ids_ok_def by (intro drop_found [where h = v]) auto
    ultimately show ?thesis using w' by (simp add: elsewhere_def)
  qed
qed

text \<open>The same of a handler, on the database of the request.\<close>

definition own_handler :: "string \<Rightarrow> 'a egtask \<Rightarrow> bool" where
  "own_handler tid h \<longleftrightarrow> (\<forall>g r g'. h g = (r, g') \<longrightarrow> ids_ok (aw_db (gt_api g)) \<longrightarrow> wd_env (en_rest (gt_svc g)) = [] \<longrightarrow>
     elsewhere tid (aw_db (gt_api g')) = elsewhere tid (aw_db (gt_api g)))"

interpretation engine: session_store en_db "\<lambda>d w. w\<lparr>en_db := d\<rparr>"
  by unfold_locales simp_all

lemma own_of_engine: "own_rows tid m \<Longrightarrow> own_handler tid (of_engine m)"
  unfolding own_handler_def of_engine_def
proof (intro allI impI)
  fix g r g'
  assume "own_rows tid m" and run: "engine.service m g = (r, g')" and "ids_ok (aw_db (gt_api g))" "wd_env (en_rest (gt_svc g)) = []"
  with engine.service_run [OF run] show "elsewhere tid (aw_db (gt_api g')) = elsewhere tid (aw_db (gt_api g))"
    by (auto simp: own_rows_def)
qed

lemma own_http: "own_handler tid m \<Longrightarrow> own_handler tid (http_as f m)"
  unfolding own_handler_def by (auto dest!: http_as_run)

lemma own_return: "own_handler tid (act_return x)" and own_raise: "own_handler tid (act_raise e)"
  by (auto simp: own_handler_def act_return_def act_raise_def)

text \<open>A continuation that only shapes the answer.\<close>

definition shapes :: "('s, 'a) sx \<Rightarrow> bool" where
  "shapes m \<longleftrightarrow> (\<forall>g. snd (m g) = g)"

lemma shapes_simps: "shapes (act_return x)" "shapes (act_raise e)" "shapes (found_or what b)"
  by (simp_all add: shapes_def act_return_def act_raise_def found_or_def)

lemma own_shaped: "own_handler tid m \<Longrightarrow> (\<And>x. shapes (f x)) \<Longrightarrow> own_handler tid (act_bind m f)"
  unfolding own_handler_def shapes_def act_bind_def by (auto split: prod.splits sum.splits) (metis snd_conv)

lemma own_shaped_seq: "own_handler tid m \<Longrightarrow> shapes n \<Longrightarrow> own_handler tid (act_seq m n)"
  unfolding act_seq_def by (rule own_shaped)

lemma own_reading: "own_handler tid m \<Longrightarrow> own_handler tid (act_seq m (act_bind (of_engine (by_read f)) (\<lambda>x. act_return (k x))))"
  unfolding own_handler_def act_seq_def act_bind_def of_engine_def of_service_def by_read_def act_return_def
  by (auto split: prod.splits sum.splits)

lemma own_gives: "own_handler tid m \<Longrightarrow> own_handler tid (gives f m)"
  unfolding gives_def by (rule own_shaped) (auto intro: shapes_simps)

lemma keeps_abroad: "(\<And>Q. keeps (\<lambda>w. Q (pa_db w)) m) \<Longrightarrow> keeps (\<lambda>w. abroad_same tid d0 (pa_db w)) m"
  by blast

lemmas own = own_gives own_shaped own_shaped_seq own_reading own_http own_of_engine own_return own_raise shapes_simps
  own_by_read own_delete_preview own_by_apps keeps_abroad [OF keeps_reads(1)] keeps_abroad [OF keeps_reads(2)]
  keeps_abroad [OF keeps_reads(3)] keeps_abroad [OF keeps_reads(4)] keeps_abroad [OF keeps_reads(5)] keeps_remove keeps_install

lemma own_deployment_own: "own_handler tid (own_deployment a i)"
  unfolding own_deployment_def by (auto intro!: own split: option.split)

lemma engine_handler_own: "own_handler (ad_tenant a) (engine_handler v now a rq)"
  by (cases rq)
    (auto simp: api_apps_catalog_def api_apps_installed_def api_apps_install_def api_apps_start_def api_apps_stop_def
      api_apps_remove_def api_apps_logs_def api_apps_compute_def api_deploy_git_def api_list_deploys_def api_deploy_status_def
      api_explain_deploy_def api_stream_deploy_logs_def api_rollback_deploy_def api_add_domain_def api_list_domains_def
      api_verify_domain_def api_delete_domain_def api_list_deploy_env_def api_set_deploy_env_def api_delete_deploy_env_def
      api_create_deploy_hook_def api_list_deploy_hooks_def api_delete_deploy_hook_def api_list_previews_def
      api_delete_preview_def split_def abroad
      intro!: own own_deployment_own own_by_write own_by_spawn own_by_domains
      dest: abroad_start abroad_rollback abroad_delete_env abroad_create_hook abroad_delete_hook abroad_add_domain
        abroad_delete_domain abroad_verify)

section \<open>What the environment routes reveal\<close>

text \<open>A variable and a request without the value that is to stay secret.\<close>

definition public_row :: "app_env_var \<Rightarrow> app_env_var" where
  "public_row e = e\<lparr>ev_value := if ev_secret e then [] else ev_value e\<rparr>"

fun public_request :: "engine_request \<Rightarrow> engine_request" where
  "public_request (SetEnv p key val secret bt) = SetEnv p key (if secret then [] else val) secret bt"
| "public_request rq = rq"

fun env_request :: "engine_request \<Rightarrow> bool" where
  "env_request (ListEnv _ _ _) = True"
| "env_request (SetEnv _ _ _ _ _) = True"
| "env_request (DeleteEnv _ _) = True"
| "env_request _ = False"

definition same_public :: "db \<Rightarrow> db \<Rightarrow> bool" where
  "same_public d d' \<longleftrightarrow> map public_row (db_envs d) = map public_row (db_envs d')"

text \<open>A session of environment requests of one administrator, each in its own database session.\<close>

fun env_session ::
  "engine_env \<Rightarrow> int \<Rightarrow> admin_user \<Rightarrow> engine_request list \<Rightarrow> engine_world gate \<Rightarrow> engine_reply result list" where
  "env_session v now a [] g = []"
| "env_session v now a (rq # rqs) g =
     (case gate_scope (engine_handler v now a rq) g of (r, g') \<Rightarrow> r # env_session v now a rqs g')"

lemma public_row_fields [simp]: "ev_tenant (public_row e) = ev_tenant e" "ev_project (public_row e) = ev_project e"
  "ev_key (public_row e) = ev_key e" "ev_secret (public_row e) = ev_secret e" "ev_build (public_row e) = ev_build e"
  by (simp_all add: public_row_def)

lemma env_view_public: "env_view_of v (public_row e) = env_view_of v e"
  by (simp add: env_view_of_def) (simp add: public_row_def)

lemma map_insort: "(\<And>x. f (g x) = f x) \<Longrightarrow> map g (insort_key f x xs) = insort_key f (g x) (map g xs)"
  by (induction xs) auto

lemma map_sort: "(\<And>x. f (g x) = f x) \<Longrightarrow> map g (sort_key f xs) = sort_key f (map g xs)"
  by (induction xs) (simp_all add: map_insort)

lemma map_filter_public: "(\<And>e. P (public_row e) = P e) \<Longrightarrow> map public_row (filter P xs) = filter P (map public_row xs)"
  by (induction xs) auto

lemma list_env_public: "same_public d d' \<Longrightarrow> map public_row (list_env d tid p) = map public_row (list_env d' tid p)"
  by (simp add: same_public_def list_env_def map_sort map_filter_public)

lemma env_views_public:
  assumes "same_public d d'"
  shows "map (env_view_of v) (list_env d tid p) = map (env_view_of v) (list_env d' tid p)"
proof -
  have "map (env_view_of v) (map public_row xs) = map (env_view_of v) xs" for xs
    by (simp add: env_view_public)
  with list_env_public [OF assms] show ?thesis by metis
qed

lemma env_row_public: "env_row tid p key (public_row e) = env_row tid p key e"
  by (simp add: env_row_def)

lemma any_public: "list_ex (env_row tid p key) (map public_row xs) = list_ex (env_row tid p key) xs"
  by (simp add: list_ex_iff env_row_public)

lemma upd_public:
  "map public_row (upd_where (env_row tid p key) (\<lambda>e. e\<lparr>ev_value := x, ev_secret := s, ev_build := b\<rparr>) xs) =
   upd_where (env_row tid p key) (\<lambda>e. e\<lparr>ev_value := if s then [] else x, ev_secret := s, ev_build := b\<rparr>) (map public_row xs)"
  by (induction xs) (simp_all add: env_row_public, auto simp: public_row_def)

lemma set_env_public:
  assumes "same_public d d'" and "s \<or> val = val'"
  shows "same_public (set_env enc d tid p key val s b) (set_env enc d' tid p key val' s b)"
proof -
  have m: "map public_row (db_envs d) = map public_row (db_envs d')" using assms(1) by (simp add: same_public_def)
  then have "list_ex (env_row tid p key) (db_envs d) = list_ex (env_row tid p key) (db_envs d')"
    using any_public by metis
  with m assms(2) show ?thesis by (auto simp: same_public_def set_env_def upd_public) (auto simp: public_row_def)
qed

lemma delete_env_public:
  assumes "same_public d d'"
  shows "fst (delete_env d tid p key) = fst (delete_env d' tid p key)"
    and "same_public (snd (delete_env d tid p key)) (snd (delete_env d' tid p key))"
proof -
  have m: "map public_row (db_envs d) = map public_row (db_envs d')" using assms by (simp add: same_public_def)
  then have e: "list_ex (env_row tid p key) (db_envs d) = list_ex (env_row tid p key) (db_envs d')"
    using any_public by metis
  then show "fst (delete_env d tid p key) = fst (delete_env d' tid p key)" by (simp add: delete_env_def)
  have "map public_row (filter (\<lambda>e. \<not> env_row tid p key e) xs) = filter (\<lambda>e. \<not> env_row tid p key e) (map public_row xs)" for xs
    by (rule map_filter_public) (simp add: env_row_public)
  with m e show "same_public (snd (delete_env d tid p key)) (snd (delete_env d' tid p key))"
    by (simp add: delete_env_def same_public_def)
qed

lemma env_step_public:
  assumes "env_request rq" and "env_request rq'" and "public_request rq = public_request rq'"
    and "same_public (aw_db (gt_api g)) (aw_db (gt_api g'))"
  shows "fst (gate_scope (engine_handler v now a rq) g) = fst (gate_scope (engine_handler v now a rq') g')"
    and "same_public (aw_db (gt_api (snd (gate_scope (engine_handler v now a rq) g))))
      (aw_db (gt_api (snd (gate_scope (engine_handler v now a rq') g'))))"
proof -
  note run = gate_scope_def gives_def act_bind_def act_seq_def act_return_def act_raise_def of_engine_def of_service_def
    by_read_def by_write_def api_list_deploy_env_def api_set_deploy_env_def api_delete_deploy_env_def found_or_def
  have "fst (gate_scope (engine_handler v now a rq) g) = fst (gate_scope (engine_handler v now a rq') g') \<and>
     same_public (aw_db (gt_api (snd (gate_scope (engine_handler v now a rq) g))))
      (aw_db (gt_api (snd (gate_scope (engine_handler v now a rq') g'))))"
    using assms(1)
  proof (cases rq rule: env_request.cases)
    case (1 p n k)
    with assms(2,3) have "rq' = ListEnv p n k" by (cases rq' rule: env_request.cases) auto
    with 1 assms(4) env_views_public [OF assms(4)] show ?thesis by (simp add: run)
  next
    case (2 p key val s b)
    with assms(2,3) obtain val' where r: "rq' = SetEnv p key val' s b" "s \<or> val = val'"
      by (cases rq' rule: env_request.cases) (auto split: if_splits)
    note d = set_env_public [OF assms(4) r(2), of "ee_encrypt v" "Some (ad_tenant a)" p "py_strip key" b]
    from 2 r d assms(4) env_views_public [OF d] show ?thesis by (simp add: run)
  next
    case (3 p key)
    with assms(2,3) have "rq' = DeleteEnv p key" by (cases rq' rule: env_request.cases) (auto split: if_splits)
    with 3 assms(4) delete_env_public [OF assms(4), of "Some (ad_tenant a)" p key] show ?thesis
      by (simp add: run split: prod.splits) (auto split: prod.splits)
  qed auto
  then show "fst (gate_scope (engine_handler v now a rq) g) = fst (gate_scope (engine_handler v now a rq') g')"
    and "same_public (aw_db (gt_api (snd (gate_scope (engine_handler v now a rq) g))))
      (aw_db (gt_api (snd (gate_scope (engine_handler v now a rq') g'))))" by blast+
qed

section \<open>Properties\<close>


text \<open>
  C8. Two sessions of environment requests that differ only in the values of secret variables, the
  stored ones and those being set, get the same answers.
\<close>

theorem secret_values_never_come_back:
  assumes "list_all env_request rqs" and "list_all env_request rqs'"
    and "map public_request rqs = map public_request rqs'"
    and "same_public (aw_db (gt_api g)) (aw_db (gt_api g'))"
  shows "env_session v now a rqs g = env_session v now a rqs' g'"
  using assms
proof (induction rqs arbitrary: rqs' g g')
  case (Cons rq rqs)
  then obtain rq' more' where r: "rqs' = rq' # more'" by (cases rqs') auto
  with Cons.prems have p: "env_request rq" "env_request rq'" "public_request rq = public_request rq'"
    "list_all env_request rqs" "list_all env_request more'" "map public_request rqs = map public_request more'" by auto
  note step = env_step_public [OF p(1-3) Cons.prems(4), of v now a]
  from Cons.IH [OF p(4-6) step(2)] step(1) show ?case by (simp add: r case_prod_beta)
qed simp

text \<open>
  The listing of deployments stops at twenty, whatever page is asked for, and its total count
  says so, too: an older deployment cannot be reached.
\<close>

theorem older_deployments_are_not_listed:
  assumes "20 < length (filter (\<lambda>p. dp_tenant p = ad_tenant a) (db_deployments (aw_db (gt_api g))))"
  shows "\<exists>page g'. api_list_deploys a limit offset g = (Inr (20, page), g') \<and> (20 \<le> offset \<longrightarrow> page = [])"
  using assms
  by (simp add: api_list_deploys_def act_bind_def of_engine_def of_service_def by_read_def act_return_def paginate_def
      list_deployments_def)

section \<open>Witnesses\<close>

definition demo_engine :: engine_env where
  "demo_engine = \<lparr>ee_apps = demo_apps, ee_task = demo_deps\<lparr>td_fernet := Some\<rparr>, ee_flt = \<lambda>_. None, ee_encrypt = id, ee_resolve = \<lambda>_. Inr [],
     ee_cf_client = None, ee_diagnoser = None, ee_id = ''n1'', ee_secret = ''s1'', ee_base = ''https://p/''\<rparr>"

definition demo_engine_world :: engine_world where
  "demo_engine_world = \<lparr>en_db = empty_db, en_cmds = [], en_catalog = \<lparr>pw_sent = [], pw_cache = []\<rparr>, en_spawned = [], en_calls = [],
     en_rest = demo_world\<lparr>wd_env := []\<rparr>\<rparr>"

text \<open>Two tenants with a hook each, and a secret of the first.\<close>

definition demo_hooked :: "string \<Rightarrow> db" where
  "demo_hooked val = demo_accounts\<lparr>
     db_hooks := [\<lparr>hk_id = ''h1'', hk_tenant = ''hq'', hk_project = ''web'', hk_git = ''g'', hk_ref = ''main'', hk_port = 80,
         hk_secret = ''s'', hk_enabled = True, hk_previews = True, hk_created = 0\<rparr>,
       \<lparr>hk_id = ''h2'', hk_tenant = ''t2'', hk_project = ''web'', hk_git = ''g'', hk_ref = ''main'', hk_port = 80,
         hk_secret = ''s'', hk_enabled = True, hk_previews = True, hk_created = 0\<rparr>],
     db_envs := [\<lparr>ev_tenant = ''hq'', ev_project = ''web'', ev_key = ''KEY'', ev_value = val, ev_secret = True, ev_build = False\<rparr>]\<rparr>"

definition demo_engine_gate :: "string \<Rightarrow> engine_world gate" where
  "demo_engine_gate val = \<lparr>gt_api = demo_api\<lparr>aw_db := demo_hooked val\<rparr>, gt_svc = demo_engine_world\<rparr>"


lemma secret_values_never_come_back_witness:
  "env_session demo_engine 0 (new_admin ''root'' ''hq'' ''r@x.y'' ''R'' ''p'' ROLE_OWNER 0)
     [ListEnv ''web'' 10 0, SetEnv ''web'' ''NEW'' ''one'' True False] (demo_engine_gate ''x'') =
   env_session demo_engine 0 (new_admin ''root'' ''hq'' ''r@x.y'' ''R'' ''p'' ROLE_OWNER 0)
     [ListEnv ''web'' 10 0, SetEnv ''web'' ''NEW'' ''two'' True False] (demo_engine_gate ''y'')"
proof -
  have "same_public (aw_db (gt_api (demo_engine_gate ''x''))) (aw_db (gt_api (demo_engine_gate ''y'')))"
    by (simp add: same_public_def demo_engine_gate_def demo_hooked_def public_row_def)
  then show ?thesis by (intro secret_values_never_come_back) simp_all
qed

text \<open>Twenty-one deployments, and the page after the first twenty.\<close>

definition demo_many :: "engine_world gate" where
  "demo_many = \<lparr>gt_api = demo_api\<lparr>aw_db := demo_accounts\<lparr>db_deployments :=
       replicate 21 (queued_row ''d'' 0 (Some ''hq'') ''web'' ''g'' ''main'' 80)\<rparr>\<rparr>, gt_svc = demo_engine_world\<rparr>"

lemma older_deployments_are_not_listed_witness:
  "\<exists>g'. api_list_deploys (new_admin ''root'' ''hq'' ''r@x.y'' ''R'' ''p'' ROLE_OWNER 0) 10 20 demo_many = (Inr (20, []), g')"
proof -
  let ?a = "new_admin ''root'' ''hq'' ''r@x.y'' ''R'' ''p'' ROLE_OWNER 0"
  have "filter (\<lambda>p. dp_tenant p = ad_tenant ?a) (db_deployments (aw_db (gt_api demo_many))) =
      replicate 21 (queued_row ''d'' 0 (Some ''hq'') ''web'' ''g'' ''main'' 80)"
    by (simp add: demo_many_def new_admin_def queued_row_def)
  then have "20 < length (filter (\<lambda>p. dp_tenant p = ad_tenant ?a) (db_deployments (aw_db (gt_api demo_many))))" by simp
  from older_deployments_are_not_listed [OF this, of 10 20] show ?thesis by auto
qed

end
