(* ===== verification/Cloudflare.thy ===== *)
theory Cloudflare
  imports CoolifyClient Resources
begin

text \<open>
  The Cloudflare client (\<^verbatim>\<open>services/cloudflare.py\<close>): zones and records, settings, analytics, import
  and export of zone files, custom hostnames and the resold subscriptions. The HTTP answers, the
  JSON decoder, the dates of the last days and pydantic's reading of an optional flag are
  parameters. A zone file goes out as a form; it stands in the body of the request as a text.
\<close>

section \<open>Rows\<close>

record cloudflare_zone = cf_zone +
  cz_status :: string
  cz_account :: string
  cz_paused :: bool

record cloudflare_record = cf_record +
  cr_type :: string
  cr_content :: string
  cr_ttl :: int
  cr_proxied :: "bool option"
  cr_priority :: "int option"

datatype cloudflare_cached = KZones "cloudflare_zone list" | KRecords "cloudflare_record list"

type_synonym 'a kact = "(cloudflare_cached, 'a) pact"

record cloudflare_env =
  kv_provider :: provider
  kv_token :: string
  kv_ttl :: int
  kv_flag :: "json \<Rightarrow> bool option result"
  kv_day :: "int \<Rightarrow> string"

text \<open>\<open>(raw.get(k) or {})\<close>, a dict or the AttributeError of its \<open>get\<close>.\<close>

definition dict_at :: "jdict \<Rightarrow> string \<Rightarrow> jdict result" where
  "dict_at m k = as_dict (jor [jget m k, JObj []])"

definition normalize_zone :: "json \<Rightarrow> cloudflare_zone result" where
  "normalize_zone v = rbind (as_dict v) (\<lambda>m. rbind (dict_at m ''account'') (\<lambda>acc.
     Inr \<lparr>zn_id = text_of m [''id''] [], zn_name = text_of m [''name''] ''unknown'', cz_status = text_of m [''status''] ''unknown'',
       cz_account = text_of acc [''name''] [], cz_paused = truthy (jget_or m ''paused'' (JBool False))\<rparr>))"

text \<open>The priority of a record may be in its data.\<close>

definition record_priority :: "jdict \<Rightarrow> json" where
  "record_priority m = (case jget m ''priority'' of
       JNull \<Rightarrow> (case jget m ''data'' of JObj d \<Rightarrow> jget d ''priority'' | _ \<Rightarrow> JNull)
     | v \<Rightarrow> v)"

definition normalize_record :: "cloudflare_env \<Rightarrow> json \<Rightarrow> cloudflare_record result" where
  "normalize_record kv v = rbind (as_dict v) (\<lambda>m. rbind (int_of m [''ttl'']) (\<lambda>ttl.
     rbind (if record_priority m = JNull then Inr None else map_sum id Some (jint (record_priority m))) (\<lambda>prio.
     rbind (kv_flag kv (jget m ''proxied'')) (\<lambda>proxied.
     Inr \<lparr>rc_id = text_of m [''id''] [], rc_name = text_of m [''name''] [], cr_type = text_of m [''type''] [],
       cr_content = text_of m [''content''] [], cr_ttl = ttl, cr_proxied = proxied, cr_priority = prio\<rparr>))))"

section \<open>Analytics\<close>

record zone_point =
  zp_date :: string
  zp_requests :: int
  zp_bytes :: int
  zp_cached :: int
  zp_threats :: int
  zp_uniques :: int

record zone_totals =
  zt_requests :: int
  zt_bytes :: int
  zt_cached :: int
  zt_threats :: int
  zt_uniques :: int

record zone_analytics =
  za_since :: string
  za_until :: string
  za_points :: "zone_point list"
  za_totals :: zone_totals

definition no_totals :: zone_totals where
  "no_totals = \<lparr>zt_requests = 0, zt_bytes = 0, zt_cached = 0, zt_threats = 0, zt_uniques = 0\<rparr>"

definition sub_item :: "string \<Rightarrow> json option \<Rightarrow> json option" where
  "sub_item k v = (case v of Some (JObj m) \<Rightarrow> map_of m k | _ \<Rightarrow> None)"

definition first_item :: "json option \<Rightarrow> json option" where
  "first_item v = (case v of Some (JList (x # _)) \<Rightarrow> Some x | _ \<Rightarrow> None)"

text \<open>The groups of the answer; whatever is missing or of another type on the way gives none.\<close>

definition analytics_groups :: "json \<Rightarrow> json" where
  "analytics_groups payload =
     (case sub_item ''httpRequests1dGroups'' (first_item (sub_item ''zones'' (sub_item ''viewer'' (sub_item ''data'' (Some payload))))) of
        Some v \<Rightarrow> v | None \<Rightarrow> JList [])"

definition zone_point_of :: "json \<Rightarrow> zone_point result" where
  "zone_point_of v = rbind (as_dict v) (\<lambda>g. rbind (dict_at g ''sum'') (\<lambda>s. rbind (dict_at g ''uniq'') (\<lambda>u.
     rbind (dict_at g ''dimensions'') (\<lambda>dim. rbind (int_of s [''requests'']) (\<lambda>n. rbind (int_of s [''bytes'']) (\<lambda>b.
     rbind (int_of s [''cachedRequests'']) (\<lambda>c. rbind (int_of s [''threats'']) (\<lambda>t. rbind (int_of u [''uniques'']) (\<lambda>q.
     Inr \<lparr>zp_date = jstr (jor [jget dim ''date'', JStr []]), zp_requests = n, zp_bytes = b, zp_cached = c, zp_threats = t,
       zp_uniques = q\<rparr>)))))))))"

definition add_point :: "zone_totals \<Rightarrow> zone_point \<Rightarrow> zone_totals" where
  "add_point t p = \<lparr>zt_requests = zt_requests t + zp_requests p, zt_bytes = zt_bytes t + zp_bytes p,
     zt_cached = zt_cached t + zp_cached p, zt_threats = zt_threats t + zp_threats p, zt_uniques = zt_uniques t + zp_uniques p\<rparr>"

definition normalize_analytics :: "json \<Rightarrow> string \<Rightarrow> string \<Rightarrow> zone_analytics result" where
  "normalize_analytics payload since until =
     rbind (jiter (jor [analytics_groups payload, JList []])) (\<lambda>gs. rbind (map_result zone_point_of gs) (\<lambda>ps.
       Inr \<lparr>za_since = since, za_until = until, za_points = ps, za_totals = foldl add_point no_totals ps\<rparr>))"

definition bind_record_line :: "string \<Rightarrow> bool" where
  "bind_record_line l = (let s = py_strip l in s \<noteq> [] \<and> hd s \<noteq> CHR '';'' \<and> hd s \<noteq> CHR ''$'')"

definition count_bind_records :: "string \<Rightarrow> nat" where
  "count_bind_records text = length (filter bind_record_line (py_splitlines text))"

section \<open>Requests\<close>

definition CLOUDFLARE_API :: string where "CLOUDFLARE_API = ''https://api.cloudflare.com/client/v4''"

definition cloudflare_configured :: "cloudflare_env \<Rightarrow> bool" where
  "cloudflare_configured kv = (kv_token kv \<noteq> [])"

definition cloudflare_rq :: "cloudflare_env \<Rightarrow> string \<Rightarrow> string \<Rightarrow> (string \<times> string) list \<Rightarrow> json option \<Rightarrow> preq" where
  "cloudflare_rq kv verb path params body =
     \<lparr>pq_service = ''Cloudflare'', pq_method = verb, pq_url = CLOUDFLARE_API @ path,
      pq_headers = [(''Authorization'', ''Bearer '' @ kv_token kv), (''Accept'', ''application/json'')],
      pq_params = params, pq_body = body\<rparr>"

definition kask :: "cloudflare_env \<Rightarrow> string \<Rightarrow> string \<Rightarrow> json option \<Rightarrow> json kact" where
  "kask kv verb path body = call_json (kv_provider kv) (cloudflare_rq kv verb path [] body)"

definition zone_path :: "string \<Rightarrow> string \<Rightarrow> string" where
  "zone_path z rest = ''/zones/'' @ z @ rest"

definition records_key :: "string \<Rightarrow> string" where
  "records_key z = ''cloudflare:records:'' @ z"

text \<open>\<open>payload.get("result", [])\<close> and \<open>payload.get("result", {}) if isinstance(payload, dict) else {}\<close>.\<close>

definition result_rows :: "(json \<Rightarrow> 'a result) \<Rightarrow> json \<Rightarrow> 'a list result" where
  "result_rows f v = rbind (as_dict v) (\<lambda>m. rbind (jiter (jget_or m ''result'' (JList []))) (map_result f))"

definition result_of :: "json \<Rightarrow> json" where
  "result_of v = (case v of JObj m \<Rightarrow> jget_or m ''result'' (JObj []) | _ \<Rightarrow> JObj [])"

definition list_zones :: "cloudflare_env \<Rightarrow> bool \<Rightarrow> cloudflare_zone list kact" where
  "list_zones kv refresh =
     (if \<not> cloudflare_configured kv then act_return []
      else act_seq (act_when refresh (drop_cached [''cloudflare:zones'']))
        (act_bind (cached (kv_provider kv) ''cloudflare:zones'' (kv_ttl kv)
            (act_bind (call_json (kv_provider kv) (cloudflare_rq kv ''GET'' ''/zones'' [(''per_page'', ''50'')] None))
              (\<lambda>v. lift (map_sum id KZones (result_rows normalize_zone v)))))
          (\<lambda>c. act_return (case c of KZones zs \<Rightarrow> zs | _ \<Rightarrow> []))))"

definition list_dns_records :: "cloudflare_env \<Rightarrow> string \<Rightarrow> bool \<Rightarrow> cloudflare_record list kact" where
  "list_dns_records kv z refresh =
     (if \<not> cloudflare_configured kv \<or> z = [] then act_return []
      else act_seq (act_when refresh (drop_cached [records_key z]))
        (act_bind (cached (kv_provider kv) (records_key z) (kv_ttl kv)
            (act_bind (call_json (kv_provider kv) (cloudflare_rq kv ''GET'' (zone_path z ''/dns_records'') [(''per_page'', ''100'')] None))
              (\<lambda>v. lift (map_sum id KRecords (result_rows (normalize_record kv) v)))))
          (\<lambda>c. act_return (case c of KRecords rs \<Rightarrow> rs | _ \<Rightarrow> []))))"

definition UNCONFIGURED :: jdict where
  "UNCONFIGURED = [(''ok'', JBool False), (''message'', JStr ''Cloudflare is not configured.'')]"

text \<open>A write: the payload when it is a dict, after the cached records of the zone are dropped.\<close>

definition zone_write :: "cloudflare_env \<Rightarrow> string \<Rightarrow> string \<Rightarrow> json option \<Rightarrow> string list \<Rightarrow> jdict kact" where
  "zone_write kv verb path body keys =
     (if \<not> cloudflare_configured kv then act_return UNCONFIGURED
      else act_bind (kask kv verb path body) (\<lambda>v. act_seq (drop_cached keys) (act_return (or_ok v))))"

definition record_body :: "string \<Rightarrow> string \<Rightarrow> string \<Rightarrow> int \<Rightarrow> bool \<Rightarrow> int option \<Rightarrow> json" where
  "record_body ty nm content ttl proxied prio = JObj ([(''type'', JStr ty), (''name'', JStr nm), (''content'', JStr content),
     (''ttl'', JInt ttl), (''proxied'', JBool proxied)] @ (case prio of None \<Rightarrow> [] | Some n \<Rightarrow> [(''priority'', JInt n)]))"

definition create_dns_record where
  "create_dns_record kv z ty nm content ttl proxied prio = zone_write kv ''POST'' (zone_path z ''/dns_records'')
     (Some (record_body ty nm content ttl proxied prio)) [records_key z]"

definition update_dns_record where
  "update_dns_record kv z i ty nm content ttl proxied prio = zone_write kv ''PUT'' (zone_path z (''/dns_records/'' @ i))
     (Some (record_body ty nm content ttl proxied prio)) [records_key z]"

definition delete_dns_record where
  "delete_dns_record kv z i = zone_write kv ''DELETE'' (zone_path z (''/dns_records/'' @ i)) None [records_key z]"

section \<open>Hostnames and subscriptions\<close>

definition create_custom_hostname where
  "create_custom_hostname kv z host = act_bind (kask kv ''POST'' (zone_path z ''/custom_hostnames'')
     (Some (JObj [(''hostname'', JStr host), (''ssl'', JObj [(''method'', JStr ''http''), (''type'', JStr ''dv'')])])))
     (\<lambda>v. act_return (result_of v))"

definition get_custom_hostname where
  "get_custom_hostname kv z i = act_bind (kask kv ''GET'' (zone_path z (''/custom_hostnames/'' @ i)) None) (\<lambda>v. act_return (result_of v))"

definition delete_custom_hostname where
  "delete_custom_hostname kv z i = act_seq (kask kv ''DELETE'' (zone_path z (''/custom_hostnames/'' @ i)) None) (act_return ())"

definition set_fallback_origin where
  "set_fallback_origin kv z origin = act_bind (kask kv ''PUT'' (zone_path z ''/custom_hostnames/fallback_origin'')
     (Some (JObj [(''origin'', JStr origin)]))) (\<lambda>v. act_return (result_of v))"

definition list_available_plans where
  "list_available_plans kv z = act_bind (kask kv ''GET'' (zone_path z ''/available_plans'') None)
     (\<lambda>v. act_return (case v of JObj m \<Rightarrow> (case jget m ''result'' of JList xs \<Rightarrow> xs | _ \<Rightarrow> []) | _ \<Rightarrow> []))"

definition get_zone_subscription where
  "get_zone_subscription kv z = act_bind (kask kv ''GET'' (zone_path z ''/subscription'') None) (\<lambda>v. act_return (result_of v))"

definition set_zone_subscription where
  "set_zone_subscription kv z rate_plan frequency update =
     act_bind (kask kv (if update then ''PUT'' else ''POST'') (zone_path z ''/subscription'')
         (Some (JObj [(''frequency'', JStr frequency), (''rate_plan'', JObj [(''id'', JStr rate_plan)])])))
       (\<lambda>v. act_seq (drop_cached [''cloudflare:zones'']) (act_return (result_of v)))"

definition set_argo_smart_routing where
  "set_argo_smart_routing kv z on = act_bind (kask kv ''PATCH'' (zone_path z ''/argo/smart_routing'')
     (Some (JObj [(''value'', JStr (if on then ''on'' else ''off''))]))) (\<lambda>v. act_return (result_of v))"

definition create_zone where
  "create_zone kv nm account jump ty = act_bind (kask kv ''POST'' ''/zones'' (Some (JObj
       ([(''name'', JStr nm), (''type'', JStr ty), (''jump_start'', JBool jump)] @
        (if account \<noteq> [] then [(''account'', JObj [(''id'', JStr account)])] else [])))))
     (\<lambda>v. act_seq (drop_cached [''cloudflare:zones'']) (act_return (result_of v)))"

section \<open>Settings\<close>

definition ZONE_SETTING_KEYS :: "string list" where
  "ZONE_SETTING_KEYS = [''ssl'', ''always_use_https'', ''development_mode'', ''security_level'']"

definition result_field :: "string \<Rightarrow> json \<Rightarrow> json result" where
  "result_field k v = (case v of JObj m \<Rightarrow> rbind (dict_at m ''result'') (\<lambda>r. Inr (jget r k)) | _ \<Rightarrow> Inr JNull)"

definition get_zone_setting :: "cloudflare_env \<Rightarrow> string \<Rightarrow> string \<Rightarrow> json kact" where
  "get_zone_setting kv z k =
     (if \<not> cloudflare_configured kv then act_return JNull
      else act_bind (kask kv ''GET'' (zone_path z (''/settings/'' @ k)) None) (\<lambda>v. lift (result_field ''value'' v)))"

text \<open>A provider failure reads as an empty setting.\<close>

definition or_blank :: "json kact \<Rightarrow> string kact" where
  "or_blank m = act_bind (act_catch m (\<lambda>e. case e of ProviderAPIError _ _ _ \<Rightarrow> act_return JNull | _ \<Rightarrow> act_raise e))
     (\<lambda>v. act_return (if v = JNull then [] else jstr v))"

text \<open>
  \<open>asyncio.gather\<close>: the four requests are made, here in their order, whatever the others give; the
  first exception is raised once all are made.
\<close>

fun gather :: "('s, 'a) sx list \<Rightarrow> ('s, 'a list) sx" where
  "gather [] s = (Inr [], s)"
| "gather (m # ms) s = (case m s of (r, s1) \<Rightarrow> (case gather ms s1 of
     (rs, s2) \<Rightarrow> (rbind r (\<lambda>x. rbind rs (\<lambda>xs. Inr (x # xs))), s2)))"

definition get_zone_settings :: "cloudflare_env \<Rightarrow> string \<Rightarrow> (string \<times> string) list kact" where
  "get_zone_settings kv z =
     (if \<not> cloudflare_configured kv then act_return []
      else act_bind (gather (map (\<lambda>k. or_blank (get_zone_setting kv z k)) ZONE_SETTING_KEYS)) (\<lambda>vals.
        act_bind (or_blank (act_bind (kask kv ''GET'' (zone_path z ''/dnssec'') None)
            (\<lambda>v. lift (map_sum id (\<lambda>x. jor [x, JStr []]) (result_field ''status'' v)))))
          (\<lambda>st. act_return (zip ZONE_SETTING_KEYS vals @ [(''dnssec'', st)]))))"

definition update_zone_setting where
  "update_zone_setting kv z k val = zone_write kv ''PATCH'' (zone_path z (''/settings/'' @ k)) (Some (JObj [(''value'', JStr val)])) []"

definition update_dnssec where
  "update_dnssec kv z st = zone_write kv ''PATCH'' (zone_path z ''/dnssec'') (Some (JObj [(''status'', JStr st)])) []"

definition purge_cache where
  "purge_cache kv z everything files = zone_write kv ''POST'' (zone_path z ''/purge_cache'')
     (Some (if everything \<or> files = None \<or> files = Some [] then JObj [(''purge_everything'', JBool True)]
       else JObj [(''files'', JList (map JStr (case files of None \<Rightarrow> [] | Some fs \<Rightarrow> fs)))])) []"

section \<open>Analytics, export, import\<close>

text \<open>The query is the text \<open>_ZONE_ANALYTICS_QUERY\<close>, a parameter here.\<close>

definition analytics_errors :: "jdict \<Rightarrow> string result" where
  "analytics_errors m = rbind (jiter (jget m ''errors'')) (\<lambda>es. rbind (map_result (\<lambda>e. rbind (as_dict e)
     (\<lambda>d. Inr (jstr (jget_or d ''message'' e)))) es) (\<lambda>ss. Inr (join ''; '' ss)))"

definition get_zone_analytics :: "cloudflare_env \<Rightarrow> string \<Rightarrow> string \<Rightarrow> int \<Rightarrow> zone_analytics kact" where
  "get_zone_analytics kv query z days =
     (if \<not> cloudflare_configured kv then act_return \<lparr>za_since = [], za_until = [], za_points = [], za_totals = no_totals\<rparr>
      else let n = max 1 (min days 60); since = kv_day kv (n - 1); until = kv_day kv 0 in
        act_bind (kask kv ''POST'' ''/graphql'' (Some (JObj [(''query'', JStr query),
            (''variables'', JObj [(''zoneTag'', JStr z), (''since'', JStr since), (''until'', JStr until)])])))
          (\<lambda>v. lift (case v of
              JObj m \<Rightarrow> if truthy (jget m ''errors'')
                then rbind (analytics_errors m) (\<lambda>s. Inl (ProviderAPIError ''Cloudflare'' (''Analytics query failed: '' @ s) None))
                else normalize_analytics v since until
            | _ \<Rightarrow> normalize_analytics v since until)))"

definition call_text :: "provider \<Rightarrow> preq \<Rightarrow> ('c, string) pact" where
  "call_text p rq w = (let h = pw_sent w @ [rq] in
     (snd (request_text (pq_service rq) (pd_attempt p h) 3), w\<lparr>pw_sent := h\<rparr>))"

definition export_dns_records :: "cloudflare_env \<Rightarrow> string \<Rightarrow> string kact" where
  "export_dns_records kv z =
     (if \<not> cloudflare_configured kv then act_return []
      else call_text (kv_provider kv) (cloudflare_rq kv ''GET'' (zone_path z ''/dns_records/export'') [] None))"

definition import_dns_records where
  "import_dns_records kv z text = zone_write kv ''POST'' (zone_path z ''/dns_records/import'') (Some (JStr text)) [records_key z]"

end
