(* ===== verification/DnsRoutes.thy ===== *)
theory DnsRoutes
  imports Gateway Cloudflare
begin

text \<open>
  The DNS service over the Cloudflare client (\<^verbatim>\<open>modules/dns/service.py\<close>) and the routes of
  \<^verbatim>\<open>api/routes.py\<close> for records, settings, cache, analytics and zone files. The page that lists
  zones and records together is in \<open>Resources\<close>.
\<close>

section \<open>The service\<close>

record dns_world =
  dw_db :: db
  dw_cf :: "cloudflare_cached pworld"

type_synonym 'a dtask = "(dns_world, 'a) sx"

text \<open>\<open>df_query\<close> is the text of the analytics query.\<close>

record dns_env =
  df_client :: cloudflare_env
  df_query :: string

datatype dns_reply = DrDict jdict | DrSettings "(string \<times> string) list" | DrAnalytics zone_analytics | DrText string

fun run_call :: "dns_env \<Rightarrow> dns_call \<Rightarrow> dns_reply kact" where
  "run_call v (CreateDnsRecord z ty nm c ttl px pr) = gives DrDict (create_dns_record (df_client v) z ty nm c ttl px pr)"
| "run_call v (UpdateDnsRecord z i ty nm c ttl px pr) = gives DrDict (update_dns_record (df_client v) z i ty nm c ttl px pr)"
| "run_call v (DeleteDnsRecord z i) = gives DrDict (delete_dns_record (df_client v) z i)"
| "run_call v (GetZoneSettings z) = gives DrSettings (get_zone_settings (df_client v) z)"
| "run_call v (UpdateZoneSetting z k val) = gives DrDict (update_zone_setting (df_client v) z k val)"
| "run_call v (UpdateDnssec z st) = gives DrDict (update_dnssec (df_client v) z st)"
| "run_call v (PurgeCache z everything files) = gives DrDict (purge_cache (df_client v) z everything files)"
| "run_call v (GetZoneAnalytics z days) = gives DrAnalytics (get_zone_analytics (df_client v) (df_query v) z days)"
| "run_call v (ExportDnsRecords z) = gives DrText (export_dns_records (df_client v) z)"
| "run_call v (ImportDnsRecords z text) = gives DrDict (import_dns_records (df_client v) z text)"

text \<open>Every operation for a tenant: the access check, then the call of the client.\<close>

definition zone_access :: "string option \<Rightarrow> string \<Rightarrow> unit dtask" where
  "zone_access tid z w = (ensure_zone_access (dw_db w) tid z, w)"

definition by_cloudflare :: "'a kact \<Rightarrow> 'a dtask" where
  "by_cloudflare m w = (case m (dw_cf w) of (r, c) \<Rightarrow> (r, w\<lparr>dw_cf := c\<rparr>))"

definition dns_for_tenant :: "dns_env \<Rightarrow> string option \<Rightarrow> dns_call \<Rightarrow> dns_reply dtask" where
  "dns_for_tenant v tid call = act_seq (zone_access tid (call_zone call)) (by_cloudflare (run_call v call))"

section \<open>The routes\<close>

type_synonym 'a dgtask = "(dns_world, 'a) gtask"

definition gated_dns :: "dns_env \<Rightarrow> admin_user \<Rightarrow> dns_call \<Rightarrow> dns_reply dgtask" where
  "gated_dns v a call = http_as provider_as
     (of_service dw_db (\<lambda>d w. w\<lparr>dw_db := d\<rparr>) (dns_for_tenant v (Some (ad_tenant a)) call))"

definition api_create_dns_record where
  "api_create_dns_record v a z ty nm content ttl proxied prio =
     act_seq (gated_dns v a (CreateDnsRecord z ty nm content ttl proxied prio)) (act_return (acted ''DNS record created.''))"

definition api_update_dns_record where
  "api_update_dns_record v a z i ty nm content ttl proxied prio =
     act_seq (gated_dns v a (UpdateDnsRecord z i ty nm content ttl proxied prio)) (act_return (acted ''DNS record updated.''))"

definition api_delete_dns_record where
  "api_delete_dns_record v a z i =
     act_seq (gated_dns v a (DeleteDnsRecord z i)) (act_return (acted ''DNS record deleted.''))"

record zone_settings_view =
  zs_ssl :: string
  zs_always_https :: string
  zs_development :: string
  zs_security :: string
  zs_dnssec :: string

definition setting_of :: "(string \<times> string) list \<Rightarrow> string \<Rightarrow> string" where
  "setting_of m k = (case map_of m k of Some s \<Rightarrow> s | None \<Rightarrow> [])"

definition api_zone_settings :: "dns_env \<Rightarrow> admin_user \<Rightarrow> string \<Rightarrow> zone_settings_view dgtask" where
  "api_zone_settings v a z =
     act_bind (gated_dns v a (GetZoneSettings z)) (\<lambda>r. let m = (case r of DrSettings m \<Rightarrow> m | _ \<Rightarrow> []) in
       act_return \<lparr>zs_ssl = setting_of m ''ssl'', zs_always_https = setting_of m ''always_use_https'',
         zs_development = setting_of m ''development_mode'', zs_security = setting_of m ''security_level'',
         zs_dnssec = setting_of m ''dnssec''\<rparr>)"

definition api_update_zone_setting where
  "api_update_zone_setting v a z k val =
     act_seq (gated_dns v a (UpdateZoneSetting z k val)) (act_return (acted (k @ '' updated.'')))"

definition api_update_dnssec where
  "api_update_dnssec v a z st = act_seq (gated_dns v a (UpdateDnssec z st)) (act_return (acted ''DNSSEC updated.''))"

definition api_purge_cache where
  "api_purge_cache v a z everything files =
     act_seq (gated_dns v a (PurgeCache z everything (Some files))) (act_return (acted ''Cache purge requested.''))"

text \<open>\<open>days\<close> is read as an integer, and is seven when it is missing or none.\<close>

definition days_param :: "string option \<Rightarrow> int" where
  "days_param q = (case q of None \<Rightarrow> 7 | Some s \<Rightarrow> (case py_int s of Some n \<Rightarrow> n | None \<Rightarrow> 7))"

definition api_zone_analytics :: "dns_env \<Rightarrow> admin_user \<Rightarrow> string \<Rightarrow> string option \<Rightarrow> (string \<times> zone_analytics) dgtask" where
  "api_zone_analytics v a z days =
     act_bind (gated_dns v a (GetZoneAnalytics z (days_param days))) (\<lambda>r. case r of
         DrAnalytics x \<Rightarrow> act_return (z, x)
       | _ \<Rightarrow> act_return (z, \<lparr>za_since = [], za_until = [], za_points = [], za_totals = no_totals\<rparr>))"

definition api_export_dns_records :: "dns_env \<Rightarrow> admin_user \<Rightarrow> string \<Rightarrow> (string \<times> string \<times> nat) dgtask" where
  "api_export_dns_records v a z =
     act_bind (gated_dns v a (ExportDnsRecords z)) (\<lambda>r. let text = (case r of DrText s \<Rightarrow> s | _ \<Rightarrow> []) in
       act_return (z, text, count_bind_records text))"

definition import_message :: "jdict \<Rightarrow> string result" where
  "import_message m = rbind (dict_at m ''result'') (\<lambda>r. Inr (case jget r ''recs_added'' of
       JNull \<Rightarrow> ''DNS records imported.'' | n \<Rightarrow> ''Imported '' @ jstr n @ '' records.''))"

definition api_import_dns_records :: "dns_env \<Rightarrow> admin_user \<Rightarrow> string \<Rightarrow> string \<Rightarrow> action_reply dgtask" where
  "api_import_dns_records v a z text =
     (if py_strip text = [] then act_raise (HTTPException 400 ''No zone file provided.'')
      else act_bind (gated_dns v a (ImportDnsRecords z text)) (\<lambda>r.
        act_bind (lift (import_message (case r of DrDict m \<Rightarrow> m | _ \<Rightarrow> []))) (\<lambda>s. act_return (acted s))))"

section \<open>Behind the guard\<close>

datatype dns_rq =
    NewRecord string string string string int bool "int option" | ChangeRecord string string string string string int bool "int option"
  | DropRecord string string | ShowSettings string | SetSetting string string string | SetDnssec string string
  | Purge string bool "string list" | ShowAnalytics string "string option" | ExportZone string | ImportZone string string

datatype dns_answer = DaDone action_reply | DaSettings zone_settings_view | DaAnalytics string zone_analytics | DaExport string string nat

fun dns_method :: "dns_rq \<Rightarrow> string" where
  "dns_method (NewRecord _ _ _ _ _ _ _) = ''POST''"
| "dns_method (ChangeRecord _ _ _ _ _ _ _ _) = ''PUT''"
| "dns_method (DropRecord _ _) = ''DELETE''"
| "dns_method (SetSetting _ _ _) = ''PATCH''"
| "dns_method (SetDnssec _ _) = ''PATCH''"
| "dns_method (Purge _ _ _) = ''POST''"
| "dns_method (ImportZone _ _) = ''POST''"
| "dns_method _ = ''GET''"

fun dns_handler :: "dns_env \<Rightarrow> admin_user \<Rightarrow> dns_rq \<Rightarrow> dns_answer dgtask" where
  "dns_handler v a (NewRecord z ty nm c ttl px pr) = gives DaDone (api_create_dns_record v a z ty nm c ttl px pr)"
| "dns_handler v a (ChangeRecord z i ty nm c ttl px pr) = gives DaDone (api_update_dns_record v a z i ty nm c ttl px pr)"
| "dns_handler v a (DropRecord z i) = gives DaDone (api_delete_dns_record v a z i)"
| "dns_handler v a (ShowSettings z) = gives DaSettings (api_zone_settings v a z)"
| "dns_handler v a (SetSetting z k val) = gives DaDone (api_update_zone_setting v a z k val)"
| "dns_handler v a (SetDnssec z st) = gives DaDone (api_update_dnssec v a z st)"
| "dns_handler v a (Purge z everything files) = gives DaDone (api_purge_cache v a z everything files)"
| "dns_handler v a (ShowAnalytics z days) = gives (case_prod DaAnalytics) (api_zone_analytics v a z days)"
| "dns_handler v a (ExportZone z) = gives (\<lambda>(z, s, n). DaExport z s n) (api_export_dns_records v a z)"
| "dns_handler v a (ImportZone z text) = gives DaDone (api_import_dns_records v a z text)"

definition dns_route :: "gate_env \<Rightarrow> dns_env \<Rightarrow> api_call \<Rightarrow> dns_rq \<Rightarrow> dns_answer dgtask" where
  "dns_route u v call rq = gate_route (gate_admin u call (dns_method rq)) True (\<lambda>a. dns_handler v a rq)"

end
