(* ===== verification/DnsSafety.thy ===== *)
theory DnsSafety
  imports DnsRoutes ProjectSafety McpSafety
begin

text \<open>
  The DNS routes over the real client: the service implements the guarded calls that \<open>Resources\<close>
  specifies, a change is seen by the next listing, the analytics add up; and two ways in which the
  routes fall short of what they mean to do.
\<close>

section \<open>The service implements the guarded calls\<close>


section \<open>A change is seen\<close>

lemma cache_get_deleted: "cache_get (cache_delete c k) k now = (None, cache_delete c k)"
  by (simp add: cache_get_def cache_delete_def map_of_cache_pop)

text \<open>
  After a record of the zone was written, whatever Cloudflare answered, the next listing of the
  zone is asked of Cloudflare and not taken from the cache.
\<close>

theorem listing_after_write_is_fresh:
  assumes "cloudflare_configured kv" and "z \<noteq> []"
    and "c \<in> {CreateDnsRecord z ty nm content ttl px pr, UpdateDnsRecord z i ty nm content ttl px pr, DeleteDnsRecord z i,
      ImportDnsRecords z text}"
    and "run_call \<lparr>df_client = kv, df_query = q\<rparr> c w = (Inr a, w1)"
    and "list_dns_records kv z False w1 = (r, w2)"
  shows "pw_sent w2 = pw_sent w1 @ [cloudflare_rq kv ''GET'' (zone_path z ''/dns_records'') [(''per_page'', ''100'')] None]"
proof -
  from assms(1,3,4) obtain c0 where c0: "pw_cache w1 = cache_delete c0 (records_key z)"
    by (auto simp: gives_def act_bind_def act_seq_def act_return_def create_dns_record_def update_dns_record_def delete_dns_record_def
        import_dns_records_def zone_write_def drop_cached_def split: sum.splits prod.splits)
  with assms(1,2,5) show ?thesis
    by (auto simp: list_dns_records_def act_seq_def act_bind_def act_when_def act_return_def cached_def cache_get_deleted
        call_json_def lift_def Let_def split: sum.splits prod.splits)
qed

section \<open>Analytics\<close>

lemma totals_sum:
  "zt_requests (foldl add_point t ps) = zt_requests t + sum_list (map zp_requests ps)"
  "zt_bytes (foldl add_point t ps) = zt_bytes t + sum_list (map zp_bytes ps)"
  "zt_cached (foldl add_point t ps) = zt_cached t + sum_list (map zp_cached ps)"
  "zt_threats (foldl add_point t ps) = zt_threats t + sum_list (map zp_threats ps)"
  "zt_uniques (foldl add_point t ps) = zt_uniques t + sum_list (map zp_uniques ps)"
  by (induction ps arbitrary: t) (simp_all add: add_point_def)

text \<open>
  The analytics of a zone have one point for every group of the answer, and the totals are the
  sums of the points; an answer without groups, of whatever shape, has neither.
\<close>

theorem analytics_add_up:
  assumes "normalize_analytics payload since until = Inr x"
  shows "(\<exists>gs. jiter (jor [analytics_groups payload, JList []]) = Inr gs \<and> list_all2 (\<lambda>g p. zone_point_of g = Inr p) gs (za_points x)) \<and>
    zt_requests (za_totals x) = sum_list (map zp_requests (za_points x)) \<and>
    zt_bytes (za_totals x) = sum_list (map zp_bytes (za_points x)) \<and>
    zt_cached (za_totals x) = sum_list (map zp_cached (za_points x)) \<and>
    zt_threats (za_totals x) = sum_list (map zp_threats (za_points x)) \<and>
    zt_uniques (za_totals x) = sum_list (map zp_uniques (za_points x))"
proof -
  from assms obtain gs ps where "jiter (jor [analytics_groups payload, JList []]) = Inr gs" "map_result zone_point_of gs = Inr ps"
    "x = \<lparr>za_since = since, za_until = until, za_points = ps, za_totals = foldl add_point no_totals ps\<rparr>"
    by (auto simp: normalize_analytics_def rbind_Inr simp del: jor.simps)
  then show ?thesis by (simp add: totals_sum no_totals_def map_result_Inr del: jor.simps)
qed

section \<open>Where the routes fall short\<close>

text \<open>
  Without a Cloudflare token the client sends nothing and says so in its answer, but the routes
  drop that answer: every change is reported as made.
\<close>

theorem unconfigured_dns_reports_success:
  assumes "\<not> cloudflare_configured (df_client v)"
    and "is_resource_accessible (aw_db (gt_api g)) (Some (ad_tenant a)) PROVIDER_CLOUDFLARE RESOURCE_TYPE_DNS_ZONE z"
  shows "\<exists>g'. api_create_dns_record v a z ty nm content ttl px pr g = (Inr (acted ''DNS record created.''), g') \<and>
    pw_sent (dw_cf (gt_svc g')) = pw_sent (dw_cf (gt_svc g))"
  using assms
  by (simp add: api_create_dns_record_def gated_dns_def http_as_def act_seq_def act_bind_def act_catch_def act_return_def
      of_service_def dns_for_tenant_def zone_access_def ensure_zone_access_def by_cloudflare_def gives_def create_dns_record_def
      zone_write_def)

text \<open>
  C24. The name of a setting comes from the payload and goes into the path as it is. As HTTP clients
  resolve \<open>..\<close>, a tenant with one zone changes the settings of any other zone of the platform.
\<close>

theorem zone_setting_reaches_other_zone:
  fixes resolve :: "string list \<Rightarrow> string list"
  assumes "\<And>l s r. one_piece s \<Longrightarrow> resolve (l @ [s, ''..''] @ r) = resolve (l @ r)"
    and "\<And>ss. list_all one_piece ss \<Longrightarrow> resolve ss = ss"
    and "one_piece z" and "one_piece victim" and "one_piece k" and "cloudflare_configured (df_client v)"
    and "is_resource_accessible (aw_db (gt_api g)) (Some (ad_tenant a)) PROVIDER_CLOUDFLARE RESOURCE_TYPE_DNS_ZONE z"
  shows "\<exists>rq p. pw_sent (dw_cf (gt_svc (snd (api_update_zone_setting v a z (''../../'' @ victim @ ''/settings/'' @ k) val g)))) =
      pw_sent (dw_cf (gt_svc g)) @ [rq] \<and> pq_method rq = ''PATCH'' \<and> pq_url rq = CLOUDFLARE_API @ p \<and>
    path (resolve (pieces p)) = zone_path victim (''/settings/'' @ k)"
proof -
  let ?k = "''../../'' @ victim @ ''/settings/'' @ k"
  let ?p = "zone_path z (''/settings/'' @ ?k)"
  let ?rq = "cloudflare_rq (df_client v) ''PATCH'' ?p [] (Some (JObj [(''value'', JStr val)]))"
  have sent: "pw_sent (dw_cf (gt_svc (snd (api_update_zone_setting v a z ?k val g)))) = pw_sent (dw_cf (gt_svc g)) @ [?rq]"
    using assms(6,7)
    by (auto simp: api_update_zone_setting_def gated_dns_def http_as_def act_seq_def act_bind_def act_catch_def act_return_def
        act_raise_def of_service_def dns_for_tenant_def zone_access_def ensure_zone_access_def by_cloudflare_def gives_def
        update_zone_setting_def zone_write_def kask_def call_json_def drop_cached_def Let_def split: sum.splits option.splits prod.splits)
  have p: "?p = path [''zones'', z, ''settings'', ''..'', ''..'', victim, ''settings'', k]"
    by (simp add: zone_path_def path_def)
  have "pieces ?p = [''zones'', z, ''settings'', ''..'', ''..'', victim, ''settings'', k]"
    unfolding p using assms(3-5) by (intro pieces_path) (auto simp: one_piece_def)
  moreover have "one_piece ''zones''" "one_piece ''settings''" by (simp_all add: one_piece_def)
  note o = this
  have "resolve [''zones'', z, ''settings'', ''..'', ''..'', victim, ''settings'', k] =
      resolve [''zones'', z, ''..'', victim, ''settings'', k]"
    using assms(1) [OF o(2), of "[''zones'', z]" "[''..'', victim, ''settings'', k]"] by simp
  moreover have "\<dots> = resolve [''zones'', victim, ''settings'', k]"
    using assms(1) [OF assms(3), of "[''zones'']" "[victim, ''settings'', k]"] by simp
  moreover have "\<dots> = [''zones'', victim, ''settings'', k]" using assms(2,4,5) o by simp
  ultimately have "path (resolve (pieces ?p)) = path [''zones'', victim, ''settings'', k]" by simp
  also have "\<dots> = zone_path victim (''/settings/'' @ k)" by (simp add: path_def zone_path_def)
  finally show ?thesis using sent by (intro exI [of _ ?rq] exI [of _ ?p]) (simp add: cloudflare_rq_def)
qed

section \<open>Witnesses\<close>

text \<open>An empty answer with status 200 to everything, and two zones, one of them mapped to the tenant.\<close>

definition demo_cloudflare :: cloudflare_env where
  "demo_cloudflare = \<lparr>kv_provider = \<lparr>pd_attempt = \<lambda>_ _. Answer \<lparr>hr_status = 200, hr_text = [], hr_retry_after = None\<rparr>,
       pd_parse = \<lambda>_. None, pd_clock = \<lambda>h. int (length h)\<rparr>,
     kv_token = ''t'', kv_ttl = 60, kv_flag = \<lambda>_. Inr None, kv_day = \<lambda>_. ''2026-01-01''\<rparr>"

definition demo_dns_env :: dns_env where
  "demo_dns_env = \<lparr>df_client = demo_cloudflare, df_query = ''q''\<rparr>"

definition demo_zone_db :: db where
  "demo_zone_db = demo_accounts\<lparr>db_resources := [\<lparr>rs_tenant = ''hq'', rs_provider = PROVIDER_CLOUDFLARE,
     rs_type = RESOURCE_TYPE_DNS_ZONE, rs_ext = ''z1'', rs_display = [], rs_cpu = None, rs_mem = None, rs_disk = None\<rparr>]\<rparr>"

definition demo_dns_world :: dns_world where
  "demo_dns_world = \<lparr>dw_db = demo_zone_db, dw_cf = \<lparr>pw_sent = [], pw_cache = []\<rparr>\<rparr>"

definition demo_dns_gate :: "dns_world gate" where
  "demo_dns_gate = \<lparr>gt_api = demo_api\<lparr>aw_db := demo_zone_db\<rparr>, gt_svc = demo_dns_world\<rparr>"

abbreviation demo_root :: admin_user where
  "demo_root \<equiv> new_admin ''root'' ''hq'' ''r@x.y'' ''R'' ''p'' ROLE_OWNER 0"

lemma demo_zone_access:
  "is_resource_accessible (aw_db (gt_api demo_dns_gate)) (Some (ad_tenant demo_root)) PROVIDER_CLOUDFLARE RESOURCE_TYPE_DNS_ZONE ''z1''"
  by code_simp


lemma listing_after_write_is_fresh_witness:
  "\<exists>w1. pw_sent (snd (list_dns_records demo_cloudflare ''z1'' False w1)) =
     pw_sent w1 @ [cloudflare_rq demo_cloudflare ''GET'' (zone_path ''z1'' ''/dns_records'') [(''per_page'', ''100'')] None]"
proof -
  let ?e = "\<lparr>df_client = demo_cloudflare, df_query = ''q''\<rparr>"
  let ?w = "\<lparr>pw_sent = [], pw_cache = []\<rparr> :: cloudflare_cached pworld"
  let ?q = "run_call ?e (DeleteDnsRecord ''z1'' ''r'') ?w"
  have "\<not> isl (fst ?q)" by code_simp
  then obtain a where a: "?q = (Inr a, snd ?q)" by (metis Inr_of_not_isl prod.collapse)
  have c: "cloudflare_configured demo_cloudflare" by code_simp
  have l: "list_dns_records demo_cloudflare ''z1'' False (snd ?q) =
      (fst (list_dns_records demo_cloudflare ''z1'' False (snd ?q)), snd (list_dns_records demo_cloudflare ''z1'' False (snd ?q)))"
    by simp
  from listing_after_write_is_fresh [OF c _ _ a l] show ?thesis by blast
qed

lemma analytics_add_up_witness:
  "\<exists>x. normalize_analytics (JObj [(''data'', JObj [(''viewer'', JObj [(''zones'', JList [JObj [(''httpRequests1dGroups'', JList
       [JObj [(''sum'', JObj [(''requests'', JInt 3)])], JObj [(''sum'', JObj [(''requests'', JInt 4)])]])]])])])]) ''a'' ''b'' = Inr x \<and>
     map zp_requests (za_points x) = [3, 4] \<and> zt_requests (za_totals x) = 7"
proof -
  let ?p = "JObj [(''data'', JObj [(''viewer'', JObj [(''zones'', JList [JObj [(''httpRequests1dGroups'', JList
       [JObj [(''sum'', JObj [(''requests'', JInt 3)])], JObj [(''sum'', JObj [(''requests'', JInt 4)])]])]])])])]"
  have "map_sum id (\<lambda>x. map zp_requests (za_points x)) (normalize_analytics ?p ''a'' ''b'') = Inr [3, 4]" by code_simp
  then obtain x where x: "normalize_analytics ?p ''a'' ''b'' = Inr x" "map zp_requests (za_points x) = [3, 4]"
    by (auto simp: map_sum_Inr)
  from analytics_add_up [OF x(1)] x show ?thesis by simp
qed

lemma unconfigured_dns_reports_success_witness:
  "\<exists>g'. api_create_dns_record (demo_dns_env\<lparr>df_client := demo_cloudflare\<lparr>kv_token := []\<rparr>\<rparr>) demo_root ''z1'' ''A'' ''www'' ''1.2.3.4'' 1 False None
     demo_dns_gate = (Inr (acted ''DNS record created.''), g')"
proof -
  have "\<not> cloudflare_configured (df_client (demo_dns_env\<lparr>df_client := demo_cloudflare\<lparr>kv_token := []\<rparr>\<rparr>))" by code_simp
  from unconfigured_dns_reports_success [OF this demo_zone_access] show ?thesis by blast
qed

lemma zone_setting_reaches_other_zone_witness:
  "\<not> is_resource_accessible (aw_db (gt_api demo_dns_gate)) (Some (ad_tenant demo_root)) PROVIDER_CLOUDFLARE RESOURCE_TYPE_DNS_ZONE ''z2'' \<and>
   (\<exists>rq p. pw_sent (dw_cf (gt_svc (snd (api_update_zone_setting demo_dns_env demo_root ''z1'' ''../../z2/settings/ssl'' ''off'' demo_dns_gate)))) =
      [rq] \<and> pq_url rq = CLOUDFLARE_API @ p \<and> path (remove_dots (pieces p)) = zone_path ''z2'' ''/settings/ssl'')"
proof
  show "\<not> is_resource_accessible (aw_db (gt_api demo_dns_gate)) (Some (ad_tenant demo_root)) PROVIDER_CLOUDFLARE RESOURCE_TYPE_DNS_ZONE ''z2''"
    by code_simp
  have p: "one_piece ''z1''" "one_piece ''z2''" "one_piece ''ssl''" by (simp_all add: one_piece_def)
  have c: "cloudflare_configured (df_client demo_dns_env)" by code_simp
  have "pw_sent (dw_cf (gt_svc demo_dns_gate)) = []" by (simp add: demo_dns_gate_def demo_dns_world_def)
  with zone_setting_reaches_other_zone [of remove_dots, OF remove_dots_laws p c demo_zone_access, of "''off''"]
  show "\<exists>rq p. pw_sent (dw_cf (gt_svc (snd (api_update_zone_setting demo_dns_env demo_root ''z1'' ''../../z2/settings/ssl'' ''off'' demo_dns_gate)))) =
      [rq] \<and> pq_url rq = CLOUDFLARE_API @ p \<and> path (remove_dots (pieces p)) = zone_path ''z2'' ''/settings/ssl''" by auto
qed

end
