(* ===== verification/Spec2Isabelle.thy ===== *)
theory Spec2Isabelle
  imports Cron Resources Login Team Billing Hooks LogStream MailSafety SiteSafety AdmissionSafety OidcSafety SelfSafety BackofficeSafety DiagnosisSafety AppsSafety Cloud ProjectSafety ClientSafety McpSafety EngineSafety DnsSafety
begin

text \<open>
  Verification library of Tetra Host, a multi-tenant control plane: a FastAPI application
  (\<^verbatim>\<open>src/app\<close>) through which the tenants of a platform deploy apps, run mail, DNS and databases and
  buy resold services, and the two programs that drive its API, a command-line client and a
  server for AI agents (\<^verbatim>\<open>src/tetra_cli\<close>).

  \<^bold>\<open>How the parts interact.\<close> A request of the API (\<^verbatim>\<open>app/api/routes.py\<close>) or of the panel
  (\<^verbatim>\<open>app/modules/*/routes.py\<close>) passes a guard that finds the administrator behind a session or a
  token, is checked against its contract (\<^verbatim>\<open>app/api/contracts.py\<close>), and calls a service
  (\<^verbatim>\<open>app/modules/*/service.py\<close>) for the administrator's tenant. A service checks that the resource it
  is asked about is mapped to the tenant (\<^verbatim>\<open>app/services/tenant_resources.py\<close>) and works on the
  database, on a provider (Coolify, Mailcow, Cloudflare, Hetzner, OpenRouter) or, by running
  commands, on the Docker engine. Builds run as background tasks with database sessions of their
  own; a scheduler fires jobs and probes monitors.

  \<^bold>\<open>Conventions.\<close> The database is the record \<open>db\<close> (theory \<open>Models\<close>), one field per table of
  \<^verbatim>\<open>app/models\<close>. An operation that only reads and writes rows is a function on \<open>db\<close> with a result
  of type \<open>exn + 'a\<close>, one constructor of \<open>exn\<close> per exception class (theory \<open>Prelude\<close>). An
  operation with other effects is an action \<open>('s, 'a) sx\<close> (theory \<open>Effects\<close>), which keeps the
  effects that came before an exception. Definitions have the names of the source, where those
  are free, and error messages are the source's; characters above U+00FF in them (dashes, ticks,
  ellipses, bullets) are written in ASCII. Ids, random values and clock readings are arguments.
  What answers from outside (HTTP servers, the process runner, YAML, JSON, HMAC, SHA-256,
  Fernet, the signer of sessions, DNS) is a parameter, and an answer may depend on everything that was asked before.
  Python's floats are rationals where the code computes with them.

  \<^bold>\<open>Theories.\<close>

  \<^item> Foundations: \<open>Prelude\<close> (strings, lists, exceptions, \<open>named_theorems\<close>), \<open>Models\<close> (tables and
    settings), \<open>Effects\<close> (actions, \<open>wp\<close>, invariants of actions), \<open>Provider\<close> (JSON values with
    Python's coercions, requests through \<^verbatim>\<open>services/http.py\<close> and the cache).
  \<^item> In-process stores and edges: \<open>Cache\<close> (\<^verbatim>\<open>cache.py\<close>, \<^verbatim>\<open>rate_limit.py\<close>), \<open>Http\<close>
    (\<^verbatim>\<open>services/http.py\<close>, \<^verbatim>\<open>csrf.py\<close>, \<^verbatim>\<open>services/github_webhook.py\<close>).
  \<^item> Identity: \<open>Totp\<close>, \<open>Auth\<close>, \<open>Login\<close>, \<open>Team\<close>, \<open>Admission\<close> with \<open>AdmissionSafety\<close>, \<open>Oidc\<close> with
    \<open>OidcSafety\<close>, \<open>Sso\<close> with \<open>SsoSafety\<close>.
  \<^item> Plans and money: \<open>Quota\<close> (\<^verbatim>\<open>services/quota.py\<close>, \<^verbatim>\<open>modules/plans\<close>), \<open>Billing\<close>
    (\<^verbatim>\<open>modules/billing\<close>, \<^verbatim>\<open>modules/reseller\<close>), \<open>Backoffice\<close> with \<open>BackofficeSafety\<close>.
  \<^item> Jobs and monitoring: \<open>Cron\<close>, \<open>Monitoring\<close>.
  \<^item> The engine: \<open>Engine\<close> (\<^verbatim>\<open>services/docker_engine.py\<close>, \<^verbatim>\<open>builder.py\<close>, \<^verbatim>\<open>registry.py\<close>), \<open>Compose\<close>
    (\<^verbatim>\<open>services/limits.py\<close>, \<^verbatim>\<open>edge.py\<close>), \<open>Domains\<close>, \<open>Deploys\<close>, \<open>DeployTask\<close>, \<open>LogStream\<close> (all of
    \<^verbatim>\<open>modules/deploys/service.py\<close>), \<open>Hooks\<close>, \<open>Diagnosis\<close> with \<open>DiagnosisSafety\<close>, \<open>Apps\<close> with
    \<open>AppsSafety\<close>.
  \<^item> Providers: \<open>Resources\<close> (the tenant filter and \<^verbatim>\<open>modules/dns/service.py\<close>),
    \<open>Cloudflare\<close> (\<^verbatim>\<open>services/cloudflare.py\<close>), \<open>Mailcow\<close>, \<open>Mail\<close>
    with \<open>MailSafety\<close>, \<open>Coolify\<close>, \<open>CoolifyClient\<close>, \<open>Sites\<close> (\<^verbatim>\<open>modules/projects\<close>, \<^verbatim>\<open>databases\<close>,
    \<^verbatim>\<open>servers\<close>) with \<open>SiteSafety\<close>, \<open>Cloud\<close> (\<^verbatim>\<open>services/r2.py\<close>, \<^verbatim>\<open>hetzner.py\<close>, \<^verbatim>\<open>openrouter.py\<close>).
  \<^item> The API around them: \<open>SelfService\<close> with \<open>SelfSafety\<close>, \<open>Gateway\<close> (guard, payload, handler,
    session), \<open>ProjectRoutes\<close> with \<open>ProjectSafety\<close>, \<open>EngineRoutes\<close> with \<open>EngineSafety\<close>,
    \<open>DnsRoutes\<close> with \<open>DnsSafety\<close> (the DNS service over the real client and its routes), \<open>Router\<close>
    (the route table).
  \<^item> The clients: \<open>Client\<close> (\<^verbatim>\<open>tetra_cli/client.py\<close>) with \<open>ClientSafety\<close>, \<open>Mcp\<close>
    (\<^verbatim>\<open>tetra_cli/mcp.py\<close>) with \<open>McpSafety\<close>.

  \<^bold>\<open>Interfaces.\<close> \<open>slot_pool\<close> (\<open>Quota\<close>) is what an installer relies on, \<open>access_guard\<close> (\<open>Resources\<close>)
  what a guarded operation does, \<open>expiring_store\<close> (\<open>Cache\<close>) what users of the cache see, with the
  refinement of a map with expiry times, \<open>task_view\<close> (\<open>DeployTask\<close>) what a background task keeps
  whatever other requests do between its sessions, and \<open>session_store\<close> (\<open>Gateway\<close>) what lets a
  service work on the database of a request. Each is interpreted on the definitions of its
  providers.

  \<^bold>\<open>What the lemmas show.\<close> The properties are numbered C1 to C40 where they are stated, in the
  order of their importance. Isolation: what a tenant asks changes rows, and reaches providers,
  only where they are its own (\<open>EngineSafety\<close>, \<open>ProjectSafety\<close>, \<open>SelfSafety\<close>, \<open>MailSafety\<close>,
  \<open>Resources\<close>), secret values do not come back, and agents change nothing without two consents
  (\<open>McpSafety\<close>). Bounds: quotas, rate limits, sign-up caps, image retention, and resource caps of
  every container. Identity: who gets a session, a token or an account, and what is spent once.
  Accounting: the wallet equals its ledger, and a gateway call is billed exactly. Progress: every
  deployment task finishes, streams end with the whole log, well-formed input of agents is
  answered. Interplay of the programs: what the client asks is what the API serves. Where the
  code falls short of its documentation or of what it means to do, a theorem states the
  behaviour as it is, and the text in front of it says so.

  \<^bold>\<open>Bounds and fuel.\<close> The loops of the code are structural recursion where a list or a counter
  bounds them. \<open>send_from\<close> counts the attempts left; \<open>wait_action\<close> and the live log of Coolify
  count polls: the latter ends after 600 of them, as 900 seconds at 1.5 seconds a poll allow no
  more. The engine's log stream may not end when its interval is not positive, so it is a
  \<open>partial_function (option)\<close>, and that it ends otherwise is a theorem. No result depends on fuel
  that could run out.

  \<^bold>\<open>Not modelled.\<close> The HTML of the panel and its templates, form handlers that only call a
  modelled service and redirect; the argument parser and the printing of the command-line client
  (\<^verbatim>\<open>tetra_cli/cli.py\<close>, \<^verbatim>\<open>config.py\<close>); settings and start-up (\<^verbatim>\<open>config.py\<close>, \<^verbatim>\<open>main.py\<close>, \<^verbatim>\<open>plugins\<close>);
  the engine and migrations of the database (\<^verbatim>\<open>db/session.py\<close>); the read-only GraphQL schema; the
  analytics and error-tracking clients (\<^verbatim>\<open>services/umami.py\<close>, \<^verbatim>\<open>glitchtip.py\<close>); key files of the OpenID provider; logging and metrics; and the routes of mail, storage,
  servers and the resellers, which put the modelled services behind the same guard. Concurrency
  is modelled where the code itself interleaves: between the sessions of a background task.
\<close>

end
